(* ===== verification/HF_Prelude.thy ===== *)
theory HF_Prelude
  imports Main "HOL-Library.Sublist"
begin

section \<open>Prelude: errors, JavaScript values, tables\<close>

text \<open>
  What every component shares: the errors the gateway throws (utils/errorHandler.js and the
  host's own error classes), the JavaScript notions the sources rely on (truthiness, string
  case conversion, trimming), and list tables with the queries the repositories issue.
  A handler is a function from the state to a result and a state; the state of a failing
  handler is the state at the point of the throw, so effects before a throw stay visible.
\<close>

named_theorems handler_defs "definitions of the request handlers"
named_theorems repo_defs "definitions of the repository functions"

subsection \<open>Errors and results\<close>

text \<open>
  \<open>ApiError status message code\<close> is the class of utils/errorHandler.js.
  \<open>PrismaError\<close> carries Prisma's code (P2002 unique constraint, P2003 foreign key, P2025
  record not found). The other constructors are the host's error classes.
\<close>

datatype js_error =
    ApiError int string string
  | PrismaError string
  | RequestAbortedError string
  | ConfigError string
  | JsTypeError string
  | JsReferenceError string
  | JsError string

type_synonym 'a result = "js_error + 'a"
type_synonym ('s, 'a) handler = "'s \<Rightarrow> 'a result \<times> 's"
type_synonym time = int

abbreviation throw :: "js_error \<Rightarrow> 's \<Rightarrow> 'a result \<times> 's" where
  "throw e s \<equiv> (Inl e, s)"

abbreviation return :: "'a \<Rightarrow> 's \<Rightarrow> 'a result \<times> 's" where
  "return x s \<equiv> (Inr x, s)"

lemma run_ok: "\<not> isl (fst r) \<Longrightarrow> r = (Inr (projr (fst r)), snd r)"
  by (cases r; cases "fst r") auto

lemma return_eqD: "(Inr x, s) = (Inr y, s') \<Longrightarrow> y = x \<and> s' = s"
  by simp

subsection \<open>Truthiness\<close>

text \<open>
  A value that may be undefined or null is an option; the empty string is falsy too.
\<close>

definition truthy :: "string option \<Rightarrow> bool" where
  "truthy x = (case x of None \<Rightarrow> False | Some v \<Rightarrow> v \<noteq> [])"

lemma truthy_simps [simp]:
  "truthy None = False"
  "truthy (Some v) = (v \<noteq> [])"
  by (simp_all add: truthy_def)

lemma truthyD: "truthy x \<Longrightarrow> \<exists>v. x = Some v \<and> v \<noteq> []"
  by (cases x) auto

subsection \<open>Strings\<close>

text \<open>
  Strings are lists of bytes; the case conversions act on the ASCII letters and trimming
  removes the ASCII white space of ECMAScript (tab, line feed, vertical tab, form feed,
  carriage return, space) and the no-break space.
\<close>

definition upper_char :: "char \<Rightarrow> char" where
  "upper_char c = (let n = of_char c :: nat in if 97 \<le> n \<and> n \<le> 122 then char_of (n - 32) else c)"

definition lower_char :: "char \<Rightarrow> char" where
  "lower_char c = (let n = of_char c :: nat in if 65 \<le> n \<and> n \<le> 90 then char_of (n + 32) else c)"

definition toUpperCase :: "string \<Rightarrow> string" where
  "toUpperCase s = List.map upper_char s"

definition toLowerCase :: "string \<Rightarrow> string" where
  "toLowerCase s = List.map lower_char s"

definition is_space :: "char \<Rightarrow> bool" where
  "is_space c = (let n = of_char c :: nat in (9 \<le> n \<and> n \<le> 13) \<or> n = 32 \<or> n = 160)"

definition js_trim :: "string \<Rightarrow> string" where
  "js_trim s = rev (dropWhile is_space (rev (dropWhile is_space s)))"

text \<open>\<open>text.includes(word)\<close>: the word occurs as a contiguous part of the text.\<close>

fun js_includes :: "string \<Rightarrow> string \<Rightarrow> bool" where
  "js_includes [] w = (w = [])"
| "js_includes (c # cs) w = (prefix w (c # cs) \<or> js_includes cs w)"

fun join_with :: "string \<Rightarrow> string list \<Rightarrow> string" where
  "join_with sep [] = []"
| "join_with sep [x] = x"
| "join_with sep (x # y # zs) = x @ sep @ join_with sep (y # zs)"

definition digit_value :: "char \<Rightarrow> nat option" where
  "digit_value c = (let n = of_char c :: nat in if 48 \<le> n \<and> n \<le> 57 then Some (n - 48) else None)"

text \<open>\<open>parseInt\<close> of a string of decimal digits (\<open>None\<close>: some character is no digit).\<close>

definition parse_digits :: "string \<Rightarrow> int option" where
  "parse_digits ds =
     (if ds = [] \<or> (\<exists>d\<in>set ds. digit_value d = None) then None
      else Some (foldl (\<lambda>acc d. 10 * acc + int (the (digit_value d))) 0 ds))"

lemma upper_char_idem [simp]: "upper_char (upper_char c) = upper_char c"
proof (cases "97 \<le> (of_char c :: nat) \<and> (of_char c :: nat) \<le> 122")
  case True
  then have "(of_char c - 32) mod 256 = (of_char c - 32 :: nat)"
    by (intro mod_less) linarith
  moreover have "\<not> 97 \<le> (of_char c - 32 :: nat)" using True by linarith
  ultimately show ?thesis using True by (simp add: upper_char_def Let_def)
next
  case False
  then show ?thesis by (auto simp: upper_char_def Let_def)
qed

lemma toUpperCase_idem [simp]: "toUpperCase (toUpperCase s) = toUpperCase s"
  by (simp add: toUpperCase_def)

lemma js_trim_last: "js_trim s \<noteq> [] \<Longrightarrow> \<not> is_space (last (js_trim s))"
proof -
  let ?d = "dropWhile is_space (rev (dropWhile is_space s))"
  assume "js_trim s \<noteq> []"
  then have ne: "?d \<noteq> []" by (simp add: js_trim_def)
  then have "\<not> is_space (hd ?d)" by (rule hd_dropWhile)
  then show ?thesis using ne by (simp add: js_trim_def last_rev)
qed

lemma js_trim_hd: "js_trim s \<noteq> [] \<Longrightarrow> \<not> is_space (hd (js_trim s))"
proof -
  let ?t = "dropWhile is_space s"
  assume ne: "js_trim s \<noteq> []"
  have "suffix (dropWhile is_space (rev ?t)) (rev ?t)" by (rule suffix_dropWhile)
  then have "prefix (js_trim s) ?t" by (simp add: js_trim_def suffix_to_prefix)
  then obtain zs where t: "?t = js_trim s @ zs" by (auto simp: prefix_def)
  then have "?t \<noteq> []" using ne by simp
  then have "\<not> is_space (hd ?t)" by (rule hd_dropWhile)
  then show ?thesis using ne t by simp
qed

subsection \<open>List tables\<close>

text \<open>
  A table is the list of its rows in order of creation. \<open>find_unique\<close>, \<open>find_many\<close>,
  \<open>update_rows\<close> and \<open>delete_rows\<close> are the queries of the repositories, with the
  \<open>where\<close> clause as a predicate on rows.
\<close>

definition find_unique :: "('r \<Rightarrow> bool) \<Rightarrow> 'r list \<Rightarrow> 'r option" where
  "find_unique p t = List.find p t"

definition find_many :: "('r \<Rightarrow> bool) \<Rightarrow> 'r list \<Rightarrow> 'r list" where
  "find_many p t = List.filter p t"

definition update_rows :: "('r \<Rightarrow> bool) \<Rightarrow> ('r \<Rightarrow> 'r) \<Rightarrow> 'r list \<Rightarrow> 'r list" where
  "update_rows p f t = List.map (\<lambda>r. if p r then f r else r) t"

definition delete_rows :: "('r \<Rightarrow> bool) \<Rightarrow> 'r list \<Rightarrow> 'r list" where
  "delete_rows p t = List.filter (\<lambda>r. \<not> p r) t"

lemma find_unique_SomeD: "find_unique p t = Some r \<Longrightarrow> r \<in> set t \<and> p r"
  by (auto simp: find_unique_def find_Some_iff in_set_conv_nth)

lemma find_unique_NoneD: "find_unique p t = None \<Longrightarrow> r \<in> set t \<Longrightarrow> \<not> p r"
  by (auto simp: find_unique_def find_None_iff)

lemma find_unique_None_iff: "find_unique p t = None \<longleftrightarrow> (\<forall>r\<in>set t. \<not> p r)"
  by (auto simp: find_unique_def find_None_iff)

lemma find_unique_exists: "r \<in> set t \<Longrightarrow> p r \<Longrightarrow> \<exists>r'. find_unique p t = Some r'"
  by (cases "find_unique p t") (auto dest: find_unique_NoneD)

lemma find_unique_Nil [simp]: "find_unique p [] = None"
  by (simp add: find_unique_def)

lemma find_unique_Cons [simp]:
  "find_unique p (x # xs) = (if p x then Some x else find_unique p xs)"
  by (simp add: find_unique_def)

lemma find_unique_append:
  "find_unique p (xs @ ys) = (case find_unique p xs of Some r \<Rightarrow> Some r | None \<Rightarrow> find_unique p ys)"
  by (induction xs) auto

lemma set_find_many [simp]: "r \<in> set (find_many p t) \<longleftrightarrow> r \<in> set t \<and> p r"
  by (auto simp: find_many_def)

lemma set_delete_rows [simp]: "r \<in> set (delete_rows p t) \<longleftrightarrow> r \<in> set t \<and> \<not> p r"
  by (auto simp: delete_rows_def)

lemma set_update_rows: "set (update_rows p f t) = (\<lambda>r. if p r then f r else r) ` set t"
  by (simp add: update_rows_def)

lemma update_rowsE:
  assumes "r' \<in> set (update_rows p f t)"
  obtains r where "r \<in> set t" "r' = (if p r then f r else r)"
  using assms by (auto simp: set_update_rows)

lemma filter_update_rows:
  assumes "\<And>r. p r \<Longrightarrow> \<not> q r \<and> \<not> q (f r)"
  shows "List.filter q (update_rows p f rs) = List.filter q rs"
  using assms by (induction rs) (auto simp: update_rows_def)

lemma length_update_rows [simp]: "length (update_rows p f t) = length t"
  by (simp add: update_rows_def)

lemma map_key_update_rows:
  "(\<And>r. p r \<Longrightarrow> key (f r) = key r) \<Longrightarrow> List.map key (update_rows p f t) = List.map key t"
  by (induction t) (auto simp: update_rows_def)

lemma find_unique_update_key:
  assumes "\<And>r. p r \<Longrightarrow> q (f r) = q r"
  shows "find_unique q (update_rows p f t) =
    map_option (\<lambda>r. if p r then f r else r) (find_unique q t)"
  using assms by (induction t) (auto simp: update_rows_def)

text \<open>A table with a key column: the contract the repositories rely on for its rows.\<close>

locale keyed_table =
  fixes key :: "'r \<Rightarrow> 'k"
    and rows :: "'t \<Rightarrow> 'r list"
    and insert_row :: "'r \<Rightarrow> 't \<Rightarrow> 't"
  assumes rows_insert: "rows (insert_row r t) = rows t @ [r]"
begin

definition key_unique :: "'t \<Rightarrow> bool" where
  "key_unique t = distinct (List.map key (rows t))"

definition lookup :: "'k \<Rightarrow> 't \<Rightarrow> 'r option" where
  "lookup k t = find_unique (\<lambda>r. key r = k) (rows t)"

lemma lookup_key: "lookup k t = Some r \<Longrightarrow> key r = k"
  unfolding lookup_def by (drule find_unique_SomeD) simp

lemma lookup_unique: "key_unique t \<Longrightarrow> r \<in> set (rows t) \<Longrightarrow> lookup (key r) t = Some r"
  unfolding key_unique_def lookup_def
  by (induction "rows t" arbitrary: t) (auto simp: find_unique_def find_Some_iff distinct_conv_nth in_set_conv_nth)

lemma insert_key_unique:
  "key_unique t \<Longrightarrow> lookup (key r) t = None \<Longrightarrow> key_unique (insert_row r t)"
  by (auto simp: key_unique_def lookup_def rows_insert find_unique_None_iff)

lemma lookup_insert_same: "lookup (key r) t = None \<Longrightarrow> lookup (key r) (insert_row r t) = Some r"
  by (simp add: lookup_def rows_insert find_unique_append)

lemma lookup_insert_other: "k \<noteq> key r \<Longrightarrow> lookup k (insert_row r t) = lookup k t"
  by (simp add: lookup_def rows_insert find_unique_append split: option.splits)

end

subsection \<open>Error handler (utils/errorHandler.js)\<close>

text \<open>
  The final Express middleware: what the client sees of an error. \<open>aborted\<close> is
  \<open>req.signal?.aborted\<close>, \<open>headersSent\<close> is \<open>res.headersSent\<close>; \<open>None\<close> is "no
  response is sent".
\<close>

datatype http_body =
    EmptyBody
  | ErrorBody string "string option"

type_synonym http_response = "int \<times> http_body"

definition errorHandler :: "bool \<Rightarrow> bool \<Rightarrow> js_error \<Rightarrow> http_response option" where
  "errorHandler aborted headersSent err =
     (if (case err of RequestAbortedError _ \<Rightarrow> True | _ \<Rightarrow> False) \<or> aborted
      then (if \<not> headersSent then Some (499, EmptyBody) else None)
      else (case err of
              ApiError status message code \<Rightarrow>
                Some (status, ErrorBody message (if code \<noteq> [] then Some code else None))
            | _ \<Rightarrow> Some (500, ErrorBody ''Internal server error'' (Some ''INTERNAL_ERROR''))))"

lemma errorHandler_hides_internal:
  "\<not> aborted \<Longrightarrow> (\<And>st m c. e \<noteq> ApiError st m c) \<Longrightarrow> (\<And>r. e \<noteq> RequestAbortedError r) \<Longrightarrow>
    errorHandler aborted h e = Some (500, ErrorBody ''Internal server error'' (Some ''INTERNAL_ERROR''))"
  by (cases e) (auto simp: errorHandler_def)

end
