(* ===== verification/HF_Data.thy ===== *)
theory HF_Data
  imports HF_Prelude
begin

section \<open>Data model: the tables of prisma/schema.prisma and the gateway state\<close>

text \<open>
  One record per model of the schema, with the columns the gateway's own code reads or writes,
  and one datatype per enum. A nullable column is an option, a DateTime is a time in
  milliseconds since the epoch. The role-permission join table is kept as the list of
  permission names of a role, in order of creation. The record \<open>gateway\<close> is the state every
  handler works on: the tables, the Redis caches (empty and inert when \<open>redisUp\<close> is false)
  and the events emitted on the event bus and not yet delivered.
\<close>

subsection \<open>Enums\<close>

datatype ticket_status = OPEN | IN_PROGRESS | RESOLVED | CLOSED
datatype priority = LOW | MEDIUM | HIGH | URGENT
datatype ticket_source = WEB | EMAIL | CHAT | API
datatype author_type = USER | AI | SYSTEM

datatype activity_action =
    TICKET_CREATED | TICKET_UPDATED | TICKET_ASSIGNED | TICKET_STATUS_UPDATED
  | COMMENT_ADDED | COMMENT_DELETED | ATTACHMENT_ADDED | ATTACHMENT_DELETED
  | TAG_ADDED | TAG_REMOVED

text \<open>The enums are ordered as PostgreSQL orders them: by position in the declaration.\<close>

fun priority_rank :: "priority \<Rightarrow> nat" where
  "priority_rank LOW = 0"
| "priority_rank MEDIUM = 1"
| "priority_rank HIGH = 2"
| "priority_rank URGENT = 3"

lemma priority_rank_inj: "priority_rank a = priority_rank b \<Longrightarrow> a = b"
  by (cases a; cases b) simp_all

instantiation priority :: linorder
begin

definition less_eq_priority :: "priority \<Rightarrow> priority \<Rightarrow> bool" where
  "less_eq_priority a b = (priority_rank a \<le> priority_rank b)"

definition less_priority :: "priority \<Rightarrow> priority \<Rightarrow> bool" where
  "less_priority a b = (priority_rank a < priority_rank b)"

instance
  by standard (auto simp: less_eq_priority_def less_priority_def intro: priority_rank_inj)

end

subsection \<open>Rows\<close>

record user =
  u_id :: string
  u_email :: string
  u_password :: string
  u_name :: "string option"
  u_createdAt :: time
  u_tokenIssuedAt :: "time option"
  u_isDeleted :: bool

record refresh_token =
  rt_token :: string
  rt_userId :: string
  rt_expiresAt :: time

record organization =
  o_id :: string
  o_name :: string
  o_createdAt :: time

record org_role =
  r_id :: string
  r_organizationId :: string
  r_name :: string
  r_level :: int
  r_isSystem :: bool
  r_rolePermissions :: "string list"

record membership =
  m_id :: string
  m_userId :: string
  m_organizationId :: string
  m_roleId :: string
  m_isAvailable :: bool
  m_maxTicketsPerDay :: "int option"
  m_maxTicketsPerWeek :: "int option"
  m_createdAt :: time

record ticket =
  t_id :: string
  t_title :: string
  t_description :: "string option"
  t_status :: ticket_status
  t_priority :: priority
  t_source :: ticket_source
  t_organizationId :: string
  t_createdById :: string
  t_assignedToId :: "string option"
  t_aiActive :: bool
  t_aiMessageCount :: int
  t_createdAt :: time

record comment =
  c_id :: string
  c_ticketId :: string
  c_authorId :: "string option"
  c_authorType :: author_type
  c_message :: string
  c_isInternal :: bool
  c_createdAt :: time

record attachment =
  a_id :: string
  a_ticketId :: string
  a_uploadedBy :: string
  a_fileUrl :: string
  a_fileType :: string
  a_fileSize :: int
  a_createdAt :: time

record tag =
  tag_id :: string
  tag_name :: string
  tag_organizationId :: string

record ticket_tag =
  tt_ticketId :: string
  tt_tagId :: string

record activity =
  act_id :: string
  act_ticketId :: string
  act_actorId :: string
  act_action :: activity_action
  act_oldValue :: "string option"
  act_newValue :: "string option"
  act_createdAt :: time

record agent_workload =
  w_userId :: string
  w_organizationId :: string
  w_assignedToday :: int
  w_assignedThisWeek :: int
  w_lastDailyReset :: time
  w_lastWeeklyReset :: time

subsection \<open>Views: rows with their included relations\<close>

text \<open>
  \<open>role_view\<close> is a role after \<open>normalizeRolePermissions\<close>; a membership is read with its role
  and, by some queries, with its organization or user. A relation that a query
  does not include is undefined, \<open>None\<close>.
\<close>

record role_view =
  rv_id :: string
  rv_organizationId :: string
  rv_name :: string
  rv_level :: int
  rv_isSystem :: bool
  rv_permissions :: "string list"

record membership_view = membership +
  mv_role :: "role_view option"
  mv_organization :: "organization option"
  mv_user :: "user option"

record org_view = organization +
  ov_memberships :: "membership_view list option"
  ov_roles :: "role_view list option"

record ticket_view = ticket +
  tv_organization :: "organization option"
  tv_comments :: "comment list option"
  tv_attachments :: "attachment list option"
  tv_tags :: "tag list option"
  tv_activities :: "activity list"
  tv_createdBy :: "user option"
  tv_assignedTo :: "user option"

subsection \<open>Events\<close>

text \<open>
  An event has the bus name, the top-level string fields of its payload and the entries of
  \<open>payload.metadata\<close>; a missing key is undefined.
\<close>

record event =
  e_name :: string
  e_fields :: "(string \<times> string) list"
  e_metadata :: "(string \<times> string option) list"

definition payload_field :: "event \<Rightarrow> string \<Rightarrow> string option" where
  "payload_field e k = map_of (e_fields e) k"

definition metadata_field :: "event \<Rightarrow> string \<Rightarrow> string option" where
  "metadata_field e k = (case map_of (e_metadata e) k of None \<Rightarrow> None | Some v \<Rightarrow> v)"

subsection \<open>Cached authentication data\<close>

text \<open>
  Values put in Redis go through \<open>JSON.stringify\<close> and come back through \<open>JSON.parse\<close>: a Date
  object comes back as an ISO string.
\<close>

datatype js_date = DateObject time | IsoString time

record public_user =
  pu_id :: string
  pu_email :: string
  pu_name :: "string option"
  pu_createdAt :: js_date
  pu_tokenIssuedAt :: "js_date option"
  pu_isDeleted :: bool

record access_scope =
  as_roleId :: string
  as_roleName :: string
  as_level :: int
  as_permissions :: "string list"

type_synonym permission_snapshot = "(string \<times> access_scope) list"

subsection \<open>The gateway state\<close>

record gateway =
  users :: "user list"
  refreshTokens :: "refresh_token list"
  tokenBlacklist :: "(string \<times> time) list"
  organizations :: "organization list"
  roles :: "org_role list"
  permissions :: "string list"
  memberships :: "membership list"
  tickets :: "ticket list"
  comments :: "comment list"
  attachments :: "attachment list"
  tags :: "tag list"
  ticketTags :: "ticket_tag list"
  activities :: "activity list"
  workloads :: "agent_workload list"
  redisUp :: bool
  membershipCache :: "string \<Rightarrow> membership_view option"
  userCache :: "string \<Rightarrow> public_user option"
  emailCache :: "string \<Rightarrow> string option"
  scopeCache :: "string \<Rightarrow> permission_snapshot option"
  blacklistCache :: "string \<Rightarrow> bool"
  emitted :: "event list"

definition empty_gateway :: gateway where
  "empty_gateway = \<lparr>users = [], refreshTokens = [], tokenBlacklist = [], organizations = [],
     roles = [], permissions = [], memberships = [], tickets = [], comments = [],
     attachments = [], tags = [], ticketTags = [], activities = [], workloads = [],
     redisUp = True, membershipCache = (\<lambda>_. None), userCache = (\<lambda>_. None),
     emailCache = (\<lambda>_. None), scopeCache = (\<lambda>_. None), blacklistCache = (\<lambda>_. False),
     emitted = []\<rparr>"

text \<open>
  \<open>tables s\<close> forgets the caches and the pending events: two states with equal \<open>tables\<close> have
  the same database contents.
\<close>

definition tables :: "gateway \<Rightarrow> gateway" where
  "tables s = s\<lparr>redisUp := True, membershipCache := (\<lambda>_. None), userCache := (\<lambda>_. None),
     emailCache := (\<lambda>_. None), scopeCache := (\<lambda>_. None), blacklistCache := (\<lambda>_. False),
     emitted := []\<rparr>"

lemma tables_cache_updates [simp]:
  "tables (s\<lparr>membershipCache := mc\<rparr>) = tables s"
  "tables (s\<lparr>userCache := uc\<rparr>) = tables s"
  "tables (s\<lparr>emailCache := ec\<rparr>) = tables s"
  "tables (s\<lparr>scopeCache := sc\<rparr>) = tables s"
  "tables (s\<lparr>blacklistCache := bc\<rparr>) = tables s"
  "tables (s\<lparr>emitted := ev\<rparr>) = tables s"
  by (simp_all add: tables_def)

lemma tables_eqD:
  assumes "tables s = tables s'"
  shows "users s = users s'" "organizations s = organizations s'" "roles s = roles s'"
    "memberships s = memberships s'" "tickets s = tickets s'" "comments s = comments s'"
    "attachments s = attachments s'" "tags s = tags s'" "ticketTags s = ticketTags s'"
    "activities s = activities s'" "workloads s = workloads s'" "permissions s = permissions s'"
    "refreshTokens s = refreshTokens s'" "tokenBlacklist s = tokenBlacklist s'"
  using assms by (cases s; cases s'; simp add: tables_def)+

interpretation ticket_table:
  keyed_table t_id tickets "\<lambda>t s. s\<lparr>tickets := tickets s @ [t]\<rparr>"
  by unfold_locales simp

interpretation comment_table:
  keyed_table c_id comments "\<lambda>c s. s\<lparr>comments := comments s @ [c]\<rparr>"
  by unfold_locales simp

interpretation attachment_table:
  keyed_table a_id attachments "\<lambda>a s. s\<lparr>attachments := attachments s @ [a]\<rparr>"
  by unfold_locales simp

interpretation role_table:
  keyed_table r_id roles "\<lambda>r s. s\<lparr>roles := roles s @ [r]\<rparr>"
  by unfold_locales simp

interpretation user_table:
  keyed_table u_id users "\<lambda>u s. s\<lparr>users := users s @ [u]\<rparr>"
  by unfold_locales simp

interpretation membership_table:
  keyed_table "\<lambda>m. (m_userId m, m_organizationId m)" memberships
    "\<lambda>m s. s\<lparr>memberships := memberships s @ [m]\<rparr>"
  by unfold_locales simp

end
