(* ===== verification/AI_Decision.thy ===== *)
theory AI_Decision
  imports Complex_Main HF_Data
begin

section \<open>The decision engine of the AI automation (ai.automation.decision.js)\<close>

text \<open>
  The confidence of a response is a JavaScript number built up by additions of decimal literals,
  so it is modelled as an IEEE double: a double between \<open>-4\<close> and \<open>4\<close> that occurs here is a
  multiple of \<open>2 ^ -58\<close>, and \<open>double\<close> is the integer multiplier. \<open>fl\<close> rounds an exact sum to 53
  significant bits, ties to even, and \<open>lit h\<close> is the double nearest to \<open>h / 100\<close>.
\<close>

subsection \<open>Double arithmetic\<close>

type_synonym double = int

definition quot_even :: "int \<Rightarrow> int \<Rightarrow> int" where
  "quot_even a b =
     (let q = a div b; r = a mod b in if 2 * r < b \<or> (2 * r = b \<and> even q) then q else q + 1)"

function ulp :: "int \<Rightarrow> int" where
  "ulp n = (if \<bar>n\<bar> < 2 ^ 53 then 1 else 2 * ulp (\<bar>n\<bar> div 2))"
  by pat_completeness auto
termination
  by (relation "measure (\<lambda>n. nat \<bar>n\<bar>)") auto

declare ulp.simps [simp del]

definition fl :: "int \<Rightarrow> double" where
  "fl n = quot_even n (ulp n) * ulp n"

definition lit :: "int \<Rightarrow> double" where
  "lit h = (let u = ulp (h * 2 ^ 58 div 100) in quot_even (h * 2 ^ 58) (100 * u) * u)"

definition as_rat :: "double \<Rightarrow> rat" where
  "as_rat c = of_int c / 2 ^ 58"

lemma as_rat_le [simp]: "as_rat a \<le> as_rat b \<longleftrightarrow> a \<le> b"
  by (simp add: as_rat_def divide_le_cancel)

lemma quot_even_error: "0 < b \<Longrightarrow> 2 * \<bar>b * quot_even a b - a\<bar> \<le> b"
proof -
  assume b: "0 < b"
  have a: "a = b * (a div b) + a mod b" by simp
  have "0 \<le> a mod b" "a mod b < b" using b by simp_all
  moreover have "(b * quot_even a b - a = - (a mod b) \<and> 2 * (a mod b) \<le> b) \<or>
      (b * quot_even a b - a = b - a mod b \<and> b \<le> 2 * (a mod b))"
    using a by (auto simp: quot_even_def Let_def algebra_simps)
  ultimately show ?thesis by auto
qed

lemma ulp_pos: "0 < ulp n"
  by (induction n rule: ulp.induct) (subst ulp.simps, auto)

lemma ulp_bound: "ulp n = 1 \<or> ulp n * 2 ^ 52 \<le> \<bar>n\<bar>"
proof (induction n rule: ulp.induct)
  case (1 n)
  show ?case
  proof (cases "\<bar>n\<bar> < 2 ^ 53")
    case True
    then show ?thesis by (subst ulp.simps) simp
  next
    case False
    then have u: "ulp n = 2 * ulp (\<bar>n\<bar> div 2)" by (subst ulp.simps) simp
    from 1 [OF False] show ?thesis
      using False by (auto simp: u)
  qed
qed

lemma fl_error:
  assumes "\<bar>n\<bar> < 2 ^ 60"
  shows "\<bar>fl n - n\<bar> \<le> 128"
proof -
  have "ulp n \<le> 256" using ulp_bound [of n] assms by auto
  moreover have "2 * \<bar>ulp n * quot_even n (ulp n) - n\<bar> \<le> ulp n" by (rule quot_even_error) (rule ulp_pos)
  ultimately show ?thesis by (simp add: fl_def mult.commute)
qed

lemma lit_error:
  assumes "\<bar>h\<bar> \<le> 100"
  shows "\<bar>100 * lit h - h * 2 ^ 58\<bar> \<le> 12800"
proof -
  let ?u = "ulp (h * 2 ^ 58 div 100)"
  have "\<bar>h * 2 ^ 58 div 100\<bar> < 2 ^ 60" using assms by auto
  then have "?u \<le> 256" using ulp_bound [of "h * 2 ^ 58 div 100"] by auto
  moreover have "2 * \<bar>(100 * ?u) * quot_even (h * 2 ^ 58) (100 * ?u) - h * 2 ^ 58\<bar> \<le> 100 * ?u"
    by (rule quot_even_error) (simp add: ulp_pos)
  ultimately show ?thesis by (simp add: lit_def Let_def algebra_simps)
qed

subsection \<open>Rules (ai.automation.constants.js)\<close>

record decision_rules =
  MAX_AI_RESPONSES :: int
  CONFIDENCE_THRESHOLD_AUTO_CLOSE :: rat
  CONFIDENCE_THRESHOLD_SUGGEST :: rat
  CONFIDENCE_THRESHOLD_ASSIGN :: rat
  SMART_ASSIGN_THRESHOLD :: rat
  URGENT_AUTO_ASSIGN :: bool
  HIGH_AUTO_ASSIGN :: bool

definition AI_MAX_MESSAGES_PER_TICKET :: int where
  "AI_MAX_MESSAGES_PER_TICKET = 5"

definition AI_COMMENT_COOLDOWN_MS :: int where
  "AI_COMMENT_COOLDOWN_MS = 30 * 1000"

definition DECISION_RULES :: decision_rules where
  "DECISION_RULES = \<lparr>MAX_AI_RESPONSES = AI_MAX_MESSAGES_PER_TICKET,
     CONFIDENCE_THRESHOLD_AUTO_CLOSE = as_rat (lit 85), CONFIDENCE_THRESHOLD_SUGGEST = as_rat (lit 50),
     CONFIDENCE_THRESHOLD_ASSIGN = 0, SMART_ASSIGN_THRESHOLD = as_rat (lit 65),
     URGENT_AUTO_ASSIGN = True, HIGH_AUTO_ASSIGN = False\<rparr>"

definition UNCERTAINTY_KEYWORDS :: "string list" where
  "UNCERTAINTY_KEYWORDS = [''maybe'', ''probably'', ''not sure'', ''unclear'', ''sorry'', ''i think'',
     ''might be'', ''could be'', ''uncertain'', ''not certain'']"

subsection \<open>Confidence\<close>

record confidence_context =
  responseLength :: int
  hasProblematicKeywords :: bool
  isFollowUp :: bool
  ticketPriority :: priority
  ticketAge :: int
  commentCount :: int
  hasAttachments :: bool
  descriptionLength :: int

text \<open>The adjustments in the order of the code, in hundredths; \<open>None\<close> leaves the score alone.\<close>

definition length_factor :: "confidence_context \<Rightarrow> int option" where
  "length_factor x =
     (if responseLength x > 100 \<and> responseLength x < 500 then Some 15
      else if responseLength x > 500 then Some 5 else None)"

definition keyword_factor :: "confidence_context \<Rightarrow> int option" where
  "keyword_factor x = (if hasProblematicKeywords x then Some (- 20) else None)"

definition follow_up_factor :: "confidence_context \<Rightarrow> int option" where
  "follow_up_factor x = (if isFollowUp x then Some (- 10) else Some 5)"

definition priority_factor :: "confidence_context \<Rightarrow> int option" where
  "priority_factor x =
     (case ticketPriority x of LOW \<Rightarrow> Some 10 | URGENT \<Rightarrow> Some (- 20) | HIGH \<Rightarrow> Some (- 10) | MEDIUM \<Rightarrow> None)"

definition age_factor :: "confidence_context \<Rightarrow> int option" where
  "age_factor x =
     (if ticketAge x \<noteq> 0 \<and> ticketAge x < 3600000 then Some 10
      else if ticketAge x \<noteq> 0 \<and> ticketAge x > 86400000 then Some (- 10) else None)"

definition history_factor :: "confidence_context \<Rightarrow> int option" where
  "history_factor x =
     (if commentCount x \<noteq> 0 \<and> commentCount x > 5 then Some 5
      else if commentCount x \<noteq> 0 \<and> commentCount x = 1 then Some 8 else None)"

definition attachment_factor :: "confidence_context \<Rightarrow> int option" where
  "attachment_factor x = (if hasAttachments x then Some (- 5) else Some 3)"

definition description_factor :: "confidence_context \<Rightarrow> int option" where
  "description_factor x =
     (if descriptionLength x \<noteq> 0 \<and> descriptionLength x > 200 then Some 8 else None)"

definition factors :: "confidence_context \<Rightarrow> int option list" where
  "factors x = [length_factor x, keyword_factor x, follow_up_factor x, priority_factor x, age_factor x,
     history_factor x, attachment_factor x, description_factor x]"

definition adjust :: "double \<Rightarrow> int option \<Rightarrow> double" where
  "adjust score f = (case f of None \<Rightarrow> score | Some h \<Rightarrow> fl (score + lit h))"

definition score :: "confidence_context \<Rightarrow> double" where
  "score x = max 0 (min (lit 100) (foldl adjust (lit 50) (factors x)))"

definition getRecommendation :: "rat \<Rightarrow> string" where
  "getRecommendation c =
     (if c \<ge> CONFIDENCE_THRESHOLD_AUTO_CLOSE DECISION_RULES then ''HIGH_CONFIDENCE_RESOLVE''
      else if c \<ge> SMART_ASSIGN_THRESHOLD DECISION_RULES then ''MODERATE_CONFIDENCE_ASSIGN''
      else if c \<ge> CONFIDENCE_THRESHOLD_SUGGEST DECISION_RULES then ''MEDIUM_CONFIDENCE_SUGGEST''
      else ''LOW_CONFIDENCE_STORE'')"

definition getReasoningDescription :: "confidence_context \<Rightarrow> string" where
  "getReasoningDescription x =
     (let fs = (if responseLength x > 100 \<and> responseLength x < 500 then [''appropriate response length''] else [])
          @ (if hasProblematicKeywords x then [''contains uncertainty keywords''] else [])
          @ (if isFollowUp x then [''complex multi-turn conversation''] else [])
          @ (if ticketPriority x = URGENT then [''urgent priority ticket''] else [])
          @ (if commentCount x > 5 then [''complex issue history''] else []);
        joined = join_with '', '' fs
      in ''Based on: '' @ (if joined = [] then ''baseline analysis'' else joined))"

record confidence_data =
  cd_confidence :: rat
  cd_recommendation :: string
  cd_reasoning :: string

definition calculateConfidence :: "confidence_context \<Rightarrow> confidence_data" where
  "calculateConfidence x =
     (let s = as_rat (score x) in
      \<lparr>cd_confidence = s, cd_recommendation = getRecommendation s, cd_reasoning = getReasoningDescription x\<rparr>)"

subsection \<open>Actions\<close>

datatype action_type = auto_resolve | smart_assign | suggest | store_and_wait

record decision_options =
  do_autoResolveThreshold :: "rat option"
  do_smartAssignThreshold :: "rat option"
  do_suggestThreshold :: "rat option"
  do_enableAutoResolve :: "bool option"
  do_enableSmartAssign :: "bool option"
  do_canAssign :: bool

record ai_action =
  aa_type :: action_type
  aa_confidence :: rat
  aa_shouldAutoResolve :: bool
  aa_shouldSuggest :: bool
  aa_shouldAssign :: bool
  aa_reasoning :: string

definition the_default :: "'a \<Rightarrow> 'a option \<Rightarrow> 'a" where
  "the_default d x = (case x of None \<Rightarrow> d | Some v \<Rightarrow> v)"

definition decideAction :: "rat \<Rightarrow> decision_options \<Rightarrow> ai_action" where
  "decideAction confidence options =
     (let autoResolveThreshold = the_default (CONFIDENCE_THRESHOLD_AUTO_CLOSE DECISION_RULES) (do_autoResolveThreshold options);
          smartAssignThreshold = the_default (SMART_ASSIGN_THRESHOLD DECISION_RULES) (do_smartAssignThreshold options);
          suggestThreshold = the_default (CONFIDENCE_THRESHOLD_SUGGEST DECISION_RULES) (do_suggestThreshold options);
          enableAutoResolve = the_default True (do_enableAutoResolve options);
          enableSmartAssign = the_default True (do_enableSmartAssign options);
          action = \<lparr>aa_type = store_and_wait, aa_confidence = confidence, aa_shouldAutoResolve = False,
            aa_shouldSuggest = False, aa_shouldAssign = False, aa_reasoning = []\<rparr>
      in if enableAutoResolve \<and> confidence \<ge> autoResolveThreshold
         then action\<lparr>aa_type := auto_resolve, aa_shouldAutoResolve := True,
           aa_reasoning := ''High confidence - can auto-resolve ticket''\<rparr>
         else if enableSmartAssign \<and> confidence \<ge> smartAssignThreshold \<and> do_canAssign options
         then action\<lparr>aa_type := smart_assign, aa_shouldAssign := True,
           aa_reasoning := ''Moderate confidence - suggest assignment to available agent''\<rparr>
         else if confidence \<ge> suggestThreshold
         then action\<lparr>aa_type := suggest, aa_shouldSuggest := True,
           aa_reasoning := ''Medium confidence - suggest to user, wait for feedback''\<rparr>
         else action\<lparr>aa_type := store_and_wait,
           aa_reasoning := ''Low confidence - store response, wait for user feedback''\<rparr>)"

definition default_options :: "bool \<Rightarrow> decision_options" where
  "default_options canAssign = \<lparr>do_autoResolveThreshold = None, do_smartAssignThreshold = None,
     do_suggestThreshold = None, do_enableAutoResolve = None, do_enableSmartAssign = None, do_canAssign = canAssign\<rparr>"

text \<open>\<open>shouldAutoAssignToAgent\<close>: the answer carries a reason and, when it assigns, a priority.\<close>

definition shouldAutoAssignToAgent :: "'a ticket_scheme \<Rightarrow> rat \<Rightarrow> bool \<times> string \<times> string option" where
  "shouldAutoAssignToAgent t aiConfidence =
     (if truthy (t_assignedToId t) then (False, ''ALREADY_ASSIGNED'', None)
      else if t_priority t = URGENT \<and> URGENT_AUTO_ASSIGN DECISION_RULES
      then (True, ''URGENT_TICKET'', Some ''URGENT'')
      else if t_priority t = HIGH \<and> HIGH_AUTO_ASSIGN DECISION_RULES \<and> aiConfidence < as_rat (lit 60)
      then (True, ''HIGH_PRIORITY_LOW_AI_CONFIDENCE'', Some ''HIGH'')
      else if aiConfidence \<ge> SMART_ASSIGN_THRESHOLD DECISION_RULES \<and>
        aiConfidence < CONFIDENCE_THRESHOLD_AUTO_CLOSE DECISION_RULES
      then (True, ''MEDIUM_CONFIDENCE_NEEDS_REVIEW'', Some ''NORMAL'')
      else (False, ''NO_ASSIGNMENT_NEEDED'', None))"

definition selectBestAgent :: "agent_workload list \<Rightarrow> agent_workload option" where
  "selectBestAgent availableAgents =
     (case sort_key w_assignedToday availableAgents of [] \<Rightarrow> None | a # _ \<Rightarrow> Some a)"

text \<open>The update of the ticket row: the keys that are present.\<close>

record ticket_ai_update =
  tu_aiMessageCount :: "int option"
  tu_status :: "ticket_status option"
  tu_aiActive :: "bool option"
  tu_assignedToId :: "string option"

definition no_update :: ticket_ai_update where
  "no_update = \<lparr>tu_aiMessageCount = None, tu_status = None, tu_aiActive = None, tu_assignedToId = None\<rparr>"

definition buildTicketUpdate :: "'a ticket_scheme \<Rightarrow> action_type \<Rightarrow> int \<Rightarrow> ticket_ai_update" where
  "buildTicketUpdate t action currentAiResponseCount =
     (let u = no_update\<lparr>tu_aiMessageCount := Some (t_aiMessageCount t + 1)\<rparr>;
          u1 = (case action of
             auto_resolve \<Rightarrow> u\<lparr>tu_status := Some RESOLVED, tu_aiActive := Some False\<rparr>
           | _ \<Rightarrow> u)
      in if currentAiResponseCount + 1 \<ge> MAX_AI_RESPONSES DECISION_RULES
         then u1\<lparr>tu_aiActive := Some False\<rparr> else u1)"

subsection \<open>Guards (ai.automation.guards.js)\<close>

definition ai_comments :: "comment list \<Rightarrow> comment list" where
  "ai_comments cs = List.filter (\<lambda>c. c_authorType c = AI) cs"

record ai_config =
  ac_organizationId :: string
  ac_enableAutoResolve :: bool
  ac_enableSmartAssign :: bool
  ac_autoResolveThreshold :: rat
  ac_suggestThreshold :: rat
  ac_smartAssignThreshold :: rat
  ac_maxAIResponses :: int
  ac_aiEnabled :: bool

definition lastAiComment :: "comment list \<Rightarrow> comment option" where
  "lastAiComment cs = List.find (\<lambda>c. c_authorType c = AI) (rev cs)"

definition shouldProcessAI :: "'a ticket_scheme \<Rightarrow> comment list \<Rightarrow> ai_config option \<Rightarrow> time \<Rightarrow> bool \<times> string" where
  "shouldProcessAI t cs orgConfig now =
     (if \<not> t_aiActive t then (False, ''AI_DISABLED'')
      else if t_aiMessageCount t \<ge>
          (case orgConfig of None \<Rightarrow> AI_MAX_MESSAGES_PER_TICKET | Some c \<Rightarrow> ac_maxAIResponses c)
      then (False, ''MAX_MESSAGES_REACHED'')
      else if (case lastAiComment cs of None \<Rightarrow> False
               | Some c \<Rightarrow> AI_COMMENT_COOLDOWN_MS - (now - c_createdAt c) > 0)
      then (False, ''COOLDOWN_ACTIVE'')
      else if truthy (t_assignedToId t) \<and> t_status t = IN_PROGRESS
      then (False, ''ALREADY_IN_PROGRESS'')
      else (True, ''READY_TO_PROCESS''))"

subsection \<open>Rounding does not matter, except on ties\<close>

text \<open>The reference: the same score in exact hundredths.\<close>

definition hundredths :: "confidence_context \<Rightarrow> int" where
  "hundredths x = 50 + sum_list (List.map (\<lambda>f. the_default 0 f) (factors x))"

lemma adjust_error:
  assumes "\<bar>100 * c - h * 2 ^ 58\<bar> \<le> e" "\<bar>h\<bar> \<le> 230" "e \<le> 2 ^ 40" "\<bar>the_default 0 f\<bar> \<le> 20"
  shows "\<bar>100 * adjust c f - (h + the_default 0 f) * 2 ^ 58\<bar> \<le> e + 25600"
proof (cases f)
  case (Some d)
  then have d: "\<bar>d\<bar> \<le> 20" using assms(4) by (simp add: the_default_def)
  then have l: "\<bar>100 * lit d - d * 2 ^ 58\<bar> \<le> 12800" by (intro lit_error) simp
  have "\<bar>c + lit d\<bar> < 2 ^ 60" using assms(1-3) l d by (simp add: abs_le_iff abs_less_iff)
  then have "\<bar>fl (c + lit d) - (c + lit d)\<bar> \<le> 128" by (rule fl_error)
  then show ?thesis using assms(1) l by (simp add: Some adjust_def the_default_def)
qed (use assms in \<open>simp add: adjust_def the_default_def\<close>)

lemma foldl_adjust_error:
  assumes "\<bar>100 * c - h * 2 ^ 58\<bar> \<le> 25600 * k" "\<bar>h\<bar> \<le> 50 + 20 * k" "k + int (length fs) \<le> 9" "0 \<le> k"
    "\<forall>f\<in>set fs. \<bar>the_default 0 f\<bar> \<le> 20"
  shows "\<bar>100 * foldl adjust c fs - (h + sum_list (List.map (the_default 0) fs)) * 2 ^ 58\<bar>
    \<le> 25600 * (k + int (length fs))"
  using assms
proof (induction fs arbitrary: c h k)
  case (Cons f fs)
  have "\<bar>100 * adjust c f - (h + the_default 0 f) * 2 ^ 58\<bar> \<le> 25600 * k + 25600"
    using Cons.prems by (intro adjust_error) auto
  then have "\<bar>100 * adjust c f - (h + the_default 0 f) * 2 ^ 58\<bar> \<le> 25600 * (k + 1)" by simp
  moreover have "\<bar>h + the_default 0 f\<bar> \<le> 50 + 20 * (k + 1)" using Cons.prems by auto
  ultimately have "\<bar>100 * foldl adjust (adjust c f) fs - (h + the_default 0 f + sum_list (List.map (the_default 0) fs)) * 2 ^ 58\<bar>
      \<le> 25600 * (k + 1 + int (length fs))"
    using Cons.prems by (intro Cons.IH) auto
  then show ?case by (simp add: add_ac)
qed simp

lemma factors_small: "f \<in> set (factors x) \<Longrightarrow> \<bar>the_default 0 f\<bar> \<le> 20"
  by (auto simp: factors_def length_factor_def keyword_factor_def follow_up_factor_def priority_factor_def
      age_factor_def history_factor_def attachment_factor_def description_factor_def the_default_def
      split: priority.split)

lemma raw_score_error: "\<bar>100 * foldl adjust (lit 50) (factors x) - hundredths x * 2 ^ 58\<bar> \<le> 2 ^ 18"
proof -
  have "\<bar>100 * lit 50 - 50 * 2 ^ 58\<bar> \<le> 25600 * 1" using lit_error [of 50] by simp
  from foldl_adjust_error [OF this, of "factors x"] factors_small [of _ x]
  show ?thesis by (simp add: hundredths_def factors_def)
qed

definition exact_action :: "int \<Rightarrow> bool \<Rightarrow> action_type" where
  "exact_action h canAssign =
     (if h \<ge> 85 then auto_resolve else if h \<ge> 65 \<and> canAssign then smart_assign
      else if h \<ge> 50 then suggest else store_and_wait)"

lemma score_threshold:
  assumes "h \<in> {50, 65, 85}" "hundredths x \<noteq> h"
  shows "lit h \<le> score x \<longleftrightarrow> h \<le> hundredths x"
proof -
  let ?c = "foldl adjust (lit 50) (factors x)"
  have l: "\<bar>100 * lit h - h * 2 ^ 58\<bar> \<le> 12800" using assms(1) by (intro lit_error) auto
  have "\<bar>100 * lit 100 - 100 * 2 ^ 58\<bar> \<le> 12800" by (intro lit_error) simp
  then have "0 < lit h" "lit h \<le> lit 100" using l assms(1) by auto
  then have "lit h \<le> score x \<longleftrightarrow> lit h \<le> ?c" by (auto simp: score_def)
  also have "\<dots> \<longleftrightarrow> h \<le> hundredths x"
    using l raw_score_error [of x] assms(2) by (cases "h \<le> hundredths x") auto
  finally show ?thesis .
qed

lemma decideAction_default:
  "aa_type (decideAction (as_rat c) (default_options ca)) =
     (if lit 85 \<le> c then auto_resolve else if lit 65 \<le> c \<and> ca then smart_assign
      else if lit 50 \<le> c then suggest else store_and_wait)"
  by (simp add: decideAction_def default_options_def the_default_def DECISION_RULES_def Let_def)

text \<open>
  C32. Double rounding does not change the decision, except on a tie. The confidence is a number
  between 0 and 1 and differs from the score computed in exact hundredths, clamped to the same
  interval, by less than \<open>2 ^ -40\<close>; and unless the exact score is itself one of the default
  thresholds 0.50, 0.65 and 0.85, the action chosen is that of the exact score.
\<close>

theorem confidence_rounding:
  assumes "hundredths x \<notin> {50, 65, 85}"
  shows "0 \<le> cd_confidence (calculateConfidence x) \<and> cd_confidence (calculateConfidence x) \<le> 1 \<and>
    \<bar>cd_confidence (calculateConfidence x) - of_int (max 0 (min 100 (hundredths x))) / 100\<bar> < 1 / 2 ^ 40 \<and>
    aa_type (decideAction (cd_confidence (calculateConfidence x)) (default_options ca)) =
      exact_action (hundredths x) ca"
proof (intro conjI)
  have hundred: "lit 100 = 2 ^ 58" by code_simp
  have c: "cd_confidence (calculateConfidence x) = as_rat (score x)" by (simp add: calculateConfidence_def Let_def)
  have s: "0 \<le> score x" "score x \<le> 2 ^ 58" by (simp_all add: score_def hundred)
  show "0 \<le> cd_confidence (calculateConfidence x)" "cd_confidence (calculateConfidence x) \<le> 1"
    unfolding c as_rat_def using s by (simp_all add: divide_le_eq)
  let ?h = "max 0 (min 100 (hundredths x))"
  have "\<bar>100 * score x - ?h * 2 ^ 58\<bar> \<le> 2 ^ 18"
    using raw_score_error [of x] by (auto simp: score_def hundred max_def min_def)
  then have le: "\<bar>rat_of_int (100 * score x - ?h * 2 ^ 58)\<bar> \<le> 2 ^ 18"
    by (metis of_int_abs of_int_le_iff of_int_numeral of_int_power)
  have "as_rat (score x) - of_int ?h / 100 = of_int (100 * score x - ?h * 2 ^ 58) / (100 * 2 ^ 58)"
    by (simp add: as_rat_def field_simps)
  then have "\<bar>as_rat (score x) - of_int ?h / 100\<bar> = \<bar>rat_of_int (100 * score x - ?h * 2 ^ 58)\<bar> / (100 * 2 ^ 58)"
    by (simp only: abs_divide) simp
  also have "\<dots> \<le> 2 ^ 18 / (100 * 2 ^ 58)" using le by (intro divide_right_mono) simp_all
  also have "\<dots> < 1 / 2 ^ 40" by simp
  finally show "\<bar>cd_confidence (calculateConfidence x) - of_int ?h / 100\<bar> < 1 / 2 ^ 40" unfolding c .
  show "aa_type (decideAction (cd_confidence (calculateConfidence x)) (default_options ca)) = exact_action (hundredths x) ca"
    using assms score_threshold [of _ x] unfolding c decideAction_default exact_action_def by simp
qed

definition example_context :: confidence_context where
  "example_context = \<lparr>responseLength = 200, hasProblematicKeywords = True, isFollowUp = False, ticketPriority = LOW,
     ticketAge = 60000, commentCount = 2, hasAttachments = True, descriptionLength = 40\<rparr>"

theorem confidence_rounding_witness:
  "hundredths (example_context\<lparr>hasAttachments := False\<rparr>) = 73 \<and>
   aa_type (decideAction (cd_confidence (calculateConfidence (example_context\<lparr>hasAttachments := False\<rparr>)))
     (default_options True)) = smart_assign"
proof -
  have h: "hundredths (example_context\<lparr>hasAttachments := False\<rparr>) = 73" by code_simp
  show ?thesis using confidence_rounding [of "example_context\<lparr>hasAttachments := False\<rparr>" True]
    by (simp add: h exact_action_def)
qed

text \<open>
  On a tie rounding does change it. A short-lived low-priority ticket whose answer has a good
  length but an uncertain word, with an attachment, scores exactly 0.65, the threshold for
  assigning an agent; the double the code computes is below the double 0.65, so the answer is
  only suggested, and the ticket stays unassigned.
\<close>

lemma rounding_loses_assignment:
  "hundredths example_context = 65 \<and> exact_action (hundredths example_context) True = smart_assign \<and>
   score example_context < lit 65 \<and>
   aa_type (decideAction (cd_confidence (calculateConfidence example_context)) (default_options True)) = suggest"
proof -
  have h: "hundredths example_context = 65" by code_simp
  have s: "score example_context < lit 65" "lit 50 \<le> score example_context" "lit 65 < lit 85" by code_simp+
  then have "\<not> lit 85 \<le> score example_context" by linarith
  with s have "aa_type (decideAction (as_rat (score example_context)) (default_options True)) = suggest"
    unfolding decideAction_default by simp
  then show ?thesis using s(1) by (simp add: h exact_action_def calculateConfidence_def Let_def)
qed

text \<open>Without an attachment there is no tie: the other factors are multiples of 0.05 up to 0.03 and 0.08.\<close>

lemma no_tie:
  assumes "\<not> hasAttachments x"
  shows "hundredths x \<notin> {50, 65, 85}"
proof -
  have "5 dvd the_default 0 (length_factor x)" "5 dvd the_default 0 (keyword_factor x)"
    "5 dvd the_default 0 (follow_up_factor x)" "5 dvd the_default 0 (priority_factor x)"
    "5 dvd the_default 0 (age_factor x)"
    by (simp_all add: length_factor_def keyword_factor_def follow_up_factor_def priority_factor_def age_factor_def
        the_default_def split: priority.split)
  moreover have "the_default 0 (history_factor x) \<in> {0, 5, 8}" "the_default 0 (description_factor x) \<in> {0, 8}"
    "the_default 0 (attachment_factor x) = 3"
    using assms by (simp_all add: history_factor_def description_factor_def attachment_factor_def the_default_def)
  ultimately have "\<not> 5 dvd hundredths x"
    unfolding hundredths_def factors_def by simp presburger
  then show ?thesis by auto
qed

end
