(* ===== verification/Scraper_Url.thy ===== *)
theory Scraper_Url
  imports HF_Prelude "HOL-Library.Word"
begin

unbundle bit_operations_syntax

section \<open>The URL validator of the scraper (scraper.validator.js)\<close>

text \<open>
  The server-side request forgery guard. Addresses are 32-bit words, as the shifts and masks of
  the code compute them; the sign of \<open>ip & mask\<close> in JavaScript plays no role, since both sides of
  the comparison are signed. \<open>Number\<close> is applied to the parts of dotted quads only: strings of
  decimal digits, and the empty string, which is 0. The WHATWG parser of the host and the
  resolver are parameters; \<open>dns.resolve\<close> without a record type answers the A records.
\<close>

subsection \<open>Addresses\<close>

fun js_split :: "char \<Rightarrow> string \<Rightarrow> string list" where
  "js_split c [] = [[]]"
| "js_split c (x # xs) =
     (if x = c then [] # js_split c xs
      else case js_split c xs of [] \<Rightarrow> [[x]] | p # ps \<Rightarrow> (x # p) # ps)"

definition js_number :: "string \<Rightarrow> int option" where
  "js_number s = (if s = [] then Some 0 else parse_digits s)"

definition quad :: "int \<Rightarrow> int \<Rightarrow> int \<Rightarrow> int \<Rightarrow> 32 word" where
  "quad a b c d = push_bit 24 (word_of_int a) OR push_bit 16 (word_of_int b) OR push_bit 8 (word_of_int c) OR word_of_int d"

definition parseIPv4 :: "string \<Rightarrow> 32 word option" where
  "parseIPv4 addr =
     (case List.map js_number (js_split (CHR ''.'') addr) of
        [Some a, Some b, Some c, Some d] \<Rightarrow>
          if list_ex (\<lambda>o'. o' < 0 \<or> o' > 255) [a, b, c, d] then None else Some (quad a b c d)
      | _ \<Rightarrow> None)"

definition v4range :: "int \<Rightarrow> int \<Rightarrow> int \<Rightarrow> int \<Rightarrow> nat \<Rightarrow> 32 word \<times> 32 word" where
  "v4range a b c d prefixLen =
     (let net = quad a b c d;
          mask = (if prefixLen = 0 then 0 else push_bit (32 - prefixLen) 0xFFFFFFFF)
      in (net AND mask, mask))"

definition PRIVATE_V4_RANGES :: "(32 word \<times> 32 word) list" where
  "PRIVATE_V4_RANGES =
     [v4range 10 0 0 0 8, v4range 172 16 0 0 12, v4range 192 168 0 0 16, v4range 127 0 0 0 8,
      v4range 169 254 0 0 16, v4range 0 0 0 0 8, v4range 100 64 0 0 10, v4range 192 0 2 0 24,
      v4range 198 51 100 0 24, v4range 203 0 113 0 24, v4range 240 0 0 0 4, v4range 255 255 255 255 32]"

definition isPrivateIPv4 :: "string \<Rightarrow> bool" where
  "isPrivateIPv4 addr =
     (case parseIPv4 addr of
        None \<Rightarrow> False
      | Some ip \<Rightarrow> list_ex (\<lambda>(net, mask). ip AND mask = net) PRIVATE_V4_RANGES)"

text \<open>\<open>/^\d+\.\d+\.\d+\.\d+$/\<close>\<close>

definition is_dotted :: "string \<Rightarrow> bool" where
  "is_dotted s =
     (let ps = js_split (CHR ''.'') s in length ps = 4 \<and> list_all (\<lambda>p. p \<noteq> [] \<and> list_all (\<lambda>c. digit_value c \<noteq> None) p) ps)"

definition isPrivateIPv6 :: "string \<Rightarrow> bool" where
  "isPrivateIPv6 addr =
     (let l = toLowerCase addr;
          lower = (if prefix ''::ffff:'' l then drop 7 l else l)
      in if is_dotted lower then isPrivateIPv4 lower
         else lower = ''::1'' \<or> prefix ''fc'' lower \<or> prefix ''fd'' lower \<or> prefix ''fe80'' lower \<or>
           prefix ''fe9'' lower \<or> prefix ''fea'' lower \<or> prefix ''feb'' lower \<or> lower = ''::'')"

definition isPrivateIP :: "string \<Rightarrow> bool" where
  "isPrivateIP addr = (if js_includes addr '':'' then isPrivateIPv6 addr else isPrivateIPv4 addr)"

subsection \<open>Validation\<close>

record parsed_url =
  url_protocol :: string
  url_username :: string
  url_password :: string
  url_hostname :: string

record url_env =
  ue_parse :: "string \<Rightarrow> parsed_url option"
  ue_resolve :: "string \<Rightarrow> string + string list"

definition BLOCKED_HOSTNAME_RE :: "string \<Rightarrow> bool" where
  "BLOCKED_HOSTNAME_RE h =
     (h = ''localhost'' \<or> list_ex (\<lambda>x. suffix x h)
        [''.local'', ''.internal'', ''.localdomain'', ''.example'', ''.test'', ''.invalid''])"

text \<open>\<open>ScraperValidationError\<close> carries the message.\<close>

definition validateUrl :: "url_env \<Rightarrow> string \<Rightarrow> string + parsed_url" where
  "validateUrl env url =
     (if url = [] then Inl ''URL must be a non-empty string''
      else if length url > 2048 then Inl ''URL exceeds maximum length of 2048 characters''
      else case ue_parse env url of
        None \<Rightarrow> Inl (''Malformed URL: '' @ url)
      | Some parsed \<Rightarrow>
          if url_protocol parsed \<notin> {''http:'', ''https:''}
          then Inl (''Scheme '' @ [CHR 0x22] @ url_protocol parsed @ [CHR 0x22] @
            '' is not allowed. Only http and https are permitted.'')
          else if url_username parsed \<noteq> [] \<or> url_password parsed \<noteq> []
          then Inl ''URLs with credentials (user:pass@host) are not allowed''
          else
            let hostname = toLowerCase (url_hostname parsed); quoted = [CHR 0x22] @ hostname @ [CHR 0x22] in
            if BLOCKED_HOSTNAME_RE hostname then Inl (''Hostname '' @ quoted @ '' is blocked'')
            else if is_dotted hostname then
              (if isPrivateIPv4 hostname then Inl (''IP address '' @ quoted @ '' is in a private/reserved range'')
               else Inr parsed)
            else if prefix ''['' (url_hostname parsed) then
              (let v6 = butlast (tl (url_hostname parsed)) in
               if isPrivateIPv6 v6
               then Inl (''IPv6 address '' @ [CHR 0x22] @ v6 @ [CHR 0x22] @ '' is in a private/reserved range'')
               else Inr parsed)
            else case ue_resolve env hostname of
              Inl msg \<Rightarrow> Inl (''Cannot resolve hostname '' @ quoted @ '': '' @ msg)
            | Inr records \<Rightarrow>
                if list_ex isPrivateIP records
                then Inl (''Hostname '' @ quoted @ '' resolves to a private/reserved IP address'')
                else Inr parsed)"

subsection \<open>Words\<close>

lemma int_or_shift:
  fixes a b :: int
  assumes "0 \<le> b" "b < 2 ^ n"
  shows "push_bit n a OR b = a * 2 ^ n + b"
proof -
  have t: "take_bit n b = b" using assms by (simp add: take_bit_int_eq_self)
  have "\<not> (bit (push_bit n a) m \<and> bit b m)" for m
    using t by (metis bit_push_bit_iff bit_take_bit_iff not_le)
  then have "push_bit n a OR b = push_bit n a + b" by (intro disjunctive_add [symmetric]) auto
  then show ?thesis by (simp add: push_bit_eq_mult)
qed

lemma quad_uint:
  assumes "{a, b, c, d} \<subseteq> {0..255}"
  shows "uint (quad a b c d) = a * 2 ^ 24 + b * 2 ^ 16 + c * 2 ^ 8 + d"
proof -
  have r: "0 \<le> a" "a \<le> 255" "0 \<le> b" "b \<le> 255" "0 \<le> c" "c \<le> 255" "0 \<le> d" "d \<le> 255" using assms by auto
  have u: "uint (word_of_int x :: 32 word) = x" if "0 \<le> x" "x \<le> 255" for x
    using that by (simp add: uint_word_of_int)
  have s: "uint (push_bit n (word_of_int x) :: 32 word) = push_bit n x" if "0 \<le> x" "x \<le> 255" "n \<le> 24" for x n
  proof -
    have "(2 :: int) ^ n \<le> 2 ^ 24" using that(3) by (intro power_increasing) auto
    then have "x * 2 ^ n \<le> 255 * 2 ^ 24" using that(1,2) by (intro mult_mono) auto
    then have "x * 2 ^ n < 2 ^ 32" by simp
    then have "take_bit 32 (push_bit n x) = push_bit n x"
      using that(1) by (intro take_bit_int_eq_self) (simp_all add: push_bit_eq_mult)
    then show ?thesis using that by (simp add: unsigned_push_bit_eq u)
  qed
  have "uint (quad a b c d) = push_bit 24 a OR (push_bit 16 b OR (push_bit 8 c OR d))"
    using r by (simp add: quad_def unsigned_or_eq s u or.assoc)
  also have "\<dots> = push_bit 24 a OR (push_bit 16 b OR (c * 2 ^ 8 + d))"
    using r by (simp add: int_or_shift [of d 8])
  also have "\<dots> = push_bit 24 a OR (b * 2 ^ 16 + (c * 2 ^ 8 + d))"
    using r by (subst int_or_shift [of _ 16]) auto
  also have "\<dots> = a * 2 ^ 24 + (b * 2 ^ 16 + (c * 2 ^ 8 + d))"
    using r by (subst int_or_shift [of _ 24]) auto
  finally show ?thesis by simp
qed

text \<open>Masking with a prefix keeps the quotient.\<close>

lemma and_mask_eq_iff:
  fixes x y :: "32 word"
  assumes "n \<le> 32"
  shows "x AND push_bit n 0xFFFFFFFF = y AND push_bit n 0xFFFFFFFF \<longleftrightarrow> uint x div 2 ^ n = uint y div 2 ^ n"
proof -
  have m: "(0xFFFFFFFF :: 32 word) = - 1" by simp
  have "x AND push_bit n (- 1) = push_bit n (drop_bit n x)" for x :: "32 word"
    by (rule bit_eqI) (auto simp: bit_simps)
  then have "x AND push_bit n (- 1) = y AND push_bit n (- 1) \<longleftrightarrow> push_bit n (drop_bit n x) = push_bit n (drop_bit n y)"
    by simp
  also have "\<dots> \<longleftrightarrow> drop_bit n x = drop_bit n y"
  proof
    assume e: "push_bit n (drop_bit n x) = push_bit n (drop_bit n y)"
    then have "drop_bit n (push_bit n (drop_bit n x)) = drop_bit n (push_bit n (drop_bit n y))" by simp
    moreover have "drop_bit n (push_bit n (drop_bit n z)) = drop_bit n z" for z :: "32 word"
      by (rule bit_eqI) (auto simp: bit_simps dest: bit_imp_le_length)
    ultimately show "drop_bit n x = drop_bit n y" by simp
  qed simp
  also have "\<dots> \<longleftrightarrow> uint x div 2 ^ n = uint y div 2 ^ n"
  proof -
    have "uint (drop_bit n z) = uint z div 2 ^ n" for z :: "32 word"
      using uint_lt2p [of z] by (simp add: unsigned_drop_bit_eq take_bit_int_eq_self flip: drop_bit_eq_div)
    then show ?thesis by (simp only: word_uint_eq_iff)
  qed
  finally show ?thesis unfolding m .
qed

lemma v4range_iff:
  assumes "0 < p" "p \<le> 32" "{a, b, c, d} \<subseteq> {0..255}" "{a', b', c', d'} \<subseteq> {0..255}"
  shows "(case v4range a' b' c' d' p of (net, m) \<Rightarrow> quad a b c d AND m = net) \<longleftrightarrow>
    (a * 2 ^ 24 + b * 2 ^ 16 + c * 2 ^ 8 + d) div 2 ^ (32 - p) =
    (a' * 2 ^ 24 + b' * 2 ^ 16 + c' * 2 ^ 8 + d') div 2 ^ (32 - p)"
  using assms and_mask_eq_iff [of "32 - p" "quad a b c d" "quad a' b' c' d'"]
  by (simp only: v4range_def Let_def prod.case quad_uint [OF assms(3)] quad_uint [OF assms(4)] if_False
      neq0_conv [symmetric])

subsection \<open>Dotted quads\<close>

fun show_decimal :: "nat \<Rightarrow> string" where
  "show_decimal n = (if n < 10 then [char_of (48 + n)] else show_decimal (n div 10) @ [char_of (48 + n mod 10)])"

declare show_decimal.simps [simp del]

definition dotted :: "nat \<Rightarrow> nat \<Rightarrow> nat \<Rightarrow> nat \<Rightarrow> string" where
  "dotted a b c d = show_decimal a @ ''.'' @ show_decimal b @ ''.'' @ show_decimal c @ ''.'' @ show_decimal d"

lemma digit_value_digit [simp]: "k < 10 \<Longrightarrow> digit_value (char_of (48 + k)) = Some k"
  by (simp add: digit_value_def)

lemma show_decimal_digits: "x \<in> set (show_decimal n) \<Longrightarrow> digit_value x \<noteq> None"
  by (induction n rule: show_decimal.induct) (subst (asm) (2) show_decimal.simps, auto split: if_splits)

lemma show_decimal_ne [simp]: "show_decimal n \<noteq> []"
  by (subst show_decimal.simps) simp

lemma parse_show_decimal: "parse_digits (show_decimal n) = Some (int n)"
proof -
  have "foldl (\<lambda>acc d. 10 * acc + int (the (digit_value d))) 0 (show_decimal n) = int n"
  proof (induction n rule: show_decimal.induct)
    case (1 n)
    show ?case
    proof (cases "n < 10")
      case True
      then show ?thesis by (subst show_decimal.simps) simp
    next
      case False
      have "10 * int (n div 10) + int (n mod 10) = int n"
        by (metis mult_div_mod_eq of_nat_add of_nat_mult of_nat_numeral)
      with False 1 show ?thesis by (subst show_decimal.simps) simp
    qed
  qed
  then show ?thesis using show_decimal_digits by (auto simp: parse_digits_def)
qed

lemma js_split_no_sep: "c \<notin> set p \<Longrightarrow> js_split c p = [p]"
  by (induction p) auto

lemma js_split_append: "c \<notin> set p \<Longrightarrow> js_split c (p @ c # q) = p # js_split c q"
  by (induction p) auto

lemma dot_not_digit: "CHR ''.'' \<notin> set (show_decimal n)"
  using show_decimal_digits [of "CHR ''.''" n] by (auto simp: digit_value_def)

lemma split_dotted:
  "js_split (CHR ''.'') (dotted a b c d) = [show_decimal a, show_decimal b, show_decimal c, show_decimal d]"
  by (simp add: dotted_def js_split_append js_split_no_sep dot_not_digit)

lemma parseIPv4_dotted:
  "parseIPv4 (dotted a b c d) =
     (if a \<le> 255 \<and> b \<le> 255 \<and> c \<le> 255 \<and> d \<le> 255 then Some (quad (int a) (int b) (int c) (int d)) else None)"
  by (auto simp: parseIPv4_def split_dotted js_number_def parse_show_decimal)

lemma dotted_is_dotted [simp]: "is_dotted (dotted a b c d)"
  using show_decimal_digits by (auto simp: is_dotted_def split_dotted list_all_iff)

text \<open>The blocks the header of the file lists, as conditions on the four numbers.\<close>

definition reserved_v4 :: "nat \<Rightarrow> nat \<Rightarrow> nat \<Rightarrow> nat \<Rightarrow> bool" where
  "reserved_v4 a b c d \<longleftrightarrow>
     a = 10 \<or> (a = 172 \<and> 16 \<le> b \<and> b \<le> 31) \<or> (a = 192 \<and> b = 168) \<or> a = 127 \<or> (a = 169 \<and> b = 254) \<or> a = 0 \<or>
     (a = 100 \<and> 64 \<le> b \<and> b \<le> 127) \<or> (a = 192 \<and> b = 0 \<and> c = 2) \<or> (a = 198 \<and> b = 51 \<and> c = 100) \<or>
     (a = 203 \<and> b = 0 \<and> c = 113) \<or> a \<ge> 240"

lemma digit_eq_iff:
  fixes q q' r r' m :: int
  assumes "0 \<le> r" "r < m" "0 \<le> r'" "r' < m"
  shows "q * m + r = q' * m + r' \<longleftrightarrow> q = q' \<and> r = r'"
proof
  assume e: "q * m + r = q' * m + r'"
  have "(q * m + r) div m = q" "(q' * m + r') div m = q'" using assms by (simp_all add: div_add1_eq)
  then show "q = q' \<and> r = r'" using e by auto
qed simp

lemma reserved_ranges:
  assumes "a \<le> 255" "b \<le> 255" "c \<le> 255" "d \<le> 255"
  shows "list_ex (\<lambda>(net, m). quad (int a) (int b) (int c) (int d) AND m = net) PRIVATE_V4_RANGES \<longleftrightarrow> reserved_v4 a b c d"
proof -
  have q: "(case v4range a' b' c' d' p of (net, m) \<Rightarrow> quad (int a) (int b) (int c) (int d) AND m = net) \<longleftrightarrow>
      (int a * 2 ^ 24 + int b * 2 ^ 16 + int c * 2 ^ 8 + int d) div 2 ^ (32 - p) =
      (a' * 2 ^ 24 + b' * 2 ^ 16 + c' * 2 ^ 8 + d') div 2 ^ (32 - p)"
    if "0 < p" "p \<le> 32" "{a', b', c', d'} \<subseteq> {0..255}" for a' b' c' d' p
    using v4range_iff [OF that(1,2) _ that(3), of "int a" "int b" "int c" "int d"] assms by simp
  have "list_ex (\<lambda>(net, m). quad (int a) (int b) (int c) (int d) AND m = net) PRIVATE_V4_RANGES \<longleftrightarrow>
     (let x = int a * 16777216 + int b * 65536 + int c * 256 + int d in
      x div 16777216 = 10 \<or> x div 1048576 = 2753 \<or> x div 65536 = 49320 \<or> x div 16777216 = 127 \<or>
      x div 65536 = 43518 \<or> x div 16777216 = 0 \<or> x div 4194304 = 401 \<or> x div 256 = 12582914 \<or>
      x div 256 = 12989284 \<or> x div 256 = 13303921 \<or> x div 268435456 = 15 \<or> x = 4294967295)"
    by (simp add: PRIVATE_V4_RANGES_def q Let_def)
  also have "\<dots> \<longleftrightarrow> reserved_v4 a b c d"
  proof -
    define x where "x = int a * 16777216 + int b * 65536 + int c * 256 + int d"
    have r: "int a \<le> 255" "int b \<le> 255" "int c \<le> 255" "int d \<le> 255" using assms by simp_all
    have q: "x div 16777216 = int a" "x div 65536 = int a * 256 + int b" "x div 256 = int a * 65536 + int b * 256 + int c"
      "x div 1048576 = int a * 16 + int b div 16" "x div 4194304 = int a * 4 + int b div 64"
      "x div 268435456 = int a div 16"
      using r by (simp_all add: x_def)
    have three: "(int a * 65536 + int b * 256 + int c = a' * 65536 + b' * 256 + c') = (int a = a' \<and> int b = b' \<and> int c = c')"
      if "0 \<le> b'" "b' < 256" "0 \<le> c'" "c' < 256" for a' b' c'
      using digit_eq_iff [of "int c" 256 c' "int a * 256 + int b" "a' * 256 + b'"]
        digit_eq_iff [of "int b" 256 b' "int a" a'] r that by (auto simp: algebra_simps)
    have f1: "(int a = 10) = (a = 10)" "(int a = 127) = (a = 127)" "(int a = 0) = (a = 0)" "(int a div 16 = 15) = (240 \<le> a)"
      using r by auto
    have f2: "(int a * 256 + int b = 49320) = (a = 192 \<and> b = 168)" "(int a * 256 + int b = 43518) = (a = 169 \<and> b = 254)"
      using digit_eq_iff [of "int b" 256 168 "int a" 192] digit_eq_iff [of "int b" 256 254 "int a" 169] r by auto
    have f3: "(int a * 16 + int b div 16 = 2753) = (a = 172 \<and> 16 \<le> b \<and> b \<le> 31)"
      "(int a * 4 + int b div 64 = 401) = (a = 100 \<and> 64 \<le> b \<and> b \<le> 127)"
      using digit_eq_iff [of "int b div 16" 16 1 "int a" 172] digit_eq_iff [of "int b div 64" 4 1 "int a" 100] r by auto
    have f4: "(int a * 65536 + int b * 256 + int c = 12582914) = (a = 192 \<and> b = 0 \<and> c = 2)"
      "(int a * 65536 + int b * 256 + int c = 12989284) = (a = 198 \<and> b = 51 \<and> c = 100)"
      "(int a * 65536 + int b * 256 + int c = 13303921) = (a = 203 \<and> b = 0 \<and> c = 113)"
      using three [of 0 2 192] three [of 51 100 198] three [of 0 113 203] by auto
    have last: "x = 4294967295 \<Longrightarrow> 240 \<le> a" using r by (simp add: x_def)
    show ?thesis
      unfolding Let_def x_def [symmetric] q f1 f2 f3 f4 reserved_v4_def
      using last by (cases "x = 4294967295") simp_all
  qed
  finally show ?thesis .
qed

text \<open>
  C38. The address test is the table of reserved blocks. For any four numbers, the test on
  their dotted notation, done by shifts and masks on 32-bit words, holds exactly when all four
  are at most 255 and the address lies in a block the file lists, given as conditions on the
  numbers; nothing else is blocked.
\<close>

theorem isPrivateIPv4_blocks:
  "isPrivateIPv4 (dotted a b c d) \<longleftrightarrow> a \<le> 255 \<and> b \<le> 255 \<and> c \<le> 255 \<and> d \<le> 255 \<and> reserved_v4 a b c d"
  using reserved_ranges [of a b c d] by (auto simp: isPrivateIPv4_def parseIPv4_dotted)

lemma js_includes_single: "js_includes s [c] \<longleftrightarrow> c \<in> set s"
  by (induction s) auto

lemma colon_not_dotted: "CHR '':'' \<notin> set (dotted a b c d)"
proof -
  have "CHR '':'' \<notin> set (show_decimal n)" for n
    using show_decimal_digits [of "CHR '':''" n] by (auto simp: digit_value_def)
  then show ?thesis by (simp add: dotted_def)
qed

lemma isPrivateIP_dotted: "isPrivateIP (dotted a b c d) = isPrivateIPv4 (dotted a b c d)"
  by (simp add: isPrivateIP_def js_includes_single colon_not_dotted)

lemma validateUrl_InrD:
  assumes "validateUrl env url = Inr p"
  shows "ue_parse env url = Some p" "url_protocol p \<in> {''http:'', ''https:''}" "url_username p = []" "url_password p = []"
    "\<not> BLOCKED_HOSTNAME_RE (toLowerCase (url_hostname p))"
    "is_dotted (toLowerCase (url_hostname p)) \<Longrightarrow> \<not> isPrivateIPv4 (toLowerCase (url_hostname p))"
    "\<not> is_dotted (toLowerCase (url_hostname p)) \<Longrightarrow> \<not> prefix ''['' (url_hostname p) \<Longrightarrow>
       \<exists>rs. ue_resolve env (toLowerCase (url_hostname p)) = Inr rs \<and> (\<forall>r\<in>set rs. \<not> isPrivateIP r)"
  using assms
  by (auto simp: validateUrl_def Let_def list_ex_iff split: if_splits option.splits sum.splits)

definition mapped_url :: parsed_url where
  "mapped_url = \<lparr>url_protocol = ''http:'', url_username = [], url_password = [], url_hostname = ''[::ffff:7f00:1]''\<rparr>"



end
