(* ===== verification/JS_Number.thy ===== *)
theory JS_Number
  imports AI_Decision Scraper_Url
begin

section \<open>JavaScript numbers: quotients, rounding, decimal output\<close>

text \<open>
  The statistics of the AI modules divide, round and print numbers. A Number is the rational it
  denotes; \<open>dbl\<close> rounds the exact result of an operation to 53 significant bits, ties to even.
  The magnitudes that occur (counts, milliseconds, costs) are far from the limits of the exponent,
  so overflow and subnormal numbers play no role. Also here: \<open>Math.round\<close>, \<open>Math.floor\<close>,
  \<open>toFixed\<close>, the decimal notation of integers and \<open>parseInt\<close>.
\<close>

subsection \<open>Rounding to a double\<close>

fun bit_length :: "int \<Rightarrow> nat" where
  "bit_length n = (if n \<le> 0 then 0 else Suc (bit_length (n div 2)))"

declare bit_length.simps [simp del]

text \<open>The double nearest to \<open>n / d\<close>, for \<open>0 \<le> n\<close> and \<open>0 < d\<close>.\<close>

definition dbl_quot :: "int \<Rightarrow> int \<Rightarrow> rat" where
  "dbl_quot n d =
     (let k = 54 + bit_length d; u = ulp (n * 2 ^ k div d)
      in of_int (quot_even (n * 2 ^ k) (d * u) * u) / 2 ^ k)"

definition dbl :: "rat \<Rightarrow> rat" where
  "dbl r = (case quotient_of r of (n, d) \<Rightarrow> if n < 0 then - dbl_quot (- n) d else dbl_quot n d)"

definition js_div :: "rat \<Rightarrow> rat \<Rightarrow> rat" where
  "js_div x y = dbl (x / y)"

definition js_mul :: "rat \<Rightarrow> rat \<Rightarrow> rat" where
  "js_mul x y = dbl (x * y)"

definition js_add :: "rat \<Rightarrow> rat \<Rightarrow> rat" where
  "js_add x y = dbl (x + y)"

text \<open>\<open>Math.round\<close>: to the nearest integer, halves upwards.\<close>

definition math_round :: "rat \<Rightarrow> int" where
  "math_round x = \<lfloor>x + 1 / 2\<rfloor>"

subsection \<open>Decimal notation\<close>

definition show_int :: "int \<Rightarrow> string" where
  "show_int n = (if n < 0 then ''-'' @ show_decimal (nat (- n)) else show_decimal (nat n))"

text \<open>
  \<open>x.toFixed(f)\<close> for \<open>0 < f\<close>: the integer nearest to the exact \<open>x * 10 ^ f\<close>, the larger one on a
  tie, with at least \<open>f + 1\<close> digits and a point before the last \<open>f\<close>.
\<close>

definition fixed_int :: "nat \<Rightarrow> rat \<Rightarrow> int" where
  "fixed_int f x = \<lfloor>x * 10 ^ f + 1 / 2\<rfloor>"

definition put_point :: "nat \<Rightarrow> string \<Rightarrow> string" where
  "put_point f ds =
     (let padded = replicate (Suc f - length ds) (CHR ''0'') @ ds
      in take (length padded - f) padded @ ''.'' @ drop (length padded - f) padded)"

definition toFixed :: "nat \<Rightarrow> rat \<Rightarrow> string" where
  "toFixed f x =
     (if x < 0 then ''-'' @ put_point f (show_decimal (nat (fixed_int f (- x))))
      else put_point f (show_decimal (nat (fixed_int f x))))"

text \<open>\<open>parseInt(text, 10)\<close>: white space, a sign, the longest run of digits; \<open>None\<close> is NaN.\<close>

definition js_parseInt :: "string \<Rightarrow> int option" where
  "js_parseInt text =
     (let t = dropWhile is_space text;
          (neg, body) = (case t of [] \<Rightarrow> (False, [])
            | c # cs \<Rightarrow> if c = CHR ''-'' then (True, cs) else if c = CHR ''+'' then (False, cs) else (False, t))
      in map_option (\<lambda>n. if neg then - n else n)
           (parse_digits (takeWhile (\<lambda>c. digit_value c \<noteq> None) body)))"

subsection \<open>Properties\<close>

lemma bit_length_bound: "0 < n \<Longrightarrow> n < 2 ^ bit_length n \<and> 2 ^ bit_length n \<le> 2 * n"
proof (induction n rule: bit_length.induct)
  case (1 n)
  show ?case
  proof (cases "n = 1")
    case True
    then show ?thesis by (simp add: bit_length.simps)
  next
    case False
    with 1 have "0 < n div 2" by simp
    moreover have "bit_length n = Suc (bit_length (n div 2))" using 1 by (subst bit_length.simps) simp
    ultimately show ?thesis using 1 by auto
  qed
qed

text \<open>The relative error of a quotient is at most \<open>2 ^ -53\<close>.\<close>

lemma dbl_quot_error:
  assumes "0 < d" "0 \<le> n"
  shows "\<bar>dbl_quot n d - of_int n / of_int d\<bar> * 2 ^ 53 \<le> of_int n / of_int d"
proof (cases "n = 0")
  case True
  then show ?thesis
    using ulp_pos [of 0] assms by (simp add: dbl_quot_def Let_def quot_even_def)
next
  case False
  let ?k = "54 + bit_length d"
  let ?N = "n * 2 ^ ?k"
  let ?u = "ulp (?N div d)"
  let ?q = "quot_even ?N (d * ?u)"
  have n: "0 < n" using False assms by simp
  have "d * 2 ^ 53 \<le> 2 ^ bit_length d * 2 ^ 53" using bit_length_bound [OF assms(1)] by simp
  also have "\<dots> \<le> n * (2 ^ bit_length d * 2 ^ 54)" using n by (simp add: mult_le_cancel_right1)
  finally have "2 ^ 53 * d \<le> ?N" by (simp add: power_add algebra_simps)
  from zdiv_mono1 [OF this assms(1)] have big: "2 ^ 53 \<le> ?N div d" using assms(1) by simp
  have u: "?u * 2 ^ 52 \<le> ?N div d"
  proof -
    have "?u \<noteq> 1 \<longrightarrow> ?u * 2 ^ 52 \<le> \<bar>?N div d\<bar>" using ulp_bound by blast
    then show ?thesis using big by (cases "?u = 1") auto
  qed
  have e: "2 * \<bar>d * ?u * ?q - ?N\<bar> \<le> d * ?u"
    by (rule quot_even_error) (simp add: assms(1) ulp_pos)
  have "d * (?u * 2 ^ 52) \<le> d * (?N div d)" using u assms(1) by simp
  also have "\<dots> = ?N - ?N mod d" by (simp add: minus_mod_eq_mult_div)
  also have "\<dots> \<le> ?N" using assms(1) by simp
  finally have "d * ?u * 2 ^ 52 \<le> ?N" by (simp add: mult.assoc)
  with e have main: "\<bar>d * ?u * ?q - ?N\<bar> * 2 ^ 53 \<le> ?N" by simp
  obtain k where k: "k = ?k" by simp
  have d: "(0::rat) < of_int d * 2 ^ k" using assms(1) by simp
  have v: "dbl_quot n d = of_int (?q * ?u) / 2 ^ k" by (simp only: dbl_quot_def Let_def k)
  have "of_int (\<bar>d * ?u * ?q - ?N\<bar> * 2 ^ 53) \<le> (of_int (n * 2 ^ k) :: rat)"
    using main unfolding k by (simp only: of_int_le_iff)
  then have le: "of_int \<bar>d * ?u * ?q - ?N\<bar> * 2 ^ 53 \<le> (of_int n * 2 ^ k :: rat)" by simp
  have "dbl_quot n d - of_int n / of_int d = (of_int d * of_int (?q * ?u) - of_int n * 2 ^ k) / (of_int d * 2 ^ k)"
    using assms(1) unfolding v by (simp add: diff_frac_eq mult.commute del: of_int_mult)
  also have "of_int d * of_int (?q * ?u) - of_int n * 2 ^ k = (of_int (d * ?u * ?q - ?N) :: rat)"
    unfolding k by (simp add: mult.assoc mult.commute)
  finally have "\<bar>dbl_quot n d - of_int n / of_int d\<bar> = of_int \<bar>d * ?u * ?q - ?N\<bar> / (of_int d * 2 ^ k)"
    using d by (simp only: abs_divide of_int_abs abs_of_pos)
  then have "\<bar>dbl_quot n d - of_int n / of_int d\<bar> * 2 ^ 53 =
      (of_int \<bar>d * ?u * ?q - ?N\<bar> * 2 ^ 53) / (of_int d * 2 ^ k)" by (simp only: times_divide_eq_left)
  also have "\<dots> \<le> (of_int n * 2 ^ k) / (of_int d * 2 ^ k)"
    by (rule divide_right_mono [OF le]) (use d in simp)
  finally show ?thesis by simp
qed

end
