(* ===== verification/Circuit_Breaker.thy ===== *)
theory Circuit_Breaker
  imports HF_Prelude
begin

section \<open>Circuit breakers\<close>

text \<open>
  The breakers of config/database.config.js and config/redis.config.js (one machine, two lists
  of infrastructure errors) and of modules/ai/bridge/chatbot.circuit.js. The calls they guard
  run concurrently: a call is admitted at one moment and its outcome recorded at a later one,
  with any admissions and outcomes of other calls in between, so a history is a list of events.
  The contract the callers rely on is the locale \<open>circuit_breaker\<close>, interpreted on both.
\<close>

datatype circuit_state = CLOSED_STATE | OPEN_STATE | HALF_OPEN

text \<open>What the breakers look at in an error: its code and its message.\<close>

record host_error =
  he_code :: string
  he_message :: string

subsection \<open>The contract\<close>

locale circuit_breaker =
  fixes opened closed :: "'s \<Rightarrow> bool"
    and admit :: "time \<Rightarrow> 's \<Rightarrow> bool \<times> 's"
    and success :: "'s \<Rightarrow> 's"
    and failure :: "time \<Rightarrow> 's \<Rightarrow> 's"
    and last_failure :: "'s \<Rightarrow> time"
    and timeout :: time
    and threshold probes :: nat
  assumes refuse: "opened s \<Longrightarrow> now - last_failure s < timeout \<Longrightarrow> admit now s = (False, s)"
    and probe: "opened s \<Longrightarrow> timeout \<le> now - last_failure s \<Longrightarrow>
      fst (admit now s) \<and> \<not> opened (snd (admit now s))"
    and pass: "\<not> opened s \<Longrightarrow> admit now s = (True, s)"
    and failure_time: "last_failure (failure now s) = now"
    and failure_open: "opened s \<Longrightarrow> opened (failure now s)"
    and trips: "threshold \<le> length ts \<Longrightarrow> opened (foldl (\<lambda>s t. failure t s) s ts)"
    and recovers: "\<not> opened s \<Longrightarrow> probes \<le> n \<Longrightarrow> closed ((success ^^ n) s)"
    and closed_not_open: "closed s \<Longrightarrow> \<not> opened s"
begin

abbreviation failures :: "time list \<Rightarrow> 's \<Rightarrow> 's" where
  "failures ts s \<equiv> foldl (\<lambda>s t. failure t s) s ts"

lemma failures_time: "ts \<noteq> [] \<Longrightarrow> last_failure (failures ts s) = last ts"
  by (induction ts rule: rev_induct) (simp_all add: failure_time)

text \<open>While the breaker cools down no call is admitted and asking does not change it.\<close>

lemma outage_refused:
  assumes "threshold \<le> length ts" "ts \<noteq> []" "now - last ts < timeout"
  shows "admit now (failures ts s) = (False, failures ts s)"
  by (rule refuse) (simp_all add: trips assms failures_time)

lemma asking_is_idle:
  assumes "threshold \<le> length ts" "ts \<noteq> []" "\<forall>now\<in>set nows. now - last ts < timeout"
  shows "foldl (\<lambda>s now. snd (admit now s)) (failures ts s) nows = failures ts s"
  using assms(3) by (induction nows) (simp_all add: outage_refused [OF assms(1,2)])

text \<open>After the cool-down a call is admitted; enough successes close the breaker.\<close>

lemma recovery:
  assumes "threshold \<le> length ts" "ts \<noteq> []" "timeout \<le> now - last ts" "probes \<le> n"
  shows "fst (admit now (failures ts s))" "closed ((success ^^ n) (snd (admit now (failures ts s))))"
    "fst (admit later ((success ^^ n) (snd (admit now (failures ts s)))))"
proof -
  let ?s = "failures ts s"
  have p: "fst (admit now ?s) \<and> \<not> opened (snd (admit now ?s))"
    by (rule probe) (simp_all add: trips assms(1,3) failures_time [OF assms(2)])
  then show "fst (admit now ?s)" by blast
  show c: "closed ((success ^^ n) (snd (admit now ?s)))" using p assms(4) by (blast intro: recovers)
  show "fst (admit later ((success ^^ n) (snd (admit now ?s))))" using pass closed_not_open [OF c] by simp
qed

end

subsection \<open>The breaker of the database and Redis clients\<close>

record breaker =
  br_state :: circuit_state
  br_failures :: nat
  br_lastFailureTime :: time

text \<open>The two values the configuration sets.\<close>

record breaker_config =
  bc_failureThreshold :: nat
  bc_resetTimeoutMs :: time

definition createCircuitBreaker :: breaker where
  "createCircuitBreaker = \<lparr>br_state = CLOSED_STATE, br_failures = 0, br_lastFailureTime = 0\<rparr>"

definition isInfrastructureError :: "host_error \<Rightarrow> bool" where
  "isInfrastructureError err =
     (let code = he_code err; msg = toLowerCase (he_message err) in
      code = ''P1001'' \<or> code = ''P1002'' \<or> code = ''P1008'' \<or> code = ''P1017'' \<or>
      js_includes msg ''connection'' \<or> js_includes msg ''timeout'' \<or> js_includes msg ''econnrefused'' \<or>
      js_includes msg ''enotfound'')"

definition redis_isInfrastructureError :: "host_error \<Rightarrow> bool" where
  "redis_isInfrastructureError err =
     (let msg = toLowerCase (he_message err) in
      js_includes msg ''connection'' \<or> js_includes msg ''timeout'' \<or> js_includes msg ''econnrefused'' \<or>
      js_includes msg ''enotfound'' \<or> js_includes msg ''econnreset'' \<or> js_includes msg ''closed'')"

definition canExecute :: "breaker_config \<Rightarrow> time \<Rightarrow> breaker \<Rightarrow> bool \<times> breaker" where
  "canExecute cfg now b =
     (if br_state b = CLOSED_STATE then (True, b)
      else if br_state b = OPEN_STATE \<and> now - br_lastFailureTime b \<ge> bc_resetTimeoutMs cfg
      then (True, b\<lparr>br_state := HALF_OPEN\<rparr>)
      else (br_state b = HALF_OPEN, b))"

definition recordSuccess :: "breaker \<Rightarrow> breaker" where
  "recordSuccess b = b\<lparr>br_failures := 0, br_state := CLOSED_STATE\<rparr>"

text \<open>\<open>infra\<close> is the answer of \<open>isInfrastructureError\<close> for the error.\<close>

definition recordFailure :: "breaker_config \<Rightarrow> bool \<Rightarrow> time \<Rightarrow> breaker \<Rightarrow> breaker" where
  "recordFailure cfg infra now b =
     (if \<not> infra then b
      else let b1 = b\<lparr>br_failures := br_failures b + 1, br_lastFailureTime := now\<rparr> in
        if br_failures b1 \<ge> bc_failureThreshold cfg \<and> br_state b1 \<noteq> OPEN_STATE
        then b1\<lparr>br_state := OPEN_STATE\<rparr> else b1)"

text \<open>
  One guarded query (\<open>attachMiddleware\<close>, \<open>instrumentClient\<close>) when nothing happens in between:
  \<open>next\<close> is the outcome of the query at the time \<open>done\<close>.
\<close>

definition guarded_query ::
    "breaker_config \<Rightarrow> (host_error \<Rightarrow> bool) \<Rightarrow> host_error \<Rightarrow> time \<Rightarrow> time \<Rightarrow> host_error + 'a \<Rightarrow> breaker \<Rightarrow>
     (host_error + 'a) \<times> breaker" where
  "guarded_query cfg infra openError now done outcome b =
     (case canExecute cfg now b of
        (False, b1) \<Rightarrow> (Inl openError, b1)
      | (True, b1) \<Rightarrow>
          (case outcome of
             Inr x \<Rightarrow> (Inr x, recordSuccess b1)
           | Inl e \<Rightarrow> (Inl e, recordFailure cfg (infra e) done b1)))"

lemma recordFailure_fields:
  "br_lastFailureTime (recordFailure cfg True now b) = now"
  "br_failures (recordFailure cfg True now b) = Suc (br_failures b)"
  "br_state (recordFailure cfg True now b) =
     (if bc_failureThreshold cfg \<le> Suc (br_failures b) then OPEN_STATE else br_state b)"
  by (auto simp: recordFailure_def Let_def)

lemma failures_fields:
  "br_failures (foldl (\<lambda>s t. recordFailure cfg True t s) b ts) = br_failures b + length ts"
  by (induction ts arbitrary: b) (simp_all add: recordFailure_fields)

lemma failures_open:
  assumes "max 1 (bc_failureThreshold cfg) \<le> length ts"
  shows "br_state (foldl (\<lambda>s t. recordFailure cfg True t s) b ts) = OPEN_STATE"
proof (cases ts rule: rev_cases)
  case (snoc us t)
  then show ?thesis using assms by (simp add: recordFailure_fields failures_fields)
qed (use assms in simp)

text \<open>The contract holds for every configuration; one success closes the breaker.\<close>

interpretation client_breaker: circuit_breaker "\<lambda>b. br_state b = OPEN_STATE" "\<lambda>b. br_state b = CLOSED_STATE"
  "canExecute cfg" recordSuccess "recordFailure cfg True" br_lastFailureTime "bc_resetTimeoutMs cfg"
  "max 1 (bc_failureThreshold cfg)" 1
  for cfg
proof unfold_locales
  show "br_state ((recordSuccess ^^ n) s) = CLOSED_STATE" if "1 \<le> n" for n and s :: breaker
    using that by (cases n) (simp_all add: recordSuccess_def)
qed (auto simp: canExecute_def recordFailure_fields failures_open intro: circuit_state.exhaust)

text \<open>The configuration of config/index.js by default: five failures, thirty seconds.\<close>

definition default_breaker :: breaker_config where
  "default_breaker = \<lparr>bc_failureThreshold = 5, bc_resetTimeoutMs = 30000\<rparr>"

subsection \<open>Queries while the database is down\<close>

text \<open>A run of guarded queries: the start time, the end time and the outcome of each.\<close>

fun guarded_run ::
    "breaker_config \<Rightarrow> (host_error \<Rightarrow> bool) \<Rightarrow> host_error \<Rightarrow> (time \<times> time \<times> (host_error + 'a)) list \<Rightarrow> breaker \<Rightarrow>
     (host_error + 'a) list \<times> breaker" where
  "guarded_run cfg infra openError [] b = ([], b)"
| "guarded_run cfg infra openError ((now, done, x) # qs) b =
     (case guarded_query cfg infra openError now done x b of
        (r, b1) \<Rightarrow> (case guarded_run cfg infra openError qs b1 of (rs, b2) \<Rightarrow> (r # rs, b2)))"

text \<open>
  C25. The database and Redis breakers. From any state, once infrastructure errors have been
  recorded as often as the threshold says with no success in between, every query that starts
  before the reset timeout has passed since the last of them is refused at once and changes
  nothing; the first query after that is let through, and if it succeeds the breaker is closed
  with its failure count back at zero. An error of any other kind leaves the breaker as it is.
\<close>

theorem breaker_outage_and_recovery:
  assumes "max 1 (bc_failureThreshold cfg) \<le> length ts"
  shows "((\<forall>e\<in>set qs. fst e - last ts < bc_resetTimeoutMs cfg) \<longrightarrow>
      guarded_run cfg infra openError qs (foldl (\<lambda>b t. recordFailure cfg True t b) b ts) =
        (replicate (length qs) (Inl openError), foldl (\<lambda>b t. recordFailure cfg True t b) b ts)) \<and>
    (bc_resetTimeoutMs cfg \<le> now - last ts \<longrightarrow>
      guarded_query cfg infra openError now done (Inr x) (foldl (\<lambda>b t. recordFailure cfg True t b) b ts) =
        (Inr x, \<lparr>br_state = CLOSED_STATE, br_failures = 0, br_lastFailureTime = last ts\<rparr>)) \<and>
    (\<not> infra e \<longrightarrow> br_state b0 \<noteq> OPEN_STATE \<longrightarrow>
      guarded_query cfg infra openError now done (Inl e) b0 = (Inl e, b0))"
proof -
  let ?b = "foldl (\<lambda>b t. recordFailure cfg True t b) b ts"
  have ne: "ts \<noteq> []" using assms by auto
  have refused: "canExecute cfg n ?b = (False, ?b)" if "n - last ts < bc_resetTimeoutMs cfg" for n
    using client_breaker.outage_refused [OF assms ne that] .
  have c1: "guarded_run cfg infra openError qs ?b = (replicate (length qs) (Inl openError), ?b)"
    if "\<forall>e\<in>set qs. fst e - last ts < bc_resetTimeoutMs cfg"
    using that
  proof (induction qs)
    case (Cons q qs)
    obtain n d r where "q = (n, d, r)" by (cases q)
    then show ?case using Cons refused [of n] by (simp add: guarded_query_def)
  qed simp
  have c2: "guarded_query cfg infra openError now done (Inr x) ?b =
        (Inr x, \<lparr>br_state = CLOSED_STATE, br_failures = 0, br_lastFailureTime = last ts\<rparr>)"
    if "bc_resetTimeoutMs cfg \<le> now - last ts"
    using that failures_open [OF assms, of b] client_breaker.failures_time [OF ne, of cfg b]
    by (simp add: guarded_query_def canExecute_def recordSuccess_def breaker.defs)
  have c3: "guarded_query cfg infra openError now done (Inl e) b0 = (Inl e, b0)"
    if "\<not> infra e" "br_state b0 \<noteq> OPEN_STATE"
    using that by (cases "br_state b0") (simp_all add: guarded_query_def canExecute_def recordFailure_def)
  show ?thesis using c1 c2 c3 by blast
qed

definition example_error :: host_error where
  "example_error = \<lparr>he_code = ''P1001'', he_message = ''no server''\<rparr>"

theorem breaker_outage_and_recovery_witness:
  "guarded_run default_breaker isInfrastructureError \<lparr>he_code = [], he_message = ''open''\<rparr> [(100, 101, Inr True), (20000, 20001, Inr True)]
     (foldl (\<lambda>b t. recordFailure default_breaker True t b) createCircuitBreaker [1, 2, 3, 4, 5]) =
   (replicate 2 (Inl \<lparr>he_code = [], he_message = ''open''\<rparr>),
    foldl (\<lambda>b t. recordFailure default_breaker True t b) createCircuitBreaker [1, 2, 3, 4, 5]) \<and>
   isInfrastructureError example_error"
proof -
  have "max 1 (bc_failureThreshold default_breaker) \<le> length [1, 2, 3, 4, 5 :: time]"
    by (simp add: default_breaker_def)
  from breaker_outage_and_recovery [OF this, THEN conjunct1, of "[(100, 101, Inr True), (20000, 20001, Inr True)]"
      isInfrastructureError "\<lparr>he_code = [], he_message = ''open''\<rparr>" createCircuitBreaker]
  show ?thesis by (simp add: default_breaker_def isInfrastructureError_def example_error_def Let_def numeral_2_eq_2)
qed

subsection \<open>The breaker of the chatbot service (chatbot.circuit.js)\<close>

record chatbot_circuit =
  cc_state :: circuit_state
  cc_failures :: nat
  cc_successes :: nat
  cc_lastFailureTime :: time

record circuit_options =
  co_failureThreshold :: nat
  co_successThreshold :: nat
  co_recoveryTimeout :: time

definition new_circuit :: chatbot_circuit where
  "new_circuit = \<lparr>cc_state = CLOSED_STATE, cc_failures = 0, cc_successes = 0, cc_lastFailureTime = 0\<rparr>"

definition chatbotCircuit :: circuit_options where
  "chatbotCircuit = \<lparr>co_failureThreshold = 5, co_successThreshold = 2, co_recoveryTimeout = 30000\<rparr>"

definition remainingOpenMs :: "circuit_options \<Rightarrow> time \<Rightarrow> chatbot_circuit \<Rightarrow> int" where
  "remainingOpenMs opts now c =
     (if cc_state c \<noteq> OPEN_STATE then 0
      else max 0 (co_recoveryTimeout opts - (now - cc_lastFailureTime c)))"

text \<open>The part of \<open>fire\<close> before the call: false is a CircuitOpenError.\<close>

definition fire_start :: "circuit_options \<Rightarrow> time \<Rightarrow> chatbot_circuit \<Rightarrow> bool \<times> chatbot_circuit" where
  "fire_start opts now c =
     (if cc_state c = OPEN_STATE
      then if remainingOpenMs opts now c > 0 then (False, c)
           else (True, c\<lparr>cc_state := HALF_OPEN, cc_successes := 0\<rparr>)
      else (True, c))"

definition onSuccess :: "circuit_options \<Rightarrow> chatbot_circuit \<Rightarrow> chatbot_circuit" where
  "onSuccess opts c =
     (let c1 = c\<lparr>cc_failures := 0\<rparr> in
      if cc_state c1 = HALF_OPEN
      then let c2 = c1\<lparr>cc_successes := cc_successes c1 + 1\<rparr> in
        if cc_successes c2 \<ge> co_successThreshold opts
        then c2\<lparr>cc_state := CLOSED_STATE, cc_successes := 0\<rparr> else c2
      else c1)"

definition onFailure :: "circuit_options \<Rightarrow> time \<Rightarrow> chatbot_circuit \<Rightarrow> chatbot_circuit" where
  "onFailure opts now c =
     (let c1 = c\<lparr>cc_lastFailureTime := now\<rparr> in
      if cc_state c1 = HALF_OPEN then c1\<lparr>cc_state := OPEN_STATE, cc_successes := 0\<rparr>
      else let c2 = c1\<lparr>cc_failures := cc_failures c1 + 1\<rparr> in
        if cc_failures c2 \<ge> co_failureThreshold opts then c2\<lparr>cc_state := OPEN_STATE\<rparr> else c2)"

lemma onFailure_time [simp]: "cc_lastFailureTime (onFailure opts t c) = t"
  by (simp add: onFailure_def Let_def)

lemma onFailure_stays_open [simp]: "cc_state c = OPEN_STATE \<Longrightarrow> cc_state (onFailure opts t c) = OPEN_STATE"
  by (simp add: onFailure_def Let_def)

lemma chatbot_failures_open: "cc_state c = OPEN_STATE \<Longrightarrow> cc_state (foldl (\<lambda>s t. onFailure opts t s) c ts) = OPEN_STATE"
  by (induction ts arbitrary: c) simp_all

lemma chatbot_trips:
  "max 1 (co_failureThreshold opts) \<le> length ts + (if cc_state c = CLOSED_STATE then cc_failures c else 0) \<Longrightarrow>
     ts \<noteq> [] \<Longrightarrow> cc_state (foldl (\<lambda>s t. onFailure opts t s) c ts) = OPEN_STATE"
proof (induction ts arbitrary: c)
  case (Cons t ts)
  show ?case
  proof (cases "cc_state (onFailure opts t c) = OPEN_STATE")
    case True
    then show ?thesis by (simp add: chatbot_failures_open)
  next
    case False
    then have c: "cc_state c = CLOSED_STATE" "cc_state (onFailure opts t c) = CLOSED_STATE"
      "cc_failures (onFailure opts t c) = Suc (cc_failures c)" "Suc (cc_failures c) < co_failureThreshold opts"
      by (cases "cc_state c"; simp add: onFailure_def Let_def split: if_splits)+
    then have "ts \<noteq> []" using Cons.prems by auto
    then show ?thesis using Cons.IH [of "onFailure opts t c"] Cons.prems c by simp
  qed
qed simp

lemma chatbot_recovers:
  "cc_state c \<noteq> OPEN_STATE \<Longrightarrow>
     max 1 (co_successThreshold opts) \<le> n + (if cc_state c = HALF_OPEN then cc_successes c else n) \<Longrightarrow>
     0 < n \<or> cc_state c = CLOSED_STATE \<Longrightarrow> cc_state ((onSuccess opts ^^ n) c) = CLOSED_STATE"
proof (induction n arbitrary: c)
  case 0
  then show ?case by simp
next
  case (Suc n)
  have closed: "cc_state d = CLOSED_STATE \<Longrightarrow> cc_state ((onSuccess opts ^^ m) d) = CLOSED_STATE" for d m
    by (induction m arbitrary: d) (simp_all add: onSuccess_def Let_def funpow_swap1)
  have step: "(onSuccess opts ^^ Suc n) c = (onSuccess opts ^^ n) (onSuccess opts c)" by (simp add: funpow_swap1)
  show ?case
  proof (cases "cc_state (onSuccess opts c) = CLOSED_STATE")
    case True
    then show ?thesis unfolding step by (rule closed)
  next
    case False
    then have c: "cc_state c = HALF_OPEN" "cc_state (onSuccess opts c) = HALF_OPEN"
      "cc_successes (onSuccess opts c) = Suc (cc_successes c)" "Suc (cc_successes c) < co_successThreshold opts"
      using Suc.prems(1) by (cases "cc_state c"; simp add: onSuccess_def Let_def split: if_splits)+
    then show ?thesis unfolding step using Suc.prems by (intro Suc.IH) auto
  qed
qed

interpretation chatbot_breaker: circuit_breaker "\<lambda>c. cc_state c = OPEN_STATE" "\<lambda>c. cc_state c = CLOSED_STATE"
  "fire_start opts" "onSuccess opts" "onFailure opts" cc_lastFailureTime "co_recoveryTimeout opts"
  "max 1 (co_failureThreshold opts)" "max 1 (co_successThreshold opts)"
  for opts
proof unfold_locales
  show "cc_state (foldl (\<lambda>s t. onFailure opts t s) s ts) = OPEN_STATE" if "max 1 (co_failureThreshold opts) \<le> length ts" for s ts
    using that by (intro chatbot_trips) (auto split: if_splits)
  show "cc_state ((onSuccess opts ^^ n) s) = CLOSED_STATE"
    if "cc_state s \<noteq> OPEN_STATE" "max 1 (co_successThreshold opts) \<le> n" for s n
    using that by (intro chatbot_recovers) auto
qed (auto simp: fire_start_def remainingOpenMs_def)

text \<open>Calls that start one after another, before the outcome of any of them is known.\<close>

fun fire_starts :: "circuit_options \<Rightarrow> time list \<Rightarrow> chatbot_circuit \<Rightarrow> bool list \<times> chatbot_circuit" where
  "fire_starts opts [] c = ([], c)"
| "fire_starts opts (t # ts) c =
     (case fire_start opts t c of (a, c1) \<Rightarrow> (case fire_starts opts ts c1 of (as, c2) \<Rightarrow> (a # as, c2)))"

lemma fire_starts_refused:
  "\<forall>n\<in>set nows. fire_start opts n c = (False, c) \<Longrightarrow> fire_starts opts nows c = (replicate (length nows) False, c)"
  by (induction nows) simp_all

lemma fire_starts_admitted:
  "cc_state c \<noteq> OPEN_STATE \<Longrightarrow> fire_starts opts nows c = (replicate (length nows) True, c)"
  by (induction nows) (simp_all add: fire_start_def)

text \<open>
  The breaker of the chatbot service. From any state, after as many failures in a row as the
  threshold says, every call that starts before the recovery timeout has passed since the last
  of them is refused, and asking changes nothing. A call after that is let through as a probe;
  as many successes in a row as the success threshold says close the breaker, while one failure
  opens it again, for a whole recovery timeout from that failure.
\<close>

theorem chatbot_outage_and_recovery:
  assumes "max 1 (co_failureThreshold opts) \<le> length ts"
  shows "((\<forall>n\<in>set nows. n - last ts < co_recoveryTimeout opts) \<longrightarrow>
      fire_starts opts nows (foldl (\<lambda>s t. onFailure opts t s) c0 ts) =
        (replicate (length nows) False, foldl (\<lambda>s t. onFailure opts t s) c0 ts)) \<and>
    (co_recoveryTimeout opts \<le> now - last ts \<longrightarrow>
      fst (fire_start opts now (foldl (\<lambda>s t. onFailure opts t s) c0 ts)) \<and>
      cc_state ((onSuccess opts ^^ max 1 (co_successThreshold opts))
        (snd (fire_start opts now (foldl (\<lambda>s t. onFailure opts t s) c0 ts)))) = CLOSED_STATE) \<and>
    (co_recoveryTimeout opts \<le> now - last ts \<longrightarrow> later - t < co_recoveryTimeout opts \<longrightarrow>
      fire_start opts later (onFailure opts t (snd (fire_start opts now (foldl (\<lambda>s t. onFailure opts t s) c0 ts)))) =
        (False, onFailure opts t (snd (fire_start opts now (foldl (\<lambda>s t. onFailure opts t s) c0 ts)))))"
proof -
  let ?c = "foldl (\<lambda>s t. onFailure opts t s) c0 ts"
  have ne: "ts \<noteq> []" using assms(1) by auto
  have c1: "fire_starts opts nows ?c = (replicate (length nows) False, ?c)"
    if "\<forall>n\<in>set nows. n - last ts < co_recoveryTimeout opts"
    using that chatbot_breaker.outage_refused [OF assms(1) ne]
    by (intro fire_starts_refused) blast
  have c2: "fst (fire_start opts now ?c) \<and>
      cc_state ((onSuccess opts ^^ max 1 (co_successThreshold opts)) (snd (fire_start opts now ?c))) = CLOSED_STATE"
    if "co_recoveryTimeout opts \<le> now - last ts"
    using chatbot_breaker.recovery(1,2) [OF assms(1) ne that order_refl] by blast
  have c3: "fire_start opts later (onFailure opts t (snd (fire_start opts now ?c))) =
        (False, onFailure opts t (snd (fire_start opts now ?c)))"
    if "co_recoveryTimeout opts \<le> now - last ts" "later - t < co_recoveryTimeout opts"
  proof (rule chatbot_breaker.refuse)
    have "cc_state ?c = OPEN_STATE" using assms(1) by (rule chatbot_breaker.trips)
    then have "cc_state (snd (fire_start opts now ?c)) = HALF_OPEN"
      using that(1) chatbot_breaker.failures_time [OF ne, of opts c0]
      by (simp add: fire_start_def remainingOpenMs_def)
    then show "cc_state (onFailure opts t (snd (fire_start opts now ?c))) = OPEN_STATE"
      by (simp add: onFailure_def Let_def)
  qed (use that in simp)
  show ?thesis using c1 c2 c3 by blast
qed

theorem chatbot_outage_and_recovery_witness:
  "fire_starts chatbotCircuit [6, 1000, 29000] (foldl (\<lambda>s t. onFailure chatbotCircuit t s) new_circuit [1, 2, 3, 4, 5]) =
     (replicate (length [6, 1000, 29000 :: int]) False,
      foldl (\<lambda>s t. onFailure chatbotCircuit t s) new_circuit [1, 2, 3, 4, 5])"
  by (rule chatbot_outage_and_recovery [THEN conjunct1, THEN mp]) (simp_all add: chatbotCircuit_def)

text \<open>
  In HALF_OPEN any number of calls go through, not one: after the recovery timeout, all
  calls that start before the first outcome is recorded are let through. An outcome that
  arrives while the breaker is open never closes it, and a late failure starts the recovery
  timeout anew.
\<close>

theorem half_open_admits_all:
  assumes "cc_state c = OPEN_STATE" "co_recoveryTimeout opts \<le> now - cc_lastFailureTime c"
  shows "fst (fire_starts opts (now # nows) c) = replicate (Suc (length nows)) True \<and>
    cc_state (onSuccess opts c) = OPEN_STATE \<and> cc_state (onFailure opts t c) = OPEN_STATE \<and>
    remainingOpenMs opts t (onFailure opts t c) = max 0 (co_recoveryTimeout opts)"
proof -
  have "fire_start opts now c = (True, c\<lparr>cc_state := HALF_OPEN, cc_successes := 0\<rparr>)"
    using assms by (simp add: fire_start_def remainingOpenMs_def)
  then have c1: "fst (fire_starts opts (now # nows) c) = replicate (Suc (length nows)) True"
    by (simp add: fire_starts_admitted)
  have c2: "cc_state (onSuccess opts c) = OPEN_STATE" using assms(1) by (simp add: onSuccess_def Let_def)
  have c3: "cc_state (onFailure opts t c) = OPEN_STATE" using assms(1) by simp
  then have c4: "remainingOpenMs opts t (onFailure opts t c) = max 0 (co_recoveryTimeout opts)"
    by (simp add: remainingOpenMs_def)
  show ?thesis using c1 c2 c3 c4 by blast
qed

theorem half_open_admits_all_witness:
  "fst (fire_starts chatbotCircuit [40000, 40001, 40002]
     \<lparr>cc_state = OPEN_STATE, cc_failures = 5, cc_successes = 0, cc_lastFailureTime = 5\<rparr>) = [True, True, True]"
  using half_open_admits_all [THEN conjunct1, of "\<lparr>cc_state = OPEN_STATE, cc_failures = 5, cc_successes = 0, cc_lastFailureTime = 5\<rparr>"
      chatbotCircuit 40000 "[40001, 40002]"]
  by (simp add: chatbotCircuit_def numeral_3_eq_3)

end
