(* ===== verification/Connections.thy ===== *)
theory Connections
  imports Circuit_Breaker "HOL-Library.AList"
begin

section \<open>Connections: retries, timeouts, metrics, the registry of clients\<close>

text \<open>
  The rest of config/database.config.js and config/redis.config.js, and the guards of the AI
  provider (ai.retry.js, ai.timeout.js, ai.provider.orchestrator.js). The outcome of the \<open>k\<close>-th
  call of a host function is a function of \<open>k\<close>; the results carry how often the host was called
  and how long the code slept.
\<close>

subsection \<open>Retries (ai.retry.js)\<close>

function withRetry :: "int \<Rightarrow> int \<Rightarrow> (nat \<Rightarrow> 'e + 'a) \<Rightarrow> nat \<Rightarrow> ('e + 'a) \<times> nat \<times> int" where
  "withRetry retriesRemaining delayMs fn k =
     (case fn k of
        Inr x \<Rightarrow> (Inr x, Suc k, 0)
      | Inl error \<Rightarrow>
          if retriesRemaining \<le> 0 then (Inl error, Suc k, 0)
          else case withRetry (retriesRemaining - 1) delayMs fn (Suc k) of
            (r, n, slept) \<Rightarrow> (r, n, delayMs + slept))"
  by pat_completeness auto
termination
  by (relation "measure (\<lambda>(r, _, _, _). nat r)") auto

declare withRetry.simps [simp del]

subsection \<open>Timeouts (ai.timeout.js)\<close>

text \<open>
  A promise settles after some time with a result, or never (\<open>None\<close>). A promise that settles
  in the very millisecond of the timeout is taken as late.
\<close>

definition withTimeout :: "(int \<times> (host_error + 'a)) option \<Rightarrow> int \<Rightarrow> string \<Rightarrow> host_error + 'a" where
  "withTimeout promise timeoutMs timeoutMessage =
     (case promise of
        Some (t, r) \<Rightarrow> if t < timeoutMs then r else Inl \<lparr>he_code = [], he_message = timeoutMessage\<rparr>
      | None \<Rightarrow> Inl \<lparr>he_code = [], he_message = timeoutMessage\<rparr>)"

text \<open>The provider guards of ai.provider.orchestrator.js: every attempt has its own timeout.\<close>

definition executeWithProviderGuards ::
    "int \<Rightarrow> int \<Rightarrow> int \<Rightarrow> (nat \<Rightarrow> (int \<times> (host_error + 'a)) option) \<Rightarrow> string \<Rightarrow> (host_error + 'a) \<times> nat \<times> int" where
  "executeWithProviderGuards timeoutMs retries retryDelayMs fn timeoutMessage =
     withRetry retries retryDelayMs (\<lambda>k. withTimeout (fn k) timeoutMs timeoutMessage) 0"

lemma withRetry_spec:
  assumes "0 \<le> r"
  shows "withRetry r d fn k =
    (if \<exists>j. k \<le> j \<and> j \<le> k + nat r \<and> (\<exists>x. fn j = Inr x)
     then let j = (LEAST j. k \<le> j \<and> (\<exists>x. fn j = Inr x)) in (fn j, Suc j, d * int (j - k))
     else (fn (k + nat r), Suc (k + nat r), d * r))"
  using assms
proof (induction "nat r" arbitrary: r k)
  case 0
  then have r: "r = 0" by simp
  show ?case
  proof (cases "fn k")
    case (Inl e)
    then have no: "\<not> (\<exists>j. k \<le> j \<and> j \<le> k + nat r \<and> (\<exists>x. fn j = Inr x))" by (auto simp: r dest: le_antisym)
    have "withRetry r d fn k = (fn k, Suc k, 0)" using Inl by (subst withRetry.simps) (simp add: r)
    then show ?thesis unfolding if_not_P [OF no] by (simp add: r)
  next
    case (Inr x)
    have "(LEAST j. k \<le> j \<and> (\<exists>x. fn j = Inr x)) = k" by (rule Least_equality) (use Inr in auto)
    moreover have "\<exists>j. k \<le> j \<and> j \<le> k + nat r \<and> (\<exists>x. fn j = Inr x)" using Inr by (auto simp: r)
    ultimately show ?thesis using Inr by (subst withRetry.simps) (simp add: Let_def)
  qed
next
  case (Suc m)
  show ?case
  proof (cases "fn k")
    case (Inr x)
    have "(LEAST j. k \<le> j \<and> (\<exists>x. fn j = Inr x)) = k" by (rule Least_equality) (use Inr in auto)
    moreover have "\<exists>j. k \<le> j \<and> j \<le> k + nat r \<and> (\<exists>x. fn j = Inr x)" using Inr by auto
    ultimately show ?thesis using Inr by (subst withRetry.simps) (simp add: Let_def)
  next
    case (Inl e)
    have m: "m = nat (r - 1)" "0 \<le> r - 1" "0 < r" using Suc.hyps(2) by auto
    have later: "k \<le> j \<and> (\<exists>x. fn j = Inr x) \<longleftrightarrow> Suc k \<le> j \<and> (\<exists>x. fn j = Inr x)" for j
      using Inl by (cases "j = k") auto
    have nr: "k + nat r = Suc k + nat (r - 1)" using m by simp
    have ex: "(\<exists>j. k \<le> j \<and> j \<le> k + nat r \<and> (\<exists>x. fn j = Inr x)) \<longleftrightarrow>
        (\<exists>j. Suc k \<le> j \<and> j \<le> Suc k + nat (r - 1) \<and> (\<exists>x. fn j = Inr x))"
      unfolding nr using later by blast
    let ?j = "LEAST j. Suc k \<le> j \<and> (\<exists>x. fn j = Inr x)"
    have le: "Suc k \<le> ?j" if "\<exists>j. Suc k \<le> j \<and> j \<le> Suc k + nat (r - 1) \<and> (\<exists>x. fn j = Inr x)"
    proof -
      from that obtain j where "Suc k \<le> j \<and> (\<exists>x. fn j = Inr x)" by blast
      from LeastI [of "\<lambda>j. Suc k \<le> j \<and> (\<exists>x. fn j = Inr x)", OF this] show ?thesis by blast
    qed
    have unf: "withRetry r d fn k = (case withRetry (r - 1) d fn (Suc k) of (x, n, sl) \<Rightarrow> (x, n, d + sl))"
      using Inl m(3) by (subst withRetry.simps) simp
    show ?thesis
    proof (cases "\<exists>j. Suc k \<le> j \<and> j \<le> Suc k + nat (r - 1) \<and> (\<exists>x. fn j = Inr x)")
      case True
      have "withRetry (r - 1) d fn (Suc k) = (fn ?j, Suc ?j, d * int (?j - Suc k))"
        using Suc.hyps(1) [OF m(1,2), of "Suc k"] True by (simp only: if_True Let_def)
      moreover have "d + d * int (?j - Suc k) = d * int (?j - k)"
      proof -
        have "?j - k = Suc (?j - Suc k)" using le [OF True] by linarith
        then show ?thesis by (simp add: algebra_simps)
      qed
      ultimately show ?thesis using True ex by (simp only: unf later if_True Let_def prod.case)
    next
      case False
      have "withRetry (r - 1) d fn (Suc k) = (fn (Suc k + nat (r - 1)), Suc (Suc k + nat (r - 1)), d * (r - 1))"
        using Suc.hyps(1) [OF m(1,2), of "Suc k"] False by (simp only: if_False)
      moreover have "d + d * (r - 1) = d * r" by (simp add: algebra_simps)
      ultimately show ?thesis using False ex by (simp only: unf nr if_False prod.case)
    qed
  qed
qed

text \<open>
  C28. Retrying ends. With \<open>r\<close> retries configured, the provider call is attempted at most
  \<open>r + 1\<close> times and \<open>withRetry\<close> returns after finitely many attempts: the result is that of the
  first attempt that succeeds within its timeout, after that many delays, and if none of the
  \<open>r + 1\<close> attempts does, the error of the last one.
\<close>

theorem provider_guards_spec:
  assumes "0 \<le> r"
  shows "executeWithProviderGuards timeoutMs r d fn msg =
    (if \<exists>j\<le>nat r. \<exists>x. withTimeout (fn j) timeoutMs msg = Inr x
     then let j = (LEAST j. \<exists>x. withTimeout (fn j) timeoutMs msg = Inr x)
          in (withTimeout (fn j) timeoutMs msg, Suc j, d * int j)
     else (withTimeout (fn (nat r)) timeoutMs msg, Suc (nat r), d * r)) \<and>
    fst (snd (executeWithProviderGuards timeoutMs r d fn msg)) \<le> nat r + 1"
proof -
  let ?f = "\<lambda>k. withTimeout (fn k) timeoutMs msg"
  have c1: "executeWithProviderGuards timeoutMs r d fn msg =
    (if \<exists>j\<le>nat r. \<exists>x. ?f j = Inr x
     then let j = (LEAST j. \<exists>x. ?f j = Inr x) in (?f j, Suc j, d * int j)
     else (?f (nat r), Suc (nat r), d * r))"
    unfolding executeWithProviderGuards_def withRetry_spec [OF assms]
    by (simp only: le0 add_0 diff_zero simp_thms)
  have "(LEAST j. \<exists>x. ?f j = Inr x) \<le> nat r" if "j \<le> nat r" "?f j = Inr x" for j x
    using Least_le [of "\<lambda>j. \<exists>x. ?f j = Inr x" j] that by fastforce
  then have c2: "fst (snd (executeWithProviderGuards timeoutMs r d fn msg)) \<le> nat r + 1"
    by (auto simp: c1 Let_def)
  show ?thesis by (rule conjI [OF c1 c2])
qed

theorem provider_guards_spec_witness:
  "executeWithProviderGuards 100 2 500 (\<lambda>k. if k = 0 then None else Some (20, Inr ''ok'')) ''late'' =
     (Inr ''ok'', 2, 500)"
proof -
  have "(LEAST j. \<exists>x. withTimeout (if j = 0 then None else Some (20, Inr ''ok'')) 100 ''late'' = Inr x) = (1 :: nat)"
    by (rule Least_equality) (auto simp: withTimeout_def Suc_le_eq split: if_splits)
  then show ?thesis
    by (subst provider_guards_spec [THEN conjunct1]) (auto simp: Let_def withTimeout_def intro!: exI [of _ "1 :: nat"])
qed

subsection \<open>Connecting to the database (database.config.js)\<close>

record connect_metrics =
  cm_success :: nat
  cm_failure :: nat

text \<open>One connect attempt is a promise raced with the connect timeout of ten seconds.\<close>

function connectWithRetry ::
    "(nat \<Rightarrow> (int \<times> (host_error + unit)) option) \<Rightarrow> connect_metrics \<Rightarrow> nat \<Rightarrow>
     (host_error + unit) \<times> connect_metrics \<times> int list" where
  "connectWithRetry connect m attempt =
     (if attempt > 3 then (Inr (), m, [])
      else case withTimeout (connect attempt) 10000 ''Connection timed out after 10000ms'' of
        Inr _ \<Rightarrow> (Inr (), m\<lparr>cm_success := cm_success m + 1\<rparr>, [])
      | Inl error \<Rightarrow>
          let m1 = m\<lparr>cm_failure := cm_failure m + 1\<rparr> in
          if attempt = 3 then (Inl error, m1, [])
          else case connectWithRetry connect m1 (attempt + 1) of
            (r, m2, slept) \<Rightarrow> (r, m2, 1000 * 2 ^ attempt # slept))"
  by pat_completeness auto
termination
  by (relation "measure (\<lambda>(_, _, attempt). 4 - attempt)") auto

declare connectWithRetry.simps [simp del]

text \<open>At most three attempts, with pauses of two and four seconds between them.\<close>

lemma connectWithRetry_attempts:
  "connectWithRetry connect m (Suc 0) = (r, m', slept) \<Longrightarrow>
     cm_success m' + cm_failure m' \<le> cm_success m + cm_failure m + 3 \<and> slept \<in> {[], [2000], [2000, 4000]}"
  by (auto simp: connectWithRetry.simps [of _ _ "Suc 0"] connectWithRetry.simps [of _ _ "Suc (Suc 0)"]
      connectWithRetry.simps [of _ _ "Suc (Suc (Suc 0))"] Let_def numeral_3_eq_3 split: sum.splits prod.splits)

definition getDatabaseUrl :: "string \<Rightarrow> string \<Rightarrow> string option \<Rightarrow> string option \<Rightarrow> string option \<Rightarrow> string \<Rightarrow> string \<Rightarrow> string option" where
  "getDatabaseUrl role nodeEnv testUrl readUrl url poolSize poolTimeout =
     (let base = (if nodeEnv = ''test'' then testUrl
                  else if role = ''read'' then (if truthy readUrl then readUrl else url) else url)
      in if \<not> truthy base then base
         else let sep = (if js_includes (the base) ''?'' then ''&'' else ''?'') in
           Some (the base @ sep @ ''connection_limit='' @ poolSize @ ''&pool_timeout='' @ poolTimeout))"

subsection \<open>Query metrics (createMetrics)\<close>

text \<open>
  A sample is the duration of a query in milliseconds. The percentile indices of the code are
  \<open>Math.floor(len * 0.95)\<close> and alike; for the at most 1000 samples kept, the double product has
  the same integer part as the exact one, which is written here.
\<close>

record db_metrics =
  connectSuccess :: nat
  connectFailure :: nat
  queryCount :: nat
  queryErrors :: nat
  samples :: "int list"
  healthStatus :: "(string \<times> bool option) list"
  circuitStates :: "(string \<times> circuit_state) list"

record metrics_report =
  ms_count :: nat
  ms_errors :: nat
  ms_avg :: int
  ms_p50 :: int
  ms_p95 :: int
  ms_p99 :: int

definition MAX_SAMPLES :: nat where
  "MAX_SAMPLES = 1000"

definition createMetrics :: db_metrics where
  "createMetrics =
     \<lparr>connectSuccess = 0, connectFailure = 0, queryCount = 0, queryErrors = 0, samples = [],
      healthStatus = [(''write'', None), (''read'', None)],
      circuitStates = [(''write'', CLOSED_STATE), (''read'', CLOSED_STATE)]\<rparr>"

definition metrics_query :: "int \<Rightarrow> bool \<Rightarrow> db_metrics \<Rightarrow> db_metrics" where
  "metrics_query ms err m =
     (let pushed = samples m @ [ms] in
      m\<lparr>queryCount := queryCount m + 1,
        queryErrors := (if err then queryErrors m + 1 else queryErrors m),
        samples := (if length pushed > MAX_SAMPLES then drop (length pushed - MAX_SAMPLES) pushed else pushed)\<rparr>)"

text \<open>\<open>Math.round\<close> of a quotient rounds halves up.\<close>

definition round_div :: "int \<Rightarrow> int \<Rightarrow> int" where
  "round_div a b = (2 * a + b) div (2 * b)"

definition metrics_snapshot :: "db_metrics \<Rightarrow> metrics_report" where
  "metrics_snapshot m =
     (let sorted = sort (samples m); len = length sorted; total = sum_list (samples m) in
      \<lparr>ms_count = queryCount m, ms_errors = queryErrors m,
       ms_avg = (if len \<noteq> 0 then round_div total (int len) else 0),
       ms_p50 = (if len \<noteq> 0 then sorted ! (len div 2) else 0),
       ms_p95 = (if len \<noteq> 0 then sorted ! (len * 95 div 100) else 0),
       ms_p99 = (if len \<noteq> 0 then sorted ! (len * 99 div 100) else 0)\<rparr>)"

definition record_all :: "(int \<times> bool) list \<Rightarrow> db_metrics" where
  "record_all qs = fold (\<lambda>(ms, err). metrics_query ms err) qs createMetrics"

lemma record_all_snoc [simp]: "record_all (qs @ [(ms, err)]) = metrics_query ms err (record_all qs)"
  by (simp add: record_all_def)

lemma record_all_samples:
  "samples (record_all qs) = drop (length qs - MAX_SAMPLES) (List.map fst qs) \<and>
   queryCount (record_all qs) = length qs \<and> queryErrors (record_all qs) = length (filter snd qs)"
proof (induction qs rule: rev_induct)
  case (snoc q qs)
  obtain ms err where q: "q = (ms, err)" by (cases q)
  define xs where "xs = List.map fst qs"
  have IH: "samples (record_all qs) = drop (length xs - 1000) xs" using snoc.IH by (simp add: xs_def MAX_SAMPLES_def)
  have "samples (record_all (qs @ [q])) = drop (Suc (length xs) - 1000) (xs @ [ms])"
  proof (cases "length xs < 1000")
    case True
    then show ?thesis by (simp add: q metrics_query_def Let_def IH MAX_SAMPLES_def)
  next
    case False
    then have "Suc (length xs - 1000) = Suc (length xs) - 1000" by simp
    with False show ?thesis by (simp add: q metrics_query_def Let_def IH MAX_SAMPLES_def)
  qed
  moreover have "queryCount (record_all (qs @ [q])) = length (qs @ [q]) \<and>
      queryErrors (record_all (qs @ [q])) = length (filter snd (qs @ [q]))"
    using snoc.IH by (simp add: q metrics_query_def Let_def)
  ultimately show ?case by (simp only: xs_def q) (simp add: MAX_SAMPLES_def)
qed (simp add: record_all_def createMetrics_def)

lemma sort_nth_count:
  assumes "k < length xs"
  shows "k < length (filter (\<lambda>x. x \<le> sort xs ! k) xs)"
    "length xs - k \<le> length (filter (\<lambda>x. sort xs ! k \<le> x) xs)"
proof -
  let ?s = "sort xs"
  have cnt: "length (filter P xs) = length (filter P ?s)" for P
    by (metis filter_sort length_sort)
  have lo: "filter (\<lambda>x. x \<le> ?s ! k) (take (Suc k) ?s) = take (Suc k) ?s"
    using assms by (auto simp: filter_id_conv in_set_conv_nth intro!: sorted_nth_mono)
  have hi: "filter (\<lambda>x. ?s ! k \<le> x) (drop k ?s) = drop k ?s"
    using assms by (auto simp: filter_id_conv in_set_conv_nth intro!: sorted_nth_mono)
  have "length (filter P (take (Suc k) ?s)) \<le> length (filter P ?s)" for P
    using append_take_drop_id [of "Suc k" ?s] by (metis filter_append le_add1 length_append)
  from this [of "\<lambda>x. x \<le> ?s ! k"] show "k < length (filter (\<lambda>x. x \<le> ?s ! k) xs)"
    unfolding cnt lo using assms by simp
  have "length (filter P (drop k ?s)) \<le> length (filter P ?s)" for P
    using append_take_drop_id [of k ?s] by (metis filter_append le_add2 length_append)
  from this [of "\<lambda>x. ?s ! k \<le> x"] show "length xs - k \<le> length (filter (\<lambda>x. ?s ! k \<le> x) xs)"
    unfolding cnt hi by simp
qed

text \<open>
  The query metrics are those of a sliding window. After any sequence of queries the
  counters count all of them and all the failed ones, while the samples are exactly the
  durations of the last thousand, so the memory is bounded. The reported percentiles are
  values of the window in the order \<open>p50 \<le> p95 \<le> p99\<close>, more than 95 percent of the window is at
  most \<open>p95\<close>, and the index computation never leaves the sorted list.
\<close>

lemma metrics_window:
  assumes "qs \<noteq> []"
  shows "ms_count (metrics_snapshot (record_all qs)) = length qs \<and>
    ms_errors (metrics_snapshot (record_all qs)) = length (filter snd qs) \<and>
    samples (record_all qs) = drop (length qs - 1000) (List.map fst qs) \<and>
    length (samples (record_all qs)) \<le> 1000 \<and>
    ms_p50 (metrics_snapshot (record_all qs)) \<le> ms_p95 (metrics_snapshot (record_all qs)) \<and>
    ms_p95 (metrics_snapshot (record_all qs)) \<le> ms_p99 (metrics_snapshot (record_all qs)) \<and>
    ms_p99 (metrics_snapshot (record_all qs)) \<in> set (samples (record_all qs)) \<and>
    length (samples (record_all qs)) * 95 div 100 <
       length (filter (\<lambda>x. x \<le> ms_p95 (metrics_snapshot (record_all qs))) (samples (record_all qs)))"
proof (intro conjI)
  define window where "window = samples (record_all qs)"
  let ?snap = "metrics_snapshot (record_all qs)"
  have w: "window = drop (length qs - 1000) (List.map fst qs)"
    and c: "ms_count ?snap = length qs" "ms_errors ?snap = length (filter snd qs)"
    using record_all_samples [of qs]
    by (simp_all add: window_def metrics_snapshot_def Let_def MAX_SAMPLES_def)
  show "ms_count ?snap = length qs" "ms_errors ?snap = length (filter snd qs)" by (rule c)+
  show "samples (record_all qs) = drop (length qs - 1000) (List.map fst qs)" using w by (simp only: window_def)
  show "length (samples (record_all qs)) \<le> 1000" unfolding window_def [symmetric] by (simp add: w)
  have ne: "length window \<noteq> 0" using assms(1) by (cases "length qs \<le> 1000") (auto simp: w)
  then have p: "ms_p50 ?snap = sort window ! (length window div 2)"
    "ms_p95 ?snap = sort window ! (length window * 95 div 100)"
    "ms_p99 ?snap = sort window ! (length window * 99 div 100)"
    by (simp_all only: metrics_snapshot_def Let_def length_sort if_True if_P not_False_eq_True metrics_report.simps flip: window_def)
  have idx: "length window * 95 div 100 < length window" "length window * 99 div 100 < length window"
    using ne by (auto intro!: less_mult_imp_div_less)
  show "ms_p50 ?snap \<le> ms_p95 ?snap" "ms_p95 ?snap \<le> ms_p99 ?snap"
    unfolding p using idx by (auto intro!: sorted_nth_mono)
  have "sort window ! (length window * 99 div 100) \<in> set (sort window)" using idx by (intro nth_mem) simp
  then show "ms_p99 ?snap \<in> set (samples (record_all qs))" unfolding window_def [symmetric] by (simp add: p)
  show "length (samples (record_all qs)) * 95 div 100 <
      length (filter (\<lambda>x. x \<le> ms_p95 ?snap) (samples (record_all qs)))"
    unfolding window_def [symmetric] p by (rule sort_nth_count) (rule idx)
qed

lemma metrics_window_witness:
  "ms_p50 (metrics_snapshot (record_all [(7, False), (3, True), (5, False)])) = 5 \<and>
   ms_p95 (metrics_snapshot (record_all [(7, False), (3, True), (5, False)])) = 7 \<and>
   ms_errors (metrics_snapshot (record_all [(7, False), (3, True), (5, False)])) = 1"
  using metrics_window [of "[(7, False), (3, True), (5, False)]"]
  by (simp add: record_all_def metrics_query_def createMetrics_def metrics_snapshot_def MAX_SAMPLES_def Let_def)

subsection \<open>The registry of Redis clients (redis.config.js)\<close>

text \<open>
  A client is the number of its creation. The registry is an insertion-ordered map from names
  to clients; the listener of a client's ``end'' event closes over the name it was tracked
  under. \<open>rd_live\<close> are the clients whose connection has not ended and \<open>rd_alerts\<close> the messages
  logged by \<open>trackConnection\<close>.
\<close>

datatype registry_alert = Limit_exceeded | Approaching_limit

record redis_state =
  registry :: "(string \<times> nat) list"
  cacheClientRaw :: "nat option"
  cacheClientProxy :: "nat option"
  queueConnection :: "nat option"
  rd_tracked :: "(nat \<times> string) list"
  rd_live :: "nat list"
  rd_next :: nat
  rd_alerts :: "registry_alert list"

definition redis_init :: redis_state where
  "redis_init = \<lparr>registry = [], cacheClientRaw = None, cacheClientProxy = None, queueConnection = None,
     rd_tracked = [], rd_live = [], rd_next = 0, rd_alerts = []\<rparr>"

text \<open>The pause before the \<open>n\<close>-th reconnect; null gives up.\<close>

definition retryStrategy :: "nat \<Rightarrow> int option" where
  "retryStrategy n = (if n > 10 then None else Some (min (500 * 2 ^ (n - 1)) 30000))"

lemma retryStrategy_bounds: "retryStrategy n = Some d \<Longrightarrow> 500 \<le> d \<and> d \<le> 30000 \<and> n \<le> 10"
  using one_le_power [of "2 :: int" "n - 1"] by (auto simp: retryStrategy_def split: if_splits)

definition trackConnection :: "nat \<Rightarrow> string \<Rightarrow> nat \<Rightarrow> redis_state \<Rightarrow> redis_state" where
  "trackConnection maxConnections name client s =
     (let r = AList.update name client (registry s); total = length r in
      s\<lparr>registry := r, rd_tracked := (client, name) # rd_tracked s,
        rd_alerts := rd_alerts s @
          (if total > maxConnections then [Limit_exceeded]
           else if total > maxConnections * 4 div 5 then [Approaching_limit] else [])\<rparr>)"

definition buildClient :: "string option \<Rightarrow> nat \<Rightarrow> string \<Rightarrow> redis_state \<Rightarrow> nat option \<times> redis_state" where
  "buildClient url maxConnections clientName s =
     (if \<not> truthy url then (None, s)
      else case map_of (registry s) clientName of
        Some c \<Rightarrow> (Some c, s)
      | None \<Rightarrow>
          if length (registry s) \<ge> maxConnections then (None, s)
          else let c = rd_next s in
            (Some c, trackConnection maxConnections clientName c
               (s\<lparr>rd_next := c + 1, rd_live := c # rd_live s\<rparr>)))"

definition getCacheClient :: "string option \<Rightarrow> nat \<Rightarrow> redis_state \<Rightarrow> nat option \<times> redis_state" where
  "getCacheClient url maxConnections s =
     (case cacheClientProxy s of
        Some c \<Rightarrow> (Some c, s)
      | None \<Rightarrow>
          (case buildClient url maxConnections ''cache'' s of
             (None, s1) \<Rightarrow> (None, s1\<lparr>cacheClientRaw := None\<rparr>)
           | (Some c, s1) \<Rightarrow> (Some c, s1\<lparr>cacheClientRaw := Some c, cacheClientProxy := Some c\<rparr>)))"

definition getQueueConnection :: "string option \<Rightarrow> nat \<Rightarrow> redis_state \<Rightarrow> nat option \<times> redis_state" where
  "getQueueConnection url maxConnections s =
     (case queueConnection s of
        Some c \<Rightarrow> (Some c, s)
      | None \<Rightarrow>
          (case buildClient url maxConnections ''queue'' s of (r, s1) \<Rightarrow> (r, s1\<lparr>queueConnection := r\<rparr>)))"

definition createWorkerConnection :: "string option \<Rightarrow> nat \<Rightarrow> string \<Rightarrow> redis_state \<Rightarrow> nat option \<times> redis_state" where
  "createWorkerConnection url maxConnections workerName s =
     buildClient url maxConnections (''worker:'' @ workerName) s"

text \<open>\<open>disconnectRedis\<close> quits every client; those whose \<open>quit\<close> fails are collected and thrown.\<close>

definition disconnectRedis :: "(nat \<Rightarrow> bool) \<Rightarrow> redis_state \<Rightarrow> (nat list + unit) \<times> redis_state" where
  "disconnectRedis quit_fails s =
     (let errors = filter quit_fails (List.map snd (registry s)) in
      ((if errors \<noteq> [] then Inl errors else Inr ()),
       s\<lparr>registry := [], cacheClientRaw := None, cacheClientProxy := None, queueConnection := None\<rparr>))"

datatype redis_event =
    Get_cache | Get_queue | Create_worker string | Client_ended nat | Disconnect "nat \<Rightarrow> bool"

text \<open>The ``end'' listeners of a client, one per name it was tracked under.\<close>

definition client_ended :: "nat \<Rightarrow> redis_state \<Rightarrow> redis_state" where
  "client_ended c s =
     (if c \<in> set (rd_live s) then
        s\<lparr>rd_live := removeAll c (rd_live s),
          registry := filter (\<lambda>e. (c, fst e) \<notin> set (rd_tracked s)) (registry s)\<rparr>
      else s)"

fun redis_step :: "string option \<Rightarrow> nat \<Rightarrow> redis_event \<Rightarrow> redis_state \<Rightarrow> redis_state" where
  "redis_step url mx Get_cache s = snd (getCacheClient url mx s)"
| "redis_step url mx Get_queue s = snd (getQueueConnection url mx s)"
| "redis_step url mx (Create_worker n) s = snd (createWorkerConnection url mx n s)"
| "redis_step url mx (Client_ended c) s = client_ended c s"
| "redis_step url mx (Disconnect f) s = snd (disconnectRedis f s)"

definition registry_ok :: "nat \<Rightarrow> redis_state \<Rightarrow> bool" where
  "registry_ok mx s \<longleftrightarrow> length (registry s) \<le> mx \<and> distinct (List.map fst (registry s)) \<and>
     Limit_exceeded \<notin> set (rd_alerts s) \<and> cacheClientRaw s = cacheClientProxy s"

lemma buildClient_ok:
  assumes "registry_ok mx s"
  shows "registry_ok mx (snd (buildClient url mx n s))"
    "cacheClientRaw (snd (buildClient url mx n s)) = cacheClientRaw s"
    "cacheClientProxy (snd (buildClient url mx n s)) = cacheClientProxy s"
proof -
  have len: "length (AList.update n c (registry s)) = Suc (length (registry s))"
    if "map_of (registry s) n = None" for c
  proof -
    have "n \<notin> fst ` set (registry s)" using that by (simp add: map_of_eq_None_iff)
    then have "List.map fst (AList.update n c (registry s)) = List.map fst (registry s) @ [n]"
      by (simp add: update_keys)
    then show ?thesis by (metis length_append_singleton length_map)
  qed
  show "registry_ok mx (snd (buildClient url mx n s))"
    using assms len
    by (auto simp: buildClient_def trackConnection_def registry_ok_def Let_def distinct_update split: option.splits)
qed (auto simp: buildClient_def trackConnection_def Let_def split: option.splits)

lemma redis_step_ok:
  assumes "registry_ok mx s"
  shows "registry_ok mx (redis_step url mx e s)"
proof (cases e)
  case Get_cache
  obtain r s1 where b: "buildClient url mx ''cache'' s = (r, s1)" by fastforce
  with buildClient_ok [OF assms, of url "''cache''"]
  have "registry_ok mx s1" "cacheClientProxy s1 = cacheClientProxy s" by simp_all
  then show ?thesis using assms
    by (cases r) (auto simp: Get_cache getCacheClient_def b registry_ok_def split: option.splits)
next
  case Get_queue
  obtain r s1 where b: "buildClient url mx ''queue'' s = (r, s1)" by fastforce
  with buildClient_ok [OF assms, of url "''queue''"] have "registry_ok mx s1" by simp
  then show ?thesis using assms
    by (auto simp: Get_queue getQueueConnection_def b registry_ok_def split: option.splits)
next
  case (Create_worker n)
  then show ?thesis using buildClient_ok [OF assms] by (simp add: createWorkerConnection_def)
next
  case (Client_ended c)
  have "length (filter P (registry s)) \<le> mx" for P
    using assms by (auto simp: registry_ok_def intro: order_trans [OF length_filter_le])
  then show ?thesis using assms by (auto simp: Client_ended client_ended_def registry_ok_def distinct_map_filter)
next
  case (Disconnect f)
  then show ?thesis using assms by (simp add: disconnectRedis_def registry_ok_def Let_def)
qed

text \<open>
  The registry of Redis clients is bounded. Whatever clients are asked for, end or are shut
  down, in whatever order, the registry never holds more than the configured number of clients
  nor a name twice, the alert ``connection limit exceeded'' of \<open>trackConnection\<close> is never logged,
  and once there is a cache client, asking again returns the same one and changes nothing.
\<close>

theorem redis_registry_bounded:
  "length (registry (fold (redis_step url mx) evs redis_init)) \<le> mx \<and>
   distinct (List.map fst (registry (fold (redis_step url mx) evs redis_init))) \<and>
   Limit_exceeded \<notin> set (rd_alerts (fold (redis_step url mx) evs redis_init)) \<and>
   (\<forall>c s1. getCacheClient url mx (fold (redis_step url mx) evs redis_init) = (Some c, s1) \<longrightarrow>
      getCacheClient url mx s1 = (Some c, s1))"
proof -
  have "registry_ok mx (fold (redis_step url mx) evs s)" if "registry_ok mx s" for s
    using that by (induction evs arbitrary: s) (auto intro: redis_step_ok)
  from this [of redis_init] have ok: "registry_ok mx (fold (redis_step url mx) evs redis_init)"
    by (simp add: registry_ok_def redis_init_def)
  have "getCacheClient url mx s1 = (Some c, s1)" if "getCacheClient url mx s = (Some c, s1)" for s c s1
    using that by (auto simp: getCacheClient_def split: option.splits prod.splits)
  then show ?thesis using ok unfolding registry_ok_def by blast
qed

theorem redis_registry_bounded_witness:
  "length (registry (fold (redis_step (Some ''redis://r'') 2)
      [Get_cache, Get_queue, Create_worker ''ai'', Get_cache] redis_init)) \<le> 2 \<and>
   registry (fold (redis_step (Some ''redis://r'') 2)
      [Get_cache, Get_queue, Create_worker ''ai'', Get_cache] redis_init) = [(''cache'', 0), (''queue'', 1)]"
  using redis_registry_bounded [of "Some ''redis://r''" 2 "[Get_cache, Get_queue, Create_worker ''ai'', Get_cache]"]
  by (simp add: redis_init_def getCacheClient_def getQueueConnection_def createWorkerConnection_def
      buildClient_def trackConnection_def Let_def)

text \<open>
  The bound is on the registry, not on the connections. The ``end'' event of a client that
  \<open>disconnectRedis\<close> has quit may arrive after a new client was created under the same name; its
  listener then removes the new client from the registry, and with a limit of one connection two
  are live. A cache client that has ended for good is still the one \<open>getCacheClient\<close> returns.
\<close>

lemma late_end_event_defeats_limit:
  "registry (fold (redis_step (Some ''redis://r'') 1)
      [Get_cache, Disconnect (\<lambda>_. False), Get_cache, Client_ended 0] redis_init) = [] \<and>
   rd_live (fold (redis_step (Some ''redis://r'') 1)
      [Get_cache, Disconnect (\<lambda>_. False), Get_cache, Client_ended 0, Get_queue] redis_init) = [2, 1] \<and>
   (let s = fold (redis_step (Some ''redis://r'') 1) [Get_cache, Client_ended 0] redis_init in
    0 \<notin> set (rd_live s) \<and> fst (getCacheClient (Some ''redis://r'') 1 s) = Some 0)"
  by (simp add: redis_init_def getCacheClient_def getQueueConnection_def disconnectRedis_def client_ended_def
      buildClient_def trackConnection_def Let_def)

end
