(* ===== verification/Org_Policy.thy ===== *)
theory Org_Policy
  imports HF_Data
begin

section \<open>Organization policy: permissions, roles and the role rules\<close>

text \<open>
  modules/organization/org.constants.js (permission names, their details, the default roles),
  org.utils.js (normalisation of permission lists, the permission test and the rules on
  inviting and promoting members) and the request schemas of org.validator.js.
\<close>

subsection \<open>Constants (org.constants.js)\<close>

definition PERMISSIONS :: "(string \<times> string) list" where
  "PERMISSIONS = [
     (''ORG_UPDATE'', ''org:update''),
     (''ORG_DELETE'', ''org:delete''),
     (''ORG_INVITE_MEMBER'', ''org:invite_member''),
     (''ORG_MANAGE_MEMBER'', ''org:manage_member''),
     (''ORG_VIEW_MEMBERS'', ''org:view_members''),
     (''ROLE_CREATE'', ''role:create''),
     (''ROLE_UPDATE'', ''role:update''),
     (''ROLE_DELETE'', ''role:delete''),
     (''TICKET_VIEW_ALL'', ''ticket:view_all''),
     (''TICKET_EDIT_ALL'', ''ticket:edit_all''),
     (''TICKET_ASSIGN'', ''ticket:assign''),
     (''TICKET_CREATE_INTERNAL_COMMENT'', ''ticket:create_internal_comment''),
     (''TICKET_DELETE_ANY_COMMENT'', ''ticket:delete_any_comment''),
     (''TICKET_DELETE_ANY_ATTACHMENT'', ''ticket:delete_any_attachment''),
     (''AGENT_UPDATE_AVAILABILITY'', ''agent:update_availability''),
     (''AI_MANAGE_CONFIG'', ''ai:manage_config'')]"

abbreviation ORG_UPDATE :: string where "ORG_UPDATE \<equiv> ''org:update''"
abbreviation ORG_DELETE :: string where "ORG_DELETE \<equiv> ''org:delete''"
abbreviation ORG_INVITE_MEMBER :: string where "ORG_INVITE_MEMBER \<equiv> ''org:invite_member''"
abbreviation ORG_MANAGE_MEMBER :: string where "ORG_MANAGE_MEMBER \<equiv> ''org:manage_member''"
abbreviation ORG_VIEW_MEMBERS :: string where "ORG_VIEW_MEMBERS \<equiv> ''org:view_members''"
abbreviation ROLE_CREATE :: string where "ROLE_CREATE \<equiv> ''role:create''"
abbreviation ROLE_UPDATE :: string where "ROLE_UPDATE \<equiv> ''role:update''"
abbreviation ROLE_DELETE :: string where "ROLE_DELETE \<equiv> ''role:delete''"
abbreviation TICKET_VIEW_ALL :: string where "TICKET_VIEW_ALL \<equiv> ''ticket:view_all''"
abbreviation TICKET_EDIT_ALL :: string where "TICKET_EDIT_ALL \<equiv> ''ticket:edit_all''"
abbreviation TICKET_ASSIGN :: string where "TICKET_ASSIGN \<equiv> ''ticket:assign''"
abbreviation TICKET_CREATE_INTERNAL_COMMENT :: string where "TICKET_CREATE_INTERNAL_COMMENT \<equiv> ''ticket:create_internal_comment''"
abbreviation TICKET_DELETE_ANY_COMMENT :: string where "TICKET_DELETE_ANY_COMMENT \<equiv> ''ticket:delete_any_comment''"
abbreviation TICKET_DELETE_ANY_ATTACHMENT :: string where "TICKET_DELETE_ANY_ATTACHMENT \<equiv> ''ticket:delete_any_attachment''"
abbreviation AGENT_UPDATE_AVAILABILITY :: string where "AGENT_UPDATE_AVAILABILITY \<equiv> ''agent:update_availability''"
abbreviation AI_MANAGE_CONFIG :: string where "AI_MANAGE_CONFIG \<equiv> ''ai:manage_config''"

definition ALL_PERMISSIONS :: "string list" where
  "ALL_PERMISSIONS = List.map snd PERMISSIONS"

record permission_detail =
  pd_name :: string
  pd_description :: string
  pd_resource :: string
  pd_action :: string

definition PERMISSION_DETAILS :: "(string \<times> permission_detail) list" where
  "PERMISSION_DETAILS = [
     (ORG_UPDATE, \<lparr>pd_name = ORG_UPDATE, pd_description = ''Update organization settings'',
       pd_resource = ''org'', pd_action = ''update''\<rparr>),
     (ORG_DELETE, \<lparr>pd_name = ORG_DELETE, pd_description = ''Delete the organization'',
       pd_resource = ''org'', pd_action = ''delete''\<rparr>),
     (ORG_INVITE_MEMBER, \<lparr>pd_name = ORG_INVITE_MEMBER, pd_description = ''Invite members to the organization'',
       pd_resource = ''org'', pd_action = ''invite_member''\<rparr>),
     (ORG_MANAGE_MEMBER, \<lparr>pd_name = ORG_MANAGE_MEMBER, pd_description = ''Manage organization members'',
       pd_resource = ''org'', pd_action = ''manage_member''\<rparr>),
     (ORG_VIEW_MEMBERS, \<lparr>pd_name = ORG_VIEW_MEMBERS, pd_description = ''View organization members'',
       pd_resource = ''org'', pd_action = ''view_members''\<rparr>),
     (ROLE_CREATE, \<lparr>pd_name = ROLE_CREATE, pd_description = ''Create custom roles'',
       pd_resource = ''role'', pd_action = ''create''\<rparr>),
     (ROLE_UPDATE, \<lparr>pd_name = ROLE_UPDATE, pd_description = ''Update custom roles'',
       pd_resource = ''role'', pd_action = ''update''\<rparr>),
     (ROLE_DELETE, \<lparr>pd_name = ROLE_DELETE, pd_description = ''Delete custom roles'',
       pd_resource = ''role'', pd_action = ''delete''\<rparr>),
     (TICKET_VIEW_ALL, \<lparr>pd_name = TICKET_VIEW_ALL, pd_description = ''View all organization tickets'',
       pd_resource = ''ticket'', pd_action = ''view_all''\<rparr>),
     (TICKET_EDIT_ALL, \<lparr>pd_name = TICKET_EDIT_ALL, pd_description = ''Edit all organization tickets'',
       pd_resource = ''ticket'', pd_action = ''edit_all''\<rparr>),
     (TICKET_ASSIGN, \<lparr>pd_name = TICKET_ASSIGN, pd_description = ''Assign organization tickets'',
       pd_resource = ''ticket'', pd_action = ''assign''\<rparr>),
     (TICKET_CREATE_INTERNAL_COMMENT, \<lparr>pd_name = TICKET_CREATE_INTERNAL_COMMENT, pd_description = ''Create internal ticket comments'',
       pd_resource = ''ticket'', pd_action = ''create_internal_comment''\<rparr>),
     (TICKET_DELETE_ANY_COMMENT, \<lparr>pd_name = TICKET_DELETE_ANY_COMMENT, pd_description = ''Delete any ticket comment'',
       pd_resource = ''ticket'', pd_action = ''delete_any_comment''\<rparr>),
     (TICKET_DELETE_ANY_ATTACHMENT, \<lparr>pd_name = TICKET_DELETE_ANY_ATTACHMENT, pd_description = ''Delete any ticket attachment'',
       pd_resource = ''ticket'', pd_action = ''delete_any_attachment''\<rparr>),
     (AGENT_UPDATE_AVAILABILITY, \<lparr>pd_name = AGENT_UPDATE_AVAILABILITY, pd_description = ''Update agent availability'',
       pd_resource = ''agent'', pd_action = ''update_availability''\<rparr>),
     (AI_MANAGE_CONFIG, \<lparr>pd_name = AI_MANAGE_CONFIG, pd_description = ''Manage AI configuration'',
       pd_resource = ''ai'', pd_action = ''manage_config''\<rparr>)]"

definition ALL_PERMISSION_DETAILS :: "permission_detail option list" where
  "ALL_PERMISSION_DETAILS = List.map (map_of PERMISSION_DETAILS) ALL_PERMISSIONS"

record role_template =
  rd_name :: string
  rd_level :: int
  rd_isSystem :: bool
  rd_permissions :: "string list"

definition DEFAULT_ROLES :: "role_template list" where
  "DEFAULT_ROLES =
    [\<lparr>rd_name = ''OWNER'', rd_level = 100, rd_isSystem = True, rd_permissions = ALL_PERMISSIONS\<rparr>,
     \<lparr>rd_name = ''ADMIN'', rd_level = 75, rd_isSystem = True, rd_permissions =
       [ORG_UPDATE, ORG_INVITE_MEMBER, ORG_MANAGE_MEMBER, ORG_VIEW_MEMBERS,
        ROLE_CREATE, ROLE_UPDATE, ROLE_DELETE,
        TICKET_VIEW_ALL, TICKET_EDIT_ALL, TICKET_ASSIGN, TICKET_CREATE_INTERNAL_COMMENT,
        TICKET_DELETE_ANY_COMMENT, TICKET_DELETE_ANY_ATTACHMENT, AI_MANAGE_CONFIG]\<rparr>,
     \<lparr>rd_name = ''AGENT'', rd_level = 50, rd_isSystem = True, rd_permissions =
       [ORG_VIEW_MEMBERS, TICKET_VIEW_ALL, TICKET_EDIT_ALL, TICKET_ASSIGN,
        TICKET_CREATE_INTERNAL_COMMENT, TICKET_DELETE_ANY_COMMENT,
        TICKET_DELETE_ANY_ATTACHMENT, AGENT_UPDATE_AVAILABILITY]\<rparr>,
     \<lparr>rd_name = ''MEMBER'', rd_level = 10, rd_isSystem = True, rd_permissions =
       [ORG_VIEW_MEMBERS]\<rparr>]"

subsection \<open>Permission lists (org.utils.js)\<close>

text \<open>
  A permission list reaches the code in several shapes: an array of strings, an array of
  objects with a \<open>name\<close> or a nested \<open>permission.name\<close> (a row of the join table), or something
  that is not an array. \<open>PObject n p\<close> is an object whose \<open>name\<close> is the string \<open>n\<close> (\<open>None\<close>: not a
  string) and whose \<open>permission?.name\<close> is the string \<open>p\<close>; \<open>PNull\<close> is null or undefined.
\<close>

datatype perm_entry =
    PString string
  | PObject "string option" "string option"
  | PNull

datatype perm_arg =
    Undefined
  | NotAnArray
  | PArray "perm_entry list"

fun permission_value :: "perm_entry \<Rightarrow> string option" where
  "permission_value (PString p) = Some p"
| "permission_value (PObject (Some n) _) = Some n"
| "permission_value (PObject None (Some n)) = Some n"
| "permission_value (PObject None None) = None"
| "permission_value PNull = None"

fun extractPermissionValues :: "perm_arg \<Rightarrow> string list" where
  "extractPermissionValues Undefined = []"
| "extractPermissionValues NotAnArray = []"
| "extractPermissionValues (PArray es) =
     List.map the (List.filter truthy (List.map permission_value es))"

definition strings_arg :: "string list option \<Rightarrow> perm_arg" where
  "strings_arg ps = (case ps of None \<Rightarrow> Undefined | Some l \<Rightarrow> PArray (List.map PString l))"

text \<open>A role row of the database carries \<open>rolePermissions\<close>, a list of join rows.\<close>

definition join_rows :: "string list \<Rightarrow> perm_arg" where
  "join_rows ps = PArray (List.map (\<lambda>p. PObject None (Some p)) ps)"

definition normalizeRolePermissions :: "org_role \<Rightarrow> role_view" where
  "normalizeRolePermissions r =
     \<lparr>rv_id = r_id r, rv_organizationId = r_organizationId r, rv_name = r_name r,
      rv_level = r_level r, rv_isSystem = r_isSystem r,
      rv_permissions = extractPermissionValues (join_rows (r_rolePermissions r))\<rparr>"

definition hasPermission :: "role_view option \<Rightarrow> string \<Rightarrow> bool" where
  "hasPermission role permission =
     (permission \<in> set (extractPermissionValues (strings_arg (map_option rv_permissions role))))"

definition hasAllPermissions :: "role_view option \<Rightarrow> string list \<Rightarrow> bool" where
  "hasAllPermissions role ps = list_all (\<lambda>p. hasPermission role p) ps"

definition assertHasPermission ::
    "role_view option \<Rightarrow> string \<Rightarrow> string option \<Rightarrow> string option \<Rightarrow> unit result" where
  "assertHasPermission role permission message code =
     (if \<not> hasPermission role permission
      then Inl (ApiError 403
        (if truthy message then the message
         else ''You do not have permission to perform this action'')
        (if truthy code then the code else ''FORBIDDEN''))
      else Inr ())"

subsection \<open>Role rules (org.utils.js)\<close>

definition assertCanInviteRole :: "role_view \<Rightarrow> role_view \<Rightarrow> unit result" where
  "assertCanInviteRole actorRole targetRole =
     (if \<not> hasPermission (Some actorRole) ORG_INVITE_MEMBER
      then Inl (ApiError 403 ''You do not have permission to invite members'' ''INVITE_FORBIDDEN'')
      else if rv_level targetRole \<ge> rv_level actorRole
      then Inl (ApiError 403
        ''You cannot invite a member with a role equal to or higher than yours'' ''INVITE_FORBIDDEN'')
      else Inr ())"

definition assertCanUpdateRole ::
    "membership_view \<Rightarrow> membership_view \<Rightarrow> role_view \<Rightarrow> unit result" where
  "assertCanUpdateRole actorMembership targetMembership nextRole =
     (if \<not> hasPermission (mv_role actorMembership) ORG_MANAGE_MEMBER
      then Inl (ApiError 403 ''You do not have permission to update roles'' ''ROLE_UPDATE_FORBIDDEN'')
      else if m_userId actorMembership = m_userId targetMembership
      then Inl (ApiError 400 ''You cannot change your own role'' ''SELF_ROLE_CHANGE'')
      else case (mv_role actorMembership, mv_role targetMembership) of
        (Some actorRole, Some targetRole) \<Rightarrow>
          (if rv_level targetRole \<ge> rv_level actorRole
           then Inl (ApiError 403 ''You can only update members with a lower role than yours''
             ''ROLE_UPDATE_FORBIDDEN'')
           else if rv_level nextRole \<ge> rv_level actorRole
           then Inl (ApiError 403 ''You cannot promote a member to your role level or higher''
             ''PROMOTION_FORBIDDEN'')
           else if rv_isSystem nextRole \<and> rv_name nextRole = ''OWNER''
           then Inl (ApiError 400 ''Cannot assign OWNER role to a member''
             ''OWNER_ROLE_ASSIGN_FORBIDDEN'')
           else Inr ())
      | _ \<Rightarrow> Inl (JsTypeError ''Cannot read properties of undefined (reading level)''))"

subsection \<open>Request schemas (org.validator.js)\<close>

text \<open>
  What the zod schemas of the role routes accept, on bodies of the right types: the
  constraints the schema adds to them. \<open>uuid\<close> is zod's own test of UUID strings.
\<close>

definition permissionsSchema :: "string list \<Rightarrow> bool" where
  "permissionsSchema ps = (1 \<le> length ps \<and> list_all (\<lambda>p. p \<in> set ALL_PERMISSIONS) ps)"

definition createRoleSchema :: "string \<Rightarrow> string list \<Rightarrow> int \<Rightarrow> bool" where
  "createRoleSchema name ps level =
     (1 \<le> length name \<and> length name \<le> 50 \<and> permissionsSchema ps \<and> 1 \<le> level \<and> level \<le> 99)"

definition updateRoleSchema ::
    "(string \<Rightarrow> bool) \<Rightarrow> string option \<Rightarrow> string list option \<Rightarrow> int option \<Rightarrow> string \<Rightarrow> bool" where
  "updateRoleSchema uuid name ps level roleId =
     ((case name of None \<Rightarrow> True | Some n \<Rightarrow> 1 \<le> length n \<and> length n \<le> 50) \<and>
      (case ps of None \<Rightarrow> True | Some l \<Rightarrow> permissionsSchema l) \<and>
      (case level of None \<Rightarrow> True | Some l \<Rightarrow> 1 \<le> l \<and> l \<le> 99) \<and>
      uuid roleId)"

end
