(* ===== verification/Auth_Repo.thy ===== *)
theory Auth_Repo
  imports Org_Policy
begin

section \<open>Authentication repository (modules/auth/auth.repo.js)\<close>

text \<open>
  Users, refresh tokens and the token blacklist, with the Redis cache in front of them. The
  cache is four maps of the gateway state under the key functions of the source; it is inert
  when \<open>redisUp\<close> is false (the client is null or every call fails and is logged), and an entry
  may vanish at any time (its time to live), which is a step of the environment. A value
  written to Redis is the JSON text of the value: dates are read back as strings.
\<close>

subsection \<open>Cache keys and helpers\<close>

definition userByIdKey :: "string \<Rightarrow> string" where
  "userByIdKey uid = ''auth:user:id:'' @ uid"

definition emailToIdKey :: "string \<Rightarrow> string" where
  "emailToIdKey email = ''auth:user:email-to-id:'' @ email"

definition blacklistKey :: "string \<Rightarrow> string" where
  "blacklistKey jti = ''auth:blacklist:'' @ jti"

definition accessScopeKey :: "string \<Rightarrow> string" where
  "accessScopeKey userId = ''auth:user:scope:'' @ userId"

fun json_date :: "js_date \<Rightarrow> js_date" where
  "json_date (DateObject t) = IsoString t"
| "json_date (IsoString t) = IsoString t"

definition json_user :: "public_user \<Rightarrow> public_user" where
  "json_user u = u\<lparr>pu_createdAt := json_date (pu_createdAt u),
     pu_tokenIssuedAt := map_option json_date (pu_tokenIssuedAt u)\<rparr>"

definition getCachedUser :: "string \<Rightarrow> gateway \<Rightarrow> public_user option" where
  "getCachedUser uid s = (if redisUp s then userCache s (userByIdKey uid) else None)"

definition cacheUser :: "public_user \<Rightarrow> gateway \<Rightarrow> gateway" where
  "cacheUser safe s =
     (if redisUp s
      then s\<lparr>userCache := (userCache s)(userByIdKey (pu_id safe) := Some (json_user safe)),
             emailCache := (emailCache s)(emailToIdKey (pu_email safe) := Some (pu_id safe))\<rparr>
      else s)"

definition invalidateUser :: "string \<Rightarrow> string option \<Rightarrow> gateway \<Rightarrow> gateway" where
  "invalidateUser uid email s =
     (if redisUp s
      then s\<lparr>userCache := (userCache s)(userByIdKey uid := None),
             emailCache := (case email of
                 Some e \<Rightarrow> if e \<noteq> [] then (emailCache s)(emailToIdKey e := None) else emailCache s
               | None \<Rightarrow> emailCache s)\<rparr>
      else s)"

definition stripPassword :: "user \<Rightarrow> public_user" where
  "stripPassword u = \<lparr>pu_id = u_id u, pu_email = u_email u, pu_name = u_name u,
     pu_createdAt = DateObject (u_createdAt u),
     pu_tokenIssuedAt = map_option DateObject (u_tokenIssuedAt u), pu_isDeleted = u_isDeleted u\<rparr>"

definition invalidateUserPermissionSnapshot :: "string \<Rightarrow> gateway \<Rightarrow> gateway" where
  "invalidateUserPermissionSnapshot userId s =
     (if redisUp s then s\<lparr>scopeCache := (scopeCache s)(accessScopeKey userId := None)\<rparr> else s)"

subsection \<open>Users\<close>

definition findUserByEmail :: "string \<Rightarrow> gateway \<Rightarrow> user option \<times> gateway" where
  "findUserByEmail email s =
     (case find_unique (\<lambda>u. u_email u = email) (users s) of
        None \<Rightarrow> (None, s)
      | Some u \<Rightarrow> if u_isDeleted u then (None, s) else (Some u, cacheUser (stripPassword u) s))"

record user_data =
  ud_email :: string
  ud_password :: string
  ud_name :: "string option"

definition user_row :: "user_data \<Rightarrow> time \<Rightarrow> string \<Rightarrow> user" where
  "user_row d now newId = \<lparr>u_id = newId, u_email = ud_email d, u_password = ud_password d,
     u_name = ud_name d, u_createdAt = now, u_tokenIssuedAt = None, u_isDeleted = False\<rparr>"

definition createUser :: "user_data \<Rightarrow> time \<Rightarrow> string \<Rightarrow> gateway \<Rightarrow> user result \<times> gateway" where
  "createUser d now newId s =
     (if \<exists>u\<in>set (users s). u_email u = ud_email d \<or> u_id u = newId then throw (PrismaError ''P2002'') s
      else let u = user_row d now newId in
        return u (cacheUser (stripPassword u) (s\<lparr>users := users s @ [u]\<rparr>)))"

text \<open>The transaction creates both rows or none; the cache is written after the commit.\<close>

definition createUserWithRefreshToken ::
    "user_data \<Rightarrow> string \<Rightarrow> time \<Rightarrow> time \<Rightarrow> string \<Rightarrow> gateway \<Rightarrow> user result \<times> gateway" where
  "createUserWithRefreshToken d token expiresAt now newId s =
     (if \<exists>u\<in>set (users s). u_email u = ud_email d \<or> u_id u = newId then throw (PrismaError ''P2002'') s
      else if \<exists>r\<in>set (refreshTokens s). rt_token r = token then throw (PrismaError ''P2002'') s
      else let u = user_row d now newId in
        return u (cacheUser (stripPassword u)
          (s\<lparr>users := users s @ [u],
             refreshTokens := refreshTokens s @
               [\<lparr>rt_token = token, rt_userId = newId, rt_expiresAt = expiresAt\<rparr>]\<rparr>)))"

definition findUserById :: "string \<Rightarrow> gateway \<Rightarrow> public_user option \<times> gateway" where
  "findUserById uid s =
     (case getCachedUser uid s of
        Some cached \<Rightarrow> (Some cached, s)
      | None \<Rightarrow>
          (case find_unique (\<lambda>u. u_id u = uid) (users s) of
             None \<Rightarrow> (None, s)
           | Some u \<Rightarrow>
               if u_isDeleted u then (None, s)
               else (Some (stripPassword u), cacheUser (stripPassword u) s)))"

text \<open>
  The snapshot is an object keyed by organization id; of two memberships of one organization
  the later one stays (the schema allows one membership per user and organization).
\<close>

definition membership_scope :: "gateway \<Rightarrow> membership \<Rightarrow> access_scope option" where
  "membership_scope s m =
     map_option (\<lambda>r. \<lparr>as_roleId = m_roleId m, as_roleName = r_name r, as_level = r_level r,
       as_permissions = r_rolePermissions r\<rparr>) (find_unique (\<lambda>r. r_id r = m_roleId m) (roles s))"

definition scope_entry :: "gateway \<Rightarrow> membership \<Rightarrow> permission_snapshot \<Rightarrow> permission_snapshot" where
  "scope_entry s m acc =
     (case membership_scope s m of
        None \<Rightarrow> acc
      | Some sc \<Rightarrow> (m_organizationId m, sc) # List.filter (\<lambda>p. fst p \<noteq> m_organizationId m) acc)"

definition db_permission_snapshot :: "string \<Rightarrow> gateway \<Rightarrow> permission_snapshot" where
  "db_permission_snapshot userId s =
     foldl (\<lambda>acc m. scope_entry s m acc) [] (find_many (\<lambda>m. m_userId m = userId) (memberships s))"

definition getUserPermissionSnapshot :: "string \<Rightarrow> gateway \<Rightarrow> permission_snapshot \<times> gateway" where
  "getUserPermissionSnapshot userId s =
     (case (if redisUp s then scopeCache s (accessScopeKey userId) else None) of
        Some cached \<Rightarrow> (cached, s)
      | None \<Rightarrow>
          let snapshot = db_permission_snapshot userId s in
          (snapshot,
           if redisUp s then s\<lparr>scopeCache := (scopeCache s)(accessScopeKey userId := Some snapshot)\<rparr>
           else s))"

definition updateUserTokenIssuedAt :: "string \<Rightarrow> time \<Rightarrow> gateway \<Rightarrow> public_user result \<times> gateway" where
  "updateUserTokenIssuedAt userId now s =
     (case find_unique (\<lambda>u. u_id u = userId) (users s) of
        None \<Rightarrow> throw (PrismaError ''P2025'') s
      | Some u \<Rightarrow>
          let u' = u\<lparr>u_tokenIssuedAt := Some now\<rparr>;
              s1 = s\<lparr>users := update_rows (\<lambda>u. u_id u = userId) (\<lambda>u. u\<lparr>u_tokenIssuedAt := Some now\<rparr>) (users s)\<rparr>;
              s2 = cacheUser (stripPassword u') s1
          in return (stripPassword u') (invalidateUserPermissionSnapshot userId s2))"

definition softDeleteUser :: "string \<Rightarrow> gateway \<Rightarrow> public_user result \<times> gateway" where
  "softDeleteUser userId s =
     (case find_unique (\<lambda>u. u_id u = userId) (users s) of
        None \<Rightarrow> throw (PrismaError ''P2025'') s
      | Some u \<Rightarrow>
          let u' = u\<lparr>u_isDeleted := True\<rparr>;
              s1 = s\<lparr>users := update_rows (\<lambda>u. u_id u = userId) (\<lambda>u. u\<lparr>u_isDeleted := True\<rparr>) (users s)\<rparr>;
              s2 = invalidateUser userId (Some (u_email u)) s1
          in return (stripPassword u') (invalidateUserPermissionSnapshot userId s2))"

subsection \<open>Refresh tokens\<close>

definition createRefreshToken ::
    "string \<Rightarrow> string \<Rightarrow> time \<Rightarrow> gateway \<Rightarrow> refresh_token result \<times> gateway" where
  "createRefreshToken token userId expiresAt s =
     (if \<exists>r\<in>set (refreshTokens s). rt_token r = token then throw (PrismaError ''P2002'') s
      else if find_unique (\<lambda>u. u_id u = userId) (users s) = None then throw (PrismaError ''P2003'') s
      else let r = \<lparr>rt_token = token, rt_userId = userId, rt_expiresAt = expiresAt\<rparr> in
        return r (s\<lparr>refreshTokens := refreshTokens s @ [r]\<rparr>))"

definition findRefreshToken :: "string \<Rightarrow> gateway \<Rightarrow> refresh_token option" where
  "findRefreshToken token s = find_unique (\<lambda>r. rt_token r = token) (refreshTokens s)"

definition deleteRefreshToken :: "string \<Rightarrow> gateway \<Rightarrow> refresh_token result \<times> gateway" where
  "deleteRefreshToken token s =
     (case find_unique (\<lambda>r. rt_token r = token) (refreshTokens s) of
        None \<Rightarrow> throw (PrismaError ''P2025'') s
      | Some r \<Rightarrow> return r (s\<lparr>refreshTokens := delete_rows (\<lambda>r. rt_token r = token) (refreshTokens s)\<rparr>))"

definition deleteUserRefreshTokens :: "string \<Rightarrow> gateway \<Rightarrow> nat result \<times> gateway" where
  "deleteUserRefreshTokens userId s =
     return (length (find_many (\<lambda>r. rt_userId r = userId) (refreshTokens s)))
       (s\<lparr>refreshTokens := delete_rows (\<lambda>r. rt_userId r = userId) (refreshTokens s)\<rparr>)"

subsection \<open>Token blacklist\<close>

text \<open>The cached entry of a revoked token lives as long as the token, at least one second.\<close>

definition blacklist_ttl :: "time \<Rightarrow> time \<Rightarrow> int" where
  "blacklist_ttl expiresAt now = max 1 (- ((now - expiresAt) div 1000))"

definition blacklistToken :: "string \<Rightarrow> time \<Rightarrow> gateway \<Rightarrow> unit result \<times> gateway" where
  "blacklistToken jti expiresAt s =
     (if \<exists>e\<in>set (tokenBlacklist s). fst e = jti then throw (PrismaError ''P2002'') s
      else let s1 = s\<lparr>tokenBlacklist := tokenBlacklist s @ [(jti, expiresAt)]\<rparr> in
        return () (if redisUp s then s1\<lparr>blacklistCache := (blacklistCache s)(blacklistKey jti := True)\<rparr>
                   else s1))"

definition isTokenBlacklisted :: "string \<Rightarrow> gateway \<Rightarrow> bool \<times> gateway" where
  "isTokenBlacklisted jti s =
     (if redisUp s \<and> blacklistCache s (blacklistKey jti) then (True, s)
      else case find_unique (\<lambda>e. fst e = jti) (tokenBlacklist s) of
        None \<Rightarrow> (False, s)
      | Some _ \<Rightarrow> (True, if redisUp s
          then s\<lparr>blacklistCache := (blacklistCache s)(blacklistKey jti := True)\<rparr> else s))"

definition cleanExpiredBlacklistEntries :: "time \<Rightarrow> gateway \<Rightarrow> nat result \<times> gateway" where
  "cleanExpiredBlacklistEntries now s =
     return (length (find_many (\<lambda>e. snd e < now) (tokenBlacklist s)))
       (s\<lparr>tokenBlacklist := delete_rows (\<lambda>e. snd e < now) (tokenBlacklist s)\<rparr>)"

subsection \<open>Lemmas\<close>

lemma cacheUser_tables [simp]: "tables (cacheUser u s) = tables s"
  by (simp add: cacheUser_def tables_def)

lemma invalidateSnapshot_tables [simp]: "tables (invalidateUserPermissionSnapshot u s) = tables s"
  by (simp add: invalidateUserPermissionSnapshot_def)

lemma invalidateSnapshot_membershipCache [simp]:
  "membershipCache (invalidateUserPermissionSnapshot u s) = membershipCache s"
  "redisUp (invalidateUserPermissionSnapshot u s) = redisUp s"
  "emitted (invalidateUserPermissionSnapshot u s) = emitted s"
  by (simp_all add: invalidateUserPermissionSnapshot_def)

lemma invalidateUser_tables [simp]: "tables (invalidateUser i e s) = tables s"
  by (simp add: invalidateUser_def tables_def)

end
