(* ===== verification/Org_Repo.thy ===== *)
theory Org_Repo
  imports Auth_Repo
begin

section \<open>Organization repository and membership cache\<close>

text \<open>
  modules/organization/org.cache.js (the cached memberships) and org.repo.js (organizations,
  memberships and roles). A transaction that throws leaves the tables as they were; the cache
  is written where the source writes it. The unique constraints and foreign keys are those of
  prisma/schema.prisma: P2002 for a duplicate, P2003 for a missing or still referenced row,
  P2025 for a record that is not found.
\<close>

subsection \<open>Membership cache (org.cache.js)\<close>

definition membershipCacheKey :: "string \<Rightarrow> string \<Rightarrow> string" where
  "membershipCacheKey orgId userId = ''org:membership:'' @ orgId @ '':user:'' @ userId"

definition getCachedOrganizationMembership :: "string \<Rightarrow> string \<Rightarrow> gateway \<Rightarrow> membership_view option" where
  "getCachedOrganizationMembership orgId userId s =
     (if redisUp s then membershipCache s (membershipCacheKey orgId userId) else None)"

definition setCachedOrganizationMembership :: "membership_view \<Rightarrow> gateway \<Rightarrow> gateway" where
  "setCachedOrganizationMembership m s =
     (if m_organizationId m = [] \<or> m_userId m = [] then s
      else if \<not> redisUp s then s
      else s\<lparr>membershipCache := (membershipCache s)
               (membershipCacheKey (m_organizationId m) (m_userId m) := Some m)\<rparr>)"

definition invalidateOrganizationMembershipCache :: "string \<Rightarrow> string \<Rightarrow> gateway \<Rightarrow> gateway" where
  "invalidateOrganizationMembershipCache orgId userId s =
     (if redisUp s
      then s\<lparr>membershipCache := (membershipCache s)(membershipCacheKey orgId userId := None)\<rparr> else s)"

text \<open>
  The scan deletes every key that matches \<open>org:membership:<orgId>:user:*\<close>: the keys with that
  prefix (an organization id has no glob character).
\<close>

definition invalidateOrganizationMembershipCacheByOrg :: "string \<Rightarrow> gateway \<Rightarrow> gateway" where
  "invalidateOrganizationMembershipCacheByOrg orgId s =
     (if redisUp s
      then s\<lparr>membershipCache := (\<lambda>k. if prefix (membershipCacheKey orgId []) k then None
                                       else membershipCache s k)\<rparr>
      else s)"

subsection \<open>Rows with their relations\<close>

definition find_organization :: "string \<Rightarrow> gateway \<Rightarrow> organization option" where
  "find_organization orgId s = find_unique (\<lambda>o'. o_id o' = orgId) (organizations s)"

definition find_role :: "string \<Rightarrow> gateway \<Rightarrow> org_role option" where
  "find_role roleId s = find_unique (\<lambda>r. r_id r = roleId) (roles s)"

definition find_membership :: "string \<Rightarrow> string \<Rightarrow> gateway \<Rightarrow> membership option" where
  "find_membership orgId userId s =
     find_unique (\<lambda>m. m_userId m = userId \<and> m_organizationId m = orgId) (memberships s)"

definition find_user :: "string \<Rightarrow> gateway \<Rightarrow> user option" where
  "find_user uid s = find_unique (\<lambda>u. u_id u = uid) (users s)"

text \<open>
  \<open>normalizeMembershipRole\<close> of a membership read with its role, without and with the relations
  \<open>organization\<close> and \<open>user\<close>.
\<close>

definition normalizeMembershipRole ::
    "gateway \<Rightarrow> organization option \<Rightarrow> user option \<Rightarrow> membership \<Rightarrow> membership_view" where
  "normalizeMembershipRole s org usr m =
     membership.extend m (membership_view.fields
       (map_option normalizeRolePermissions (find_role (m_roleId m) s)) org usr)"

definition with_role :: "gateway \<Rightarrow> membership \<Rightarrow> membership_view" where
  "with_role s m = normalizeMembershipRole s None None m"

definition with_role_and_organization :: "gateway \<Rightarrow> membership \<Rightarrow> membership_view" where
  "with_role_and_organization s m =
     normalizeMembershipRole s (find_organization (m_organizationId m) s) None m"

definition with_role_and_user :: "gateway \<Rightarrow> membership \<Rightarrow> membership_view" where
  "with_role_and_user s m = normalizeMembershipRole s None (find_user (m_userId m) s) m"

definition normalizeOrganization :: "gateway \<Rightarrow> bool \<Rightarrow> organization \<Rightarrow> org_view" where
  "normalizeOrganization s withRoles org =
     organization.extend org (org_view.fields
       (Some (List.map (with_role s) (find_many (\<lambda>m. m_organizationId m = o_id org) (memberships s))))
       (if withRoles
        then Some (List.map normalizeRolePermissions (find_many (\<lambda>r. r_organizationId r = o_id org) (roles s)))
        else None))"

subsection \<open>Helpers\<close>

definition getOrganizationMemberUserIds :: "string \<Rightarrow> gateway \<Rightarrow> string list" where
  "getOrganizationMemberUserIds orgId s =
     remdups (List.map m_userId (find_many (\<lambda>m. m_organizationId m = orgId) (memberships s)))"

definition invalidateUserPermissionSnapshots :: "string list \<Rightarrow> gateway \<Rightarrow> gateway" where
  "invalidateUserPermissionSnapshots userIds s =
     foldl (\<lambda>st u. invalidateUserPermissionSnapshot u st) s
       (remdups (List.filter (\<lambda>u. u \<noteq> []) userIds))"

definition ensurePermissionsExist :: "string list \<Rightarrow> gateway \<Rightarrow> gateway" where
  "ensurePermissionsExist ps s =
     (let rows = List.filter (\<lambda>n. n \<in> set ps)
            (List.map pd_name (List.map_filter (\<lambda>d. d) ALL_PERMISSION_DETAILS))
      in s\<lparr>permissions := permissions s @ List.filter (\<lambda>n. n \<notin> set (permissions s)) rows\<rparr>)"

text \<open>
  \<open>orgRole.create\<close> with \<open>toRolePermissionConnect\<close>: a permission that is not in the table is a
  record not found, a permission named twice violates the key of the join table.
\<close>

definition insert_role ::
    "string \<Rightarrow> string \<Rightarrow> int \<Rightarrow> bool \<Rightarrow> string list \<Rightarrow> string \<Rightarrow> gateway \<Rightarrow> org_role result \<times> gateway" where
  "insert_role orgId name level isSystem ps newId s =
     (if \<exists>r\<in>set (roles s). (r_organizationId r = orgId \<and> r_name r = name) \<or> r_id r = newId
      then throw (PrismaError ''P2002'') s
      else if find_organization orgId s = None then throw (PrismaError ''P2003'') s
      else if \<not> list_all (\<lambda>p. p \<in> set (permissions s)) ps then throw (PrismaError ''P2025'') s
      else if \<not> distinct ps then throw (PrismaError ''P2002'') s
      else let r = \<lparr>r_id = newId, r_organizationId = orgId, r_name = name, r_level = level,
                   r_isSystem = isSystem, r_rolePermissions = ps\<rparr> in
        return r (s\<lparr>roles := roles s @ [r]\<rparr>))"

fun insert_roles ::
    "string \<Rightarrow> (nat \<Rightarrow> string) \<Rightarrow> nat \<Rightarrow> role_template list \<Rightarrow> gateway \<Rightarrow> org_role list result \<times> gateway" where
  "insert_roles orgId newId i [] s = return [] s"
| "insert_roles orgId newId i (d # ds) s =
     (case insert_role orgId (rd_name d) (rd_level d) (rd_isSystem d) (rd_permissions d) (newId i) s of
        (Inl e, s1) \<Rightarrow> throw e s1
      | (Inr r, s1) \<Rightarrow>
          (case insert_roles orgId newId (Suc i) ds s1 of
             (Inl e, s2) \<Rightarrow> throw e s2
           | (Inr rs, s2) \<Rightarrow> return (r # rs) s2))"

definition insert_membership ::
    "string \<Rightarrow> string \<Rightarrow> string \<Rightarrow> time \<Rightarrow> string \<Rightarrow> gateway \<Rightarrow> membership result \<times> gateway" where
  "insert_membership orgId userId roleId now newId s =
     (if find_membership orgId userId s \<noteq> None \<or> newId \<in> m_id ` set (memberships s)
      then throw (PrismaError ''P2002'') s
      else if find_user userId s = None \<or> find_organization orgId s = None \<or> find_role roleId s = None
      then throw (PrismaError ''P2003'') s
      else let m = \<lparr>m_id = newId, m_userId = userId, m_organizationId = orgId, m_roleId = roleId,
                   m_isAvailable = True, m_maxTicketsPerDay = Some 10, m_maxTicketsPerWeek = Some 50,
                   m_createdAt = now\<rparr> in
        return m (s\<lparr>memberships := memberships s @ [m]\<rparr>))"

subsection \<open>Organizations (org.repo.js)\<close>

definition getOrganizationsByUserId :: "string \<Rightarrow> gateway \<Rightarrow> organization list" where
  "getOrganizationsByUserId userId s =
     List.map_filter (\<lambda>m. find_organization (m_organizationId m) s)
       (find_many (\<lambda>m. m_userId m = userId) (memberships s))"

text \<open>
  \<open>newId 0\<close> is the id of the organization, then come the ids of the roles and of the owner's
  membership. The result is null when no role has the owner's name: the transaction then
  commits an organization without an owner.
\<close>

definition createOrganizationWithRolesAndOwner ::
    "string \<Rightarrow> string \<Rightarrow> role_template list \<Rightarrow> string \<Rightarrow> time \<Rightarrow> (nat \<Rightarrow> string) \<Rightarrow>
     gateway \<Rightarrow> org_view option result \<times> gateway" where
  "createOrganizationWithRolesAndOwner name userId rolesArg ownerRoleName now newId s =
     (if \<exists>o'\<in>set (organizations s). o_name o' = name \<or> o_id o' = newId 0
      then throw (PrismaError ''P2002'') s
      else
        let org = \<lparr>o_id = newId 0, o_name = name, o_createdAt = now\<rparr>;
            s1 = s\<lparr>organizations := organizations s @ [org]\<rparr>;
            s2 = ensurePermissionsExist (concat (List.map rd_permissions rolesArg)) s1
        in case insert_roles (o_id org) newId 1 rolesArg s2 of
             (Inl e, _) \<Rightarrow> throw e s
           | (Inr _, s3) \<Rightarrow>
               (case find_unique (\<lambda>r. r_organizationId r = o_id org \<and> r_name r = ownerRoleName) (roles s3) of
                  None \<Rightarrow> return None s3
                | Some ownerRole \<Rightarrow>
                    (case insert_membership (o_id org) userId (r_id ownerRole) now
                            (newId (1 + length rolesArg)) s3 of
                       (Inl e, _) \<Rightarrow> throw e s
                     | (Inr m, s4) \<Rightarrow>
                         let normalized = normalizeOrganization s4 True org;
                             s5 = (case find_unique (\<lambda>e. m_userId e = m_userId m)
                                          (case ov_memberships normalized of None \<Rightarrow> [] | Some ms \<Rightarrow> ms) of
                                     None \<Rightarrow> s4
                                   | Some ownerMembership \<Rightarrow> setCachedOrganizationMembership ownerMembership s4)
                         in return (Some normalized) (invalidateUserPermissionSnapshot userId s5))))"

definition patchOrganization :: "string \<Rightarrow> string \<Rightarrow> gateway \<Rightarrow> org_view result \<times> gateway" where
  "patchOrganization orgId name s =
     (case find_organization orgId s of
        None \<Rightarrow> throw (PrismaError ''P2025'') s
      | Some org \<Rightarrow>
          if \<exists>o'\<in>set (organizations s). o_name o' = name \<and> o_id o' \<noteq> orgId
          then throw (PrismaError ''P2002'') s
          else let s1 = s\<lparr>organizations := update_rows (\<lambda>o'. o_id o' = orgId) (\<lambda>o'. o'\<lparr>o_name := name\<rparr>)
                            (organizations s)\<rparr>
               in return (normalizeOrganization s1 False (org\<lparr>o_name := name\<rparr>)) s1)"

definition findOrganizationByOwner :: "string \<Rightarrow> gateway \<Rightarrow> organization option" where
  "findOrganizationByOwner userId s =
     (case find_unique (\<lambda>m. m_userId m = userId \<and>
             (case find_role (m_roleId m) s of
                None \<Rightarrow> False | Some r \<Rightarrow> r_name r = ''OWNER'' \<and> r_isSystem r)) (memberships s) of
        None \<Rightarrow> None
      | Some m \<Rightarrow> find_organization (m_organizationId m) s)"

text \<open>
  The rows of tickets, tags and workloads reference the organization without a cascade, so
  the deletion of an organization that still has one is refused and the transaction rolled
  back. The cached memberships are dropped in both cases (\<open>finally\<close>), the permission
  snapshots only after a success (\<open>then\<close>).
\<close>

definition deleteOrganization :: "string \<Rightarrow> gateway \<Rightarrow> organization result \<times> gateway" where
  "deleteOrganization orgId s =
     (let userIds = getOrganizationMemberUserIds orgId s;
          s1 = s\<lparr>memberships := delete_rows (\<lambda>m. m_organizationId m = orgId) (memberships s)\<rparr>;
          gone = r_id ` set (find_many (\<lambda>r. r_organizationId r = orgId) (roles s));
          s2 = s1\<lparr>roles := delete_rows (\<lambda>r. r_organizationId r = orgId) (roles s1)\<rparr>
      in if \<exists>m\<in>set (memberships s1). m_roleId m \<in> gone
         then throw (PrismaError ''P2003'') (invalidateOrganizationMembershipCacheByOrg orgId s)
         else case find_organization orgId s of
           None \<Rightarrow> throw (PrismaError ''P2025'') (invalidateOrganizationMembershipCacheByOrg orgId s)
         | Some org \<Rightarrow>
             if (\<exists>t\<in>set (tickets s). t_organizationId t = orgId) \<or>
                (\<exists>g\<in>set (tags s). tag_organizationId g = orgId) \<or>
                (\<exists>w\<in>set (workloads s). w_organizationId w = orgId)
             then throw (PrismaError ''P2003'') (invalidateOrganizationMembershipCacheByOrg orgId s)
             else return org (invalidateUserPermissionSnapshots userIds
                    (invalidateOrganizationMembershipCacheByOrg orgId
                      (s2\<lparr>organizations := delete_rows (\<lambda>o'. o_id o' = orgId) (organizations s)\<rparr>))))"

subsection \<open>Memberships (org.repo.js)\<close>

definition getOrganizationMembersById :: "string \<Rightarrow> gateway \<Rightarrow> membership_view list" where
  "getOrganizationMembersById orgId s =
     List.map (with_role_and_user s) (find_many (\<lambda>m. m_organizationId m = orgId) (memberships s))"

definition getOrganizationMembershipByUserId ::
    "string \<Rightarrow> string \<Rightarrow> gateway \<Rightarrow> membership_view option \<times> gateway" where
  "getOrganizationMembershipByUserId orgId userId s =
     (case getCachedOrganizationMembership orgId userId s of
        Some cached \<Rightarrow> (Some cached, s)
      | None \<Rightarrow>
          (case find_membership orgId userId s of
             None \<Rightarrow> (None, s)
           | Some m \<Rightarrow> (Some (with_role s m), setCachedOrganizationMembership (with_role s m) s)))"

definition getUserMembershipInOrganization ::
    "string \<Rightarrow> string \<Rightarrow> gateway \<Rightarrow> membership_view option \<times> gateway" where
  "getUserMembershipInOrganization userId orgId s =
     (case getCachedOrganizationMembership orgId userId s of
        Some cached \<Rightarrow>
          (if mv_organization cached \<noteq> None then (Some cached, s)
           else case find_membership orgId userId s of
             None \<Rightarrow> (None, s)
           | Some m \<Rightarrow> (Some (with_role_and_organization s m),
                        setCachedOrganizationMembership (with_role_and_organization s m) s))
      | None \<Rightarrow>
          (case find_membership orgId userId s of
             None \<Rightarrow> (None, s)
           | Some m \<Rightarrow> (Some (with_role_and_organization s m),
                        setCachedOrganizationMembership (with_role_and_organization s m) s)))"

definition inviteMemberInOrganization ::
    "string \<Rightarrow> string \<Rightarrow> string \<Rightarrow> time \<Rightarrow> string \<Rightarrow> gateway \<Rightarrow> membership_view result \<times> gateway" where
  "inviteMemberInOrganization orgId userId roleId now newId s =
     (case insert_membership orgId userId roleId now newId s of
        (Inl e, s1) \<Rightarrow> throw e s1
      | (Inr m, s1) \<Rightarrow>
          return (with_role s1 m)
            (invalidateUserPermissionSnapshot userId
              (setCachedOrganizationMembership (with_role s1 m) s1)))"

definition updateMembershipRole ::
    "string \<Rightarrow> string \<Rightarrow> string \<Rightarrow> gateway \<Rightarrow> membership_view result \<times> gateway" where
  "updateMembershipRole orgId userId roleId s =
     (case find_membership orgId userId s of
        None \<Rightarrow> throw (PrismaError ''P2025'') s
      | Some m \<Rightarrow>
          if find_role roleId s = None then throw (PrismaError ''P2003'') s
          else
            let m' = m\<lparr>m_roleId := roleId\<rparr>;
                s1 = s\<lparr>memberships := update_rows (\<lambda>m. m_userId m = userId \<and> m_organizationId m = orgId)
                         (\<lambda>m. m\<lparr>m_roleId := roleId\<rparr>) (memberships s)\<rparr>
            in return (with_role s1 m')
                 (invalidateUserPermissionSnapshot userId
                   (setCachedOrganizationMembership (with_role s1 m') s1)))"

subsection \<open>Roles (org.repo.js)\<close>

definition getOrgRoles :: "string \<Rightarrow> gateway \<Rightarrow> role_view list" where
  "getOrgRoles orgId s =
     List.map normalizeRolePermissions
       (sort_key (\<lambda>r. - r_level r) (find_many (\<lambda>r. r_organizationId r = orgId) (roles s)))"

definition getOrgRoleById :: "string \<Rightarrow> gateway \<Rightarrow> role_view option" where
  "getOrgRoleById roleId s = map_option normalizeRolePermissions (find_role roleId s)"

definition getOrgRoleByName :: "string \<Rightarrow> string \<Rightarrow> gateway \<Rightarrow> role_view option" where
  "getOrgRoleByName orgId name s =
     map_option normalizeRolePermissions
       (find_unique (\<lambda>r. r_organizationId r = orgId \<and> r_name r = name) (roles s))"

definition createOrgRoles ::
    "string \<Rightarrow> role_template list \<Rightarrow> (nat \<Rightarrow> string) \<Rightarrow> gateway \<Rightarrow> role_view list result \<times> gateway" where
  "createOrgRoles orgId rolesArg newId s =
     (case insert_roles orgId newId 0 rolesArg
             (ensurePermissionsExist (concat (List.map rd_permissions rolesArg)) s) of
        (Inl e, _) \<Rightarrow> throw e s
      | (Inr rs, s1) \<Rightarrow> return (List.map normalizeRolePermissions rs) s1)"

definition createOrgRole ::
    "string \<Rightarrow> string \<Rightarrow> string list \<Rightarrow> int \<Rightarrow> string \<Rightarrow> gateway \<Rightarrow> role_view result \<times> gateway" where
  "createOrgRole orgId name ps level newId s =
     (case insert_role orgId name level False ps newId (ensurePermissionsExist ps s) of
        (Inl e, _) \<Rightarrow> throw e s
      | (Inr r, s1) \<Rightarrow>
          return (normalizeRolePermissions r)
            (invalidateUserPermissionSnapshots (getOrganizationMemberUserIds orgId s1) s1))"

record role_updates =
  ru_name :: "string option"
  ru_permissions :: "string list option"
  ru_level :: "int option"

definition apply_role_updates :: "role_updates \<Rightarrow> org_role \<Rightarrow> org_role" where
  "apply_role_updates d r =
     r\<lparr>r_name := (case ru_name d of None \<Rightarrow> r_name r | Some n \<Rightarrow> n),
       r_level := (case ru_level d of None \<Rightarrow> r_level r | Some l \<Rightarrow> l),
       r_rolePermissions := (case ru_permissions d of None \<Rightarrow> r_rolePermissions r | Some ps \<Rightarrow> ps)\<rparr>"

definition updateOrgRole :: "string \<Rightarrow> role_updates \<Rightarrow> gateway \<Rightarrow> role_view result \<times> gateway" where
  "updateOrgRole roleId d s =
     (let s0 = (case ru_permissions d of None \<Rightarrow> s | Some ps \<Rightarrow> ensurePermissionsExist ps s)
      in case find_role roleId s0 of
           None \<Rightarrow> throw (PrismaError ''P2025'') s
         | Some r \<Rightarrow>
             let r' = apply_role_updates d r in
             if \<exists>q\<in>set (roles s0). r_organizationId q = r_organizationId r \<and> r_name q = r_name r' \<and> r_id q \<noteq> roleId
             then throw (PrismaError ''P2002'') s
             else if (case ru_permissions d of None \<Rightarrow> False
                      | Some ps \<Rightarrow> \<not> list_all (\<lambda>p. p \<in> set (permissions s0)) ps)
             then throw (PrismaError ''P2025'') s
             else if (case ru_permissions d of None \<Rightarrow> False | Some ps \<Rightarrow> \<not> distinct ps)
             then throw (PrismaError ''P2002'') s
             else
               let s1 = s0\<lparr>roles := update_rows (\<lambda>q. r_id q = roleId) (apply_role_updates d) (roles s0)\<rparr>
               in return (normalizeRolePermissions r')
                    (invalidateUserPermissionSnapshots (getOrganizationMemberUserIds (r_organizationId r) s1)
                      (invalidateOrganizationMembershipCacheByOrg (r_organizationId r) s1)))"

text \<open>A role that a membership still has cannot be deleted (foreign key without cascade).\<close>

definition deleteOrgRole :: "string \<Rightarrow> gateway \<Rightarrow> org_role result \<times> gateway" where
  "deleteOrgRole roleId s =
     (case find_role roleId s of
        None \<Rightarrow> throw (PrismaError ''P2025'') s
      | Some r \<Rightarrow>
          if \<exists>m\<in>set (memberships s). m_roleId m = roleId then throw (PrismaError ''P2003'') s
          else
            let s1 = s\<lparr>roles := delete_rows (\<lambda>q. r_id q = roleId) (roles s)\<rparr>
            in return r
                 (invalidateUserPermissionSnapshots (getOrganizationMemberUserIds (r_organizationId r) s1)
                   (invalidateOrganizationMembershipCacheByOrg (r_organizationId r) s1)))"

end
