(* ===== verification/Org_Service.thy ===== *)
theory Org_Service
  imports Org_Repo
begin

section \<open>Organization service, middleware and routes\<close>

text \<open>
  modules/organization/org.service.js (the handlers of organizations, members and roles),
  org.middleware.js (membership and permission guards) and the guard chains of org.routes.js.
\<close>

text \<open>\<open>!row || !row.id\<close>, the test the services make of a row they got.\<close>

definition no_id :: "('r \<Rightarrow> string) \<Rightarrow> 'r option \<Rightarrow> bool" where
  "no_id rid x = (case x of None \<Rightarrow> True | Some r \<Rightarrow> rid r = [])"

lemma no_id_simps [simp]:
  "no_id rid None"
  "no_id rid (Some r) = (rid r = [])"
  by (simp_all add: no_id_def)

lemma not_no_idD: "\<not> no_id rid x \<Longrightarrow> \<exists>r. x = Some r \<and> rid r \<noteq> []"
  by (cases x) auto

subsection \<open>Organizations\<close>

definition getOrganizationByUserIdService :: "string \<Rightarrow> gateway \<Rightarrow> organization list" where
  "getOrganizationByUserIdService userId s = getOrganizationsByUserId userId s"

definition createOrganizationService ::
    "string \<Rightarrow> string \<Rightarrow> time \<Rightarrow> (nat \<Rightarrow> string) \<Rightarrow> gateway \<Rightarrow> org_view result \<times> gateway" where
  "createOrganizationService name userId now newId s =
     (if findOrganizationByOwner userId s \<noteq> None
      then throw (ApiError 409 ''User already owns an organization'' ''USER_ALREADY_OWNER'') s
      else case createOrganizationWithRolesAndOwner name userId DEFAULT_ROLES ''OWNER'' now newId s of
        (Inl e, s1) \<Rightarrow> throw e s1
      | (Inr None, s1) \<Rightarrow>
          throw (ApiError 500 ''Failed to create organization'' ''ORG_CREATION_FAILED'') s1
      | (Inr (Some org), s1) \<Rightarrow>
          if o_id org = []
          then throw (ApiError 500 ''Failed to create organization'' ''ORG_CREATION_FAILED'') s1
          else return org s1)"

definition updateOrganizationService :: "string \<Rightarrow> string \<Rightarrow> gateway \<Rightarrow> org_view result \<times> gateway" where
  "updateOrganizationService orgId name s =
     (case patchOrganization orgId name s of
        (Inl e, s1) \<Rightarrow> throw e s1
      | (Inr org, s1) \<Rightarrow>
          if o_id org = []
          then throw (ApiError 500 ''Failed to update organization'' ''ORG_UPDATE_FAILED'') s1
          else return org s1)"

definition deleteOrganizationService :: "string \<Rightarrow> gateway \<Rightarrow> organization result \<times> gateway" where
  "deleteOrganizationService orgId s =
     (case deleteOrganization orgId s of
        (Inl e, s1) \<Rightarrow> throw e s1
      | (Inr org, s1) \<Rightarrow>
          if o_id org = []
          then throw (ApiError 500 ''Failed to delete organization'' ''ORG_DELETE_FAILED'') s1
          else return org s1)"

subsection \<open>Members\<close>

definition viewAllMembersInOrganizationService :: "string \<Rightarrow> gateway \<Rightarrow> membership_view list" where
  "viewAllMembersInOrganizationService orgId s = getOrganizationMembersById orgId s"

text \<open>
  \<open>actorMembership.role\<close> is read as an object: without a role the level comparison throws.
\<close>

definition inviteMemberInOrganizationService ::
    "string \<Rightarrow> string \<Rightarrow> string \<Rightarrow> membership_view \<Rightarrow> time \<Rightarrow> string \<Rightarrow>
     gateway \<Rightarrow> membership_view result \<times> gateway" where
  "inviteMemberInOrganizationService orgId userId roleId actorMembership now newId s =
     (case getOrgRoleById roleId s of
        None \<Rightarrow> throw (ApiError 400 ''Invalid role for this organization'' ''INVALID_ROLE'') s
      | Some targetRole \<Rightarrow>
          if rv_organizationId targetRole \<noteq> orgId
          then throw (ApiError 400 ''Invalid role for this organization'' ''INVALID_ROLE'') s
          else case mv_role actorMembership of
            None \<Rightarrow> throw (ApiError 403 ''You do not have permission to invite members'' ''INVITE_FORBIDDEN'') s
          | Some actorRole \<Rightarrow>
              (case assertCanInviteRole actorRole targetRole of
                 Inl e \<Rightarrow> throw e s
               | Inr _ \<Rightarrow>
                   (case inviteMemberInOrganization orgId userId roleId now newId s of
                      (Inl e, s1) \<Rightarrow> throw e s1
                    | (Inr m, s1) \<Rightarrow>
                        if m_id m = []
                        then throw (ApiError 500 ''Failed to invite member to organization''
                               ''MEMBER_INVITE_FAILED'') s1
                        else return m s1)))"

definition updateMemberFromOrganizationService ::
    "string \<Rightarrow> string \<Rightarrow> string \<Rightarrow> membership_view \<Rightarrow> gateway \<Rightarrow> membership_view result \<times> gateway" where
  "updateMemberFromOrganizationService orgId userId roleId actorMembership s =
     (case getOrganizationMembershipByUserId orgId userId s of
        (None, s1) \<Rightarrow> throw (ApiError 404 ''Member not found in organization'' ''MEMBER_NOT_FOUND'') s1
      | (Some targetMembership, s1) \<Rightarrow>
          if m_id targetMembership = []
          then throw (ApiError 404 ''Member not found in organization'' ''MEMBER_NOT_FOUND'') s1
          else case getOrgRoleById roleId s1 of
            None \<Rightarrow> throw (ApiError 400 ''Invalid role for this organization'' ''INVALID_ROLE'') s1
          | Some nextRole \<Rightarrow>
              if rv_organizationId nextRole \<noteq> orgId
              then throw (ApiError 400 ''Invalid role for this organization'' ''INVALID_ROLE'') s1
              else case assertCanUpdateRole actorMembership targetMembership nextRole of
                Inl e \<Rightarrow> throw e s1
              | Inr _ \<Rightarrow>
                  (case updateMembershipRole orgId userId roleId s1 of
                     (Inl e, s2) \<Rightarrow> throw e s2
                   | (Inr m, s2) \<Rightarrow>
                       if m_id m = []
                       then throw (ApiError 500 ''Failed to update member in organization''
                              ''MEMBER_UPDATE_FAILED'') s2
                       else return m s2))"

subsection \<open>Roles\<close>

definition getRolesService :: "string \<Rightarrow> gateway \<Rightarrow> role_view list" where
  "getRolesService orgId s = getOrgRoles orgId s"

text \<open>
  The module calls \<open>getOrgRoleByName\<close> without importing it: the call throws a ReferenceError, so
  the statements after it are never reached.
\<close>

definition createRoleService ::
    "string \<Rightarrow> string \<Rightarrow> string list \<Rightarrow> int \<Rightarrow> membership_view \<Rightarrow> gateway \<Rightarrow> role_view result \<times> gateway" where
  "createRoleService orgId name ps level actorMembership s =
     (case mv_role actorMembership of
        None \<Rightarrow> throw (JsTypeError ''Cannot read properties of undefined (reading level)'') s
      | Some actorRole \<Rightarrow>
          if level \<ge> rv_level actorRole
          then throw (ApiError 403 ''Cannot create a role with level equal to or higher than yours''
                 ''ROLE_LEVEL_FORBIDDEN'') s
          else throw (JsReferenceError ''getOrgRoleByName is not defined'') s)"

definition updateRoleService ::
    "string \<Rightarrow> string \<Rightarrow> role_updates \<Rightarrow> membership_view \<Rightarrow> gateway \<Rightarrow> role_view result \<times> gateway" where
  "updateRoleService orgId roleId updates actorMembership s =
     (case getOrgRoleById roleId s of
        None \<Rightarrow> throw (ApiError 404 ''Role not found'' ''ROLE_NOT_FOUND'') s
      | Some role \<Rightarrow>
          if rv_organizationId role \<noteq> orgId
          then throw (ApiError 404 ''Role not found'' ''ROLE_NOT_FOUND'') s
          else if rv_isSystem role
          then throw (ApiError 403 ''System roles cannot be modified'' ''SYSTEM_ROLE_IMMUTABLE'') s
          else case mv_role actorMembership of
            None \<Rightarrow> throw (JsTypeError ''Cannot read properties of undefined (reading level)'') s
          | Some actorRole \<Rightarrow>
              if rv_level role \<ge> rv_level actorRole
              then throw (ApiError 403 ''Cannot modify a role with level equal to or higher than yours''
                     ''ROLE_LEVEL_FORBIDDEN'') s
              else if (case ru_level updates of None \<Rightarrow> False | Some l \<Rightarrow> l \<ge> rv_level actorRole)
              then throw (ApiError 403 ''Cannot set role level equal to or higher than yours''
                     ''ROLE_LEVEL_FORBIDDEN'') s
              else if truthy (ru_name updates)
              then throw (JsReferenceError ''getOrgRoleByName is not defined'') s
              else
                (case updateOrgRole roleId updates s of
                   (Inl e, s1) \<Rightarrow> throw e s1
                 | (Inr r, s1) \<Rightarrow>
                     if rv_id r = []
                     then throw (ApiError 500 ''Failed to update role'' ''ROLE_UPDATE_FAILED'') s1
                     else return r s1))"

definition deleteRoleService ::
    "string \<Rightarrow> string \<Rightarrow> membership_view \<Rightarrow> gateway \<Rightarrow> org_role result \<times> gateway" where
  "deleteRoleService orgId roleId actorMembership s =
     (case getOrgRoleById roleId s of
        None \<Rightarrow> throw (ApiError 404 ''Role not found'' ''ROLE_NOT_FOUND'') s
      | Some role \<Rightarrow>
          if rv_organizationId role \<noteq> orgId
          then throw (ApiError 404 ''Role not found'' ''ROLE_NOT_FOUND'') s
          else if rv_isSystem role
          then throw (ApiError 403 ''System roles cannot be deleted'' ''SYSTEM_ROLE_IMMUTABLE'') s
          else case mv_role actorMembership of
            None \<Rightarrow> throw (JsTypeError ''Cannot read properties of undefined (reading level)'') s
          | Some actorRole \<Rightarrow>
              if rv_level role \<ge> rv_level actorRole
              then throw (ApiError 403 ''Cannot delete a role with level equal to or higher than yours''
                     ''ROLE_LEVEL_FORBIDDEN'') s
              else
                (case deleteOrgRole roleId s of
                   (Inl e, s1) \<Rightarrow> throw e s1
                 | (Inr r, s1) \<Rightarrow>
                     if r_id r = []
                     then throw (ApiError 500 ''Failed to delete role'' ''ROLE_DELETION_FAILED'') s1
                     else return r s1))"

subsection \<open>Middleware (org.middleware.js, validation.middleware.js)\<close>

text \<open>
  What a request ends with: a response of a controller, a refusal a middleware sends itself,
  or an error handed to \<open>next\<close>, which the error handler answers.
\<close>

datatype 'a outcome =
    Responded int 'a
  | Refused int string
  | Failed js_error

definition verifyOrganizationMembership ::
    "string \<Rightarrow> string \<Rightarrow> gateway \<Rightarrow> (int \<times> string + membership_view) \<times> gateway" where
  "verifyOrganizationMembership orgId userId s =
     (if orgId = [] then (Inl (400, ''Organization ID is required''), s)
      else case getUserMembershipInOrganization userId orgId s of
        (None, s1) \<Rightarrow> (Inl (403, ''You do not have access to this organization''), s1)
      | (Some m, s1) \<Rightarrow> (Inr m, s1))"

text \<open>
  The permissions carried by the access token (\<open>req.auth.orgPermissions[orgId]\<close>, when not empty)
  take precedence over those of the membership.
\<close>

definition requirePermission ::
    "string list \<Rightarrow> string \<Rightarrow> permission_snapshot option \<Rightarrow> membership_view \<Rightarrow> (int \<times> string) option" where
  "requirePermission requiredPermissions orgId orgPermissions m =
     (case mv_role m of
        None \<Rightarrow> Some (500, ''Organization membership not verified'')
      | Some role \<Rightarrow>
          let tokenPermissions =
                (case orgPermissions of
                   None \<Rightarrow> []
                 | Some snapshot \<Rightarrow>
                     (case map_of snapshot orgId of None \<Rightarrow> [] | Some sc \<Rightarrow> as_permissions sc));
              memberPermissions =
                (if length tokenPermissions > 0 then tokenPermissions
                 else extractPermissionValues (strings_arg (Some (rv_permissions role))))
          in if \<not> list_all (\<lambda>p. p \<in> set memberPermissions) requiredPermissions
             then Some (403, ''You do not have permission to perform this action'')
             else None)"

subsection \<open>Routes (org.routes.js)\<close>

text \<open>
  The chain of a route under \<open>/:orgId\<close> after \<open>authenticate\<close>: membership, permission, schema,
  controller. \<open>valid\<close> is the answer of the route's zod schema, \<open>status\<close> the code of the
  controller's response.
\<close>

definition org_route ::
    "string list \<Rightarrow> bool \<Rightarrow> int \<Rightarrow> (membership_view \<Rightarrow> gateway \<Rightarrow> 'a result \<times> gateway) \<Rightarrow>
     string \<Rightarrow> permission_snapshot option \<Rightarrow> string \<Rightarrow> gateway \<Rightarrow> 'a outcome \<times> gateway" where
  "org_route requiredPermissions valid status controller userId orgPermissions orgId s =
     (case verifyOrganizationMembership orgId userId s of
        (Inl (st, msg), s1) \<Rightarrow> (Refused st msg, s1)
      | (Inr m, s1) \<Rightarrow>
          (case (if requiredPermissions = [] then None
                 else requirePermission requiredPermissions orgId orgPermissions m) of
             Some (st, msg) \<Rightarrow> (Refused st msg, s1)
           | None \<Rightarrow>
               if \<not> valid then (Refused 400 ''Validation error'', s1)
               else case controller m s1 of
                 (Inl e, s2) \<Rightarrow> (Failed e, s2)
               | (Inr x, s2) \<Rightarrow> (Responded status x, s2)))"

subsection \<open>Controllers (org.controller.js)\<close>

text \<open>
  A controller under \<open>/:orgId\<close>: the status it sends, and what it awaits for the caller's
  membership (\<open>req.membership\<close>). An error goes to the error handler.
\<close>

type_synonym 'a org_controller = "int \<times> (membership_view \<Rightarrow> gateway \<Rightarrow> 'a result \<times> gateway)"

definition getOrganizationByIdController :: "organization option org_controller" where
  [simp]: "getOrganizationByIdController = (200, \<lambda>m. return (mv_organization m))"

definition updateOrganizationController :: "string \<Rightarrow> string \<Rightarrow> org_view org_controller" where
  [simp]: "updateOrganizationController orgId name = (200, \<lambda>m. updateOrganizationService orgId name)"

definition deleteOrganizationController :: "string \<Rightarrow> organization org_controller" where
  [simp]: "deleteOrganizationController orgId = (200, \<lambda>m. deleteOrganizationService orgId)"

definition viewAllMembersInOrganizationController :: "string \<Rightarrow> membership_view list org_controller" where
  [simp]: "viewAllMembersInOrganizationController orgId =
     (200, \<lambda>m s. return (viewAllMembersInOrganizationService orgId s) s)"

definition inviteMemberInOrganizationController ::
    "string \<Rightarrow> string \<Rightarrow> string \<Rightarrow> time \<Rightarrow> string \<Rightarrow> membership_view org_controller" where
  [simp]: "inviteMemberInOrganizationController orgId newUserId roleId now newId =
     (201, \<lambda>m. inviteMemberInOrganizationService orgId newUserId roleId m now newId)"

definition updateMemberFromOrganizationController ::
    "string \<Rightarrow> string \<Rightarrow> string \<Rightarrow> membership_view org_controller" where
  [simp]: "updateMemberFromOrganizationController orgId memberUserId roleId =
     (200, \<lambda>m. updateMemberFromOrganizationService orgId memberUserId roleId m)"

definition getRolesController :: "string \<Rightarrow> role_view list org_controller" where
  [simp]: "getRolesController orgId = (200, \<lambda>m s. return (getRolesService orgId s) s)"

definition createRoleController :: "string \<Rightarrow> string \<Rightarrow> string list \<Rightarrow> int \<Rightarrow> role_view org_controller" where
  [simp]: "createRoleController orgId name ps level = (201, \<lambda>m. createRoleService orgId name ps level m)"

definition updateRoleController :: "string \<Rightarrow> string \<Rightarrow> role_updates \<Rightarrow> role_view org_controller" where
  [simp]: "updateRoleController orgId roleId updates = (200, \<lambda>m. updateRoleService orgId roleId updates m)"

definition deleteRoleController :: "string \<Rightarrow> string \<Rightarrow> org_role org_controller" where
  [simp]: "deleteRoleController orgId roleId = (200, \<lambda>m. deleteRoleService orgId roleId m)"

lemmas org_controllers = updateOrganizationController_def deleteOrganizationController_def
  inviteMemberInOrganizationController_def updateMemberFromOrganizationController_def createRoleController_def
  updateRoleController_def deleteRoleController_def fst_conv snd_conv

abbreviation guarded_route ::
    "string list \<Rightarrow> bool \<Rightarrow> 'a org_controller \<Rightarrow> string \<Rightarrow> permission_snapshot option \<Rightarrow> string \<Rightarrow> gateway \<Rightarrow>
     'a outcome \<times> gateway" where
  "guarded_route requiredPermissions valid controller \<equiv> org_route requiredPermissions valid (fst controller) (snd controller)"

definition patch_organization_route where
  "patch_organization_route valid name userId orgPermissions orgId s =
     guarded_route [ORG_UPDATE] valid (updateOrganizationController orgId name)
       userId orgPermissions orgId s"

definition delete_organization_route where
  "delete_organization_route valid userId orgPermissions orgId s =
     guarded_route [ORG_DELETE] valid (deleteOrganizationController orgId)
       userId orgPermissions orgId s"

definition post_members_route where
  "post_members_route valid newUserId roleId now newId userId orgPermissions orgId s =
     guarded_route [ORG_INVITE_MEMBER] valid
       (inviteMemberInOrganizationController orgId newUserId roleId now newId)
       userId orgPermissions orgId s"

definition patch_member_route where
  "patch_member_route valid memberUserId roleId userId orgPermissions orgId s =
     guarded_route [ORG_MANAGE_MEMBER] valid
       (updateMemberFromOrganizationController orgId memberUserId roleId)
       userId orgPermissions orgId s"

definition post_roles_route where
  "post_roles_route name ps level userId orgPermissions orgId s =
     guarded_route [ROLE_CREATE] (createRoleSchema name ps level)
       (createRoleController orgId name ps level)
       userId orgPermissions orgId s"

definition patch_role_route where
  "patch_role_route uuid roleId updates userId orgPermissions orgId s =
     guarded_route [ROLE_UPDATE]
       (updateRoleSchema uuid (ru_name updates) (ru_permissions updates) (ru_level updates) roleId)
       (updateRoleController orgId roleId updates)
       userId orgPermissions orgId s"

definition delete_role_route where
  "delete_role_route valid roleId userId orgPermissions orgId s =
     guarded_route [ROLE_DELETE] valid (deleteRoleController orgId roleId)
       userId orgPermissions orgId s"

end
