(* ===== verification/Ticket_Rules.thy ===== *)
theory Ticket_Rules
  imports Org_Policy
begin

section \<open>Ticket rules: constants, normalisation, filters, policy, request schemas\<close>

text \<open>
  modules/tickets/ticket.constants.js, ticket.utils.js, ticket.filters.js, ticket.policy.js and
  ticket.validator.js: the pure parts of the ticket module. Request fields that may be missing
  are options. \<open>parseDate\<close> is the host's \<open>Date\<close> constructor on strings (\<open>None\<close>: invalid date) and
  \<open>tz\<close> the offset of the server's time zone from UTC in milliseconds, taken as constant.
\<close>

subsection \<open>Constants\<close>

definition TICKET_PRIORITIES :: "string list" where
  "TICKET_PRIORITIES = [''LOW'', ''MEDIUM'', ''HIGH'', ''URGENT'']"

definition TICKET_SOURCES :: "string list" where
  "TICKET_SOURCES = [''WEB'', ''EMAIL'', ''CHAT'', ''API'']"

definition TICKET_STATUSES :: "string list" where
  "TICKET_STATUSES = [''OPEN'', ''IN_PROGRESS'', ''RESOLVED'', ''CLOSED'']"

text \<open>The enum values as the database client takes and gives them: by name.\<close>

fun status_name :: "ticket_status \<Rightarrow> string" where
  "status_name OPEN = ''OPEN''"
| "status_name IN_PROGRESS = ''IN_PROGRESS''"
| "status_name RESOLVED = ''RESOLVED''"
| "status_name CLOSED = ''CLOSED''"

fun priority_name :: "priority \<Rightarrow> string" where
  "priority_name LOW = ''LOW''"
| "priority_name MEDIUM = ''MEDIUM''"
| "priority_name HIGH = ''HIGH''"
| "priority_name URGENT = ''URGENT''"

fun source_name :: "ticket_source \<Rightarrow> string" where
  "source_name WEB = ''WEB''"
| "source_name EMAIL = ''EMAIL''"
| "source_name CHAT = ''CHAT''"
| "source_name API = ''API''"

definition status_of :: "string \<Rightarrow> ticket_status option" where
  "status_of n = List.find (\<lambda>x. status_name x = n) [OPEN, IN_PROGRESS, RESOLVED, CLOSED]"

definition priority_of :: "string \<Rightarrow> priority option" where
  "priority_of n = List.find (\<lambda>x. priority_name x = n) [LOW, MEDIUM, HIGH, URGENT]"

definition source_of :: "string \<Rightarrow> ticket_source option" where
  "source_of n = List.find (\<lambda>x. source_name x = n) [WEB, EMAIL, CHAT, API]"

lemma status_of_name [simp]: "status_of (status_name x) = Some x"
  by (cases x) (simp_all add: status_of_def)

lemma priority_of_name [simp]: "priority_of (priority_name x) = Some x"
  by (cases x) (simp_all add: priority_of_def)

lemma source_of_name [simp]: "source_of (source_name x) = Some x"
  by (cases x) (simp_all add: source_of_def)

lemma status_of_SomeD: "status_of n = Some x \<Longrightarrow> n = status_name x"
  by (auto simp: status_of_def split: if_splits)

lemma priority_of_SomeD: "priority_of n = Some x \<Longrightarrow> n = priority_name x"
  by (auto simp: priority_of_def split: if_splits)

lemma status_of_None_iff: "status_of n = None \<longleftrightarrow> n \<notin> set TICKET_STATUSES"
  by (auto simp: status_of_def TICKET_STATUSES_def)

lemma priority_of_None_iff: "priority_of n = None \<longleftrightarrow> n \<notin> set TICKET_PRIORITIES"
  by (auto simp: priority_of_def TICKET_PRIORITIES_def)

lemma source_of_None_iff: "source_of n = None \<longleftrightarrow> n \<notin> set TICKET_SOURCES"
  by (auto simp: source_of_def TICKET_SOURCES_def)

subsection \<open>Normalisation (ticket.utils.js)\<close>

record ticket_body =
  tb_organizationId :: string
  tb_title :: string
  tb_description :: "string option"
  tb_priority :: "string option"
  tb_source :: "string option"
  tb_assignedToId :: "string option"

record update_body =
  ub_title :: "string option"
  ub_description :: "string option"
  ub_priority :: "string option"
  ub_status :: "string option"
  ub_assignedToId :: "string option"

text \<open>An object is the list of its entries, in order of insertion.\<close>

definition normalizeTicketUpdateFields :: "update_body \<Rightarrow> (string \<times> string option) list" where
  "normalizeTicketUpdateFields d =
     [(''title'', ub_title d),
      (''description'', ub_description d),
      (''priority'', map_option toUpperCase (ub_priority d)),
      (''status'', map_option toUpperCase (ub_status d)),
      (''assignedToId'', ub_assignedToId d)]"

fun getProvidedUpdateFields :: "(string \<times> string option) list \<Rightarrow> (string \<times> string) list" where
  "getProvidedUpdateFields [] = []"
| "getProvidedUpdateFields ((k, None) # es) = getProvidedUpdateFields es"
| "getProvidedUpdateFields ((k, Some v) # es) = (k, v) # getProvidedUpdateFields es"

definition normalizeTagName :: "string \<Rightarrow> string" where
  "normalizeTagName name = js_trim name"

definition normalizeTicketFields :: "ticket_body \<Rightarrow> ticket_body" where
  "normalizeTicketFields d =
     d\<lparr>tb_priority := map_option toUpperCase (tb_priority d),
       tb_source := map_option toUpperCase (tb_source d)\<rparr>"

record ticket_filters =
  f_organizationId :: "string option"
  f_status :: "string option"
  f_priority :: "string option"
  f_source :: "string option"
  f_assignedTo :: "string option"
  f_assignedToId :: "string option"
  f_tag :: "string option"
  f_tagId :: "string option"
  f_dateFrom :: "string option"
  f_dateTo :: "string option"

definition normalizeTicketFilters :: "ticket_filters \<Rightarrow> ticket_filters" where
  "normalizeTicketFilters f =
     f\<lparr>f_status := map_option toUpperCase (f_status f),
       f_priority := map_option toUpperCase (f_priority f),
       f_source := map_option toUpperCase (f_source f),
       f_tag := map_option js_trim (f_tag f)\<rparr>"

definition parseDateFilter ::
    "(string \<Rightarrow> time option) \<Rightarrow> string option \<Rightarrow> string \<Rightarrow> time option result" where
  "parseDateFilter parseDate value fieldName =
     (case value of
        None \<Rightarrow> Inr None
      | Some v \<Rightarrow>
          if v = [] then Inr None
          else case parseDate v of
            None \<Rightarrow> Inl (ApiError 400 (''Invalid '' @ fieldName) ''INVALID_DATE'')
          | Some t \<Rightarrow> Inr (Some t))"

abbreviation day_ms :: int where "day_ms \<equiv> 86400000"

definition startOfDay :: "int \<Rightarrow> time \<Rightarrow> time" where
  "startOfDay tz t = ((t + tz) div day_ms) * day_ms - tz"

text \<open>\<open>getDay\<close>: 0 is Sunday; the first of January 1970 was a Thursday.\<close>

definition getDay :: "int \<Rightarrow> time \<Rightarrow> int" where
  "getDay tz t = ((t + tz) div day_ms + 4) mod 7"

definition startOfWeek :: "int \<Rightarrow> time \<Rightarrow> time" where
  "startOfWeek tz t =
     (let normalized = startOfDay tz t;
          day = getDay tz normalized;
          diff = (if day = 0 then 6 else day - 1)
      in normalized - diff * day_ms)"

lemma startOfDay_le: "startOfDay tz t \<le> t"
proof -
  have "(t + tz) div day_ms * day_ms \<le> t + tz" by (simp add: div_mult_mod_eq minus_mod_eq_div_mult [symmetric])
  then show ?thesis by (simp add: startOfDay_def)
qed

lemma startOfDay_gt: "t < startOfDay tz t + day_ms"
proof -
  have "t + tz = (t + tz) div day_ms * day_ms + (t + tz) mod day_ms" by simp
  moreover have "(t + tz) mod day_ms < day_ms" by simp
  ultimately show ?thesis unfolding startOfDay_def by linarith
qed

lemma startOfDay_idem [simp]: "startOfDay tz (startOfDay tz t) = startOfDay tz t"
  by (simp add: startOfDay_def)

lemma startOfDay_mono: "t \<le> u \<Longrightarrow> startOfDay tz t \<le> startOfDay tz u"
  by (simp add: startOfDay_def zdiv_mono1)

lemma startOfDay_day: "(startOfDay tz t + tz) div day_ms = (t + tz) div day_ms"
  by (simp add: startOfDay_def)

lemma getDay_startOfDay [simp]: "getDay tz (startOfDay tz t) = getDay tz t"
  by (simp add: getDay_def startOfDay_day)

lemma weekday_shift: "(n - (if (n + 4) mod 7 = 0 then 6 else (n + 4) mod 7 - 1) + 4) mod 7 = (1 :: int)"
proof (cases "(n + 4) mod 7 = 0")
  case True
  have "n - 6 + 4 = (n + 4) + (- 6)" by simp
  then have "(n - 6 + 4) mod 7 = ((n + 4) mod 7 + (- 6)) mod 7" by (simp only: mod_add_left_eq)
  then show ?thesis using True by simp
next
  case False
  have "n - ((n + 4) mod 7 - 1) + 4 = (n + 4) div 7 * 7 + 1"
    using div_mult_mod_eq [of "n + 4" 7] by linarith
  then have "(n - ((n + 4) mod 7 - 1) + 4) mod 7 = 1" by (simp only: mod_mult_self3) simp
  then show ?thesis using False by (simp only: if_False)
qed

lemma startOfWeek_monday: "getDay tz (startOfWeek tz t) = 1"
proof -
  let ?n = "(t + tz) div day_ms"
  let ?diff = "if (?n + 4) mod 7 = 0 then 6 else (?n + 4) mod 7 - 1"
  have eq: "startOfWeek tz t + tz = (?n - ?diff) * day_ms"
    by (simp only: startOfWeek_def Let_def getDay_startOfDay) (simp add: startOfDay_def getDay_def algebra_simps)
  have "getDay tz (startOfWeek tz t) = (?n - ?diff + 4) mod 7"
    unfolding getDay_def eq by simp
  then show ?thesis by (simp only: weekday_shift)
qed

lemma startOfWeek_le: "startOfWeek tz t \<le> startOfDay tz t"
proof -
  have "0 \<le> getDay tz t" by (simp add: getDay_def)
  then show ?thesis by (auto simp: startOfWeek_def Let_def)
qed

lemma startOfWeek_gt: "t < startOfWeek tz t + 7 * day_ms"
proof -
  have "getDay tz t < 7" "0 \<le> getDay tz t" by (simp_all add: getDay_def)
  then have "startOfDay tz t - 6 * day_ms \<le> startOfWeek tz t"
    by (auto simp: startOfWeek_def Let_def)
  then show ?thesis using startOfDay_gt [of t tz] by linarith
qed

subsection \<open>List filters (ticket.filters.js)\<close>

text \<open>
  The \<open>where\<close> clause the services hand to the repository. A missing part puts no condition.
  \<open>wh_or_user\<close> is the clause \<open>OR: [{ createdById }, { assignedToId }]\<close> of one user.
\<close>

datatype org_filter = OrgIs string | OrgIn "string list"

record ticket_where =
  wh_organizationId :: "org_filter option"
  wh_status :: "string option"
  wh_priority :: "string option"
  wh_source :: "string option"
  wh_assignedToId :: "string option"
  wh_tagId :: "string option"
  wh_tagName :: "string option"
  wh_createdFrom :: "time option"
  wh_createdTo :: "time option"
  wh_or_user :: "string option"

definition keep_truthy :: "string option \<Rightarrow> string option" where
  "keep_truthy x = (if truthy x then x else None)"

definition buildCommonTicketFilters ::
    "(string \<Rightarrow> time option) \<Rightarrow> ticket_filters \<Rightarrow> string \<Rightarrow> ticket_where result" where
  "buildCommonTicketFilters parseDate filters userId =
     (let resolvedAssignedToId =
            (if f_assignedTo filters = Some ''me'' then Some userId
             else (case f_assignedToId filters of None \<Rightarrow> f_assignedTo filters | Some a \<Rightarrow> Some a))
      in case parseDateFilter parseDate (f_dateFrom filters) ''dateFrom'' of
           Inl e \<Rightarrow> Inl e
         | Inr parsedDateFrom \<Rightarrow>
             (case parseDateFilter parseDate (f_dateTo filters) ''dateTo'' of
                Inl e \<Rightarrow> Inl e
              | Inr parsedDateTo \<Rightarrow>
                  Inr \<lparr>wh_organizationId = map_option OrgIs (keep_truthy (f_organizationId filters)),
                       wh_status = keep_truthy (f_status filters),
                       wh_priority = keep_truthy (f_priority filters),
                       wh_source = keep_truthy (f_source filters),
                       wh_assignedToId = keep_truthy resolvedAssignedToId,
                       wh_tagId = keep_truthy (f_tagId filters),
                       wh_tagName = keep_truthy (f_tag filters),
                       wh_createdFrom = parsedDateFrom,
                       wh_createdTo = parsedDateTo,
                       wh_or_user = None\<rparr>))"

definition validateListFilters ::
    "(string \<Rightarrow> time option) \<Rightarrow> bool \<Rightarrow> ticket_filters \<Rightarrow> unit result" where
  "validateListFilters parseDate requireOrganizationId filters =
     (if requireOrganizationId \<and> \<not> truthy (f_organizationId filters)
      then Inl (ApiError 400 ''Organization ID is required'' ''ORG_ID_REQUIRED'')
      else if truthy (f_status filters) \<and> the (f_status filters) \<notin> set TICKET_STATUSES
      then Inl (ApiError 400 ''Invalid status'' ''INVALID_STATUS'')
      else if truthy (f_priority filters) \<and> the (f_priority filters) \<notin> set TICKET_PRIORITIES
      then Inl (ApiError 400 ''Invalid priority'' ''INVALID_PRIORITY'')
      else if truthy (f_source filters) \<and> the (f_source filters) \<notin> set TICKET_SOURCES
      then Inl (ApiError 400 ''Invalid source'' ''INVALID_SOURCE'')
      else case parseDateFilter parseDate (f_dateFrom filters) ''dateFrom'' of
        Inl e \<Rightarrow> Inl e
      | Inr dateFrom \<Rightarrow>
          (case parseDateFilter parseDate (f_dateTo filters) ''dateTo'' of
             Inl e \<Rightarrow> Inl e
           | Inr dateTo \<Rightarrow>
               (case (dateFrom, dateTo) of
                  (Some a, Some b) \<Rightarrow>
                    (if a > b
                     then Inl (ApiError 400 ''dateFrom cannot be after dateTo'' ''INVALID_DATE_RANGE'')
                     else Inr ())
                | _ \<Rightarrow> Inr ())))"

subsection \<open>Policy (ticket.policy.js)\<close>

text \<open>
  The policy takes \<open>membership.role?.permissions\<close>: undefined for a membership without a role,
  otherwise a list of names.
\<close>

definition role_permissions :: "membership_view \<Rightarrow> string list option" where
  "role_permissions m = map_option rv_permissions (mv_role m)"

definition has :: "string list option \<Rightarrow> string \<Rightarrow> bool" where
  "has ps permission = (permission \<in> set (extractPermissionValues (strings_arg ps)))"

definition canViewAllOrganizationTickets :: "string list option \<Rightarrow> bool" where
  "canViewAllOrganizationTickets ps = has ps TICKET_VIEW_ALL"

definition canEditAllOrganizationTickets :: "string list option \<Rightarrow> bool" where
  "canEditAllOrganizationTickets ps = has ps TICKET_EDIT_ALL"

definition canAssignOrganizationTickets :: "string list option \<Rightarrow> bool" where
  "canAssignOrganizationTickets ps = has ps TICKET_ASSIGN"

definition canMemberViewTicket :: "'a ticket_scheme \<Rightarrow> string \<Rightarrow> bool" where
  "canMemberViewTicket t userId = (t_createdById t = userId \<or> t_assignedToId t = Some userId)"

definition canCreateInternalComment :: "string list option \<Rightarrow> bool" where
  "canCreateInternalComment ps = has ps TICKET_CREATE_INTERNAL_COMMENT"

definition canDeleteAnyTicketComment :: "string list option \<Rightarrow> bool" where
  "canDeleteAnyTicketComment ps = has ps TICKET_DELETE_ANY_COMMENT"

definition canDeleteAnyTicketAttachment :: "string list option \<Rightarrow> bool" where
  "canDeleteAnyTicketAttachment ps = has ps TICKET_DELETE_ANY_ATTACHMENT"

definition assertCanUpdateTicket ::
    "membership_view \<Rightarrow> 'a ticket_scheme \<Rightarrow> string \<Rightarrow> (string \<times> string) list \<Rightarrow> unit result" where
  "assertCanUpdateTicket m t userId updateData =
     (let ps = (case role_permissions m of None \<Rightarrow> Some [] | Some l \<Rightarrow> Some l) in
      if canEditAllOrganizationTickets ps then Inr ()
      else if \<not> canMemberViewTicket t userId
      then Inl (ApiError 403 ''You do not have permission to update this ticket'' ''TICKET_UPDATE_FORBIDDEN'')
      else
        let allowedFields = [''title'', ''description'', ''priority''];
            attemptedFields = List.map fst updateData
        in if \<not> list_all (\<lambda>field. field \<in> set allowedFields) attemptedFields
           then Inl (ApiError 403
                  ''You can only update title, description, and priority on your own tickets''
                  ''TICKET_UPDATE_FORBIDDEN'')
           else Inr ())"

subsection \<open>Request schemas (ticket.validator.js)\<close>

text \<open>
  The result of the schemas on bodies whose fields have the declared types: the transformed
  body, or \<open>None\<close> when a constraint fails.
\<close>

definition enum_field :: "string list \<Rightarrow> string option \<Rightarrow> string option option" where
  "enum_field names x =
     (case x of None \<Rightarrow> Some None
      | Some v \<Rightarrow> if toUpperCase v \<in> set names then Some (Some (toUpperCase v)) else None)"

definition createTicketSchema :: "ticket_body \<Rightarrow> ticket_body option" where
  "createTicketSchema d =
     (if tb_organizationId d = [] \<or> tb_title d = [] \<or> tb_assignedToId d = Some [] then None
      else case (enum_field TICKET_PRIORITIES (tb_priority d), enum_field TICKET_SOURCES (tb_source d)) of
        (Some p, Some src) \<Rightarrow>
          Some (d\<lparr>tb_description := map_option js_trim (tb_description d),
                  tb_priority := p, tb_source := src\<rparr>)
      | _ \<Rightarrow> None)"

definition updateTicketSchema :: "update_body \<Rightarrow> update_body option" where
  "updateTicketSchema d =
     (if ub_title d = Some [] \<or> ub_assignedToId d = Some [] then None
      else if ub_title d = None \<and> ub_description d = None \<and> ub_priority d = None \<and>
              ub_status d = None \<and> ub_assignedToId d = None then None
      else case (enum_field TICKET_PRIORITIES (ub_priority d), enum_field TICKET_STATUSES (ub_status d)) of
        (Some p, Some st) \<Rightarrow>
          Some (d\<lparr>ub_description := map_option js_trim (ub_description d),
                  ub_priority := p, ub_status := st\<rparr>)
      | _ \<Rightarrow> None)"

definition updateTicketStatusSchema :: "string \<Rightarrow> string option" where
  "updateTicketStatusSchema status =
     (if toUpperCase status \<in> set TICKET_STATUSES then Some (toUpperCase status) else None)"

definition createTagSchema :: "string \<Rightarrow> string \<Rightarrow> (string \<times> string) option" where
  "createTagSchema organizationId name =
     (if organizationId = [] \<or> js_trim name = [] then None else Some (organizationId, js_trim name))"

definition createTicketAttachmentSchema ::
    "(string \<Rightarrow> bool) \<Rightarrow> string \<Rightarrow> string \<Rightarrow> int \<Rightarrow> bool" where
  "createTicketAttachmentSchema isUrl fileUrl fileType fileSize =
     (isUrl fileUrl \<and> fileType \<noteq> [] \<and> 0 < fileSize)"

definition createTicketCommentSchema :: "string \<Rightarrow> bool" where
  "createTicketCommentSchema message = (message \<noteq> [])"

definition assignTicketSchema :: "string \<Rightarrow> bool" where
  "assignTicketSchema assignedToId = (assignedToId \<noteq> [])"

subsection \<open>Lemmas\<close>

lemma extract_strings_arg:
  "extractPermissionValues (strings_arg (Some ps)) = List.filter (\<lambda>p. p \<noteq> []) ps"
  by (induction ps) (auto simp: strings_arg_def)

lemma has_None [simp]: "has None p = False"
  by (simp add: has_def strings_arg_def)

lemma has_Some: "has (Some ps) p = (p \<in> set ps \<and> p \<noteq> [])"
  by (simp only: has_def extract_strings_arg) auto

lemma has_hasPermission: "has (role_permissions m) p = hasPermission (mv_role m) p"
  by (simp add: has_def role_permissions_def hasPermission_def)

lemma provided_fields: "set (getProvidedUpdateFields es) = {(k, v). (k, Some v) \<in> set es}"
  by (induction es rule: getProvidedUpdateFields.induct) auto

lemma provided_update_keys:
  "fst ` set (getProvidedUpdateFields (normalizeTicketUpdateFields d)) \<subseteq>
     {''title'', ''description'', ''priority'', ''status'', ''assignedToId''}"
  by (auto simp: provided_fields normalizeTicketUpdateFields_def)

lemma assertCanUpdateTicket_ok_iff:
  "assertCanUpdateTicket m t u d = Inr () \<longleftrightarrow>
     canEditAllOrganizationTickets (role_permissions m) \<or>
     (canMemberViewTicket t u \<and> (\<forall>f\<in>fst ` set d. f \<in> {''title'', ''description'', ''priority''}))"
  by (cases "role_permissions m")
    (auto simp: assertCanUpdateTicket_def canEditAllOrganizationTickets_def has_Some list_all_iff Let_def)

text \<open>Normalised filters and update fields are normalised already: normalising is idempotent.\<close>

lemma normalizeTicketFields_idem [simp]:
  "normalizeTicketFields (normalizeTicketFields d) = normalizeTicketFields d"
  by (simp add: normalizeTicketFields_def option.map_comp comp_def)

text \<open>A body that passed the schema has only enum names: the services normalise it to itself.\<close>

lemma enum_field_normal:
  "enum_field names x = Some y \<Longrightarrow> map_option toUpperCase y = y \<and> (\<forall>v. y = Some v \<longrightarrow> v \<in> set names)"
  by (auto simp: enum_field_def split: option.splits if_splits)

lemma createTicketSchema_normal:
  "createTicketSchema d = Some d' \<Longrightarrow> normalizeTicketFields d' = d'"
  by (auto simp: createTicketSchema_def normalizeTicketFields_def dest!: enum_field_normal
      split: if_splits option.splits)

lemma updateTicketSchema_status:
  "updateTicketSchema d = Some d' \<Longrightarrow> ub_status d' = Some v \<Longrightarrow> \<exists>st. status_of v = Some st"
  using status_of_None_iff [of v]
  by (auto simp: updateTicketSchema_def dest!: enum_field_normal split: if_splits option.splits)

end
