(* ===== verification/Ticket_Repo.thy ===== *)
theory Ticket_Repo
  imports Org_Repo Ticket_Rules
begin

section \<open>Ticket repository (modules/tickets/ticket.repo.js)\<close>

text \<open>
  One definition per function of the repository. A read is a function of the state, a write
  returns the result and the new state and leaves the tables as they were when it throws. A
  value that is no name of its enum is refused by the client library before the query.
\<close>

definition validation_error :: js_error where
  "validation_error = JsError ''PrismaClientValidationError''"

subsection \<open>Lookups and included relations\<close>

definition find_ticket :: "string \<Rightarrow> gateway \<Rightarrow> ticket option" where
  "find_ticket ticketId s = find_unique (\<lambda>t. t_id t = ticketId) (tickets s)"

definition ticket_tags_of :: "gateway \<Rightarrow> string \<Rightarrow> tag list" where
  "ticket_tags_of s ticketId =
     List.map_filter (\<lambda>tt. find_unique (\<lambda>g. tag_id g = tt_tagId tt) (tags s))
       (find_many (\<lambda>tt. tt_ticketId tt = ticketId) (ticketTags s))"

definition assigned_user :: "gateway \<Rightarrow> ticket \<Rightarrow> user option" where
  "assigned_user s t = (case t_assignedToId t of None \<Rightarrow> None | Some a \<Rightarrow> find_user a s)"

definition ticket_with_all :: "gateway \<Rightarrow> ticket \<Rightarrow> ticket_view" where
  "ticket_with_all s t =
     ticket.extend t (ticket_view.fields
       (find_organization (t_organizationId t) s)
       (Some (find_many (\<lambda>c. c_ticketId c = t_id t) (comments s)))
       (Some (find_many (\<lambda>a. a_ticketId a = t_id t) (attachments s)))
       (Some (ticket_tags_of s (t_id t)))
       (find_many (\<lambda>a. act_ticketId a = t_id t) (activities s))
       (find_user (t_createdById t) s)
       (assigned_user s t))"

definition ticket_with_people :: "gateway \<Rightarrow> ticket \<Rightarrow> ticket_view" where
  "ticket_with_people s t =
     ticket.extend t (ticket_view.fields
       (find_organization (t_organizationId t) s) None None None
       (find_many (\<lambda>a. act_ticketId a = t_id t) (activities s))
       (find_user (t_createdById t) s)
       (assigned_user s t))"

definition ticket_with_people_and_tags :: "gateway \<Rightarrow> ticket \<Rightarrow> ticket_view" where
  "ticket_with_people_and_tags s t =
     (ticket_with_people s t)\<lparr>tv_tags := Some (ticket_tags_of s (t_id t))\<rparr>"

subsection \<open>Memberships and agents\<close>

definition getTicketOrganizationMembership ::
    "string \<Rightarrow> string \<Rightarrow> gateway \<Rightarrow> membership_view option \<times> gateway" where
  "getTicketOrganizationMembership organizationId userId s =
     (case getCachedOrganizationMembership organizationId userId s of
        Some cached \<Rightarrow> (Some cached, s)
      | None \<Rightarrow>
          (case find_membership organizationId userId s of
             None \<Rightarrow> (None, s)
           | Some m \<Rightarrow> (Some (with_role s m), setCachedOrganizationMembership (with_role s m) s)))"

definition getTicketMembershipsByUserId :: "string \<Rightarrow> gateway \<Rightarrow> membership_view list" where
  "getTicketMembershipsByUserId userId s =
     List.map (with_role s) (find_many (\<lambda>m. m_userId m = userId) (memberships s))"

definition updateAgentAvailability ::
    "string \<Rightarrow> string \<Rightarrow> bool \<Rightarrow> gateway \<Rightarrow> membership result \<times> gateway" where
  "updateAgentAvailability organizationId userId isAvailable s =
     (case find_membership organizationId userId s of
        None \<Rightarrow> throw (PrismaError ''P2025'') s
      | Some m \<Rightarrow>
          return (m\<lparr>m_isAvailable := isAvailable\<rparr>)
            (invalidateOrganizationMembershipCache organizationId userId
              (s\<lparr>memberships := update_rows (\<lambda>m. m_userId m = userId \<and> m_organizationId m = organizationId)
                  (\<lambda>m. m\<lparr>m_isAvailable := isAvailable\<rparr>) (memberships s)\<rparr>)))"

definition getOrganizationAvailableAgents :: "string \<Rightarrow> gateway \<Rightarrow> membership_view list" where
  "getOrganizationAvailableAgents organizationId s =
     List.map (with_role_and_user s)
       (sort_key m_createdAt
         (find_many (\<lambda>m. m_organizationId m = organizationId \<and>
              (case find_role (m_roleId m) s of None \<Rightarrow> False | Some r \<Rightarrow> r_name r = ''AGENT'') \<and>
              m_isAvailable m) (memberships s)))"

definition getOrganizationAgentWorkloads :: "string \<Rightarrow> gateway \<Rightarrow> agent_workload list" where
  "getOrganizationAgentWorkloads organizationId s =
     find_many (\<lambda>w. w_organizationId w = organizationId) (workloads s)"

subsection \<open>Tags\<close>

definition createTag :: "string \<Rightarrow> string \<Rightarrow> string \<Rightarrow> gateway \<Rightarrow> tag result \<times> gateway" where
  "createTag organizationId name newId s =
     (if \<exists>g\<in>set (tags s). (tag_organizationId g = organizationId \<and> tag_name g = name) \<or> tag_id g = newId
      then throw (PrismaError ''P2002'') s
      else if find_organization organizationId s = None then throw (PrismaError ''P2003'') s
      else let g = \<lparr>tag_id = newId, tag_name = name, tag_organizationId = organizationId\<rparr> in
        return g (s\<lparr>tags := tags s @ [g]\<rparr>))"

text \<open>
  The names are ordered by the database's collation, \<open>collate\<close>: the position of a name in it.
\<close>

definition getTags :: "(string \<Rightarrow> int) \<Rightarrow> string \<Rightarrow> gateway \<Rightarrow> tag list" where
  "getTags collate organizationId s =
     sort_key (\<lambda>g. collate (tag_name g)) (find_many (\<lambda>g. tag_organizationId g = organizationId) (tags s))"

definition getTagById :: "string \<Rightarrow> gateway \<Rightarrow> tag option" where
  "getTagById tagId s = find_unique (\<lambda>g. tag_id g = tagId) (tags s)"

definition getTagByName :: "string \<Rightarrow> string \<Rightarrow> gateway \<Rightarrow> tag option" where
  "getTagByName organizationId name s =
     find_unique (\<lambda>g. tag_organizationId g = organizationId \<and> tag_name g = name) (tags s)"

subsection \<open>Tickets\<close>

definition optional_enum :: "(string \<Rightarrow> 'e option) \<Rightarrow> 'e \<Rightarrow> string option \<Rightarrow> 'e option" where
  "optional_enum parse dflt x = (case x of None \<Rightarrow> Some dflt | Some v \<Rightarrow> parse v)"

definition createTicket ::
    "ticket_body \<Rightarrow> string \<Rightarrow> time \<Rightarrow> string \<Rightarrow> gateway \<Rightarrow> ticket_view result \<times> gateway" where
  "createTicket d createdById now newId s =
     (case (optional_enum priority_of MEDIUM (tb_priority d), optional_enum source_of WEB (tb_source d)) of
        (Some pr, Some src) \<Rightarrow>
          (if find_ticket newId s \<noteq> None then throw (PrismaError ''P2002'') s
           else if find_organization (tb_organizationId d) s = None \<or> find_user createdById s = None \<or>
              (case tb_assignedToId d of None \<Rightarrow> False | Some a \<Rightarrow> find_user a s = None)
           then throw (PrismaError ''P2003'') s
           else
             let t = \<lparr>t_id = newId, t_title = tb_title d, t_description = tb_description d,
                      t_status = OPEN, t_priority = pr, t_source = src,
                      t_organizationId = tb_organizationId d, t_createdById = createdById,
                      t_assignedToId = tb_assignedToId d, t_aiActive = True, t_aiMessageCount = 0,
                      t_createdAt = now\<rparr>;
                 s1 = s\<lparr>tickets := tickets s @ [t]\<rparr>
             in return (ticket_with_people s1 t) s1)
      | _ \<Rightarrow> throw validation_error s)"

definition where_matches :: "gateway \<Rightarrow> ticket_where \<Rightarrow> ticket \<Rightarrow> bool" where
  "where_matches s w t =
     ((case wh_organizationId w of None \<Rightarrow> True
       | Some (OrgIs o') \<Rightarrow> t_organizationId t = o'
       | Some (OrgIn os) \<Rightarrow> t_organizationId t \<in> set os) \<and>
      (case wh_status w of None \<Rightarrow> True | Some n \<Rightarrow> status_name (t_status t) = n) \<and>
      (case wh_priority w of None \<Rightarrow> True | Some n \<Rightarrow> priority_name (t_priority t) = n) \<and>
      (case wh_source w of None \<Rightarrow> True | Some n \<Rightarrow> source_name (t_source t) = n) \<and>
      (case wh_assignedToId w of None \<Rightarrow> True | Some a \<Rightarrow> t_assignedToId t = Some a) \<and>
      (wh_tagId w = None \<and> wh_tagName w = None \<or>
       (\<exists>g\<in>set (ticket_tags_of s (t_id t)).
          (case wh_tagId w of None \<Rightarrow> True | Some i \<Rightarrow> tag_id g = i) \<and>
          (case wh_tagName w of None \<Rightarrow> True | Some n \<Rightarrow> tag_name g = n))) \<and>
      (case wh_createdFrom w of None \<Rightarrow> True | Some a \<Rightarrow> a \<le> t_createdAt t) \<and>
      (case wh_createdTo w of None \<Rightarrow> True | Some b \<Rightarrow> t_createdAt t \<le> b) \<and>
      (case wh_or_user w of None \<Rightarrow> True | Some u \<Rightarrow> t_createdById t = u \<or> t_assignedToId t = Some u))"

definition getTickets :: "ticket_where \<Rightarrow> gateway \<Rightarrow> ticket_view list" where
  "getTickets filters s =
     List.map (ticket_with_people s)
       (sort_key (\<lambda>t. - t_createdAt t) (find_many (where_matches s filters) (tickets s)))"

definition getAgentTickets :: "ticket_where \<Rightarrow> gateway \<Rightarrow> ticket_view list" where
  "getAgentTickets filters s =
     List.map (ticket_with_people_and_tags s)
       (sort_key (\<lambda>t. - t_createdAt t) (find_many (where_matches s filters) (tickets s)))"

definition getTicketById :: "string \<Rightarrow> gateway \<Rightarrow> ticket_view option" where
  "getTicketById ticketId s = map_option (ticket_with_all s) (find_ticket ticketId s)"

text \<open>The provided fields of an update, applied one by one to the row.\<close>

fun apply_update_fields :: "(string \<times> string) list \<Rightarrow> ticket \<Rightarrow> ticket result" where
  "apply_update_fields [] t = Inr t"
| "apply_update_fields ((k, v) # es) t =
     (if k = ''title'' then apply_update_fields es (t\<lparr>t_title := v\<rparr>)
      else if k = ''description'' then apply_update_fields es (t\<lparr>t_description := Some v\<rparr>)
      else if k = ''priority'' then
        (case priority_of v of
           None \<Rightarrow> Inl validation_error
         | Some p \<Rightarrow> apply_update_fields es (t\<lparr>t_priority := p\<rparr>))
      else if k = ''status'' then
        (case status_of v of
           None \<Rightarrow> Inl validation_error
         | Some st \<Rightarrow> apply_update_fields es (t\<lparr>t_status := st\<rparr>))
      else if k = ''assignedToId'' then apply_update_fields es (t\<lparr>t_assignedToId := Some v\<rparr>)
      else Inl validation_error)"

definition updateTicket ::
    "string \<Rightarrow> (string \<times> string) list \<Rightarrow> string \<Rightarrow> time \<Rightarrow> string \<Rightarrow> gateway \<Rightarrow> ticket_view result \<times> gateway" where
  "updateTicket ticketId ticketData actorId now newId s =
     (case find_ticket ticketId s of
        None \<Rightarrow> throw (PrismaError ''P2025'') s
      | Some t \<Rightarrow>
          (case apply_update_fields ticketData t of
             Inl e \<Rightarrow> throw e s
           | Inr t' \<Rightarrow>
               if (t_assignedToId t' \<noteq> t_assignedToId t \<and> assigned_user s t' = None) \<or> find_user actorId s = None
               then throw (PrismaError ''P2003'') s
               else
                 let act = \<lparr>act_id = newId, act_ticketId = ticketId, act_actorId = actorId,
                            act_action = TICKET_UPDATED, act_oldValue = None, act_newValue = None,
                            act_createdAt = now\<rparr>;
                     s1 = s\<lparr>tickets := update_rows (\<lambda>r. t_id r = ticketId) (\<lambda>_. t') (tickets s),
                            activities := activities s @ [act]\<rparr>
                 in return (ticket_with_all s1 t') s1))"

definition assignTicket ::
    "string \<Rightarrow> string \<Rightarrow> string \<Rightarrow> string option \<Rightarrow> gateway \<Rightarrow> ticket_view result \<times> gateway" where
  "assignTicket ticketId assignedToId actorId previousAssignedToId s =
     (case find_ticket ticketId s of
        None \<Rightarrow> throw (PrismaError ''P2025'') s
      | Some t \<Rightarrow>
          if find_user assignedToId s = None then throw (PrismaError ''P2003'') s
          else
            let t' = t\<lparr>t_assignedToId := Some assignedToId\<rparr>;
                s1 = s\<lparr>tickets := update_rows (\<lambda>r. t_id r = ticketId) (\<lambda>_. t') (tickets s)\<rparr>
            in return (ticket_with_all s1 t') s1)"

text \<open>
  The workload row of an agent in an organization: incremented when it exists, else created
  with both counters at 1 and both reset times at \<open>now\<close>.
\<close>

definition upsert_workload :: "string \<Rightarrow> string \<Rightarrow> time \<Rightarrow> agent_workload list \<Rightarrow> agent_workload list" where
  "upsert_workload agentUserId organizationId now ws =
     (if \<exists>w\<in>set ws. w_userId w = agentUserId \<and> w_organizationId w = organizationId
      then update_rows (\<lambda>w. w_userId w = agentUserId \<and> w_organizationId w = organizationId)
             (\<lambda>w. w\<lparr>w_assignedToday := w_assignedToday w + 1,
                     w_assignedThisWeek := w_assignedThisWeek w + 1\<rparr>) ws
      else ws @ [\<lparr>w_userId = agentUserId, w_organizationId = organizationId, w_assignedToday = 1,
                  w_assignedThisWeek = 1, w_lastDailyReset = now, w_lastWeeklyReset = now\<rparr>])"

definition autoAssignTicket ::
    "string \<Rightarrow> string \<Rightarrow> string \<Rightarrow> time \<Rightarrow> string \<Rightarrow> gateway \<Rightarrow> ticket_view result \<times> gateway" where
  "autoAssignTicket ticketId organizationId agentUserId now newId s =
     (if find_user agentUserId s = None \<or> find_organization organizationId s = None
      then throw (PrismaError ''P2003'') s
      else case find_ticket ticketId s of
        None \<Rightarrow> throw (PrismaError ''P2003'') s
      | Some t \<Rightarrow>
          let act = \<lparr>act_id = newId, act_ticketId = ticketId, act_actorId = agentUserId,
                     act_action = TICKET_ASSIGNED, act_oldValue = None, act_newValue = Some agentUserId,
                     act_createdAt = now\<rparr>;
              t' = t\<lparr>t_assignedToId := Some agentUserId, t_status := IN_PROGRESS\<rparr>;
              s1 = s\<lparr>workloads := upsert_workload agentUserId organizationId now (workloads s),
                     activities := activities s @ [act],
                     tickets := update_rows (\<lambda>r. t_id r = ticketId) (\<lambda>_. t') (tickets s)\<rparr>
          in return (ticket_with_all s1 t') s1)"

definition updateTicketStatus ::
    "string \<Rightarrow> string option \<Rightarrow> string \<Rightarrow> ticket_status \<Rightarrow> gateway \<Rightarrow> ticket_view result \<times> gateway" where
  "updateTicketStatus ticketId status actorId previousStatus s =
     (case find_ticket ticketId s of
        None \<Rightarrow> throw (PrismaError ''P2025'') s
      | Some t \<Rightarrow>
          (case optional_enum status_of (t_status t) status of
             None \<Rightarrow> throw validation_error s
           | Some st \<Rightarrow>
               let t' = t\<lparr>t_status := st\<rparr>;
                   s1 = s\<lparr>tickets := update_rows (\<lambda>r. t_id r = ticketId) (\<lambda>_. t') (tickets s)\<rparr>
               in return (ticket_with_all s1 t') s1))"

subsection \<open>Comments, activities, attachments, tags of a ticket\<close>

record comment_data =
  cd_authorId :: "string option"
  cd_authorType :: author_type
  cd_message :: string
  cd_isInternal :: bool

definition createTicketComment ::
    "string \<Rightarrow> comment_data \<Rightarrow> time \<Rightarrow> string \<Rightarrow> gateway \<Rightarrow> comment result \<times> gateway" where
  "createTicketComment ticketId d now newId s =
     (if newId \<in> c_id ` set (comments s) then throw (PrismaError ''P2002'') s
      else if find_ticket ticketId s = None \<or>
              (case cd_authorId d of None \<Rightarrow> False | Some a \<Rightarrow> find_user a s = None)
      then throw (PrismaError ''P2003'') s
      else let c = \<lparr>c_id = newId, c_ticketId = ticketId, c_authorId = cd_authorId d,
                   c_authorType = cd_authorType d, c_message = cd_message d,
                   c_isInternal = cd_isInternal d, c_createdAt = now\<rparr> in
        return c (s\<lparr>comments := comments s @ [c]\<rparr>))"

record activity_data =
  ad_actorId :: string
  ad_action :: activity_action
  ad_oldValue :: "string option"
  ad_newValue :: "string option"

definition createTicketActivityLog ::
    "string \<Rightarrow> activity_data \<Rightarrow> time \<Rightarrow> string \<Rightarrow> gateway \<Rightarrow> activity result \<times> gateway" where
  "createTicketActivityLog ticketId d now newId s =
     (if newId \<in> act_id ` set (activities s) then throw (PrismaError ''P2002'') s
      else if find_ticket ticketId s = None \<or> find_user (ad_actorId d) s = None
      then throw (PrismaError ''P2003'') s
      else let a = \<lparr>act_id = newId, act_ticketId = ticketId, act_actorId = ad_actorId d,
                   act_action = ad_action d, act_oldValue = ad_oldValue d, act_newValue = ad_newValue d,
                   act_createdAt = now\<rparr> in
        return a (s\<lparr>activities := activities s @ [a]\<rparr>))"

text \<open>A row of the join table comes with its tag.\<close>

record ticket_tag_view = ticket_tag +
  ttv_tag :: "tag option"

definition with_tag :: "gateway \<Rightarrow> ticket_tag \<Rightarrow> ticket_tag_view" where
  "with_tag s tt = ticket_tag.extend tt (ticket_tag_view.fields (getTagById (tt_tagId tt) s))"

definition find_ticket_tag :: "string \<Rightarrow> string \<Rightarrow> gateway \<Rightarrow> ticket_tag option" where
  "find_ticket_tag ticketId tagId s =
     find_unique (\<lambda>tt. tt_ticketId tt = ticketId \<and> tt_tagId tt = tagId) (ticketTags s)"

definition addTagToTicket :: "string \<Rightarrow> string \<Rightarrow> gateway \<Rightarrow> ticket_tag_view result \<times> gateway" where
  "addTagToTicket ticketId tagId s =
     (if find_ticket_tag ticketId tagId s \<noteq> None then throw (PrismaError ''P2002'') s
      else if find_ticket ticketId s = None \<or> getTagById tagId s = None then throw (PrismaError ''P2003'') s
      else let tt = \<lparr>tt_ticketId = ticketId, tt_tagId = tagId\<rparr> in
        return (with_tag s tt) (s\<lparr>ticketTags := ticketTags s @ [tt]\<rparr>))"

definition getTicketTagById :: "string \<Rightarrow> string \<Rightarrow> gateway \<Rightarrow> ticket_tag_view option" where
  "getTicketTagById ticketId tagId s = map_option (with_tag s) (find_ticket_tag ticketId tagId s)"

definition deleteTicketTag :: "string \<Rightarrow> string \<Rightarrow> gateway \<Rightarrow> ticket_tag_view result \<times> gateway" where
  "deleteTicketTag ticketId tagId s =
     (case find_ticket_tag ticketId tagId s of
        None \<Rightarrow> throw (PrismaError ''P2025'') s
      | Some tt \<Rightarrow>
          return (with_tag s tt)
            (s\<lparr>ticketTags := delete_rows (\<lambda>r. tt_ticketId r = ticketId \<and> tt_tagId r = tagId) (ticketTags s)\<rparr>))"

definition getTicketComments :: "string \<Rightarrow> gateway \<Rightarrow> comment list" where
  "getTicketComments ticketId s =
     sort_key c_createdAt (find_many (\<lambda>c. c_ticketId c = ticketId) (comments s))"

definition getTicketActivities :: "string \<Rightarrow> gateway \<Rightarrow> activity list" where
  "getTicketActivities ticketId s =
     sort_key act_createdAt (find_many (\<lambda>a. act_ticketId a = ticketId) (activities s))"

definition getTicketCommentById :: "string \<Rightarrow> gateway \<Rightarrow> comment option" where
  "getTicketCommentById commentId s = find_unique (\<lambda>c. c_id c = commentId) (comments s)"

definition deleteTicketComment :: "string \<Rightarrow> gateway \<Rightarrow> comment result \<times> gateway" where
  "deleteTicketComment commentId s =
     (case getTicketCommentById commentId s of
        None \<Rightarrow> throw (PrismaError ''P2025'') s
      | Some c \<Rightarrow> return c (s\<lparr>comments := delete_rows (\<lambda>r. c_id r = commentId) (comments s)\<rparr>))"

record attachment_data =
  atd_uploadedBy :: string
  atd_fileUrl :: string
  atd_fileType :: string
  atd_fileSize :: int

definition createTicketAttachment ::
    "string \<Rightarrow> attachment_data \<Rightarrow> time \<Rightarrow> string \<Rightarrow> gateway \<Rightarrow> attachment result \<times> gateway" where
  "createTicketAttachment ticketId d now newId s =
     (if newId \<in> a_id ` set (attachments s) then throw (PrismaError ''P2002'') s
      else if find_ticket ticketId s = None \<or> find_user (atd_uploadedBy d) s = None
      then throw (PrismaError ''P2003'') s
      else let a = \<lparr>a_id = newId, a_ticketId = ticketId, a_uploadedBy = atd_uploadedBy d,
                   a_fileUrl = atd_fileUrl d, a_fileType = atd_fileType d, a_fileSize = atd_fileSize d,
                   a_createdAt = now\<rparr> in
        return a (s\<lparr>attachments := attachments s @ [a]\<rparr>))"

definition getTicketAttachments :: "string \<Rightarrow> gateway \<Rightarrow> attachment list" where
  "getTicketAttachments ticketId s =
     sort_key a_createdAt (find_many (\<lambda>a. a_ticketId a = ticketId) (attachments s))"

definition getTicketAttachmentById :: "string \<Rightarrow> gateway \<Rightarrow> attachment option" where
  "getTicketAttachmentById attachmentId s = find_unique (\<lambda>a. a_id a = attachmentId) (attachments s)"

definition deleteTicketAttachment :: "string \<Rightarrow> gateway \<Rightarrow> attachment result \<times> gateway" where
  "deleteTicketAttachment attachmentId s =
     (case getTicketAttachmentById attachmentId s of
        None \<Rightarrow> throw (PrismaError ''P2025'') s
      | Some a \<Rightarrow> return a (s\<lparr>attachments := delete_rows (\<lambda>r. a_id r = attachmentId) (attachments s)\<rparr>))"

text \<open>For each ticket created since a date: its id, its status, the ids of its AI comments.\<close>

definition getOrganizationTicketsWithAIMetrics ::
    "string \<Rightarrow> time \<Rightarrow> gateway \<Rightarrow> (string \<times> ticket_status \<times> string list) list" where
  "getOrganizationTicketsWithAIMetrics organizationId since s =
     List.map (\<lambda>t. (t_id t, t_status t,
         List.map c_id (find_many (\<lambda>c. c_ticketId c = t_id t \<and> c_authorType c = AI) (comments s))))
       (find_many (\<lambda>t. t_organizationId t = organizationId \<and> since \<le> t_createdAt t) (tickets s))"

end
