(* ===== verification/Ticket_AutoAssign.thy ===== *)
theory Ticket_AutoAssign
  imports Ticket_Repo "HOL-Library.Product_Lexorder"
begin

section \<open>Automatic assignment (modules/tickets/ticket.autoAssign.js)\<close>

text \<open>
  The choice of an agent for a ticket: the available agents of the organization whose daily
  and weekly limits are not used up, and among them the one with the fewest tickets today,
  then this week, then the oldest membership. The comparison function of the source is the
  lexicographic order on the two counters, and \<open>Array.prototype.sort\<close> is stable.
\<close>

record effective_workload =
  ew_assignedToday :: int
  ew_assignedThisWeek :: int

definition getWorkloadMap :: "agent_workload list \<Rightarrow> string \<Rightarrow> agent_workload option" where
  "getWorkloadMap ws u = find_unique (\<lambda>w. w_userId w = u) (rev ws)"

definition getEffectiveWorkload :: "int \<Rightarrow> agent_workload option \<Rightarrow> time \<Rightarrow> effective_workload" where
  "getEffectiveWorkload tz workload now =
     (case workload of
        None \<Rightarrow> \<lparr>ew_assignedToday = 0, ew_assignedThisWeek = 0\<rparr>
      | Some w \<Rightarrow>
          let dayStart = startOfDay tz now; weekStart = startOfWeek tz now in
          \<lparr>ew_assignedToday = (if w_lastDailyReset w \<ge> dayStart then w_assignedToday w else 0),
           ew_assignedThisWeek = (if w_lastWeeklyReset w \<ge> weekStart then w_assignedThisWeek w else 0)\<rparr>)"

definition isEligibleForAutoAssignment ::
    "int \<Rightarrow> 'a membership_scheme \<Rightarrow> agent_workload option \<Rightarrow> time \<Rightarrow> bool" where
  "isEligibleForAutoAssignment tz m workload now =
     (let eff = getEffectiveWorkload tz workload now in
      if (case m_maxTicketsPerDay m of None \<Rightarrow> False | Some k \<Rightarrow> ew_assignedToday eff \<ge> k) then False
      else if (case m_maxTicketsPerWeek m of None \<Rightarrow> False | Some k \<Rightarrow> ew_assignedThisWeek eff \<ge> k) then False
      else True)"

definition workload_key :: "int \<Rightarrow> time \<Rightarrow> agent_workload list \<Rightarrow> 'a membership_scheme \<Rightarrow> int \<times> int" where
  "workload_key tz now ws m =
     (let eff = getEffectiveWorkload tz (getWorkloadMap ws (m_userId m)) now
      in (ew_assignedToday eff, ew_assignedThisWeek eff))"

definition eligible_agents :: "int \<Rightarrow> time \<Rightarrow> string \<Rightarrow> gateway \<Rightarrow> membership_view list" where
  "eligible_agents tz now organizationId s =
     List.filter (\<lambda>m. isEligibleForAutoAssignment tz m
         (getWorkloadMap (getOrganizationAgentWorkloads organizationId s) (m_userId m)) now)
       (getOrganizationAvailableAgents organizationId s)"

definition findBestAutoAssignAgent :: "int \<Rightarrow> time \<Rightarrow> string \<Rightarrow> gateway \<Rightarrow> string option" where
  "findBestAutoAssignAgent tz now organizationId s =
     (let ws = getOrganizationAgentWorkloads organizationId s;
          eligibleAgents = eligible_agents tz now organizationId s
      in case sort_key (workload_key tz now ws) eligibleAgents of
           [] \<Rightarrow> None
         | leastLoadedAgent # _ \<Rightarrow> Some (m_userId leastLoadedAgent))"

definition autoAssignTicketForOrganization ::
    "int \<Rightarrow> string \<Rightarrow> string \<Rightarrow> time \<Rightarrow> string \<Rightarrow> gateway \<Rightarrow> ticket_view result \<times> gateway" where
  "autoAssignTicketForOrganization tz ticketId organizationId now newId s =
     (if \<not> truthy (findBestAutoAssignAgent tz now organizationId s)
      then throw (ApiError 422 ''No available agent found for auto-assignment'' ''NO_AGENT_AVAILABLE'') s
      else case autoAssignTicket ticketId organizationId
                  (the (findBestAutoAssignAgent tz now organizationId s)) now newId s of
        (Inl e, s1) \<Rightarrow> throw e s1
      | (Inr t, s1) \<Rightarrow>
          if t_id t = []
          then throw (ApiError 500 ''Failed to auto-assign ticket'' ''AUTO_ASSIGN_FAILED'') s1
          else return t s1)"

end
