(* ===== verification/Ticket_Service.thy ===== *)
theory Ticket_Service
  imports Org_Service Ticket_AutoAssign
begin

section \<open>Ticket service (modules/tickets/ticket.service.js)\<close>

text \<open>
  One definition per handler of the service. \<open>with_ticket\<close> and \<open>with_member\<close> are the two guards
  the handlers open with: the ticket is loaded or the handler throws 404, the caller's
  membership in its organization is loaded (through the cache) or the handler throws the
  handler's own 403. Events go to the bus at the point where the source emits them
  (\<open>emitTicketEvent\<close>); \<open>now\<close> is the current time and \<open>newId\<close> the id of the row a create makes.
\<close>

subsection \<open>Guards and events\<close>

definition ticket_not_found :: js_error where
  "ticket_not_found = ApiError 404 ''Ticket not found'' ''TICKET_NOT_FOUND''"

definition with_ticket ::
    "string \<Rightarrow> gateway \<Rightarrow> (ticket_view \<Rightarrow> 'a result \<times> gateway) \<Rightarrow> 'a result \<times> gateway" where
  "with_ticket ticketId s k =
     (case getTicketById ticketId s of
        None \<Rightarrow> throw ticket_not_found s
      | Some ticket \<Rightarrow> if t_id ticket = [] then throw ticket_not_found s else k ticket)"

definition with_member ::
    "string \<Rightarrow> string \<Rightarrow> js_error \<Rightarrow> gateway \<Rightarrow>
     (membership_view \<Rightarrow> gateway \<Rightarrow> 'a result \<times> gateway) \<Rightarrow> 'a result \<times> gateway" where
  "with_member organizationId userId e s k =
     (case getTicketOrganizationMembership organizationId userId s of
        (None, s1) \<Rightarrow> throw e s1
      | (Some membership, s1) \<Rightarrow> if m_id membership = [] then throw e s1 else k membership s1)"

definition forbidden :: "string \<Rightarrow> js_error" where
  "forbidden msg = ApiError 403 msg ''FORBIDDEN''"

definition TICKET_CREATED_EVENT :: string where "TICKET_CREATED_EVENT = ''ticket.created''"
definition TICKET_ASSIGNED_EVENT :: string where "TICKET_ASSIGNED_EVENT = ''ticket.assigned''"
definition TICKET_STATUS_CHANGED_EVENT :: string where "TICKET_STATUS_CHANGED_EVENT = ''ticket.status.changed''"
definition TICKET_COMMENT_ADDED_EVENT :: string where "TICKET_COMMENT_ADDED_EVENT = ''ticket.comment.added''"
definition TICKET_COMMENT_DELETED_EVENT :: string where "TICKET_COMMENT_DELETED_EVENT = ''ticket.comment.deleted''"
definition TICKET_TAG_ADDED_EVENT :: string where "TICKET_TAG_ADDED_EVENT = ''ticket.tag.added''"
definition TICKET_TAG_REMOVED_EVENT :: string where "TICKET_TAG_REMOVED_EVENT = ''ticket.tag.removed''"
definition TICKET_ATTACHMENT_ADDED_EVENT :: string where "TICKET_ATTACHMENT_ADDED_EVENT = ''ticket.attachment.added''"
definition TICKET_ATTACHMENT_DELETED_EVENT :: string where "TICKET_ATTACHMENT_DELETED_EVENT = ''ticket.attachment.deleted''"

definition emitTicketEvent ::
    "string \<Rightarrow> string \<Rightarrow> string \<Rightarrow> string \<Rightarrow> (string \<times> string option) list \<Rightarrow> gateway \<Rightarrow> gateway" where
  "emitTicketEvent eventName ticketId organizationId actorId metadata s =
     s\<lparr>emitted := emitted s @
        [\<lparr>e_name = eventName,
          e_fields = [(''ticketId'', ticketId), (''organizationId'', organizationId), (''actorId'', actorId)],
          e_metadata = metadata\<rparr>]\<rparr>"

subsection \<open>Helpers\<close>

definition filterInternalCommentsForRole :: "ticket_view \<Rightarrow> string list option \<Rightarrow> ticket_view" where
  "filterInternalCommentsForRole ticket ps =
     (if canViewAllOrganizationTickets ps \<or> tv_comments ticket = None then ticket
      else ticket\<lparr>tv_comments := map_option (List.filter (\<lambda>c. \<not> c_isInternal c)) (tv_comments ticket)\<rparr>)"

definition filterCommentsForRole :: "comment list \<Rightarrow> string list option \<Rightarrow> comment list" where
  "filterCommentsForRole cs ps =
     (if canViewAllOrganizationTickets ps then cs else List.filter (\<lambda>c. \<not> c_isInternal c) cs)"

definition getStaffMemberships :: "string \<Rightarrow> gateway \<Rightarrow> membership_view list" where
  "getStaffMemberships userId s =
     List.filter (\<lambda>m. case role_permissions m of None \<Rightarrow> False | Some ps \<Rightarrow> TICKET_VIEW_ALL \<in> set ps)
       (getTicketMembershipsByUserId userId s)"

definition validateTicketAssignee :: "string \<Rightarrow> string option \<Rightarrow> gateway \<Rightarrow> unit result \<times> gateway" where
  "validateTicketAssignee organizationId assignedToId s =
     (if \<not> truthy assignedToId then return () s
      else with_member organizationId (the assignedToId)
        (ApiError 400 ''Assigned user must be a member of the organization'' ''ASSIGNEE_NOT_MEMBER'')
        s (\<lambda>_ s1. return () s1))"

definition error_code :: "js_error \<Rightarrow> string option" where
  "error_code e = (case e of ApiError _ _ c \<Rightarrow> Some c | PrismaError c \<Rightarrow> Some c
     | RequestAbortedError _ \<Rightarrow> Some ''ERR_REQUEST_ABORTED'' | _ \<Rightarrow> None)"

subsection \<open>Creation and assignment\<close>

definition createTicketService ::
    "int \<Rightarrow> ticket_body \<Rightarrow> string \<Rightarrow> time \<Rightarrow> string \<Rightarrow> string \<Rightarrow> gateway \<Rightarrow> ticket_view result \<times> gateway" where
  "createTicketService tz ticketData userId now newId newActId s =
     (let d = normalizeTicketFields ticketData in
      with_member (tb_organizationId d) userId
        (forbidden ''You do not have permission to create tickets for this organization'') s
        (\<lambda>membership s1.
          case validateTicketAssignee (tb_organizationId d) (tb_assignedToId d) s1 of
            (Inl e, s2) \<Rightarrow> throw e s2
          | (Inr _, s2) \<Rightarrow>
              (case createTicket d userId now newId s2 of
                 (Inl e, s3) \<Rightarrow> throw e s3
               | (Inr ticket, s3) \<Rightarrow>
                   if t_id ticket = []
                   then throw (ApiError 500 ''Failed to create ticket'' ''TICKET_CREATION_FAILED'') s3
                   else
                     let s4 = emitTicketEvent TICKET_CREATED_EVENT (t_id ticket) (t_organizationId ticket) userId
                                [(''title'', Some (t_title ticket))] s3
                     in if truthy (t_assignedToId ticket) then return ticket s4
                        else case autoAssignTicketForOrganization tz (t_id ticket) (t_organizationId ticket)
                                    now newActId s4 of
                          (Inl e, s5) \<Rightarrow>
                            (if error_code e = Some ''NO_AGENT_AVAILABLE'' then return ticket s5 else throw e s5)
                        | (Inr t, s5) \<Rightarrow> return t s5)))"

definition autoAssignTicketService ::
    "int \<Rightarrow> string \<Rightarrow> string \<Rightarrow> time \<Rightarrow> string \<Rightarrow> gateway \<Rightarrow> ticket_view result \<times> gateway" where
  "autoAssignTicketService tz ticketId userId now newActId s =
     with_ticket ticketId s (\<lambda>ticket.
       with_member (t_organizationId ticket) userId
         (forbidden ''You do not have permission to auto-assign this ticket'') s
         (\<lambda>membership s1.
           if \<not> canAssignOrganizationTickets (role_permissions membership)
           then throw (forbidden ''You do not have permission to auto-assign this ticket'') s1
           else autoAssignTicketForOrganization tz (t_id ticket) (t_organizationId ticket) now newActId s1))"

subsection \<open>Tags of an organization\<close>

definition createTagService :: "string \<Rightarrow> string \<Rightarrow> string \<Rightarrow> string \<Rightarrow> gateway \<Rightarrow> tag result \<times> gateway" where
  "createTagService organizationId name userId newId s =
     with_member organizationId userId (forbidden ''You do not have permission to create tags'') s
       (\<lambda>membership s1.
         if \<not> canEditAllOrganizationTickets (role_permissions membership)
         then throw (forbidden ''You do not have permission to create tags'') s1
         else
           let normalizedName = normalizeTagName name in
           if \<not> no_id tag_id (getTagByName organizationId normalizedName s1)
           then throw (ApiError 409 ''Tag already exists in this organization'' ''TAG_EXISTS'') s1
           else case createTag organizationId normalizedName newId s1 of
             (Inl e, s2) \<Rightarrow> throw e s2
           | (Inr g, s2) \<Rightarrow>
               if tag_id g = []
               then throw (ApiError 500 ''Failed to create tag'' ''TAG_CREATION_FAILED'') s2
               else return g s2)"

definition getTagsService ::
    "(string \<Rightarrow> int) \<Rightarrow> string option \<Rightarrow> string \<Rightarrow> gateway \<Rightarrow> tag list result \<times> gateway" where
  "getTagsService collate organizationId userId s =
     (if \<not> truthy organizationId
      then throw (ApiError 400 ''Organization ID is required'' ''ORG_ID_REQUIRED'') s
      else with_member (the organizationId) userId (forbidden ''You do not have permission to view tags'') s
        (\<lambda>membership s1. return (getTags collate (the organizationId) s1) s1))"

subsection \<open>Lists and statistics\<close>

definition getTicketsService ::
    "(string \<Rightarrow> time option) \<Rightarrow> ticket_filters \<Rightarrow> string \<Rightarrow> gateway \<Rightarrow> ticket_view list result \<times> gateway" where
  "getTicketsService parseDate query userId s =
     (let f = normalizeTicketFilters query in
      case validateListFilters parseDate True f of
        Inl e \<Rightarrow> throw e s
      | Inr _ \<Rightarrow>
          with_member (case f_organizationId f of None \<Rightarrow> [] | Some o' \<Rightarrow> o') userId
            (forbidden ''You do not have permission to view tickets for this organization'') s
            (\<lambda>membership s1.
              case buildCommonTicketFilters parseDate f userId of
                Inl e \<Rightarrow> throw e s1
              | Inr baseFilters \<Rightarrow>
                  return (getTickets
                    (if \<not> canViewAllOrganizationTickets (role_permissions membership)
                     then baseFilters\<lparr>wh_or_user := Some userId\<rparr> else baseFilters) s1) s1))"

definition getMyAgentTicketsService ::
    "(string \<Rightarrow> time option) \<Rightarrow> ticket_filters \<Rightarrow> string \<Rightarrow> gateway \<Rightarrow> ticket_view list result \<times> gateway" where
  "getMyAgentTicketsService parseDate query userId s =
     (let f = normalizeTicketFilters query in
      case validateListFilters parseDate False f of
        Inl e \<Rightarrow> throw e s
      | Inr _ \<Rightarrow>
          let staffMemberships = getStaffMemberships userId s in
          if staffMemberships = []
          then throw (forbidden ''You do not have permission to view assigned agent tickets'') s
          else
            let organizationIds = List.map m_organizationId staffMemberships in
            if truthy (f_organizationId f) \<and> the (f_organizationId f) \<notin> set organizationIds
            then throw (forbidden ''You do not have permission to view assigned agent tickets'') s
            else case buildCommonTicketFilters parseDate (f\<lparr>f_assignedTo := Some ''me''\<rparr>) userId of
              Inl e \<Rightarrow> throw e s
            | Inr w \<Rightarrow>
                return (getAgentTickets
                  (w\<lparr>wh_organizationId := Some (if truthy (f_organizationId f) then OrgIs (the (f_organizationId f))
                                               else OrgIn organizationIds)\<rparr>) s) s)"

record agent_stats =
  st_totalAssigned :: nat
  st_byStatus :: "(string \<times> nat) list"
  st_byPriority :: "(string \<times> nat) list"

definition bump :: "string \<Rightarrow> (string \<times> nat) list \<Rightarrow> (string \<times> nat) list" where
  "bump k counts = List.map (\<lambda>(n, c). if n = k then (n, c + 1) else (n, c)) counts"

definition getMyAgentStatsService ::
    "(string \<Rightarrow> time option) \<Rightarrow> ticket_filters \<Rightarrow> string \<Rightarrow> gateway \<Rightarrow> agent_stats result \<times> gateway" where
  "getMyAgentStatsService parseDate query userId s =
     (case getMyAgentTicketsService parseDate query userId s of
        (Inl e, s1) \<Rightarrow> throw e s1
      | (Inr ts, s1) \<Rightarrow>
          return \<lparr>st_totalAssigned = length ts,
            st_byStatus = foldl (\<lambda>acc t. bump (status_name (t_status t)) acc)
              (List.map (\<lambda>n. (n, 0)) TICKET_STATUSES) ts,
            st_byPriority = foldl (\<lambda>acc t. bump (priority_name (t_priority t)) acc)
              (List.map (\<lambda>n. (n, 0)) TICKET_PRIORITIES) ts\<rparr> s1)"

definition updateMyAgentAvailabilityService ::
    "string \<Rightarrow> bool \<Rightarrow> string \<Rightarrow> gateway \<Rightarrow> membership result \<times> gateway" where
  "updateMyAgentAvailabilityService organizationId isAvailable userId s =
     with_member organizationId userId
       (forbidden ''You do not have permission to update agent availability for this organization'') s
       (\<lambda>membership s1.
         if \<not> (case role_permissions membership of
                 None \<Rightarrow> False | Some ps \<Rightarrow> AGENT_UPDATE_AVAILABILITY \<in> set ps)
         then throw (ApiError 403 ''You do not have permission to update availability'' ''AGENT_ROLE_REQUIRED'') s1
         else case updateAgentAvailability organizationId userId isAvailable s1 of
           (Inl e, s2) \<Rightarrow> throw e s2
         | (Inr m, s2) \<Rightarrow>
             if m_id m = []
             then throw (ApiError 500 ''Failed to update agent availability''
                    ''AGENT_AVAILABILITY_UPDATE_FAILED'') s2
             else return m s2)"

subsection \<open>One ticket\<close>

definition getTicketByIdService :: "string \<Rightarrow> string \<Rightarrow> gateway \<Rightarrow> ticket_view result \<times> gateway" where
  "getTicketByIdService ticketId userId s =
     with_ticket ticketId s (\<lambda>ticket.
       with_member (t_organizationId ticket) userId
         (forbidden ''You do not have permission to view this ticket'') s
         (\<lambda>membership s1.
           if \<not> canViewAllOrganizationTickets (role_permissions membership) \<and> \<not> canMemberViewTicket ticket userId
           then throw (forbidden ''You do not have permission to view this ticket'') s1
           else return (filterInternalCommentsForRole ticket (role_permissions membership)) s1))"

definition updateTicketService ::
    "string \<Rightarrow> update_body \<Rightarrow> string \<Rightarrow> time \<Rightarrow> string \<Rightarrow> gateway \<Rightarrow> ticket_view result \<times> gateway" where
  "updateTicketService ticketId ticketData userId now newActId s =
     (let normalizedUpdateData = getProvidedUpdateFields (normalizeTicketUpdateFields ticketData) in
      with_ticket ticketId s (\<lambda>ticket.
        with_member (t_organizationId ticket) userId
          (forbidden ''You do not have permission to update this ticket'') s
          (\<lambda>membership s1.
            case assertCanUpdateTicket membership ticket userId normalizedUpdateData of
              Inl e \<Rightarrow> throw e s1
            | Inr _ \<Rightarrow>
                (case validateTicketAssignee (t_organizationId ticket)
                        (map_of normalizedUpdateData ''assignedToId'') s1 of
                   (Inl e, s2) \<Rightarrow> throw e s2
                 | (Inr _, s2) \<Rightarrow>
                     (case updateTicket ticketId normalizedUpdateData userId now newActId s2 of
                        (Inl e, s3) \<Rightarrow> throw e s3
                      | (Inr updatedTicket, s3) \<Rightarrow>
                          if t_id updatedTicket = []
                          then throw (ApiError 500 ''Failed to update ticket'' ''TICKET_UPDATE_FAILED'') s3
                          else return (filterInternalCommentsForRole updatedTicket (role_permissions membership))
                                 s3)))))"

definition assignTicketService ::
    "string \<Rightarrow> string \<Rightarrow> string \<Rightarrow> gateway \<Rightarrow> ticket_view result \<times> gateway" where
  "assignTicketService ticketId assignedToId userId s =
     with_ticket ticketId s (\<lambda>ticket.
       with_member (t_organizationId ticket) userId
         (forbidden ''You do not have permission to assign this ticket'') s
         (\<lambda>membership s1.
           if \<not> canAssignOrganizationTickets (role_permissions membership)
           then throw (forbidden ''You do not have permission to assign this ticket'') s1
           else case validateTicketAssignee (t_organizationId ticket) (Some assignedToId) s1 of
             (Inl e, s2) \<Rightarrow> throw e s2
           | (Inr _, s2) \<Rightarrow>
               (case assignTicket ticketId assignedToId userId (t_assignedToId ticket) s2 of
                  (Inl e, s3) \<Rightarrow> throw e s3
                | (Inr updatedTicket, s3) \<Rightarrow>
                    if t_id updatedTicket = []
                    then throw (ApiError 500 ''Failed to assign ticket'' ''TICKET_ASSIGNMENT_FAILED'') s3
                    else return updatedTicket
                      (emitTicketEvent TICKET_ASSIGNED_EVENT (t_id updatedTicket)
                        (t_organizationId updatedTicket) userId
                        [(''previousAssignedToId'', t_assignedToId ticket),
                         (''assignedToId'', t_assignedToId updatedTicket)] s3))))"

definition updateTicketStatusService ::
    "string \<Rightarrow> string option \<Rightarrow> string \<Rightarrow> gateway \<Rightarrow> ticket_view result \<times> gateway" where
  "updateTicketStatusService ticketId status userId s =
     (let normalizedStatus = map_option toUpperCase status in
      with_ticket ticketId s (\<lambda>ticket.
        with_member (t_organizationId ticket) userId
          (forbidden ''You do not have permission to update this ticket status'') s
          (\<lambda>membership s1.
            if \<not> canEditAllOrganizationTickets (role_permissions membership)
            then throw (forbidden ''You do not have permission to update this ticket status'') s1
            else case updateTicketStatus ticketId normalizedStatus userId (t_status ticket) s1 of
              (Inl e, s2) \<Rightarrow> throw e s2
            | (Inr updatedTicket, s2) \<Rightarrow>
                if t_id updatedTicket = []
                then throw (ApiError 500 ''Failed to update ticket status'' ''TICKET_STATUS_UPDATE_FAILED'') s2
                else return updatedTicket
                  (emitTicketEvent TICKET_STATUS_CHANGED_EVENT (t_id updatedTicket)
                    (t_organizationId updatedTicket) userId
                    [(''previousStatus'', Some (status_name (t_status ticket))),
                     (''status'', Some (status_name (t_status updatedTicket)))] s2))))"

subsection \<open>Comments and activities\<close>

text \<open>\<open>isInternal\<close> is the field of the request body: undefined, true or false.\<close>

definition createTicketCommentService ::
    "string \<Rightarrow> string \<Rightarrow> bool option \<Rightarrow> string \<Rightarrow> time \<Rightarrow> string \<Rightarrow> gateway \<Rightarrow> comment result \<times> gateway" where
  "createTicketCommentService ticketId message isInternalField userId now newId s =
     with_ticket ticketId s (\<lambda>ticket.
       with_member (t_organizationId ticket) userId
         (forbidden ''You do not have permission to comment on this ticket'') s
         (\<lambda>membership s1.
           if \<not> canViewAllOrganizationTickets (role_permissions membership) \<and> \<not> canMemberViewTicket ticket userId
           then throw (forbidden ''You do not have permission to comment on this ticket'') s1
           else
             let isInternal = (isInternalField = Some True) in
             if isInternal \<and> \<not> canCreateInternalComment (role_permissions membership)
             then throw (forbidden ''You do not have permission to create internal comments'') s1
             else case createTicketComment ticketId
                    \<lparr>cd_authorId = Some userId, cd_authorType = USER, cd_message = message,
                     cd_isInternal = isInternal\<rparr> now newId s1 of
               (Inl e, s2) \<Rightarrow> throw e s2
             | (Inr c, s2) \<Rightarrow>
                 if c_id c = []
                 then throw (ApiError 500 ''Failed to create ticket comment'' ''COMMENT_CREATION_FAILED'') s2
                 else
                   let s3 = emitTicketEvent TICKET_COMMENT_ADDED_EVENT (t_id ticket) (t_organizationId ticket)
                              userId [(''message'', Some (c_message c))] s2
                   in if \<not> canViewAllOrganizationTickets (role_permissions membership) \<and> c_isInternal c
                      then return (c\<lparr>c_isInternal := False\<rparr>) s3
                      else return c s3))"

definition getTicketCommentsService :: "string \<Rightarrow> string \<Rightarrow> gateway \<Rightarrow> comment list result \<times> gateway" where
  "getTicketCommentsService ticketId userId s =
     with_ticket ticketId s (\<lambda>ticket.
       with_member (t_organizationId ticket) userId
         (forbidden ''You do not have permission to view comments on this ticket'') s
         (\<lambda>membership s1.
           if \<not> canViewAllOrganizationTickets (role_permissions membership) \<and> \<not> canMemberViewTicket ticket userId
           then throw (forbidden ''You do not have permission to view comments on this ticket'') s1
           else return (filterCommentsForRole (getTicketComments ticketId s1) (role_permissions membership)) s1))"

definition getTicketActivitiesService :: "string \<Rightarrow> string \<Rightarrow> gateway \<Rightarrow> activity list result \<times> gateway" where
  "getTicketActivitiesService ticketId userId s =
     with_ticket ticketId s (\<lambda>ticket.
       with_member (t_organizationId ticket) userId
         (forbidden ''You do not have permission to view activity on this ticket'') s
         (\<lambda>membership s1.
           if \<not> canViewAllOrganizationTickets (role_permissions membership) \<and> \<not> canMemberViewTicket ticket userId
           then throw (forbidden ''You do not have permission to view activity on this ticket'') s1
           else return (getTicketActivities ticketId s1) s1))"

definition comment_not_found :: js_error where
  "comment_not_found = ApiError 404 ''Comment not found'' ''COMMENT_NOT_FOUND''"

definition deleteTicketCommentService ::
    "string \<Rightarrow> string \<Rightarrow> string \<Rightarrow> gateway \<Rightarrow> comment result \<times> gateway" where
  "deleteTicketCommentService ticketId commentId userId s =
     with_ticket ticketId s (\<lambda>ticket.
       case getTicketCommentById commentId s of
         None \<Rightarrow> throw comment_not_found s
       | Some c \<Rightarrow>
           if c_id c = [] \<or> c_ticketId c \<noteq> ticketId then throw comment_not_found s
           else with_member (t_organizationId ticket) userId
             (forbidden ''You do not have permission to delete comments on this ticket'') s
             (\<lambda>membership s1.
               if \<not> canDeleteAnyTicketComment (role_permissions membership) \<and>
                  (\<not> canMemberViewTicket ticket userId \<or> c_authorId c \<noteq> Some userId)
               then throw (forbidden ''You do not have permission to delete this comment'') s1
               else case deleteTicketComment commentId s1 of
                 (Inl e, s2) \<Rightarrow> throw e s2
               | (Inr deletedComment, s2) \<Rightarrow>
                   if c_id deletedComment = []
                   then throw (ApiError 500 ''Failed to delete ticket comment'' ''COMMENT_DELETION_FAILED'') s2
                   else return deletedComment
                     (emitTicketEvent TICKET_COMMENT_DELETED_EVENT (t_id ticket) (t_organizationId ticket) userId
                       [(''message'', Some (c_message deletedComment))] s2)))"

subsection \<open>Attachments\<close>

definition createTicketAttachmentService ::
    "string \<Rightarrow> string \<Rightarrow> string \<Rightarrow> int \<Rightarrow> string \<Rightarrow> time \<Rightarrow> string \<Rightarrow> gateway \<Rightarrow> attachment result \<times> gateway" where
  "createTicketAttachmentService ticketId fileUrl fileType fileSize userId now newId s =
     with_ticket ticketId s (\<lambda>ticket.
       with_member (t_organizationId ticket) userId
         (forbidden ''You do not have permission to add attachments to this ticket'') s
         (\<lambda>membership s1.
           if \<not> canViewAllOrganizationTickets (role_permissions membership) \<and> \<not> canMemberViewTicket ticket userId
           then throw (forbidden ''You do not have permission to add attachments to this ticket'') s1
           else case createTicketAttachment ticketId
                  \<lparr>atd_uploadedBy = userId, atd_fileUrl = fileUrl, atd_fileType = fileType,
                   atd_fileSize = fileSize\<rparr> now newId s1 of
             (Inl e, s2) \<Rightarrow> throw e s2
           | (Inr a, s2) \<Rightarrow>
               if a_id a = []
               then throw (ApiError 500 ''Failed to create ticket attachment'' ''ATTACHMENT_CREATION_FAILED'') s2
               else return a
                 (emitTicketEvent TICKET_ATTACHMENT_ADDED_EVENT (t_id ticket) (t_organizationId ticket) userId
                   [(''fileUrl'', Some (a_fileUrl a))] s2)))"

definition getTicketAttachmentsService ::
    "string \<Rightarrow> string \<Rightarrow> gateway \<Rightarrow> attachment list result \<times> gateway" where
  "getTicketAttachmentsService ticketId userId s =
     with_ticket ticketId s (\<lambda>ticket.
       with_member (t_organizationId ticket) userId
         (forbidden ''You do not have permission to view attachments on this ticket'') s
         (\<lambda>membership s1.
           if \<not> canViewAllOrganizationTickets (role_permissions membership) \<and> \<not> canMemberViewTicket ticket userId
           then throw (forbidden ''You do not have permission to view attachments on this ticket'') s1
           else return (getTicketAttachments ticketId s1) s1))"

definition attachment_not_found :: js_error where
  "attachment_not_found = ApiError 404 ''Attachment not found'' ''ATTACHMENT_NOT_FOUND''"

definition deleteTicketAttachmentService ::
    "string \<Rightarrow> string \<Rightarrow> string \<Rightarrow> gateway \<Rightarrow> attachment result \<times> gateway" where
  "deleteTicketAttachmentService ticketId attachmentId userId s =
     with_ticket ticketId s (\<lambda>ticket.
       case getTicketAttachmentById attachmentId s of
         None \<Rightarrow> throw attachment_not_found s
       | Some a \<Rightarrow>
           if a_id a = [] \<or> a_ticketId a \<noteq> ticketId then throw attachment_not_found s
           else with_member (t_organizationId ticket) userId
             (forbidden ''You do not have permission to delete attachments on this ticket'') s
             (\<lambda>membership s1.
               if \<not> canDeleteAnyTicketAttachment (role_permissions membership) \<and>
                  (\<not> canMemberViewTicket ticket userId \<or> a_uploadedBy a \<noteq> userId)
               then throw (forbidden ''You do not have permission to delete this attachment'') s1
               else case deleteTicketAttachment attachmentId s1 of
                 (Inl e, s2) \<Rightarrow> throw e s2
               | (Inr deletedAttachment, s2) \<Rightarrow>
                   if a_id deletedAttachment = []
                   then throw (ApiError 500 ''Failed to delete ticket attachment''
                          ''ATTACHMENT_DELETION_FAILED'') s2
                   else return deletedAttachment
                     (emitTicketEvent TICKET_ATTACHMENT_DELETED_EVENT (t_id ticket) (t_organizationId ticket)
                       userId [(''fileUrl'', Some (a_fileUrl deletedAttachment))] s2)))"

subsection \<open>Tags of a ticket\<close>

text \<open>
  The tag of a join row exists (foreign key); reading its name from a row without one throws.
\<close>

definition tag_name_of :: "ticket_tag_view \<Rightarrow> string result" where
  "tag_name_of tt =
     (case ttv_tag tt of
        None \<Rightarrow> Inl (JsTypeError ''Cannot read properties of null (reading name)'')
      | Some g \<Rightarrow> Inr (tag_name g))"

definition addTicketTagService ::
    "string \<Rightarrow> string \<Rightarrow> string \<Rightarrow> gateway \<Rightarrow> ticket_tag_view result \<times> gateway" where
  "addTicketTagService ticketId tagId userId s =
     with_ticket ticketId s (\<lambda>ticket.
       with_member (t_organizationId ticket) userId
         (forbidden ''You do not have permission to tag this ticket'') s
         (\<lambda>membership s1.
           if \<not> canEditAllOrganizationTickets (role_permissions membership)
           then throw (forbidden ''You do not have permission to tag this ticket'') s1
           else case getTagById tagId s1 of
             None \<Rightarrow> throw (ApiError 404 ''Tag not found'' ''TAG_NOT_FOUND'') s1
           | Some g \<Rightarrow>
               if tag_id g = [] \<or> tag_organizationId g \<noteq> t_organizationId ticket
               then throw (ApiError 404 ''Tag not found'' ''TAG_NOT_FOUND'') s1
               else if \<not> no_id tt_tagId (getTicketTagById ticketId tagId s1)
               then throw (ApiError 409 ''Tag already added to this ticket'' ''TICKET_TAG_EXISTS'') s1
               else case addTagToTicket ticketId tagId s1 of
                 (Inl e, s2) \<Rightarrow> throw e s2
               | (Inr tt, s2) \<Rightarrow>
                   if tt_tagId tt = []
                   then throw (ApiError 500 ''Failed to add tag to ticket'' ''TICKET_TAG_ADD_FAILED'') s2
                   else case tag_name_of tt of
                     Inl e \<Rightarrow> throw e s2
                   | Inr n \<Rightarrow>
                       return tt
                         (emitTicketEvent TICKET_TAG_ADDED_EVENT (t_id ticket) (t_organizationId ticket) userId
                           [(''tagName'', Some n)] s2)))"

definition deleteTicketTagService ::
    "string \<Rightarrow> string \<Rightarrow> string \<Rightarrow> gateway \<Rightarrow> ticket_tag_view result \<times> gateway" where
  "deleteTicketTagService ticketId tagId userId s =
     with_ticket ticketId s (\<lambda>ticket.
       with_member (t_organizationId ticket) userId
         (forbidden ''You do not have permission to remove tags from this ticket'') s
         (\<lambda>membership s1.
           if \<not> canEditAllOrganizationTickets (role_permissions membership)
           then throw (forbidden ''You do not have permission to remove tags from this ticket'') s1
           else if no_id tt_tagId (getTicketTagById ticketId tagId s1)
           then throw (ApiError 404 ''Tag not found on this ticket'' ''TICKET_TAG_NOT_FOUND'') s1
           else case deleteTicketTag ticketId tagId s1 of
             (Inl e, s2) \<Rightarrow> throw e s2
           | (Inr tt, s2) \<Rightarrow>
               if tt_tagId tt = []
               then throw (ApiError 500 ''Failed to remove tag from ticket'' ''TICKET_TAG_REMOVE_FAILED'') s2
               else case tag_name_of tt of
                 Inl e \<Rightarrow> throw e s2
               | Inr n \<Rightarrow>
                   return tt
                     (emitTicketEvent TICKET_TAG_REMOVED_EVENT (t_id ticket) (t_organizationId ticket) userId
                       [(''tagName'', Some n)] s2)))"

end
