(* ===== verification/Membership_Cache.thy ===== *)
theory Membership_Cache
  imports Ticket_Repo
begin

section \<open>The membership cache and the database\<close>

text \<open>
  Three functions read a membership through the cache (\<open>getOrganizationMembershipByUserId\<close> and
  \<open>getUserMembershipInOrganization\<close> of org.repo.js, \<open>getTicketOrganizationMembership\<close> of
  ticket.repo.js). The contract they share is the locale \<open>membership_provider\<close>: when the cache
  is coherent with the tables, the answer is that of the database, the tables stay, and the
  cache stays coherent. Coherence rests on the cache keys being injective on the ids of
  membership rows, which hold no colon (they are UUIDs).
\<close>

subsection \<open>Keys\<close>

abbreviation colon :: char where "colon \<equiv> CHR 0x3A"

definition colon_free :: "string \<Rightarrow> bool" where
  "colon_free x = (colon \<notin> set x)"

lemma count_colon_free: "colon_free x \<longleftrightarrow> count_list x colon = 0"
  by (simp add: colon_free_def count_list_0_iff)

lemma split_at_colon:
  assumes "colon_free a" "colon_free b" "a @ colon # x = b @ colon # y"
  shows "a = b \<and> x = y"
proof -
  have "takeWhile (\<lambda>c. c \<noteq> colon) (a @ colon # x) = a" "takeWhile (\<lambda>c. c \<noteq> colon) (b @ colon # y) = b"
    using assms(1,2) by (auto simp: colon_free_def takeWhile_append)
  then show ?thesis using assms(3) by auto
qed

lemma membershipCacheKey_inj:
  assumes "colon_free o2" "colon_free u2"
  shows "membershipCacheKey o1 u1 = membershipCacheKey o2 u2 \<longleftrightarrow> o1 = o2 \<and> u1 = u2"
proof
  assume eq: "membershipCacheKey o1 u1 = membershipCacheKey o2 u2"
  then have tail: "o1 @ '':user:'' @ u1 = o2 @ '':user:'' @ u2" by (simp add: membershipCacheKey_def)
  then have "count_list (o1 @ '':user:'' @ u1) colon = count_list (o2 @ '':user:'' @ u2) colon" by simp
  then have "colon_free o1" using assms by (simp add: count_colon_free)
  then have "o1 = o2 \<and> ''user:'' @ u1 = ''user:'' @ u2"
    using split_at_colon [OF _ assms(1), of o1 "''user:'' @ u1" "''user:'' @ u2"] tail by simp
  then show "o1 = o2 \<and> u1 = u2" by simp
qed simp

lemma membershipCacheKey_prefix:
  assumes "colon_free o2" "colon_free u2"
  shows "prefix (membershipCacheKey o1 []) (membershipCacheKey o2 u2) \<longleftrightarrow> o1 = o2"
proof
  assume "prefix (membershipCacheKey o1 []) (membershipCacheKey o2 u2)"
  then obtain z where "membershipCacheKey o2 u2 = membershipCacheKey o1 z"
    by (auto simp: prefix_def membershipCacheKey_def)
  then show "o1 = o2" using membershipCacheKey_inj [OF assms, of o1 z] by simp
next
  assume "o1 = o2"
  then show "prefix (membershipCacheKey o1 []) (membershipCacheKey o2 u2)"
    by (simp add: membershipCacheKey_def)
qed

subsection \<open>Coherence\<close>

text \<open>
  \<open>core\<close> forgets the optional relations of a cached membership; \<open>db_membership\<close> is what the
  database says.
\<close>

definition core :: "membership_view \<Rightarrow> membership_view" where
  "core m = m\<lparr>mv_organization := None, mv_user := None\<rparr>"

lemma core_simps [simp]:
  "m_id (core m) = m_id m" "m_userId (core m) = m_userId m"
  "m_organizationId (core m) = m_organizationId m" "mv_role (core m) = mv_role m"
  "m_roleId (core m) = m_roleId m"
  by (simp_all add: core_def)

definition db_membership :: "string \<Rightarrow> string \<Rightarrow> gateway \<Rightarrow> membership_view option" where
  "db_membership orgId userId s = map_option (with_role s) (find_membership orgId userId s)"

lemma with_role_simps [simp]:
  "m_id (with_role s m) = m_id m"
  "m_userId (with_role s m) = m_userId m"
  "m_organizationId (with_role s m) = m_organizationId m"
  "m_roleId (with_role s m) = m_roleId m"
  "mv_role (with_role s m) = map_option normalizeRolePermissions (find_role (m_roleId m) s)"
  "core (with_role s m) = with_role s m"
  by (simp_all add: with_role_def normalizeMembershipRole_def membership.defs membership_view.defs core_def)

lemma core_with_role_and_organization [simp]:
  "core (with_role_and_organization s m) = with_role s m"
  "m_userId (with_role_and_organization s m) = m_userId m"
  "m_organizationId (with_role_and_organization s m) = m_organizationId m"
  by (simp_all add: with_role_and_organization_def with_role_def normalizeMembershipRole_def
      membership.defs membership_view.defs core_def)

definition entry_ok :: "gateway \<Rightarrow> string \<Rightarrow> membership_view \<Rightarrow> bool" where
  "entry_ok s k mv = (\<exists>m\<in>set (memberships s).
     k = membershipCacheKey (m_organizationId m) (m_userId m) \<and> core mv = with_role s m)"

definition cache_coherent :: "gateway \<Rightarrow> bool" where
  "cache_coherent s = (\<forall>k mv. membershipCache s k = Some mv \<longrightarrow> entry_ok s k mv)"

text \<open>What coherence needs of the rows: one membership per user and organization, ids without colon.\<close>

definition membership_rows_ok :: "gateway \<Rightarrow> bool" where
  "membership_rows_ok s =
     (membership_table.key_unique s \<and>
      (\<forall>m\<in>set (memberships s). colon_free (m_organizationId m) \<and> colon_free (m_userId m)))"

lemma find_membership_SomeD:
  "find_membership orgId userId s = Some m \<Longrightarrow>
     m \<in> set (memberships s) \<and> m_userId m = userId \<and> m_organizationId m = orgId"
  unfolding find_membership_def by (drule find_unique_SomeD) simp

lemma find_membership_unique:
  assumes "membership_rows_ok s" "m \<in> set (memberships s)"
  shows "find_membership (m_organizationId m) (m_userId m) s = Some m"
proof -
  have "membership_table.lookup (m_userId m, m_organizationId m) s = Some m"
    using assms membership_table.lookup_unique [of s m] by (simp add: membership_rows_ok_def)
  then show ?thesis by (simp add: membership_table.lookup_def find_membership_def)
qed

lemma coherent_hit:
  assumes "membership_rows_ok s" "cache_coherent s"
    "getCachedOrganizationMembership orgId userId s = Some mv"
  shows "db_membership orgId userId s = Some (core mv)"
proof -
  have "membershipCache s (membershipCacheKey orgId userId) = Some mv"
    using assms(3) by (simp add: getCachedOrganizationMembership_def split: if_splits)
  then obtain m where m: "m \<in> set (memberships s)"
      "membershipCacheKey orgId userId = membershipCacheKey (m_organizationId m) (m_userId m)"
      "core mv = with_role s m"
    using assms(2) by (auto simp: cache_coherent_def entry_ok_def)
  then have "orgId = m_organizationId m" "userId = m_userId m"
    using assms(1) by (auto simp: membership_rows_ok_def membershipCacheKey_inj)
  then show ?thesis using m find_membership_unique [OF assms(1) m(1)] by (simp add: db_membership_def)
qed

text \<open>Coherence depends on the memberships, the roles and the cache only.\<close>

lemma with_role_cong: "roles s' = roles s \<Longrightarrow> with_role s' m = with_role s m"
  by (simp add: with_role_def normalizeMembershipRole_def find_role_def)

lemma with_role_cache [simp]: "with_role (s\<lparr>membershipCache := mc\<rparr>) = with_role s"
  by (rule ext) (simp add: with_role_cong [of "s\<lparr>membershipCache := mc\<rparr>" s])

lemma entry_ok_cong:
  "memberships s' = memberships s \<Longrightarrow> roles s' = roles s \<Longrightarrow> entry_ok s' k mv = entry_ok s k mv"
  by (simp add: entry_ok_def with_role_cong [of s' s])

lemma cache_coherent_cong:
  "memberships s' = memberships s \<Longrightarrow> roles s' = roles s \<Longrightarrow> membershipCache s' = membershipCache s \<Longrightarrow>
     cache_coherent s' = cache_coherent s"
  by (simp add: cache_coherent_def entry_ok_cong [of s' s])

lemma membership_rows_ok_cong: "memberships s' = memberships s \<Longrightarrow> membership_rows_ok s' = membership_rows_ok s"
  by (simp add: membership_rows_ok_def membership_table.key_unique_def)

subsection \<open>Cache updates\<close>

text \<open>Every cache operation is an update of one cache field: the other fields simplify away.\<close>

definition put_cached :: "membership_view \<Rightarrow> gateway \<Rightarrow> string \<Rightarrow> membership_view option" where
  "put_cached m s = membershipCache (setCachedOrganizationMembership m s)"

lemma setCached_eq: "setCachedOrganizationMembership m s = s\<lparr>membershipCache := put_cached m s\<rparr>"
  by (simp add: put_cached_def setCachedOrganizationMembership_def)

lemma put_cached_entry:
  "put_cached m s k = Some mv \<Longrightarrow>
     membershipCache s k = Some mv \<or>
     (k = membershipCacheKey (m_organizationId m) (m_userId m) \<and> mv = m)"
  by (auto simp: put_cached_def setCachedOrganizationMembership_def split: if_splits)

lemma setCached_coherent:
  assumes "cache_coherent s" "m \<in> set (memberships s)" "core mv = with_role s m"
  shows "cache_coherent (setCachedOrganizationMembership mv s)"
  unfolding cache_coherent_def
proof (intro allI impI)
  fix k x
  assume "membershipCache (setCachedOrganizationMembership mv s) k = Some x"
  then consider "membershipCache s k = Some x" | "k = membershipCacheKey (m_organizationId mv) (m_userId mv)" "x = mv"
    using put_cached_entry [of mv s k x] by (auto simp: put_cached_def)
  then have "entry_ok s k x"
  proof cases
    case 1
    then show ?thesis using assms(1) by (simp add: cache_coherent_def)
  next
    case 2
    have "m_organizationId mv = m_organizationId m" "m_userId mv = m_userId m"
      using arg_cong [OF assms(3), of m_organizationId] arg_cong [OF assms(3), of m_userId] by simp_all
    then show ?thesis using 2 assms(2,3) by (auto simp: entry_ok_def)
  qed
  then show "entry_ok (setCachedOrganizationMembership mv s) k x"
    by (simp add: setCached_eq entry_ok_cong [of "s\<lparr>membershipCache := put_cached mv s\<rparr>" s])
qed

subsection \<open>The contract of a membership lookup\<close>

locale membership_provider =
  fixes lookup :: "string \<Rightarrow> string \<Rightarrow> gateway \<Rightarrow> membership_view option \<times> gateway"
  assumes lookup_db:
      "membership_rows_ok s \<Longrightarrow> cache_coherent s \<Longrightarrow>
        map_option core (fst (lookup orgId userId s)) = db_membership orgId userId s"
    and lookup_frame: "\<exists>mc. snd (lookup orgId userId s) = s\<lparr>membershipCache := mc\<rparr>"
    and lookup_coherent:
      "membership_rows_ok s \<Longrightarrow> cache_coherent s \<Longrightarrow> cache_coherent (snd (lookup orgId userId s))"
begin

lemma lookup_fields:
  assumes "lookup orgId userId s = (x, s')"
  shows "tables s' = tables s" "emitted s' = emitted s" "redisUp s' = redisUp s"
    "memberships s' = memberships s" "roles s' = roles s" "tickets s' = tickets s" "users s' = users s"
  using lookup_frame [of orgId userId s] assms by auto

lemma lookup_hit:
  assumes "membership_rows_ok s" "cache_coherent s" "lookup orgId userId s = (Some mv, s')"
  obtains m where "m \<in> set (memberships s)" "m_userId m = userId" "m_organizationId m = orgId"
    "core mv = with_role s m"
proof -
  have "db_membership orgId userId s = Some (core mv)"
    using lookup_db [OF assms(1,2), of orgId userId] assms(3) by simp
  then show ?thesis using that by (auto simp: db_membership_def dest: find_membership_SomeD)
qed

lemma lookup_miss:
  assumes "membership_rows_ok s" "cache_coherent s" "lookup orgId userId s = (None, s')"
  shows "find_membership orgId userId s = None"
  using lookup_db [OF assms(1,2), of orgId userId] assms(3) by (simp add: db_membership_def)

text \<open>Looking up twice gives the same answer as looking up once: the cache is transparent.\<close>

lemma lookup_stable:
  assumes "membership_rows_ok s" "cache_coherent s"
  shows "map_option core (fst (lookup orgId userId (snd (lookup orgId' userId' s)))) =
    map_option core (fst (lookup orgId userId s))"
proof -
  let ?s = "snd (lookup orgId' userId' s)"
  obtain mc where mc: "?s = s\<lparr>membershipCache := mc\<rparr>" using lookup_frame by blast
  have "membership_rows_ok ?s" using assms(1) by (simp add: mc membership_rows_ok_cong [of "s\<lparr>membershipCache := mc\<rparr>" s])
  moreover have "cache_coherent ?s" using assms by (rule lookup_coherent)
  ultimately have "map_option core (fst (lookup orgId userId ?s)) = db_membership orgId userId ?s"
    by (rule lookup_db)
  also have "\<dots> = db_membership orgId userId s"
    by (simp add: mc db_membership_def find_membership_def)
  finally show ?thesis using lookup_db [OF assms] by simp
qed

end

text \<open>
  The shape of the three functions: a cached membership is returned as it is, a missing row is
  no membership, a row that is read is put in the cache.
\<close>

definition read_through ::
    "string \<Rightarrow> string \<Rightarrow> gateway \<Rightarrow> membership_view option \<times> gateway \<Rightarrow> bool" where
  "read_through orgId userId s r =
     ((\<exists>mv. getCachedOrganizationMembership orgId userId s = Some mv \<and> r = (Some mv, s)) \<or>
      (find_membership orgId userId s = None \<and> r = (None, s) \<and> 
         (\<forall>mv. getCachedOrganizationMembership orgId userId s = Some mv \<longrightarrow> mv_organization mv = None) \<or>
      (\<exists>m mv. find_membership orgId userId s = Some m \<and> core mv = with_role s m \<and>
         r = (Some mv, setCachedOrganizationMembership mv s))))"

lemma read_through_frame: "read_through orgId userId s r \<Longrightarrow> \<exists>mc. snd r = s\<lparr>membershipCache := mc\<rparr>"
proof -
  have "s = s\<lparr>membershipCache := membershipCache s\<rparr>" by simp
  then show "read_through orgId userId s r \<Longrightarrow> \<exists>mc. snd r = s\<lparr>membershipCache := mc\<rparr>"
    by (auto simp: read_through_def setCached_eq intro: exI [of _ "membershipCache s"])
qed

lemma read_through_down: "read_through orgId userId s r \<Longrightarrow> \<not> redisUp s \<Longrightarrow> snd r = s"
  by (auto simp: read_through_def setCachedOrganizationMembership_def)

lemma read_through_db:
  assumes "read_through orgId userId s r" "membership_rows_ok s" "cache_coherent s"
  shows "map_option core (fst r) = db_membership orgId userId s" "cache_coherent (snd r)"
proof -
  consider mv where "getCachedOrganizationMembership orgId userId s = Some mv" "r = (Some mv, s)"
    | "find_membership orgId userId s = None" "r = (None, s)"
    | m mv where "find_membership orgId userId s = Some m" "core mv = with_role s m"
        "r = (Some mv, setCachedOrganizationMembership mv s)"
    using assms(1) by (auto simp: read_through_def)
  then have "map_option core (fst r) = db_membership orgId userId s \<and> cache_coherent (snd r)"
  proof cases
    case 1
    then show ?thesis using coherent_hit [OF assms(2,3)] assms(3) by simp
  next
    case 2
    then show ?thesis using assms(3) by (simp add: db_membership_def)
  next
    case 3
    then have "m \<in> set (memberships s)" by (blast dest: find_membership_SomeD)
    then show ?thesis using 3 setCached_coherent [OF assms(3)] by (simp add: db_membership_def)
  qed
  then show "map_option core (fst r) = db_membership orgId userId s" "cache_coherent (snd r)" by auto
qed

lemma org_read_through: "read_through o' u s (getOrganizationMembershipByUserId o' u s)"
  by (auto simp: read_through_def getOrganizationMembershipByUserId_def split: option.splits)

lemma ticket_read_through: "read_through o' u s (getTicketOrganizationMembership o' u s)"
  by (auto simp: read_through_def getTicketOrganizationMembership_def split: option.splits)

lemma user_read_through: "read_through o' u s (getUserMembershipInOrganization u o' s)"
  by (auto simp: read_through_def getUserMembershipInOrganization_def split: option.splits)

interpretation org_lookup: membership_provider getOrganizationMembershipByUserId
  by unfold_locales
    (rule org_read_through [THEN read_through_db(1)] org_read_through [THEN read_through_frame]
        org_read_through [THEN read_through_db(2)]; assumption)+

interpretation ticket_lookup: membership_provider getTicketOrganizationMembership
  by unfold_locales
    (rule ticket_read_through [THEN read_through_db(1)] ticket_read_through [THEN read_through_frame]
        ticket_read_through [THEN read_through_db(2)]; assumption)+

interpretation user_lookup: membership_provider "\<lambda>orgId userId. getUserMembershipInOrganization userId orgId"
  by unfold_locales
    (rule user_read_through [THEN read_through_db(1)] user_read_through [THEN read_through_frame]
        user_read_through [THEN read_through_db(2)]; assumption)+

end
