(* ===== verification/Ticket_Access.thy ===== *)
theory Ticket_Access
  imports Ticket_Service Membership_Cache
begin

section \<open>Access control of the ticket service\<close>

text \<open>
  What a successful handler says about its caller, in terms of the database: the caller is a
  member of the organization of the ticket, and the role the database gives the membership
  carries the permission the handler asks for. The membership comes from the cache or from the
  database; under coherence (theory Membership_Cache) this makes no difference.
\<close>

subsection \<open>Permissions in the database\<close>

definition db_grants :: "gateway \<Rightarrow> membership \<Rightarrow> string \<Rightarrow> bool" where
  "db_grants s m p =
     (case find_role (m_roleId m) s of None \<Rightarrow> False | Some r \<Rightarrow> p \<in> set (r_rolePermissions r))"

definition is_member :: "gateway \<Rightarrow> string \<Rightarrow> string \<Rightarrow> bool" where
  "is_member s orgId userId = (find_membership orgId userId s \<noteq> None)"

definition member_grants :: "gateway \<Rightarrow> string \<Rightarrow> string \<Rightarrow> string \<Rightarrow> bool" where
  "member_grants s orgId userId p =
     (case find_membership orgId userId s of None \<Rightarrow> False | Some m \<Rightarrow> db_grants s m p)"

definition good :: "gateway \<Rightarrow> bool" where
  "good s = (membership_rows_ok s \<and> cache_coherent s \<and> (\<forall>m\<in>set (memberships s). m_id m \<noteq> []))"

lemma extract_join_rows: "extractPermissionValues (join_rows ps) = List.filter (\<lambda>p. p \<noteq> []) ps"
  by (induction ps) (auto simp: join_rows_def)

lemma has_with_role:
  assumes "core mv = with_role s m" "p \<noteq> []"
  shows "has (role_permissions mv) p = db_grants s m p"
proof -
  have "mv_role mv = map_option normalizeRolePermissions (find_role (m_roleId m) s)"
    using arg_cong [OF assms(1), of mv_role] by simp
  then show ?thesis using assms(2)
    by (auto simp: role_permissions_def db_grants_def normalizeRolePermissions_def extract_join_rows
        has_Some split: option.splits)
qed

text \<open>
  The state after a lookup differs from the state before in the membership cache only, and not
  at all when Redis is down.
\<close>

definition cache_only :: "gateway \<Rightarrow> gateway \<Rightarrow> bool" where
  "cache_only s s' = (\<exists>mc. s' = s\<lparr>membershipCache := mc\<rparr> \<and>
     (cache_coherent s \<longrightarrow> membership_rows_ok s \<longrightarrow> cache_coherent s') \<and>
     (\<not> redisUp s \<longrightarrow> mc = membershipCache s))"

lemma cache_only_refl [simp]: "cache_only s s"
  unfolding cache_only_def by (rule exI [of _ "membershipCache s"]) simp

lemma find_membership_cache [simp]: "find_membership o' u (s\<lparr>membershipCache := mc\<rparr>) = find_membership o' u s"
  by (simp add: find_membership_def)

lemma find_role_cache [simp]: "find_role r (s\<lparr>membershipCache := mc\<rparr>) = find_role r s"
  by (simp add: find_role_def)

lemma db_grants_cache [simp]: "db_grants (s\<lparr>membershipCache := mc\<rparr>) m p = db_grants s m p"
  by (simp add: db_grants_def)

lemma member_grants_cache [simp]: "member_grants (s\<lparr>membershipCache := mc\<rparr>) o' u p = member_grants s o' u p"
  by (cases "find_membership o' u s") (simp_all add: member_grants_def)

lemma rows_ok_cache [simp]: "membership_rows_ok (s\<lparr>membershipCache := mc\<rparr>) = membership_rows_ok s"
  by (rule membership_rows_ok_cong) simp

lemma cache_onlyD:
  assumes "cache_only s s'"
  shows "tables s' = tables s" "emitted s' = emitted s" "redisUp s' = redisUp s"
    "memberships s' = memberships s" "roles s' = roles s" "tickets s' = tickets s" "users s' = users s"
    "organizations s' = organizations s" "tags s' = tags s" "ticketTags s' = ticketTags s"
    "comments s' = comments s" "attachments s' = attachments s" "activities s' = activities s"
    "workloads s' = workloads s" "good s \<Longrightarrow> good s'"
    "member_grants s' o' u p = member_grants s o' u p" "is_member s' o' u = is_member s o' u"
    "find_membership o' u s' = find_membership o' u s"
    "\<not> redisUp s \<Longrightarrow> membershipCache s' = membershipCache s"
proof -
  obtain mc where mc: "s' = s\<lparr>membershipCache := mc\<rparr>"
    and coh: "cache_coherent s \<longrightarrow> membership_rows_ok s \<longrightarrow> cache_coherent s'"
    and down: "\<not> redisUp s \<longrightarrow> mc = membershipCache s"
    using assms unfolding cache_only_def by blast
  show "tables s' = tables s" "emitted s' = emitted s" "redisUp s' = redisUp s"
    "memberships s' = memberships s" "roles s' = roles s" "tickets s' = tickets s" "users s' = users s"
    "organizations s' = organizations s" "tags s' = tags s" "ticketTags s' = ticketTags s"
    "comments s' = comments s" "attachments s' = attachments s" "activities s' = activities s"
    "workloads s' = workloads s"
    "member_grants s' o' u p = member_grants s o' u p" "is_member s' o' u = is_member s o' u"
    "find_membership o' u s' = find_membership o' u s"
    by (simp_all add: mc is_member_def)
  show "good s'" if "good s" using that coh unfolding good_def by (simp add: mc)
  show "membershipCache s' = membershipCache s" if "\<not> redisUp s" using that down by (simp add: mc)
qed

lemma cache_only_trans: "cache_only s s' \<Longrightarrow> cache_only s' s'' \<Longrightarrow> cache_only s s''"
proof -
  assume "cache_only s s'" "cache_only s' s''"
  then obtain mc mc' where "s' = s\<lparr>membershipCache := mc\<rparr>" "s'' = s\<lparr>membershipCache := mc'\<rparr>"
    "cache_coherent s \<longrightarrow> membership_rows_ok s \<longrightarrow> cache_coherent s'"
    "cache_coherent s' \<longrightarrow> membership_rows_ok s' \<longrightarrow> cache_coherent s''"
    "\<not> redisUp s \<longrightarrow> mc' = membershipCache s"
    unfolding cache_only_def by force
  moreover have "membership_rows_ok s' = membership_rows_ok s" using calculation(1) by simp
  ultimately show ?thesis unfolding cache_only_def by blast
qed

lemma lookup_cache_only: "getTicketOrganizationMembership o' u s = (x, s') \<Longrightarrow> cache_only s s'"
proof -
  assume l: "getTicketOrganizationMembership o' u s = (x, s')"
  obtain mc where "s' = s\<lparr>membershipCache := mc\<rparr>"
    using ticket_lookup.lookup_frame [of o' u s] l by auto
  moreover have "cache_coherent s \<longrightarrow> membership_rows_ok s \<longrightarrow> cache_coherent s'"
    using ticket_lookup.lookup_coherent [of s o' u] l by simp
  moreover have "\<not> redisUp s \<longrightarrow> mc = membershipCache s"
  proof
    assume "\<not> redisUp s"
    then have "s' = s" using read_through_down [OF ticket_read_through, of s o' u] l by simp
    then show "mc = membershipCache s" using arg_cong [OF calculation(1), of membershipCache] by simp
  qed
  ultimately show ?thesis unfolding cache_only_def by blast
qed

lemma lookup_grants:
  assumes "good s" "getTicketOrganizationMembership o' u s = (Some mv, s')"
  shows "is_member s o' u" "m_id mv \<noteq> []" "p \<noteq> [] \<Longrightarrow> has (role_permissions mv) p = member_grants s o' u p"
proof -
  have ok: "membership_rows_ok s" "cache_coherent s" using assms(1) by (simp_all add: good_def)
  have "db_membership o' u s = Some (core mv)"
    using ticket_lookup.lookup_db [OF ok, of o' u] assms(2) by simp
  then obtain m where m: "find_membership o' u s = Some m" "core mv = with_role s m"
    by (auto simp: db_membership_def)
  then show "is_member s o' u" by (simp add: is_member_def)
  have "m_id mv = m_id m" using arg_cong [OF m(2), of m_id] by simp
  then show "m_id mv \<noteq> []" using assms(1) find_membership_SomeD [OF m(1)] by (simp add: good_def)
  show "has (role_permissions mv) p = member_grants s o' u p" if "p \<noteq> []"
    using has_with_role [OF m(2) that] m(1) by (simp add: member_grants_def)
qed

lemma lookup_None:
  assumes "good s" "getTicketOrganizationMembership o' u s = (None, s')"
  shows "\<not> is_member s o' u"
  using ticket_lookup.lookup_miss [of s o' u s'] assms by (simp add: good_def is_member_def)

subsection \<open>The guards of the handlers\<close>

lemma with_role_fields_ticket [simp]:
  "t_id (ticket_with_all s t) = t_id t" "t_organizationId (ticket_with_all s t) = t_organizationId t"
  "t_createdById (ticket_with_all s t) = t_createdById t" "t_assignedToId (ticket_with_all s t) = t_assignedToId t"
  "t_status (ticket_with_all s t) = t_status t" "t_title (ticket_with_all s t) = t_title t"
  "tv_comments (ticket_with_all s t) = Some (find_many (\<lambda>c. c_ticketId c = t_id t) (comments s))"
  "tv_activities (ticket_with_all s t) = find_many (\<lambda>a. act_ticketId a = t_id t) (activities s)"
  "canMemberViewTicket (ticket_with_all s t) u = canMemberViewTicket t u"
  by (simp_all add: ticket_with_all_def ticket.defs ticket_view.defs canMemberViewTicket_def)

lemma find_ticket_SomeD: "find_ticket i s = Some t \<Longrightarrow> t \<in> set (tickets s) \<and> t_id t = i"
  unfolding find_ticket_def by (drule find_unique_SomeD) simp

lemma with_ticket_InrE:
  assumes "with_ticket ticketId s k = (Inr x, s')"
  obtains t where "find_ticket ticketId s = Some t" "t_id t = ticketId" "ticketId \<noteq> []"
    "k (ticket_with_all s t) = (Inr x, s')"
  using assms
  by (auto simp: with_ticket_def getTicketById_def dest: find_ticket_SomeD split: option.splits if_splits)

lemma with_ticket_InlE:
  assumes "with_ticket ticketId s k = (Inl e, s')"
  obtains "e = ticket_not_found" "s' = s"
  | t where "find_ticket ticketId s = Some t" "k (ticket_with_all s t) = (Inl e, s')"
proof (cases "find_ticket ticketId s")
  case None
  then have "e = ticket_not_found" "s' = s" using assms by (simp_all add: with_ticket_def getTicketById_def)
  then show ?thesis by (rule that(1))
next
  case (Some t)
  then have "(e = ticket_not_found \<and> s' = s) \<or> k (ticket_with_all s t) = (Inl e, s')"
    using assms by (simp add: with_ticket_def getTicketById_def split: if_splits)
  then show ?thesis using that Some by blast
qed

lemma with_member_InrE:
  assumes "with_member o' u e s k = (Inr x, s')" "good s"
  obtains mv s1 where "is_member s o' u" "\<And>p. p \<noteq> [] \<Longrightarrow> has (role_permissions mv) p = member_grants s o' u p"
    "cache_only s s1" "good s1" "k mv s1 = (Inr x, s')"
proof -
  obtain y s1 where l: "getTicketOrganizationMembership o' u s = (y, s1)" by fastforce
  with assms(1) obtain mv where "y = Some mv" "k mv s1 = (Inr x, s')"
    by (auto simp: with_member_def split: option.splits if_splits)
  note l' = l [unfolded this(1)] and k = this(2)
  have "cache_only s s1" using l by (rule lookup_cache_only)
  moreover have "good s1" using calculation assms(2) by (rule cache_onlyD(15))
  moreover have "is_member s o' u" using assms(2) l' by (rule lookup_grants(1))
  moreover have "has (role_permissions mv) p = member_grants s o' u p" if "p \<noteq> []" for p
    using lookup_grants(3) [OF assms(2) l' that] .
  ultimately show ?thesis using that k by blast
qed

lemma with_member_InlE:
  assumes "with_member o' u e s k = (Inl e', s')"
  obtains "e' = e" "cache_only s s'"
  | mv s1 where "cache_only s s1" "k mv s1 = (Inl e', s')"
  using assms unfolding with_member_def
  by (cases "getTicketOrganizationMembership o' u s"; cases "fst (getTicketOrganizationMembership o' u s)")
    (auto dest: lookup_cache_only split: if_splits)

lemma with_member_eq:
  assumes "good s"
  obtains mv s1 where "cache_only s s1" "good s1"
    "with_member o' u e s k = (if is_member s o' u then k mv s1 else (Inl e, s1))"
    "\<And>p. p \<noteq> [] \<Longrightarrow> is_member s o' u \<Longrightarrow> has (role_permissions mv) p = member_grants s o' u p"
proof -
  obtain y s1 where l: "getTicketOrganizationMembership o' u s = (y, s1)" by fastforce
  have c: "cache_only s s1" "good s1" using lookup_cache_only [OF l] cache_onlyD(15) assms by blast+
  show ?thesis
  proof (cases y)
    case None
    then show ?thesis using that c l lookup_None [OF assms] by (simp add: with_member_def)
  next
    case (Some mv)
    note l = l [unfolded Some]
    show ?thesis
      by (rule that [OF c, of mv])
        (use l lookup_grants [OF assms l] in \<open>simp_all add: with_member_def\<close>)
  qed
qed

lemma with_ticket_eq:
  "with_ticket i s k =
     (case find_ticket i s of None \<Rightarrow> throw ticket_not_found s
      | Some t \<Rightarrow> if i = [] then throw ticket_not_found s else k (ticket_with_all s t))"
  by (auto simp: with_ticket_def getTicketById_def dest: find_ticket_SomeD split: option.splits)

lemma validateTicketAssignee_InrE:
  assumes "validateTicketAssignee o' a s = (Inr x, s')" "good s"
  obtains "cache_only s s'" "good s'" "\<And>v. a = Some v \<Longrightarrow> v \<noteq> [] \<Longrightarrow> is_member s o' v"
proof (cases "truthy a")
  case False
  then have "s' = s" using assms(1) by (simp add: validateTicketAssignee_def)
  moreover have "is_member s o' v" if "a = Some v" "v \<noteq> []" for v using False that by simp
  ultimately show ?thesis using that assms(2) by simp
next
  case True
  then have "with_member o' (the a) (ApiError 400 ''Assigned user must be a member of the organization''
      ''ASSIGNEE_NOT_MEMBER'') s (\<lambda>_ s1. return () s1) = (Inr x, s')"
    using assms(1) by (simp add: validateTicketAssignee_def)
  then show ?thesis using assms(2) True
    by (elim with_member_InrE) (auto intro: that)
qed

lemma emit_fields [simp]:
  "tables (emitTicketEvent n t o' a md s) = tables s"
  "tickets (emitTicketEvent n t o' a md s) = tickets s"
  "comments (emitTicketEvent n t o' a md s) = comments s"
  "memberships (emitTicketEvent n t o' a md s) = memberships s"
  "roles (emitTicketEvent n t o' a md s) = roles s"
  "membershipCache (emitTicketEvent n t o' a md s) = membershipCache s"
  by (simp_all add: emitTicketEvent_def)

end
