(* ===== verification/Ticket_Events.thy ===== *)
theory Ticket_Events
  imports Ticket_Access
begin

section \<open>Ticket events and the activity log (src/events)\<close>

text \<open>
  The event bus delivers an event after the emitting handler has returned (\<open>setImmediate\<close>); an
  error of a handler is logged and dropped. \<open>activity_for\<close> is the table of the nine handlers
  of events/handlers/ticket.handlers.js: the action of the activity row and the metadata its old
  and new value come from.
\<close>

definition activity_for :: "event \<Rightarrow> (activity_action \<times> string option \<times> string option) option" where
  "activity_for e =
     (if e_name e = TICKET_CREATED_EVENT then Some (TICKET_CREATED, None, metadata_field e ''title'')
      else if e_name e = TICKET_ASSIGNED_EVENT
      then Some (TICKET_ASSIGNED, metadata_field e ''previousAssignedToId'', metadata_field e ''assignedToId'')
      else if e_name e = TICKET_STATUS_CHANGED_EVENT
      then Some (TICKET_STATUS_UPDATED, metadata_field e ''previousStatus'', metadata_field e ''status'')
      else if e_name e = TICKET_COMMENT_ADDED_EVENT then Some (COMMENT_ADDED, None, metadata_field e ''message'')
      else if e_name e = TICKET_COMMENT_DELETED_EVENT then Some (COMMENT_DELETED, metadata_field e ''message'', None)
      else if e_name e = TICKET_TAG_ADDED_EVENT then Some (TAG_ADDED, None, metadata_field e ''tagName'')
      else if e_name e = TICKET_TAG_REMOVED_EVENT then Some (TAG_REMOVED, metadata_field e ''tagName'', None)
      else if e_name e = TICKET_ATTACHMENT_ADDED_EVENT then Some (ATTACHMENT_ADDED, None, metadata_field e ''fileUrl'')
      else if e_name e = TICKET_ATTACHMENT_DELETED_EVENT
      then Some (ATTACHMENT_DELETED, metadata_field e ''fileUrl'', None)
      else None)"

text \<open>A payload without ticket or actor is refused by the client library (a required column).\<close>

definition createActivityLogForEvent ::
    "event \<Rightarrow> activity_action \<times> string option \<times> string option \<Rightarrow> time \<Rightarrow> string \<Rightarrow> gateway \<Rightarrow> unit result \<times> gateway" where
  "createActivityLogForEvent e d now newId s =
     (case (payload_field e ''ticketId'', payload_field e ''actorId'') of
        (Some ticketId, Some actorId) \<Rightarrow>
          (case createTicketActivityLog ticketId
                  \<lparr>ad_actorId = actorId, ad_action = fst d, ad_oldValue = fst (snd d), ad_newValue = snd (snd d)\<rparr>
                  now newId s of
             (Inl err, s1) \<Rightarrow> throw err s1
           | (Inr _, s1) \<Rightarrow> return () s1)
      | _ \<Rightarrow> throw validation_error s)"

text \<open>Delivery of the oldest pending event to the activity handlers.\<close>

definition deliver_event :: "time \<Rightarrow> string \<Rightarrow> gateway \<Rightarrow> gateway" where
  "deliver_event now newId s =
     (case emitted s of
        [] \<Rightarrow> s
      | e # es \<Rightarrow>
          let s1 = s\<lparr>emitted := es\<rparr> in
          (case activity_for e of
             None \<Rightarrow> s1
           | Some d \<Rightarrow> snd (createActivityLogForEvent e d now newId s1)))"

subsection \<open>Lemmas\<close>

lemmas event_names =
  TICKET_CREATED_EVENT_def TICKET_ASSIGNED_EVENT_def TICKET_STATUS_CHANGED_EVENT_def
  TICKET_COMMENT_ADDED_EVENT_def TICKET_COMMENT_DELETED_EVENT_def TICKET_TAG_ADDED_EVENT_def
  TICKET_TAG_REMOVED_EVENT_def TICKET_ATTACHMENT_ADDED_EVENT_def TICKET_ATTACHMENT_DELETED_EVENT_def

definition ticket_event_names :: "string list" where
  "ticket_event_names =
     [TICKET_CREATED_EVENT, TICKET_ASSIGNED_EVENT, TICKET_STATUS_CHANGED_EVENT, TICKET_COMMENT_ADDED_EVENT,
      TICKET_COMMENT_DELETED_EVENT, TICKET_TAG_ADDED_EVENT, TICKET_TAG_REMOVED_EVENT,
      TICKET_ATTACHMENT_ADDED_EVENT, TICKET_ATTACHMENT_DELETED_EVENT]"

lemma ticket_event_names_distinct: "distinct ticket_event_names"
  by (simp add: ticket_event_names_def event_names)

lemma activity_for_registered: "activity_for e \<noteq> None \<longleftrightarrow> e_name e \<in> set ticket_event_names"
  by (simp add: activity_for_def ticket_event_names_def)

lemma find_unique_None_cong: "find_unique p t = None \<Longrightarrow> r \<in> set t \<Longrightarrow> p r \<Longrightarrow> False"
  by (auto dest: find_unique_NoneD)

text \<open>
  A delivered ticket event appends exactly one activity row when the ticket and the actor
  exist and the row id is new; otherwise the activity table stays as it was.
\<close>

lemma deliver_event_activity:
  assumes "emitted s = e # es" "activity_for e = Some (act, old, new)"
    "payload_field e ''ticketId'' = Some ticketId" "payload_field e ''actorId'' = Some actorId"
    "find_ticket ticketId s = Some t" "find_user actorId s = Some u" "newId \<notin> act_id ` set (activities s)"
  shows "deliver_event now newId s = s\<lparr>emitted := es, activities := activities s @
    [\<lparr>act_id = newId, act_ticketId = ticketId, act_actorId = actorId, act_action = act, act_oldValue = old,
      act_newValue = new, act_createdAt = now\<rparr>]\<rparr>"
  using assms
  by (simp add: deliver_event_def createActivityLogForEvent_def createTicketActivityLog_def
      find_ticket_def find_user_def Let_def)

lemma deliver_event_tables:
  "deliver_event now newId s = s\<lparr>emitted := tl (emitted s), activities := activities (deliver_event now newId s)\<rparr>"
  by (auto simp: deliver_event_def createActivityLogForEvent_def createTicketActivityLog_def Let_def
      split: list.splits option.splits prod.splits sum.splits if_splits)

text \<open>The payload of an event emitted by the service carries its three identifiers and no others.\<close>

lemma emitted_payload:
  assumes "emitted s = []"
  shows "emitted (emitTicketEvent n t o' a md s) =
      [\<lparr>e_name = n, e_fields = [(''ticketId'', t), (''organizationId'', o'), (''actorId'', a)], e_metadata = md\<rparr>]"
  using assms by (simp add: emitTicketEvent_def)

end
