(* ===== verification/AI_Automation.thy ===== *)
theory AI_Automation
  imports AI_Decision Connections Ticket_Events
begin

section \<open>The AI automation (modules/ai/automation)\<close>

text \<open>
  The helpers of ai.automation.utils.js, the repository and the service that answers a comment.
  The state adds to the gateway the AI configurations of the organizations, the keys of the AI
  cache with the value ``1'' and the usage totals. \<open>ai_client\<close> tells whether there is a cache
  client at all (the cache is enabled and Redis configured); with a client and Redis down, reads
  give null and writes give false, without a client both give null. The outcome of the \<open>k\<close>-th
  call of the AI provider is a parameter.
\<close>

subsection \<open>Text and comments (ai.automation.utils.js)\<close>

definition checkProblematicKeywords :: "string \<Rightarrow> bool" where
  "checkProblematicKeywords text = list_ex (js_includes (toLowerCase text)) UNCERTAINTY_KEYWORDS"

definition extractUncertaintyIndicators :: "string \<Rightarrow> string list" where
  "extractUncertaintyIndicators text = List.filter (js_includes (toLowerCase text)) UNCERTAINTY_KEYWORDS"

text \<open>\<open>text.split(/\s+/).length\<close>: one more than the number of maximal runs of white space.\<close>

fun space_runs :: "bool \<Rightarrow> string \<Rightarrow> int" where
  "space_runs inside [] = 0"
| "space_runs inside (c # cs) =
     (if is_space c then (if inside then 0 else 1) + space_runs True cs else space_runs False cs)"

record response_quality =
  rq_isValid :: bool
  rq_length :: int
  rq_issues :: "string list"

definition validateResponseQuality :: "string option \<Rightarrow> response_quality" where
  "validateResponseQuality response =
     (if \<not> truthy response
      then \<lparr>rq_isValid = False, rq_length = 0, rq_issues = [''Response is empty or not a string'']\<rparr>
      else let text = the response; len = int (length text); wordCount = 1 + space_runs False text;
        issues = (if len < 50 then [''Response too short (< 50 chars)''] else [])
          @ (if len > 3000 then [''Response too long (> 3000 chars)''] else [])
          @ (if wordCount < 10 then [''Response too few words (< 10)''] else [])
      in \<lparr>rq_isValid = (issues = []), rq_length = len, rq_issues = issues\<rparr>)"

text \<open>The markers begin with an emoji, given by its UTF-8 bytes.\<close>

definition formatAIResponse :: "string \<Rightarrow> action_type \<Rightarrow> string" where
  "formatAIResponse response action =
     (case action of
        auto_resolve \<Rightarrow> [CHR 0xE2, CHR 0x9C, CHR 0x85] @ '' **AI Resolution**: '' @ response
      | suggest \<Rightarrow> [CHR 0xF0, CHR 0x9F, CHR 0x92, CHR 0xA1] @ '' **AI Suggestion**: '' @ response
      | smart_assign \<Rightarrow> [CHR 0xF0, CHR 0x9F, CHR 0x91, CHR 0xA4] @ '' **AI Recommendation**: '' @ response @
          [CHR 0x0A, CHR 0x0A] @ ''Assigning to available agent...''
      | store_and_wait \<Rightarrow> response)"

definition countAIResponses :: "comment list \<Rightarrow> int" where
  "countAIResponses cs = int (length (ai_comments cs))"

definition getLastAIComment :: "comment list \<Rightarrow> comment option" where
  "getLastAIComment cs = (case rev (ai_comments cs) of [] \<Rightarrow> None | c # _ \<Rightarrow> Some c)"

definition getLastUserComment :: "comment list \<Rightarrow> comment option" where
  "getLastUserComment cs =
     (case rev (List.filter (\<lambda>c. c_authorType c = USER) cs) of [] \<Rightarrow> None | c # _ \<Rightarrow> Some c)"

definition isFollowUpTicket :: "comment list \<Rightarrow> bool" where
  "isFollowUpTicket cs = (length (List.filter (\<lambda>c. c_authorType c = USER) cs) > 1)"

definition calculateTicketAge :: "time \<Rightarrow> time option \<Rightarrow> int" where
  "calculateTicketAge now createdAt = (case createdAt of None \<Rightarrow> 0 | Some t \<Rightarrow> now - t)"

definition isRecentTicket :: "time \<Rightarrow> time option \<Rightarrow> bool" where
  "isRecentTicket now createdAt = (calculateTicketAge now createdAt < 3600000)"

definition isAgedTicket :: "time \<Rightarrow> time option \<Rightarrow> bool" where
  "isAgedTicket now createdAt = (calculateTicketAge now createdAt > 86400000)"

text \<open>The guard layer and the helpers find the same last AI comment.\<close>

lemma getLastAIComment_guard: "getLastAIComment cs = lastAiComment cs"
proof -
  have "List.find P xs = (case List.filter P xs of [] \<Rightarrow> None | x # _ \<Rightarrow> Some x)" for P :: "comment \<Rightarrow> bool" and xs
    by (induction xs) auto
  then show ?thesis by (simp add: getLastAIComment_def lastAiComment_def ai_comments_def rev_filter)
qed

lemma checkProblematicKeywords_iff: "checkProblematicKeywords t \<longleftrightarrow> extractUncertaintyIndicators t \<noteq> []"
  by (simp add: checkProblematicKeywords_def extractUncertaintyIndicators_def filter_empty_conv list_ex_iff)

lemma recent_not_aged: "isRecentTicket now t \<Longrightarrow> \<not> isAgedTicket now t"
  by (simp add: isRecentTicket_def isAgedTicket_def)

text \<open>A marked response ends with the model's own text, except for the assignment note.\<close>

lemma formatAIResponse_suffix: "a \<noteq> smart_assign \<Longrightarrow> suffix r (formatAIResponse r a)"
  by (cases a) (simp_all add: formatAIResponse_def suffix_def)

subsection \<open>State\<close>

record ai_usage =
  us_model :: string
  us_tokensUsed :: int
  us_cost :: rat

record usage_totals =
  ut_tokensUsed :: int
  ut_cost :: rat
  ut_requests :: int

record ai_state =
  ai_gateway :: gateway
  ai_configs :: "ai_config list"
  ai_client :: bool
  ai_keys :: "string \<Rightarrow> bool"
  ai_totals :: "string \<Rightarrow> usage_totals"
  ai_jobs :: "(string \<times> string \<times> string option) list"

record ai_env =
  ae_provider :: "nat \<Rightarrow> (int \<times> (host_error + string \<times> ai_usage option)) option"
  ae_timeoutMs :: int
  ae_retries :: int
  ae_retryDelayMs :: int
  ae_time :: time
  ae_today :: string
  ae_commentId :: string

subsection \<open>AI cache (core/cache)\<close>

definition buildAICommentProcessedCacheKey :: "string \<Rightarrow> string" where
  "buildAICommentProcessedCacheKey commentId = ''ai:comment:'' @ commentId @ '':processed''"

definition buildAICommentProcessingLockKey :: "string \<Rightarrow> string" where
  "buildAICommentProcessingLockKey commentId = ''ai:comment:'' @ commentId @ '':processing''"

definition buildAITicketUsageCacheKey :: "string \<Rightarrow> string" where
  "buildAITicketUsageCacheKey ticketId = ''ai:usage:ticket:'' @ ticketId"

definition buildAIOrganizationUsageCacheKey :: "string \<Rightarrow> string" where
  "buildAIOrganizationUsageCacheKey organizationId = ''ai:usage:organization:'' @ organizationId"

lemma cache_keys_differ: "buildAICommentProcessedCacheKey c \<noteq> buildAICommentProcessingLockKey d"
proof
  assume "buildAICommentProcessedCacheKey c = buildAICommentProcessingLockKey d"
  then have "rev (buildAICommentProcessedCacheKey c) = rev (buildAICommentProcessingLockKey d)" by simp
  then show False by (simp add: buildAICommentProcessedCacheKey_def buildAICommentProcessingLockKey_def)
qed

definition ai_redis :: "ai_state \<Rightarrow> bool" where
  "ai_redis s = redisUp (ai_gateway s)"

definition getCacheValue :: "string \<Rightarrow> ai_state \<Rightarrow> bool" where
  "getCacheValue key s = (ai_client s \<and> ai_redis s \<and> ai_keys s key)"

text \<open>\<open>None\<close> is null (no client), otherwise whether the write happened.\<close>

definition setCacheValue :: "string \<Rightarrow> ai_state \<Rightarrow> bool option \<times> ai_state" where
  "setCacheValue key s =
     (if \<not> ai_client s then (None, s)
      else if \<not> ai_redis s then (Some False, s)
      else (Some True, s\<lparr>ai_keys := (ai_keys s)(key := True)\<rparr>))"

definition setCacheValueIfAbsent :: "string \<Rightarrow> ai_state \<Rightarrow> bool option \<times> ai_state" where
  "setCacheValueIfAbsent key s =
     (if \<not> ai_client s then (None, s)
      else if \<not> ai_redis s then (Some False, s)
      else if ai_keys s key then (Some False, s)
      else (Some True, s\<lparr>ai_keys := (ai_keys s)(key := True)\<rparr>))"

definition deleteCacheValue :: "string \<Rightarrow> ai_state \<Rightarrow> bool option \<times> ai_state" where
  "deleteCacheValue key s =
     (if \<not> ai_client s then (None, s)
      else if \<not> ai_redis s then (Some False, s)
      else (Some True, s\<lparr>ai_keys := (ai_keys s)(key := False)\<rparr>))"

definition incrementHashValues :: "string \<Rightarrow> usage_totals \<Rightarrow> ai_state \<Rightarrow> bool option \<times> ai_state" where
  "incrementHashValues key d s =
     (if \<not> ai_client s then (None, s)
      else if \<not> ai_redis s then (Some False, s)
      else let old = ai_totals s key in
        (Some True, s\<lparr>ai_totals := (ai_totals s)(key :=
           \<lparr>ut_tokensUsed = ut_tokensUsed old + ut_tokensUsed d, ut_cost = ut_cost old + ut_cost d,
            ut_requests = ut_requests old + ut_requests d\<rparr>)\<rparr>))"

definition hasCommentBeenProcessed :: "string \<Rightarrow> ai_state \<Rightarrow> bool" where
  "hasCommentBeenProcessed commentId s = getCacheValue (buildAICommentProcessedCacheKey commentId) s"

definition acquireCommentProcessingLock :: "string \<Rightarrow> ai_state \<Rightarrow> bool option \<times> ai_state" where
  "acquireCommentProcessingLock commentId s =
     setCacheValueIfAbsent (buildAICommentProcessingLockKey commentId) s"

definition markCommentAsProcessed :: "string \<Rightarrow> ai_state \<Rightarrow> ai_state" where
  "markCommentAsProcessed commentId s = snd (setCacheValue (buildAICommentProcessedCacheKey commentId) s)"

definition releaseCommentProcessingLock :: "string \<Rightarrow> ai_state \<Rightarrow> ai_state" where
  "releaseCommentProcessingLock commentId s =
     snd (deleteCacheValue (buildAICommentProcessingLockKey commentId) s)"

text \<open>Usage totals of a response (core/repo/ai.logs.repo.js).\<close>

definition trackAIUsageTotals :: "string \<Rightarrow> string \<Rightarrow> string \<Rightarrow> ai_usage option \<Rightarrow> ai_state \<Rightarrow> ai_state" where
  "trackAIUsageTotals today ticketId organizationId aiUsage s =
     (case aiUsage of
        None \<Rightarrow> s
      | Some u \<Rightarrow>
          let d = \<lparr>ut_tokensUsed = us_tokensUsed u, ut_cost = us_cost u, ut_requests = 1\<rparr>;
              s1 = (if ticketId \<noteq> [] then snd (incrementHashValues (buildAITicketUsageCacheKey ticketId) d s) else s);
              s2 = (if organizationId \<noteq> []
                then snd (incrementHashValues (buildAIOrganizationUsageCacheKey organizationId) d s1) else s1)
          in if organizationId \<noteq> [] \<and> (us_tokensUsed u \<noteq> 0 \<or> us_cost u \<noteq> 0)
             then snd (incrementHashValues (buildAIOrganizationUsageCacheKey organizationId @ '':daily:'' @ today) d s2)
             else s2)"

subsection \<open>Repository (ai.automation.repo.js, ai.config.repo.js)\<close>

definition getTicketComments_ai :: "string \<Rightarrow> gateway \<Rightarrow> comment list" where
  "getTicketComments_ai ticketId s = sort_key c_createdAt (find_many (\<lambda>c. c_ticketId c = ticketId) (comments s))"

definition getTicketWithComments :: "string \<Rightarrow> gateway \<Rightarrow> (ticket \<times> comment list) option" where
  "getTicketWithComments ticketId s =
     map_option (\<lambda>t. (t, getTicketComments_ai ticketId s)) (find_ticket ticketId s)"

definition getAIConfigByOrg :: "string \<Rightarrow> ai_state \<Rightarrow> ai_config option" where
  "getAIConfigByOrg organizationId s = find_unique (\<lambda>c. ac_organizationId c = organizationId) (ai_configs s)"

definition ai_createComment :: "string \<Rightarrow> string \<Rightarrow> bool \<Rightarrow> time \<Rightarrow> string \<Rightarrow> gateway \<Rightarrow> comment result \<times> gateway" where
  "ai_createComment ticketId message isInternal now newId s =
     createTicketComment ticketId
       \<lparr>cd_authorId = None, cd_authorType = AI, cd_message = message, cd_isInternal = isInternal\<rparr> now newId s"

definition apply_ai_update :: "ticket_ai_update \<Rightarrow> ticket \<Rightarrow> ticket" where
  "apply_ai_update u t =
     t\<lparr>t_aiMessageCount := the_default (t_aiMessageCount t) (tu_aiMessageCount u),
       t_status := the_default (t_status t) (tu_status u),
       t_aiActive := the_default (t_aiActive t) (tu_aiActive u),
       t_assignedToId := (case tu_assignedToId u of None \<Rightarrow> t_assignedToId t | Some a \<Rightarrow> Some a)\<rparr>"

definition ai_updateTicket :: "string \<Rightarrow> ticket_ai_update \<Rightarrow> gateway \<Rightarrow> ticket result \<times> gateway" where
  "ai_updateTicket ticketId u s =
     (case find_ticket ticketId s of
        None \<Rightarrow> throw (PrismaError ''P2025'') s
      | Some t \<Rightarrow>
          if (case tu_assignedToId u of None \<Rightarrow> False | Some a \<Rightarrow> find_user a s = None)
          then throw (PrismaError ''P2003'') s
          else return (apply_ai_update u t)
            (s\<lparr>tickets := update_rows (\<lambda>r. t_id r = ticketId) (apply_ai_update u) (tickets s)\<rparr>))"

text \<open>The filter asks for some membership of the user, in whatever organization.\<close>

definition getAvailableAgents :: "string \<Rightarrow> gateway \<Rightarrow> agent_workload list" where
  "getAvailableAgents organizationId s =
     find_many (\<lambda>w. w_organizationId w = organizationId \<and>
         list_ex (\<lambda>m. m_userId m = w_userId w \<and> m_isAvailable m \<and>
             list_ex (\<lambda>r. r_id r = m_roleId m \<and> ''agent:update_availability'' \<in> set (r_rolePermissions r)) (roles s))
           (memberships s))
       (workloads s)"

definition on_gateway :: "(gateway \<Rightarrow> 'a result \<times> gateway) \<Rightarrow> ai_state \<Rightarrow> 'a result \<times> ai_state" where
  "on_gateway f s = (case f (ai_gateway s) of (r, g) \<Rightarrow> (r, s\<lparr>ai_gateway := g\<rparr>))"

subsection \<open>Service (ai.automation.service.js)\<close>

definition storeAIComment :: "ai_env \<Rightarrow> string \<Rightarrow> string \<Rightarrow> action_type \<Rightarrow> gateway \<Rightarrow> comment result \<times> gateway" where
  "storeAIComment env ticketId response action s =
     ai_createComment ticketId (formatAIResponse response action) False (ae_time env) (ae_commentId env) s"

text \<open>Assignment by the AI; its errors are caught and logged.\<close>

definition handleSmartAssign :: "ticket \<Rightarrow> gateway \<Rightarrow> gateway" where
  "handleSmartAssign t s =
     (case selectBestAgent (getAvailableAgents (t_organizationId t) s) of
        None \<Rightarrow> s
      | Some agent \<Rightarrow>
          snd (ai_updateTicket (t_id t)
            (no_update\<lparr>tu_assignedToId := Some (w_userId agent), tu_status := Some IN_PROGRESS\<rparr>) s))"

definition generateAIResponse :: "ai_env \<Rightarrow> (string \<times> ai_usage option) result" where
  "generateAIResponse env =
     (case fst (executeWithProviderGuards (ae_timeoutMs env) (ae_retries env) (ae_retryDelayMs env)
             (ae_provider env) ''AI provider timeout while generating response'') of
        Inl e \<Rightarrow> Inl (JsError (he_message e))
      | Inr x \<Rightarrow> Inr x)"

definition response_context :: "ai_env \<Rightarrow> ticket \<Rightarrow> comment list \<Rightarrow> string \<Rightarrow> confidence_context" where
  "response_context env t cs response =
     \<lparr>responseLength = int (length response),
      hasProblematicKeywords = checkProblematicKeywords response,
      isFollowUp = length cs > 3,
      ticketPriority = t_priority t,
      ticketAge = ae_time env - t_createdAt t,
      commentCount = int (length cs),
      hasAttachments = False,
      descriptionLength = (case t_description t of None \<Rightarrow> 0 | Some d \<Rightarrow> int (length d))\<rparr>"

definition decision_options_for :: "ticket \<Rightarrow> ai_config option \<Rightarrow> decision_options" where
  "decision_options_for t orgConfig =
     (let canAssign = \<not> truthy (t_assignedToId t) in
      case orgConfig of
        None \<Rightarrow> default_options canAssign
      | Some c \<Rightarrow> \<lparr>do_autoResolveThreshold = Some (ac_autoResolveThreshold c),
          do_smartAssignThreshold = Some (ac_smartAssignThreshold c),
          do_suggestThreshold = Some (ac_suggestThreshold c),
          do_enableAutoResolve = Some (ac_enableAutoResolve c),
          do_enableSmartAssign = Some (ac_enableSmartAssign c), do_canAssign = canAssign\<rparr>)"

definition generateAndStoreAIResponse ::
    "ai_env \<Rightarrow> ticket \<Rightarrow> comment list \<Rightarrow> ai_config option \<Rightarrow> ai_state \<Rightarrow> unit result \<times> ai_state" where
  "generateAndStoreAIResponse env t cs orgConfig s =
     (case generateAIResponse env of
        Inl e \<Rightarrow> throw e s
      | Inr (aiResponse, aiUsage) \<Rightarrow>
          let confidenceData = calculateConfidence (response_context env t cs aiResponse);
              action = aa_type (decideAction (cd_confidence confidenceData) (decision_options_for t orgConfig))
          in case on_gateway (storeAIComment env (t_id t) aiResponse action) s of
            (Inl e, s1) \<Rightarrow> throw e s1
          | (Inr aiComment, s1) \<Rightarrow>
              let s2 = trackAIUsageTotals (ae_today env) (t_id t) (t_organizationId t) aiUsage s1;
                  ticketUpdate = buildTicketUpdate t action (countAIResponses cs);
                  s3 = (if action = smart_assign
                        then s2\<lparr>ai_gateway := handleSmartAssign t (ai_gateway s2)\<rparr> else s2)
              in case on_gateway (ai_updateTicket (t_id t) ticketUpdate) s3 of
                (Inl e, s4) \<Rightarrow> throw e s4
              | (Inr _, s4) \<Rightarrow> return () s4)"

text \<open>The part of \<open>handleCommentAdded\<close> that runs under the lock.\<close>

definition process_comment :: "ai_env \<Rightarrow> string \<Rightarrow> string \<Rightarrow> bool \<Rightarrow> ai_state \<Rightarrow> unit result \<times> ai_state" where
  "process_comment env ticketId commentId usingIdempotency s =
     (case getTicketWithComments ticketId (ai_gateway s) of
        None \<Rightarrow> return () s
      | Some (t, cs) \<Rightarrow>
          let orgConfig = getAIConfigByOrg (t_organizationId t) s in
          if (case orgConfig of None \<Rightarrow> False | Some c \<Rightarrow> \<not> ac_aiEnabled c) then return () s
          else case List.find (\<lambda>c. c_id c = commentId) cs of
            None \<Rightarrow> return () s
          | Some newComment \<Rightarrow>
              if c_authorType newComment \<noteq> USER then return () s
              else if \<not> fst (shouldProcessAI t cs orgConfig (ae_time env)) then return () s
              else case generateAndStoreAIResponse env t cs orgConfig s of
                (Inl e, s1) \<Rightarrow> throw e s1
              | (Inr _, s1) \<Rightarrow> return () (if usingIdempotency then markCommentAsProcessed commentId s1 else s1))"

definition handleCommentAdded :: "ai_env \<Rightarrow> string \<Rightarrow> string option \<Rightarrow> ai_state \<Rightarrow> unit result \<times> ai_state" where
  "handleCommentAdded env ticketId commentId s =
     (if \<not> truthy commentId then return () s
      else if hasCommentBeenProcessed (the commentId) s then return () s
      else case acquireCommentProcessingLock (the commentId) s of
        (lockResult, s1) \<Rightarrow>
          let usingIdempotency = (lockResult \<noteq> None); processingLockAcquired = (lockResult = Some True) in
          if usingIdempotency \<and> \<not> processingLockAcquired then return () s1
          else case process_comment env ticketId (the commentId) usingIdempotency s1 of
            (r, s2) \<Rightarrow>
              (r, if usingIdempotency \<and> processingLockAcquired
                  then releaseCommentProcessingLock (the commentId) s2 else s2))"

subsection \<open>Handler, queue and worker (ai.automation.handlers.js, queue/)\<close>

text \<open>
  A job keeps its id and the two fields of the payload the worker uses. \<open>hasQueue\<close> tells whether
  there is a queue connection. A failure of the inline run is logged and dropped.
\<close>

definition job_id :: "string \<Rightarrow> string option \<Rightarrow> string" where
  "job_id ticketId commentId = ticketId @ '':'' @ (case commentId of None \<Rightarrow> ''undefined'' | Some c \<Rightarrow> c)"

definition handleTicketCommentAdded :: "ai_env \<Rightarrow> bool \<Rightarrow> event \<Rightarrow> ai_state \<Rightarrow> ai_state" where
  "handleTicketCommentAdded env hasQueue e s =
     (let ticketId = the_default ''undefined'' (payload_field e ''ticketId''); commentId = payload_field e ''commentId'' in
      if hasQueue then s\<lparr>ai_jobs := ai_jobs s @ [(job_id ticketId commentId, ticketId, commentId)]\<rparr>
      else snd (handleCommentAdded env ticketId commentId s))"

definition processAICommentJob :: "ai_env \<Rightarrow> ai_state \<Rightarrow> ai_state" where
  "processAICommentJob env s =
     (case ai_jobs s of
        [] \<Rightarrow> s
      | (_, ticketId, commentId) # js \<Rightarrow> snd (handleCommentAdded env ticketId commentId (s\<lparr>ai_jobs := js\<rparr>)))"

end
