(* ===== verification/Example_State.thy ===== *)
theory Example_State
  imports Ticket_Events
begin

section \<open>A small gateway state\<close>

text \<open>
  One organization with its default roles, an owner, an agent and a member, and a ticket of the
  member with a public and an internal comment. The witnesses of the properties run on it.
\<close>

definition example_role :: "string \<Rightarrow> nat \<Rightarrow> org_role" where
  "example_role i k =
     (let d = DEFAULT_ROLES ! k
      in \<lparr>r_id = i, r_organizationId = ''o1'', r_name = rd_name d, r_level = rd_level d,
          r_isSystem = rd_isSystem d, r_rolePermissions = rd_permissions d\<rparr>)"

definition example_user :: "string \<Rightarrow> user" where
  "example_user i = \<lparr>u_id = i, u_email = i @ ''@x.org'', u_password = ''hash'', u_name = Some i,
     u_createdAt = 0, u_tokenIssuedAt = None, u_isDeleted = False\<rparr>"

definition example_membership :: "string \<Rightarrow> string \<Rightarrow> string \<Rightarrow> membership" where
  "example_membership i u r = \<lparr>m_id = i, m_userId = u, m_organizationId = ''o1'', m_roleId = r,
     m_isAvailable = True, m_maxTicketsPerDay = Some 10, m_maxTicketsPerWeek = Some 50, m_createdAt = 0\<rparr>"

definition example_ticket :: ticket where
  "example_ticket = \<lparr>t_id = ''t1'', t_title = ''printer'', t_description = None, t_status = OPEN,
     t_priority = MEDIUM, t_source = WEB, t_organizationId = ''o1'', t_createdById = ''mem'',
     t_assignedToId = None, t_aiActive = True, t_aiMessageCount = 0, t_createdAt = 0\<rparr>"

definition example_comments :: "comment list" where
  "example_comments =
     [\<lparr>c_id = ''c1'', c_ticketId = ''t1'', c_authorId = Some ''mem'', c_authorType = USER,
       c_message = ''help'', c_isInternal = False, c_createdAt = 1\<rparr>,
      \<lparr>c_id = ''c2'', c_ticketId = ''t1'', c_authorId = Some ''agt'', c_authorType = USER,
       c_message = ''vip'', c_isInternal = True, c_createdAt = 2\<rparr>]"

definition example_gateway :: gateway where
  "example_gateway = empty_gateway\<lparr>
     users := [example_user ''own'', example_user ''agt'', example_user ''mem''],
     organizations := [\<lparr>o_id = ''o1'', o_name = ''Acme'', o_createdAt = 0\<rparr>],
     permissions := ALL_PERMISSIONS,
     roles := [example_role ''r1'' 0, example_role ''r2'' 1, example_role ''r3'' 2, example_role ''r4'' 3],
     memberships := [example_membership ''m1'' ''own'' ''r1'', example_membership ''m2'' ''agt'' ''r3'',
       example_membership ''m3'' ''mem'' ''r4''],
     tickets := [example_ticket],
     comments := example_comments,
     tags := [\<lparr>tag_id = ''g1'', tag_name = ''urgent'', tag_organizationId = ''o1''\<rparr>]\<rparr>"

lemmas example_defs = example_gateway_def example_comments_def example_ticket_def
  example_membership_def example_user_def empty_gateway_def

lemma example_fields [simp]:
  "memberships example_gateway = [example_membership ''m1'' ''own'' ''r1'',
     example_membership ''m2'' ''agt'' ''r3'', example_membership ''m3'' ''mem'' ''r4'']"
  "membershipCache example_gateway = (\<lambda>_. None)"
  "emitted example_gateway = []"
  by (simp_all add: example_gateway_def empty_gateway_def)

lemma example_good: "good example_gateway"
  by (simp add: good_def membership_rows_ok_def membership_table.key_unique_def cache_coherent_def
      example_membership_def colon_free_def)

end
