(* ===== verification/AI_Prompts.thy ===== *)
theory AI_Prompts
  imports JS_Number AI_Automation Example_State
begin

section \<open>Prompts and the provider of the AI modules\<close>

text \<open>
  modules/ai/core/prompts (the texts sent to the language model) and ai.provider.js, which
  answers with a fixed text and estimates the usage. \<open>String.replace\<close> with a string pattern
  replaces the first occurrence and expands the dollar patterns of the replacement. The texts of
  dates depend on the locale of the host and are parameters, as is \<open>JSON.stringify\<close>.
\<close>

subsection \<open>\<open>String.replace\<close>\<close>

fun split_first :: "string \<Rightarrow> string \<Rightarrow> (string \<times> string) option" where
  "split_first pat [] = (if pat = [] then Some ([], []) else None)"
| "split_first pat (c # cs) =
     (if prefix pat (c # cs) then Some ([], drop (length pat) (c # cs))
      else case split_first pat cs of None \<Rightarrow> None | Some (before, after) \<Rightarrow> Some (c # before, after))"

text \<open>\<open>$$\<close>, \<open>$&\<close>, dollar backtick and dollar quote: a dollar, the match, the text before, the text after.\<close>

fun expand_dollars :: "string \<Rightarrow> string \<Rightarrow> string \<Rightarrow> string \<Rightarrow> string" where
  "expand_dollars m before after [] = []"
| "expand_dollars m before after [c] = [c]"
| "expand_dollars m before after (c # d # cs) =
     (if c = CHR ''$'' \<and> d = CHR ''$'' then CHR ''$'' # expand_dollars m before after cs
      else if c = CHR ''$'' \<and> d = CHR ''&'' then m @ expand_dollars m before after cs
      else if c = CHR ''$'' \<and> d = CHR 0x60 then before @ expand_dollars m before after cs
      else if c = CHR ''$'' \<and> d = CHR 0x27 then after @ expand_dollars m before after cs
      else c # expand_dollars m before after (d # cs))"

definition js_replace :: "string \<Rightarrow> string \<Rightarrow> string \<Rightarrow> string" where
  "js_replace pat replacement text =
     (case split_first pat text of
        None \<Rightarrow> text
      | Some (before, after) \<Rightarrow> before @ expand_dollars pat before after replacement @ after)"

abbreviation newline :: string where "newline \<equiv> [CHR 0x0A]"

definition author_type_name :: "author_type \<Rightarrow> string" where
  "author_type_name a = (case a of USER \<Rightarrow> ''USER'' | AI \<Rightarrow> ''AI'' | SYSTEM \<Rightarrow> ''SYSTEM'')"

subsection \<open>Automation prompt (automation.prompt.js)\<close>

definition TICKET_ASSISTANT_SYSTEM :: string where
  "TICKET_ASSISTANT_SYSTEM = join_with newline
     [''You are a helpful customer support AI assistant. Your role is to:'',
      ''1. Understand customer issues from their descriptions and comments'',
      ''2. Provide thoughtful, empathetic responses'',
      ''3. Ask clarifying questions when needed'',
      ''4. Suggest solutions based on context'',
      ''5. Be concise but thorough'',
      ''6. Always maintain professional tone'',
      ''7. If you cannot resolve, suggest escalation to human agent'',
      '''',
      ''Rules:'',
      ''- Do NOT make up technical details'',
      ''- Be honest about limitations'',
      ''- Always include confidence level in suggestions'',
      ''- Keep responses under 500 characters when possible'']"

definition TICKET_CONTEXT_TEMPLATE :: string where
  "TICKET_CONTEXT_TEMPLATE = join_with newline
     [''Ticket Information:'',
      ''- ID: {ticketId}'',
      ''- Title: {title}'',
      ''- Status: {status}'',
      ''- Priority: {priority}'',
      ''- Created: {createdAt}'',
      '''',
      ''Original Description:'',
      ''{description}'',
      '''',
      ''Recent Conversation:'',
      ''{conversation}'',
      '''',
      ''User'' @ [CHR 0x27] @ ''s Latest Message: {latestMessage}'',
      '''',
      ''Your task: Provide a helpful response to the latest message.'']"

definition buildTicketContext :: "(time \<Rightarrow> string) \<Rightarrow> 'a ticket_scheme \<Rightarrow> comment list \<Rightarrow> string \<Rightarrow> string" where
  "buildTicketContext dateText t cs latestMessage =
     (let conversation = join_with newline
            (List.map (\<lambda>c. ''['' @ author_type_name (c_authorType c) @ '']: '' @ c_message c) cs);
          description = (if truthy (t_description t) then the (t_description t) else ''No description'')
      in js_replace ''{latestMessage}'' latestMessage
          (js_replace ''{conversation}'' conversation
            (js_replace ''{description}'' description
              (js_replace ''{createdAt}'' (dateText (t_createdAt t))
                (js_replace ''{priority}'' (priority_name (t_priority t))
                  (js_replace ''{status}'' (status_name (t_status t))
                    (js_replace ''{title}'' (t_title t)
                      (js_replace ''{ticketId}'' (t_id t) TICKET_CONTEXT_TEMPLATE))))))))"

subsection \<open>Summary prompt (summary.prompt.js)\<close>

definition SUMMARY_PROMPT :: string where
  "SUMMARY_PROMPT = join_with newline
     [''Summarize the following ticket conversation in 2-3 sentences. Focus on:'',
      ''1. What is the issue'',
      ''2. What has been attempted'',
      ''3. Current status'',
      '''',
      ''Conversation:'',
      ''{conversation}'',
      '''',
      ''Summary:'']"

definition buildSummaryContext :: "comment list \<Rightarrow> string" where
  "buildSummaryContext cs =
     js_replace ''{conversation}''
       (join_with newline (List.map (\<lambda>c. author_type_name (c_authorType c) @ '': '' @ c_message c) cs))
       SUMMARY_PROMPT"

subsection \<open>Agent prompt (agent.prompt.js)\<close>

text \<open>
  \<open>%\<close> of JavaScript takes the sign of the dividend. The age is an integral number of milliseconds,
  for which the floor of the quotient is that of the exact quotient.
\<close>

definition js_rem :: "int \<Rightarrow> int \<Rightarrow> int" where
  "js_rem a b = sgn a * (\<bar>a\<bar> mod \<bar>b\<bar>)"

definition formatTicketAge :: "time \<Rightarrow> time \<Rightarrow> string" where
  "formatTicketAge now createdAt =
     (let age = now - createdAt; hours = age div 3600000; minutes = js_rem age 3600000 div 60000
      in if hours > 24 then show_int (hours div 24) @ '' day(s)''
         else if hours > 0 then show_int hours @ ''h '' @ show_int minutes @ ''m''
         else show_int minutes @ '' min'')"

definition buildAgentContext ::
    "(time \<Rightarrow> string) \<Rightarrow> time \<Rightarrow> 'a ticket_scheme \<Rightarrow> user option \<Rightarrow> comment list \<Rightarrow> comment \<Rightarrow> string" where
  "buildAgentContext timeText now t createdBy cs lastUserComment =
     (let conversation = join_with newline
            (List.map (\<lambda>c. ''['' @ timeText (c_createdAt c) @ ''] '' @ author_type_name (c_authorType c) @
               '': '' @ c_message c) cs);
          email = (case createdBy of None \<Rightarrow> [] | Some u \<Rightarrow> u_email u)
      in join_with newline
        ['''',
         ''AGENT CONTEXT - Ticket #'' @ t_id t,
         ''===================================='',
         ''Customer: '' @ (if email = [] then ''unknown'' else email),
         ''Priority: '' @ priority_name (t_priority t),
         ''Status: '' @ status_name (t_status t),
         ''Duration: '' @ formatTicketAge now (t_createdAt t),
         '''',
         ''Issue Summary:'',
         (case t_description t of None \<Rightarrow> ''null'' | Some d \<Rightarrow> d),
         '''',
         ''Recent Conversation:'',
         conversation,
         '''',
         ''Last User Message:'',
         c_message lastUserComment,
         '''',
         ''Your task as agent:'',
         ''1. Understand the exact problem and attempted solutions'',
         ''2. Provide clear, actionable next step'',
         ''3. Be empathetic but professional'',
         ''4. If unsure, ask clarifying questions'',
         ''5. Suggest workarounds if resolution isn'' @ [CHR 0x27] @ ''t immediately available'',
         ''''])"

definition getAgentSystemPrompt :: string where
  "getAgentSystemPrompt = join_with newline
     [''You are helping a support agent respond to a customer.'',
      ''Your suggestions should be:'',
      ''- Professional and empathetic'',
      ''- Clear and actionable'',
      ''- Concise (2-3 sentences ideal)'',
      ''- Include next steps or expectations'',
      ''- Acknowledge previous attempts'',
      ''- Use simple technical language'',
      '''',
      ''Format your response as a complete message the agent can send to the customer.'',
      ''The agent can customize it before sending.'']"

subsection \<open>Provider (ai.provider.js)\<close>

definition estimateTokens :: "string \<Rightarrow> int" where
  "estimateTokens value = (if value = [] then 0 else max 1 ((int (length value) + 3) div 4))"

text \<open>\<open>toFixed(6)\<close> and back: the double nearest to the rounded decimal.\<close>

definition usage_cost :: "rat \<Rightarrow> rat \<Rightarrow> int \<Rightarrow> int \<Rightarrow> rat" where
  "usage_cost promptCost completionCost promptTokens completionTokens =
     dbl (of_int (fixed_int 6
        (js_add (js_mul (js_div (of_int promptTokens) 1000) promptCost)
                (js_mul (js_div (of_int completionTokens) 1000) completionCost))) / 10 ^ 6)"

record provider_config =
  pc_model :: string
  pc_promptCostPer1kTokens :: rat
  pc_completionCostPer1kTokens :: rat

definition buildAIUsage :: "provider_config \<Rightarrow> string \<Rightarrow> string \<Rightarrow> ai_usage" where
  "buildAIUsage cfg promptInput completionOutput =
     (let promptTokens = estimateTokens promptInput; completionTokens = estimateTokens completionOutput
      in \<lparr>us_model = pc_model cfg, us_tokensUsed = promptTokens + completionTokens,
          us_cost = usage_cost (pc_promptCostPer1kTokens cfg) (pc_completionCostPer1kTokens cfg)
            promptTokens completionTokens\<rparr>)"

definition placeholder_response :: string where
  "placeholder_response = ''This is a placeholder AI response. Configure OpenAI API key to enable.''"

definition placeholder_summary :: string where
  "placeholder_summary = ''Ticket summary placeholder''"

text \<open>The request as \<open>JSON.stringify\<close> renders it is the argument of \<open>callOpenAI\<close>.\<close>

definition callOpenAI :: "provider_config \<Rightarrow> string \<Rightarrow> string \<times> ai_usage" where
  "callOpenAI cfg request = (placeholder_response, buildAIUsage cfg request placeholder_response)"

definition callOpenAISummary :: "provider_config \<Rightarrow> comment list \<Rightarrow> string \<times> ai_usage" where
  "callOpenAISummary cfg cs = (placeholder_summary, buildAIUsage cfg (buildSummaryContext cs) placeholder_summary)"

text \<open>The provider as the guards call it: it answers at once and never fails.\<close>

definition repo_provider ::
    "provider_config \<Rightarrow> string \<Rightarrow> nat \<Rightarrow> (int \<times> (host_error + string \<times> ai_usage option)) option" where
  "repo_provider cfg request k = Some (0, Inr (map_prod id Some (callOpenAI cfg request)))"

definition repo_summary_provider ::
    "provider_config \<Rightarrow> comment list \<Rightarrow> nat \<Rightarrow> (int \<times> (host_error + string \<times> ai_usage option)) option" where
  "repo_summary_provider cfg cs k = Some (0, Inr (map_prod id Some (callOpenAISummary cfg cs)))"

subsection \<open>Filling a template\<close>

lemma split_first_here: "split_first pat (pat @ after) = Some ([], after)"
  by (cases pat; cases after) simp_all

lemma split_first_skip:
  "c \<notin> set before \<Longrightarrow> split_first (c # pat) (before @ rest) =
     map_option (map_prod ((@) before) id) (split_first (c # pat) rest)"
  by (induction before) (auto split: option.splits simp: map_prod_def case_prod_beta option.map_id0 id_def option.map_ident)

lemma expand_dollars_none: "CHR ''$'' \<notin> set r \<Longrightarrow> expand_dollars m before after r = r"
  by (induction m before after r rule: expand_dollars.induct) auto

text \<open>A placeholder is replaced by a text without dollars when no brace stands before it.\<close>

lemma js_replace_placeholder:
  assumes "CHR ''{'' \<notin> set before" "CHR ''$'' \<notin> set r"
  shows "js_replace (CHR ''{'' # name) r (before @ (CHR ''{'' # name) @ after) = before @ r @ after"
  using split_first_skip [OF assms(1), of name "(CHR ''{'' # name) @ after"]
    split_first_here [of "CHR ''{'' # name" after] assms(2)
  by (simp add: js_replace_def expand_dollars_none)

definition conversation_text :: "comment list \<Rightarrow> string" where
  "conversation_text cs = join_with newline
     (List.map (\<lambda>c. ''['' @ author_type_name (c_authorType c) @ '']: '' @ c_message c) cs)"

definition description_text :: "'a ticket_scheme \<Rightarrow> string" where
  "description_text t = (if truthy (t_description t) then the (t_description t) else ''No description'')"

text \<open>The intended text: every placeholder replaced by its field.\<close>

definition ticket_context_text :: "(time \<Rightarrow> string) \<Rightarrow> 'a ticket_scheme \<Rightarrow> comment list \<Rightarrow> string \<Rightarrow> string" where
  "ticket_context_text dateText t cs latestMessage = join_with newline
     [''Ticket Information:'',
      ''- ID: '' @ t_id t,
      ''- Title: '' @ t_title t,
      ''- Status: '' @ status_name (t_status t),
      ''- Priority: '' @ priority_name (t_priority t),
      ''- Created: '' @ dateText (t_createdAt t),
      '''',
      ''Original Description:'',
      description_text t,
      '''',
      ''Recent Conversation:'',
      conversation_text cs,
      '''',
      ''User'' @ [CHR 0x27] @ ''s Latest Message: '' @ latestMessage,
      '''',
      ''Your task: Provide a helpful response to the latest message.'']"

text \<open>A text that leaves the template alone: neither a brace nor a dollar.\<close>

definition plain :: "string \<Rightarrow> bool" where
  "plain x = (CHR ''{'' \<notin> set x \<and> CHR ''$'' \<notin> set x)"

lemma plain_append [simp]: "plain (x @ y) \<longleftrightarrow> plain x \<and> plain y"
  by (auto simp: plain_def)

lemma plain_status [simp]: "plain (status_name x)"
  by (cases x) (simp_all add: plain_def)

lemma plain_priority [simp]: "plain (priority_name x)"
  by (cases x) (simp_all add: plain_def)

lemma replace_plain:
  assumes "plain before" "CHR ''$'' \<notin> set r"
  shows "js_replace (CHR ''{'' # name) r (before @ CHR ''{'' # name @ after) = before @ r @ after"
  using js_replace_placeholder [of before r name after] assms by (simp add: plain_def)

lemma fill_parts:
  assumes "plain s0" "plain s1" "plain s2" "plain s3" "plain s4" "plain s5" "plain s6" "plain s7"
    and "plain r0" "plain r1" "plain r2" "plain r3" "plain r4" "plain r5" "plain r6" and "CHR ''$'' \<notin> set r7"
  shows "js_replace ''{latestMessage}'' r7 (js_replace ''{conversation}'' r6 (js_replace ''{description}'' r5 (js_replace ''{createdAt}'' r4 (js_replace ''{priority}'' r3 (js_replace ''{status}'' r2 (js_replace ''{title}'' r1 (js_replace ''{ticketId}'' r0 (s0 @ ''{ticketId}'' @ s1 @ ''{title}'' @ s2 @ ''{status}'' @ s3 @ ''{priority}'' @ s4 @ ''{createdAt}'' @ s5 @ ''{description}'' @ s6 @ ''{conversation}'' @ s7 @ ''{latestMessage}'' @ s8)))))))) =
    s0 @ r0 @ s1 @ r1 @ s2 @ r2 @ s3 @ r3 @ s4 @ r4 @ s5 @ r5 @ s6 @ r6 @ s7 @ r7 @ s8"
proof -
  have e0: "js_replace ''{ticketId}'' r0 (s0 @ ''{ticketId}'' @ s1 @ ''{title}'' @ s2 @ ''{status}'' @ s3 @ ''{priority}'' @ s4 @ ''{createdAt}'' @ s5 @ ''{description}'' @ s6 @ ''{conversation}'' @ s7 @ ''{latestMessage}'' @ s8) = s0 @ r0 @ s1 @ ''{title}'' @ s2 @ ''{status}'' @ s3 @ ''{priority}'' @ s4 @ ''{createdAt}'' @ s5 @ ''{description}'' @ s6 @ ''{conversation}'' @ s7 @ ''{latestMessage}'' @ s8"
    using replace_plain [of "s0" r0 "tl ''{ticketId}''" "s1 @ ''{title}'' @ s2 @ ''{status}'' @ s3 @ ''{priority}'' @ s4 @ ''{createdAt}'' @ s5 @ ''{description}'' @ s6 @ ''{conversation}'' @ s7 @ ''{latestMessage}'' @ s8"] assms by (simp add: plain_def)
  have e1: "js_replace ''{title}'' r1 (s0 @ r0 @ s1 @ ''{title}'' @ s2 @ ''{status}'' @ s3 @ ''{priority}'' @ s4 @ ''{createdAt}'' @ s5 @ ''{description}'' @ s6 @ ''{conversation}'' @ s7 @ ''{latestMessage}'' @ s8) = s0 @ r0 @ s1 @ r1 @ s2 @ ''{status}'' @ s3 @ ''{priority}'' @ s4 @ ''{createdAt}'' @ s5 @ ''{description}'' @ s6 @ ''{conversation}'' @ s7 @ ''{latestMessage}'' @ s8"
    using replace_plain [of "s0 @ r0 @ s1" r1 "tl ''{title}''" "s2 @ ''{status}'' @ s3 @ ''{priority}'' @ s4 @ ''{createdAt}'' @ s5 @ ''{description}'' @ s6 @ ''{conversation}'' @ s7 @ ''{latestMessage}'' @ s8"] assms by (simp add: plain_def)
  have e2: "js_replace ''{status}'' r2 (s0 @ r0 @ s1 @ r1 @ s2 @ ''{status}'' @ s3 @ ''{priority}'' @ s4 @ ''{createdAt}'' @ s5 @ ''{description}'' @ s6 @ ''{conversation}'' @ s7 @ ''{latestMessage}'' @ s8) = s0 @ r0 @ s1 @ r1 @ s2 @ r2 @ s3 @ ''{priority}'' @ s4 @ ''{createdAt}'' @ s5 @ ''{description}'' @ s6 @ ''{conversation}'' @ s7 @ ''{latestMessage}'' @ s8"
    using replace_plain [of "s0 @ r0 @ s1 @ r1 @ s2" r2 "tl ''{status}''" "s3 @ ''{priority}'' @ s4 @ ''{createdAt}'' @ s5 @ ''{description}'' @ s6 @ ''{conversation}'' @ s7 @ ''{latestMessage}'' @ s8"] assms by (simp add: plain_def)
  have e3: "js_replace ''{priority}'' r3 (s0 @ r0 @ s1 @ r1 @ s2 @ r2 @ s3 @ ''{priority}'' @ s4 @ ''{createdAt}'' @ s5 @ ''{description}'' @ s6 @ ''{conversation}'' @ s7 @ ''{latestMessage}'' @ s8) = s0 @ r0 @ s1 @ r1 @ s2 @ r2 @ s3 @ r3 @ s4 @ ''{createdAt}'' @ s5 @ ''{description}'' @ s6 @ ''{conversation}'' @ s7 @ ''{latestMessage}'' @ s8"
    using replace_plain [of "s0 @ r0 @ s1 @ r1 @ s2 @ r2 @ s3" r3 "tl ''{priority}''" "s4 @ ''{createdAt}'' @ s5 @ ''{description}'' @ s6 @ ''{conversation}'' @ s7 @ ''{latestMessage}'' @ s8"] assms by (simp add: plain_def)
  have e4: "js_replace ''{createdAt}'' r4 (s0 @ r0 @ s1 @ r1 @ s2 @ r2 @ s3 @ r3 @ s4 @ ''{createdAt}'' @ s5 @ ''{description}'' @ s6 @ ''{conversation}'' @ s7 @ ''{latestMessage}'' @ s8) = s0 @ r0 @ s1 @ r1 @ s2 @ r2 @ s3 @ r3 @ s4 @ r4 @ s5 @ ''{description}'' @ s6 @ ''{conversation}'' @ s7 @ ''{latestMessage}'' @ s8"
    using replace_plain [of "s0 @ r0 @ s1 @ r1 @ s2 @ r2 @ s3 @ r3 @ s4" r4 "tl ''{createdAt}''" "s5 @ ''{description}'' @ s6 @ ''{conversation}'' @ s7 @ ''{latestMessage}'' @ s8"] assms by (simp add: plain_def)
  have e5: "js_replace ''{description}'' r5 (s0 @ r0 @ s1 @ r1 @ s2 @ r2 @ s3 @ r3 @ s4 @ r4 @ s5 @ ''{description}'' @ s6 @ ''{conversation}'' @ s7 @ ''{latestMessage}'' @ s8) = s0 @ r0 @ s1 @ r1 @ s2 @ r2 @ s3 @ r3 @ s4 @ r4 @ s5 @ r5 @ s6 @ ''{conversation}'' @ s7 @ ''{latestMessage}'' @ s8"
    using replace_plain [of "s0 @ r0 @ s1 @ r1 @ s2 @ r2 @ s3 @ r3 @ s4 @ r4 @ s5" r5 "tl ''{description}''" "s6 @ ''{conversation}'' @ s7 @ ''{latestMessage}'' @ s8"] assms by (simp add: plain_def)
  have e6: "js_replace ''{conversation}'' r6 (s0 @ r0 @ s1 @ r1 @ s2 @ r2 @ s3 @ r3 @ s4 @ r4 @ s5 @ r5 @ s6 @ ''{conversation}'' @ s7 @ ''{latestMessage}'' @ s8) = s0 @ r0 @ s1 @ r1 @ s2 @ r2 @ s3 @ r3 @ s4 @ r4 @ s5 @ r5 @ s6 @ r6 @ s7 @ ''{latestMessage}'' @ s8"
    using replace_plain [of "s0 @ r0 @ s1 @ r1 @ s2 @ r2 @ s3 @ r3 @ s4 @ r4 @ s5 @ r5 @ s6" r6 "tl ''{conversation}''" "s7 @ ''{latestMessage}'' @ s8"] assms by (simp add: plain_def)
  have e7: "js_replace ''{latestMessage}'' r7 (s0 @ r0 @ s1 @ r1 @ s2 @ r2 @ s3 @ r3 @ s4 @ r4 @ s5 @ r5 @ s6 @ r6 @ s7 @ ''{latestMessage}'' @ s8) = s0 @ r0 @ s1 @ r1 @ s2 @ r2 @ s3 @ r3 @ s4 @ r4 @ s5 @ r5 @ s6 @ r6 @ s7 @ r7 @ s8"
    using replace_plain [of "s0 @ r0 @ s1 @ r1 @ s2 @ r2 @ s3 @ r3 @ s4 @ r4 @ s5 @ r5 @ s6 @ r6 @ s7" r7 "tl ''{latestMessage}''" "s8"] assms by (simp add: plain_def)
  show ?thesis by (simp only: e0 e1 e2 e3 e4 e5 e6 e7)
qed

lemma template_eq: "TICKET_CONTEXT_TEMPLATE =
     (''Ticket Information:'' @ newline @ ''- ID: '') @ ''{ticketId}'' @
     (newline @ ''- Title: '') @ ''{title}'' @
     (newline @ ''- Status: '') @ ''{status}'' @
     (newline @ ''- Priority: '') @ ''{priority}'' @
     (newline @ ''- Created: '') @ ''{createdAt}'' @
     (newline @ newline @ ''Original Description:'' @ newline) @ ''{description}'' @
     (newline @ newline @ ''Recent Conversation:'' @ newline) @ ''{conversation}'' @
     (newline @ newline @ ''User'' @ [CHR 0x27] @ ''s Latest Message: '') @ ''{latestMessage}'' @
     (newline @ newline @ ''Your task: Provide a helpful response to the latest message.'')"
  by (simp only: TICKET_CONTEXT_TEMPLATE_def join_with.simps append.simps append_assoc)

lemma ticket_context_text_eq: "ticket_context_text dateText t cs m =
     (''Ticket Information:'' @ newline @ ''- ID: '') @ t_id t @
     (newline @ ''- Title: '') @ t_title t @
     (newline @ ''- Status: '') @ status_name (t_status t) @
     (newline @ ''- Priority: '') @ priority_name (t_priority t) @
     (newline @ ''- Created: '') @ dateText (t_createdAt t) @
     (newline @ newline @ ''Original Description:'' @ newline) @ description_text t @
     (newline @ newline @ ''Recent Conversation:'' @ newline) @ conversation_text cs @
     (newline @ newline @ ''User'' @ [CHR 0x27] @ ''s Latest Message: '') @ m @
     (newline @ newline @ ''Your task: Provide a helpful response to the latest message.'')"
  by (simp only: ticket_context_text_def join_with.simps append.simps append_assoc)

text \<open>
  C33. The prompt is the intended text. \<open>buildTicketContext\<close> replaces the placeholders of the template
  one after the other, each time the first occurrence and with the dollar patterns of
  \<open>String.replace\<close>; the result is the template with every placeholder replaced by its own field, if
  id, title, date, description and conversation have neither an opening brace nor a dollar and the
  last message has no dollar.
\<close>

theorem buildTicketContext_plain:
  assumes "plain (t_id t)" "plain (t_title t)" "plain (dateText (t_createdAt t))" "plain (description_text t)"
    "plain (conversation_text cs)" "CHR ''$'' \<notin> set m"
  shows "buildTicketContext dateText t cs m = ticket_context_text dateText t cs m"
  unfolding buildTicketContext_def Let_def conversation_text_def [symmetric] description_text_def [symmetric]
    template_eq ticket_context_text_eq
  by (rule fill_parts) (rule assms plain_status plain_priority | simp add: plain_def)+

theorem buildTicketContext_plain_witness:
  "buildTicketContext (\<lambda>_. ''today'') example_ticket example_comments ''{help}'' =
     ticket_context_text (\<lambda>_. ''today'') example_ticket example_comments ''{help}''"
  by (rule buildTicketContext_plain) code_simp+

text \<open>Otherwise fields trade places: this title receives the last message, whose place stays empty.\<close>

lemma title_takes_message:
  "buildTicketContext (\<lambda>_. ''today'') (example_ticket\<lparr>t_title := ''{latestMessage}''\<rparr>) example_comments ''my card is 4711'' =
     ticket_context_text (\<lambda>_. ''today'') (example_ticket\<lparr>t_title := ''my card is 4711''\<rparr>) example_comments ''{latestMessage}''"
  by code_simp

end
