(* ===== verification/AI_Augmentation.thy ===== *)
theory AI_Augmentation
  imports AI_Prompts Org_Service
begin

section \<open>The augmentation of agents (modules/ai/augmentation)\<close>

text \<open>
  Suggestions, summaries, actions and statistics for agents: ai.augmentation.service.js,
  ai.augmentation.utils.js, ai.augmentation.repo.js, the controllers and the query schemas. What
  the language model returns is the object \<open>{content, aiUsage}\<close>; the service treats it as a
  string, so a value passed around here is either a string or such an object. Parameters: the
  outcomes of the provider, the texts of times, the column updatedAt, whether the request was
  aborted, and which of two concurrent failures comes first.
\<close>

subsection \<open>Values and tickets\<close>

datatype suggestion_value =
    TextValue string
  | ResultObject string "ai_usage option"

text \<open>The property \<open>length\<close> of a value: undefined for the object.\<close>

definition value_length :: "suggestion_value \<Rightarrow> int option" where
  "value_length v = (case v of TextValue x \<Rightarrow> Some (int (length x)) | ResultObject _ _ \<Rightarrow> None)"

record aug_ticket = ticket +
  at_comments :: "comment list option"
  at_createdBy :: "user option"
  at_assignedTo :: "user option"
  at_updatedAt :: time

type_synonym provider_outcomes = "nat \<Rightarrow> (int \<times> (host_error + string \<times> ai_usage option)) option"

record aug_env =
  ge_ai :: ai_env
  ge_respond :: "string \<Rightarrow> string \<Rightarrow> string \<Rightarrow> provider_outcomes"
  ge_summarize :: "comment list \<Rightarrow> provider_outcomes"
  ge_timeText :: "time \<Rightarrow> string"
  ge_isoText :: "time \<Rightarrow> string"
  ge_updatedAt :: "string \<Rightarrow> time"
  ge_aborted :: "string option"
  ge_suggestionFirst :: bool

abbreviation aug_now :: "aug_env \<Rightarrow> time" where "aug_now env \<equiv> ae_time (ge_ai env)"

subsection \<open>Helpers (ai.augmentation.utils.js)\<close>

definition getTicketComments_aug :: "aug_ticket \<Rightarrow> comment list" where
  "getTicketComments_aug t = (case at_comments t of None \<Rightarrow> [] | Some cs \<Rightarrow> cs)"

definition resolveDays :: "int option \<Rightarrow> int" where
  "resolveDays days = (case days of None \<Rightarrow> 7 | Some d \<Rightarrow> d)"

definition toLowerText :: "suggestion_value \<Rightarrow> string" where
  "toLowerText v = (case v of TextValue x \<Rightarrow> toLowerCase x | ResultObject _ _ \<Rightarrow> [])"

definition containsAnyKeyword :: "string \<Rightarrow> string list \<Rightarrow> bool" where
  "containsAnyKeyword text keywords =
     (let normalized = toLowerText (TextValue text) in list_ex (\<lambda>k. js_includes normalized (toLowerCase k)) keywords)"

definition buildCopySuggestion :: "suggestion_value \<Rightarrow> string" where
  "buildCopySuggestion v =
     (let preview = (case v of TextValue x \<Rightarrow> take 50 x | ResultObject _ _ \<Rightarrow> [])
      in ''Copy & Customize: '' @ preview @ ''...'')"

subsection \<open>Queries (ai.augmentation.repo.js, core/repo/ticket.base.repo.js)\<close>

definition with_relations :: "aug_env \<Rightarrow> gateway \<Rightarrow> ticket \<Rightarrow> comment list option \<Rightarrow> user option \<Rightarrow> user option \<Rightarrow> aug_ticket" where
  "with_relations env s t cs cb a =
     ticket.extend t \<lparr>at_comments = cs, at_createdBy = cb, at_assignedTo = a, at_updatedAt = ge_updatedAt env (t_id t)\<rparr>"

definition getAugmentationTicket :: "aug_env \<Rightarrow> string \<Rightarrow> gateway \<Rightarrow> aug_ticket option" where
  "getAugmentationTicket env ticketId s =
     map_option (\<lambda>t. with_relations env s t None None None) (find_ticket ticketId s)"

definition getAugmentationTicketWithComments :: "aug_env \<Rightarrow> string \<Rightarrow> gateway \<Rightarrow> aug_ticket option" where
  "getAugmentationTicketWithComments env ticketId s =
     map_option (\<lambda>t. with_relations env s t (Some (getTicketComments_ai ticketId s))
         (find_user (t_createdById t) s)
         (case t_assignedToId t of None \<Rightarrow> None | Some a \<Rightarrow> find_user a s))
       (find_ticket ticketId s)"

text \<open>The comments are included without an order; the model has them in order of creation.\<close>

definition getAugmentationAgentTickets :: "aug_env \<Rightarrow> string \<Rightarrow> time \<Rightarrow> gateway \<Rightarrow> aug_ticket list" where
  "getAugmentationAgentTickets env agentId since s =
     List.map (\<lambda>t. with_relations env s t (Some (find_many (\<lambda>c. c_ticketId c = t_id t) (comments s))) None None)
       (find_many (\<lambda>t. t_assignedToId t = Some agentId \<and> since \<le> ge_updatedAt env (t_id t)) (tickets s))"

subsection \<open>Quality of a suggestion\<close>

record suggestion_quality =
  sq_quality :: string
  sq_confidence :: double
  sq_reasoning :: string

definition calculateSuggestionQuality :: "suggestion_value \<Rightarrow> suggestion_quality" where
  "calculateSuggestionQuality suggestion =
     (let normalized = toLowerText suggestion;
          len = value_length suggestion;
          fitting = (case len of None \<Rightarrow> False | Some l \<Rightarrow> l > 150 \<and> l < 400);
          clear = \<not> containsAnyKeyword normalized [''unclear'', ''unsure''];
          actionable = containsAnyKeyword normalized [''please'', ''try'', ''can you''];
          generic = containsAnyKeyword normalized [''sorry for the inconvenience''] \<and>
            (case len of None \<Rightarrow> False | Some l \<Rightarrow> l < 100);
          (q1, c1, f1) = (if fitting then (''good'', adjust (lit 50) (Some 15), [''appropriate length''])
            else (''fair'', lit 50, []));
          (c2, f2) = (if clear then (adjust c1 (Some 10), f1 @ [''clear response'']) else (c1, f1));
          (q3, c3, f3) = (if actionable then (''excellent'', adjust c2 (Some 20), f2 @ [''actionable'']) else (q1, c2, f2));
          (q4, c4) = (if generic then (''fair'', max 0 (adjust c3 (Some (- 10)))) else (q3, c3));
          joined = join_with '', '' f3
      in \<lparr>sq_quality = q4, sq_confidence = min (lit 100) c4,
          sq_reasoning = ''Suggestion quality based on: '' @ (if joined = [] then ''standard analysis'' else joined)\<rparr>)"

record agent_suggestion =
  sg_ticketId :: string
  sg_suggestion :: suggestion_value
  sg_quality :: string
  sg_confidence :: double
  sg_reasoning :: string
  sg_copySuggestion :: string

subsection \<open>Suggestion\<close>

definition aug_response :: "aug_env \<Rightarrow> string \<Rightarrow> string \<Rightarrow> string \<Rightarrow> suggestion_value result" where
  "aug_response env ticketId context systemPrompt =
     map_sum id (\<lambda>(content, usage). ResultObject content usage)
       (generateAIResponse ((ge_ai env)\<lparr>ae_provider := ge_respond env ticketId context systemPrompt\<rparr>))"

definition generateAISummary :: "aug_env \<Rightarrow> comment list \<Rightarrow> suggestion_value result" where
  "generateAISummary env cs =
     (case fst (executeWithProviderGuards (ae_timeoutMs (ge_ai env)) (ae_retries (ge_ai env)) (ae_retryDelayMs (ge_ai env))
             (ge_summarize env cs) ''AI provider timeout while generating summary'') of
        Inl e \<Rightarrow> Inl (JsError (he_message e))
      | Inr (content, usage) \<Rightarrow> Inr (ResultObject content usage))"

text \<open>\<open>Inr None\<close> is null.\<close>

definition generateAgentSuggestionFromTicket :: "aug_env \<Rightarrow> aug_ticket option \<Rightarrow> agent_suggestion option result" where
  "generateAgentSuggestionFromTicket env ticket' =
     (case ticket' of
        None \<Rightarrow> Inr None
      | Some t \<Rightarrow>
          (let cs = getTicketComments_aug t in
           case List.find (\<lambda>c. c_authorType c = USER) (rev cs) of
             None \<Rightarrow> Inr None
           | Some lastUserComment \<Rightarrow>
               (let context = buildAgentContext (ge_timeText env) (aug_now env) t (at_createdBy t) cs lastUserComment in
                case aug_response env (t_id t) context getAgentSystemPrompt of
                  Inl e \<Rightarrow> Inl e
                | Inr suggestion \<Rightarrow>
                    (let metrics = calculateSuggestionQuality suggestion in
                     Inr (Some \<lparr>sg_ticketId = t_id t, sg_suggestion = suggestion, sg_quality = sq_quality metrics,
                        sg_confidence = sq_confidence metrics, sg_reasoning = sq_reasoning metrics,
                        sg_copySuggestion = buildCopySuggestion suggestion\<rparr>)))))"

definition ai_disabled :: "string \<Rightarrow> ai_state \<Rightarrow> bool" where
  "ai_disabled organizationId s =
     (case getAIConfigByOrg organizationId s of None \<Rightarrow> False | Some c \<Rightarrow> \<not> ac_aiEnabled c)"

text \<open>Errors are caught and answered with null.\<close>

definition null_on_error :: "'a option result \<Rightarrow> 'a option" where
  "null_on_error r = (case r of Inl _ \<Rightarrow> None | Inr x \<Rightarrow> x)"

definition generateAgentSuggestion :: "aug_env \<Rightarrow> string \<Rightarrow> ai_state \<Rightarrow> agent_suggestion option" where
  "generateAgentSuggestion env ticketId s =
     (case getAugmentationTicketWithComments env ticketId (ai_gateway s) of
        None \<Rightarrow> None
      | Some t \<Rightarrow>
          if ai_disabled (t_organizationId t) s then None
          else null_on_error (generateAgentSuggestionFromTicket env (Some t)))"

subsection \<open>Summary\<close>

definition extractKeyInformation :: "aug_ticket \<Rightarrow> comment list \<Rightarrow> string list \<times> string list \<times> string list" where
  "extractKeyInformation t cs =
     (let errors = List.map (\<lambda>c. ''Error mentioned: '' @ take 50 (c_message c))
            (List.filter (\<lambda>c. js_includes (toLowerCase (c_message c)) ''error'') cs);
          keyPoints = [''Priority: '' @ priority_name (t_priority t), ''Status: '' @ status_name (t_status t)] @ errors;
          attemptedSolutions = List.map c_message
            (List.filter (\<lambda>c. js_includes (toLowerCase (c_message c)) ''tried'') cs);
          nextSteps = (case t_status t of
             OPEN \<Rightarrow> [''Acknowledge customer, confirm understanding'', ''Gather additional information if needed'',
               ''Provide initial troubleshooting steps or timeline'']
           | IN_PROGRESS \<Rightarrow> [''Follow up on previous troubleshooting steps'',
               ''Escalate to higher tier support if customer reports no resolution'']
           | _ \<Rightarrow> [])
      in (keyPoints, attemptedSolutions, nextSteps))"

text \<open>\<open>aiSummary?.substring\<close> of an object is undefined, and calling it throws a TypeError.\<close>

definition generateIssueSummary :: "aug_ticket \<Rightarrow> suggestion_value option \<Rightarrow> string result" where
  "generateIssueSummary t aiSummary =
     (let described = (case t_description t of None \<Rightarrow> ''undefined'' | Some d \<Rightarrow> take 100 d)
      in case aiSummary of
           None \<Rightarrow> Inr (t_title t @ ''. '' @ described)
         | Some (TextValue x) \<Rightarrow> Inr (t_title t @ ''. '' @ (if take 100 x = [] then described else take 100 x))
         | Some (ResultObject _ _) \<Rightarrow> Inl (JsTypeError ''aiSummary?.substring is not a function''))"

definition name_or :: "string \<Rightarrow> user option \<Rightarrow> string" where
  "name_or fallback u = (case u of None \<Rightarrow> fallback
     | Some v \<Rightarrow> if truthy (u_name v) then the (u_name v) else fallback)"

definition generateTimeline :: "aug_ticket \<Rightarrow> (time \<times> string \<times> string) list" where
  "generateTimeline t =
     (t_createdAt t, ''Ticket created'', name_or ''customer'' (at_createdBy t)) #
     (if truthy (t_assignedToId t) then [(at_updatedAt t, ''Assigned to'', name_or ''agent'' (at_assignedTo t))] else [])"

definition positive_words :: "string list" where
  "positive_words = [''thanks'', ''great'', ''good'', ''perfect'', ''solved'', ''working'', ''fixed'']"

definition negative_words :: "string list" where
  "negative_words = [''frustrated'', ''angry'', ''still broken'', ''not working'', ''terrible'', ''waste'']"

definition keyword_hits :: "string list \<Rightarrow> comment list \<Rightarrow> nat" where
  "keyword_hits ws cs =
     sum_list (List.map (\<lambda>c. length (List.filter (js_includes (toLowerText (TextValue (c_message c)))) ws)) cs)"

definition analyzeCustomerSentiment :: "comment list \<Rightarrow> string" where
  "analyzeCustomerSentiment cs =
     (let userComments = List.filter (\<lambda>c. c_authorType c = USER) cs;
          positive = keyword_hits positive_words userComments;
          negative = keyword_hits negative_words userComments
      in if userComments = [] then ''neutral''
         else if negative > positive then ''negative''
         else if positive > negative then ''positive'' else ''neutral'')"

text \<open>The same text as in the agent prompt.\<close>

definition calculateTicketAge_text :: "time \<Rightarrow> time \<Rightarrow> string" where
  "calculateTicketAge_text now createdAt =
     (let age = now - createdAt; hours = age div 3600000; minutes = js_rem age 3600000 div 60000
      in if hours > 24 then show_int (hours div 24) @ '' day(s)''
         else if hours > 0 then show_int hours @ ''h '' @ show_int minutes @ ''m''
         else show_int minutes @ '' min'')"

record ticket_summary =
  su_ticketId :: string
  su_title :: string
  su_issue :: string
  su_timeline :: "(time \<times> string \<times> string) list"
  su_keyPoints :: "string list"
  su_attemptedSolutions :: "string list"
  su_nextSteps :: "string list"
  su_customerSentiment :: string
  su_priority :: priority
  su_age :: string

definition summary_of :: "aug_env \<Rightarrow> aug_ticket \<Rightarrow> suggestion_value \<Rightarrow> ticket_summary result" where
  "summary_of env t summary =
     (let cs = getTicketComments_aug t in
      case extractKeyInformation t cs of
        (keyPoints, attemptedSolutions, nextSteps) \<Rightarrow>
          (case generateIssueSummary t (Some summary) of
             Inl e \<Rightarrow> Inl e
           | Inr issue \<Rightarrow> Inr \<lparr>su_ticketId = t_id t, su_title = t_title t, su_issue = issue,
               su_timeline = generateTimeline t, su_keyPoints = keyPoints,
               su_attemptedSolutions = attemptedSolutions, su_nextSteps = nextSteps,
               su_customerSentiment = analyzeCustomerSentiment cs, su_priority = t_priority t,
               su_age = calculateTicketAge_text (aug_now env) (t_createdAt t)\<rparr>))"

definition generateTicketSummaryFromTicket :: "aug_env \<Rightarrow> aug_ticket option \<Rightarrow> ticket_summary option result" where
  "generateTicketSummaryFromTicket env ticket' =
     (case ticket' of
        None \<Rightarrow> Inr None
      | Some t \<Rightarrow>
          (case generateAISummary env (getTicketComments_aug t) of
             Inl e \<Rightarrow> Inl e
           | Inr summary \<Rightarrow> map_sum id Some (summary_of env t summary)))"

definition generateTicketSummary_aug :: "aug_env \<Rightarrow> string \<Rightarrow> ai_state \<Rightarrow> ticket_summary option" where
  "generateTicketSummary_aug env ticketId s =
     (case getAugmentationTicketWithComments env ticketId (ai_gateway s) of
        None \<Rightarrow> None
      | Some t \<Rightarrow>
          if ai_disabled (t_organizationId t) s then None
          else null_on_error (generateTicketSummaryFromTicket env (Some t)))"

subsection \<open>Suggested actions\<close>

record suggested_action =
  sa_rank :: int
  sa_actionType :: string
  sa_title :: string
  sa_description :: string
  sa_priority :: priority

text \<open>
  The relation \<open>attachments\<close> is not a column of a comment and no query includes it, so no comment
  has attachments here.
\<close>

definition comment_has_attachments :: "comment \<Rightarrow> bool" where
  "comment_has_attachments c = False"

definition generateSuggestedActionsFromTicket :: "aug_env \<Rightarrow> aug_ticket option \<Rightarrow> suggested_action list" where
  "generateSuggestedActionsFromTicket env ticket' =
     (case ticket' of
        None \<Rightarrow> []
      | Some t \<Rightarrow>
          (let cs = getTicketComments_aug t;
               commentCount = length cs;
               hasAttachments = list_ex comment_has_attachments cs;
               ticketAge = aug_now env - t_createdAt t
           in (if ticketAge > 86400000 \<and> commentCount > 3 \<and> t_status t = OPEN
               then [\<lparr>sa_rank = 1, sa_actionType = ''escalate'', sa_title = ''Consider escalation'',
                  sa_description = ''Ticket is 24+ hours old with multiple comments. May need supervisor review.'',
                  sa_priority = HIGH\<rparr>] else []) @
              (if \<not> hasAttachments \<and> t_priority t = HIGH
               then [\<lparr>sa_rank = 2, sa_actionType = ''request_attachment'', sa_title = ''Request more information'',
                  sa_description = ''High priority ticket without attachments. Ask for logs/screenshots.'',
                  sa_priority = MEDIUM\<rparr>] else []) @
              (if commentCount > 5
               then [\<lparr>sa_rank = 3, sa_actionType = ''schedule_followup'', sa_title = ''Schedule follow-up'',
                  sa_description = ''Complex issue with multiple back-and-forths. Schedule dedicated call.'',
                  sa_priority = MEDIUM\<rparr>] else []) @
              (if cs \<noteq> [] \<and> c_authorType (last cs) = USER \<and> commentCount > 2
               then [\<lparr>sa_rank = 4, sa_actionType = ''kb_search'', sa_title = ''Check knowledge base'',
                  sa_description = ''Suggested searches: common errors related to this issue.'',
                  sa_priority = LOW\<rparr>] else [])))"

definition generateSuggestedActions :: "aug_env \<Rightarrow> string \<Rightarrow> ai_state \<Rightarrow> suggested_action list" where
  "generateSuggestedActions env ticketId s =
     generateSuggestedActionsFromTicket env (getAugmentationTicket env ticketId (ai_gateway s))"

subsection \<open>Statistics of an agent\<close>

text \<open>
  The minutes between the last user comment and the first comment that is neither of a user nor
  of the AI, when the latter is later.
\<close>

definition response_minutes :: "aug_ticket \<Rightarrow> rat option" where
  "response_minutes t =
     (let cs = getTicketComments_aug t;
          userComments = List.filter (\<lambda>c. c_authorType c = USER) cs;
          agentComments = List.filter (\<lambda>c. c_authorType c \<noteq> USER \<and> c_authorType c \<noteq> AI) cs
      in if length cs > 1 \<and> userComments \<noteq> [] \<and> agentComments \<noteq> []
         then (let lastUserTime = c_createdAt (last userComments); first = c_createdAt (hd agentComments) in
               if first > lastUserTime then Some (js_div (of_int (first - lastUserTime)) 60000) else None)
         else None)"

definition calculateAvgResponseTime :: "aug_ticket list \<Rightarrow> int" where
  "calculateAvgResponseTime ts =
     (let minutes = List.map_filter response_minutes ts;
          totalTime = foldl js_add 0 minutes
      in if minutes = [] then 0 else math_round (js_div totalTime (of_nat (length minutes))))"

definition calculateAvgTicketAge :: "time \<Rightarrow> aug_ticket list \<Rightarrow> int" where
  "calculateAvgTicketAge now ts =
     (let totalTime = sum_list (List.map (\<lambda>t. now - t_createdAt t) ts) in
      if ts = [] then 0
      else math_round (js_div (js_div (of_int totalTime) (of_nat (length ts))) 3600000))"

definition generateAgentRecommendations :: "time \<Rightarrow> aug_ticket list \<Rightarrow> aug_ticket list \<Rightarrow> string list" where
  "generateAgentRecommendations now resolved active =
     (let avgTime = calculateAvgTicketAge now resolved in
      (if resolved \<noteq> [] then [''Strong resolution rate - keep up the quality work''] else []) @
      (if length active > 5 then [''High active tickets - consider reducing new assignments''] else []) @
      (if resolved \<noteq> [] then
         (if avgTime < 2 then [''Quick resolution time - excellent performance'']
          else if avgTime > 12 then [''Tickets taking longer to resolve - escalation may help''] else [])
       else []))"

record aug_stats =
  st_agentId :: string
  st_period :: string
  st_totalTicketsHandled :: nat
  st_resolved :: nat
  st_active :: nat
  st_resolutionRate :: string
  st_avgResolutionTime :: string
  st_avgRespondTime :: string
  st_ticketsWithAISuggestions :: nat
  st_suggestionsAcceptanceRate :: string
  st_timeSavedPerDay :: string
  st_estimatedHoursSaved :: string
  st_recommendations :: "string list"

definition getAgentAugmentationStats :: "aug_env \<Rightarrow> string \<Rightarrow> int option \<Rightarrow> gateway \<Rightarrow> aug_stats" where
  "getAgentAugmentationStats env agentId days s =
     (let effectiveDays = resolveDays days;
          daysAgo = aug_now env - effectiveDays * 24 * 60 * 60 * 1000;
          ts = getAugmentationAgentTickets env agentId daysAgo s;
          resolvedTickets = List.filter (\<lambda>t. t_status t = RESOLVED) ts;
          activeTickets = List.filter (\<lambda>t. t_status t \<noteq> RESOLVED) ts;
          totalHandled = length ts;
          totalResolved = length resolvedTickets;
          aiBoosted = length (List.filter (\<lambda>t. t_aiMessageCount t > 0) ts)
      in \<lparr>st_agentId = agentId, st_period = ''Last '' @ show_int effectiveDays @ '' days'',
          st_totalTicketsHandled = totalHandled, st_resolved = totalResolved, st_active = length activeTickets,
          st_resolutionRate = (if totalHandled > 0
            then toFixed 2 (js_mul (js_div (of_nat totalResolved) (of_nat totalHandled)) 100) else ''0''),
          st_avgResolutionTime = show_int (calculateAvgTicketAge (aug_now env) ts) @ '' hours'',
          st_avgRespondTime = show_int (calculateAvgResponseTime ts) @ '' min'',
          st_ticketsWithAISuggestions = aiBoosted,
          st_suggestionsAcceptanceRate =
            toFixed 2 (js_mul (js_div (of_nat aiBoosted) (of_nat (max 1 totalHandled))) 100) @ ''%'',
          st_timeSavedPerDay = show_int (math_round (js_div (of_nat (aiBoosted * 15)) (of_int effectiveDays))) @ '' min'',
          st_estimatedHoursSaved = toFixed 2 (js_div (of_nat aiBoosted / 4) (of_int effectiveDays)),
          st_recommendations = generateAgentRecommendations (aug_now env) resolvedTickets activeTickets\<rparr>)"

subsection \<open>Quick assist\<close>

record quick_assist =
  qa_ticketId :: string
  qa_suggestion :: "agent_suggestion option"
  qa_summary :: "ticket_summary option"
  qa_actions :: "suggested_action list"
  qa_timestamp :: string

text \<open>\<open>Promise.all\<close> rejects with the failure that comes first.\<close>

definition generateQuickAssist :: "aug_env \<Rightarrow> string \<Rightarrow> ai_state \<Rightarrow> quick_assist option result" where
  "generateQuickAssist env ticketId s =
     (case getAugmentationTicketWithComments env ticketId (ai_gateway s) of
        None \<Rightarrow> Inr None
      | Some t \<Rightarrow>
          (case ge_aborted env of
             Some reason \<Rightarrow> Inl (RequestAbortedError reason)
           | None \<Rightarrow>
               (case (generateAgentSuggestionFromTicket env (Some t), generateTicketSummaryFromTicket env (Some t)) of
                  (Inl e, Inl e') \<Rightarrow> Inl (if ge_suggestionFirst env then e else e')
                | (Inl e, Inr _) \<Rightarrow> Inl e
                | (Inr _, Inl e') \<Rightarrow> Inl e'
                | (Inr suggestion, Inr summary) \<Rightarrow>
                    Inr (Some \<lparr>qa_ticketId = ticketId, qa_suggestion = suggestion, qa_summary = summary,
                      qa_actions = generateSuggestedActionsFromTicket env (Some t),
                      qa_timestamp = ge_isoText env (aug_now env)\<rparr>))))"

subsection \<open>Requests (ai.augmentation.controller.js, ai.augmentation.validator.js)\<close>

text \<open>
  A query parameter \<open>days\<close> is absent or the Number its text converts to (\<open>None\<close>: NaN). The routes
  have no guards: a request carries no user. A refused schema is a zod error.
\<close>

datatype days_param = NoDays | Days "rat option"

datatype augment_request =
    PostSuggestion string
  | GetSummary string
  | GetActions string
  | GetAgentStats string days_param
  | PostQuickAssist string
  | GetTeamStats string days_param

datatype augment_response =
    SuggestionData agent_suggestion
  | SummaryData ticket_summary
  | ActionsData string "suggested_action list" nat
  | AugStatsData aug_stats
  | AssistData quick_assist
  | TeamStatsData string string string

definition zod_error :: js_error where
  "zod_error = JsError ''ZodError''"

definition parse_id :: "string \<Rightarrow> string result" where
  "parse_id x = (if x = [] then Inl zod_error else Inr x)"

definition statsQuerySchema :: "days_param \<Rightarrow> int option result" where
  "statsQuerySchema p =
     (case p of
        NoDays \<Rightarrow> Inr None
      | Days None \<Rightarrow> Inl zod_error
      | Days (Some x) \<Rightarrow>
          if of_int \<lfloor>x\<rfloor> = x \<and> 1 \<le> x \<and> x \<le> 365 then Inr (Some \<lfloor>x\<rfloor>) else Inl zod_error)"

definition mapSuggestionResponse :: "agent_suggestion \<Rightarrow> agent_suggestion" where
  "mapSuggestionResponse x = \<lparr>sg_ticketId = sg_ticketId x, sg_suggestion = sg_suggestion x, sg_quality = sg_quality x,
     sg_confidence = sg_confidence x, sg_reasoning = sg_reasoning x, sg_copySuggestion = sg_copySuggestion x\<rparr>"

definition buildTeamStatsPlaceholder :: "string \<Rightarrow> int \<Rightarrow> string \<times> string \<times> string" where
  "buildTeamStatsPlaceholder organizationId days = (organizationId, ''Last '' @ show_int days @ '' days'',
     ''Team stats aggregation - configure agent list first'')"

definition post_suggestion :: "aug_env \<Rightarrow> string \<Rightarrow> ai_state \<Rightarrow> augment_response outcome" where
  "post_suggestion env ticketId s =
     (case parse_id ticketId of
        Inl e \<Rightarrow> Failed e
      | Inr ticketId \<Rightarrow>
          (case generateAgentSuggestion env ticketId s of
             None \<Rightarrow> Failed (ApiError 422 ''Could not generate suggestion'' ''SUGGESTION_GENERATION_FAILED'')
           | Some x \<Rightarrow> Responded 200 (SuggestionData (mapSuggestionResponse x))))"

definition get_summary :: "aug_env \<Rightarrow> string \<Rightarrow> ai_state \<Rightarrow> augment_response outcome" where
  "get_summary env ticketId s =
     (case parse_id ticketId of
        Inl e \<Rightarrow> Failed e
      | Inr ticketId \<Rightarrow>
          (case generateTicketSummary_aug env ticketId s of
             None \<Rightarrow> Failed (ApiError 404 ''Ticket not found'' ''TICKET_NOT_FOUND'')
           | Some x \<Rightarrow> Responded 200 (SummaryData x)))"

definition get_actions :: "aug_env \<Rightarrow> string \<Rightarrow> ai_state \<Rightarrow> augment_response outcome" where
  "get_actions env ticketId s =
     (case parse_id ticketId of
        Inl e \<Rightarrow> Failed e
      | Inr ticketId \<Rightarrow>
          (let actions = generateSuggestedActions env ticketId s
           in Responded 200 (ActionsData ticketId actions (length actions))))"

definition get_agent_stats :: "aug_env \<Rightarrow> string \<Rightarrow> days_param \<Rightarrow> ai_state \<Rightarrow> augment_response outcome" where
  "get_agent_stats env agentId query s =
     (case parse_id agentId of
        Inl e \<Rightarrow> Failed e
      | Inr agentId \<Rightarrow>
          (case statsQuerySchema query of
             Inl e \<Rightarrow> Failed e
           | Inr days \<Rightarrow>
               Responded 200 (AugStatsData (getAgentAugmentationStats env agentId (Some (resolveDays days)) (ai_gateway s)))))"

definition post_quick_assist :: "aug_env \<Rightarrow> string \<Rightarrow> ai_state \<Rightarrow> augment_response outcome" where
  "post_quick_assist env ticketId s =
     (case parse_id ticketId of
        Inl e \<Rightarrow> Failed e
      | Inr ticketId \<Rightarrow>
          (case generateQuickAssist env ticketId s of
             Inl e \<Rightarrow> Failed e
           | Inr None \<Rightarrow> Failed (ApiError 404 ''Ticket not found'' ''TICKET_NOT_FOUND'')
           | Inr (Some x) \<Rightarrow> Responded 200 (AssistData x)))"

definition get_team_stats :: "string \<Rightarrow> days_param \<Rightarrow> augment_response outcome" where
  "get_team_stats organizationId query =
     (case parse_id organizationId of
        Inl e \<Rightarrow> Failed e
      | Inr organizationId \<Rightarrow>
          (case statsQuerySchema query of
             Inl e \<Rightarrow> Failed e
           | Inr days \<Rightarrow>
               (case buildTeamStatsPlaceholder organizationId (resolveDays days) of
                  (o', period, message) \<Rightarrow> Responded 200 (TeamStatsData o' period message))))"

fun augment_router :: "aug_env \<Rightarrow> augment_request \<Rightarrow> ai_state \<Rightarrow> augment_response outcome" where
  "augment_router env (PostSuggestion ticketId) s = post_suggestion env ticketId s"
| "augment_router env (GetSummary ticketId) s = get_summary env ticketId s"
| "augment_router env (GetActions ticketId) s = get_actions env ticketId s"
| "augment_router env (GetAgentStats agentId query) s = get_agent_stats env agentId query s"
| "augment_router env (PostQuickAssist ticketId) s = post_quick_assist env ticketId s"
| "augment_router env (GetTeamStats organizationId query) s = get_team_stats organizationId query"

end
