(* ===== verification/Auth_Service.thy ===== *)
theory Auth_Service
  imports Auth_Repo
begin

section \<open>Authentication service and middleware\<close>

text \<open>
  modules/auth/auth.service.js, auth.utils.js, auth.validator.js and
  middleware/auth.middleware.js. Password hashing (bcrypt), the signing and verification of
  tokens (jsonwebtoken) and the email test of zod are functions of the host: they are fields of
  the record \<open>auth_env\<close>, with the configured lifetimes, the clock and the random values a
  request draws.
\<close>

subsection \<open>Tokens\<close>

text \<open>The claims the gateway signs, and the claims of a verified token (\<open>exp\<close> is the host's).\<close>

record token_claims =
  tc_sub :: string
  tc_type :: string
  tc_jti :: "string option"
  tc_iat :: int
  tc_orgPermissions :: permission_snapshot

record decoded_token = token_claims +
  dt_exp :: "int option"

record auth_env =
  ae_hash :: "string \<Rightarrow> string"
  ae_compare :: "string \<Rightarrow> string \<Rightarrow> bool"
  ae_sign :: "token_claims \<Rightarrow> string \<Rightarrow> string"
  ae_verify :: "string \<Rightarrow> time \<Rightarrow> decoded_token option"
  ae_isEmail :: "string \<Rightarrow> bool"
  ae_accessExpiresIn :: string
  ae_refreshExpiresIn :: string
  ae_now :: time
  ae_jti :: string
  ae_refreshToken :: string
  ae_newId :: string

subsection \<open>Helpers (auth.utils.js)\<close>

definition access_claims :: "auth_env \<Rightarrow> string \<Rightarrow> permission_snapshot \<Rightarrow> token_claims" where
  "access_claims env userId orgPermissions =
     \<lparr>tc_sub = userId, tc_type = ''access'', tc_jti = Some (ae_jti env),
      tc_iat = ae_now env div 1000, tc_orgPermissions = orgPermissions\<rparr>"

definition generateAccessToken :: "auth_env \<Rightarrow> string \<Rightarrow> permission_snapshot \<Rightarrow> string" where
  "generateAccessToken env userId orgPermissions =
     ae_sign env (access_claims env userId orgPermissions) (ae_accessExpiresIn env)"

definition verifyAccessToken :: "auth_env \<Rightarrow> string \<Rightarrow> decoded_token result" where
  "verifyAccessToken env token =
     (case ae_verify env token (ae_now env) of
        None \<Rightarrow> Inl (ApiError 401 ''Invalid or expired token'' ''TOKEN_INVALID'')
      | Some decoded \<Rightarrow>
          if tc_type decoded \<noteq> ''access''
          then Inl (ApiError 401 ''Invalid token type'' ''TOKEN_TYPE_INVALID'')
          else Inr decoded)"

text \<open>The multiplier of a unit; the regular expression is \<open>^(\d+)([smhd])$\<close>.\<close>

definition duration_unit :: "char \<Rightarrow> int option" where
  "duration_unit c =
     (if c = CHR ''s'' then Some 1000 else if c = CHR ''m'' then Some 60000
      else if c = CHR ''h'' then Some 3600000 else if c = CHR ''d'' then Some 86400000 else None)"

definition parseDuration :: "string \<Rightarrow> int" where
  "parseDuration duration =
     (case (if duration = [] then None else Some (parse_digits (butlast duration), duration_unit (last duration))) of
        Some (Some value, Some multiplier) \<Rightarrow> value * multiplier
      | _ \<Rightarrow> 7 * 24 * 60 * 60 * 1000)"

definition extractBearerToken :: "string option \<Rightarrow> string option" where
  "extractBearerToken authHeader =
     (case authHeader of
        None \<Rightarrow> None
      | Some h \<Rightarrow>
          if \<not> prefix ''Bearer '' h then None
          else let token = drop 7 h in if token = [] then None else Some token)"

subsection \<open>Schemas (auth.validator.js)\<close>

definition char_between :: "char \<Rightarrow> char \<Rightarrow> char \<Rightarrow> bool" where
  "char_between lo hi c = ((of_char lo :: nat) \<le> of_char c \<and> (of_char c :: nat) \<le> of_char hi)"

definition passwordField :: "string \<Rightarrow> bool" where
  "passwordField p =
     (8 \<le> length p \<and> length p \<le> 100 \<and>
      list_ex (char_between (CHR ''A'') (CHR ''Z'')) p \<and>
      list_ex (char_between (CHR ''a'') (CHR ''z'')) p \<and>
      list_ex (char_between (CHR ''0'') (CHR ''9'')) p \<and>
      list_ex (\<lambda>c. \<not> char_between (CHR ''A'') (CHR ''Z'') c \<and> \<not> char_between (CHR ''a'') (CHR ''z'') c \<and>
        \<not> char_between (CHR ''0'') (CHR ''9'') c) p)"

definition emailField :: "auth_env \<Rightarrow> string \<Rightarrow> string option" where
  "emailField env e = (if ae_isEmail env e then Some (js_trim (toLowerCase e)) else None)"

text \<open>The parsed body: email, password, name.\<close>

definition registerSchema ::
    "auth_env \<Rightarrow> string \<Rightarrow> string \<Rightarrow> string option \<Rightarrow> string \<Rightarrow> (string \<times> string \<times> string) option" where
  "registerSchema env email password confirmPassword name =
     (case emailField env email of
        None \<Rightarrow> None
      | Some e \<Rightarrow>
          let n = js_trim name in
          if passwordField password \<and> 1 \<le> length n \<and> length n \<le> 100 \<and>
             (\<not> truthy confirmPassword \<or> confirmPassword = Some password)
          then Some (e, password, n) else None)"

definition loginSchema :: "auth_env \<Rightarrow> string \<Rightarrow> string \<Rightarrow> (string \<times> string) option" where
  "loginSchema env email password =
     (case emailField env email of
        None \<Rightarrow> None
      | Some e \<Rightarrow> if 1 \<le> length password then Some (e, password) else None)"

definition refreshSchema :: "string \<Rightarrow> bool" where
  "refreshSchema refreshToken = (1 \<le> length refreshToken)"

subsection \<open>Service (auth.service.js)\<close>

text \<open>What the service returns: the user without the password, and the tokens.\<close>

record session =
  ss_user :: public_user
  ss_accessToken :: string
  ss_refreshToken :: string
  ss_expiresIn :: string

definition sanitizeUser :: "user \<Rightarrow> public_user" where
  "sanitizeUser u = stripPassword u"

definition issueTokens :: "auth_env \<Rightarrow> string \<Rightarrow> gateway \<Rightarrow> (string \<times> string) result \<times> gateway" where
  "issueTokens env userId s =
     (case getUserPermissionSnapshot userId s of
        (orgPermissions, s1) \<Rightarrow>
          let accessToken = generateAccessToken env userId orgPermissions in
          (case createRefreshToken (ae_refreshToken env) userId
                  (ae_now env + parseDuration (ae_refreshExpiresIn env)) s1 of
             (Inl e, s2) \<Rightarrow> throw e s2
           | (Inr _, s2) \<Rightarrow> return (accessToken, ae_refreshToken env) s2))"

definition registerUser ::
    "auth_env \<Rightarrow> string \<Rightarrow> string \<Rightarrow> string option \<Rightarrow> gateway \<Rightarrow> session result \<times> gateway" where
  "registerUser env email password name s =
     (case findUserByEmail email s of
        (Some _, s1) \<Rightarrow> throw (ApiError 409 ''User already exists'' ''USER_EXISTS'') s1
      | (None, s1) \<Rightarrow>
          let hashedPassword = ae_hash env password in
          if hashedPassword = [] then throw (ApiError 500 ''Failed to hash password'' ''HASH_FAILED'') s1
          else
            (case createUserWithRefreshToken
                    \<lparr>ud_email = email, ud_password = hashedPassword, ud_name = name\<rparr> (ae_refreshToken env)
                    (ae_now env + parseDuration (ae_refreshExpiresIn env)) (ae_now env) (ae_newId env) s1 of
               (Inl e, s2) \<Rightarrow> throw e s2
             | (Inr newUser, s2) \<Rightarrow>
                 if u_id newUser = []
                 then throw (ApiError 500 ''Failed to create user'' ''USER_CREATION_FAILED'') s2
                 else return \<lparr>ss_user = sanitizeUser newUser,
                        ss_accessToken = generateAccessToken env (u_id newUser) [],
                        ss_refreshToken = ae_refreshToken env, ss_expiresIn = ae_accessExpiresIn env\<rparr> s2))"

definition invalid_credentials :: js_error where
  "invalid_credentials = ApiError 401 ''Invalid credentials'' ''INVALID_CREDENTIALS''"

definition loginUser :: "auth_env \<Rightarrow> string \<Rightarrow> string \<Rightarrow> gateway \<Rightarrow> session result \<times> gateway" where
  "loginUser env email password s =
     (case findUserByEmail email s of
        (None, s1) \<Rightarrow> throw invalid_credentials s1
      | (Some user, s1) \<Rightarrow>
          if u_password user = [] then throw invalid_credentials s1
          else if \<not> ae_compare env password (u_password user) then throw invalid_credentials s1
          else
            (case issueTokens env (u_id user) s1 of
               (Inl e, s2) \<Rightarrow> throw e s2
             | (Inr (accessToken, refreshToken), s2) \<Rightarrow>
                 return \<lparr>ss_user = sanitizeUser user, ss_accessToken = accessToken,
                   ss_refreshToken = refreshToken, ss_expiresIn = ae_accessExpiresIn env\<rparr> s2))"

definition refreshAccessToken :: "auth_env \<Rightarrow> string \<Rightarrow> gateway \<Rightarrow> session result \<times> gateway" where
  "refreshAccessToken env refreshToken s =
     (case findRefreshToken refreshToken s of
        None \<Rightarrow> throw (ApiError 401 ''Invalid refresh token'' ''REFRESH_TOKEN_INVALID'') s
      | Some stored \<Rightarrow>
          if ae_now env > rt_expiresAt stored
          then (case deleteRefreshToken refreshToken s of
                  (Inl e, s1) \<Rightarrow> throw e s1
                | (Inr _, s1) \<Rightarrow> throw (ApiError 401 ''Refresh token expired'' ''REFRESH_TOKEN_EXPIRED'') s1)
          else
            (case findUserById (rt_userId stored) s of
               (None, s1) \<Rightarrow>
                 (case deleteRefreshToken refreshToken s1 of
                    (Inl e, s2) \<Rightarrow> throw e s2
                  | (Inr _, s2) \<Rightarrow> throw (ApiError 401 ''User not found'' ''USER_NOT_FOUND'') s2)
             | (Some user, s1) \<Rightarrow>
                 (case deleteRefreshToken refreshToken s1 of
                    (Inl e, s2) \<Rightarrow> throw e s2
                  | (Inr _, s2) \<Rightarrow>
                      (case issueTokens env (pu_id user) s2 of
                         (Inl e, s3) \<Rightarrow> throw e s3
                       | (Inr (accessToken, newRefreshToken), s3) \<Rightarrow>
                           return \<lparr>ss_user = user, ss_accessToken = accessToken,
                             ss_refreshToken = newRefreshToken, ss_expiresIn = ae_accessExpiresIn env\<rparr> s3))))"

text \<open>
  An error of the blacklisting is swallowed by the \<open>catch\<close>, as is a missing refresh token.
\<close>

definition blacklist_access_token :: "auth_env \<Rightarrow> string option \<Rightarrow> gateway \<Rightarrow> gateway" where
  "blacklist_access_token env accessToken s =
     (case accessToken of
        None \<Rightarrow> s
      | Some t \<Rightarrow>
          if t = [] then s
          else case verifyAccessToken env t of
            Inl _ \<Rightarrow> s
          | Inr decoded \<Rightarrow>
              (case (tc_jti decoded, dt_exp decoded) of
                 (Some jti, Some exp) \<Rightarrow>
                   if jti \<noteq> [] \<and> exp \<noteq> 0 then snd (blacklistToken jti (exp * 1000) s) else s
               | _ \<Rightarrow> s))"

definition logoutUser :: "auth_env \<Rightarrow> string option \<Rightarrow> string option \<Rightarrow> gateway \<Rightarrow> unit result \<times> gateway" where
  "logoutUser env accessToken refreshToken s =
     (let s1 = blacklist_access_token env accessToken s in
      if \<not> truthy refreshToken then return () s1
      else case deleteRefreshToken (the refreshToken) s1 of
        (Inr _, s2) \<Rightarrow> return () s2
      | (Inl e, s2) \<Rightarrow> if e = PrismaError ''P2025'' then return () s2 else throw e s2)"

definition logoutAllDevices :: "auth_env \<Rightarrow> string \<Rightarrow> gateway \<Rightarrow> unit result \<times> gateway" where
  "logoutAllDevices env userId s =
     (case updateUserTokenIssuedAt userId (ae_now env) s of
        (Inl e, s1) \<Rightarrow> throw e s1
      | (Inr _, s1) \<Rightarrow>
          (case deleteUserRefreshTokens userId s1 of
             (Inl e, s2) \<Rightarrow> throw e s2
           | (Inr _, s2) \<Rightarrow> return () s2))"

subsection \<open>Middleware (auth.middleware.js)\<close>

text \<open>
  \<open>user.tokenIssuedAt.getTime()\<close> exists on a Date object only: a user read back from Redis has
  an ISO string there. \<open>None\<close> is "no check" (the field is null).
\<close>

definition issued_before :: "int \<Rightarrow> js_date option \<Rightarrow> bool result" where
  "issued_before iat tokenIssuedAt =
     (case tokenIssuedAt of
        None \<Rightarrow> Inr False
      | Some (DateObject t) \<Rightarrow> Inr (iat < t div 1000)
      | Some (IsoString _) \<Rightarrow> Inl (JsTypeError ''user.tokenIssuedAt.getTime is not a function''))"

definition authenticate ::
    "auth_env \<Rightarrow> string option \<Rightarrow> gateway \<Rightarrow> (decoded_token \<times> public_user) result \<times> gateway" where
  "authenticate env authHeader s =
     (case extractBearerToken authHeader of
        None \<Rightarrow> throw (ApiError 401 ''Authentication token is required'' ''TOKEN_MISSING'') s
      | Some token \<Rightarrow>
          (case verifyAccessToken env token of
             Inl e \<Rightarrow> throw e s
           | Inr decoded \<Rightarrow>
               (case (if truthy (tc_jti decoded) then isTokenBlacklisted (the (tc_jti decoded)) s else (False, s)) of
                  (True, s1) \<Rightarrow> throw (ApiError 401 ''Token has been revoked'' ''TOKEN_REVOKED'') s1
                | (False, s1) \<Rightarrow>
                    (case findUserById (tc_sub decoded) s1 of
                       (None, s2) \<Rightarrow> throw (ApiError 401 ''Invalid authentication token'' ''TOKEN_INVALID'') s2
                     | (Some user, s2) \<Rightarrow>
                         (case issued_before (tc_iat decoded) (pu_tokenIssuedAt user) of
                            Inl e \<Rightarrow> throw e s2
                          | Inr True \<Rightarrow> throw (ApiError 401 ''Token has been revoked'' ''TOKEN_REVOKED'') s2
                          | Inr False \<Rightarrow> return (decoded, user) s2)))))"

end
