(* ===== verification/Auth_Correct.thy ===== *)
theory Auth_Correct
  imports Auth_Service Example_State
begin

section \<open>Correctness of authentication\<close>

text \<open>
  Login, rotation of refresh tokens, revocation, and what the cached user does to the check of
  revoked tokens.
\<close>

subsection \<open>Steps of the handlers\<close>

lemma findUserByEmail_eq:
  "findUserByEmail email s =
     (case find_unique (\<lambda>u. u_email u = email \<and> \<not> u_isDeleted u) (users s) of
        None \<Rightarrow> (None, s) | Some u \<Rightarrow> (Some u, cacheUser (stripPassword u) s))"
  if "distinct (List.map u_email (users s))" for s
proof -
  have "find_unique (\<lambda>u. u_email u = email \<and> \<not> u_isDeleted u) us =
      (case find_unique (\<lambda>u. u_email u = email) us of None \<Rightarrow> None | Some u \<Rightarrow> if u_isDeleted u then None else Some u)"
    if "distinct (List.map u_email us)" for us
    using that by (induction us) (auto simp: find_unique_None_iff dest!: find_unique_SomeD split: option.split)
  from this [OF that] show ?thesis by (auto simp: findUserByEmail_def split: option.split)
qed

lemma cacheUser_fields [simp]:
  "users (cacheUser u s) = users s" "refreshTokens (cacheUser u s) = refreshTokens s"
  "tokenBlacklist (cacheUser u s) = tokenBlacklist s" "memberships (cacheUser u s) = memberships s"
  "roles (cacheUser u s) = roles s" "redisUp (cacheUser u s) = redisUp s"
  "blacklistCache (cacheUser u s) = blacklistCache s" "scopeCache (cacheUser u s) = scopeCache s"
  by (simp_all add: cacheUser_def)

lemma snapshot_fields [simp]:
  "users (snd (getUserPermissionSnapshot u s)) = users s"
  "refreshTokens (snd (getUserPermissionSnapshot u s)) = refreshTokens s"
  "tokenBlacklist (snd (getUserPermissionSnapshot u s)) = tokenBlacklist s"
  "redisUp (snd (getUserPermissionSnapshot u s)) = redisUp s"
  "userCache (snd (getUserPermissionSnapshot u s)) = userCache s"
  "blacklistCache (snd (getUserPermissionSnapshot u s)) = blacklistCache s"
  by (simp_all add: getUserPermissionSnapshot_def Let_def split: option.split)

lemma snapshot_cacheUser: "fst (getUserPermissionSnapshot u (cacheUser v s)) = fst (getUserPermissionSnapshot u s)"
  by (simp add: getUserPermissionSnapshot_def Let_def db_permission_snapshot_def scope_entry_def membership_scope_def
      split: option.split)

lemma issueTokens_InrD:
  assumes "issueTokens env uid s = (Inr (acc, rt), s')"
  shows "acc = generateAccessToken env uid (fst (getUserPermissionSnapshot uid s))" "rt = ae_refreshToken env"
    "refreshTokens s' = refreshTokens s @ [\<lparr>rt_token = ae_refreshToken env, rt_userId = uid,
       rt_expiresAt = ae_now env + parseDuration (ae_refreshExpiresIn env)\<rparr>]"
    "users s' = users s" "redisUp s' = redisUp s" "userCache s' = userCache s" "tokenBlacklist s' = tokenBlacklist s"
    "blacklistCache s' = blacklistCache s" "ae_refreshToken env \<notin> rt_token ` set (refreshTokens s)"
proof -
  obtain ps s1 where g: "getUserPermissionSnapshot uid s = (ps, s1)" by fastforce
  have f: "users s1 = users s" "refreshTokens s1 = refreshTokens s" "tokenBlacklist s1 = tokenBlacklist s"
    "redisUp s1 = redisUp s" "userCache s1 = userCache s" "blacklistCache s1 = blacklistCache s"
    using snapshot_fields [of uid s] g by simp_all
  show "acc = generateAccessToken env uid (fst (getUserPermissionSnapshot uid s))" "rt = ae_refreshToken env"
    "refreshTokens s' = refreshTokens s @ [\<lparr>rt_token = ae_refreshToken env, rt_userId = uid,
       rt_expiresAt = ae_now env + parseDuration (ae_refreshExpiresIn env)\<rparr>]"
    "users s' = users s" "redisUp s' = redisUp s" "userCache s' = userCache s" "tokenBlacklist s' = tokenBlacklist s"
    "blacklistCache s' = blacklistCache s" "ae_refreshToken env \<notin> rt_token ` set (refreshTokens s)"
    using assms by (auto simp: issueTokens_def createRefreshToken_def Let_def g f split: sum.splits if_splits)
qed

lemma getCachedUser_cached: "redisUp s \<Longrightarrow> getCachedUser (pu_id u) (cacheUser u s) = Some (json_user u)"
  by (simp add: getCachedUser_def cacheUser_def)

subsection \<open>Rotation of refresh tokens\<close>

text \<open>
  C18. Rotation. A successful refresh consumed a stored token that had not expired and belongs
  to the user it answers for; afterwards that token is gone, so that presenting it again is
  refused, and the new token is stored for the same user with the configured lifetime. The other
  tokens stay as they were.
\<close>

theorem refreshAccessToken_rotates:
  assumes "refreshAccessToken env tok s = (Inr ss, s')" "ae_refreshToken env \<noteq> tok"
  shows "(\<exists>stored. findRefreshToken tok s = Some stored \<and> ae_now env \<le> rt_expiresAt stored \<and>
      refreshTokens s' = delete_rows (\<lambda>r. rt_token r = tok) (refreshTokens s) @
        [\<lparr>rt_token = ss_refreshToken ss, rt_userId = pu_id (ss_user ss),
          rt_expiresAt = ae_now env + parseDuration (ae_refreshExpiresIn env)\<rparr>] \<and>
      fst (findUserById (rt_userId stored) s) = Some (ss_user ss)) \<and>
    (\<forall>env'. fst (refreshAccessToken env' tok s') = Inl (ApiError 401 ''Invalid refresh token'' ''REFRESH_TOKEN_INVALID''))"
proof -
  obtain stored user s1 s2 acc rt where st: "findRefreshToken tok s = Some stored" "\<not> ae_now env > rt_expiresAt stored"
    and u: "findUserById (rt_userId stored) s = (Some user, s1)"
    and d: "s2 = s1\<lparr>refreshTokens := delete_rows (\<lambda>r. rt_token r = tok) (refreshTokens s1)\<rparr>"
    and i: "issueTokens env (pu_id user) s2 = (Inr (acc, rt), s')"
    and ss: "ss = \<lparr>ss_user = user, ss_accessToken = acc, ss_refreshToken = rt, ss_expiresIn = ae_accessExpiresIn env\<rparr>"
    using assms(1)
    by (auto simp: refreshAccessToken_def deleteRefreshToken_def split: option.splits if_splits prod.splits sum.splits)
  have "refreshTokens s1 = refreshTokens s" using u
    by (auto simp: findUserById_def split: option.splits if_splits)
  then have r: "refreshTokens s' = delete_rows (\<lambda>r. rt_token r = tok) (refreshTokens s) @
        [\<lparr>rt_token = ss_refreshToken ss, rt_userId = pu_id (ss_user ss),
          rt_expiresAt = ae_now env + parseDuration (ae_refreshExpiresIn env)\<rparr>]"
    using issueTokens_InrD(2,3) [OF i] d ss by simp
  then have c1: "\<exists>stored. findRefreshToken tok s = Some stored \<and> ae_now env \<le> rt_expiresAt stored \<and>
      refreshTokens s' = delete_rows (\<lambda>r. rt_token r = tok) (refreshTokens s) @
        [\<lparr>rt_token = ss_refreshToken ss, rt_userId = pu_id (ss_user ss),
          rt_expiresAt = ae_now env + parseDuration (ae_refreshExpiresIn env)\<rparr>] \<and>
      fst (findUserById (rt_userId stored) s) = Some (ss_user ss)"
    using st u ss by auto
  have "findRefreshToken tok s' = None"
    using assms(2) issueTokens_InrD(2) [OF i] ss by (simp add: findRefreshToken_def find_unique_None_iff r)
  then have c2: "\<forall>env'. fst (refreshAccessToken env' tok s') =
      Inl (ApiError 401 ''Invalid refresh token'' ''REFRESH_TOKEN_INVALID'')"
    by (simp add: refreshAccessToken_def)
  show ?thesis by (rule conjI [OF c1 c2])
qed

definition example_auth_env :: auth_env where
  "example_auth_env = \<lparr>ae_hash = (\<lambda>p. ''h'' @ p), ae_compare = (\<lambda>p h. h = ''h'' @ p), ae_sign = (\<lambda>c e. tc_sub c),
     ae_verify = (\<lambda>t now. Some \<lparr>tc_sub = t, tc_type = ''access'', tc_jti = Some ''j1'', tc_iat = 5,
        tc_orgPermissions = [], dt_exp = Some 900\<rparr>),
     ae_isEmail = (\<lambda>_. True), ae_accessExpiresIn = ''15m'', ae_refreshExpiresIn = ''7d'', ae_now = 5000,
     ae_jti = ''j1'', ae_refreshToken = ''new'', ae_newId = ''u9''\<rparr>"

definition example_tokens :: gateway where
  "example_tokens = example_gateway\<lparr>refreshTokens := [\<lparr>rt_token = ''old'', rt_userId = ''agt'', rt_expiresAt = 6000\<rparr>]\<rparr>"

theorem refreshAccessToken_rotates_witness:
  "fst (refreshAccessToken example_auth_env ''old'' (snd (refreshAccessToken example_auth_env ''old'' example_tokens))) =
     Inl (ApiError 401 ''Invalid refresh token'' ''REFRESH_TOKEN_INVALID'')"
proof -
  let ?r = "refreshAccessToken example_auth_env ''old'' example_tokens"
  have run: "?r = (Inr (projr (fst ?r)), snd ?r)" by (rule run_ok) code_simp
  have "ae_refreshToken example_auth_env \<noteq> ''old''" by (simp add: example_auth_env_def)
  from refreshAccessToken_rotates [OF run this] show ?thesis by blast
qed

subsection \<open>Revocation\<close>

lemma isTokenBlacklisted_entry:
  "jti \<in> fst ` set (tokenBlacklist s) \<Longrightarrow> fst (isTokenBlacklisted jti s)"
  by (auto simp: isTokenBlacklisted_def find_unique_None_iff split: option.split)

lemma isTokenBlacklisted_not:
  assumes "jti \<notin> fst ` set (tokenBlacklist s)" "\<not> blacklistCache s (blacklistKey jti)"
  shows "\<not> fst (isTokenBlacklisted jti s)"
proof -
  have "find_unique (\<lambda>e. fst e = jti) (tokenBlacklist s) = None"
    using assms(1) by (auto simp: find_unique_None_iff)
  then show ?thesis using assms(2) by (simp add: isTokenBlacklisted_def)
qed

lemma blacklistToken_entry: "jti \<in> fst ` set (tokenBlacklist (snd (blacklistToken jti x s)))"
  by (auto simp: blacklistToken_def Let_def)

lemma blacklistToken_entry_fresh:
  "jti \<notin> fst ` set (tokenBlacklist s) \<Longrightarrow> (jti, x) \<in> set (tokenBlacklist (snd (blacklistToken jti x s)))"
  by (auto simp: blacklistToken_def Let_def)

lemma logoutUser_blacklists:
  assumes "ae_verify env t (ae_now env) = Some d" "tc_type d = ''access''" "tc_jti d = Some j" "j \<noteq> []"
    "dt_exp d = Some e" "e \<noteq> 0" "t \<noteq> []" "j \<notin> fst ` set (tokenBlacklist s)"
  shows "(j, e * 1000) \<in> set (tokenBlacklist (snd (logoutUser env (Some t) r s)))"
proof -
  have b: "blacklist_access_token env (Some t) s = snd (blacklistToken j (e * 1000) s)"
    using assms by (simp add: blacklist_access_token_def verifyAccessToken_def)
  have "tokenBlacklist (snd (deleteRefreshToken x s1)) = tokenBlacklist s1" for x s1
    by (auto simp: deleteRefreshToken_def split: option.split)
  then have "tokenBlacklist (snd (logoutUser env (Some t) r s)) = tokenBlacklist (snd (blacklistToken j (e * 1000) s))"
    by (auto simp: logoutUser_def Let_def b split: prod.split sum.split) (metis snd_conv)+
  then show ?thesis using blacklistToken_entry_fresh [OF assms(8)] by simp
qed

lemma blacklisted_refused:
  assumes "verifyAccessToken env t = Inr d" "t \<noteq> []" "tc_jti d = Some j" "j \<noteq> []" "j \<in> fst ` set (tokenBlacklist s)"
  shows "fst (authenticate env (Some (''Bearer '' @ t)) s) = Inl (ApiError 401 ''Token has been revoked'' ''TOKEN_REVOKED'')"
proof -
  obtain s1 where "isTokenBlacklisted j s = (True, s1)"
    using isTokenBlacklisted_entry [OF assms(5)] by (cases "isTokenBlacklisted j s") auto
  then show ?thesis using assms(1-4) by (simp add: authenticate_def extractBearerToken_def)
qed

text \<open>
  C19. Logging out revokes the access token. After \<open>logoutUser\<close> with an access token that
  verifies and has an id and an expiry, every later request that carries the token is refused
  with TOKEN_REVOKED as long as the token verifies, also after the expired entries of the
  blacklist have been cleaned at a time not after the token's expiry.
\<close>

theorem logoutUser_revokes:
  assumes "ae_verify env t (ae_now env) = Some d" "tc_type d = ''access''" "tc_jti d = Some j" "j \<noteq> []"
    "dt_exp d = Some e" "e \<noteq> 0" "t \<noteq> []" "j \<notin> fst ` set (tokenBlacklist s)"
    "ae_verify env' t (ae_now env') = Some d" "now \<le> e * 1000"
  shows "fst (authenticate env' (Some (''Bearer '' @ t)) (snd (logoutUser env (Some t) r s))) =
      Inl (ApiError 401 ''Token has been revoked'' ''TOKEN_REVOKED'') \<and>
    fst (authenticate env' (Some (''Bearer '' @ t))
       (snd (cleanExpiredBlacklistEntries now (snd (logoutUser env (Some t) r s))))) =
      Inl (ApiError 401 ''Token has been revoked'' ''TOKEN_REVOKED'')"
proof -
  note t = assms(1-8)
  have in1: "(j, e * 1000) \<in> set (tokenBlacklist (snd (logoutUser env (Some t) r s)))" by (rule logoutUser_blacklists [OF t])
  then have in2: "(j, e * 1000) \<in> set (tokenBlacklist (snd (cleanExpiredBlacklistEntries now (snd (logoutUser env (Some t) r s)))))"
    using assms(10) by (simp add: cleanExpiredBlacklistEntries_def)
  have v: "verifyAccessToken env' t = Inr d" using assms(2,9) by (simp add: verifyAccessToken_def)
  have j: "j \<in> fst ` set bs" if "(j, e * 1000) \<in> set bs" for bs :: "(string \<times> time) list" using that by force
  show ?thesis by (intro conjI blacklisted_refused [OF v assms(7,3,4)] j [OF in1] j [OF in2])
qed

theorem logoutUser_revokes_witness:
  "fst (authenticate example_auth_env (Some (''Bearer '' @ ''agt''))
     (snd (cleanExpiredBlacklistEntries 7000 (snd (logoutUser example_auth_env (Some ''agt'') None example_tokens))))) =
   Inl (ApiError 401 ''Token has been revoked'' ''TOKEN_REVOKED'')"
  by (rule logoutUser_revokes [where j = "''j1''" and e = 900, THEN conjunct2])
    (simp_all add: example_auth_env_def example_tokens_def example_gateway_def empty_gateway_def)

subsection \<open>Logging out of all devices\<close>

text \<open>The part of the middleware after the verification of a token that is not blacklisted.\<close>

lemma authenticate_user:
  assumes "verifyAccessToken env t = Inr d" "t \<noteq> []"
    "\<not> truthy (tc_jti d) \<or> \<not> fst (isTokenBlacklisted (the (tc_jti d)) s)"
  shows "fst (authenticate env (Some (''Bearer '' @ t)) s) =
    (case fst (findUserById (tc_sub d) s) of
       None \<Rightarrow> Inl (ApiError 401 ''Invalid authentication token'' ''TOKEN_INVALID'')
     | Some user \<Rightarrow>
         (case issued_before (tc_iat d) (pu_tokenIssuedAt user) of
            Inl e \<Rightarrow> Inl e
          | Inr True \<Rightarrow> Inl (ApiError 401 ''Token has been revoked'' ''TOKEN_REVOKED'')
          | Inr False \<Rightarrow> Inr (d, user)))"
proof -
  have "(if truthy (tc_jti d) then isTokenBlacklisted (the (tc_jti d)) s else (False, s)) = (False, s)"
    using assms(3) by (auto simp: isTokenBlacklisted_def split: option.splits if_splits)
  then show ?thesis using assms(1,2)
    by (simp add: authenticate_def extractBearerToken_def split: prod.split option.split sum.split bool.split)
qed

lemma invalidateSnapshot_users [simp]:
  "users (invalidateUserPermissionSnapshot u s) = users s"
  "userCache (invalidateUserPermissionSnapshot u s) = userCache s"
  "refreshTokens (invalidateUserPermissionSnapshot u s) = refreshTokens s"
  by (simp_all add: invalidateUserPermissionSnapshot_def)

text \<open>
  C20. What logging out of all devices does to the next requests of the user. While Redis is
  down the check is the intended one: tokens issued before the second of the logout are refused
  as revoked, later ones pass. While Redis is up, every token of the user, also one issued
  later, makes the middleware fail with a TypeError, which the error handler answers with 500:
  the service caches the user, and the cached \<open>tokenIssuedAt\<close> is a string without \<open>getTime\<close>.
\<close>

theorem logoutAllDevices_effect:
  assumes "find_unique (\<lambda>x. u_id x = u) (users s) = Some usr" "\<not> u_isDeleted usr"
    "logoutAllDevices env u s = (Inr (), s')" "verifyAccessToken env' t = Inr d" "t \<noteq> []" "tc_sub d = u"
    "\<not> truthy (tc_jti d) \<or> \<not> fst (isTokenBlacklisted (the (tc_jti d)) s')"
  shows "fst (authenticate env' (Some (''Bearer '' @ t)) s') =
    (if redisUp s then Inl (JsTypeError ''user.tokenIssuedAt.getTime is not a function'')
     else if tc_iat d < ae_now env div 1000 then Inl (ApiError 401 ''Token has been revoked'' ''TOKEN_REVOKED'')
     else Inr (d, stripPassword (usr\<lparr>u_tokenIssuedAt := Some (ae_now env)\<rparr>)))"
proof -
  let ?u = "usr\<lparr>u_tokenIssuedAt := Some (ae_now env)\<rparr>"
  let ?s1 = "s\<lparr>users := update_rows (\<lambda>x. u_id x = u) (\<lambda>x. x\<lparr>u_tokenIssuedAt := Some (ae_now env)\<rparr>) (users s)\<rparr>"
  let ?s2 = "invalidateUserPermissionSnapshot u (cacheUser (stripPassword ?u) ?s1)"
  have id: "u_id usr = u" using find_unique_SomeD [OF assms(1)] by simp
  have s': "s' = ?s2\<lparr>refreshTokens := delete_rows (\<lambda>r. rt_userId r = u) (refreshTokens ?s2)\<rparr>"
    using assms(1,3) by (simp add: logoutAllDevices_def updateUserTokenIssuedAt_def Let_def deleteUserRefreshTokens_def)
  have row: "find_unique (\<lambda>x. u_id x = u) (users s') = Some ?u"
    using assms(1) id by (simp add: s' find_unique_update_key)
  show ?thesis
  proof (cases "redisUp s")
    case True
    have "getCachedUser u s' = Some (json_user (stripPassword ?u))"
      using True id by (simp add: s' getCachedUser_def cacheUser_def stripPassword_def invalidateUserPermissionSnapshot_def)
    then have "fst (findUserById u s') = Some (json_user (stripPassword ?u))" by (simp add: findUserById_def)
    then show ?thesis using True
      unfolding authenticate_user [OF assms(4,5,7)]
      by (simp add: assms(6) issued_before_def json_user_def stripPassword_def)
  next
    case False
    then have "getCachedUser u s' = None" by (simp add: s' getCachedUser_def)
    then have "fst (findUserById u s') = Some (stripPassword ?u)" using row assms(2) by (simp add: findUserById_def)
    then show ?thesis using False
      unfolding authenticate_user [OF assms(4,5,7)]
      by (simp add: assms(6) issued_before_def stripPassword_def)
  qed
qed

theorem logoutAllDevices_effect_witness:
  "fst (authenticate (example_auth_env\<lparr>ae_now := 9000\<rparr>) (Some (''Bearer '' @ ''agt''))
     (snd (logoutAllDevices example_auth_env ''agt'' example_tokens))) =
   Inl (JsTypeError ''user.tokenIssuedAt.getTime is not a function'')"
proof -
  have r: "logoutAllDevices example_auth_env ''agt'' example_tokens =
      (Inr (), snd (logoutAllDevices example_auth_env ''agt'' example_tokens))"
  proof -
    let ?r = "logoutAllDevices example_auth_env ''agt'' example_tokens"
    have "\<not> isl (fst ?r)" by code_simp
    then show ?thesis by (cases ?r; cases "fst ?r") auto
  qed
  have f: "find_unique (\<lambda>x. u_id x = ''agt'') (users example_tokens) = Some (example_user ''agt'')"
    by (simp add: example_tokens_def example_gateway_def example_user_def)
  have b: "\<not> fst (isTokenBlacklisted ''j1'' (snd (logoutAllDevices example_auth_env ''agt'' example_tokens)))"
    by code_simp
  have up: "redisUp example_tokens" by code_simp
  show ?thesis
    using logoutAllDevices_effect [OF f _ r, of "example_auth_env\<lparr>ae_now := 9000\<rparr>" "''agt''"
        "\<lparr>tc_sub = ''agt'', tc_type = ''access'', tc_jti = Some ''j1'', tc_iat = 5, tc_orgPermissions = [], dt_exp = Some 900\<rparr>"]
      b up by (simp add: example_user_def example_auth_env_def verifyAccessToken_def)
qed

subsection \<open>Login\<close>

text \<open>
  The documented behaviour of the token library for one set of claims: what is signed verifies,
  with the claims that were signed and an expiry, until it expires.
\<close>

definition jwt_roundtrip :: "auth_env \<Rightarrow> auth_env \<Rightarrow> token_claims \<Rightarrow> bool" where
  "jwt_roundtrip env env' c =
     (\<exists>e. ae_verify env' (ae_sign env c (ae_accessExpiresIn env)) (ae_now env') =
        Some (token_claims.extend c (decoded_token.fields (Some e))))"

lemma extend_fields [simp]:
  "tc_type (token_claims.extend c (decoded_token.fields e)) = tc_type c"
  "tc_sub (token_claims.extend c (decoded_token.fields e)) = tc_sub c"
  "tc_jti (token_claims.extend c (decoded_token.fields e)) = tc_jti c"
  "tc_iat (token_claims.extend c (decoded_token.fields e)) = tc_iat c"
  "tc_orgPermissions (token_claims.extend c (decoded_token.fields e)) = tc_orgPermissions c"
  by (simp_all add: token_claims.extend_def decoded_token.fields_def)


definition example_jwt_env :: auth_env where
  "example_jwt_env = example_auth_env\<lparr>
     ae_compare := (\<lambda>p h. h = p),
     ae_verify := (\<lambda>t now. Some (token_claims.extend
        (access_claims example_auth_env t (db_permission_snapshot t example_gateway)) (decoded_token.fields (Some 900))))\<rparr>"


subsection \<open>Accounts that were deleted\<close>

text \<open>
  The email of a deleted account cannot be registered again, and the answer is an internal
  error instead of a conflict: the lookup ignores the deleted row, the unique constraint does not.
\<close>

theorem register_deleted_email:
  assumes "distinct (List.map u_email (users s))" "u \<in> set (users s)" "u_isDeleted u" "u_email u = email"
    "ae_hash env pw \<noteq> []"
  shows "registerUser env email pw name s = (Inl (PrismaError ''P2002''), s) \<and>
    errorHandler False False (PrismaError ''P2002'') =
       Some (500, ErrorBody ''Internal server error'' (Some ''INTERNAL_ERROR''))"
proof -
  have "find_unique (\<lambda>x. u_email x = email) us = Some u"
    if "distinct (List.map u_email us)" "u \<in> set us" for us
    using that assms(4) by (induction us) force+
  then have "findUserByEmail email s = (None, s)" using assms(1-3) by (simp add: findUserByEmail_def)
  then show ?thesis
    using assms(2,4,5) by (auto simp: registerUser_def createUserWithRefreshToken_def Let_def errorHandler_def)
qed

definition example_deleted :: gateway where
  "example_deleted = example_gateway\<lparr>users := [(example_user ''agt'')\<lparr>u_isDeleted := True\<rparr>]\<rparr>"

theorem register_deleted_email_witness:
  "registerUser example_auth_env ''agt@x.org'' ''Secret1!'' None example_deleted = (Inl (PrismaError ''P2002''), example_deleted)"
  by (rule register_deleted_email [where u = "(example_user ''agt'')\<lparr>u_isDeleted := True\<rparr>", THEN conjunct1])
    (simp_all add: example_deleted_def example_user_def example_auth_env_def)

end
