(* ===== verification/Ticket_Correct.thy ===== *)
theory Ticket_Correct
  imports Example_State
begin

section \<open>Correctness of the ticket service\<close>

text \<open>
  The properties of the ticket handlers: who may change what, what a caller is shown, which
  event a change leaves on the bus. Each is stated over the tables of the state before and
  after the handler, for a state whose membership cache is coherent (\<open>good\<close>).
\<close>

subsection \<open>Updates of a ticket row\<close>

text \<open>A column that none of the five updates changes is unchanged by all of them.\<close>

lemma apply_update_fields_column:
  assumes "\<And>t v. f (t\<lparr>t_title := v\<rparr>) = f t" "\<And>t v. f (t\<lparr>t_description := v\<rparr>) = f t"
    "\<And>t v. f (t\<lparr>t_priority := v\<rparr>) = f t" "\<And>t v. f (t\<lparr>t_status := v\<rparr>) = f t"
    "\<And>t v. f (t\<lparr>t_assignedToId := v\<rparr>) = f t"
  shows "apply_update_fields es t = Inr t' \<Longrightarrow> f t' = f t"
  by (induction es t rule: apply_update_fields.induct) (auto simp: assms split: if_splits option.splits)

lemma apply_update_fields_keep:
  assumes "apply_update_fields es t = Inr t'"
  shows "t_id t' = t_id t" "t_organizationId t' = t_organizationId t" "t_createdById t' = t_createdById t"
    "t_source t' = t_source t" "t_createdAt t' = t_createdAt t" "t_aiActive t' = t_aiActive t"
    "t_aiMessageCount t' = t_aiMessageCount t"
  by (rule apply_update_fields_column [OF _ _ _ _ _ assms]; simp)+

lemma apply_update_fields_status:
  "apply_update_fields es t = Inr t' \<Longrightarrow> ''status'' \<notin> fst ` set es \<Longrightarrow> t_status t' = t_status t"
  by (induction es t arbitrary: t' rule: apply_update_fields.induct)
    (auto split: if_splits option.splits)

lemma apply_update_fields_assignee:
  "apply_update_fields es t = Inr t' \<Longrightarrow>
     t_assignedToId t' = t_assignedToId t \<or> (\<exists>v. t_assignedToId t' = Some v \<and> (''assignedToId'', v) \<in> set es)"
  by (induction es t arbitrary: t' rule: apply_update_fields.induct)
    (fastforce split: if_splits option.splits)+

lemma find_ticket_update:
  assumes "find_ticket i s = Some t" "t_id t' = i"
  shows "find_unique (\<lambda>r. t_id r = i) (update_rows (\<lambda>r. t_id r = i) (\<lambda>_. t') (tickets s)) = Some t'"
  using assms find_unique_update_key [of "\<lambda>r. t_id r = i" "\<lambda>r. t_id r = i" "\<lambda>_. t'" "tickets s"]
  by (auto simp: find_ticket_def dest: find_unique_SomeD)

lemma update_rows_other: "r \<in> set t \<Longrightarrow> \<not> p r \<Longrightarrow> r \<in> set (update_rows p f t)"
  by (auto simp: set_update_rows image_iff)

lemma updateTicket_InrE:
  assumes "updateTicket ticketId d actorId now newId s = (Inr v, s')"
  obtains t t' where "find_ticket ticketId s = Some t" "apply_update_fields d t = Inr t'"
    "tickets s' = update_rows (\<lambda>r. t_id r = ticketId) (\<lambda>_. t') (tickets s)"
    "v = ticket_with_all s' t'" "comments s' = comments s" "memberships s' = memberships s" "roles s' = roles s"
    "find_ticket ticketId s' = Some t'"
proof -
  obtain t t' where t: "find_ticket ticketId s = Some t" "apply_update_fields d t = Inr t'"
    and s': "s' = s\<lparr>tickets := update_rows (\<lambda>r. t_id r = ticketId) (\<lambda>_. t') (tickets s),
      activities := activities s @ [\<lparr>act_id = newId, act_ticketId = ticketId, act_actorId = actorId,
        act_action = TICKET_UPDATED, act_oldValue = None, act_newValue = None, act_createdAt = now\<rparr>]\<rparr>"
    and v: "v = ticket_with_all s' t'"
    using assms by (auto simp: updateTicket_def Let_def split: option.splits sum.splits if_splits)
  have "t_id t' = ticketId"
    using apply_update_fields_keep [OF t(2)] find_ticket_SomeD [OF t(1)] by simp
  then have "find_ticket ticketId s' = Some t'"
    using find_ticket_update [OF t(1)] by (simp add: find_ticket_def s')
  then show ?thesis using that t v by (simp add: s')
qed

lemma updateTicketService_InrE:
  assumes "updateTicketService ticketId d userId now newActId s = (Inr v, s')" "good s"
  obtains t t' mv where "find_ticket ticketId s = Some t" "find_ticket ticketId s' = Some t'"
    "is_member s (t_organizationId t) userId"
    "\<And>p. p \<noteq> [] \<Longrightarrow> has (role_permissions mv) p = member_grants s (t_organizationId t) userId p"
    "assertCanUpdateTicket mv (ticket_with_all s t) userId
       (getProvidedUpdateFields (normalizeTicketUpdateFields d)) = Inr ()"
    "\<And>a. ub_assignedToId d = Some a \<Longrightarrow> a \<noteq> [] \<Longrightarrow> is_member s (t_organizationId t) a"
    "apply_update_fields (getProvidedUpdateFields (normalizeTicketUpdateFields d)) t = Inr t'"
    "tickets s' = update_rows (\<lambda>r. t_id r = ticketId) (\<lambda>_. t') (tickets s)"
    "v = filterInternalCommentsForRole (ticket_with_all s' t') (role_permissions mv)"
    "comments s' = comments s" "memberships s' = memberships s" "roles s' = roles s"
proof -
  let ?d = "getProvidedUpdateFields (normalizeTicketUpdateFields d)"
  have a: "map_of ?d ''assignedToId'' = ub_assignedToId d"
    by (cases "ub_title d"; cases "ub_description d"; cases "ub_priority d"; cases "ub_status d";
        cases "ub_assignedToId d") (simp_all add: normalizeTicketUpdateFields_def)
  from assms(1) show ?thesis
    unfolding updateTicketService_def Let_def
  proof (elim with_ticket_InrE with_member_InrE [OF _ assms(2)], goal_cases)
    case (1 t mv s1)
    then obtain s2 u where c: "assertCanUpdateTicket mv (ticket_with_all s t) userId ?d = Inr ()"
      and va: "validateTicketAssignee (t_organizationId t) (ub_assignedToId d) s1 = (Inr (), s2)"
      and up: "updateTicket ticketId ?d userId now newActId s2 = (Inr u, s')"
      and v: "v = filterInternalCommentsForRole u (role_permissions mv)"
      by (auto simp: a split: sum.splits prod.splits if_splits)
    note s1 = \<open>cache_only s s1\<close>
    from va \<open>good s1\<close> have s2: "cache_only s1 s2"
      and mem: "\<And>x. ub_assignedToId d = Some x \<Longrightarrow> x \<noteq> [] \<Longrightarrow> is_member s1 (t_organizationId t) x"
      by (blast elim: validateTicketAssignee_InrE)+
    have s12: "cache_only s s2" using s1 s2 by (rule cache_only_trans)
    from up obtain t0 t' where u: "find_ticket ticketId s2 = Some t0" "apply_update_fields ?d t0 = Inr t'"
      "tickets s' = update_rows (\<lambda>r. t_id r = ticketId) (\<lambda>_. t') (tickets s2)" "u = ticket_with_all s' t'"
      "comments s' = comments s2" "memberships s' = memberships s2" "roles s' = roles s2"
      "find_ticket ticketId s' = Some t'" by (rule updateTicket_InrE)
    have t0: "t0 = t" using u(1) 1(1) cache_onlyD(6) [OF s12] by (simp add: find_ticket_def)
    have mem': "is_member s (t_organizationId t) x" if "ub_assignedToId d = Some x" "x \<noteq> []" for x
      using mem [OF that] cache_onlyD(17) [OF s1] by simp
    show ?case
    proof (rule that [of t t' mv])
      show "apply_update_fields ?d t = Inr t'" using u(2) by (simp only: t0)
      show "tickets s' = update_rows (\<lambda>r. t_id r = ticketId) (\<lambda>_. t') (tickets s)"
        using u(3) by (simp only: cache_onlyD [OF s12])
      show "comments s' = comments s" "memberships s' = memberships s" "roles s' = roles s"
        using u(5-7) by (simp_all only: cache_onlyD [OF s12])
      show "v = filterInternalCommentsForRole (ticket_with_all s' t') (role_permissions mv)"
        using u(4) v by (simp only:)
    qed (fact 1(1) u(8) c mem' | use 1 in simp)+
  qed
qed

subsection \<open>Who may update a ticket\<close>

definition own_fields :: "string set" where
  "own_fields = {''title'', ''description'', ''priority''}"

text \<open>
  C1. Authorization of a ticket update. When \<open>updateTicketService\<close> succeeds, the ticket existed
  and the caller is a member of its organization. Either the database role of the caller
  carries \<open>ticket:edit_all\<close>, or the caller created the ticket or is assigned to it, and then
  the status and the assignee of the ticket stay as they were. In both cases the ticket keeps its
  organization and its creator, a new assignee is a member of that organization, and no other
  ticket changes.
\<close>

theorem updateTicketService_authorized:
  assumes "good s" "updateTicketService ticketId d userId now newActId s = (Inr v, s')"
    "ub_assignedToId d \<noteq> Some []"
  shows "\<exists>t t'. find_ticket ticketId s = Some t \<and> find_ticket ticketId s' = Some t' \<and>
    is_member s (t_organizationId t) userId \<and>
    (member_grants s (t_organizationId t) userId TICKET_EDIT_ALL \<or>
     canMemberViewTicket t userId \<and> t_status t' = t_status t \<and> t_assignedToId t' = t_assignedToId t) \<and>
    t_organizationId t' = t_organizationId t \<and> t_createdById t' = t_createdById t \<and>
    (t_assignedToId t' = t_assignedToId t \<or>
     (\<exists>a. t_assignedToId t' = Some a \<and> is_member s (t_organizationId t) a)) \<and>
    (\<forall>r. t_id r \<noteq> ticketId \<longrightarrow> r \<in> set (tickets s') \<longleftrightarrow> r \<in> set (tickets s))"
  using assms(2,1)
proof (rule updateTicketService_InrE)
  let ?d = "getProvidedUpdateFields (normalizeTicketUpdateFields d)"
  fix t t' mv
  assume t: "find_ticket ticketId s = Some t" "find_ticket ticketId s' = Some t'"
      "is_member s (t_organizationId t) userId"
    and h: "\<And>p. p \<noteq> [] \<Longrightarrow> has (role_permissions mv) p = member_grants s (t_organizationId t) userId p"
    and ok: "assertCanUpdateTicket mv (ticket_with_all s t) userId ?d = Inr ()"
    and a: "\<And>a. ub_assignedToId d = Some a \<Longrightarrow> a \<noteq> [] \<Longrightarrow> is_member s (t_organizationId t) a"
    and ap: "apply_update_fields ?d t = Inr t'"
    and rows: "tickets s' = update_rows (\<lambda>r. t_id r = ticketId) (\<lambda>_. t') (tickets s)"
  have keep: "t_organizationId t' = t_organizationId t" "t_createdById t' = t_createdById t" "t_id t' = ticketId"
    using apply_update_fields_keep [OF ap] find_ticket_SomeD [OF t(1)] by simp_all
  have asg: "t_assignedToId t' = t_assignedToId t \<or>
      (\<exists>a. t_assignedToId t' = Some a \<and> is_member s (t_organizationId t) a)"
  proof -
    have "ub_assignedToId d = Some x" if "(''assignedToId'', x) \<in> set ?d" for x
      using that by (auto simp: provided_fields normalizeTicketUpdateFields_def)
    then show ?thesis using apply_update_fields_assignee [OF ap] a assms(3) by metis
  qed
  have "canMemberViewTicket t userId \<and> fst ` set ?d \<subseteq> own_fields"
    if "\<not> member_grants s (t_organizationId t) userId TICKET_EDIT_ALL"
    using ok that by (auto simp: assertCanUpdateTicket_ok_iff canEditAllOrganizationTickets_def h own_fields_def)
  then have auth: "member_grants s (t_organizationId t) userId TICKET_EDIT_ALL \<or>
     canMemberViewTicket t userId \<and> t_status t' = t_status t \<and> t_assignedToId t' = t_assignedToId t"
    using apply_update_fields_status [OF ap] apply_update_fields_assignee [OF ap]
    by (force simp: own_fields_def)
  have "r \<in> set (tickets s') \<longleftrightarrow> r \<in> set (tickets s)" if "t_id r \<noteq> ticketId" for r
    using that keep(3) by (auto simp: rows set_update_rows image_iff)
  then show ?thesis using t keep asg auth by blast
qed

definition example_update :: update_body where
  "example_update = \<lparr>ub_title = Some ''fax'', ub_description = None, ub_priority = Some ''high'',
     ub_status = None, ub_assignedToId = None\<rparr>"

lemma example_update_runs:
  "\<not> isl (fst (updateTicketService ''t1'' example_update ''mem'' 5 ''a1'' example_gateway))"
  by code_simp

theorem updateTicketService_authorized_witness:
  "\<exists>v s'. updateTicketService ''t1'' example_update ''mem'' 5 ''a1'' example_gateway = (Inr v, s') \<and>
     (\<exists>t t'. find_ticket ''t1'' example_gateway = Some t \<and> find_ticket ''t1'' s' = Some t' \<and>
        is_member example_gateway (t_organizationId t) ''mem'')"
proof -
  have "ub_assignedToId example_update \<noteq> Some []" by (simp add: example_update_def)
  from updateTicketService_authorized [OF example_good run_ok [OF example_update_runs] this]
  show ?thesis using run_ok [OF example_update_runs] by blast
qed

subsection \<open>What a caller is shown\<close>

definition may_view :: "gateway \<Rightarrow> ticket \<Rightarrow> string \<Rightarrow> bool" where
  "may_view s t userId =
     (is_member s (t_organizationId t) userId \<and>
      (member_grants s (t_organizationId t) userId TICKET_VIEW_ALL \<or> canMemberViewTicket t userId))"

definition visible_comments :: "gateway \<Rightarrow> ticket \<Rightarrow> string \<Rightarrow> comment list \<Rightarrow> comment list" where
  "visible_comments s t userId cs =
     List.filter (\<lambda>c. c_isInternal c \<longrightarrow> member_grants s (t_organizationId t) userId TICKET_VIEW_ALL) cs"

lemma visible_comments_grants:
  "member_grants s (t_organizationId t) u TICKET_VIEW_ALL \<Longrightarrow> visible_comments s t u cs = cs"
  "\<not> member_grants s (t_organizationId t) u TICKET_VIEW_ALL \<Longrightarrow>
     visible_comments s t u cs = List.filter (\<lambda>c. \<not> c_isInternal c) cs"
  by (simp_all add: visible_comments_def)

text \<open>The guard of the handlers that show or extend a ticket, in terms of the database.\<close>

lemma view_guard:
  assumes "good s"
  obtains mv s1 where "cache_only s s1" "good s1"
    "with_member (t_organizationId t) u e s
       (\<lambda>m s1. if \<not> canViewAllOrganizationTickets (role_permissions m) \<and> \<not> canMemberViewTicket t u
                then throw e s1 else k m s1) = (if may_view s t u then k mv s1 else (Inl e, s1))"
    "\<And>p. p \<noteq> [] \<Longrightarrow> may_view s t u \<Longrightarrow>
       has (role_permissions mv) p = member_grants s (t_organizationId t) u p"
proof (rule with_member_eq [OF assms])
  fix mv s1
  let ?k = "\<lambda>m s1. if \<not> canViewAllOrganizationTickets (role_permissions m) \<and> \<not> canMemberViewTicket t u
                then throw e s1 else k m s1"
  assume c: "cache_only s s1" "good s1"
    and w: "with_member (t_organizationId t) u e s ?k =
      (if is_member s (t_organizationId t) u then ?k mv s1 else (Inl e, s1))"
    and h: "\<And>p. p \<noteq> [] \<Longrightarrow> is_member s (t_organizationId t) u \<Longrightarrow>
      has (role_permissions mv) p = member_grants s (t_organizationId t) u p"
  show ?thesis
  proof (rule that [OF c])
    show "with_member (t_organizationId t) u e s ?k = (if may_view s t u then k mv s1 else (Inl e, s1))"
      unfolding w using h [of TICKET_VIEW_ALL]
      by (auto simp: may_view_def canViewAllOrganizationTickets_def)
  qed (use h in \<open>simp add: may_view_def\<close>)
qed

text \<open>
  C2. The whole behaviour of \<open>getTicketByIdService\<close>, on every branch, from the database alone
  (the cached membership makes no difference): 404 for a missing ticket, 403 for a caller who
  may not view it, else the ticket with its comments, without the internal ones unless the
  role of the caller carries \<open>ticket:view_all\<close>. The tables do not change.
\<close>

theorem getTicketByIdService_spec:
  assumes "good s"
  shows "fst (getTicketByIdService ticketId userId s) =
      (case find_ticket ticketId s of
         None \<Rightarrow> Inl ticket_not_found
       | Some t \<Rightarrow>
           if ticketId = [] then Inl ticket_not_found
           else if \<not> may_view s t userId
           then Inl (forbidden ''You do not have permission to view this ticket'')
           else Inr ((ticket_with_all s t)\<lparr>tv_comments :=
                  Some (visible_comments s t userId (find_many (\<lambda>c. c_ticketId c = ticketId) (comments s)))\<rparr>)) \<and>
    tables (snd (getTicketByIdService ticketId userId s)) = tables s"
proof (cases "find_ticket ticketId s")
  case None
  then show ?thesis by (simp add: getTicketByIdService_def with_ticket_eq)
next
  case (Some t)
  let ?e = "forbidden ''You do not have permission to view this ticket''"
  have tid: "t_id t = ticketId" using find_ticket_SomeD [OF Some] by simp
  show ?thesis
  proof (rule view_guard [OF assms, of t userId ?e
        "\<lambda>m. return (filterInternalCommentsForRole (ticket_with_all s t) (role_permissions m))"])
    fix mv s1
    assume c: "cache_only s s1"
      and w: "with_member (t_organizationId t) userId ?e s
       (\<lambda>m s1. if \<not> canViewAllOrganizationTickets (role_permissions m) \<and> \<not> canMemberViewTicket t userId
          then throw ?e s1
          else return (filterInternalCommentsForRole (ticket_with_all s t) (role_permissions m)) s1) =
        (if may_view s t userId
         then return (filterInternalCommentsForRole (ticket_with_all s t) (role_permissions mv)) s1
         else (Inl ?e, s1))"
      and h: "\<And>p. p \<noteq> [] \<Longrightarrow> may_view s t userId \<Longrightarrow>
        has (role_permissions mv) p = member_grants s (t_organizationId t) userId p"
    have keep: "(ticket_with_all s t)\<lparr>tv_comments := Some (find_many (\<lambda>c. c_ticketId c = ticketId) (comments s))\<rparr>
        = ticket_with_all s t"
      by (simp add: ticket_with_all_def ticket.defs ticket_view.defs tid)
    show ?thesis
      using Some h [of TICKET_VIEW_ALL] cache_onlyD(1) [OF c] tid keep
      by (simp add: getTicketByIdService_def with_ticket_eq w)
        (simp add: canViewAllOrganizationTickets_def filterInternalCommentsForRole_def visible_comments_grants)
  qed
qed

theorem getTicketByIdService_spec_witness:
  "\<exists>v. fst (getTicketByIdService ''t1'' ''mem'' example_gateway) = Inr v \<and>
     map_option (List.map c_id) (tv_comments v) = Some [''c1'']"
  using getTicketByIdService_spec [OF example_good, of "''t1''" "''mem''"]
  by (simp add: example_gateway_def find_ticket_def example_ticket_def may_view_def is_member_def
      find_membership_def example_membership_def member_grants_def db_grants_def find_role_def example_role_def
      DEFAULT_ROLES_def canMemberViewTicket_def visible_comments_def find_many_def example_comments_def Let_def)

end
