(* ===== verification/Ticket_Views.thy ===== *)
theory Ticket_Views
  imports Ticket_Correct
begin


section \<open>Visibility: lists, comments, activities\<close>

text \<open>
  What the reading handlers of the ticket service return, and the one way round their filter:
  the text of an internal comment reaches the activity log.
\<close>

text \<open>
  The whole behaviour of \<open>getTicketCommentsService\<close> from the database: the comments of the
  ticket in order of creation, the internal ones only for a caller whose role carries
  \<open>ticket:view_all\<close>; 404 and 403 as for the ticket itself; the tables do not change.
\<close>

theorem getTicketCommentsService_spec:
  assumes "good s"
  shows "fst (getTicketCommentsService ticketId userId s) =
      (case find_ticket ticketId s of
         None \<Rightarrow> Inl ticket_not_found
       | Some t \<Rightarrow>
           if ticketId = [] then Inl ticket_not_found
           else if \<not> may_view s t userId
           then Inl (forbidden ''You do not have permission to view comments on this ticket'')
           else Inr (visible_comments s t userId
                  (sort_key c_createdAt (find_many (\<lambda>c. c_ticketId c = ticketId) (comments s))))) \<and>
    tables (snd (getTicketCommentsService ticketId userId s)) = tables s"
proof (cases "find_ticket ticketId s")
  case None
  then show ?thesis by (simp add: getTicketCommentsService_def with_ticket_eq)
next
  case (Some t)
  let ?e = "forbidden ''You do not have permission to view comments on this ticket''"
  let ?k = "\<lambda>m s1. return (filterCommentsForRole (getTicketComments ticketId s1) (role_permissions m)) s1"
  show ?thesis
  proof (rule view_guard [OF assms, of t userId ?e ?k])
    fix mv s1
    assume c: "cache_only s s1"
      and w: "with_member (t_organizationId t) userId ?e s
       (\<lambda>m s1. if \<not> canViewAllOrganizationTickets (role_permissions m) \<and> \<not> canMemberViewTicket t userId
          then throw ?e s1 else ?k m s1) =
        (if may_view s t userId then ?k mv s1 else (Inl ?e, s1))"
      and h: "\<And>p. p \<noteq> [] \<Longrightarrow> may_view s t userId \<Longrightarrow>
        has (role_permissions mv) p = member_grants s (t_organizationId t) userId p"
    have "getTicketComments ticketId s1 = sort_key c_createdAt (find_many (\<lambda>c. c_ticketId c = ticketId) (comments s))"
      by (simp add: getTicketComments_def cache_onlyD [OF c])
    then show ?thesis
      using Some h [of TICKET_VIEW_ALL] cache_onlyD(1) [OF c]
      by (simp add: getTicketCommentsService_def with_ticket_eq w)
        (simp add: canViewAllOrganizationTickets_def filterCommentsForRole_def visible_comments_grants)
  qed
qed

theorem getTicketCommentsService_spec_witness:
  "\<exists>cs. fst (getTicketCommentsService ''t1'' ''mem'' example_gateway) = Inr cs \<and> List.map c_id cs = [''c1'']"
  using getTicketCommentsService_spec [OF example_good, of "''t1''" "''mem''"]
  by (simp add: example_gateway_def find_ticket_def example_ticket_def may_view_def is_member_def
      find_membership_def example_membership_def member_grants_def db_grants_def find_role_def example_role_def
      DEFAULT_ROLES_def canMemberViewTicket_def visible_comments_def find_many_def example_comments_def Let_def)

subsection \<open>Lists of tickets\<close>

lemma view_ids [simp]:
  "t_id (ticket_with_people s t) = t_id t" "t_organizationId (ticket_with_people s t) = t_organizationId t"
  "t_createdById (ticket_with_people s t) = t_createdById t" "t_assignedToId (ticket_with_people s t) = t_assignedToId t"
  "t_createdAt (ticket_with_people s t) = t_createdAt t" "t_status (ticket_with_people s t) = t_status t"
  "t_priority (ticket_with_people s t) = t_priority t"
  "t_id (ticket_with_people_and_tags s t) = t_id t"
  "t_organizationId (ticket_with_people_and_tags s t) = t_organizationId t"
  "t_assignedToId (ticket_with_people_and_tags s t) = t_assignedToId t"
  by (simp_all add: ticket_with_people_def ticket_with_people_and_tags_def ticket.defs ticket_view.defs)

lemma buildCommon_org:
  assumes "buildCommonTicketFilters pd f u = Inr w"
  shows "wh_organizationId w = map_option OrgIs (keep_truthy (f_organizationId f))" "wh_or_user w = None"
    "f_assignedTo f = Some ''me'' \<Longrightarrow> u \<noteq> [] \<Longrightarrow> wh_assignedToId w = Some u"
  using assms by (auto simp: buildCommonTicketFilters_def Let_def keep_truthy_def split: sum.splits)

lemma normalize_org [simp]: "f_organizationId (normalizeTicketFilters q) = f_organizationId q"
  by (simp add: normalizeTicketFilters_def)

lemma validateListFilters_org:
  "validateListFilters pd True f = Inr x \<Longrightarrow> \<exists>o'. f_organizationId f = Some o' \<and> o' \<noteq> []"
  by (cases "f_organizationId f") (auto simp: validateListFilters_def split: if_splits)

text \<open>
  C4. Tenant isolation of the ticket list. When \<open>getTicketsService\<close> succeeds, the caller is a
  member of the requested organization, every listed ticket is a ticket of that organization
  which the caller may view, and the list is in descending order of creation.
\<close>

theorem getTicketsService_isolated:
  assumes "good s" "getTicketsService parseDate query userId s = (Inr vs, s')"
  shows "\<exists>orgId. f_organizationId query = Some orgId \<and> is_member s orgId userId \<and>
    (\<forall>v\<in>set vs. \<exists>t\<in>set (tickets s). v = ticket_with_people s' t \<and> t_organizationId t = orgId \<and> may_view s t userId) \<and>
    sorted (List.map (\<lambda>v. - t_createdAt v) vs)"
proof -
  let ?f = "normalizeTicketFilters query"
  obtain x where va: "validateListFilters parseDate True ?f = Inr x"
    using assms(2) by (auto simp: getTicketsService_def Let_def split: sum.splits)
  then obtain orgId where o: "f_organizationId query = Some orgId" "orgId \<noteq> []"
    using validateListFilters_org [OF va] by auto
  from assms(2) have "with_member orgId userId
      (forbidden ''You do not have permission to view tickets for this organization'') s
      (\<lambda>membership s1. case buildCommonTicketFilters parseDate ?f userId of
         Inl e \<Rightarrow> throw e s1
       | Inr baseFilters \<Rightarrow> return (getTickets (if \<not> canViewAllOrganizationTickets (role_permissions membership)
            then baseFilters\<lparr>wh_or_user := Some userId\<rparr> else baseFilters) s1) s1) = (Inr vs, s')"
    using o by (simp add: getTicketsService_def Let_def va)
  then show ?thesis
  proof (rule with_member_InrE [OF _ assms(1)], goal_cases)
    case (1 mv s1)
    obtain w where w: "buildCommonTicketFilters parseDate ?f userId = Inr w"
      using 1(5) by (cases "buildCommonTicketFilters parseDate ?f userId") simp_all
    have vs: "vs = getTickets (if \<not> canViewAllOrganizationTickets (role_permissions mv)
            then w\<lparr>wh_or_user := Some userId\<rparr> else w) s1" and s': "s' = s1"
      using 1(5) [unfolded w sum.case, THEN return_eqD] by blast+
    have wo: "wh_organizationId w = Some (OrgIs orgId)"
      using buildCommon_org(1) [OF w] o by (simp add: keep_truthy_def)
    have "may_view s t userId \<and> t_organizationId t = orgId"
      if "where_matches s1 (if \<not> canViewAllOrganizationTickets (role_permissions mv)
            then w\<lparr>wh_or_user := Some userId\<rparr> else w) t" for t
      using that wo 1(1) 1(2) [of TICKET_VIEW_ALL]
      by (auto simp: where_matches_def may_view_def canMemberViewTicket_def canViewAllOrganizationTickets_def
          split: if_splits)
    then have "\<forall>v\<in>set vs. \<exists>t\<in>set (tickets s). v = ticket_with_people s' t \<and> t_organizationId t = orgId \<and>
        may_view s t userId"
      by (auto simp: vs s' getTickets_def cache_onlyD [OF 1(3)])
    moreover have "sorted (List.map (\<lambda>v. - t_createdAt v) vs)"
      unfolding vs getTickets_def by (simp add: comp_def)
    ultimately show ?case using o 1(1) by blast
  qed
qed

definition example_query :: ticket_filters where
  "example_query = \<lparr>f_organizationId = Some ''o1'', f_status = Some ''open'', f_priority = None, f_source = None,
     f_assignedTo = None, f_assignedToId = None, f_tag = None, f_tagId = None, f_dateFrom = None, f_dateTo = None\<rparr>"

lemma example_query_runs:
  "\<not> isl (fst (getTicketsService (\<lambda>_. None) example_query ''mem'' example_gateway))"
  by code_simp

theorem getTicketsService_isolated_witness:
  "\<exists>vs s'. getTicketsService (\<lambda>_. None) example_query ''mem'' example_gateway = (Inr vs, s') \<and>
     is_member example_gateway ''o1'' ''mem'' \<and> (\<forall>v\<in>set vs. t_organizationId v = ''o1'')"
proof -
  have "f_organizationId example_query = Some ''o1''" by (simp add: example_query_def)
  with getTicketsService_isolated [OF example_good run_ok [OF example_query_runs]]
  show ?thesis using run_ok [OF example_query_runs] by (metis option.inject view_ids(2))
qed

text \<open>
  The agent's own list. When \<open>getMyAgentTicketsService\<close> succeeds for an authenticated caller,
  every listed ticket is assigned to the caller and lies in an organization where the caller's
  role carries \<open>ticket:view_all\<close>; nothing changes in the state.
\<close>

lemma getMyAgentTicketsService_isolated:
  assumes "getMyAgentTicketsService parseDate query userId s = (Inr vs, s')" "userId \<noteq> []" "membership_rows_ok s"
  shows "s' = s \<and> (\<forall>v\<in>set vs. t_assignedToId v = Some userId \<and>
    member_grants s (t_organizationId v) userId TICKET_VIEW_ALL)"
proof -
  let ?f = "normalizeTicketFilters query" and ?ms = "getStaffMemberships userId s"
  let ?b = "buildCommonTicketFilters parseDate (?f\<lparr>f_assignedTo := Some ''me''\<rparr>) userId"
  let ?w = "\<lambda>w. w\<lparr>wh_organizationId := Some (if truthy (f_organizationId ?f)
       then OrgIs (the (f_organizationId ?f)) else OrgIn (List.map m_organizationId ?ms))\<rparr>"
  let ?bad = "truthy (f_organizationId ?f) \<and> the (f_organizationId ?f) \<notin> set (List.map m_organizationId ?ms)"
  note run = assms(1) [unfolded getMyAgentTicketsService_def Let_def]
  obtain x where va: "validateListFilters parseDate False ?f = Inr x"
    using run by (cases "validateListFilters parseDate False ?f") simp_all
  have ms: "?ms \<noteq> []" using run va by (cases "?ms = []") simp_all
  have ok: "\<not> ?bad" using run va ms by (cases ?bad) simp_all
  have "(case ?b of Inl e \<Rightarrow> throw e s | Inr w \<Rightarrow> return (getAgentTickets (?w w) s) s) = (Inr vs, s')"
    using run by (simp only: va sum.case ms ok if_False)
  note run2 = this
  then obtain w where w: "?b = Inr w" by (cases ?b) simp_all
  have vs: "vs = getAgentTickets (?w w) s" and s': "s' = s" 
    using run2 [unfolded w sum.case, THEN return_eqD] by blast+
  have asg: "wh_assignedToId w = Some userId"
    using buildCommon_org(3) [OF w _ assms(2)] by simp
  have staff: "member_grants s o' userId TICKET_VIEW_ALL" if o: "o' \<in> set (List.map m_organizationId ?ms)" for o'
  proof -
    obtain mv where mv: "mv \<in> set ?ms" "m_organizationId mv = o'" using o by auto
    then obtain m ps where m: "m \<in> set (memberships s)" "m_userId m = userId" "m_organizationId m = o'"
        "mv = with_role s m" and ps: "role_permissions mv = Some ps" "TICKET_VIEW_ALL \<in> set ps"
      by (auto simp: getStaffMemberships_def getTicketMembershipsByUserId_def split: option.splits)
    have "has (role_permissions (with_role s m)) TICKET_VIEW_ALL" using ps m(4) by (simp add: has_Some)
    then show ?thesis
      using find_membership_unique [OF assms(3) m(1)] has_with_role [of "with_role s m" s m TICKET_VIEW_ALL] m(2,3)
      by (simp add: member_grants_def)
  qed
  have "t_assignedToId v = Some userId \<and> member_grants s (t_organizationId v) userId TICKET_VIEW_ALL"
    if v: "v \<in> set vs" for v
  proof -
    obtain t where "v = ticket_with_people_and_tags s t" "t_assignedToId t = Some userId"
        "t_organizationId t \<in> set (List.map m_organizationId ?ms)"
      using v ok by (auto simp: vs getAgentTickets_def where_matches_def asg split: if_splits)
    then show ?thesis using staff by simp
  qed
  then show ?thesis using s' by blast
qed

definition example_agent_query :: ticket_filters where
  "example_agent_query = example_query\<lparr>f_status := None, f_priority := Some ''medium''\<rparr>"

definition example_assigned :: gateway where
  "example_assigned = example_gateway\<lparr>tickets := [example_ticket\<lparr>t_assignedToId := Some ''agt''\<rparr>]\<rparr>"

lemma example_agent_runs:
  "case fst (getMyAgentTicketsService (\<lambda>_. None) example_agent_query ''agt'' example_assigned) of
     Inl _ \<Rightarrow> False | Inr vs \<Rightarrow> List.map t_id vs = [''t1'']"
  by code_simp

lemma getMyAgentTicketsService_isolated_witness:
  "\<exists>vs. getMyAgentTicketsService (\<lambda>_. None) example_agent_query ''agt'' example_assigned = (Inr vs, example_assigned) \<and>
     vs \<noteq> [] \<and> (\<forall>v\<in>set vs. t_assignedToId v = Some ''agt'')"
proof -
  obtain vs s' where run: "getMyAgentTicketsService (\<lambda>_. None) example_agent_query ''agt'' example_assigned = (Inr vs, s')"
    and ne: "vs \<noteq> []"
    using example_agent_runs
    by (cases "getMyAgentTicketsService (\<lambda>_. None) example_agent_query ''agt'' example_assigned")
      (auto split: sum.splits)
  have "membership_rows_ok example_assigned"
    using example_good membership_rows_ok_cong [of example_assigned example_gateway]
    by (simp add: example_assigned_def good_def)
  from getMyAgentTicketsService_isolated [OF run _ this] run ne show ?thesis by auto
qed

subsection \<open>Statistics\<close>

lemma bump_counts:
  "foldl (\<lambda>acc t. bump (f t) acc) (List.map (\<lambda>n. (n, g n)) ns) ts =
     List.map (\<lambda>n. (n, g n + length (List.filter (\<lambda>t. f t = n) ts))) ns"
proof (induction ts arbitrary: g)
  case (Cons t ts)
  have "bump (f t) (List.map (\<lambda>n. (n, g n)) ns) = List.map (\<lambda>n. (n, if n = f t then g n + 1 else g n)) ns"
    by (auto simp: bump_def)
  then show ?case using Cons.IH by (auto simp: comp_def)
qed simp

text \<open>
  The statistics of an agent count the agent's own list: the total is its length, the
  counter of each status and of each priority is the number of its tickets with that value,
  and the status counters add up to the total.
\<close>

lemma getMyAgentStatsService_counts:
  assumes "getMyAgentStatsService parseDate query userId s = (Inr st, s')"
  shows "\<exists>vs. getMyAgentTicketsService parseDate query userId s = (Inr vs, s') \<and>
    st_totalAssigned st = length vs \<and>
    st_byStatus st = List.map (\<lambda>n. (n, length (List.filter (\<lambda>v. status_name (t_status v) = n) vs))) TICKET_STATUSES \<and>
    st_byPriority st = List.map (\<lambda>n. (n, length (List.filter (\<lambda>v. priority_name (t_priority v) = n) vs))) TICKET_PRIORITIES \<and>
    sum_list (List.map snd (st_byStatus st)) = st_totalAssigned st"
proof -
  obtain vs where vs: "getMyAgentTicketsService parseDate query userId s = (Inr vs, s')"
    and st: "st = \<lparr>st_totalAssigned = length vs,
            st_byStatus = foldl (\<lambda>acc t. bump (status_name (t_status t)) acc)
              (List.map (\<lambda>n. (n, 0)) TICKET_STATUSES) vs,
            st_byPriority = foldl (\<lambda>acc t. bump (priority_name (t_priority t)) acc)
              (List.map (\<lambda>n. (n, 0)) TICKET_PRIORITIES) vs\<rparr>"
    using assms unfolding getMyAgentStatsService_def
    by (cases "getMyAgentTicketsService parseDate query userId s";
        cases "fst (getMyAgentTicketsService parseDate query userId s)") simp_all
  have one: "status_name x = ''OPEN'' \<or> status_name x = ''IN_PROGRESS'' \<or> status_name x = ''RESOLVED'' \<or>
      status_name x = ''CLOSED''" for x by (cases x) simp_all
  have "sum_list (List.map (\<lambda>n. length (List.filter (\<lambda>v. status_name (t_status v) = n) vs)) TICKET_STATUSES) = length vs"
    by (induction vs) (use one in \<open>auto simp: TICKET_STATUSES_def\<close>)
  then show ?thesis
    unfolding st bump_counts [of _ "\<lambda>_. 0" _ vs, simplified]
    using vs by (simp add: comp_def)
qed

lemma getMyAgentStatsService_counts_witness:
  "\<exists>st s'. getMyAgentStatsService (\<lambda>_. None) example_agent_query ''agt'' example_assigned = (Inr st, s') \<and>
     sum_list (List.map snd (st_byStatus st)) = st_totalAssigned st"
proof -
  have "\<not> isl (fst (getMyAgentStatsService (\<lambda>_. None) example_agent_query ''agt'' example_assigned))"
    by code_simp
  then show ?thesis using getMyAgentStatsService_counts [OF run_ok] run_ok by blast
qed

end
