(* ===== verification/Ticket_Routes.thy ===== *)
theory Ticket_Routes
  imports Ticket_Views
begin

section \<open>Ticket routes and controllers\<close>

text \<open>
  ticket.routes.js, ticket.agent.routes.js and ticket.controller.js: the requests an
  authenticated user can make, the schema each route validates its body with, the service it
  calls and the status of its response. An error of the service goes to the error handler.
\<close>

datatype ticket_request =
    PostTag string string
  | GetTags "string option"
  | PostTicket ticket_body
  | GetTickets ticket_filters
  | GetTicket string
  | PatchAssign string string
  | PostAutoAssign string
  | PatchStatus string string
  | PatchTicket string update_body
  | GetActivity string
  | GetComments string
  | DeleteComment string string
  | DeleteAttachment string string
  | PostTicketTag string string
  | DeleteTicketTag string string
  | GetAttachments string
  | PostAttachment string string string int
  | PostComment string string "bool option"
  | GetMyTickets ticket_filters
  | GetMyStats ticket_filters
  | PatchMyAvailability string bool

datatype ticket_response =
    TicketData ticket_view
  | TicketsData "ticket_view list"
  | TagData tag
  | TagsData "tag list"
  | CommentData comment
  | CommentsData "comment list"
  | ActivitiesData "activity list"
  | AttachmentData attachment
  | AttachmentsData "attachment list"
  | TicketTagData ticket_tag_view
  | StatsData agent_stats
  | MembershipData membership

text \<open>
  What a request takes from its surroundings: the time zone, the host's date parser and URL
  test, the collation of the database, the current time and the ids of new rows.
\<close>

record request_env =
  env_tz :: int
  env_parseDate :: "string \<Rightarrow> time option"
  env_isUrl :: "string \<Rightarrow> bool"
  env_collate :: "string \<Rightarrow> int"
  env_now :: time
  env_newId :: string
  env_newActId :: string

definition respond ::
    "int \<Rightarrow> ('a \<Rightarrow> ticket_response) \<Rightarrow> 'a result \<times> gateway \<Rightarrow> ticket_response outcome \<times> gateway" where
  "respond status wrap r =
     (case r of (Inl e, s) \<Rightarrow> (Failed e, s) | (Inr x, s) \<Rightarrow> (Responded status (wrap x), s))"

abbreviation invalid_body :: "gateway \<Rightarrow> ticket_response outcome \<times> gateway" where
  "invalid_body s \<equiv> (Refused 400 ''Validation error'', s)"

subsection \<open>Controllers\<close>

text \<open>Each awaits its service and sends the result; an error goes to the error handler.\<close>

definition createTagController ::
    "request_env \<Rightarrow> string \<times> string \<Rightarrow> string \<Rightarrow> gateway \<Rightarrow> ticket_response outcome \<times> gateway" where
  [simp]: "createTagController env body u s =
     respond 201 TagData (createTagService (fst body) (snd body) u (env_newId env) s)"

definition getTagsController ::
    "request_env \<Rightarrow> string option \<Rightarrow> string \<Rightarrow> gateway \<Rightarrow> ticket_response outcome \<times> gateway" where
  [simp]: "getTagsController env orgId u s =
     respond 200 TagsData (getTagsService (env_collate env) orgId u s)"

definition createTicketController ::
    "request_env \<Rightarrow> ticket_body \<Rightarrow> string \<Rightarrow> gateway \<Rightarrow> ticket_response outcome \<times> gateway" where
  [simp]: "createTicketController env body u s =
     respond 201 TicketData (createTicketService (env_tz env) body u (env_now env) (env_newId env) (env_newActId env) s)"

definition getTicketsController ::
    "request_env \<Rightarrow> ticket_filters \<Rightarrow> string \<Rightarrow> gateway \<Rightarrow> ticket_response outcome \<times> gateway" where
  [simp]: "getTicketsController env q u s =
     respond 200 TicketsData (getTicketsService (env_parseDate env) q u s)"

definition getTicketByIdController ::
    "string \<Rightarrow> string \<Rightarrow> gateway \<Rightarrow> ticket_response outcome \<times> gateway" where
  [simp]: "getTicketByIdController i u s =
     respond 200 TicketData (getTicketByIdService i u s)"

definition assignTicketController ::
    "string \<Rightarrow> string \<Rightarrow> string \<Rightarrow> gateway \<Rightarrow> ticket_response outcome \<times> gateway" where
  [simp]: "assignTicketController i assignee u s =
     respond 200 TicketData (assignTicketService i assignee u s)"

definition autoAssignTicketController ::
    "request_env \<Rightarrow> string \<Rightarrow> string \<Rightarrow> gateway \<Rightarrow> ticket_response outcome \<times> gateway" where
  [simp]: "autoAssignTicketController env i u s =
     respond 200 TicketData (autoAssignTicketService (env_tz env) i u (env_now env) (env_newActId env) s)"

definition updateTicketStatusController ::
    "string \<Rightarrow> string \<Rightarrow> string \<Rightarrow> gateway \<Rightarrow> ticket_response outcome \<times> gateway" where
  [simp]: "updateTicketStatusController i st u s =
     respond 200 TicketData (updateTicketStatusService i (Some st) u s)"

definition updateTicketController ::
    "request_env \<Rightarrow> string \<Rightarrow> update_body \<Rightarrow> string \<Rightarrow> gateway \<Rightarrow> ticket_response outcome \<times> gateway" where
  [simp]: "updateTicketController env i body u s =
     respond 200 TicketData (updateTicketService i body u (env_now env) (env_newActId env) s)"

definition getTicketActivitiesController ::
    "string \<Rightarrow> string \<Rightarrow> gateway \<Rightarrow> ticket_response outcome \<times> gateway" where
  [simp]: "getTicketActivitiesController i u s =
     respond 200 ActivitiesData (getTicketActivitiesService i u s)"

definition getTicketCommentsController ::
    "string \<Rightarrow> string \<Rightarrow> gateway \<Rightarrow> ticket_response outcome \<times> gateway" where
  [simp]: "getTicketCommentsController i u s =
     respond 200 CommentsData (getTicketCommentsService i u s)"

definition deleteTicketCommentController ::
    "string \<Rightarrow> string \<Rightarrow> string \<Rightarrow> gateway \<Rightarrow> ticket_response outcome \<times> gateway" where
  [simp]: "deleteTicketCommentController i c u s =
     respond 200 CommentData (deleteTicketCommentService i c u s)"

definition deleteTicketAttachmentController ::
    "string \<Rightarrow> string \<Rightarrow> string \<Rightarrow> gateway \<Rightarrow> ticket_response outcome \<times> gateway" where
  [simp]: "deleteTicketAttachmentController i a u s =
     respond 200 AttachmentData (deleteTicketAttachmentService i a u s)"

definition addTicketTagController ::
    "string \<Rightarrow> string \<Rightarrow> string \<Rightarrow> gateway \<Rightarrow> ticket_response outcome \<times> gateway" where
  [simp]: "addTicketTagController i g u s =
     respond 201 TicketTagData (addTicketTagService i g u s)"

definition deleteTicketTagController ::
    "string \<Rightarrow> string \<Rightarrow> string \<Rightarrow> gateway \<Rightarrow> ticket_response outcome \<times> gateway" where
  [simp]: "deleteTicketTagController i g u s =
     respond 200 TicketTagData (deleteTicketTagService i g u s)"

definition getTicketAttachmentsController ::
    "string \<Rightarrow> string \<Rightarrow> gateway \<Rightarrow> ticket_response outcome \<times> gateway" where
  [simp]: "getTicketAttachmentsController i u s =
     respond 200 AttachmentsData (getTicketAttachmentsService i u s)"

definition createTicketAttachmentController ::
    "request_env \<Rightarrow> string \<Rightarrow> string \<Rightarrow> string \<Rightarrow> int \<Rightarrow> string \<Rightarrow> gateway \<Rightarrow> ticket_response outcome \<times> gateway" where
  [simp]: "createTicketAttachmentController env i url ty sz u s =
     respond 201 AttachmentData (createTicketAttachmentService i url ty sz u (env_now env) (env_newId env) s)"

definition createTicketCommentController ::
    "request_env \<Rightarrow> string \<Rightarrow> string \<Rightarrow> bool option \<Rightarrow> string \<Rightarrow> gateway \<Rightarrow> ticket_response outcome \<times> gateway" where
  [simp]: "createTicketCommentController env i msg internal u s =
     respond 201 CommentData (createTicketCommentService i msg internal u (env_now env) (env_newId env) s)"

definition getMyAgentTicketsController ::
    "request_env \<Rightarrow> ticket_filters \<Rightarrow> string \<Rightarrow> gateway \<Rightarrow> ticket_response outcome \<times> gateway" where
  [simp]: "getMyAgentTicketsController env q u s =
     respond 200 TicketsData (getMyAgentTicketsService (env_parseDate env) q u s)"

definition getMyAgentStatsController ::
    "request_env \<Rightarrow> ticket_filters \<Rightarrow> string \<Rightarrow> gateway \<Rightarrow> ticket_response outcome \<times> gateway" where
  [simp]: "getMyAgentStatsController env q u s =
     respond 200 StatsData (getMyAgentStatsService (env_parseDate env) q u s)"

definition updateMyAgentAvailabilityController ::
    "string \<Rightarrow> bool \<Rightarrow> string \<Rightarrow> gateway \<Rightarrow> ticket_response outcome \<times> gateway" where
  [simp]: "updateMyAgentAvailabilityController o' av u s =
     respond 200 MembershipData (updateMyAgentAvailabilityService o' av u s)"

subsection \<open>Router\<close>

fun ticket_router :: "request_env \<Rightarrow> string \<Rightarrow> ticket_request \<Rightarrow> gateway \<Rightarrow> ticket_response outcome \<times> gateway" where
  "ticket_router env u (PostTag orgId name) s =
     (case createTagSchema orgId name of None \<Rightarrow> invalid_body s | Some body \<Rightarrow> createTagController env body u s)"
| "ticket_router env u (GetTags orgId) s = getTagsController env orgId u s"
| "ticket_router env u (PostTicket d) s =
     (case createTicketSchema d of None \<Rightarrow> invalid_body s | Some d' \<Rightarrow> createTicketController env d' u s)"
| "ticket_router env u (GetTickets q) s = getTicketsController env q u s"
| "ticket_router env u (GetTicket i) s = getTicketByIdController i u s"
| "ticket_router env u (PatchAssign i a) s =
     (if \<not> assignTicketSchema a then invalid_body s else assignTicketController i a u s)"
| "ticket_router env u (PostAutoAssign i) s = autoAssignTicketController env i u s"
| "ticket_router env u (PatchStatus i st) s =
     (case updateTicketStatusSchema st of None \<Rightarrow> invalid_body s | Some n \<Rightarrow> updateTicketStatusController i n u s)"
| "ticket_router env u (PatchTicket i d) s =
     (case updateTicketSchema d of None \<Rightarrow> invalid_body s | Some d' \<Rightarrow> updateTicketController env i d' u s)"
| "ticket_router env u (GetActivity i) s = getTicketActivitiesController i u s"
| "ticket_router env u (GetComments i) s = getTicketCommentsController i u s"
| "ticket_router env u (DeleteComment i c) s = deleteTicketCommentController i c u s"
| "ticket_router env u (DeleteAttachment i a) s = deleteTicketAttachmentController i a u s"
| "ticket_router env u (PostTicketTag i g) s = (if g = [] then invalid_body s else addTicketTagController i g u s)"
| "ticket_router env u (DeleteTicketTag i g) s = deleteTicketTagController i g u s"
| "ticket_router env u (GetAttachments i) s = getTicketAttachmentsController i u s"
| "ticket_router env u (PostAttachment i url ty sz) s =
     (if \<not> createTicketAttachmentSchema (env_isUrl env) url ty sz then invalid_body s
      else createTicketAttachmentController env i url ty sz u s)"
| "ticket_router env u (PostComment i msg internal) s =
     (if \<not> createTicketCommentSchema msg then invalid_body s else createTicketCommentController env i msg internal u s)"
| "ticket_router env u (GetMyTickets q) s = getMyAgentTicketsController env q u s"
| "ticket_router env u (GetMyStats q) s = getMyAgentStatsController env q u s"
| "ticket_router env u (PatchMyAvailability o' av) s =
     (if o' = [] then invalid_body s else updateMyAgentAvailabilityController o' av u s)"

lemma snd_respond [simp]: "snd (respond st w r) = snd r"
  by (auto simp: respond_def split: prod.splits sum.splits)

end
