(* ===== verification/Ticket_Permitted.thy ===== *)
theory Ticket_Permitted
  imports Ticket_Routes
begin

section \<open>The access-control specification of the ticket module\<close>

text \<open>
  \<open>permitted u s s'\<close> is the abstract specification: one atomic change of the state that user
  \<open>u\<close> may cause, with the condition under which it is allowed, all in terms of the database.
  The refinement theorem says that every request to the ticket routes, successful or not, is a
  sequence of permitted steps; the invariants of the module are then proved on the steps.
\<close>

definition ticket_event_by :: "string \<Rightarrow> event \<Rightarrow> bool" where
  "ticket_event_by u e = (e_name e \<in> set ticket_event_names \<and> payload_field e ''actorId'' = Some u)"

text \<open>A row update that keeps the identity of the ticket.\<close>

definition same_ticket :: "ticket \<Rightarrow> ticket \<Rightarrow> bool" where
  "same_ticket t t' =
     (t_id t' = t_id t \<and> t_organizationId t' = t_organizationId t \<and> t_createdById t' = t_createdById t \<and>
      t_createdAt t' = t_createdAt t)"

abbreviation put_ticket :: "ticket \<Rightarrow> gateway \<Rightarrow> gateway" where
  "put_ticket t' s \<equiv> s\<lparr>tickets := update_rows (\<lambda>r. t_id r = t_id t') (\<lambda>_. t') (tickets s)\<rparr>"

definition agent_of :: "gateway \<Rightarrow> string \<Rightarrow> string \<Rightarrow> bool" where
  "agent_of s orgId a =
     (\<exists>m\<in>set (memberships s). m_userId m = a \<and> m_organizationId m = orgId \<and> m_isAvailable m \<and>
        (\<exists>r. find_role (m_roleId m) s = Some r \<and> r_name r = ''AGENT''))"

inductive permitted :: "string \<Rightarrow> gateway \<Rightarrow> gateway \<Rightarrow> bool" for u where
  cache: "cache_only s s' \<Longrightarrow> permitted u s s'"
| emit: "ticket_event_by u e \<Longrightarrow> permitted u s (s\<lparr>emitted := emitted s @ [e]\<rparr>)"
| create_ticket:
    "is_member s (t_organizationId t) u \<Longrightarrow> find_ticket (t_id t) s = None \<Longrightarrow> t_createdById t = u \<Longrightarrow>
     t_status t = OPEN \<Longrightarrow> (\<forall>a. t_assignedToId t = Some a \<longrightarrow> is_member s (t_organizationId t) a) \<Longrightarrow>
     permitted u s (s\<lparr>tickets := tickets s @ [t]\<rparr>)"
| edit_ticket:
    "find_ticket (t_id t) s = Some t \<Longrightarrow> same_ticket t t' \<Longrightarrow> is_member s (t_organizationId t) u \<Longrightarrow>
     member_grants s (t_organizationId t) u TICKET_EDIT_ALL \<or>
       canMemberViewTicket t u \<and> t_status t' = t_status t \<and> t_assignedToId t' = t_assignedToId t \<Longrightarrow>
     t_assignedToId t' = t_assignedToId t \<or>
       (\<exists>a. t_assignedToId t' = Some a \<and> is_member s (t_organizationId t) a) \<Longrightarrow>
     act_actorId x = u \<Longrightarrow> act_ticketId x = t_id t \<Longrightarrow> act_action x = TICKET_UPDATED \<Longrightarrow>
     permitted u s (put_ticket t' s\<lparr>activities := activities s @ [x]\<rparr>)"
| assign_ticket:
    "find_ticket (t_id t) s = Some t \<Longrightarrow> member_grants s (t_organizationId t) u TICKET_ASSIGN \<Longrightarrow>
     is_member s (t_organizationId t) a \<Longrightarrow> permitted u s (put_ticket (t\<lparr>t_assignedToId := Some a\<rparr>) s)"
| auto_assign:
    "find_ticket (t_id t) s = Some t \<Longrightarrow>
     member_grants s (t_organizationId t) u TICKET_ASSIGN \<or>
       is_member s (t_organizationId t) u \<and> t_createdById t = u \<and> t_status t = OPEN \<and> t_assignedToId t = None \<Longrightarrow>
     agent_of s (t_organizationId t) a \<Longrightarrow>
     act_actorId x = a \<Longrightarrow> act_ticketId x = t_id t \<Longrightarrow> act_action x = TICKET_ASSIGNED \<Longrightarrow>
     permitted u s (put_ticket (t\<lparr>t_assignedToId := Some a, t_status := IN_PROGRESS\<rparr>) s
       \<lparr>activities := activities s @ [x],
        workloads := upsert_workload a (t_organizationId t) now (workloads s)\<rparr>)"
| set_status:
    "find_ticket (t_id t) s = Some t \<Longrightarrow> member_grants s (t_organizationId t) u TICKET_EDIT_ALL \<Longrightarrow>
     permitted u s (put_ticket (t\<lparr>t_status := st\<rparr>) s)"
| add_comment:
    "find_ticket (c_ticketId c) s = Some t \<Longrightarrow> may_view s t u \<Longrightarrow> c_authorId c = Some u \<Longrightarrow> c_authorType c = USER \<Longrightarrow>
     (c_isInternal c \<longrightarrow> member_grants s (t_organizationId t) u TICKET_CREATE_INTERNAL_COMMENT) \<Longrightarrow>
     c_id c \<notin> c_id ` set (comments s) \<Longrightarrow> permitted u s (s\<lparr>comments := comments s @ [c]\<rparr>)"
| delete_comment:
    "getTicketCommentById (c_id c) s = Some c \<Longrightarrow> find_ticket (c_ticketId c) s = Some t \<Longrightarrow>
     is_member s (t_organizationId t) u \<Longrightarrow>
     member_grants s (t_organizationId t) u TICKET_DELETE_ANY_COMMENT \<or>
       canMemberViewTicket t u \<and> c_authorId c = Some u \<Longrightarrow>
     permitted u s (s\<lparr>comments := delete_rows (\<lambda>r. c_id r = c_id c) (comments s)\<rparr>)"
| add_attachment:
    "find_ticket (a_ticketId a) s = Some t \<Longrightarrow> may_view s t u \<Longrightarrow> a_uploadedBy a = u \<Longrightarrow>
     a_id a \<notin> a_id ` set (attachments s) \<Longrightarrow> permitted u s (s\<lparr>attachments := attachments s @ [a]\<rparr>)"
| delete_attachment:
    "getTicketAttachmentById (a_id a) s = Some a \<Longrightarrow> find_ticket (a_ticketId a) s = Some t \<Longrightarrow>
     is_member s (t_organizationId t) u \<Longrightarrow>
     member_grants s (t_organizationId t) u TICKET_DELETE_ANY_ATTACHMENT \<or>
       canMemberViewTicket t u \<and> a_uploadedBy a = u \<Longrightarrow>
     permitted u s (s\<lparr>attachments := delete_rows (\<lambda>r. a_id r = a_id a) (attachments s)\<rparr>)"
| create_tag:
    "member_grants s (tag_organizationId g) u TICKET_EDIT_ALL \<Longrightarrow>
     getTagByName (tag_organizationId g) (tag_name g) s = None \<Longrightarrow> getTagById (tag_id g) s = None \<Longrightarrow>
     permitted u s (s\<lparr>tags := tags s @ [g]\<rparr>)"
| tag_ticket:
    "find_ticket (tt_ticketId tt) s = Some t \<Longrightarrow> getTagById (tt_tagId tt) s = Some g \<Longrightarrow>
     tag_organizationId g = t_organizationId t \<Longrightarrow> member_grants s (t_organizationId t) u TICKET_EDIT_ALL \<Longrightarrow>
     tt \<notin> set (ticketTags s) \<Longrightarrow> permitted u s (s\<lparr>ticketTags := ticketTags s @ [tt]\<rparr>)"
| untag_ticket:
    "find_ticket i s = Some t \<Longrightarrow> member_grants s (t_organizationId t) u TICKET_EDIT_ALL \<Longrightarrow>
     permitted u s (s\<lparr>ticketTags := delete_rows (\<lambda>r. tt_ticketId r = i \<and> tt_tagId r = g) (ticketTags s)\<rparr>)"
| availability:
    "member_grants s orgId u AGENT_UPDATE_AVAILABILITY \<Longrightarrow>
     permitted u s (invalidateOrganizationMembershipCache orgId u
       (s\<lparr>memberships := update_rows (\<lambda>m. m_userId m = u \<and> m_organizationId m = orgId)
          (\<lambda>m. m\<lparr>m_isAvailable := av\<rparr>) (memberships s)\<rparr>))"

abbreviation permitted_run :: "string \<Rightarrow> gateway \<Rightarrow> gateway \<Rightarrow> bool" where
  "permitted_run u \<equiv> (permitted u)\<^sup>*\<^sup>*"

lemma permitted_one: "permitted u s s' \<Longrightarrow> permitted_run u s s'"
  by (rule r_into_rtranclp)

lemma permitted_cache: "cache_only s s' \<Longrightarrow> permitted_run u s s'"
  by (rule permitted_one) (rule permitted.cache)

lemma permitted_emit: "n \<in> set ticket_event_names \<Longrightarrow> permitted_run u s (emitTicketEvent n t o' u md s)"
  unfolding emitTicketEvent_def
  by (intro permitted_one permitted.emit) (simp add: ticket_event_by_def payload_field_def)

end
