(* ===== verification/Ticket_Refine.thy ===== *)
theory Ticket_Refine
  imports Ticket_Permitted
begin

section \<open>Refinement: requests are sequences of permitted steps\<close>

subsection \<open>Rules for the guards\<close>

lemma cache_only_finds:
  assumes "cache_only s s'"
  shows "find_ticket i s' = find_ticket i s" "getTagById g s' = getTagById g s"
    "getTicketCommentById c s' = getTicketCommentById c s" "getTicketAttachmentById a s' = getTicketAttachmentById a s"
    "may_view s' t u = may_view s t u" "find_user v s' = find_user v s" "find_organization o' s' = find_organization o' s"
    "agent_of s' o' v = agent_of s o' v"
  using cache_onlyD [OF assms]
  by (simp_all add: find_ticket_def getTagById_def getTicketCommentById_def getTicketAttachmentById_def
      may_view_def find_user_def find_organization_def agent_of_def find_role_def)

lemma run_with_ticket:
  assumes "\<And>t. find_ticket i s = Some t \<Longrightarrow> t_id t = i \<Longrightarrow> i \<noteq> [] \<Longrightarrow> permitted_run u s (snd (k (ticket_with_all s t)))"
  shows "permitted_run u s (snd (with_ticket i s k))"
  using assms by (auto simp: with_ticket_eq dest: find_ticket_SomeD split: option.splits)

lemma run_with_member:
  assumes "good s"
    and "\<And>mv s1. good s1 \<Longrightarrow> cache_only s s1 \<Longrightarrow> is_member s1 o' v \<Longrightarrow>
       (\<And>p. p \<noteq> [] \<Longrightarrow> has (role_permissions mv) p = member_grants s1 o' v p) \<Longrightarrow>
       permitted_run u s1 (snd (k mv s1))"
  shows "permitted_run u s (snd (with_member o' v e s k))"
proof (rule with_member_eq [OF assms(1), of o' v e k])
  fix mv s1
  assume c: "cache_only s s1" "good s1"
    and w: "with_member o' v e s k = (if is_member s o' v then k mv s1 else (Inl e, s1))"
    and h: "\<And>p. p \<noteq> [] \<Longrightarrow> is_member s o' v \<Longrightarrow> has (role_permissions mv) p = member_grants s o' v p"
  have "permitted_run u s s1" using c(1) by (rule permitted_cache)
  moreover have "permitted_run u s1 (snd (k mv s1))" if "is_member s o' v"
    using assms(2) [OF c(2,1)] h that by (simp add: cache_onlyD [OF c(1)])
  ultimately show ?thesis by (auto simp: w)
qed

lemma run_validate:
  assumes "good s"
  shows "\<exists>s1. snd (validateTicketAssignee o' a s) = s1 \<and> cache_only s s1 \<and> good s1 \<and>
    (fst (validateTicketAssignee o' a s) = Inr () \<longrightarrow> (\<forall>v. a = Some v \<longrightarrow> v \<noteq> [] \<longrightarrow> is_member s1 o' v))"
proof (cases "validateTicketAssignee o' a s")
  case (Pair r s1)
  show ?thesis
  proof (cases r)
    case (Inr x)
    then have run: "validateTicketAssignee o' a s = (Inr (), s1)" using Pair by simp
    show ?thesis
      by (rule validateTicketAssignee_InrE [OF run assms]) (auto simp: run cache_onlyD)
  next
    case (Inl e)
    then have run: "validateTicketAssignee o' a s = (Inl e, s1)" using Pair by simp
    then have "cache_only s s1"
      unfolding validateTicketAssignee_def
      by (auto split: if_splits elim!: with_member_InlE)
    then show ?thesis using run assms by (auto simp: cache_onlyD)
  qed
qed

lemma run_then_emit:
  "permitted u s s1 \<Longrightarrow> n \<in> set ticket_event_names \<Longrightarrow> permitted_run u s (emitTicketEvent n t o' u md s1)"
  by (rule rtranclp_trans [OF permitted_one permitted_emit])

lemma event_name_registered [simp]:
  "TICKET_CREATED_EVENT \<in> set ticket_event_names" "TICKET_ASSIGNED_EVENT \<in> set ticket_event_names"
  "TICKET_STATUS_CHANGED_EVENT \<in> set ticket_event_names" "TICKET_COMMENT_ADDED_EVENT \<in> set ticket_event_names"
  "TICKET_COMMENT_DELETED_EVENT \<in> set ticket_event_names" "TICKET_TAG_ADDED_EVENT \<in> set ticket_event_names"
  "TICKET_TAG_REMOVED_EVENT \<in> set ticket_event_names" "TICKET_ATTACHMENT_ADDED_EVENT \<in> set ticket_event_names"
  "TICKET_ATTACHMENT_DELETED_EVENT \<in> set ticket_event_names"
  by (simp_all add: ticket_event_names_def)

lemmas policy_defs = canViewAllOrganizationTickets_def canEditAllOrganizationTickets_def
  canAssignOrganizationTickets_def canCreateInternalComment_def canDeleteAnyTicketComment_def
  canDeleteAnyTicketAttachment_def

lemma may_viewI:
  "is_member s (t_organizationId t) u \<Longrightarrow>
     member_grants s (t_organizationId t) u TICKET_VIEW_ALL \<or> canMemberViewTicket t u \<Longrightarrow> may_view s t u"
  by (simp add: may_view_def)

lemma run_bind:
  assumes "\<And>r s2. W = (r, s2) \<Longrightarrow> permitted_run u s s2"
    and "\<And>x s2. W = (Inr x, s2) \<Longrightarrow> permitted_run u s2 (snd (K x s2))"
  shows "permitted_run u s (snd (case W of (Inl e, s2) \<Rightarrow> throw e s2 | (Inr x, s2) \<Rightarrow> K x s2))"
proof (cases W)
  case (Pair r s2)
  then show ?thesis using assms by (cases r) (auto intro: rtranclp_trans)
qed

lemma run_if:
  "permitted_run u s (snd a) \<Longrightarrow> (\<not> b \<Longrightarrow> permitted_run u s (snd c)) \<Longrightarrow> permitted_run u s (snd (if b then a else c))"
  by simp

lemma run_done: "permitted_run u s (snd (r, s))"
  by simp

lemma run_emit: "n \<in> set ticket_event_names \<Longrightarrow> permitted_run u s (snd (r, emitTicketEvent n t o' u md s))"
  by (simp add: permitted_emit)

lemmas run_rules = run_if run_done run_emit event_name_registered

subsection \<open>Comments\<close>

lemma createTicketComment_permitted:
  assumes "createTicketComment i d now n s = (r, s')" "find_ticket i s = Some t" "t_id t = i" "may_view s t u"
    "cd_authorId d = Some u" "cd_authorType d = USER"
    "cd_isInternal d \<Longrightarrow> member_grants s (t_organizationId t) u TICKET_CREATE_INTERNAL_COMMENT"
  shows "permitted_run u s s'"
proof (cases r)
  case (Inl e)
  then show ?thesis using assms(1) by (auto simp: createTicketComment_def Let_def split: if_splits)
next
  case (Inr c)
  then have "s' = s\<lparr>comments := comments s @ [c]\<rparr>" "c_ticketId c = i" "c_authorId c = Some u"
      "c_authorType c = USER" "c_isInternal c = cd_isInternal d" "c_id c \<notin> c_id ` set (comments s)"
    using assms(1,5,6) by (auto simp: createTicketComment_def Let_def split: if_splits)
  then show ?thesis using assms(2-4,7) by (auto intro!: permitted_one permitted.add_comment)
qed

lemma createTicketCommentService_permitted:
  assumes "good s"
  shows "permitted_run u s (snd (createTicketCommentService i msg b u now n s))"
  unfolding createTicketCommentService_def Let_def
proof (rule run_with_ticket, simp only: with_role_fields_ticket, rule run_with_member [OF assms],
    (rule run_rules run_bind | assumption)+, goal_cases)
  case (1 t mv s1 r s2)
  then show ?case
    by (intro createTicketComment_permitted [OF 1(10)])
      (auto simp: cache_only_finds(1-4) policy_defs intro: may_viewI)
qed (auto intro: permitted_emit)

lemma deleteTicketComment_permitted:
  assumes "deleteTicketComment cid s = (r, s')" "getTicketCommentById cid s = Some c"
    "find_ticket (c_ticketId c) s = Some t" "is_member s (t_organizationId t) u"
    "member_grants s (t_organizationId t) u TICKET_DELETE_ANY_COMMENT \<or>
       canMemberViewTicket t u \<and> c_authorId c = Some u"
  shows "permitted_run u s s'"
proof -
  have "c_id c = cid" using assms(2) by (auto simp: getTicketCommentById_def dest: find_unique_SomeD)
  moreover have "s' = s\<lparr>comments := delete_rows (\<lambda>r. c_id r = cid) (comments s)\<rparr>"
    using assms(1,2) by (simp add: deleteTicketComment_def)
  ultimately show ?thesis using assms(2-5) by (auto intro!: permitted_one permitted.delete_comment)
qed

lemma deleteTicketCommentService_permitted:
  assumes "good s"
  shows "permitted_run u s (snd (deleteTicketCommentService i cid u s))"
  unfolding deleteTicketCommentService_def
proof (rule run_with_ticket, simp only: with_role_fields_ticket, goal_cases)
  case (1 t)
  show ?case
  proof (cases "getTicketCommentById cid s")
    case (Some c)
    show ?thesis
      unfolding Some option.case
    proof (rule run_if, rule run_done, rule run_with_member [OF assms],
        (rule run_rules run_bind | assumption)+, goal_cases)
      case (1 mv s1 r s2)
      then show ?case using Some \<open>find_ticket i s = Some t\<close>
        by (intro deleteTicketComment_permitted [OF 1(7), of c t])
          (auto simp: cache_only_finds(1-4) policy_defs)
    qed (auto intro: permitted_emit)
  qed simp
qed

lemma no_write_permitted:
  "good s \<Longrightarrow> permitted_run u s (snd (getTicketCommentsService i u s))"
  "good s \<Longrightarrow> permitted_run u s (snd (getTicketActivitiesService i u s))"
  "good s \<Longrightarrow> permitted_run u s (snd (getTicketAttachmentsService i u s))"
  "good s \<Longrightarrow> permitted_run u s (snd (getTicketByIdService i u s))"
  "good s \<Longrightarrow> permitted_run u s (snd (getTagsService collate o' u s))"
  unfolding getTicketCommentsService_def getTicketActivitiesService_def getTicketAttachmentsService_def
    getTicketByIdService_def getTagsService_def
  by (rule run_with_ticket run_with_member run_rules | assumption | simp only: with_role_fields_ticket)+

lemma list_permitted:
  assumes "good s"
  shows "permitted_run u s (snd (getTicketsService pd q u s))"
    "permitted_run u s (snd (getMyAgentTicketsService pd q u s))"
    "permitted_run u s (snd (getMyAgentStatsService pd q u s))"
proof -
  show 1: "permitted_run u s (snd (getTicketsService pd q u s))"
  proof (cases "validateListFilters pd True (normalizeTicketFilters q)")
    case (Inr x)
    show ?thesis
      unfolding getTicketsService_def Let_def Inr sum.case
      by (rule run_with_member [OF assms]) (simp split: sum.split)
  qed (simp add: getTicketsService_def Let_def)
  have my: "snd (getMyAgentTicketsService pd q u s) = s"
    by (simp add: getMyAgentTicketsService_def Let_def split: sum.split)
  then show "permitted_run u s (snd (getMyAgentTicketsService pd q u s))" by simp
  have "snd (getMyAgentStatsService pd q u s) = s"
    using my by (auto simp: getMyAgentStatsService_def split: prod.split sum.split)
  then show "permitted_run u s (snd (getMyAgentStatsService pd q u s))" by simp
qed

subsection \<open>Attachments\<close>

lemma createTicketAttachment_permitted:
  assumes "createTicketAttachment i d now n s = (r, s')" "find_ticket i s = Some t" "may_view s t u"
    "atd_uploadedBy d = u"
  shows "permitted_run u s s'"
proof (cases r)
  case (Inl e)
  then show ?thesis using assms(1) by (auto simp: createTicketAttachment_def Let_def split: if_splits)
next
  case (Inr a)
  then have "s' = s\<lparr>attachments := attachments s @ [a]\<rparr>" "a_ticketId a = i" "a_uploadedBy a = u"
      "a_id a \<notin> a_id ` set (attachments s)"
    using assms(1,4) by (auto simp: createTicketAttachment_def Let_def split: if_splits)
  then show ?thesis using assms(2,3) by (auto intro!: permitted_one permitted.add_attachment)
qed

lemma createTicketAttachmentService_permitted:
  assumes "good s"
  shows "permitted_run u s (snd (createTicketAttachmentService i url ty sz u now n s))"
  unfolding createTicketAttachmentService_def
proof (rule run_with_ticket, simp only: with_role_fields_ticket, rule run_with_member [OF assms],
    (rule run_rules run_bind | assumption)+, goal_cases)
  case (1 t mv s1 r s2)
  then show ?case
    by (intro createTicketAttachment_permitted [OF 1(9)])
      (auto simp: cache_only_finds(1-4) policy_defs intro: may_viewI)
qed (auto intro: permitted_emit)

lemma deleteTicketAttachment_permitted:
  assumes "deleteTicketAttachment aid s = (r, s')" "getTicketAttachmentById aid s = Some a"
    "find_ticket (a_ticketId a) s = Some t" "is_member s (t_organizationId t) u"
    "member_grants s (t_organizationId t) u TICKET_DELETE_ANY_ATTACHMENT \<or>
       canMemberViewTicket t u \<and> a_uploadedBy a = u"
  shows "permitted_run u s s'"
proof -
  have "a_id a = aid" using assms(2) by (auto simp: getTicketAttachmentById_def dest: find_unique_SomeD)
  moreover have "s' = s\<lparr>attachments := delete_rows (\<lambda>r. a_id r = aid) (attachments s)\<rparr>"
    using assms(1,2) by (simp add: deleteTicketAttachment_def)
  ultimately show ?thesis using assms(2-5) by (auto intro!: permitted_one permitted.delete_attachment)
qed

lemma deleteTicketAttachmentService_permitted:
  assumes "good s"
  shows "permitted_run u s (snd (deleteTicketAttachmentService i aid u s))"
  unfolding deleteTicketAttachmentService_def
proof (rule run_with_ticket, simp only: with_role_fields_ticket, goal_cases)
  case (1 t)
  show ?case
  proof (cases "getTicketAttachmentById aid s")
    case (Some a)
    show ?thesis
      unfolding Some option.case
    proof (rule run_if, rule run_done, rule run_with_member [OF assms],
        (rule run_rules run_bind | assumption)+, goal_cases)
      case (1 mv s1 r s2)
      then show ?case using Some \<open>find_ticket i s = Some t\<close>
        by (intro deleteTicketAttachment_permitted [OF 1(7), of a t])
          (auto simp: cache_only_finds(1-4) policy_defs)
    qed (auto intro: permitted_emit)
  qed simp
qed

subsection \<open>Tags and availability\<close>

lemma createTag_permitted:
  assumes "createTag o' name n s = (r, s')" "member_grants s o' u TICKET_EDIT_ALL"
  shows "permitted_run u s s'"
proof (cases r)
  case (Inl e)
  then show ?thesis using assms(1) by (auto simp: createTag_def Let_def split: if_splits)
next
  case (Inr g)
  then have "s' = s\<lparr>tags := tags s @ [g]\<rparr>" "tag_organizationId g = o'"
      "getTagByName o' (tag_name g) s = None" "getTagById (tag_id g) s = None"
    using assms(1)
    by (auto simp: createTag_def Let_def getTagByName_def getTagById_def find_unique_None_iff split: if_splits)
  then show ?thesis using assms(2) by (auto intro!: permitted_one permitted.create_tag)
qed

lemma createTagService_permitted:
  assumes "good s"
  shows "permitted_run u s (snd (createTagService o' name u n s))"
  unfolding createTagService_def Let_def
proof (rule run_with_member [OF assms], (rule run_rules run_bind | assumption)+, goal_cases)
  case (1 mv s1 r s2)
  then show ?case by (intro createTag_permitted [OF 1(7)]) (simp add: policy_defs)
qed auto

lemma addTagToTicket_permitted:
  assumes "addTagToTicket i gid s = (r, s')" "find_ticket i s = Some t" "getTagById gid s = Some g"
    "tag_organizationId g = t_organizationId t" "member_grants s (t_organizationId t) u TICKET_EDIT_ALL"
  shows "permitted_run u s s'"
proof (cases r)
  case (Inl e)
  then show ?thesis using assms(1) by (auto simp: addTagToTicket_def Let_def split: if_splits)
next
  case (Inr x)
  let ?tt = "\<lparr>tt_ticketId = i, tt_tagId = gid\<rparr>"
  have "s' = s\<lparr>ticketTags := ticketTags s @ [?tt]\<rparr>" "find_ticket_tag i gid s = None"
    using Inr assms(1) by (auto simp: addTagToTicket_def Let_def split: if_splits)
  moreover have "?tt \<notin> set (ticketTags s)"
    using calculation(2) by (auto simp: find_ticket_tag_def find_unique_None_iff)
  ultimately show ?thesis using assms(2-5) by (auto intro!: permitted_one permitted.tag_ticket)
qed

lemma run_tag_name:
  "(\<And>n. permitted_run u s (snd (k n))) \<Longrightarrow>
     permitted_run u s (snd (case tag_name_of tt of Inl e \<Rightarrow> throw e s | Inr n \<Rightarrow> k n))"
  by (cases "tag_name_of tt") simp_all

lemma addTicketTagService_permitted:
  assumes "good s"
  shows "permitted_run u s (snd (addTicketTagService i gid u s))"
  unfolding addTicketTagService_def
proof (rule run_with_ticket, simp only: with_role_fields_ticket, rule run_with_member [OF assms],
    rule run_if, rule run_done, goal_cases)
  case (1 t mv s1)
  show ?case
  proof (cases "getTagById gid s1")
    case (Some g)
    show ?thesis
      unfolding Some option.case
    proof ((rule run_rules run_bind run_tag_name | assumption)+, goal_cases)
      case (1 r s2)
      then show ?case using Some \<open>find_ticket i s = Some t\<close> \<open>cache_only s s1\<close>
          \<open>\<not> \<not> canEditAllOrganizationTickets (role_permissions mv)\<close>
          \<open>\<And>p. p \<noteq> [] \<Longrightarrow> has (role_permissions mv) p = member_grants s1 (t_organizationId t) u p\<close>
        by (intro addTagToTicket_permitted [OF 1(3), of t g])
          (auto simp: cache_only_finds(1) policy_defs)
    qed (rule run_rules run_tag_name)+
  qed simp
qed

lemma deleteTicketTag_permitted:
  assumes "deleteTicketTag i gid s = (r, s')" "find_ticket i s = Some t"
    "member_grants s (t_organizationId t) u TICKET_EDIT_ALL"
  shows "permitted_run u s s'"
  using assms(1) permitted_one [OF permitted.untag_ticket [OF assms(2,3), of gid]]
  by (auto simp: deleteTicketTag_def split: option.splits)

lemma deleteTicketTagService_permitted:
  assumes "good s"
  shows "permitted_run u s (snd (deleteTicketTagService i gid u s))"
  unfolding deleteTicketTagService_def
proof (rule run_with_ticket, simp only: with_role_fields_ticket, rule run_with_member [OF assms],
    (rule run_rules run_bind run_tag_name | assumption)+, goal_cases)
  case (1 t mv s1 r s2)
  then show ?case
    by (intro deleteTicketTag_permitted [OF 1(10), of t]) (auto simp: cache_only_finds(1) policy_defs)
qed (rule run_rules run_tag_name)+

lemma updateAgentAvailability_permitted:
  assumes "updateAgentAvailability o' u av s = (r, s')" "member_grants s o' u AGENT_UPDATE_AVAILABILITY"
  shows "permitted_run u s s'"
  using assms(1) permitted_one [OF permitted.availability [OF assms(2), of av]]
  by (auto simp: updateAgentAvailability_def split: option.splits)

lemma updateMyAgentAvailabilityService_permitted:
  assumes "good s"
  shows "permitted_run u s (snd (updateMyAgentAvailabilityService o' av u s))"
  unfolding updateMyAgentAvailabilityService_def
proof (rule run_with_member [OF assms], (rule run_rules run_bind | assumption)+, goal_cases)
  case (1 mv s1 r s2)
  have "has (role_permissions mv) AGENT_UPDATE_AVAILABILITY"
    using 1(5) by (auto simp: has_Some split: option.splits)
  then show ?case using 1 by (intro updateAgentAvailability_permitted [OF 1(6)]) simp
qed auto

subsection \<open>Updates of a ticket\<close>

lemma updateTicket_permitted:
  assumes "updateTicket i d u now n s = (r, s')" "find_ticket i s = Some t" "t_id t = i"
    "is_member s (t_organizationId t) u"
    "member_grants s (t_organizationId t) u TICKET_EDIT_ALL \<or>
       canMemberViewTicket t u \<and> fst ` set d \<subseteq> own_fields"
    "\<And>a. (''assignedToId'', a) \<in> set d \<Longrightarrow> is_member s (t_organizationId t) a"
  shows "permitted_run u s s'"
proof (cases r)
  case (Inl e)
  then show ?thesis using assms(1) by (auto simp: updateTicket_def Let_def split: option.splits sum.splits if_splits)
next
  case (Inr v)
  then obtain t' where t': "apply_update_fields d t = Inr t'"
    and s': "s' = s\<lparr>tickets := update_rows (\<lambda>r. t_id r = i) (\<lambda>_. t') (tickets s),
      activities := activities s @ [\<lparr>act_id = n, act_ticketId = i, act_actorId = u,
        act_action = TICKET_UPDATED, act_oldValue = None, act_newValue = None, act_createdAt = now\<rparr>]\<rparr>"
    using assms(1,2) by (auto simp: updateTicket_def Let_def split: sum.splits if_splits)
  note keep = apply_update_fields_keep [OF t'] and asg = apply_update_fields_assignee [OF t']
  have own: "t_status t' = t_status t \<and> t_assignedToId t' = t_assignedToId t" if "fst ` set d \<subseteq> own_fields"
  proof -
    have "''status'' \<notin> fst ` set d" using that by (auto simp: own_fields_def)
    moreover have "(''assignedToId'', v) \<notin> set d" for v
      using that imageI [of "(''assignedToId'', v)" "set d" fst] by (auto simp: own_fields_def)
    ultimately show ?thesis using apply_update_fields_status [OF t'] asg by blast
  qed
  have auth: "member_grants s (t_organizationId t) u TICKET_EDIT_ALL \<or>
      canMemberViewTicket t u \<and> t_status t' = t_status t \<and> t_assignedToId t' = t_assignedToId t"
    using assms(5) own by blast
  have mem: "t_assignedToId t' = t_assignedToId t \<or>
       (\<exists>a. t_assignedToId t' = Some a \<and> is_member s (t_organizationId t) a)"
    using asg assms(6) by blast
  have "find_ticket (t_id t) s = Some t" "same_ticket t t'"
    using assms(2,3) keep by (simp_all add: same_ticket_def)
  from permitted.edit_ticket [OF this assms(4) auth mem, of "\<lparr>act_id = n, act_ticketId = i, act_actorId = u,
        act_action = TICKET_UPDATED, act_oldValue = None, act_newValue = None, act_createdAt = now\<rparr>"]
  show ?thesis using assms(3) keep(1) by (auto simp: s' intro!: permitted_one)
qed

lemma updateTicketService_permitted:
  assumes "good s" "ub_assignedToId d \<noteq> Some []"
  shows "permitted_run u s (snd (updateTicketService i d u now n s))"
  unfolding updateTicketService_def Let_def
proof (rule run_with_ticket, simp only: with_role_fields_ticket, rule run_with_member [OF assms(1)], goal_cases)
  case (1 t mv s1)
  let ?d = "getProvidedUpdateFields (normalizeTicketUpdateFields d)"
  have a: "map_of ?d ''assignedToId'' = ub_assignedToId d"
    by (cases "ub_title d"; cases "ub_description d"; cases "ub_priority d"; cases "ub_status d";
        cases "ub_assignedToId d") (simp_all add: normalizeTicketUpdateFields_def)
  have pa: "ub_assignedToId d = Some x" if "(''assignedToId'', x) \<in> set ?d" for x
    using that by (auto simp: provided_fields normalizeTicketUpdateFields_def)
  show ?case
  proof (cases "assertCanUpdateTicket mv (ticket_with_all s t) u ?d")
    case (Inr x)
    then have auth: "member_grants s1 (t_organizationId t) u TICKET_EDIT_ALL \<or>
        canMemberViewTicket t u \<and> fst ` set ?d \<subseteq> own_fields"
      using 1(7) by (auto simp: assertCanUpdateTicket_ok_iff policy_defs own_fields_def)
    obtain s2 where v: "snd (validateTicketAssignee (t_organizationId t) (ub_assignedToId d) s1) = s2"
        "cache_only s1 s2" "good s2"
        "fst (validateTicketAssignee (t_organizationId t) (ub_assignedToId d) s1) = Inr () \<Longrightarrow>
           ub_assignedToId d = Some x \<Longrightarrow> x \<noteq> [] \<Longrightarrow> is_member s2 (t_organizationId t) x" for x
      using run_validate [OF 1(4), of "t_organizationId t" "ub_assignedToId d"] by blast
    show ?thesis
      unfolding Inr sum.case a
    proof (rule run_bind, goal_cases)
      case (1 r s2')
      then show ?case using v(1,2) by (auto intro: permitted_cache)
    next
      case (2 y s2')
      then have s2': "s2' = s2" and ok: "fst (validateTicketAssignee (t_organizationId t) (ub_assignedToId d) s1) = Inr ()"
        using v(1) by auto
      show ?case
        unfolding s2'
      proof (rule run_bind, goal_cases)
        case (1 r s3)
        have f1: "find_ticket i s2 = Some t"
          using \<open>find_ticket i s = Some t\<close> \<open>cache_only s s1\<close> v(2) by (simp add: cache_only_finds(1))
        have f2: "is_member s2 (t_organizationId t) u"
          using \<open>is_member s1 (t_organizationId t) u\<close> by (simp add: cache_onlyD(17) [OF v(2)])
        have f3: "member_grants s2 (t_organizationId t) u TICKET_EDIT_ALL \<or>
            canMemberViewTicket t u \<and> fst ` set ?d \<subseteq> own_fields"
          using auth by (simp add: cache_onlyD(16) [OF v(2)])
        have f4: "is_member s2 (t_organizationId t) x" if "(''assignedToId'', x) \<in> set ?d" for x
        proof (rule v(4) [OF ok pa [OF that]])
          show "x \<noteq> []" using pa [OF that] assms(2) by auto
        qed
        show ?case by (rule updateTicket_permitted [OF 1 f1 \<open>t_id t = i\<close> f2 f3 f4])
      qed (rule run_rules)+
    qed
  qed simp
qed

lemma assignTicket_permitted:
  assumes "assignTicket i a u prev s = (r, s')" "find_ticket i s = Some t" "t_id t = i"
    "member_grants s (t_organizationId t) u TICKET_ASSIGN" "is_member s (t_organizationId t) a"
  shows "permitted_run u s s'"
  using assms(1,2,3) permitted_one [OF permitted.assign_ticket [OF _ assms(4,5)]]
  by (auto simp: assignTicket_def Let_def split: if_splits)

lemma assignTicketService_permitted:
  assumes "good s" "a \<noteq> []"
  shows "permitted_run u s (snd (assignTicketService i a u s))"
  unfolding assignTicketService_def
proof (rule run_with_ticket, simp only: with_role_fields_ticket, rule run_with_member [OF assms(1)],
    rule run_if, rule run_done, goal_cases)
  case (1 t mv s1)
  obtain s2 where v: "snd (validateTicketAssignee (t_organizationId t) (Some a) s1) = s2"
      "cache_only s1 s2" "good s2"
      "fst (validateTicketAssignee (t_organizationId t) (Some a) s1) = Inr () \<Longrightarrow> is_member s2 (t_organizationId t) a"
    using run_validate [OF 1(4), of "t_organizationId t" "Some a"] assms(2) by blast
  show ?case
  proof (rule run_bind, goal_cases)
    case (1 r s2')
    then show ?case using v(1,2) by (auto intro: permitted_cache)
  next
    case (2 y s2')
    then have s2': "s2' = s2" and ok: "fst (validateTicketAssignee (t_organizationId t) (Some a) s1) = Inr ()"
      using v(1) by auto
    show ?case
      unfolding s2'
    proof (rule run_bind, goal_cases)
      case (1 r s3)
      have f1: "find_ticket i s2 = Some t"
        using \<open>find_ticket i s = Some t\<close> \<open>cache_only s s1\<close> v(2) by (simp add: cache_only_finds(1))
      have "member_grants s1 (t_organizationId t) u TICKET_ASSIGN"
        using \<open>\<not> \<not> canAssignOrganizationTickets (role_permissions mv)\<close>
          \<open>\<And>p. p \<noteq> [] \<Longrightarrow> has (role_permissions mv) p = member_grants s1 (t_organizationId t) u p\<close>
        by (simp add: policy_defs)
      then have f3: "member_grants s2 (t_organizationId t) u TICKET_ASSIGN"
        by (simp add: cache_onlyD(16) [OF v(2)])
      show ?case by (rule assignTicket_permitted [OF 1 f1 \<open>t_id t = i\<close> f3 v(4) [OF ok]])
    qed (rule run_rules)+
  qed
qed

lemma updateTicketStatus_permitted:
  assumes "updateTicketStatus i st u prev s = (r, s')" "find_ticket i s = Some t" "t_id t = i"
    "member_grants s (t_organizationId t) u TICKET_EDIT_ALL"
  shows "permitted_run u s s'"
  using assms(1,2,3) permitted_one [OF permitted.set_status [OF _ assms(4)]]
  by (auto simp: updateTicketStatus_def Let_def split: option.splits)

lemma updateTicketStatusService_permitted:
  assumes "good s"
  shows "permitted_run u s (snd (updateTicketStatusService i st u s))"
  unfolding updateTicketStatusService_def Let_def
proof (rule run_with_ticket, simp only: with_role_fields_ticket, rule run_with_member [OF assms],
    (rule run_rules run_bind | assumption)+, goal_cases)
  case (1 t mv s1 r s2)
  then show ?case
    by (intro updateTicketStatus_permitted [OF 1(9), of t]) (auto simp: cache_only_finds(1) policy_defs)
qed (rule run_rules)+

subsection \<open>Creation and automatic assignment\<close>

lemma findBestAutoAssignAgent_agent:
  assumes "findBestAutoAssignAgent tz now o' s = Some a"
  shows "agent_of s o' a"
proof -
  let ?ws = "getOrganizationAgentWorkloads o' s"
  obtain m ms where "sort_key (workload_key tz now ?ws) (eligible_agents tz now o' s) = m # ms" "a = m_userId m"
    using assms by (auto simp: findBestAutoAssignAgent_def Let_def split: list.splits)
  then have "m \<in> set (eligible_agents tz now o' s)" by (metis list.set_intros(1) set_sort)
  then have "m \<in> set (getOrganizationAvailableAgents o' s)" by (simp add: eligible_agents_def)
  then obtain k where "k \<in> set (memberships s)" "m_organizationId k = o'" "m_isAvailable k"
      "\<exists>r. find_role (m_roleId k) s = Some r \<and> r_name r = ''AGENT''" "m_userId m = m_userId k"
    by (auto simp: getOrganizationAvailableAgents_def with_role_and_user_def normalizeMembershipRole_def
        membership.defs membership_view.defs split: option.splits)
  then show ?thesis using \<open>a = m_userId m\<close> by (auto simp: agent_of_def)
qed

lemma autoAssignTicket_permitted:
  assumes "autoAssignTicketForOrganization tz i (t_organizationId t) now n s = (r, s')" "find_ticket i s = Some t" "t_id t = i"
    "member_grants s (t_organizationId t) u TICKET_ASSIGN \<or>
       is_member s (t_organizationId t) u \<and> t_createdById t = u \<and> t_status t = OPEN \<and> t_assignedToId t = None"
  shows "permitted_run u s s'"
proof (cases "s' = s")
  case False
  obtain a where a: "findBestAutoAssignAgent tz now (t_organizationId t) s = Some a"
    using assms(1) False by (auto simp: autoAssignTicketForOrganization_def split: if_splits dest!: truthyD)
  let ?x = "\<lparr>act_id = n, act_ticketId = i, act_actorId = a, act_action = TICKET_ASSIGNED,
     act_oldValue = None, act_newValue = Some a, act_createdAt = now\<rparr>"
  have "s' = put_ticket (t\<lparr>t_assignedToId := Some a, t_status := IN_PROGRESS\<rparr>) s
       \<lparr>activities := activities s @ [?x],
        workloads := upsert_workload a (t_organizationId t) now (workloads s)\<rparr>"
    using assms(1-3) False a
    by (auto simp: autoAssignTicketForOrganization_def autoAssignTicket_def Let_def split: if_splits)
  moreover have "find_ticket (t_id t) s = Some t" using assms(2,3) by simp
  ultimately show ?thesis
    using permitted_one [OF permitted.auto_assign [OF _ assms(4) findBestAutoAssignAgent_agent [OF a], of ?x now]]
      assms(3) by simp
qed simp

lemma autoAssignTicketService_permitted:
  assumes "good s"
  shows "permitted_run u s (snd (autoAssignTicketService tz i u now n s))"
  unfolding autoAssignTicketService_def
proof (rule run_with_ticket, simp only: with_role_fields_ticket, rule run_with_member [OF assms],
    rule run_if, rule run_done, goal_cases)
  case (1 t mv s1)
  obtain r s' where run: "autoAssignTicketForOrganization tz i (t_organizationId t) now n s1 = (r, s')"
    by fastforce
  have "find_ticket i s1 = Some t" "member_grants s1 (t_organizationId t) u TICKET_ASSIGN"
    using 1 by (simp_all add: cache_only_finds(1) policy_defs)
  then show ?case using autoAssignTicket_permitted [OF run] 1(2) by (simp add: run)
qed

lemma createTicket_permitted:
  assumes "createTicket d u now n s = (r, s')" "is_member s (tb_organizationId d) u"
    "\<And>a. tb_assignedToId d = Some a \<Longrightarrow> is_member s (tb_organizationId d) a"
  shows "permitted_run u s s'"
    and "r = Inr v \<Longrightarrow> \<exists>t. find_ticket n s' = Some t \<and> t_id t = n \<and> t_organizationId t = tb_organizationId d \<and>
      t_createdById t = u \<and> t_status t = OPEN \<and> t_assignedToId t = tb_assignedToId d \<and> v = ticket_with_people s' t"
    and "memberships s' = memberships s" "roles s' = roles s" "membershipCache s' = membershipCache s"
proof -
  show frame: "memberships s' = memberships s" "roles s' = roles s" "membershipCache s' = membershipCache s"
    using assms(1) by (auto simp: createTicket_def Let_def split: option.splits if_splits)
  have *: "s' = s \<or> (\<exists>t. s' = s\<lparr>tickets := tickets s @ [t]\<rparr> \<and> find_ticket n s = None \<and> t_id t = n \<and>
      t_organizationId t = tb_organizationId d \<and> t_createdById t = u \<and> t_status t = OPEN \<and>
      t_assignedToId t = tb_assignedToId d \<and> r = Inr (ticket_with_people s' t))"
    using assms(1) by (auto simp: createTicket_def Let_def split: option.splits if_splits)
  then show "permitted_run u s s'"
    using assms(2,3) by (elim disjE) (auto intro: permitted_one intro!: permitted_one [OF permitted.create_ticket])
  assume r: "r = Inr v"
  show "\<exists>t. find_ticket n s' = Some t \<and> t_id t = n \<and> t_organizationId t = tb_organizationId d \<and>
      t_createdById t = u \<and> t_status t = OPEN \<and> t_assignedToId t = tb_assignedToId d \<and> v = ticket_with_people s' t"
    using assms(1) r
    by (auto simp: createTicket_def Let_def find_ticket_def find_unique_append split: option.splits if_splits)
qed

lemma createTicketService_permitted:
  assumes "good s" "tb_assignedToId d \<noteq> Some []"
  shows "permitted_run u s (snd (createTicketService tz d u now n n2 s))"
  unfolding createTicketService_def Let_def
proof (rule run_with_member [OF assms(1)], goal_cases)
  case (1 mv s1)
  let ?d = "normalizeTicketFields d"
  let ?o = "tb_organizationId ?d" and ?a = "tb_assignedToId ?d"
  have asg: "?a = tb_assignedToId d" by (simp add: normalizeTicketFields_def)
  obtain s2 where v: "snd (validateTicketAssignee ?o ?a s1) = s2" "cache_only s1 s2" "good s2"
      "fst (validateTicketAssignee ?o ?a s1) = Inr () \<Longrightarrow> ?a = Some x \<Longrightarrow> x \<noteq> [] \<Longrightarrow> is_member s2 ?o x" for x
    using run_validate [OF 1(1), of ?o ?a] by blast
  show ?case
  proof (rule run_bind, goal_cases)
    case (1 r s2')
    then show ?case using v(1,2) by (auto intro: permitted_cache)
  next
    case (2 y s2')
    then have s2': "s2' = s2" and ok: "fst (validateTicketAssignee ?o ?a s1) = Inr ()" using v(1) by auto
    have m2: "is_member s2 ?o u" using \<open>is_member s1 ?o u\<close> by (simp add: cache_onlyD(17) [OF v(2)])
    have a2: "is_member s2 ?o x" if x: "?a = Some x" for x
    proof (rule v(4) [OF ok x])
      show "x \<noteq> []" using x assms(2) asg by auto
    qed
    show ?case
      unfolding s2'
    proof (rule run_bind, goal_cases)
      case (1 r s3)
      show ?case by (rule createTicket_permitted(1) [OF 1 m2 a2])
    next
      case (2 v s3)
      obtain t where t: "find_ticket n s3 = Some t" "t_id t = n" "t_organizationId t = ?o" "t_createdById t = u"
          "t_status t = OPEN" "t_assignedToId t = ?a" "v = ticket_with_people s3 t"
        using createTicket_permitted(2) [OF 2 m2 a2 refl] by blast
      note frame = createTicket_permitted(3-5) [OF 2 m2 a2]
      let ?s4 = "emitTicketEvent TICKET_CREATED_EVENT n ?o u [(''title'', Some (t_title v))] s3"
      have e: "permitted_run u s3 ?s4" by (rule permitted_emit) simp
      obtain r s5 where run: "autoAssignTicketForOrganization tz n ?o now n2 ?s4 = (r, s5)" by fastforce
      have m4: "is_member ?s4 ?o u"
        using m2 frame by (simp add: is_member_def find_membership_def)
      have f4: "find_ticket n ?s4 = Some t" using t(1) by (simp add: find_ticket_def)
      have "permitted_run u ?s4 s5" if "\<not> truthy ?a"
      proof -
        have "t_assignedToId t = None" using that t(6) asg assms(2) by (cases "tb_assignedToId d") auto
        then show ?thesis
          using autoAssignTicket_permitted [of tz n t now n2 ?s4 r s5 u] run f4 m4 t by simp
      qed
      then have "permitted_run u s3 s5" if "\<not> truthy ?a" using e that by (auto intro: rtranclp_trans)
      then show ?case using e t(2,3,6,7) run
        by (auto simp: Let_def split: sum.split)
    qed
  qed
qed

subsection \<open>The refinement theorem\<close>

lemma createTicketSchema_assignee:
  "createTicketSchema d = Some d' \<Longrightarrow> tb_assignedToId d' \<noteq> Some []"
  by (auto simp: createTicketSchema_def split: if_splits option.splits)

lemma updateTicketSchema_assignee:
  "updateTicketSchema d = Some d' \<Longrightarrow> ub_assignedToId d' \<noteq> Some []"
  by (auto simp: updateTicketSchema_def split: if_splits option.splits)

lemma ticket_router_permitted:
  assumes "good s"
  shows "permitted_run u s (snd (ticket_router env u req s))"
proof (cases req)
  case (PostTicket d)
  then show ?thesis
    using createTicketService_permitted [OF assms createTicketSchema_assignee] by (auto split: option.split)
next
  case (PatchTicket i d)
  then show ?thesis
    using updateTicketService_permitted [OF assms updateTicketSchema_assignee] by (auto split: option.split)
next
  case (PatchAssign i a)
  then show ?thesis using assignTicketService_permitted [OF assms] by (simp add: assignTicketSchema_def)
qed (auto split: option.split
    intro: createTagService_permitted autoAssignTicketService_permitted updateTicketStatusService_permitted
      no_write_permitted list_permitted deleteTicketCommentService_permitted
      deleteTicketAttachmentService_permitted addTicketTagService_permitted deleteTicketTagService_permitted
      createTicketAttachmentService_permitted createTicketCommentService_permitted
      updateMyAgentAvailabilityService_permitted assms)

text \<open>
  C7. Access control of the whole ticket module. Whatever request an authenticated user makes
  to the ticket routes, and whether it succeeds or fails, the state after it is reached from the
  state before it by a sequence of steps that the specification permits this user: every
  change is covered by a permission the database gives the user, or by the ownership rules for
  the user's own tickets, comments and attachments.
\<close>

theorem ticket_router_refines_permitted:
  assumes "good s"
  shows "permitted_run u s (snd (ticket_router env u req s))"
  using assms by (rule ticket_router_permitted)

definition example_env :: request_env where
  "example_env = \<lparr>env_tz = 0, env_parseDate = (\<lambda>_. None), env_isUrl = (\<lambda>_. True), env_collate = (\<lambda>_. 0),
     env_now = 7, env_newId = ''n1'', env_newActId = ''x1''\<rparr>"

theorem ticket_router_refines_permitted_witness:
  "permitted_run ''mem'' example_gateway
     (snd (ticket_router example_env ''mem'' (PostComment ''t1'' ''hello'' None) example_gateway))"
  by (rule ticket_router_refines_permitted [OF example_good])

end
