(* ===== verification/Tenancy.thy ===== *)
theory Tenancy
  imports Ticket_Refine
begin

section \<open>Tenancy: the well-formedness of the gateway state\<close>

text \<open>
  The invariant of the multi-tenant data: memberships are unique per user and organization and
  name a role of their own organization; the creator and the assignee of a ticket are members of
  its organization; a tag on a ticket belongs to the ticket's organization; comments,
  attachments and activities belong to a ticket; the membership cache agrees with the tables.
  This theory proves that every step the ticket module may make preserves it.
\<close>

definition roles_ok :: "gateway \<Rightarrow> bool" where
  "roles_ok s = (\<forall>m\<in>set (memberships s). \<exists>r. find_role (m_roleId m) s = Some r \<and>
     r_organizationId r = m_organizationId m)"

definition people_ok :: "gateway \<Rightarrow> ticket \<Rightarrow> bool" where
  "people_ok s t = (is_member s (t_organizationId t) (t_createdById t) \<and>
     (\<forall>a. t_assignedToId t = Some a \<longrightarrow> is_member s (t_organizationId t) a))"

definition tag_link_ok :: "gateway \<Rightarrow> ticket_tag \<Rightarrow> bool" where
  "tag_link_ok s tt = (\<exists>t g. find_ticket (tt_ticketId tt) s = Some t \<and> getTagById (tt_tagId tt) s = Some g \<and>
     tag_organizationId g = t_organizationId t)"

text \<open>While Redis is down the cache holds nothing.\<close>

definition redis_ok :: "gateway \<Rightarrow> bool" where
  "redis_ok s = (redisUp s \<or> membershipCache s = (\<lambda>_. None))"

definition tenant_ok :: "gateway \<Rightarrow> bool" where
  "tenant_ok s =
     (good s \<and> redis_ok s \<and> roles_ok s \<and> ticket_table.key_unique s \<and>
      (\<forall>t\<in>set (tickets s). people_ok s t) \<and>
      (\<forall>tt\<in>set (ticketTags s). tag_link_ok s tt) \<and>
      (\<forall>c\<in>set (comments s). find_ticket (c_ticketId c) s \<noteq> None) \<and>
      (\<forall>a\<in>set (attachments s). find_ticket (a_ticketId a) s \<noteq> None))"

lemma tenant_okD:
  assumes "tenant_ok s"
  shows "good s" "roles_ok s" "ticket_table.key_unique s" "t \<in> set (tickets s) \<Longrightarrow> people_ok s t"
    "tt \<in> set (ticketTags s) \<Longrightarrow> tag_link_ok s tt"
    "c \<in> set (comments s) \<Longrightarrow> find_ticket (c_ticketId c) s \<noteq> None"
    "a \<in> set (attachments s) \<Longrightarrow> find_ticket (a_ticketId a) s \<noteq> None"
    "redis_ok s"
  using assms by (auto simp: tenant_ok_def)

subsection \<open>Frame rules\<close>

text \<open>The parts of the invariant depend on few tables; a step leaves the others alone.\<close>

lemma is_member_cong: "memberships s' = memberships s \<Longrightarrow> is_member s' o' u = is_member s o' u"
  by (simp add: is_member_def find_membership_def)

lemma people_ok_cong: "memberships s' = memberships s \<Longrightarrow> people_ok s' t = people_ok s t"
  by (simp add: people_ok_def is_member_cong [of s' s])

lemma roles_ok_cong: "memberships s' = memberships s \<Longrightarrow> roles s' = roles s \<Longrightarrow> roles_ok s' = roles_ok s"
  by (simp add: roles_ok_def find_role_def)

lemma good_cong:
  "memberships s' = memberships s \<Longrightarrow> roles s' = roles s \<Longrightarrow> membershipCache s' = membershipCache s \<Longrightarrow>
     good s' = good s"
  by (simp add: good_def membership_rows_ok_cong [of s' s] cache_coherent_cong [of s' s])

lemma find_ticket_cong: "tickets s' = tickets s \<Longrightarrow> find_ticket i s' = find_ticket i s"
  by (simp add: find_ticket_def)

lemma tag_link_ok_cong:
  "tickets s' = tickets s \<Longrightarrow> tags s' = tags s \<Longrightarrow> tag_link_ok s' tt = tag_link_ok s tt"
  by (simp add: tag_link_ok_def find_ticket_def getTagById_def)

text \<open>A change of tables the invariant does not read, or only shrinks.\<close>

lemma tenant_ok_frame:
  assumes "tenant_ok s" "good s'" "redis_ok s'" "memberships s' = memberships s" "roles s' = roles s"
    "tickets s' = tickets s" "tags s' = tags s"
    "set (ticketTags s') \<subseteq> set (ticketTags s)" "set (comments s') \<subseteq> set (comments s)"
    "set (attachments s') \<subseteq> set (attachments s)"
  shows "tenant_ok s'"
  using assms(1) unfolding tenant_ok_def
  by (simp add: assms(2,3) roles_ok_cong [OF assms(4,5)] ticket_table.key_unique_def assms(6)
      people_ok_cong [OF assms(4)] tag_link_ok_cong [OF assms(6,7)] find_ticket_cong [OF assms(6)])
    (use assms(8-10) in blast)

text \<open>Replacing one ticket by another of the same identity.\<close>

lemma put_ticket_lookup:
  assumes "find_ticket (t_id t) s = Some t" "same_ticket t t'" "tickets s' = update_rows (\<lambda>r. t_id r = t_id t') (\<lambda>_. t') (tickets s)"
  shows "find_ticket i s' = (if i = t_id t then Some t' else find_ticket i s)"
proof -
  have id: "t_id t' = t_id t" using assms(2) by (simp add: same_ticket_def)
  have "find_ticket i s' = map_option (\<lambda>r. if t_id r = t_id t' then t' else r) (find_ticket i s)"
    unfolding find_ticket_def assms(3)
    by (subst find_unique_update_key) auto
  then show ?thesis using assms(1) id
    by (cases "find_ticket i s") (auto dest: find_ticket_SomeD)
qed

lemma tenant_ok_put_ticket:
  assumes "tenant_ok s" "find_ticket (t_id t) s = Some t" "same_ticket t t'" "people_ok s t'"
    "tickets s' = update_rows (\<lambda>r. t_id r = t_id t') (\<lambda>_. t') (tickets s)" "memberships s' = memberships s"
    "roles s' = roles s" "membershipCache s' = membershipCache s" "tags s' = tags s"
    "ticketTags s' = ticketTags s" "comments s' = comments s" "attachments s' = attachments s"
    "redisUp s' = redisUp s"
  shows "tenant_ok s'"
proof -
  note lookup = put_ticket_lookup [OF assms(2,3,5)]
  have "good s'" using tenant_okD(1) [OF assms(1)] good_cong [OF assms(6,7,8)] by simp
  moreover have "redis_ok s'" using tenant_okD(8) [OF assms(1)] by (simp add: redis_ok_def assms(8,13))
  moreover have "roles_ok s'" using tenant_okD(2) [OF assms(1)] roles_ok_cong [OF assms(6,7)] by simp
  moreover have "ticket_table.key_unique s'"
    using tenant_okD(3) [OF assms(1)] map_key_update_rows [of "\<lambda>r. t_id r = t_id t'" t_id "\<lambda>_. t'" "tickets s"]
    by (simp add: ticket_table.key_unique_def assms(5))
  moreover have "people_ok s' r" if "r \<in> set (tickets s')" for r
    using that assms(4) tenant_okD(4) [OF assms(1)]
    by (auto simp: assms(5) set_update_rows people_ok_cong [OF assms(6)])
  moreover have "tag_link_ok s' tt" if tt: "tt \<in> set (ticketTags s')" for tt
  proof -
    from tt have "tag_link_ok s tt" using tenant_okD(5) [OF assms(1)] assms(10) by simp
    then show ?thesis using assms(2,3)
      by (auto simp: tag_link_ok_def lookup getTagById_def assms(9) same_ticket_def)
  qed
  moreover have "find_ticket (c_ticketId c) s' \<noteq> None" if "c \<in> set (comments s')" for c
    using that tenant_okD(6) [OF assms(1)] by (simp add: assms(11) lookup)
  moreover have "find_ticket (a_ticketId a) s' \<noteq> None" if "a \<in> set (attachments s')" for a
    using that tenant_okD(7) [OF assms(1)] by (simp add: assms(12) lookup)
  ultimately show ?thesis by (simp add: tenant_ok_def)
qed

subsection \<open>Membership rows\<close>

text \<open>
  Updating one column of a membership other than its keys: the lookups keep their keys and the
  cache entry of that membership must go.
\<close>

lemma find_membership_update:
  assumes "\<And>m. m_userId (f m) = m_userId m" "\<And>m. m_organizationId (f m) = m_organizationId m"
    "memberships s' = update_rows p f (memberships s)"
  shows "find_membership o' u s' = map_option (\<lambda>m. if p m then f m else m) (find_membership o' u s)"
  unfolding find_membership_def assms(3) by (rule find_unique_update_key) (simp add: assms(1,2))

lemma membership_rows_ok_update:
  assumes "membership_rows_ok s" "\<And>m. m_userId (f m) = m_userId m" "\<And>m. m_organizationId (f m) = m_organizationId m"
    "memberships s' = update_rows p f (memberships s)"
  shows "membership_rows_ok s'"
  using assms(1) map_key_update_rows [of p "\<lambda>m. (m_userId m, m_organizationId m)" f "memberships s"]
  by (auto simp: membership_rows_ok_def membership_table.key_unique_def assms(2-4) set_update_rows)

lemma coherent_after:
  assumes "cache_coherent s"
    "\<And>k mv. membershipCache s' k = Some mv \<Longrightarrow>
       membershipCache s k = Some mv \<and>
         (\<forall>m\<in>set (memberships s). k = membershipCacheKey (m_organizationId m) (m_userId m) \<longrightarrow>
            m \<in> set (memberships s') \<and> find_role (m_roleId m) s' = find_role (m_roleId m) s) \<or>
       entry_ok s' k mv"
  shows "cache_coherent s'"
  unfolding cache_coherent_def
proof (intro allI impI)
  fix k mv
  assume k: "membershipCache s' k = Some mv"
  from assms(2) [OF k] show "entry_ok s' k mv"
  proof
    assume old: "membershipCache s k = Some mv \<and>
         (\<forall>m\<in>set (memberships s). k = membershipCacheKey (m_organizationId m) (m_userId m) \<longrightarrow>
            m \<in> set (memberships s') \<and> find_role (m_roleId m) s' = find_role (m_roleId m) s)"
    then obtain m where "m \<in> set (memberships s)" "k = membershipCacheKey (m_organizationId m) (m_userId m)"
        "core mv = with_role s m"
      using assms(1) unfolding cache_coherent_def entry_ok_def by blast
    then show ?thesis using old
      by (auto simp: entry_ok_def with_role_def normalizeMembershipRole_def)
  qed
qed

lemma tenant_ok_availability:
  assumes "tenant_ok s"
  shows "tenant_ok (invalidateOrganizationMembershipCache o' u
    (s\<lparr>memberships := update_rows (\<lambda>m. m_userId m = u \<and> m_organizationId m = o')
         (\<lambda>m. m\<lparr>m_isAvailable := av\<rparr>) (memberships s)\<rparr>))" (is "tenant_ok ?s")
proof -
  let ?p = "\<lambda>m. m_userId m = u \<and> m_organizationId m = o'" and ?f = "\<lambda>m. m\<lparr>m_isAvailable := av\<rparr>"
  have ms: "memberships ?s = update_rows ?p ?f (memberships s)"
    and same: "roles ?s = roles s" "tickets ?s = tickets s" "tags ?s = tags s" "ticketTags ?s = ticketTags s"
      "comments ?s = comments s" "attachments ?s = attachments s"
    by (simp_all add: invalidateOrganizationMembershipCache_def)
  have rows: "membership_rows_ok s" and coh: "cache_coherent s"
    using tenant_okD(1) [OF assms(1)] by (simp_all add: good_def)
  have mem: "is_member ?s x v = is_member s x v" for x v
    using find_membership_update [of ?f ?s ?p s x v] ms by (simp add: is_member_def)
  have role: "find_role r ?s = find_role r s" for r by (simp add: find_role_def same)
  have "cache_coherent ?s"
  proof (rule coherent_after [OF coh], rule disjI1, intro conjI ballI impI)
    fix k mv
    assume k: "membershipCache ?s k = Some mv"
    then show "membershipCache s k = Some mv"
      by (auto simp: invalidateOrganizationMembershipCache_def split: if_splits)
    fix m
    assume m: "m \<in> set (memberships s)" "k = membershipCacheKey (m_organizationId m) (m_userId m)"
    have "k \<noteq> membershipCacheKey o' u"
      using k tenant_okD(8) [OF assms]
      by (auto simp: invalidateOrganizationMembershipCache_def redis_ok_def split: if_splits)
    then have "\<not> ?p m" using m(2) by auto
    then show "m \<in> set (memberships ?s)" unfolding ms by (rule update_rows_other [OF m(1)])
    show "find_role (m_roleId m) ?s = find_role (m_roleId m) s" by (rule role)
  qed
  moreover have "membership_rows_ok ?s"
    by (rule membership_rows_ok_update [OF rows _ _ ms]) simp_all
  moreover have "\<forall>m\<in>set (memberships ?s). m_id m \<noteq> []"
    using tenant_okD(1) [OF assms(1)] by (auto simp: good_def ms set_update_rows)
  ultimately have "good ?s" by (simp add: good_def)
  moreover have "redis_ok ?s"
    using tenant_okD(8) [OF assms] by (auto simp: redis_ok_def invalidateOrganizationMembershipCache_def)
  moreover have "roles_ok ?s"
    using tenant_okD(2) [OF assms(1)] by (auto simp: roles_ok_def ms role set_update_rows)
  moreover have "people_ok ?s t = people_ok s t" for t by (simp add: people_ok_def mem)
  ultimately show ?thesis
    using assms(1) by (simp add: tenant_ok_def ticket_table.key_unique_def same tag_link_ok_cong [OF same(2,3)]
        find_ticket_cong [OF same(2)])
qed

subsection \<open>Every permitted step preserves the invariant\<close>

lemma find_ticket_append:
  "find_ticket i (s\<lparr>tickets := tickets s @ [t]\<rparr>) =
     (case find_ticket i s of Some r \<Rightarrow> Some r | None \<Rightarrow> if t_id t = i then Some t else None)"
  by (simp add: find_ticket_def find_unique_append split: option.split)

lemma tenant_ok_new_ticket:
  assumes "tenant_ok s" "find_ticket (t_id t) s = None" "people_ok s t"
  shows "tenant_ok (s\<lparr>tickets := tickets s @ [t]\<rparr>)" (is "tenant_ok ?s")
proof -
  have old: "find_ticket i s = Some r \<Longrightarrow> find_ticket i ?s = Some r" for i r by (simp add: find_ticket_append)
  have "good ?s" using tenant_okD(1) [OF assms(1)] good_cong [of ?s s] by simp
  moreover have "redis_ok ?s" "roles_ok ?s"
    using tenant_okD(2,8) [OF assms(1)] by (simp_all add: redis_ok_def roles_ok_def find_role_def)
  moreover have "ticket_table.key_unique ?s"
    using ticket_table.insert_key_unique [OF tenant_okD(3) [OF assms(1)], of t] assms(2)
    by (simp add: ticket_table.lookup_def find_ticket_def)
  moreover have "people_ok ?s r" if "r \<in> set (tickets ?s)" for r
    using that assms(3) tenant_okD(4) [OF assms(1)] people_ok_cong [of ?s s] by auto
  moreover have "tag_link_ok ?s tt" if "tt \<in> set (ticketTags ?s)" for tt
    using tenant_okD(5) [OF assms(1)] that old by (fastforce simp: tag_link_ok_def getTagById_def)
  moreover have "find_ticket (c_ticketId c) ?s \<noteq> None" if "c \<in> set (comments ?s)" for c
    using tenant_okD(6) [OF assms(1)] that old by fastforce
  moreover have "find_ticket (a_ticketId a) ?s \<noteq> None" if "a \<in> set (attachments ?s)" for a
    using tenant_okD(7) [OF assms(1)] that old by fastforce
  ultimately show ?thesis by (simp add: tenant_ok_def)
qed

lemma agent_of_member: "agent_of s o' a \<Longrightarrow> is_member s o' a"
  using find_unique_exists [of _ "memberships s"]
  by (fastforce simp: agent_of_def is_member_def find_membership_def)

lemma tenant_ok_new_tag:
  assumes "tenant_ok s"
  shows "tenant_ok (s\<lparr>tags := tags s @ [g]\<rparr>)" (is "tenant_ok ?s")
proof -
  have tag: "getTagById i s = Some r \<Longrightarrow> getTagById i ?s = Some r" for i r
    by (simp add: getTagById_def find_unique_append)
  have "tag_link_ok ?s tt" if "tt \<in> set (ticketTags s)" for tt
    using tenant_okD(5) [OF assms that] tag by (fastforce simp: tag_link_ok_def find_ticket_def)
  moreover have "good ?s = good s" by (rule good_cong) simp_all
  moreover have "roles_ok ?s = roles_ok s" by (rule roles_ok_cong) simp_all
  moreover have "people_ok ?s t = people_ok s t" for t by (rule people_ok_cong) simp
  ultimately show ?thesis using assms
    by (simp add: tenant_ok_def redis_ok_def ticket_table.key_unique_def find_ticket_def)
qed

lemma tenant_ok_link:
  assumes "tenant_ok s" "tag_link_ok s tt"
  shows "tenant_ok (s\<lparr>ticketTags := ticketTags s @ [tt]\<rparr>)" (is "tenant_ok ?s")
proof -
  have "tag_link_ok ?s x = tag_link_ok s x" for x by (rule tag_link_ok_cong) simp_all
  moreover have "good ?s = good s" by (rule good_cong) simp_all
  moreover have "roles_ok ?s = roles_ok s" by (rule roles_ok_cong) simp_all
  moreover have "people_ok ?s t = people_ok s t" for t by (rule people_ok_cong) simp
  ultimately show ?thesis using assms
    by (auto simp: tenant_ok_def redis_ok_def ticket_table.key_unique_def find_ticket_def)
qed

lemma tenant_ok_rows:
  assumes "tenant_ok s" "good s'" "redis_ok s'" "memberships s' = memberships s" "roles s' = roles s"
    "tickets s' = tickets s" "tags s' = tags s" "ticketTags s' = ticketTags s"
    "\<And>c. c \<in> set (comments s') \<Longrightarrow> find_ticket (c_ticketId c) s \<noteq> None"
    "\<And>a. a \<in> set (attachments s') \<Longrightarrow> find_ticket (a_ticketId a) s \<noteq> None"
  shows "tenant_ok s'"
  using assms(1) unfolding tenant_ok_def
  by (simp add: assms roles_ok_cong [OF assms(4,5)] ticket_table.key_unique_def
      people_ok_cong [OF assms(4)] tag_link_ok_cong [OF assms(6,7)] find_ticket_cong [OF assms(6)])

lemma good_fields [simp]:
  "good (s\<lparr>comments := cs\<rparr>) = good s" "good (s\<lparr>attachments := as\<rparr>) = good s"
  "good (s\<lparr>emitted := es\<rparr>) = good s" "good (s\<lparr>ticketTags := tts\<rparr>) = good s"
  "redis_ok (s\<lparr>comments := cs\<rparr>) = redis_ok s" "redis_ok (s\<lparr>attachments := as\<rparr>) = redis_ok s"
  "redis_ok (s\<lparr>emitted := es\<rparr>) = redis_ok s" "redis_ok (s\<lparr>ticketTags := tts\<rparr>) = redis_ok s"
  by (rule good_cong; simp)+ (simp_all add: redis_ok_def)

lemma tenant_ok_cache_only:
  assumes "cache_only s s'" "tenant_ok s"
  shows "tenant_ok s'"
proof (rule tenant_ok_frame [OF assms(2)])
  show "good s'" using assms by (auto intro: cache_onlyD(15) tenant_okD)
  show "redis_ok s'"
    using tenant_okD(8) [OF assms(2)] cache_onlyD(3,19) [OF assms(1)] by (auto simp: redis_ok_def)
qed (simp_all add: cache_onlyD [OF assms(1)])

lemma tenant_ok_owner:
  "tenant_ok s \<Longrightarrow> c \<in> set (comments s) \<Longrightarrow> \<exists>t. find_ticket (c_ticketId c) s = Some t"
  "tenant_ok s \<Longrightarrow> a \<in> set (attachments s) \<Longrightarrow> \<exists>t. find_ticket (a_ticketId a) s = Some t"
  using tenant_okD(6,7) by blast+

lemma permitted_tenant_ok:
  assumes "permitted u s s'" "tenant_ok s"
  shows "tenant_ok s'"
  using assms
proof (cases rule: permitted.cases)
  case cache
  then show ?thesis using assms(2) by (rule tenant_ok_cache_only)
next
  case (emit e)
  then show ?thesis by (auto intro!: tenant_ok_frame [OF assms(2)] tenant_okD [OF assms(2)])
next
  case (create_ticket t)
  then show ?thesis using tenant_ok_new_ticket [OF assms(2), of t] by (simp add: people_ok_def)
next
  case (edit_ticket t t' x)
  have "people_ok s t'"
    using edit_ticket tenant_okD(4) [OF assms(2), of t] find_ticket_SomeD [of "t_id t" s t]
    by (auto simp: people_ok_def same_ticket_def)
  then show ?thesis using edit_ticket by (intro tenant_ok_put_ticket [OF assms(2), of t t']) simp_all
next
  case (assign_ticket t a)
  have "people_ok s (t\<lparr>t_assignedToId := Some a\<rparr>)"
    using assign_ticket tenant_okD(4) [OF assms(2), of t] find_ticket_SomeD [of "t_id t" s t]
    by (auto simp: people_ok_def)
  then show ?thesis using assign_ticket
    by (intro tenant_ok_put_ticket [OF assms(2), of t "t\<lparr>t_assignedToId := Some a\<rparr>"]) (simp_all add: same_ticket_def)
next
  case (auto_assign t a x now)
  let ?t = "t\<lparr>t_assignedToId := Some a, t_status := IN_PROGRESS\<rparr>"
  have "people_ok s ?t"
    using auto_assign tenant_okD(4) [OF assms(2), of t] find_ticket_SomeD [of "t_id t" s t]
    by (auto simp: people_ok_def intro: agent_of_member)
  then show ?thesis using auto_assign
    by (intro tenant_ok_put_ticket [OF assms(2), of t ?t]) (simp_all add: same_ticket_def)
next
  case (set_status t st)
  have "people_ok s (t\<lparr>t_status := st\<rparr>)"
    using set_status tenant_okD(4) [OF assms(2), of t] find_ticket_SomeD [of "t_id t" s t]
    by (auto simp: people_ok_def)
  then show ?thesis using set_status
    by (intro tenant_ok_put_ticket [OF assms(2), of t "t\<lparr>t_status := st\<rparr>"]) (simp_all add: same_ticket_def)
next
  case (create_tag g)
  then show ?thesis using tenant_ok_new_tag [OF assms(2)] by simp
next
  case (tag_ticket tt t g)
  then have "tag_link_ok s tt" by (auto simp: tag_link_ok_def)
  then show ?thesis using tag_ticket tenant_ok_link [OF assms(2)] by simp
next
  case (untag_ticket i t g)
  then show ?thesis by (auto intro!: tenant_ok_frame [OF assms(2)] tenant_okD [OF assms(2)])
next
  case (availability o' av)
  then show ?thesis using tenant_ok_availability [OF assms(2)] by simp
qed (auto intro!: tenant_ok_rows [OF assms(2)] simp: tenant_okD(1,8) [OF assms(2)] tenant_ok_owner [OF assms(2)])

lemma permitted_run_tenant_ok: "permitted_run u s s' \<Longrightarrow> tenant_ok s \<Longrightarrow> tenant_ok s'"
  by (induction rule: rtranclp_induct) (auto intro: permitted_tenant_ok)

text \<open>
  Every request to the ticket routes preserves tenancy. From a state where tenancy holds,
  the state after any ticket request by any user, successful or not, is again such a state: the
  creator and the assignee of each ticket are members of its organization, tags on tickets stay
  inside the organization, no comment or attachment loses its ticket, and the membership cache
  agrees with the database.
\<close>

theorem ticket_router_tenant_ok:
  assumes "tenant_ok s"
  shows "tenant_ok (snd (ticket_router env u req s))"
  using permitted_run_tenant_ok [OF ticket_router_permitted] tenant_okD(1) assms by blast

theorem ticket_router_tenant_ok_witness:
  "tenant_ok (snd (ticket_router example_env ''agt'' (PatchAssign ''t1'' ''agt'') example_gateway))"
proof (rule ticket_router_tenant_ok)
  have "good example_gateway" by (rule example_good)
  moreover have "roles_ok example_gateway"
    by (simp add: roles_ok_def find_role_def example_gateway_def example_membership_def example_role_def Let_def)
  moreover have "ticket_table.key_unique example_gateway" "redis_ok example_gateway"
    by (simp_all add: ticket_table.key_unique_def redis_ok_def example_gateway_def empty_gateway_def)
  moreover have "\<forall>t\<in>set (tickets example_gateway). people_ok example_gateway t"
    by (simp add: people_ok_def is_member_def find_membership_def example_gateway_def example_membership_def
        example_ticket_def)
  ultimately show "tenant_ok example_gateway"
    by (simp add: tenant_ok_def) (simp add: example_defs find_ticket_def)
qed

end
