(* ===== verification/Org_Routes.thy ===== *)
theory Org_Routes
  imports Tenancy
begin

section \<open>Organization routes and controllers\<close>

text \<open>
  org.routes.js and org.controller.js: the requests an authenticated user can make to
  \<open>/organizations\<close>, each through its guards, its schema and its controller. The guards under
  \<open>/:orgId\<close> are the chains of theory Org_Service.
\<close>

datatype org_request =
    GetOrganizations
  | PostOrganization string
  | GetOrganization string
  | PatchOrganization string string
  | DeleteOrganization string
  | GetMembers string
  | PostMember string string string
  | PatchMember string string string
  | GetRoles string
  | PostRole string string "string list" int
  | PatchRole string string role_updates
  | DeleteRole string string

datatype org_response =
    OrganizationsData "organization list"
  | OrganizationData "organization option"
  | OrgViewData org_view
  | MembersData "membership_view list"
  | MemberData membership_view
  | RolesData "role_view list"
  | RoleData role_view
  | RoleRowData org_role

text \<open>
  The surroundings of a request: zod's UUID test, the permission snapshot of the access token,
  the current time and the ids of new rows.
\<close>

record org_env =
  oe_uuid :: "string \<Rightarrow> bool"
  oe_token :: "permission_snapshot option"
  oe_now :: time
  oe_newId :: "nat \<Rightarrow> string"

definition wrapped :: "('a \<Rightarrow> org_response) \<Rightarrow> 'a outcome \<times> gateway \<Rightarrow> org_response outcome \<times> gateway" where
  "wrapped w r = (map_outcome w (fst r), snd r)"

text \<open>The two controllers that need no membership.\<close>

definition getOrganizationsByUserIdController :: "string \<Rightarrow> gateway \<Rightarrow> org_response outcome \<times> gateway" where
  [simp]: "getOrganizationsByUserIdController u s =
     (Responded 200 (OrganizationsData (getOrganizationByUserIdService u s)), s)"

definition createOrganizationController ::
    "string \<Rightarrow> string \<Rightarrow> time \<Rightarrow> (nat \<Rightarrow> string) \<Rightarrow> gateway \<Rightarrow> org_view outcome \<times> gateway" where
  [simp]: "createOrganizationController name userId now newId s =
     (case createOrganizationService name userId now newId s of
        (Inl e, s1) \<Rightarrow> (Failed e, s1)
      | (Inr org, s1) \<Rightarrow> (Responded 201 org, s1))"

definition post_organization_route ::
    "string \<Rightarrow> string \<Rightarrow> time \<Rightarrow> (nat \<Rightarrow> string) \<Rightarrow> gateway \<Rightarrow> org_view outcome \<times> gateway" where
  "post_organization_route name userId now newId s =
     (if name = [] then (Refused 400 ''Validation error'', s)
      else createOrganizationController name userId now newId s)"

fun org_router :: "org_env \<Rightarrow> string \<Rightarrow> org_request \<Rightarrow> gateway \<Rightarrow> org_response outcome \<times> gateway" where
  "org_router env u GetOrganizations s =
     getOrganizationsByUserIdController u s"
| "org_router env u (PostOrganization name) s =
     wrapped OrgViewData (post_organization_route name u (oe_now env) (oe_newId env) s)"
| "org_router env u (GetOrganization o') s =
     wrapped OrganizationData (guarded_route [] True getOrganizationByIdController u (oe_token env) o' s)"
| "org_router env u (PatchOrganization o' name) s =
     wrapped OrgViewData
       (patch_organization_route (name \<noteq> [] \<and> oe_uuid env o') name u (oe_token env) o' s)"
| "org_router env u (DeleteOrganization o') s =
     wrapped (\<lambda>org. OrganizationData (Some org))
       (delete_organization_route (oe_uuid env o') u (oe_token env) o' s)"
| "org_router env u (GetMembers o') s =
     wrapped MembersData (guarded_route [] True
       (viewAllMembersInOrganizationController o') u (oe_token env) o' s)"
| "org_router env u (PostMember o' userId roleId) s =
     wrapped MemberData (post_members_route (userId \<noteq> [] \<and> oe_uuid env roleId) userId roleId
       (oe_now env) (oe_newId env 0) u (oe_token env) o' s)"
| "org_router env u (PatchMember o' userId roleId) s =
     wrapped MemberData (patch_member_route (oe_uuid env roleId) userId roleId u (oe_token env) o' s)"
| "org_router env u (GetRoles o') s =
     wrapped RolesData (guarded_route [] True (getRolesController o') u (oe_token env) o' s)"
| "org_router env u (PostRole o' name ps level) s =
     wrapped RoleData (post_roles_route name ps level u (oe_token env) o' s)"
| "org_router env u (PatchRole o' roleId d) s =
     wrapped RoleData (patch_role_route (oe_uuid env) roleId d u (oe_token env) o' s)"
| "org_router env u (DeleteRole o' roleId) s =
     wrapped RoleRowData (delete_role_route (oe_uuid env roleId) roleId u (oe_token env) o' s)"

lemma snd_wrapped [simp]: "snd (wrapped w r) = snd r"
  by (simp add: wrapped_def)

lemma wrapped_Responded:
  "wrapped w r = (Responded st y, s') \<Longrightarrow> \<exists>x. r = (Responded st x, s') \<and> y = w x"
  by (cases r; cases "fst r") (auto simp: wrapped_def)

subsection \<open>The guards of a route\<close>

lemma read_through_cache_only:
  assumes "read_through o' u s r"
  shows "cache_only s (snd r)"
proof -
  obtain mc where mc: "snd r = s\<lparr>membershipCache := mc\<rparr>" using read_through_frame [OF assms] by blast
  have "mc = membershipCache s" if "\<not> redisUp s"
    using read_through_down [OF assms that] arg_cong [OF mc, of membershipCache] by simp
  moreover have "cache_coherent s \<longrightarrow> membership_rows_ok s \<longrightarrow> cache_coherent (snd r)"
    using read_through_db(2) [OF assms] by blast
  ultimately show ?thesis using mc unfolding cache_only_def by blast
qed

lemma user_lookup_Some:
  assumes "good s" "getUserMembershipInOrganization u o' s = (Some mv, s1)"
  obtains m where "find_membership o' u s = Some m" "core mv = with_role s m"
  using user_lookup.lookup_db [of s u o'] assms that
  by (cases "find_membership o' u s") (auto simp: good_def db_membership_def)

text \<open>The permissions a route accepts a caller with: those of the token, if any, else of the role.\<close>

definition route_grants :: "gateway \<Rightarrow> permission_snapshot option \<Rightarrow> membership \<Rightarrow> string \<Rightarrow> bool" where
  "route_grants s tok m p =
     (case tok of
        None \<Rightarrow> db_grants s m p
      | Some snapshot \<Rightarrow>
          (case map_of snapshot (m_organizationId m) of
             None \<Rightarrow> db_grants s m p
           | Some sc \<Rightarrow> if as_permissions sc = [] then db_grants s m p else p \<in> set (as_permissions sc)))"

lemma core_role:
  assumes "core mv = with_role s m"
  shows "mv_role mv = map_option normalizeRolePermissions (find_role (m_roleId m) s)" "m_userId mv = m_userId m"
  using arg_cong [OF assms, of mv_role] arg_cong [OF assms, of m_userId] by simp_all

lemma requirePermission_None:
  assumes "requirePermission ps o' tok mv = None" "core mv = with_role s m" "m_organizationId m = o'"
    "p \<in> set ps" "p \<noteq> []"
  shows "route_grants s tok m p"
proof -
  from assms(1) obtain r where r: "mv_role mv = Some r" by (auto simp: requirePermission_def split: option.splits)
  have e: "p \<in> set (extractPermissionValues (strings_arg (Some (rv_permissions r)))) \<longleftrightarrow> db_grants s m p"
    using has_with_role [OF assms(2,5)] assms(5) r by (simp add: has_def role_permissions_def)
  show ?thesis using assms(1,3,4) r e
    by (auto simp: requirePermission_def route_grants_def Let_def list_all_iff split: option.splits if_splits)
qed

lemma org_route_RespondedE:
  assumes "org_route ps valid st k u tok o' s = (Responded st' x, s')" "good s"
  obtains m mv s1 where "find_membership o' u s = Some m" "core mv = with_role s m" "cache_only s s1" "good s1"
    "\<And>p. p \<in> set ps \<Longrightarrow> p \<noteq> [] \<Longrightarrow> route_grants s tok m p" "valid" "k mv s1 = (Inr x, s')"
proof -
  obtain y s1 where l: "getUserMembershipInOrganization u o' s = (y, s1)" by fastforce
  with assms(1) obtain mv where mv: "y = Some mv" "(if ps = [] then None else requirePermission ps o' tok mv) = None"
    "valid" "k mv s1 = (Inr x, s')"
    by (auto simp: org_route_def verifyOrganizationMembership_def split: option.splits prod.splits sum.splits if_splits)
  obtain m where m: "find_membership o' u s = Some m" "core mv = with_role s m"
    using user_lookup_Some [OF assms(2) l [unfolded mv(1)]] .
  have c: "cache_only s s1" using read_through_cache_only [OF user_read_through] l by (metis snd_conv)
  show ?thesis
  proof (rule that [OF m c cache_onlyD(15) [OF c assms(2)] _ mv(3,4)])
    show "route_grants s tok m p" if "p \<in> set ps" "p \<noteq> []" for p
      using requirePermission_None [OF _ m(2) _ that] mv(2) that m(1) find_membership_SomeD
      by (cases "ps = []") auto
  qed
qed

text \<open>Whatever the outcome, the state after a route is that of its controller or differs in the cache only.\<close>

lemma org_route_state:
  assumes "good s"
    "\<And>m mv s1. find_membership o' u s = Some m \<Longrightarrow> core mv = with_role s m \<Longrightarrow> cache_only s s1 \<Longrightarrow> good s1 \<Longrightarrow>
       P (snd (k mv s1))"
    "\<And>s1. cache_only s s1 \<Longrightarrow> P s1"
  shows "P (snd (org_route ps valid st k u tok o' s))"
proof (cases "o' = []")
  case True
  then show ?thesis using assms(3) by (simp add: org_route_def verifyOrganizationMembership_def)
next
  case False
  obtain y s1 where l: "getUserMembershipInOrganization u o' s = (y, s1)" by fastforce
  have c: "cache_only s s1" using read_through_cache_only [OF user_read_through] l by (metis snd_conv)
  show ?thesis
  proof (cases y)
    case None
    then show ?thesis using False l assms(3) [OF c] by (simp add: org_route_def verifyOrganizationMembership_def)
  next
    case (Some mv)
    obtain m where m: "find_membership o' u s = Some m" "core mv = with_role s m"
      using user_lookup_Some [OF assms(1) l [unfolded Some]] .
    from assms(2) [OF m c cache_onlyD(15) [OF c assms(1)]] assms(3) [OF c] False l Some show ?thesis
      by (auto simp: org_route_def verifyOrganizationMembership_def split: option.splits prod.splits sum.splits)
  qed
qed

end
