(* ===== verification/Org_Correct.thy ===== *)
theory Org_Correct
  imports Org_Routes
begin

section \<open>Correctness of the organization service\<close>

text \<open>
  Who may give a role to whom and who may change a role, over the routes as a whole: guards,
  schema, service and repository.
\<close>

lemma normalize_fields [simp]:
  "rv_id (normalizeRolePermissions r) = r_id r" "rv_organizationId (normalizeRolePermissions r) = r_organizationId r"
  "rv_name (normalizeRolePermissions r) = r_name r" "rv_level (normalizeRolePermissions r) = r_level r"
  "rv_isSystem (normalizeRolePermissions r) = r_isSystem r"
  by (simp_all add: normalizeRolePermissions_def)

lemma hasPermission_db:
  assumes "core mv = with_role s m" "p \<noteq> []"
  shows "hasPermission (mv_role mv) p = db_grants s m p"
proof -
  have "mv_role mv = map_option normalizeRolePermissions (find_role (m_roleId m) s)"
    using core_role [OF assms(1)] by simp
  then show ?thesis using has_with_role [OF assms] assms(2)
    by (cases "mv_role mv") (auto simp: hasPermission_def has_def role_permissions_def db_grants_def)
qed

lemma getOrgRoleById_Some: "getOrgRoleById i s = Some rv \<Longrightarrow> \<exists>r. find_role i s = Some r \<and> rv = normalizeRolePermissions r"
  by (auto simp: getOrgRoleById_def)

lemma find_role_SomeD: "find_role i s = Some r \<Longrightarrow> r \<in> set (roles s) \<and> r_id r = i"
  unfolding find_role_def by (drule find_unique_SomeD) simp

definition is_owner_role :: "org_role \<Rightarrow> bool" where
  "is_owner_role r = (r_isSystem r \<and> r_name r = ''OWNER'')"

subsection \<open>Changing the role of a member\<close>

lemma assertCanUpdateRole_InrD:
  assumes "assertCanUpdateRole actor target next = Inr x"
  obtains ar tr where "mv_role actor = Some ar" "mv_role target = Some tr"
    "hasPermission (mv_role actor) ORG_MANAGE_MEMBER" "m_userId actor \<noteq> m_userId target"
    "rv_level tr < rv_level ar" "rv_level next < rv_level ar" "\<not> (rv_isSystem next \<and> rv_name next = ''OWNER'')"
  using assms that by (auto simp: assertCanUpdateRole_def split: if_splits option.splits)

lemma updateMember_InrE:
  assumes "updateMemberFromOrganizationService o' target roleId amv s = (Inr v, s')" "good s"
    "core amv = with_role s0 am" "cache_only s0 s"
  obtains ar tm tr nr where "find_role (m_roleId am) s0 = Some ar" "db_grants s0 am ORG_MANAGE_MEMBER"
    "find_membership o' target s0 = Some tm" "find_role (m_roleId tm) s0 = Some tr" "find_role roleId s0 = Some nr"
    "r_organizationId nr = o'" "target \<noteq> m_userId am" "r_level tr < r_level ar" "r_level nr < r_level ar"
    "\<not> is_owner_role nr"
    "\<exists>s2. cache_only s0 s2 \<and> good s2 \<and> updateMembershipRole o' target roleId s2 = (Inr v, s')"
proof -
  note keep = cache_onlyD [OF assms(4)]
  obtain y s1 where l: "getOrganizationMembershipByUserId o' target s = (y, s1)" by fastforce
  have c: "cache_only s s1" using read_through_cache_only [OF org_read_through] l by (metis snd_conv)
  have c0: "cache_only s0 s1" using assms(4) c by (rule cache_only_trans)
  obtain tmv rv where t: "y = Some tmv" "getOrgRoleById roleId s1 = Some rv" "rv_organizationId rv = o'"
      "assertCanUpdateRole amv tmv rv = Inr ()" "updateMembershipRole o' target roleId s1 = (Inr v, s')"
    using assms(1) l
    by (auto simp: updateMemberFromOrganizationService_def split: option.splits if_splits sum.splits prod.splits)
  obtain nr where nr: "find_role roleId s1 = Some nr" "rv = normalizeRolePermissions nr"
    using getOrgRoleById_Some [OF t(2)] by blast
  have "db_membership o' target s = Some (core tmv)"
    using org_lookup.lookup_db [of s o' target] assms(2) l t(1) by (simp add: good_def)
  then obtain tm where tm: "find_membership o' target s = Some tm" "core tmv = with_role s tm"
    by (auto simp: db_membership_def)
  note cr = core_role [OF tm(2)] core_role [OF assms(3)]
  have role: "find_role i s = find_role i s0" "find_role i s1 = find_role i s0" for i
    by (simp_all add: find_role_def keep cache_onlyD [OF c0])
  from t(4) show ?thesis
  proof (rule assertCanUpdateRole_InrD, goal_cases)
    case (1 arv trv)
    then obtain ar tr where r: "find_role (m_roleId am) s0 = Some ar" "arv = normalizeRolePermissions ar"
      "find_role (m_roleId tm) s0 = Some tr" "trv = normalizeRolePermissions tr"
      using cr by (auto simp: role)
    have "find_membership o' target s0 = Some tm" using tm(1) by (simp add: keep)
    moreover have "db_grants s0 am ORG_MANAGE_MEMBER" using hasPermission_db [OF assms(3)] 1(3) by simp
    moreover have "target \<noteq> m_userId am" using 1(4) cr find_membership_SomeD [OF tm(1)] by auto
    moreover have "find_role roleId s0 = Some nr" using nr(1) by (simp add: role)
    moreover have "good s1" using c assms(2) by (rule cache_onlyD(15))
    ultimately show ?case
      using that [of ar tm tr nr] r 1 t(3,5) nr(2) c0 by (auto simp: is_owner_role_def)
  qed
qed

lemma updateMembershipRole_InrD:
  assumes "updateMembershipRole o' target roleId s = (Inr v, s')"
  shows "memberships s' = update_rows (\<lambda>m. m_userId m = target \<and> m_organizationId m = o')
      (\<lambda>m. m\<lparr>m_roleId := roleId\<rparr>) (memberships s)" "roles s' = roles s" "m_roleId v = roleId"
  using assms by (auto simp: updateMembershipRole_def Let_def setCached_eq invalidateUserPermissionSnapshot_def
      split: option.splits if_splits)

text \<open>
  Who may change a member's role. If the route answers with success, the caller is a member
  of the organization whose role in the database carries \<open>org:manage_member\<close> (whatever the
  access token says), the target is another member with a role of strictly lower level, the new
  role belongs to the organization, is of strictly lower level than the caller's and is not the
  system role OWNER; afterwards the target has the new role and no other membership changed.
\<close>

theorem patch_member_route_rules:
  assumes "good s" "patch_member_route valid target roleId u tok o' s = (Responded st v, s')"
  shows "\<exists>m ar tm tr nr. find_membership o' u s = Some m \<and> find_role (m_roleId m) s = Some ar \<and>
    db_grants s m ORG_MANAGE_MEMBER \<and> target \<noteq> u \<and> find_membership o' target s = Some tm \<and>
    find_role (m_roleId tm) s = Some tr \<and> r_level tr < r_level ar \<and>
    find_role roleId s = Some nr \<and> r_organizationId nr = o' \<and> r_level nr < r_level ar \<and> \<not> is_owner_role nr \<and>
    memberships s' = update_rows (\<lambda>m. m_userId m = target \<and> m_organizationId m = o')
      (\<lambda>m. m\<lparr>m_roleId := roleId\<rparr>) (memberships s) \<and> roles s' = roles s"
  using assms(2) unfolding patch_member_route_def org_controllers
proof (elim org_route_RespondedE [OF _ assms(1)], goal_cases)
  case (1 m mv s1)
  from 1(7,4,2,3) show ?case
  proof (rule updateMember_InrE, goal_cases)
    case (1 ar tm tr nr)
    then obtain s2 where s2: "cache_only s s2" "updateMembershipRole o' target roleId s2 = (Inr v, s')" by blast
    have "m_userId m = u" using \<open>find_membership o' u s = Some m\<close> by (auto dest: find_membership_SomeD)
    then show ?case
      using 1 \<open>find_membership o' u s = Some m\<close> updateMembershipRole_InrD(1,2) [OF s2(2)] cache_onlyD(4,5) [OF s2(1)]
      by auto
  qed
qed

theorem patch_member_route_rules_witness:
  "\<exists>s' v. patch_member_route True ''mem'' ''r3'' ''own'' None ''o1'' example_gateway = (Responded 200 v, s') \<and>
     memberships s' = update_rows (\<lambda>m. m_userId m = ''mem'' \<and> m_organizationId m = ''o1'')
       (\<lambda>m. m\<lparr>m_roleId := ''r3''\<rparr>) (memberships example_gateway)"
proof -
  let ?r = "patch_member_route True ''mem'' ''r3'' ''own'' None ''o1'' example_gateway"
  have "case fst ?r of Responded st v \<Rightarrow> st = 200 | _ \<Rightarrow> False" by code_simp
  then obtain v where r: "?r = (Responded 200 v, snd ?r)"
    by (cases ?r; cases "fst ?r") auto
  from patch_member_route_rules [OF example_good r] r show ?thesis by blast
qed

subsection \<open>Inviting a member\<close>

lemma inviteMember_InrE:
  assumes "inviteMemberInOrganizationService o' w roleId amv now n s = (Inr v, s')"
    "core amv = with_role s0 am" "cache_only s0 s"
  obtains ar nr where "find_role (m_roleId am) s0 = Some ar" "db_grants s0 am ORG_INVITE_MEMBER"
    "find_role roleId s0 = Some nr" "r_organizationId nr = o'" "r_level nr < r_level ar"
    "inviteMemberInOrganization o' w roleId now n s = (Inr v, s')"
proof -
  obtain rv arv where t: "getOrgRoleById roleId s = Some rv" "rv_organizationId rv = o'" "mv_role amv = Some arv"
      "assertCanInviteRole arv rv = Inr ()" "inviteMemberInOrganization o' w roleId now n s = (Inr v, s')"
    using assms(1)
    by (auto simp: inviteMemberInOrganizationService_def split: option.splits if_splits sum.splits prod.splits)
  obtain nr where nr: "find_role roleId s = Some nr" "rv = normalizeRolePermissions nr"
    using getOrgRoleById_Some [OF t(1)] by blast
  obtain ar where ar: "find_role (m_roleId am) s0 = Some ar" "arv = normalizeRolePermissions ar"
    using trans [OF core_role(1) [OF assms(2), symmetric] t(3)] by auto
  have "find_role roleId s0 = Some nr" using nr(1) by (simp add: find_role_def cache_onlyD [OF assms(3)])
  moreover have "db_grants s0 am ORG_INVITE_MEMBER"
    using t(3,4) hasPermission_db [OF assms(2), of ORG_INVITE_MEMBER]
    by (simp add: assertCanInviteRole_def split: if_splits)
  ultimately show ?thesis using that [OF ar(1)] t nr(2) ar(2)
    by (simp add: assertCanInviteRole_def split: if_splits)
qed

lemma inviteMember_InrD:
  assumes "inviteMemberInOrganization o' w roleId now n s = (Inr v, s')"
  shows "memberships s' = memberships s @ [\<lparr>m_id = n, m_userId = w, m_organizationId = o', m_roleId = roleId,
      m_isAvailable = True, m_maxTicketsPerDay = Some 10, m_maxTicketsPerWeek = Some 50, m_createdAt = now\<rparr>]"
    "roles s' = roles s" "find_membership o' w s = None" "find_user w s \<noteq> None"
  using assms by (auto simp: inviteMemberInOrganization_def insert_membership_def Let_def setCached_eq
      invalidateUserPermissionSnapshot_def split: if_splits)

text \<open>
  Who may be invited, and as what. If the route answers with success, the caller is a
  member whose role in the database carries \<open>org:invite_member\<close>, the invited user exists and
  was not a member, the role given belongs to the organization and has a strictly lower level
  than the caller's, so the system role OWNER is never given by a caller below or at its level;
  one membership is added, at the end of the table, and the roles stay as they were.
\<close>

theorem post_members_route_rules:
  assumes "good s" "post_members_route valid w roleId now n u tok o' s = (Responded st v, s')"
  shows "\<exists>m ar nr. find_membership o' u s = Some m \<and> find_role (m_roleId m) s = Some ar \<and>
    db_grants s m ORG_INVITE_MEMBER \<and> find_role roleId s = Some nr \<and> r_organizationId nr = o' \<and>
    r_level nr < r_level ar \<and> find_user w s \<noteq> None \<and> \<not> is_member s o' w \<and> roles s' = roles s \<and>
    memberships s' = memberships s @ [\<lparr>m_id = n, m_userId = w, m_organizationId = o', m_roleId = roleId,
      m_isAvailable = True, m_maxTicketsPerDay = Some 10, m_maxTicketsPerWeek = Some 50, m_createdAt = now\<rparr>]"
  using assms(2) unfolding post_members_route_def org_controllers
proof (elim org_route_RespondedE [OF _ assms(1)], goal_cases)
  case (1 m mv s1)
  from 1(7,2,3) show ?case
  proof (rule inviteMember_InrE, goal_cases)
    case (1 ar nr)
    note k = cache_onlyD [OF \<open>cache_only s s1\<close>]
    have "find_user w s1 = find_user w s" by (simp add: find_user_def k)
    then show ?case
      using 1 \<open>find_membership o' u s = Some m\<close> inviteMember_InrD [OF 1(6)] k(4,5,18)
      by (auto simp: is_member_def)
  qed
qed

definition example_invite :: gateway where
  "example_invite = example_gateway\<lparr>users := users example_gateway @ [example_user ''new'']\<rparr>"

theorem post_members_route_rules_witness:
  "\<exists>s' v. post_members_route True ''new'' ''r3'' 9 ''m9'' ''own'' None ''o1'' example_invite =
     (Responded 201 v, s') \<and> find_user ''new'' example_invite \<noteq> None \<and> \<not> is_member example_invite ''o1'' ''new''"
proof -
  let ?r = "post_members_route True ''new'' ''r3'' 9 ''m9'' ''own'' None ''o1'' example_invite"
  have "case fst ?r of Responded st v \<Rightarrow> st = 201 | _ \<Rightarrow> False" by code_simp
  then obtain v where r: "?r = (Responded 201 v, snd ?r)"
    by (cases ?r; cases "fst ?r") auto
  have "good example_invite" using example_good good_cong [of example_invite example_gateway]
    by (simp add: example_invite_def)
  from post_members_route_rules [OF this r] r show ?thesis by blast
qed

subsection \<open>Roles\<close>



lemma ensure_fields [simp]:
  "memberships (ensurePermissionsExist ps s) = memberships s" "roles (ensurePermissionsExist ps s) = roles s"
  "find_role i (ensurePermissionsExist ps s) = find_role i s"
  by (simp_all add: ensurePermissionsExist_def Let_def find_role_def)

lemma invalidateUserPermissionSnapshots_eq:
  "\<exists>sc. invalidateUserPermissionSnapshots us s = s\<lparr>scopeCache := sc\<rparr>"
proof -
  have "\<exists>sc. foldl (\<lambda>st u. invalidateUserPermissionSnapshot u st) s xs = s\<lparr>scopeCache := sc\<rparr>" for xs
  proof (induction xs arbitrary: s)
    case Nil
    show ?case by (rule exI [of _ "scopeCache s"]) simp
  next
    case (Cons x xs)
    have "\<exists>sc. invalidateUserPermissionSnapshot x s = s\<lparr>scopeCache := sc\<rparr>"
      by (auto simp: invalidateUserPermissionSnapshot_def intro: exI [of _ "scopeCache s"])
    then show ?case using Cons [of "invalidateUserPermissionSnapshot x s"] by auto
  qed
  then show ?thesis by (simp add: invalidateUserPermissionSnapshots_def)
qed

lemma invalidate_fields [simp]:
  "memberships (invalidateUserPermissionSnapshots us s) = memberships s"
  "roles (invalidateUserPermissionSnapshots us s) = roles s"
  "tickets (invalidateUserPermissionSnapshots us s) = tickets s"
  "memberships (invalidateOrganizationMembershipCacheByOrg o' s) = memberships s"
  "roles (invalidateOrganizationMembershipCacheByOrg o' s) = roles s"
  "tickets (invalidateOrganizationMembershipCacheByOrg o' s) = tickets s"
  using invalidateUserPermissionSnapshots_eq [of us s]
  by (auto simp: invalidateOrganizationMembershipCacheByOrg_def)

lemma updateOrgRole_InrD:
  assumes "updateOrgRole roleId d s = (Inr v, s')"
  shows "memberships s' = memberships s"
    "roles s' = update_rows (\<lambda>q. r_id q = roleId) (apply_role_updates d) (roles s)"
  using assms by (cases "ru_permissions d"; auto simp: updateOrgRole_def Let_def split: option.splits if_splits)+

text \<open>
  Who may change a role. If the route that changes a role answers with success, the role
  belongs to the organization, is no system role, has a level strictly below the caller's, and
  so has the new level; the request names no new role name (a name makes the service throw,
  as in C15). Only that role's level and permissions change, the memberships stay as they were.
\<close>

theorem patch_role_route_rules:
  assumes "good s" "patch_role_route uuid roleId d u tok o' s = (Responded st v, s')"
  shows "\<exists>m ar r. find_membership o' u s = Some m \<and> find_role (m_roleId m) s = Some ar \<and>
    route_grants s tok m ROLE_UPDATE \<and> find_role roleId s = Some r \<and> r_organizationId r = o' \<and> \<not> r_isSystem r \<and>
    r_level r < r_level ar \<and> r_level (apply_role_updates d r) < r_level ar \<and>
    ru_name d = None \<and>
    roles s' = update_rows (\<lambda>q. r_id q = roleId) (apply_role_updates d) (roles s) \<and>
    memberships s' = memberships s"
  using assms(2) unfolding patch_role_route_def org_controllers
proof (elim org_route_RespondedE [OF _ assms(1)], goal_cases)
  case (1 m mv s1)
  note k = cache_onlyD [OF \<open>cache_only s s1\<close>]
  obtain rv arv where t: "getOrgRoleById roleId s1 = Some rv" "rv_organizationId rv = o'" "\<not> rv_isSystem rv"
      "mv_role mv = Some arv" "rv_level rv < rv_level arv" "\<And>l. ru_level d = Some l \<Longrightarrow> l < rv_level arv"
      "\<not> truthy (ru_name d)" "updateOrgRole roleId d s1 = (Inr v, s')"
    using 1(7)
    by (auto simp: updateRoleService_def not_le split: option.splits if_splits sum.splits prod.splits)
  obtain r where r: "find_role roleId s1 = Some r" "rv = normalizeRolePermissions r"
    using getOrgRoleById_Some [OF t(1)] by blast
  obtain ar where ar: "find_role (m_roleId m) s = Some ar" "arv = normalizeRolePermissions ar"
    using trans [OF core_role(1) [OF 1(2), symmetric] t(4)] by auto
  have "find_role roleId s = Some r" using r(1) by (simp add: find_role_def k)
  moreover have "route_grants s tok m ROLE_UPDATE" using 1(5) [of ROLE_UPDATE] by simp
  moreover have "ru_name d = None" using 1(6) t(7) by (auto simp: updateRoleSchema_def split: option.splits)
  moreover have "r_level (apply_role_updates d r) < r_level ar"
    using t(5,6) r(2) ar(2) by (simp add: apply_role_updates_def split: option.split)
  ultimately show ?case
    using 1(1) ar t(2,3,5) r(2) updateOrgRole_InrD [OF t(8)] k(4,5) by auto
qed

definition example_custom_role :: gateway where
  "example_custom_role = example_gateway\<lparr>roles := roles example_gateway @
     [\<lparr>r_id = ''r5'', r_organizationId = ''o1'', r_name = ''LEAD'', r_level = 60, r_isSystem = False,
       r_rolePermissions = [TICKET_ASSIGN]\<rparr>]\<rparr>"

theorem patch_role_route_rules_witness:
  "\<exists>s' v. patch_role_route (\<lambda>_. True) ''r5'' \<lparr>ru_name = None, ru_permissions = Some [TICKET_ASSIGN, TICKET_VIEW_ALL],
      ru_level = Some 70\<rparr> ''own'' None ''o1'' example_custom_role = (Responded 200 v, s') \<and>
    memberships s' = memberships example_custom_role"
proof -
  let ?r = "patch_role_route (\<lambda>_. True) ''r5'' \<lparr>ru_name = None, ru_permissions = Some [TICKET_ASSIGN, TICKET_VIEW_ALL],
      ru_level = Some 70\<rparr> ''own'' None ''o1'' example_custom_role"
  have "case fst ?r of Responded st v \<Rightarrow> st = 200 | _ \<Rightarrow> False" by code_simp
  then obtain v where r: "?r = (Responded 200 v, snd ?r)"
    by (cases ?r; cases "fst ?r") auto
  have "good example_custom_role"
    by (simp add: good_def membership_rows_ok_def membership_table.key_unique_def cache_coherent_def
      example_custom_role_def example_membership_def colon_free_def)
  from patch_role_route_rules [OF this r] r show ?thesis by blast
qed

end
