(* ===== verification/Org_Permitted.thy ===== *)
theory Org_Permitted
  imports Org_Correct
begin

section \<open>The access-control specification of the organization module\<close>

text \<open>
  \<open>org_permitted u s s'\<close>: one atomic change of organizations, memberships or roles that user
  \<open>u\<close> may cause, with the condition under which it is allowed, in terms of the database; and
  the proof that every organization request is a sequence of such steps.
\<close>

definition role_of :: "gateway \<Rightarrow> string \<Rightarrow> string \<Rightarrow> org_role option" where
  "role_of s o' u = (case find_membership o' u s of None \<Rightarrow> None | Some m \<Rightarrow> find_role (m_roleId m) s)"

text \<open>A new organization: its roles are the default ones, its first membership is the owner's.\<close>

definition default_roles_of :: "string \<Rightarrow> org_role list \<Rightarrow> bool" where
  "default_roles_of o' rs = (List.map (\<lambda>r. (r_name r, r_level r, r_isSystem r, r_rolePermissions r)) rs =
       List.map (\<lambda>d. (rd_name d, rd_level d, rd_isSystem d, rd_permissions d)) DEFAULT_ROLES \<and>
     (\<forall>r\<in>set rs. r_organizationId r = o'))"

inductive org_permitted :: "string \<Rightarrow> gateway \<Rightarrow> gateway \<Rightarrow> bool" for u where
  cache: "cache_only s s' \<Longrightarrow> org_permitted u s s'"
| flush: "org_permitted u s (invalidateOrganizationMembershipCacheByOrg o' s)"
| snapshots: "org_permitted u s (s\<lparr>scopeCache := sc\<rparr>)"
| register_permissions: "org_permitted u s (s\<lparr>permissions := ps\<rparr>)"
| invite:
    "role_of s o' u = Some ar \<Longrightarrow> member_grants s o' u ORG_INVITE_MEMBER \<Longrightarrow> find_role (m_roleId m) s = Some nr \<Longrightarrow>
     r_organizationId nr = o' \<Longrightarrow> r_level nr < r_level ar \<Longrightarrow> m_organizationId m = o' \<Longrightarrow>
     find_user (m_userId m) s \<noteq> None \<Longrightarrow> \<not> is_member s o' (m_userId m) \<Longrightarrow> m_id m \<noteq> [] \<Longrightarrow>
     s1 = s\<lparr>memberships := memberships s @ [m]\<rparr> \<Longrightarrow>
     org_permitted u s (setCachedOrganizationMembership (with_role s1 m) s1)"
| set_role:
    "role_of s o' u = Some ar \<Longrightarrow> member_grants s o' u ORG_MANAGE_MEMBER \<Longrightarrow> w \<noteq> u \<Longrightarrow>
     find_membership o' w s = Some m \<Longrightarrow> role_of s o' w = Some wr \<Longrightarrow> r_level wr < r_level ar \<Longrightarrow>
     find_role roleId s = Some nr \<Longrightarrow> r_organizationId nr = o' \<Longrightarrow> r_level nr < r_level ar \<Longrightarrow> \<not> is_owner_role nr \<Longrightarrow>
     s1 = s\<lparr>memberships := update_rows (\<lambda>m. m_userId m = w \<and> m_organizationId m = o')
        (\<lambda>m. m\<lparr>m_roleId := roleId\<rparr>) (memberships s)\<rparr> \<Longrightarrow>
     org_permitted u s (setCachedOrganizationMembership (with_role s1 (m\<lparr>m_roleId := roleId\<rparr>)) s1)"
| rename:
    "is_member s o' u \<Longrightarrow>
     org_permitted u s (s\<lparr>organizations := update_rows (\<lambda>x. o_id x = o') (\<lambda>x. x\<lparr>o_name := name\<rparr>) (organizations s)\<rparr>)"
| edit_role:
    "role_of s o' u = Some ar \<Longrightarrow> find_role roleId s = Some r \<Longrightarrow> r_organizationId r = o' \<Longrightarrow> \<not> r_isSystem r \<Longrightarrow>
     r_level r < r_level ar \<Longrightarrow> r_level (apply_role_updates d r) < r_level ar \<Longrightarrow>
     org_permitted u s (invalidateOrganizationMembershipCacheByOrg o'
       (s\<lparr>roles := update_rows (\<lambda>q. r_id q = roleId) (apply_role_updates d) (roles s)\<rparr>))"
| drop_role:
    "role_of s o' u = Some ar \<Longrightarrow> find_role roleId s = Some r \<Longrightarrow> r_organizationId r = o' \<Longrightarrow> \<not> r_isSystem r \<Longrightarrow>
     r_level r < r_level ar \<Longrightarrow> \<forall>m\<in>set (memberships s). m_roleId m \<noteq> roleId \<Longrightarrow>
     org_permitted u s (invalidateOrganizationMembershipCacheByOrg o'
       (s\<lparr>roles := delete_rows (\<lambda>q. r_id q = roleId) (roles s)\<rparr>))"
| drop_organization:
    "is_member s o' u \<Longrightarrow> \<forall>t\<in>set (tickets s). t_organizationId t \<noteq> o' \<Longrightarrow>
     org_permitted u s (invalidateOrganizationMembershipCacheByOrg o'
       (s\<lparr>memberships := delete_rows (\<lambda>m. m_organizationId m = o') (memberships s),
          roles := delete_rows (\<lambda>r. r_organizationId r = o') (roles s),
          organizations := delete_rows (\<lambda>x. o_id x = o') (organizations s)\<rparr>))"
| new_organization:
    "find_organization (o_id org) s = None \<Longrightarrow> colon_free (o_id org) \<Longrightarrow> o_id org \<noteq> [] \<Longrightarrow> default_roles_of (o_id org) rs \<Longrightarrow>
     distinct (List.map r_id rs) \<Longrightarrow> r_id ` set rs \<inter> r_id ` set (roles s) = {} \<Longrightarrow>
     find_unique (\<lambda>r. r_organizationId r = o_id org \<and> r_name r = ''OWNER'') (roles s @ rs) = Some r \<Longrightarrow>
     m_organizationId m = o_id org \<Longrightarrow> m_userId m = u \<Longrightarrow> m_roleId m = r_id r \<Longrightarrow> m_id m \<noteq> [] \<Longrightarrow>
     \<not> is_member s (o_id org) u \<Longrightarrow> find_user u s \<noteq> None \<Longrightarrow>
     s1 = s\<lparr>organizations := organizations s @ [org], permissions := ps, roles := roles s @ rs,
            memberships := memberships s @ [m]\<rparr> \<Longrightarrow>
     org_permitted u s (setCachedOrganizationMembership (with_role s1 m) s1)"

abbreviation org_run :: "string \<Rightarrow> gateway \<Rightarrow> gateway \<Rightarrow> bool" where
  "org_run u \<equiv> (org_permitted u)\<^sup>*\<^sup>*"

lemma run_cache: "cache_only s s' \<Longrightarrow> org_run u s s'"
  by (rule r_into_rtranclp) (rule org_permitted.cache)

lemma run_flush: "org_run u s (invalidateOrganizationMembershipCacheByOrg o' s)"
  by (rule r_into_rtranclp) (rule org_permitted.flush)

lemma run_snapshot: "org_run u s (invalidateUserPermissionSnapshot v s)"
proof (cases "redisUp s")
  case True
  have "org_permitted u s (s\<lparr>scopeCache := (scopeCache s)(accessScopeKey v := None)\<rparr>)"
    by (rule org_permitted.snapshots)
  then show ?thesis using True by (simp add: invalidateUserPermissionSnapshot_def r_into_rtranclp)
qed (simp add: invalidateUserPermissionSnapshot_def)

lemma run_snapshots: "org_run u s (invalidateUserPermissionSnapshots vs s)"
  using invalidateUserPermissionSnapshots_eq [of vs s] org_permitted.snapshots by (metis r_into_rtranclp)

lemma run_then: "org_permitted u s s1 \<Longrightarrow> org_run u s1 s' \<Longrightarrow> org_run u s s'"
  by (rule converse_rtranclp_into_rtranclp)

subsection \<open>Conditions before and after a cache change\<close>

lemma find_role_cache_only: "cache_only s s1 \<Longrightarrow> find_role i s1 = find_role i s"
  by (simp add: find_role_def cache_onlyD)

lemma role_of_cache_only: "cache_only s s1 \<Longrightarrow> role_of s1 o' u = role_of s o' u"
  by (simp add: role_of_def cache_onlyD(18) find_role_cache_only split: option.split)

lemma actor_role:
  assumes "find_membership o' u s = Some m" "core mv = with_role s m" "mv_role mv = Some rv"
  obtains ar where "role_of s o' u = Some ar" "rv = normalizeRolePermissions ar"
  using trans [OF core_role(1) [OF assms(2), symmetric] assms(3)] assms(1) that by (auto simp: role_of_def)

subsection \<open>The requests refine the specification\<close>

lemma post_member_permitted:
  assumes "good s" "n \<noteq> []" "find_membership o' u s = Some am" "core amv = with_role s am" "cache_only s s1"
  shows "org_run u s (snd (inviteMemberInOrganizationService o' w roleId amv now n s1))"
proof -
  have c: "org_run u s s1" using assms(5) by (rule run_cache)
  obtain r s' where e: "inviteMemberInOrganizationService o' w roleId amv now n s1 = (r, s')" by fastforce
  show ?thesis
  proof (cases r)
    case (Inl x)
    then have "s' = s1" using e
      by (auto simp: inviteMemberInOrganizationService_def inviteMemberInOrganization_def insert_membership_def
          Let_def assms(2) split: option.splits if_splits sum.splits prod.splits)
    then show ?thesis using c e by simp
  next
    case (Inr v)
    from e [unfolded Inr] assms(4,5) show ?thesis
    proof (rule inviteMember_InrE, goal_cases)
      case (1 ar nr)
      let ?m = "\<lparr>m_id = n, m_userId = w, m_organizationId = o', m_roleId = roleId, m_isAvailable = True,
        m_maxTicketsPerDay = Some 10, m_maxTicketsPerWeek = Some 50, m_createdAt = now\<rparr>"
      let ?t = "s1\<lparr>memberships := memberships s1 @ [?m]\<rparr>"
      have s': "s' = invalidateUserPermissionSnapshot w (setCachedOrganizationMembership (with_role ?t ?m) ?t)"
        and f: "find_membership o' w s1 = None" "find_user w s1 \<noteq> None"
        using 1(6) by (auto simp: inviteMemberInOrganization_def insert_membership_def Let_def split: if_splits)
      note k = cache_onlyD [OF assms(5)]
      have "org_permitted u s1 (setCachedOrganizationMembership (with_role ?t ?m) ?t)"
      proof (rule org_permitted.invite [where ar = ar and nr = nr and o' = o'])
        show "role_of s1 o' u = Some ar" using 1(1) assms(3) role_of_cache_only [OF assms(5)]
          by (simp add: role_of_def)
        show "member_grants s1 o' u ORG_INVITE_MEMBER" using 1(2) assms(3) k(16) by (simp add: member_grants_def)
      qed (use 1 f assms(2) in \<open>simp_all add: find_role_cache_only [OF assms(5)] is_member_def\<close>)
      then have "org_run u s1 s'" unfolding s' by (rule run_then) (rule run_snapshot)
      then show ?case using c e by simp
    qed
  qed
qed

lemma patch_member_permitted:
  assumes "good s" "find_membership o' u s = Some am" "core amv = with_role s am" "cache_only s s1" "good s1"
  shows "org_run u s (snd (updateMemberFromOrganizationService o' w roleId amv s1))"
proof -
  obtain r s' where e: "updateMemberFromOrganizationService o' w roleId amv s1 = (r, s')" by fastforce
  show ?thesis
  proof (cases r)
    case (Inl x)
    obtain y s2 where l: "getOrganizationMembershipByUserId o' w s1 = (y, s2)" by fastforce
    have c: "cache_only s1 s2" using read_through_cache_only [OF org_read_through] l by (metis snd_conv)
    have f: "m_id mv \<noteq> []" if up: "updateMembershipRole o' w roleId s2 = (Inr mv, s3)" for mv s3
    proof -
      obtain m where "find_membership o' w s2 = Some m" "m_id mv = m_id m"
        using up by (auto simp: updateMembershipRole_def Let_def split: option.splits if_splits)
      then show ?thesis using cache_onlyD(15) [OF c assms(5)] find_membership_SomeD by (auto simp: good_def)
    qed
    have u: "updateMembershipRole o' w roleId s2 = (Inl z, s3) \<Longrightarrow> s3 = s2" for z s3
      by (auto simp: updateMembershipRole_def Let_def split: option.splits if_splits)
    have "s' = s2" using e Inl l f u
      by (auto simp: updateMemberFromOrganizationService_def split: option.splits if_splits sum.splits prod.splits)
    then show ?thesis using e c assms(4) by (auto intro: run_cache cache_only_trans)
  next
    case (Inr v)
    from e [unfolded Inr] assms(5,3,4) show ?thesis
    proof (rule updateMember_InrE, goal_cases)
      case (1 ar tm tr nr)
      then obtain s2 where s2: "cache_only s s2" "updateMembershipRole o' w roleId s2 = (Inr v, s')" by blast
      note k = cache_onlyD [OF s2(1)]
      let ?t = "s2\<lparr>memberships := update_rows (\<lambda>m. m_userId m = w \<and> m_organizationId m = o')
        (\<lambda>m. m\<lparr>m_roleId := roleId\<rparr>) (memberships s2)\<rparr>"
      have tm: "find_membership o' w s2 = Some tm" using 1(3) k by simp
      have s': "s' = invalidateUserPermissionSnapshot w
          (setCachedOrganizationMembership (with_role ?t (tm\<lparr>m_roleId := roleId\<rparr>)) ?t)"
        using s2(2) tm by (auto simp: updateMembershipRole_def Let_def split: if_splits)
      have u: "m_userId am = u" using assms(2) find_membership_SomeD by blast
      have "org_permitted u s2 (setCachedOrganizationMembership (with_role ?t (tm\<lparr>m_roleId := roleId\<rparr>)) ?t)"
      proof (rule org_permitted.set_role [where ar = ar and nr = nr and wr = tr and o' = o' and w = w and m = tm and s = s2])
        show "role_of s2 o' u = Some ar" using 1(1) assms(2) role_of_cache_only [OF s2(1)] by (simp add: role_of_def)
        show "role_of s2 o' w = Some tr" using 1(3,4) role_of_cache_only [OF s2(1)] by (simp add: role_of_def)
        show "member_grants s2 o' u ORG_MANAGE_MEMBER" using 1(2) assms(2) k(16) by (simp add: member_grants_def)
      qed (use 1 tm u in \<open>simp_all add: find_role_cache_only [OF s2(1)]\<close>)
      then have "org_run u s2 s'" unfolding s' by (rule run_then) (rule run_snapshot)
      then have "org_run u s s'" by (rule rtranclp_trans [OF run_cache [OF s2(1)]])
      then show ?case using e by simp
    qed
  qed
qed

lemma patch_organization_permitted:
  assumes "is_member s o' u" "cache_only s s1"
  shows "org_run u s (snd (updateOrganizationService o' name s1))"
proof -
  have m: "is_member s1 o' u" using assms cache_onlyD(17) by blast
  have "snd (updateOrganizationService o' name s1) = s1 \<or>
      snd (updateOrganizationService o' name s1) =
        s1\<lparr>organizations := update_rows (\<lambda>x. o_id x = o') (\<lambda>x. x\<lparr>o_name := name\<rparr>) (organizations s1)\<rparr>"
    by (auto simp: updateOrganizationService_def patchOrganization_def Let_def split: option.splits if_splits)
  then show ?thesis
    using run_cache [OF assms(2)] org_permitted.rename [OF m] by (metis rtranclp.rtrancl_into_rtrancl)
qed

lemma delete_organization_permitted:
  assumes "is_member s o' u" "cache_only s s1"
  shows "org_run u s (snd (deleteOrganizationService o' s1))"
proof -
  have m: "is_member s1 o' u" using assms cache_onlyD(17) by blast
  let ?t = "invalidateOrganizationMembershipCacheByOrg o' (s1\<lparr>memberships := delete_rows (\<lambda>m. m_organizationId m = o') (memberships s1),
          roles := delete_rows (\<lambda>r. r_organizationId r = o') (roles s1),
          organizations := delete_rows (\<lambda>x. o_id x = o') (organizations s1)\<rparr>)"
  obtain r s' where e: "deleteOrganization o' s1 = (r, s')" by fastforce
  have "snd (deleteOrganizationService o' s1) = s'"
    using e by (auto simp: deleteOrganizationService_def split: sum.splits)
  moreover have "s' = invalidateOrganizationMembershipCacheByOrg o' s1 \<or>
      (\<forall>t\<in>set (tickets s1). t_organizationId t \<noteq> o') \<and> (\<exists>us. s' = invalidateUserPermissionSnapshots us ?t)"
    using e by (auto simp: deleteOrganization_def Let_def split: option.splits if_splits)
  moreover have "org_run u s1 (invalidateUserPermissionSnapshots us ?t)"
    if "\<forall>t\<in>set (tickets s1). t_organizationId t \<noteq> o'" for us
    by (rule run_then [OF org_permitted.drop_organization [OF m that] run_snapshots])
  ultimately have "org_run u s1 (snd (deleteOrganizationService o' s1))" using run_flush by metis
  then show ?thesis by (rule rtranclp_trans [OF run_cache [OF assms(2)]])
qed

lemma updateOrgRole_run:
  assumes "updateOrgRole roleId d s = (r, s')" "role_of s o' u = Some ar" "find_role roleId s = Some q"
    "r_organizationId q = o'" "\<not> r_isSystem q" "r_level q < r_level ar" "r_level (apply_role_updates d q) < r_level ar"
  shows "org_run u s s'"
proof -
  define s0 where "s0 = (case ru_permissions d of None \<Rightarrow> s | Some ps \<Rightarrow> ensurePermissionsExist ps s)"
  have keep: "role_of s0 o' u = role_of s o' u" "find_role roleId s0 = find_role roleId s"
    and perms: "s0 = s\<lparr>permissions := permissions s0\<rparr>"
    by (auto simp: s0_def role_of_def ensurePermissionsExist_def Let_def find_role_def find_membership_def
        split: option.split)
  let ?t = "invalidateOrganizationMembershipCacheByOrg o'
       (s0\<lparr>roles := update_rows (\<lambda>q. r_id q = roleId) (apply_role_updates d) (roles s0)\<rparr>)"
  have "s' = s \<or> (\<exists>us. s' = invalidateUserPermissionSnapshots us ?t)"
    using assms(1,3,4) keep(2)
    unfolding updateOrgRole_def Let_def s0_def [symmetric] by (auto split: if_splits)
  moreover have "org_permitted u s0 ?t"
    using assms keep by (intro org_permitted.edit_role [where ar = ar and r = q]) simp_all
  moreover have "org_permitted u s s0" using org_permitted.register_permissions perms by metis
  ultimately show ?thesis by (metis run_snapshots run_then rtranclp.rtrancl_refl)
qed

lemma patch_role_permitted:
  assumes "find_membership o' u s = Some m" "core mv = with_role s m" "cache_only s s1"
  shows "org_run u s (snd (updateRoleService o' roleId d mv s1))"
proof -
  have "org_run u s1 (snd (updateRoleService o' roleId d mv s1))"
  proof (cases "\<exists>rv arv. getOrgRoleById roleId s1 = Some rv \<and> rv_organizationId rv = o' \<and> \<not> rv_isSystem rv \<and>
      mv_role mv = Some arv \<and> rv_level rv < rv_level arv \<and> (\<forall>l. ru_level d = Some l \<longrightarrow> l < rv_level arv) \<and>
      \<not> truthy (ru_name d)")
    case False
    then have "snd (updateRoleService o' roleId d mv s1) = s1"
      by (auto simp: updateRoleService_def not_le split: option.split)
    then show ?thesis by simp
  next
    case True
    then obtain rv arv where t: "getOrgRoleById roleId s1 = Some rv" "rv_organizationId rv = o'" "\<not> rv_isSystem rv"
      "mv_role mv = Some arv" "rv_level rv < rv_level arv" "\<forall>l. ru_level d = Some l \<longrightarrow> l < rv_level arv"
      "\<not> truthy (ru_name d)" by blast
    obtain r where r: "find_role roleId s1 = Some r" "rv = normalizeRolePermissions r"
      using getOrgRoleById_Some [OF t(1)] by blast
    obtain ar where ar: "role_of s o' u = Some ar" "arv = normalizeRolePermissions ar"
      using actor_role [OF assms(1,2) t(4)] .
    have "r_level (apply_role_updates d r) < r_level ar"
      using t(5,6) r(2) ar(2) by (simp add: apply_role_updates_def split: option.split)
    then have "org_run u s1 (snd (updateOrgRole roleId d s1))"
      using t r ar by (intro updateOrgRole_run [where ar = ar and q = r and o' = o'])
        (simp_all add: prod_eq_iff role_of_cache_only [OF assms(3)])
    moreover have "snd (updateRoleService o' roleId d mv s1) = snd (updateOrgRole roleId d s1)"
      using t by (auto simp: updateRoleService_def not_le split: option.split prod.split sum.split)
    ultimately show ?thesis by simp
  qed
  then show ?thesis by (rule rtranclp_trans [OF run_cache [OF assms(3)]])
qed

lemma delete_role_permitted:
  assumes "find_membership o' u s = Some m" "core mv = with_role s m" "cache_only s s1"
  shows "org_run u s (snd (deleteRoleService o' roleId mv s1))"
proof -
  have "org_run u s1 (snd (deleteRoleService o' roleId mv s1))"
  proof (cases "\<exists>rv arv. getOrgRoleById roleId s1 = Some rv \<and> rv_organizationId rv = o' \<and> \<not> rv_isSystem rv \<and>
      mv_role mv = Some arv \<and> rv_level rv < rv_level arv")
    case False
    then have "snd (deleteRoleService o' roleId mv s1) = s1"
      by (auto simp: deleteRoleService_def not_le split: option.split)
    then show ?thesis by simp
  next
    case True
    then obtain rv arv where t: "getOrgRoleById roleId s1 = Some rv" "rv_organizationId rv = o'" "\<not> rv_isSystem rv"
      "mv_role mv = Some arv" "rv_level rv < rv_level arv" by blast
    obtain r where r: "find_role roleId s1 = Some r" "rv = normalizeRolePermissions r"
      using getOrgRoleById_Some [OF t(1)] by blast
    obtain ar where ar: "role_of s o' u = Some ar" "arv = normalizeRolePermissions ar"
      using actor_role [OF assms(1,2) t(4)] .
    let ?t = "invalidateOrganizationMembershipCacheByOrg o'
       (s1\<lparr>roles := delete_rows (\<lambda>q. r_id q = roleId) (roles s1)\<rparr>)"
    have "snd (deleteRoleService o' roleId mv s1) = snd (deleteOrgRole roleId s1)"
      using t by (auto simp: deleteRoleService_def not_le split: option.split prod.split sum.split)
    moreover have "snd (deleteOrgRole roleId s1) = s1 \<or> (\<forall>m\<in>set (memberships s1). m_roleId m \<noteq> roleId) \<and>
        (\<exists>us. snd (deleteOrgRole roleId s1) = invalidateUserPermissionSnapshots us ?t)"
      using r t(2) by (auto simp: deleteOrgRole_def Let_def)
    moreover have "org_permitted u s1 ?t" if "\<forall>m\<in>set (memberships s1). m_roleId m \<noteq> roleId"
      using r t ar that by (intro org_permitted.drop_role [where ar = ar and r = r])
        (simp_all add: role_of_cache_only [OF assms(3)])
    ultimately show ?thesis by (metis run_snapshots run_then rtranclp.rtrancl_refl)
  qed
  then show ?thesis by (rule rtranclp_trans [OF run_cache [OF assms(3)]])
qed

subsection \<open>A new organization\<close>

lemma insert_role_InrD:
  assumes "insert_role o' name level sys ps n s = (Inr r, s')"
  shows "s' = s\<lparr>roles := roles s @ [r]\<rparr>" "r_id r = n" "n \<notin> r_id ` set (roles s)"
    "r_organizationId r = o'" "r_name r = name" "r_level r = level" "r_isSystem r = sys" "r_rolePermissions r = ps"
  using assms by (auto simp: insert_role_def Let_def split: if_splits)

lemma insert_roles_InrD:
  assumes "insert_roles o' newId i ds s = (Inr rs, s')"
  shows "s' = s\<lparr>roles := roles s @ rs\<rparr> \<and> distinct (List.map r_id rs) \<and>
    r_id ` set rs \<inter> r_id ` set (roles s) = {} \<and> (\<forall>r\<in>set rs. r_organizationId r = o') \<and>
    List.map (\<lambda>r. (r_name r, r_level r, r_isSystem r, r_rolePermissions r)) rs = List.map (\<lambda>d. (rd_name d, rd_level d, rd_isSystem d, rd_permissions d)) ds"
  using assms
proof (induction ds arbitrary: i s rs)
  case Nil
  then show ?case by simp
next
  case (Cons d ds)
  then obtain r s1 rs' where e: "insert_role o' (rd_name d) (rd_level d) (rd_isSystem d) (rd_permissions d) (newId i) s = (Inr r, s1)"
    "insert_roles o' newId (Suc i) ds s1 = (Inr rs', s')" "rs = r # rs'"
    by (auto split: prod.splits sum.splits)
  from Cons.IH [OF e(2)] insert_role_InrD [OF e(1)] show ?case by (auto simp: e(3))
qed

lemma owner_membership_found:
  assumes "find_membership o' u s = None" "m_userId m = u" "m_organizationId m = o'"
  shows "find_unique (\<lambda>e. m_userId e = u) (List.map (with_role s')
      (find_many (\<lambda>m. m_organizationId m = o') (memberships s @ [m]))) = Some (with_role s' m)"
proof -
  have "\<forall>e\<in>set (List.map (with_role s') (find_many (\<lambda>m. m_organizationId m = o') (memberships s))). m_userId e \<noteq> u"
    using assms(1) by (auto simp: find_membership_def find_unique_None_iff)
  then have "find_unique (\<lambda>e. m_userId e = u) (List.map (with_role s')
      (find_many (\<lambda>m. m_organizationId m = o') (memberships s))) = None"
    by (simp add: find_unique_None_iff)
  then show ?thesis using assms(2,3) by (simp add: find_many_def find_unique_append)
qed

lemma createOrganization_run:
  assumes "createOrganizationWithRolesAndOwner name u DEFAULT_ROLES ''OWNER'' now newId s = (r, s')"
    "colon_free (newId 0) \<and> newId 0 \<noteq> []" "newId (1 + length DEFAULT_ROLES) \<noteq> []"
  shows "org_run u s s'"
proof (cases "s' = s")
  case False
  let ?org = "\<lparr>o_id = newId 0, o_name = name, o_createdAt = now\<rparr>"
  define s2 where "s2 = ensurePermissionsExist (concat (List.map rd_permissions DEFAULT_ROLES))
      (s\<lparr>organizations := organizations s @ [?org]\<rparr>)"
  obtain ps where s2: "s2 = s\<lparr>organizations := organizations s @ [?org], permissions := ps\<rparr>"
    by (simp add: s2_def ensurePermissionsExist_def Let_def)
  have new: "\<not> (\<exists>o'\<in>set (organizations s). o_name o' = name \<or> o_id o' = newId 0)"
    using assms(1) False by (auto simp: createOrganizationWithRolesAndOwner_def split: if_splits)
  obtain rs s3 where ir: "insert_roles (newId 0) newId 1 DEFAULT_ROLES s2 = (Inr rs, s3)"
    using assms(1) False new
    by (auto simp: createOrganizationWithRolesAndOwner_def Let_def s2_def [symmetric] split: prod.splits sum.splits)
  note rs = insert_roles_InrD [OF ir]
  have s3: "s3 = s\<lparr>organizations := organizations s @ [?org], permissions := ps, roles := roles s @ rs\<rparr>"
    using rs by (simp add: s2)
  have "''OWNER'' \<in> r_name ` set rs"
  proof -
    have "fst ` set (List.map (\<lambda>r. (r_name r, r_level r, r_isSystem r, r_rolePermissions r)) rs) =
        fst ` set (List.map (\<lambda>d. (rd_name d, rd_level d, rd_isSystem d, rd_permissions d)) DEFAULT_ROLES)" using rs by simp
    then have "r_name ` set rs = rd_name ` set DEFAULT_ROLES" by (simp add: image_image)
    then show ?thesis by (simp add: DEFAULT_ROLES_def)
  qed
  then obtain q where "q \<in> set rs" "r_name q = ''OWNER''" by (metis imageE)
  then have "q \<in> set (roles s @ rs)" "r_organizationId q = newId 0 \<and> r_name q = ''OWNER''"
    using rs by auto
  then obtain r0 where r0: "find_unique (\<lambda>r. r_organizationId r = newId 0 \<and> r_name r = ''OWNER'') (roles s @ rs) = Some r0"
    using find_unique_exists [of q "roles s @ rs" "\<lambda>r. r_organizationId r = newId 0 \<and> r_name r = ''OWNER''"] by blast
  let ?m = "\<lparr>m_id = newId (1 + length DEFAULT_ROLES), m_userId = u, m_organizationId = newId 0, m_roleId = r_id r0,
      m_isAvailable = True, m_maxTicketsPerDay = Some 10, m_maxTicketsPerWeek = Some 50, m_createdAt = now\<rparr>"
  let ?s4 = "s3\<lparr>memberships := memberships s3 @ [?m]\<rparr>"
  obtain y s4 where im: "insert_membership (newId 0) u (r_id r0) now (newId (1 + length DEFAULT_ROLES)) s3 = (y, s4)"
    by fastforce
  have rw: "createOrganizationWithRolesAndOwner name u DEFAULT_ROLES ''OWNER'' now newId s =
      (case y of Inl e \<Rightarrow> throw e s
       | Inr m \<Rightarrow>
           let normalized = normalizeOrganization s4 True ?org;
               s5 = (case find_unique (\<lambda>e. m_userId e = m_userId m)
                            (case ov_memberships normalized of None \<Rightarrow> [] | Some ms \<Rightarrow> ms) of
                       None \<Rightarrow> s4 | Some om \<Rightarrow> setCachedOrganizationMembership om s4)
           in return (Some normalized) (invalidateUserPermissionSnapshot u s5))"
    unfolding createOrganizationWithRolesAndOwner_def Let_def
    by (subst if_not_P [OF new]) (use ir r0 im in \<open>simp add: s2_def [symmetric] s3 split: sum.split\<close>)
  obtain mm where y: "y = Inr mm" using rw assms(1) False by (cases y) auto
  have mm: "mm = ?m" "s4 = ?s4" and f: "find_membership (newId 0) u s3 = None" "find_user u s3 \<noteq> None"
    using im y by (auto simp: insert_membership_def Let_def split: if_splits)
  have "find_unique (\<lambda>e. m_userId e = m_userId ?m)
      (case ov_memberships (normalizeOrganization s4 True ?org) of None \<Rightarrow> [] | Some ms \<Rightarrow> ms) =
      Some (with_role s4 ?m)"
    using owner_membership_found [OF f(1), of ?m s4] mm(2)
    by (simp add: normalizeOrganization_def organization.defs org_view.defs)
  then have s': "s' = invalidateUserPermissionSnapshot u (setCachedOrganizationMembership (with_role ?s4 ?m) ?s4)"
    using rw assms(1) by (simp add: y mm Let_def)
  have "org_permitted u s (setCachedOrganizationMembership (with_role ?s4 ?m) ?s4)"
  proof (rule org_permitted.new_organization [where org = ?org and ps = ps and rs = rs and r = r0])
    show "find_organization (o_id ?org) s = None"
      using new by (auto simp: find_organization_def find_unique_None_iff)
    show "?s4 = s\<lparr>organizations := organizations s @ [?org], permissions := ps, roles := roles s @ rs,
            memberships := memberships s @ [?m]\<rparr>" by (simp add: s3)
    show "\<not> is_member s (o_id ?org) u" "find_user u s \<noteq> None"
      using f by (simp_all add: s3 is_member_def find_membership_def find_user_def)
    show "r_id ` set rs \<inter> r_id ` set (roles s) = {}" "distinct (List.map r_id rs)"
      "default_roles_of (o_id ?org) rs" using rs by (simp_all add: s2 default_roles_of_def)
  qed (use r0 assms(2,3) in simp_all)
  then show ?thesis unfolding s' by (rule run_then) (rule run_snapshot)
qed simp

definition fresh_ids :: "org_env \<Rightarrow> bool" where
  "fresh_ids env = (\<forall>i. colon_free (oe_newId env i) \<and> oe_newId env i \<noteq> [])"

lemma post_organization_permitted:
  assumes "\<And>i. colon_free (newId i) \<and> newId i \<noteq> []"
  shows "org_run u s (snd (post_organization_route name u now newId s))"
proof -
  obtain r s' where e: "createOrganizationWithRolesAndOwner name u DEFAULT_ROLES ''OWNER'' now newId s = (r, s')"
    by fastforce
  have "org_run u s s'" using createOrganization_run [OF e] assms by blast
  moreover have "snd (post_organization_route name u now newId s) \<in> {s, s'}"
    using e by (auto simp: post_organization_route_def createOrganizationService_def
        split: sum.split option.split)
  ultimately show ?thesis by auto
qed

lemma org_router_permitted:
  assumes "good s" "fresh_ids env"
  shows "org_run u s (snd (org_router env u req s))"
proof -
  have id: "colon_free (oe_newId env i) \<and> oe_newId env i \<noteq> []" for i using assms(2) by (simp add: fresh_ids_def)
  have mem: "find_membership o' u s = Some m \<Longrightarrow> is_member s o' u" for o' m by (simp add: is_member_def)
  note guard = org_route_state [where P = "org_run u s", OF assms(1) _ run_cache]
  show ?thesis
  proof (cases req)
    case (PostOrganization name)
    then show ?thesis using post_organization_permitted [of "oe_newId env"] id by simp
  next
    case (PatchOrganization o' name)
    then show ?thesis unfolding PatchOrganization
      by (simp add: patch_organization_route_def, intro guard)
        (auto intro: patch_organization_permitted mem)
  next
    case (DeleteOrganization o')
    then show ?thesis by (simp add: delete_organization_route_def, intro guard)
        (auto intro: delete_organization_permitted mem)
  next
    case (PostMember o' w roleId)
    then show ?thesis by (simp add: post_members_route_def, intro guard)
        (auto intro: post_member_permitted [OF assms(1)] simp: id)
  next
    case (PatchMember o' w roleId)
    then show ?thesis by (simp add: patch_member_route_def, intro guard)
        (auto intro: patch_member_permitted [OF assms(1)])
  next
    case (PostRole o' name ps level)
    then show ?thesis by (simp add: post_roles_route_def, intro guard)
        (auto simp: createRoleService_def split: option.split intro: run_cache)
  next
    case (PatchRole o' roleId d)
    then show ?thesis by (simp add: patch_role_route_def, intro guard)
        (auto intro: patch_role_permitted)
  next
    case (DeleteRole o' roleId)
    then show ?thesis by (simp add: delete_role_route_def, intro guard)
        (auto intro: delete_role_permitted)
  qed (simp_all, (intro guard, auto intro: run_cache)+)
qed


definition example_org_env :: org_env where
  "example_org_env = \<lparr>oe_uuid = (\<lambda>_. True), oe_token = None, oe_now = 9, oe_newId = (\<lambda>i. CHR ''n'' # replicate i CHR ''i'')\<rparr>"

lemma example_org_env_fresh: "fresh_ids example_org_env"
  by (simp add: fresh_ids_def example_org_env_def colon_free_def)


end
