(* ===== verification/Org_Invariant.thy ===== *)
theory Org_Invariant
  imports Org_Permitted
begin

section \<open>The invariant of organizations\<close>

text \<open>
  Roles have unique ids, belong to an existing organization and have a level of at most 100,
  which is the level of the system role OWNER; every organization has exactly one membership
  with that role; ids hold no colon. Together with tenancy (theory Tenancy) this is preserved by
  every step the two access-control specifications allow.
\<close>

definition owner_membership :: "gateway \<Rightarrow> membership \<Rightarrow> bool" where
  "owner_membership s m = (case find_role (m_roleId m) s of None \<Rightarrow> False | Some r \<Rightarrow> is_owner_role r)"

definition owners :: "gateway \<Rightarrow> string \<Rightarrow> membership list" where
  "owners s o' = List.filter (\<lambda>m. m_organizationId m = o' \<and> owner_membership s m) (memberships s)"

definition role_ok :: "gateway \<Rightarrow> org_role \<Rightarrow> bool" where
  "role_ok s r = (find_organization (r_organizationId r) s \<noteq> None \<and> r_level r \<le> 100 \<and>
     (is_owner_role r \<longrightarrow> r_level r = 100))"

definition org_ok :: "gateway \<Rightarrow> bool" where
  "org_ok s =
     (role_table.key_unique s \<and> (\<forall>r\<in>set (roles s). role_ok s r) \<and>
      (\<forall>m\<in>set (memberships s). find_organization (m_organizationId m) s \<noteq> None \<and>
         m_organizationId m \<noteq> [] \<and> m_userId m \<noteq> []) \<and>
      (\<forall>u\<in>set (users s). colon_free (u_id u) \<and> u_id u \<noteq> []) \<and>
      (\<forall>x\<in>set (organizations s). length (owners s (o_id x)) = 1))"

definition sys_ok :: "gateway \<Rightarrow> bool" where
  "sys_ok s = (tenant_ok s \<and> org_ok s)"

lemma org_okD:
  assumes "org_ok s"
  shows "role_table.key_unique s" "r \<in> set (roles s) \<Longrightarrow> role_ok s r"
    "m \<in> set (memberships s) \<Longrightarrow> find_organization (m_organizationId m) s \<noteq> None \<and>
       m_organizationId m \<noteq> [] \<and> m_userId m \<noteq> []"
    "u \<in> set (users s) \<Longrightarrow> colon_free (u_id u) \<and> u_id u \<noteq> []"
    "x \<in> set (organizations s) \<Longrightarrow> length (owners s (o_id x)) = 1"
  using assms by (auto simp: org_ok_def)

subsection \<open>Frame rules\<close>

lemma org_ok_cong:
  assumes "roles s' = roles s" "memberships s' = memberships s" "organizations s' = organizations s" "users s' = users s"
  shows "org_ok s' = org_ok s"
proof -
  have "find_role i s' = find_role i s" "find_organization i s' = find_organization i s" for i
    by (simp_all add: find_role_def find_organization_def assms)
  then show ?thesis
    by (simp add: org_ok_def role_table.key_unique_def assms role_ok_def owners_def owner_membership_def)
qed

text \<open>A change of organizations, memberships or roles only.\<close>

lemma tenant_ok_orgs:
  assumes "tenant_ok s" "good s'" "redis_ok s'" "roles_ok s'" "tickets s' = tickets s" "tags s' = tags s"
    "ticketTags s' = ticketTags s" "comments s' = comments s" "attachments s' = attachments s"
    "\<And>t. t \<in> set (tickets s) \<Longrightarrow> people_ok s t \<Longrightarrow> people_ok s' t"
  shows "tenant_ok s'"
  using assms(1) unfolding tenant_ok_def
  by (simp add: assms(2-9) ticket_table.key_unique_def tag_link_ok_cong [OF assms(5,6)] find_ticket_cong [OF assms(5)])
    (use assms(10) in blast)

lemma set_cached_fields [simp]:
  "memberships (setCachedOrganizationMembership mv s) = memberships s" "roles (setCachedOrganizationMembership mv s) = roles s"
  "organizations (setCachedOrganizationMembership mv s) = organizations s" "users (setCachedOrganizationMembership mv s) = users s"
  "tickets (setCachedOrganizationMembership mv s) = tickets s" "tags (setCachedOrganizationMembership mv s) = tags s"
  "ticketTags (setCachedOrganizationMembership mv s) = ticketTags s" "comments (setCachedOrganizationMembership mv s) = comments s"
  "attachments (setCachedOrganizationMembership mv s) = attachments s" "redisUp (setCachedOrganizationMembership mv s) = redisUp s"
  by (simp_all add: setCached_eq)

lemma flush_fields [simp]:
  "organizations (invalidateOrganizationMembershipCacheByOrg o' s) = organizations s"
  "users (invalidateOrganizationMembershipCacheByOrg o' s) = users s"
  "tags (invalidateOrganizationMembershipCacheByOrg o' s) = tags s"
  "ticketTags (invalidateOrganizationMembershipCacheByOrg o' s) = ticketTags s"
  "comments (invalidateOrganizationMembershipCacheByOrg o' s) = comments s"
  "attachments (invalidateOrganizationMembershipCacheByOrg o' s) = attachments s"
  "redisUp (invalidateOrganizationMembershipCacheByOrg o' s) = redisUp s"
  by (simp_all add: invalidateOrganizationMembershipCacheByOrg_def)

lemma set_cached_redis_ok: "redis_ok s \<Longrightarrow> redis_ok (setCachedOrganizationMembership mv s)"
  by (auto simp: redis_ok_def setCachedOrganizationMembership_def)

lemma flush_redis_ok: "redis_ok s \<Longrightarrow> redis_ok (invalidateOrganizationMembershipCacheByOrg o' s)"
  by (auto simp: redis_ok_def invalidateOrganizationMembershipCacheByOrg_def)

text \<open>
  After a flush of an organization the cache holds no entry of its members; the entries of other
  organizations stay right if their memberships and roles did.
\<close>

lemma flush_coherent:
  assumes "tenant_ok s" "membershipCache s' = membershipCache s" "redisUp s' = redisUp s"
    "\<And>m. m \<in> set (memberships s) \<Longrightarrow> m_organizationId m \<noteq> o' \<Longrightarrow>
       m \<in> set (memberships s') \<and> find_role (m_roleId m) s' = find_role (m_roleId m) s"
  shows "cache_coherent (invalidateOrganizationMembershipCacheByOrg o' s')" (is "cache_coherent ?t")
proof (rule coherent_after [of s])
  show "cache_coherent s" using tenant_okD(1) [OF assms(1)] by (simp add: good_def)
next
  fix k mv
  assume k: "membershipCache ?t k = Some mv"
  then have up: "redisUp s" and e: "membershipCache s k = Some mv" "\<not> prefix (membershipCacheKey o' []) k"
    using tenant_okD(8) [OF assms(1)] assms(2,3)
    by (auto simp: invalidateOrganizationMembershipCacheByOrg_def redis_ok_def split: if_splits)
  have "m \<in> set (memberships ?t) \<and> find_role (m_roleId m) ?t = find_role (m_roleId m) s"
    if "m \<in> set (memberships s)" "k = membershipCacheKey (m_organizationId m) (m_userId m)" for m
  proof -
    have "colon_free (m_organizationId m)" "colon_free (m_userId m)"
      using tenant_okD(1) [OF assms(1)] that(1) by (simp_all add: good_def membership_rows_ok_def)
    then have "m_organizationId m \<noteq> o'" using e(2) that(2) membershipCacheKey_prefix by blast
    from assms(4) [OF that(1) this] show ?thesis by (simp add: find_role_def)
  qed
  then show "membershipCache s k = Some mv \<and>
         (\<forall>m\<in>set (memberships s). k = membershipCacheKey (m_organizationId m) (m_userId m) \<longrightarrow>
            m \<in> set (memberships ?t) \<and> find_role (m_roleId m) ?t = find_role (m_roleId m) s) \<or>
       entry_ok ?t k mv" using e(1) by blast
qed

subsection \<open>Steps that leave the tables of organizations, memberships and roles\<close>

lemma sys_ok_flush: "sys_ok s \<Longrightarrow> sys_ok (invalidateOrganizationMembershipCacheByOrg o' s)"
proof -
  assume s: "sys_ok s"
  let ?t = "invalidateOrganizationMembershipCacheByOrg o' s"
  have t: "tenant_ok s" and "org_ok s" using s by (simp_all add: sys_ok_def)
  then have "org_ok ?t" using org_ok_cong [of ?t s] by simp
  moreover have "tenant_ok ?t"
  proof (rule tenant_ok_orgs [OF t])
    have "cache_coherent ?t" by (rule flush_coherent [OF t]) simp_all
    then show "good ?t" using tenant_okD(1) [OF t] membership_rows_ok_cong [of ?t s] by (simp add: good_def)
    show "redis_ok ?t" using tenant_okD(8) [OF t] by (rule flush_redis_ok)
    show "roles_ok ?t" using tenant_okD(2) [OF t] roles_ok_cong [of ?t s] by simp
    show "people_ok s x \<Longrightarrow> people_ok ?t x" for x using people_ok_cong [of ?t s x] by simp
  qed simp_all
  ultimately show ?thesis by (simp add: sys_ok_def)
qed

lemma sys_ok_quiet:
  assumes "sys_ok s" "roles s' = roles s" "memberships s' = memberships s" "organizations s' = organizations s"
    "users s' = users s" "tickets s' = tickets s" "tags s' = tags s" "ticketTags s' = ticketTags s"
    "comments s' = comments s" "attachments s' = attachments s" "membershipCache s' = membershipCache s"
    "redisUp s' = redisUp s"
  shows "sys_ok s'"
proof -
  have t: "tenant_ok s" and "org_ok s" using assms(1) by (simp_all add: sys_ok_def)
  have "tenant_ok s'"
  proof (rule tenant_ok_orgs [OF t])
    show "good s'" using tenant_okD(1) [OF t] good_cong [OF assms(3,2,11)] by simp
    show "redis_ok s'" using tenant_okD(8) [OF t] assms(11,12) by (simp add: redis_ok_def)
    show "roles_ok s'" using tenant_okD(2) [OF t] roles_ok_cong [OF assms(3,2)] by simp
    show "people_ok s x \<Longrightarrow> people_ok s' x" for x using people_ok_cong [OF assms(3)] by simp
  qed (fact assms)+
  then show ?thesis using \<open>org_ok s\<close> org_ok_cong [OF assms(2-5)] by (simp add: sys_ok_def)
qed

lemma cache_only_organizations: "cache_only s s' \<Longrightarrow> organizations s' = organizations s \<and> users s' = users s"
  by (simp add: cache_onlyD)

lemma sys_ok_cache_only: "cache_only s s' \<Longrightarrow> sys_ok s \<Longrightarrow> sys_ok s'"
  using tenant_ok_cache_only [of s s'] org_ok_cong [of s' s] by (simp add: sys_ok_def cache_onlyD)

subsection \<open>Roles\<close>

lemma find_role_unique: "role_table.key_unique s \<Longrightarrow> r \<in> set (roles s) \<Longrightarrow> find_role (r_id r) s = Some r"
  using role_table.lookup_unique [of s r] by (simp add: role_table.lookup_def find_role_def)

lemma member_role:
  assumes "tenant_ok s" "m \<in> set (memberships s)"
  obtains r where "find_role (m_roleId m) s = Some r" "r_organizationId r = m_organizationId m"
  using tenant_okD(2) [OF assms(1)] assms(2) that by (auto simp: roles_ok_def)

lemma owners_update_roles:
  assumes "memberships s' = memberships s"
    "\<And>m. m \<in> set (memberships s) \<Longrightarrow> owner_membership s' m = owner_membership s m"
  shows "owners s' o' = owners s o'"
  unfolding owners_def assms(1) by (rule filter_cong) (use assms(2) in auto)

text \<open>Editing a role that is not a system role: ids, organizations and owners stay.\<close>

lemma edited_role_keys:
  "r_id (apply_role_updates d q) = r_id q" "r_organizationId (apply_role_updates d q) = r_organizationId q"
  "r_isSystem (apply_role_updates d q) = r_isSystem q"
  by (simp_all add: apply_role_updates_def)

lemma find_edited_role:
  "find_role i (s\<lparr>roles := update_rows (\<lambda>q. r_id q = roleId) (apply_role_updates d) (roles s)\<rparr>) =
    map_option (\<lambda>q. if r_id q = roleId then apply_role_updates d q else q) (find_role i s)"
  unfolding find_role_def by (simp add: find_unique_update_key edited_role_keys)

lemma tenant_ok_edit_role:
  assumes "tenant_ok s" "find_role roleId s = Some r" "r_organizationId r = o'"
  shows "tenant_ok (invalidateOrganizationMembershipCacheByOrg o'
       (s\<lparr>roles := update_rows (\<lambda>q. r_id q = roleId) (apply_role_updates d) (roles s)\<rparr>))" (is "tenant_ok ?t")
proof (rule tenant_ok_orgs [OF assms(1)])
  let ?b = "s\<lparr>roles := update_rows (\<lambda>q. r_id q = roleId) (apply_role_updates d) (roles s)\<rparr>"
  have role: "find_role i ?t = map_option (\<lambda>q. if r_id q = roleId then apply_role_updates d q else q) (find_role i s)" for i
    using find_edited_role [of i roleId d s] by (simp add: find_role_def)
  have other: "find_role i ?b = find_role i s" if "i \<noteq> roleId" for i
    using find_role_SomeD [of i s] that by (cases "find_role i s") (auto simp: find_edited_role)
  have "cache_coherent ?t"
  proof (rule flush_coherent [OF assms(1)])
    fix m
    assume m: "m \<in> set (memberships s)" "m_organizationId m \<noteq> o'"
    then have "m_roleId m \<noteq> roleId" using member_role [OF assms(1) m(1)] assms(2,3) by (metis option.inject)
    then show "m \<in> set (memberships ?b) \<and> find_role (m_roleId m) ?b = find_role (m_roleId m) s"
      using m(1) other [of "m_roleId m"] by simp
  qed simp_all
  then show "good ?t" using tenant_okD(1) [OF assms(1)] membership_rows_ok_cong [of ?t s] by (simp add: good_def)
  show "redis_ok ?t" using tenant_okD(8) [OF assms(1)] by (intro flush_redis_ok) (simp add: redis_ok_def)
  show "roles_ok ?t" unfolding roles_ok_def
  proof
    fix m
    assume "m \<in> set (memberships ?t)"
    then obtain q where "find_role (m_roleId m) s = Some q" "r_organizationId q = m_organizationId m"
      using member_role [OF assms(1), of m] by auto
    then show "\<exists>r. find_role (m_roleId m) ?t = Some r \<and> r_organizationId r = m_organizationId m"
      by (simp add: role edited_role_keys)
  qed
  show "people_ok s x \<Longrightarrow> people_ok ?t x" for x using people_ok_cong [of ?t s x] by simp
qed simp_all

lemma sys_ok_edit_role:
  assumes "sys_ok s" "role_of s o' u = Some ar" "find_role roleId s = Some r" "r_organizationId r = o'"
    "\<not> r_isSystem r" "r_level (apply_role_updates d r) < r_level ar"
  shows "sys_ok (invalidateOrganizationMembershipCacheByOrg o'
       (s\<lparr>roles := update_rows (\<lambda>q. r_id q = roleId) (apply_role_updates d) (roles s)\<rparr>))" (is "sys_ok ?t")
proof -
  have t: "tenant_ok s" and og: "org_ok s" using assms(1) by (simp_all add: sys_ok_def)
  have role: "find_role i ?t = map_option (\<lambda>q. if r_id q = roleId then apply_role_updates d q else q) (find_role i s)" for i
    using find_edited_role [of i roleId d s] by (simp add: find_role_def)
  have sys: "q = r" if "q \<in> set (roles s)" "r_id q = roleId" for q
    using find_role_unique [OF org_okD(1) [OF og] that(1)] that(2) assms(3) by simp
  obtain am where am: "find_membership o' u s = Some am" "find_role (m_roleId am) s = Some ar"
    using assms(2) by (auto simp: role_of_def split: option.splits)
  have lev: "r_level ar \<le> 100" using org_okD(2) [OF og] find_role_SomeD [OF am(2)] by (simp add: role_ok_def)
  have own: "owner_membership ?t m = owner_membership s m" for m
    using assms(3,5) find_role_SomeD [of "m_roleId m" s]
    by (auto simp: owner_membership_def role is_owner_role_def edited_role_keys split: option.split)
  have "org_ok ?t"
    unfolding org_ok_def
  proof (intro conjI ballI)
    show "role_table.key_unique ?t"
      using org_okD(1) [OF og] map_key_update_rows [of "\<lambda>q. r_id q = roleId" r_id "apply_role_updates d" "roles s"]
      by (simp add: role_table.key_unique_def edited_role_keys)
    fix q
    assume "q \<in> set (roles ?t)"
    then obtain q0 where q0: "q0 \<in> set (roles s)" "q = (if r_id q0 = roleId then apply_role_updates d q0 else q0)"
      by (auto elim: update_rowsE)
    then show "role_ok ?t q"
      using org_okD(2) [OF og q0(1)] assms(5,6) lev sys [OF q0(1)]
      by (auto simp: role_ok_def edited_role_keys is_owner_role_def find_organization_def)
  next
    show "length (owners ?t (o_id x)) = 1" if "x \<in> set (organizations ?t)" for x
      using owners_update_roles [of ?t s "o_id x"] own org_okD(5) [OF og] that by simp
  qed (use org_okD(3,4) [OF og] in \<open>auto simp: find_organization_def\<close>)
  then show ?thesis using tenant_ok_edit_role [OF t assms(3,4)] by (simp add: sys_ok_def)
qed

lemma sys_ok_drop_role:
  assumes "sys_ok s" "find_role roleId s = Some r" "r_organizationId r = o'"
    "\<forall>m\<in>set (memberships s). m_roleId m \<noteq> roleId"
  shows "sys_ok (invalidateOrganizationMembershipCacheByOrg o'
       (s\<lparr>roles := delete_rows (\<lambda>q. r_id q = roleId) (roles s)\<rparr>))" (is "sys_ok ?t")
proof -
  have t: "tenant_ok s" and og: "org_ok s" using assms(1) by (simp_all add: sys_ok_def)
  have role': "i \<noteq> roleId \<Longrightarrow> find_unique (\<lambda>r. r_id r = i) (delete_rows (\<lambda>q. r_id q = roleId) rs) =
      find_unique (\<lambda>r. r_id r = i) rs" for i rs
    by (induction rs) (auto simp: delete_rows_def)
  have role: "m \<in> set (memberships s) \<Longrightarrow> find_role (m_roleId m) ?t = find_role (m_roleId m) s" for m
    using assms(4) role' [of "m_roleId m" "roles s"] by (simp add: find_role_def)
  have own: "m \<in> set (memberships s) \<Longrightarrow> owner_membership ?t m = owner_membership s m" for m
    by (simp add: owner_membership_def role)
  have "tenant_ok ?t"
  proof (rule tenant_ok_orgs [OF t])
    have "cache_coherent ?t"
      by (rule flush_coherent [OF t]) (use role in \<open>auto simp: find_role_def\<close>)
    then show "good ?t" using tenant_okD(1) [OF t] membership_rows_ok_cong [of ?t s] by (simp add: good_def)
    show "redis_ok ?t" using tenant_okD(8) [OF t] by (intro flush_redis_ok) (simp add: redis_ok_def)
    show "roles_ok ?t" using tenant_okD(2) [OF t] by (auto simp: roles_ok_def role)
    show "people_ok s x \<Longrightarrow> people_ok ?t x" for x using people_ok_cong [of ?t s x] by simp
  qed simp_all
  moreover have "org_ok ?t"
    unfolding org_ok_def
  proof (intro conjI ballI)
    have "distinct (List.map r_id (roles s)) \<Longrightarrow> distinct (List.map r_id (delete_rows p (roles s)))" for p
      by (induction "roles s" arbitrary: s rule: list.induct) (auto simp: delete_rows_def distinct_map inj_on_def)
    then show "role_table.key_unique ?t" using org_okD(1) [OF og] by (simp add: role_table.key_unique_def)
    show "role_ok ?t q" if "q \<in> set (roles ?t)" for q
      using that org_okD(2) [OF og, of q] by (auto simp: role_ok_def find_organization_def)
    show "length (owners ?t (o_id x)) = 1" if "x \<in> set (organizations ?t)" for x
      using owners_update_roles [of ?t s "o_id x"] own org_okD(5) [OF og] that by simp
  qed (use org_okD(3,4) [OF og] in \<open>auto simp: find_organization_def\<close>)
  ultimately show ?thesis by (simp add: sys_ok_def)
qed

subsection \<open>Memberships\<close>

lemma actor_level:
  assumes "org_ok s" "role_of s o' u = Some ar"
  shows "r_level ar \<le> 100" "is_member s o' u"
proof -
  obtain am where "find_membership o' u s = Some am" "find_role (m_roleId am) s = Some ar"
    using assms(2) by (auto simp: role_of_def split: option.splits)
  then show "r_level ar \<le> 100" "is_member s o' u"
    using org_okD(2) [OF assms(1)] find_role_SomeD by (auto simp: role_ok_def is_member_def)
qed

lemma lower_not_owner:
  assumes "org_ok s" "role_of s o' u = Some ar" "find_role i s = Some r" "r_level r < r_level ar"
  shows "\<not> is_owner_role r"
  using actor_level(1) [OF assms(1,2)] org_okD(2) [OF assms(1)] find_role_SomeD [OF assms(3)] assms(4)
  by (force simp: role_ok_def)

lemma find_user_SomeD: "find_user i s = Some u \<Longrightarrow> u \<in> set (users s) \<and> u_id u = i"
  unfolding find_user_def by (drule find_unique_SomeD) simp

lemma user_id_ok: "org_ok s \<Longrightarrow> find_user i s \<noteq> None \<Longrightarrow> colon_free i \<and> i \<noteq> []"
  using org_okD(4) find_user_SomeD by fastforce

lemma find_membership_append:
  "memberships s' = memberships s @ [m] \<Longrightarrow> find_membership o' u s' =
     (case find_membership o' u s of Some r \<Rightarrow> Some r
      | None \<Rightarrow> if m_userId m = u \<and> m_organizationId m = o' then Some m else None)"
  by (simp add: find_membership_def find_unique_append split: option.split)

text \<open>A new membership with its cache entry keeps the membership rows and the cache right.\<close>

lemma good_new_membership:
  assumes "good s" "memberships s' = memberships s @ [m]" "membershipCache s' = membershipCache s"
    "\<not> is_member s (m_organizationId m) (m_userId m)" "colon_free (m_organizationId m)" "colon_free (m_userId m)"
    "m_id m \<noteq> []" "\<And>x. x \<in> set (memberships s) \<Longrightarrow> find_role (m_roleId x) s' = find_role (m_roleId x) s"
  shows "good (setCachedOrganizationMembership (with_role s' m) s')" (is "good ?t")
proof -
  have "cache_coherent s'"
  proof (rule coherent_after [of s])
    show "cache_coherent s" using assms(1) by (simp add: good_def)
  qed (rule disjI1, simp add: assms(2,3) assms(8))
  then have "cache_coherent ?t"
    by (rule setCached_coherent [where m = m])
      (simp_all add: assms(2))
  moreover have "membership_table.key_unique (s\<lparr>memberships := memberships s @ [m]\<rparr>)"
    using membership_table.insert_key_unique [of s m] assms(1,4)
    by (simp add: good_def membership_rows_ok_def membership_table.lookup_def is_member_def find_membership_def)
  then have "membership_rows_ok ?t"
    using assms(1,5,6) by (auto simp: good_def membership_rows_ok_def membership_table.key_unique_def assms(2))
  ultimately show ?thesis using assms(1,7) by (simp add: good_def assms(2))
qed

lemma sys_ok_invite:
  assumes "sys_ok s" "role_of s o' u = Some ar" "find_role (m_roleId m) s = Some nr"
    "r_organizationId nr = o'" "r_level nr < r_level ar" "m_organizationId m = o'"
    "find_user (m_userId m) s \<noteq> None" "\<not> is_member s o' (m_userId m)" "m_id m \<noteq> []"
    "s1 = s\<lparr>memberships := memberships s @ [m]\<rparr>"
  shows "sys_ok (setCachedOrganizationMembership (with_role s1 m) s1)" (is "sys_ok ?t")
proof -
  have t: "tenant_ok s" and og: "org_ok s" using assms(1) by (simp_all add: sys_ok_def)
  have ms: "memberships ?t = memberships s @ [m]" and ms1: "memberships s1 = memberships s @ [m]"
    by (simp_all add: assms(10))
  have mc1: "membershipCache s1 = membershipCache s" by (simp add: assms(10))
  have orgs: "organizations s1 = organizations s" "roles s1 = roles s" "users s1 = users s" by (simp_all add: assms(10))
  have role: "find_role i ?t = find_role i s" "find_role i s1 = find_role i s" for i
    by (simp_all add: find_role_def assms(10))
  obtain am where am: "am \<in> set (memberships s)" "m_organizationId am = o'"
    using actor_level(2) [OF og assms(2)] find_membership_SomeD by (fastforce simp: is_member_def)
  have cf: "colon_free o'" "colon_free (m_userId m)" "m_userId m \<noteq> []" "o' \<noteq> []"
    and fo: "find_organization o' s \<noteq> None"
    using am org_okD(3) [OF og am(1)] tenant_okD(1) [OF t] user_id_ok [OF og assms(7)]
    by (auto simp: good_def membership_rows_ok_def)
  have "tenant_ok ?t"
  proof (rule tenant_ok_orgs [OF t])
    show "good ?t" using tenant_okD(1) [OF t] assms(6,8,9) cf
      by (intro good_new_membership [where s = s]) (simp_all add: ms1 role(2) mc1)
    show "redis_ok ?t" using tenant_okD(8) [OF t]
      by (intro set_cached_redis_ok) (simp add: assms(10) redis_ok_def)
    show "roles_ok ?t" using tenant_okD(2) [OF t] assms(3,4,6) by (auto simp: roles_ok_def ms1 role)
    have "is_member s x v \<Longrightarrow> is_member ?t x v" for x v
      by (auto simp: is_member_def find_membership_append [OF ms])
    then show "people_ok s x \<Longrightarrow> people_ok ?t x" for x by (simp add: people_ok_def)
  qed (simp_all add: assms(10))
  moreover have "org_ok ?t"
    unfolding org_ok_def
  proof (intro conjI ballI)
    have om: "owner_membership ?t x = owner_membership s x" for x by (simp add: owner_membership_def role)
    have "\<not> owner_membership s m"
      using lower_not_owner [OF og assms(2,3,5)] by (simp add: owner_membership_def assms(3))
    then show "length (owners ?t (o_id x)) = 1" if "x \<in> set (organizations ?t)" for x
      using org_okD(5) [OF og, of x] that by (simp add: owners_def ms1 om orgs)
  qed (use org_okD(1-4) [OF og] fo cf assms(6) in
      \<open>auto simp: ms1 orgs role_table.key_unique_def role_ok_def find_organization_def\<close>)
  ultimately show ?thesis by (simp add: sys_ok_def)
qed

lemma find_unique_key_only:
  assumes "distinct (List.map key xs)" "x \<in> set xs" "y \<in> set xs" "key x = key y"
  shows "x = y"
  using assms by (simp add: distinct_map inj_on_def)

text \<open>Giving a member another role: the cache gets the new row, and the owners stay.\<close>

lemma coherent_set_role:
  assumes "tenant_ok s" "org_ok s" "find_membership o' w s = Some m"
    "s1 = s\<lparr>memberships := update_rows (\<lambda>m. m_userId m = w \<and> m_organizationId m = o')
        (\<lambda>m. m\<lparr>m_roleId := roleId\<rparr>) (memberships s)\<rparr>"
  shows "cache_coherent (setCachedOrganizationMembership (with_role s1 (m\<lparr>m_roleId := roleId\<rparr>)) s1)" (is "cache_coherent ?t")
proof -
  let ?m = "m\<lparr>m_roleId := roleId\<rparr>"
  have same: "membershipCache s1 = membershipCache s" "roles s1 = roles s" "redisUp s1 = redisUp s"
    "organizations s1 = organizations s" "users s1 = users s"
    and ms: "memberships s1 = update_rows (\<lambda>m. m_userId m = w \<and> m_organizationId m = o') (\<lambda>m. m\<lparr>m_roleId := roleId\<rparr>) (memberships s)"
    by (simp_all add: assms(4))
  have m: "m \<in> set (memberships s)" "m_userId m = w" "m_organizationId m = o'"
    using find_membership_SomeD [OF assms(3)] by simp_all
  have m1: "?m \<in> set (memberships s1)" using m by (auto simp: ms set_update_rows image_iff)
  have coh: "cache_coherent s" using tenant_okD(1) [OF assms(1)] by (simp add: good_def)
  show ?thesis
  proof (rule coherent_after [OF coh])
    fix k mv
    assume k: "membershipCache ?t k = Some mv"
    then have "redisUp s"
      using tenant_okD(8) [OF assms(1)] same by (auto simp: setCachedOrganizationMembership_def redis_ok_def split: if_splits)
    then have put: "membershipCache ?t = (membershipCache s)(membershipCacheKey o' w := Some (with_role s1 ?m))"
      using org_okD(3) [OF assms(2) m(1)] m(2,3) same by (simp add: setCachedOrganizationMembership_def)
    show "membershipCache s k = Some mv \<and>
       (\<forall>x\<in>set (memberships s). k = membershipCacheKey (m_organizationId x) (m_userId x) \<longrightarrow>
          x \<in> set (memberships ?t) \<and> find_role (m_roleId x) ?t = find_role (m_roleId x) s) \<or> entry_ok ?t k mv"
    proof (cases "k = membershipCacheKey o' w")
      case True
      then have "mv = with_role s1 ?m" using k put by simp
      moreover have "with_role ?t ?m = with_role s1 ?m" by (rule with_role_cong) simp
      ultimately have "entry_ok ?t k mv" using m1 m(2,3) True by (auto simp: entry_ok_def intro!: bexI [of _ ?m])
      then show ?thesis ..
    next
      case False
      then have "membershipCache s k = Some mv" using k put by simp
      moreover have "x \<in> set (memberships ?t)"
        if "x \<in> set (memberships s)" "k = membershipCacheKey (m_organizationId x) (m_userId x)" for x
        by (simp add: ms, rule update_rows_other [OF that(1)]) (use that(2) False in auto)
      ultimately show ?thesis by (simp add: find_role_def same)
    qed
  qed
qed

lemma owners_set_role:
  assumes "\<And>x. x \<in> set ms \<Longrightarrow> p x \<Longrightarrow> \<not> owner_membership s x" "\<And>x. \<not> owner_membership s (f x)"
  shows "List.filter (\<lambda>m. m_organizationId m = y \<and> owner_membership s m) (update_rows p f ms) =
    List.filter (\<lambda>m. m_organizationId m = y \<and> owner_membership s m) ms"
  using assms(1) by (induction ms) (auto simp: update_rows_def assms(2))

lemma sys_ok_set_role:
  assumes "sys_ok s" "role_of s o' u = Some ar" "find_membership o' w s = Some m" "role_of s o' w = Some wr"
    "r_level wr < r_level ar" "find_role roleId s = Some nr" "r_organizationId nr = o'" "\<not> is_owner_role nr"
    "s1 = s\<lparr>memberships := update_rows (\<lambda>m. m_userId m = w \<and> m_organizationId m = o')
        (\<lambda>m. m\<lparr>m_roleId := roleId\<rparr>) (memberships s)\<rparr>"
  shows "sys_ok (setCachedOrganizationMembership (with_role s1 (m\<lparr>m_roleId := roleId\<rparr>)) s1)" (is "sys_ok ?t")
proof -
  let ?p = "\<lambda>m. m_userId m = w \<and> m_organizationId m = o'" and ?f = "\<lambda>m. m\<lparr>m_roleId := roleId\<rparr>"
  have t: "tenant_ok s" and og: "org_ok s" using assms(1) by (simp_all add: sys_ok_def)
  have same: "membershipCache s1 = membershipCache s" "organizations s1 = organizations s" "roles s1 = roles s"
    "users s1 = users s" "tickets s1 = tickets s" "tags s1 = tags s" "ticketTags s1 = ticketTags s"
    "comments s1 = comments s" "attachments s1 = attachments s" "redisUp s1 = redisUp s"
    and ms: "memberships s1 = update_rows ?p ?f (memberships s)" by (simp_all add: assms(9))
  have role: "find_role i ?t = find_role i s" for i by (simp add: find_role_def same)
  have rows: "membership_rows_ok s" using tenant_okD(1) [OF t] by (simp add: good_def)
  have mem: "is_member ?t x v = is_member s x v" for x v
    using find_membership_update [of ?f ?t ?p s x v] ms by (simp add: is_member_def)
  have "tenant_ok ?t"
  proof (rule tenant_ok_orgs [OF t])
    have "membership_rows_ok ?t" by (rule membership_rows_ok_update [OF rows]) (simp_all add: ms)
    then show "good ?t"
      using coherent_set_role [OF t og assms(3,9)] tenant_okD(1) [OF t] by (auto simp: good_def ms set_update_rows)
    show "redis_ok ?t" using tenant_okD(8) [OF t]
      by (intro set_cached_redis_ok) (simp add: same redis_ok_def)
    show "roles_ok ?t"
      using tenant_okD(2) [OF t] assms(6,7) by (auto simp: roles_ok_def ms role set_update_rows)
    show "people_ok s x \<Longrightarrow> people_ok ?t x" for x by (simp add: people_ok_def mem)
  qed (simp_all add: same)
  moreover have "org_ok ?t"
    unfolding org_ok_def
  proof (intro conjI ballI)
    have om: "owner_membership ?t x = owner_membership s x" for x by (simp add: owner_membership_def role)
    have "\<not> owner_membership s m"
      using lower_not_owner [OF og assms(2) _ assms(5)] assms(3,4) by (simp add: owner_membership_def role_of_def)
    then have no: "\<not> owner_membership s x" if "x \<in> set (memberships s)" "?p x" for x
      using find_membership_unique [OF rows that(1)] that(2) assms(3) by auto
    have "\<not> owner_membership s (?f x)" for x using assms(6,8) by (simp add: owner_membership_def)
    from owners_set_role [OF no this] show "length (owners ?t (o_id x)) = 1" if "x \<in> set (organizations ?t)" for x
      using org_okD(5) [OF og, of x] that by (simp add: owners_def ms om same)
  qed (use org_okD(1-4) [OF og] in
      \<open>auto simp: ms same role_table.key_unique_def role_ok_def find_organization_def set_update_rows\<close>)
  ultimately show ?thesis by (simp add: sys_ok_def)
qed

subsection \<open>Organizations\<close>

lemma sys_ok_rename:
  assumes "sys_ok s"
  shows "sys_ok (s\<lparr>organizations := update_rows (\<lambda>x. o_id x = o') (\<lambda>x. x\<lparr>o_name := name\<rparr>) (organizations s)\<rparr>)"
    (is "sys_ok ?t")
proof -
  have t: "tenant_ok s" and og: "org_ok s" using assms(1) by (simp_all add: sys_ok_def)
  have fo: "find_organization i ?t \<noteq> None \<longleftrightarrow> find_organization i s \<noteq> None" for i
    by (simp add: find_organization_def find_unique_update_key)
  have "tenant_ok ?t"
  proof (rule tenant_ok_orgs [OF t])
    show "good ?t" using tenant_okD(1) [OF t] good_cong [of ?t s] by simp
    show "redis_ok ?t" using tenant_okD(8) [OF t] by (simp add: redis_ok_def)
    show "roles_ok ?t" using tenant_okD(2) [OF t] roles_ok_cong [of ?t s] by simp
    show "people_ok s x \<Longrightarrow> people_ok ?t x" for x using people_ok_cong [of ?t s x] by simp
  qed simp_all
  moreover have "org_ok ?t"
    unfolding org_ok_def
  proof (intro conjI ballI)
    have own: "owners ?t x = owners s x" for x by (simp add: owners_def owner_membership_def find_role_def)
    show "length (owners ?t (o_id x)) = 1" if "x \<in> set (organizations ?t)" for x
      using org_okD(5) [OF og] that unfolding own by (auto simp: set_update_rows)
    show "role_ok ?t r" if "r \<in> set (roles ?t)" for r
      using org_okD(2) [OF og, of r] that fo by (simp add: role_ok_def)
  qed (use org_okD(1,3,4) [OF og] fo in \<open>auto simp: role_table.key_unique_def\<close>)
  ultimately show ?thesis by (simp add: sys_ok_def)
qed

lemma find_unique_delete:
  "(\<And>r. r \<in> set rs \<Longrightarrow> q r \<Longrightarrow> \<not> p r) \<Longrightarrow> find_unique q (delete_rows p rs) = find_unique q rs"
  by (induction rs) (auto simp: delete_rows_def)

lemma distinct_map_delete: "distinct (List.map key xs) \<Longrightarrow> distinct (List.map key (delete_rows p xs))"
  by (induction xs) (auto simp: delete_rows_def)

lemma sys_ok_drop_organization:
  assumes "sys_ok s" "\<forall>t\<in>set (tickets s). t_organizationId t \<noteq> o'"
  shows "sys_ok (invalidateOrganizationMembershipCacheByOrg o'
       (s\<lparr>memberships := delete_rows (\<lambda>m. m_organizationId m = o') (memberships s),
          roles := delete_rows (\<lambda>r. r_organizationId r = o') (roles s),
          organizations := delete_rows (\<lambda>x. o_id x = o') (organizations s)\<rparr>))" (is "sys_ok ?t")
proof -
  have t: "tenant_ok s" and og: "org_ok s" using assms(1) by (simp_all add: sys_ok_def)
  have role: "find_role (m_roleId m) ?t = find_role (m_roleId m) s"
    if m: "m \<in> set (memberships s)" "m_organizationId m \<noteq> o'" for m
  proof -
    obtain q where q: "find_role (m_roleId m) s = Some q" "r_organizationId q = m_organizationId m"
      using member_role [OF t m(1)] .
    have "x = q" if "x \<in> set (roles s)" "r_id x = m_roleId m" for x
      using find_role_unique [OF org_okD(1) [OF og] that(1)] that(2) q(1) by simp
    then show ?thesis using q(2) m(2) by (auto simp: find_role_def intro: find_unique_delete)
  qed
  have fm: "x \<noteq> o' \<Longrightarrow> find_membership x v ?t = find_membership x v s" for x v
    by (auto simp: find_membership_def intro: find_unique_delete)
  have fo: "x \<noteq> o' \<Longrightarrow> find_organization x ?t = find_organization x s" for x
    by (auto simp: find_organization_def intro: find_unique_delete)
  have "tenant_ok ?t"
  proof (rule tenant_ok_orgs [OF t])
    have "cache_coherent ?t"
      by (rule flush_coherent [OF t]) (use role in \<open>auto simp: find_role_def\<close>)
    moreover have "membership_rows_ok ?t"
      using tenant_okD(1) [OF t]
      by (auto simp: good_def membership_rows_ok_def membership_table.key_unique_def intro: distinct_map_delete)
    ultimately show "good ?t" using tenant_okD(1) [OF t] by (simp add: good_def)
    show "redis_ok ?t" using tenant_okD(8) [OF t] by (intro flush_redis_ok) (simp add: redis_ok_def)
    show "roles_ok ?t" using tenant_okD(2) [OF t] role by (auto simp: roles_ok_def)
    show "people_ok ?t x" if "x \<in> set (tickets s)" "people_ok s x" for x
      using that assms(2) by (simp add: people_ok_def is_member_def fm)
  qed simp_all
  moreover have "org_ok ?t"
    unfolding org_ok_def
  proof (intro conjI ballI)
    have "owner_membership ?t m = owner_membership s m" if "m \<in> set (memberships s)" "m_organizationId m \<noteq> o'" for m
      using role [OF that] by (simp add: owner_membership_def)
    then have "owners ?t x = owners s x" if "x \<noteq> o'" for x
      unfolding owners_def using that by (auto simp: delete_rows_def intro!: filter_cong)
    then show "length (owners ?t (o_id x)) = 1" if "x \<in> set (organizations ?t)" for x
      using org_okD(5) [OF og] that by auto
    show "role_ok ?t r" if "r \<in> set (roles ?t)" for r
      using org_okD(2) [OF og, of r] that fo by (simp add: role_ok_def)
    show "role_table.key_unique ?t"
      using org_okD(1) [OF og] by (auto simp: role_table.key_unique_def intro: distinct_map_delete)
  qed (use org_okD(3,4) [OF og] fo in auto)
  ultimately show ?thesis by (simp add: sys_ok_def)
qed

lemma default_owner_count:
  assumes "default_roles_of o' rs"
  shows "\<forall>r\<in>set rs. r_organizationId r = o' \<and> r_level r \<le> 100 \<and> (is_owner_role r \<longrightarrow> r_level r = 100) \<and>
    (r_name r = ''OWNER'' \<longrightarrow> is_owner_role r)"
proof
  fix r
  assume r: "r \<in> set rs"
  then have "(r_name r, r_level r, r_isSystem r, r_rolePermissions r) \<in> set (List.map (\<lambda>r. (r_name r, r_level r, r_isSystem r, r_rolePermissions r)) rs)" by auto
  also have "\<dots> = set (List.map (\<lambda>d. (rd_name d, rd_level d, rd_isSystem d, rd_permissions d)) DEFAULT_ROLES)"
    using assms by (simp only: default_roles_of_def)
  finally show "r_organizationId r = o' \<and> r_level r \<le> 100 \<and> (is_owner_role r \<longrightarrow> r_level r = 100) \<and>
    (r_name r = ''OWNER'' \<longrightarrow> is_owner_role r)"
    using r assms by (auto simp: DEFAULT_ROLES_def default_roles_of_def is_owner_role_def)
qed

lemma sys_ok_new_organization:
  assumes "sys_ok s" "find_organization (o_id org) s = None" "colon_free (o_id org)" "o_id org \<noteq> []"
    "default_roles_of (o_id org) rs" "distinct (List.map r_id rs)" "r_id ` set rs \<inter> r_id ` set (roles s) = {}"
    "find_unique (\<lambda>r. r_organizationId r = o_id org \<and> r_name r = ''OWNER'') (roles s @ rs) = Some r"
    "m_organizationId m = o_id org" "m_userId m = u" "m_roleId m = r_id r" "m_id m \<noteq> []"
    "\<not> is_member s (o_id org) u" "find_user u s \<noteq> None"
    "s1 = s\<lparr>organizations := organizations s @ [org], permissions := ps, roles := roles s @ rs,
            memberships := memberships s @ [m]\<rparr>"
  shows "sys_ok (setCachedOrganizationMembership (with_role s1 m) s1)" (is "sys_ok ?t")
proof -
  let ?o = "o_id org"
  have t: "tenant_ok s" and og: "org_ok s" using assms(1) by (simp_all add: sys_ok_def)
  have f1: "memberships s1 = memberships s @ [m]" "roles s1 = roles s @ rs" "organizations s1 = organizations s @ [org]"
    "users s1 = users s" "membershipCache s1 = membershipCache s" "redisUp s1 = redisUp s" "tickets s1 = tickets s"
    "tags s1 = tags s" "ticketTags s1 = ticketTags s" "comments s1 = comments s" "attachments s1 = attachments s"
    by (simp_all add: assms(15))
  note df = default_owner_count [OF assms(5)]
  have old: "find_role i s = Some q \<Longrightarrow> find_role i s1 = Some q" "find_role i s = Some q \<Longrightarrow> find_role i ?t = Some q" for i q
    by (simp_all add: find_role_def f1 find_unique_append)
  have role: "find_role (m_roleId x) s1 = find_role (m_roleId x) s" "find_role (m_roleId x) ?t = find_role (m_roleId x) s"
    if "x \<in> set (memberships s)" for x using member_role [OF t that] old by (metis)+
  have fo: "find_organization x s \<noteq> None \<Longrightarrow> find_organization x ?t \<noteq> None" "find_organization ?o ?t \<noteq> None" for x
    by (simp_all add: find_organization_def f1 find_unique_append split: option.split)
  have ku: "role_table.key_unique ?t" using org_okD(1) [OF og] assms(6,7)
    by (auto simp: role_table.key_unique_def f1)
  have "r_organizationId x \<noteq> ?o" if "x \<in> set (roles s)" for x
    using org_okD(2) [OF og that] assms(2) by (auto simp: role_ok_def)
  then have r: "r \<in> set rs" "r_name r = ''OWNER''" using find_unique_SomeD [OF assms(8)] by auto
  then have mr: "find_role (m_roleId m) ?t = Some r"
    using find_role_unique [OF ku, of r] by (simp add: assms(11) f1)
  have u: "colon_free u" "u \<noteq> []" using user_id_ok [OF og assms(14)] by simp_all
  have "tenant_ok ?t"
  proof (rule tenant_ok_orgs [OF t])
    show "good ?t" using tenant_okD(1) [OF t]
      by (rule good_new_membership) (simp_all add: f1 assms(3,9,10,12,13) u role)
    show "redis_ok ?t" using tenant_okD(8) [OF t]
      by (intro set_cached_redis_ok) (simp add: f1 redis_ok_def)
    show "roles_ok ?t" using tenant_okD(2) [OF t] mr df r(1) assms(9)
      by (auto simp: roles_ok_def f1 role)
    have "is_member s x v \<Longrightarrow> is_member ?t x v" for x v
      by (auto simp: is_member_def find_membership_append [of ?t s m] f1)
    then show "people_ok s x \<Longrightarrow> people_ok ?t x" for x by (simp add: people_ok_def)
  qed (simp_all add: f1)
  moreover have "org_ok ?t"
    unfolding org_ok_def
  proof (intro conjI ballI)
    have om: "owner_membership ?t x = owner_membership s x" if "x \<in> set (memberships s)" for x
      using role(2) [OF that] by (simp add: owner_membership_def)
    have omm: "owner_membership ?t m" using mr df r by (simp add: owner_membership_def)
    have none: "m_organizationId x \<noteq> ?o" if "x \<in> set (memberships s)" for x
      using org_okD(3) [OF og that] assms(2) by auto
    have ne: "o_id x \<noteq> ?o" if "x \<in> set (organizations s)" for x
      using assms(2) that by (auto simp: find_organization_def find_unique_None_iff)
    have "owners ?t x = (if x = ?o then [m] else owners s x)" for x
      using om omm none assms(9) by (auto simp: owners_def f1 intro!: filter_cong)
    then show "length (owners ?t (o_id x)) = 1" if "x \<in> set (organizations ?t)" for x
      using org_okD(5) [OF og] that ne by (auto simp: f1)
    show "role_ok ?t x" if "x \<in> set (roles ?t)" for x
      using that org_okD(2) [OF og, of x] df fo by (auto simp: role_ok_def f1)
  qed (use org_okD(3,4) [OF og] fo ku u assms(4,9,10) in \<open>auto simp: f1\<close>)
  ultimately show ?thesis by (simp add: sys_ok_def)
qed

end
