(* ===== verification/Activity_Log.thy ===== *)
theory Activity_Log
  imports Tenancy
begin

section \<open>The activity log\<close>

text \<open>
  What the delivery of the pending events does to the activity table, and what the activity
  table shows: one row per event, but also the text of internal comments.
\<close>

subsection \<open>Draining the bus\<close>

text \<open>
  The pending events are delivered in order, each at some time with some row id. An event is
  loggable when it is one of the nine ticket events and its ticket and its actor exist.
\<close>

fun drain :: "(time \<times> string) list \<Rightarrow> gateway \<Rightarrow> gateway" where
  "drain [] s = s"
| "drain ((now, newId) # ds) s = drain ds (deliver_event now newId s)"

definition loggable :: "gateway \<Rightarrow> event \<Rightarrow> bool" where
  "loggable s e = (e_name e \<in> set ticket_event_names \<and>
     (\<exists>t a. payload_field e ''ticketId'' = Some t \<and> payload_field e ''actorId'' = Some a \<and>
        find_ticket t s \<noteq> None \<and> find_user a s \<noteq> None))"

definition activity_row :: "event \<Rightarrow> time \<times> string \<Rightarrow> activity" where
  "activity_row e d =
     (let (act, old, new) = the (activity_for e) in
      \<lparr>act_id = snd d, act_ticketId = the (payload_field e ''ticketId''),
       act_actorId = the (payload_field e ''actorId''), act_action = act, act_oldValue = old,
       act_newValue = new, act_createdAt = fst d\<rparr>)"

lemma deliver_loggable:
  assumes "emitted s = e # es" "loggable s e" "n \<notin> act_id ` set (activities s)"
  shows "deliver_event now n s = s\<lparr>emitted := es, activities := activities s @ [activity_row e (now, n)]\<rparr>"
proof -
  from assms(2) obtain t a act old new where
    p: "payload_field e ''ticketId'' = Some t" "payload_field e ''actorId'' = Some a"
    and f: "find_ticket t s \<noteq> None" "find_user a s \<noteq> None" and d: "activity_for e = Some (act, old, new)"
    using activity_for_registered [of e] unfolding loggable_def by (metis not_None_eq prod_cases3)
  from f obtain tk ur where "find_ticket t s = Some tk" "find_user a s = Some ur" by blast
  from deliver_event_activity [OF assms(1) d p this assms(3)] show ?thesis
    by (simp add: activity_row_def d p)
qed

lemma drain_loggable:
  assumes "\<forall>e\<in>set (emitted s). loggable s e" "length ds = length (emitted s)"
    "distinct (List.map snd ds)" "snd ` set ds \<inter> act_id ` set (activities s) = {}"
  shows "drain ds s = s\<lparr>emitted := [],
    activities := activities s @ List.map (\<lambda>(e, d). activity_row e d) (zip (emitted s) ds)\<rparr>"
  using assms
proof (induction ds arbitrary: s)
  case Nil
  then show ?case by simp
next
  case (Cons d ds)
  obtain now n where d: "d = (now, n)" by (cases d)
  obtain e es where e: "emitted s = e # es" using Cons.prems(2) by (cases "emitted s") auto
  let ?s = "s\<lparr>emitted := es, activities := activities s @ [activity_row e (now, n)]\<rparr>"
  have step: "deliver_event now n s = ?s"
    using Cons.prems(1,4) by (intro deliver_loggable) (simp_all add: e d)
  have row: "act_id (activity_row e (now, n)) = n" by (simp add: activity_row_def split: prod.split)
  have log: "loggable ?s x = loggable s x" for x by (simp add: loggable_def find_ticket_def find_user_def)
  have "drain ds ?s = ?s\<lparr>emitted := [],
      activities := activities ?s @ List.map (\<lambda>(e, d). activity_row e d) (zip (emitted ?s) ds)\<rparr>"
  proof (rule Cons.IH)
    show "snd ` set ds \<inter> act_id ` set (activities ?s) = {}"
      using Cons.prems(3,4) by (auto simp: row d)
  qed (use Cons.prems in \<open>simp_all add: e d log\<close>)
  then show ?case by (simp add: d step e)
qed


definition example_pending :: gateway where
  "example_pending = snd (updateTicketStatusService ''t1'' (Some ''closed'') ''own''
     (snd (createTicketCommentService ''t1'' ''on it'' None ''agt'' 5 ''c9'' example_gateway)))"


subsection \<open>Internal comments\<close>

lemma getTicketActivitiesService_ok:
  assumes "good s" "find_ticket i s = Some t" "i \<noteq> []" "may_view s t u"
  shows "fst (getTicketActivitiesService i u s) = Inr (getTicketActivities i s)"
proof -
  let ?e = "forbidden ''You do not have permission to view activity on this ticket''"
  let ?k = "\<lambda>m s1. return (getTicketActivities i s1) s1"
  show ?thesis
  proof (rule view_guard [OF assms(1), of t u ?e ?k])
    fix mv s1
    assume c: "cache_only s s1"
      and w: "with_member (t_organizationId t) u ?e s
       (\<lambda>m s1. if \<not> canViewAllOrganizationTickets (role_permissions m) \<and> \<not> canMemberViewTicket t u
          then throw ?e s1 else ?k m s1) =
        (if may_view s t u then ?k mv s1 else (Inl ?e, s1))"
    have "getTicketActivities i s1 = getTicketActivities i s"
      by (simp add: getTicketActivities_def cache_onlyD [OF c])
    then show ?thesis using assms by (simp add: getTicketActivitiesService_def with_ticket_eq w)
  qed
qed

lemma member_grants_cong:
  "memberships s' = memberships s \<Longrightarrow> roles s' = roles s \<Longrightarrow> member_grants s' o' u p = member_grants s o' u p"
  by (simp add: member_grants_def find_membership_def db_grants_def find_role_def split: option.split)

lemma comments_view:
  assumes "good s" "find_ticket i s = Some t" "i \<noteq> []" "may_view s t u"
  shows "fst (getTicketCommentsService i u s) = Inr (visible_comments s t u
      (sort_key c_createdAt (find_many (\<lambda>c. c_ticketId c = i) (comments s))))"
proof -
  let ?e = "forbidden ''You do not have permission to view comments on this ticket''"
  let ?k = "\<lambda>m s1. return (filterCommentsForRole (getTicketComments i s1) (role_permissions m)) s1"
  show ?thesis
  proof (rule view_guard [OF assms(1), of t u ?e ?k])
    fix mv s1
    assume c: "cache_only s s1"
      and w: "with_member (t_organizationId t) u ?e s
       (\<lambda>m s1. if \<not> canViewAllOrganizationTickets (role_permissions m) \<and> \<not> canMemberViewTicket t u
          then throw ?e s1 else ?k m s1) =
        (if may_view s t u then ?k mv s1 else (Inl ?e, s1))"
      and h: "\<And>p. p \<noteq> [] \<Longrightarrow> may_view s t u \<Longrightarrow>
        has (role_permissions mv) p = member_grants s (t_organizationId t) u p"
    have "getTicketComments i s1 = sort_key c_createdAt (find_many (\<lambda>c. c_ticketId c = i) (comments s))"
      by (simp add: getTicketComments_def cache_onlyD [OF c])
    then show ?thesis using assms h [of TICKET_VIEW_ALL]
      by (simp add: getTicketCommentsService_def with_ticket_eq w)
        (simp add: canViewAllOrganizationTickets_def filterCommentsForRole_def visible_comments_grants)
  qed
qed

lemma createTicketCommentService_InrE:
  assumes "createTicketCommentService i msg b u now n s = (Inr c, s')" "good s"
  obtains t s1 where "find_ticket i s = Some t" "t_id t = i" "i \<noteq> []" "cache_only s s1" "good s1"
    "s' = emitTicketEvent TICKET_COMMENT_ADDED_EVENT i (t_organizationId t) u [(''message'', Some msg)]
       (s1\<lparr>comments := comments s1 @ [\<lparr>c_id = n, c_ticketId = i, c_authorId = Some u, c_authorType = USER,
          c_message = msg, c_isInternal = (b = Some True), c_createdAt = now\<rparr>]\<rparr>)"
    "find_user u s \<noteq> None"
  using assms(1) unfolding createTicketCommentService_def Let_def
proof (elim with_ticket_InrE with_member_InrE [OF _ assms(2)], goal_cases)
  case (1 t mv s1)
  then have "find_user u s1 = find_user u s" by (simp add: find_user_def cache_onlyD)
  with 1 show ?case
    by (intro that [of t s1])
      (auto simp: createTicketComment_def Let_def split: if_splits)
qed

text \<open>
  C12. The text of an internal comment reaches members who must not see it. Let a member post
  an internal comment on a ticket while no event is pending, and let the event be delivered.
  Then another member \<open>w\<close> who may view the ticket as its creator or assignee, but without
  \<open>ticket:view_all\<close>, does not get the comment from \<open>getTicketCommentsService\<close>, yet finds its
  text as the new value of a row that \<open>getTicketActivitiesService\<close> returns: the service emits
  the message of an internal comment like that of a public one, and the log is not filtered.
\<close>

theorem internal_comment_leaks:
  assumes "good s" "createTicketCommentService i msg (Some True) u now n s = (Inr c, s')" "emitted s = []"
    "find_ticket i s = Some t" "is_member s (t_organizationId t) w" "canMemberViewTicket t w"
    "\<not> member_grants s (t_organizationId t) w TICKET_VIEW_ALL" "x \<notin> act_id ` set (activities s)"
  shows "let s2 = deliver_event later x s' in
    (\<exists>cs. fst (getTicketCommentsService i w s2) = Inr cs \<and> (\<forall>d\<in>set cs. \<not> c_isInternal d)) \<and>
    (\<exists>acts a. fst (getTicketActivitiesService i w s2) = Inr acts \<and> a \<in> set acts \<and> act_newValue a = Some msg)"
proof -
  let ?s = "deliver_event later x s'"
  let ?c = "\<lparr>c_id = n, c_ticketId = i, c_authorId = Some u, c_authorType = USER, c_message = msg,
      c_isInternal = True, c_createdAt = now\<rparr>"
  let ?ev = "\<lparr>e_name = TICKET_COMMENT_ADDED_EVENT,
      e_fields = [(''ticketId'', i), (''organizationId'', t_organizationId t), (''actorId'', u)],
      e_metadata = [(''message'', Some msg)]\<rparr>"
  obtain s1 where i: "i \<noteq> []" and s1: "cache_only s s1" "good s1" and us: "find_user u s \<noteq> None"
    and s': "s' = emitTicketEvent TICKET_COMMENT_ADDED_EVENT i (t_organizationId t) u [(''message'', Some msg)]
       (s1\<lparr>comments := comments s1 @ [?c]\<rparr>)"
    using createTicketCommentService_InrE [OF assms(2,1)] assms(4) by (metis option.inject)
  note keep = cache_onlyD [OF s1(1)]
  have em: "emitted s' = [?ev]" by (simp add: s' emitTicketEvent_def keep assms(3))
  have log: "loggable s' ?ev"
    using us assms(4) by (simp add: loggable_def ticket_event_names_def payload_field_def s' find_ticket_def
        find_user_def emitTicketEvent_def keep)
  have "x \<notin> act_id ` set (activities s')" using assms(8) by (simp add: s' emitTicketEvent_def keep)
  from deliver_loggable [OF em log this]
  have d: "?s = s'\<lparr>emitted := [], activities := activities s' @ [activity_row ?ev (later, x)]\<rparr>" .
  have same: "memberships ?s = memberships s" "roles ?s = roles s" "tickets ?s = tickets s"
    "membershipCache ?s = membershipCache s1" by (simp_all add: d) (simp_all add: s' keep)
  have g: "good ?s"
    using s1(2) good_cong [of ?s s1] by (simp add: same keep)
  have t: "find_ticket i ?s = Some t" using assms(4) by (simp add: find_ticket_def same)
  have "member_grants ?s o' v p = member_grants s o' v p" for o' v p
    by (rule member_grants_cong) (fact same)+
  then have v: "may_view ?s t w" "\<not> member_grants ?s (t_organizationId t) w TICKET_VIEW_ALL"
    using assms(5-7) by (simp_all add: may_view_def is_member_cong [OF same(1)])
  have "fst (getTicketCommentsService i w ?s) = Inr (visible_comments ?s t w
      (sort_key c_createdAt (find_many (\<lambda>c. c_ticketId c = i) (comments ?s))))"
    using comments_view [OF g t i v(1)] .
  moreover have "activity_row ?ev (later, x) \<in> set (getTicketActivities i ?s)"
    "act_newValue (activity_row ?ev (later, x)) = Some msg"
    by (simp_all add: d getTicketActivities_def activity_row_def activity_for_def event_names payload_field_def
        metadata_field_def)
  ultimately show ?thesis
    using getTicketActivitiesService_ok [OF g t i v(1)] v(2)
    by (auto simp: Let_def visible_comments_def)
qed

theorem internal_comment_leaks_witness:
  "\<exists>acts a. fst (getTicketActivitiesService ''t1'' ''mem''
      (deliver_event 6 ''x1'' (snd (createTicketCommentService ''t1'' ''secret'' (Some True) ''agt'' 5 ''c9'' example_gateway))))
      = Inr acts \<and> a \<in> set acts \<and> act_newValue a = Some ''secret''"
proof -
  let ?r = "createTicketCommentService ''t1'' ''secret'' (Some True) ''agt'' 5 ''c9'' example_gateway"
  have run: "?r = (Inr (projr (fst ?r)), snd ?r)" by (rule run_ok) code_simp
  have t: "find_ticket ''t1'' example_gateway = Some example_ticket"
    by (simp add: example_gateway_def find_ticket_def example_ticket_def)
  have m: "is_member example_gateway (t_organizationId example_ticket) ''mem''"
    "canMemberViewTicket example_ticket ''mem''"
    "\<not> member_grants example_gateway (t_organizationId example_ticket) ''mem'' TICKET_VIEW_ALL" by code_simp+
  have e: "emitted example_gateway = []" "''x1'' \<notin> act_id ` set (activities example_gateway)"
    by (simp_all add: example_gateway_def empty_gateway_def)
  show ?thesis
    using internal_comment_leaks [OF example_good run e(1) t m e(2), of 6] by (simp add: Let_def)
qed

end
