(* ===== verification/Gateway_System.thy ===== *)
theory Gateway_System
  imports Auth_Correct Org_Invariant Activity_Log
begin

section \<open>The gateway as a whole\<close>

text \<open>
  The authentication routes (auth.routes.js, auth.controller.js), the authenticated request
  pipeline in front of the ticket and organization routes, and the reachable states of the
  gateway: any sequence of requests, event deliveries, cache expiries and blacklist cleanings
  from the empty database.
\<close>

subsection \<open>Authentication routes\<close>

datatype auth_request =
    Register string string "string option" string
  | Login string string
  | Refresh string
  | Logout "string option" string
  | LogoutAll "string option"
  | Me "string option"

datatype auth_response =
    SessionData session
  | LoggedOut
  | ProfileData public_user

definition respond_auth ::
    "int \<Rightarrow> ('a \<Rightarrow> auth_response) \<Rightarrow> 'a result \<times> gateway \<Rightarrow> auth_response outcome \<times> gateway" where
  "respond_auth status wrap r =
     (case r of (Inl e, s) \<Rightarrow> (Failed e, s) | (Inr x, s) \<Rightarrow> (Responded status (wrap x), s))"

fun auth_router :: "auth_env \<Rightarrow> auth_request \<Rightarrow> gateway \<Rightarrow> auth_response outcome \<times> gateway" where
  "auth_router env (Register email password confirm name) s =
     (case registerSchema env email password confirm name of
        None \<Rightarrow> (Refused 400 ''Validation error'', s)
      | Some (e, p, n) \<Rightarrow> respond_auth 201 SessionData (registerUser env e p (Some n) s))"
| "auth_router env (Login email password) s =
     (case loginSchema env email password of
        None \<Rightarrow> (Refused 400 ''Validation error'', s)
      | Some (e, p) \<Rightarrow> respond_auth 200 SessionData (loginUser env e p s))"
| "auth_router env (Refresh token) s =
     (if \<not> refreshSchema token then (Refused 400 ''Validation error'', s)
      else respond_auth 200 SessionData (refreshAccessToken env token s))"
| "auth_router env (Logout header token) s =
     (if \<not> refreshSchema token then (Refused 400 ''Validation error'', s)
      else respond_auth 200 (\<lambda>_. LoggedOut) (logoutUser env (extractBearerToken header) (Some token) s))"
| "auth_router env (LogoutAll header) s =
     (case authenticate env header s of
        (Inl e, s1) \<Rightarrow> (Failed e, s1)
      | (Inr (d, user), s1) \<Rightarrow> respond_auth 200 (\<lambda>_. LoggedOut) (logoutAllDevices env (pu_id user) s1))"
| "auth_router env (Me header) s =
     respond_auth 200 (\<lambda>(d, user). ProfileData user) (authenticate env header s)"

subsection \<open>The pipeline\<close>

datatype api_request =
    AuthRequest auth_request
  | TicketRequest "string option" ticket_request
  | OrgRequest "string option" org_request

datatype api_response =
    AuthAnswer "auth_response outcome"
  | TicketAnswer "ticket_response outcome"
  | OrgAnswer "org_response outcome"

record api_env =
  api_auth :: auth_env
  api_ticket :: request_env
  api_org :: org_env

text \<open>The permissions in the token are what the organization routes read as \<open>req.auth\<close>.\<close>

definition with_token :: "decoded_token \<Rightarrow> org_env \<Rightarrow> org_env" where
  "with_token d env = env\<lparr>oe_token := Some (tc_orgPermissions d)\<rparr>"

fun api :: "api_env \<Rightarrow> api_request \<Rightarrow> gateway \<Rightarrow> api_response \<times> gateway" where
  "api env (AuthRequest r) s = (case auth_router (api_auth env) r s of (x, s1) \<Rightarrow> (AuthAnswer x, s1))"
| "api env (TicketRequest header r) s =
     (case authenticate (api_auth env) header s of
        (Inl e, s1) \<Rightarrow> (TicketAnswer (Failed e), s1)
      | (Inr (d, user), s1) \<Rightarrow>
          (case ticket_router (api_ticket env) (pu_id user) r s1 of (x, s2) \<Rightarrow> (TicketAnswer x, s2)))"
| "api env (OrgRequest header r) s =
     (case authenticate (api_auth env) header s of
        (Inl e, s1) \<Rightarrow> (OrgAnswer (Failed e), s1)
      | (Inr (d, user), s1) \<Rightarrow>
          (case org_router (with_token d (api_org env)) (pu_id user) r s1 of (x, s2) \<Rightarrow> (OrgAnswer x, s2)))"

definition fresh_env :: "api_env \<Rightarrow> bool" where
  "fresh_env env = (fresh_ids (api_org env) \<and> colon_free (ae_newId (api_auth env)) \<and> ae_newId (api_auth env) \<noteq> [])"

subsection \<open>Reachable states\<close>

inductive system_step :: "gateway \<Rightarrow> gateway \<Rightarrow> bool" where
  request: "fresh_env env \<Longrightarrow> system_step s (snd (api env r s))"
| deliver: "system_step s (deliver_event now newId s)"
| expire_membership: "system_step s (s\<lparr>membershipCache := (membershipCache s)(k := None)\<rparr>)"
| expire_user: "system_step s (s\<lparr>userCache := uc, emailCache := ec, scopeCache := sc, blacklistCache := bc\<rparr>)"
| clean_blacklist: "system_step s (snd (cleanExpiredBlacklistEntries now s))"

inductive reachable :: "bool \<Rightarrow> gateway \<Rightarrow> bool" for up where
  start: "reachable up (empty_gateway\<lparr>redisUp := up\<rparr>)"
| step: "reachable up s \<Longrightarrow> system_step s s' \<Longrightarrow> reachable up s'"

inductive_simps reachable_up: "reachable up s"

subsection \<open>What the authentication module changes\<close>

definition auth_frame :: "string set \<Rightarrow> gateway \<Rightarrow> gateway \<Rightarrow> bool" where
  "auth_frame new s s' = (\<exists>us rts bl uc ec sc bc. s' = s\<lparr>users := us, refreshTokens := rts, tokenBlacklist := bl,
       userCache := uc, emailCache := ec, scopeCache := sc, blacklistCache := bc\<rparr> \<and>
     u_id ` set us \<subseteq> u_id ` set (users s) \<union> new)"

lemma auth_frameI:
  assumes "s' = s\<lparr>users := users s', refreshTokens := refreshTokens s', tokenBlacklist := tokenBlacklist s',
      userCache := userCache s', emailCache := emailCache s', scopeCache := scopeCache s',
      blacklistCache := blacklistCache s'\<rparr>"
    "u_id ` set (users s') \<subseteq> u_id ` set (users s) \<union> new"
  shows "auth_frame new s s'"
  using assms unfolding auth_frame_def by blast

lemma auth_frame_refl [simp]: "auth_frame new s s"
  by (rule auth_frameI) auto

lemma auth_frame_trans: "auth_frame new s s1 \<Longrightarrow> auth_frame new s1 s2 \<Longrightarrow> auth_frame new s s2"
proof -
  assume a: "auth_frame new s s1" "auth_frame new s1 s2"
  show ?thesis
  proof (rule auth_frameI)
    show "s2 = s\<lparr>users := users s2, refreshTokens := refreshTokens s2, tokenBlacklist := tokenBlacklist s2,
      userCache := userCache s2, emailCache := emailCache s2, scopeCache := scopeCache s2,
      blacklistCache := blacklistCache s2\<rparr>"
      using a unfolding auth_frame_def by (elim exE conjE) simp
    show "u_id ` set (users s2) \<subseteq> u_id ` set (users s) \<union> new"
      using a unfolding auth_frame_def by (elim exE conjE) (simp, blast)
  qed
qed

lemma frame_same_users:
  assumes "s' = s\<lparr>refreshTokens := rts, tokenBlacklist := bl, userCache := uc, emailCache := ec, scopeCache := sc,
      blacklistCache := bc\<rparr>"
  shows "auth_frame new s s'"
  by (rule auth_frameI) (simp_all add: assms)

lemma frame_cacheUser: "auth_frame new s (cacheUser u s)"
  by (rule auth_frameI) (simp_all add: cacheUser_def)

lemma frame_findUserByEmail: "auth_frame new s (snd (findUserByEmail e s))"
  by (auto simp: findUserByEmail_def frame_cacheUser split: option.split)

lemma frame_findUserById: "auth_frame new s (snd (findUserById u s))"
  by (auto simp: findUserById_def frame_cacheUser split: option.split)

lemma frame_snapshot: "auth_frame new s (snd (getUserPermissionSnapshot u s))"
  by (rule auth_frameI) (auto simp: getUserPermissionSnapshot_def Let_def split: option.split)

lemma frame_invalidate: "auth_frame new s (invalidateUserPermissionSnapshot u s)"
  by (rule auth_frameI) (simp_all add: invalidateUserPermissionSnapshot_def)

lemma frame_createRefreshToken: "auth_frame new s (snd (createRefreshToken t u e s))"
  by (rule auth_frameI) (auto simp: createRefreshToken_def Let_def)

lemma frame_deleteRefreshToken: "auth_frame new s (snd (deleteRefreshToken t s))"
  by (rule auth_frameI) (auto simp: deleteRefreshToken_def split: option.split)

lemma frame_blacklisted: "auth_frame new s (snd (isTokenBlacklisted j s))"
  by (rule auth_frameI) (auto simp: isTokenBlacklisted_def split: option.split)

lemma frame_blacklistToken: "auth_frame new s (snd (blacklistToken j e s))"
  by (rule auth_frameI) (auto simp: blacklistToken_def Let_def)

lemmas frames = frame_findUserByEmail frame_findUserById frame_snapshot frame_createRefreshToken
  frame_deleteRefreshToken frame_blacklisted frame_blacklistToken frame_invalidate frame_cacheUser

text \<open>A call in the middle of a handler: the frame of the call, then that of the rest.\<close>

lemma frame_call:
  assumes "f s = (r, s1)" "auth_frame new s (snd (f s))" "auth_frame new s0 s"
  shows "auth_frame new s0 s1"
  using assms auth_frame_trans by (metis snd_conv)

lemma frame_issueTokens: "auth_frame new s (snd (issueTokens env u s))"
proof -
  obtain ps s1 where g: "getUserPermissionSnapshot u s = (ps, s1)" by fastforce
  have "auth_frame new s s1" using frame_snapshot [of new s u] g by simp
  moreover have "snd (issueTokens env u s) = snd (createRefreshToken (ae_refreshToken env) u
      (ae_now env + parseDuration (ae_refreshExpiresIn env)) s1)"
    by (simp add: issueTokens_def g Let_def split: prod.split sum.split)
  ultimately show ?thesis using frame_createRefreshToken auth_frame_trans by metis
qed

lemma frame_authenticate: "auth_frame new s (snd (authenticate env h s))"
  unfolding authenticate_def
  by (auto split: option.split sum.split prod.split bool.split
      elim!: frame_call [OF _ frame_blacklisted] frame_call [OF _ frame_findUserById])

lemma frame_createUser:
  "auth_frame {n} s (snd (createUserWithRefreshToken d t e now n s))"
  by (rule auth_frameI)
    (auto simp: createUserWithRefreshToken_def cacheUser_def user_row_def Let_def)

lemma frame_registerUser: "auth_frame {ae_newId env} s (snd (registerUser env e p n s))"
  unfolding registerUser_def Let_def
  by (auto split: option.split sum.split prod.split
      elim!: frame_call [OF _ frame_findUserByEmail] frame_call [OF _ frame_createUser])

lemma frame_loginUser: "auth_frame new s (snd (loginUser env e p s))"
  unfolding loginUser_def Let_def
  by (auto split: option.split sum.split prod.split
      elim!: frame_call [OF _ frame_findUserByEmail] frame_call [OF _ frame_issueTokens])

lemma frame_refresh: "auth_frame new s (snd (refreshAccessToken env t s))"
  unfolding refreshAccessToken_def Let_def
  by (auto split: option.split sum.split prod.split
      elim!: frame_call [OF _ frame_findUserById] frame_call [OF _ frame_issueTokens]
        frame_call [OF _ frame_deleteRefreshToken])

lemma frame_blacklist_access: "auth_frame new s (blacklist_access_token env t s)"
  by (auto simp: blacklist_access_token_def frame_blacklistToken split: option.split sum.split)

lemma frame_logoutUser: "auth_frame new s (snd (logoutUser env t r s))"
  unfolding logoutUser_def Let_def
  by (auto simp: frame_blacklist_access split: sum.split prod.split
      elim!: frame_call [OF _ frame_deleteRefreshToken])

lemma frame_update_user:
  "u_id ` set (update_rows p (\<lambda>u. u\<lparr>u_tokenIssuedAt := x\<rparr>) us) = u_id ` set us"
  using arg_cong [OF map_key_update_rows [of p u_id "\<lambda>u. u\<lparr>u_tokenIssuedAt := x\<rparr>" us], of set] by simp

lemma frame_logoutAll: "auth_frame new s (snd (logoutAllDevices env u s))"
proof (cases "find_unique (\<lambda>x. u_id x = u) (users s)")
  case None
  then show ?thesis by (simp add: logoutAllDevices_def updateUserTokenIssuedAt_def)
next
  case (Some x)
  then show ?thesis
    by (intro auth_frameI)
      (auto simp: logoutAllDevices_def updateUserTokenIssuedAt_def Let_def deleteUserRefreshTokens_def
        cacheUser_def invalidateUserPermissionSnapshot_def frame_update_user)
qed

lemma snd_respond_auth [simp]: "snd (respond_auth st w r) = snd r"
  by (auto simp: respond_auth_def split: prod.splits sum.splits)

lemma frame_auth_router: "auth_frame {ae_newId env} s (snd (auth_router env r s))"
proof (cases r)
  case (LogoutAll h)
  then show ?thesis
    by (auto split: sum.split prod.split intro: auth_frame_trans [OF _ frame_logoutAll]
        elim!: frame_call [OF _ frame_authenticate])
qed (auto simp: frame_registerUser frame_loginUser frame_refresh frame_logoutUser frame_authenticate
    split: option.split)

subsection \<open>Every step keeps the invariant\<close>

lemma sys_ok_auth_frame:
  assumes "auth_frame new s s'" "sys_ok s" "\<forall>i\<in>new. colon_free i \<and> i \<noteq> []"
  shows "sys_ok s'"
proof -
  obtain us rts bl uc ec sc bc where s': "s' = s\<lparr>users := us, refreshTokens := rts, tokenBlacklist := bl,
       userCache := uc, emailCache := ec, scopeCache := sc, blacklistCache := bc\<rparr>"
    and us: "u_id ` set us \<subseteq> u_id ` set (users s) \<union> new" using assms(1) unfolding auth_frame_def by blast
  have same: "memberships s' = memberships s" "roles s' = roles s" "organizations s' = organizations s"
    "tickets s' = tickets s" "tags s' = tags s" "ticketTags s' = ticketTags s" "comments s' = comments s"
    "attachments s' = attachments s" "membershipCache s' = membershipCache s" "redisUp s' = redisUp s"
    by (simp_all add: s')
  have t: "tenant_ok s" and og: "org_ok s" using assms(2) by (simp_all add: sys_ok_def)
  have "tenant_ok s'"
  proof (rule tenant_ok_orgs [OF t])
    show "good s'" using tenant_okD(1) [OF t] good_cong [OF same(1,2,9)] by simp
    show "redis_ok s'" using tenant_okD(8) [OF t] same(9,10) by (simp add: redis_ok_def)
    show "roles_ok s'" using tenant_okD(2) [OF t] roles_ok_cong [OF same(1,2)] by simp
    show "people_ok s x \<Longrightarrow> people_ok s' x" for x using people_ok_cong [OF same(1)] by simp
  qed (fact same)+
  moreover have "org_ok s'"
    unfolding org_ok_def
  proof (intro conjI ballI)
    have f: "find_role i s' = find_role i s" "find_organization i s' = find_organization i s" for i
      by (simp_all add: find_role_def find_organization_def same)
    show "role_ok s' r" if "r \<in> set (roles s')" for r
      using org_okD(2) [OF og, of r] that by (simp add: role_ok_def f same)
    show "length (owners s' (o_id x)) = 1" if "x \<in> set (organizations s')" for x
      using org_okD(5) [OF og, of x] that by (simp add: owners_def owner_membership_def f same)
    show "find_organization (m_organizationId m) s' \<noteq> None" "m_organizationId m \<noteq> []" "m_userId m \<noteq> []"
      if "m \<in> set (memberships s')" for m
      using org_okD(3) [OF og, of m] that by (simp_all add: f same)
    show "role_table.key_unique s'" using org_okD(1) [OF og] by (simp add: role_table.key_unique_def same)
    have ok: "colon_free i \<and> i \<noteq> []" if i: "i \<in> u_id ` set (users s) \<union> new" for i
    proof (cases "i \<in> new")
      case False
      then obtain u where "u \<in> set (users s)" "i = u_id u" using i by auto
      then show ?thesis using org_okD(4) [OF og, of u] by simp
    qed (use assms(3) in blast)
    show "colon_free (u_id u)" "u_id u \<noteq> []" if "u \<in> set (users s')" for u
      using ok [of "u_id u"] us that by (auto simp: s')
  qed
  ultimately show ?thesis by (simp add: sys_ok_def)
qed

lemma permitted_org_fields:
  assumes "permitted u s s'"
  shows "roles s' = roles s \<and> organizations s' = organizations s \<and> users s' = users s \<and>
    (memberships s' = memberships s \<or> (\<exists>p av. memberships s' = update_rows p (\<lambda>m. m\<lparr>m_isAvailable := av\<rparr>) (memberships s)))"
  using assms
  by (cases rule: permitted.cases)
    (auto simp: cache_onlyD invalidateOrganizationMembershipCache_def)

lemma org_ok_availability:
  assumes "org_ok s" "roles s' = roles s" "organizations s' = organizations s" "users s' = users s"
    "memberships s' = update_rows p (\<lambda>m. m\<lparr>m_isAvailable := av\<rparr>) (memberships s)"
  shows "org_ok s'"
proof -
  have f: "find_role i s' = find_role i s" "find_organization i s' = find_organization i s" for i
    by (simp_all add: find_role_def find_organization_def assms)
  have "length (List.filter (\<lambda>m. m_organizationId m = x \<and> owner_membership s m)
      (update_rows p (\<lambda>m. m\<lparr>m_isAvailable := av\<rparr>) ms)) =
    length (List.filter (\<lambda>m. m_organizationId m = x \<and> owner_membership s m) ms)" for x ms
    by (induction ms) (auto simp: update_rows_def owner_membership_def)
  moreover have "owner_membership s' m = owner_membership s m" for m by (simp add: owner_membership_def f)
  ultimately have "length (owners s' x) = length (owners s x)" for x by (simp add: owners_def assms(5))
  then show ?thesis using assms(1)
    by (auto simp: org_ok_def role_table.key_unique_def assms role_ok_def f set_update_rows)
qed

lemma permitted_sys_ok:
  assumes "permitted u s s'" "sys_ok s"
  shows "sys_ok s'"
proof -
  have t: "tenant_ok s" and og: "org_ok s" using assms(2) by (simp_all add: sys_ok_def)
  note f = permitted_org_fields [OF assms(1)]
  consider "memberships s' = memberships s"
    | p av where "memberships s' = update_rows p (\<lambda>m. m\<lparr>m_isAvailable := av\<rparr>) (memberships s)" using f by blast
  then have "org_ok s'"
  proof cases
    case 1
    then show ?thesis using og org_ok_cong [of s' s] f by simp
  next
    case 2
    show ?thesis by (rule org_ok_availability [OF og _ _ _ 2]) (use f in simp_all)
  qed
  then show ?thesis using permitted_tenant_ok [OF assms(1) t] by (simp add: sys_ok_def)
qed

lemma permitted_run_sys_ok: "permitted_run u s s' \<Longrightarrow> sys_ok s \<Longrightarrow> sys_ok s'"
  by (induction rule: rtranclp_induct) (auto intro: permitted_sys_ok)

lemma org_permitted_sys_ok:
  assumes "org_permitted u s s'" "sys_ok s"
  shows "sys_ok s'"
  using assms
proof (cases rule: org_permitted.cases)
  case cache
  then show ?thesis using assms(2) by (rule sys_ok_cache_only)
next
  case (invite o' ar m nr s1)
  then show ?thesis using sys_ok_invite [OF assms(2), of o' u ar m nr s1] by simp
next
  case (set_role o' ar w m wr roleId nr s1)
  then show ?thesis using sys_ok_set_role [OF assms(2), of o' u ar w m wr roleId nr s1] by simp
next
  case (edit_role o' ar roleId r d)
  then show ?thesis using sys_ok_edit_role [OF assms(2), of o' u ar roleId r d] by simp
next
  case (drop_role o' ar roleId r)
  then show ?thesis using sys_ok_drop_role [OF assms(2), of roleId r o'] by simp
next
  case (drop_organization o')
  then show ?thesis using sys_ok_drop_organization [OF assms(2), of o'] by simp
next
  case (new_organization org rs r m s1 ps)
  then show ?thesis using sys_ok_new_organization [OF assms(2), of org rs r m u s1 ps] by simp
qed (use assms(2) in \<open>auto intro: sys_ok_flush sys_ok_rename sys_ok_quiet\<close>)

lemma org_run_sys_ok: "org_run u s s' \<Longrightarrow> sys_ok s \<Longrightarrow> sys_ok s'"
  by (induction rule: rtranclp_induct) (auto intro: org_permitted_sys_ok)

lemma api_sys_ok:
  assumes "sys_ok s" "fresh_env env"
  shows "sys_ok (snd (api env r s))"
proof -
  have new: "\<forall>i\<in>{ae_newId (api_auth env)}. colon_free i \<and> i \<noteq> []" using assms(2) by (simp add: fresh_env_def)
  have au: "authenticate (api_auth env) h s = (x, s1) \<Longrightarrow> sys_ok s1" for h x s1
    using sys_ok_auth_frame [OF frame_authenticate [of "{}"] assms(1), of "api_auth env" h] by simp
  have fr: "fresh_ids (with_token d (api_org env))" for d
    using assms(2) by (simp add: fresh_env_def fresh_ids_def with_token_def)
  have good: "sys_ok x \<Longrightarrow> good x" for x by (simp add: sys_ok_def tenant_ok_def)
  show ?thesis
  proof (cases r)
    case (AuthRequest q)
    then show ?thesis using sys_ok_auth_frame [OF frame_auth_router assms(1) new]
      by (simp split: prod.split) (metis snd_conv)
  next
    case (TicketRequest h q)
    have "sys_ok (snd (ticket_router (api_ticket env) u q s1))" if "sys_ok s1" for u s1
      using permitted_run_sys_ok [OF ticket_router_permitted [OF good [OF that]] that] .
    then show ?thesis using TicketRequest au
      by (auto split: prod.split sum.split) (metis snd_conv)
  next
    case (OrgRequest h q)
    have "sys_ok (snd (org_router (with_token d (api_org env)) u q s1))" if "sys_ok s1" for d u s1
      using org_run_sys_ok [OF org_router_permitted [OF good [OF that] fr] that] .
    then show ?thesis using OrgRequest au
      by (auto split: prod.split sum.split) (metis snd_conv)
  qed
qed

lemma sys_ok_deliver: "sys_ok s \<Longrightarrow> sys_ok (deliver_event now n s)"
proof -
  assume s: "sys_ok s"
  have "deliver_event now n s = s\<lparr>emitted := tl (emitted s), activities := activities (deliver_event now n s)\<rparr>"
    by (rule deliver_event_tables)
  then obtain xs where "deliver_event now n s = s\<lparr>emitted := tl (emitted s), activities := xs\<rparr>" by blast
  then show ?thesis using sys_ok_quiet [OF s, of "deliver_event now n s"] by simp
qed

lemma sys_ok_expire: "sys_ok s \<Longrightarrow> sys_ok (s\<lparr>membershipCache := (membershipCache s)(k := None)\<rparr>)"
proof -
  assume s: "sys_ok s"
  let ?t = "s\<lparr>membershipCache := (membershipCache s)(k := None)\<rparr>"
  have "entry_ok ?t k' mv = entry_ok s k' mv" for k' mv by (rule entry_ok_cong) simp_all
  then have "cache_coherent s \<longrightarrow> cache_coherent ?t" by (simp add: cache_coherent_def)
  then have "cache_only s ?t" if "redisUp s"
    unfolding cache_only_def
    by (intro exI [of _ "(membershipCache s)(k := None)"] conjI impI) (use that in simp_all)
  moreover have "s\<lparr>membershipCache := (membershipCache s)(k := None)\<rparr> = s" if "\<not> redisUp s"
  proof -
    have "membershipCache s = (\<lambda>_. None)" using s that by (simp add: sys_ok_def tenant_ok_def redis_ok_def)
    then have "(membershipCache s)(k := None) = membershipCache s" by auto
    then show ?thesis by simp
  qed
  ultimately show ?thesis using sys_ok_cache_only s by metis
qed

lemma system_step_sys_ok: "system_step s s' \<Longrightarrow> sys_ok s \<Longrightarrow> sys_ok s'"
proof (induction rule: system_step.induct)
  case (expire_user s uc ec sc bc)
  then show ?case by (rule sys_ok_quiet) simp_all
next
  case (clean_blacklist now s)
  then show ?case by (rule sys_ok_quiet) (simp_all add: cleanExpiredBlacklistEntries_def)
qed (auto intro: api_sys_ok sys_ok_deliver sys_ok_expire)

lemma empty_sys_ok: "sys_ok (empty_gateway\<lparr>redisUp := up\<rparr>)"
  by (simp add: sys_ok_def tenant_ok_def good_def membership_rows_ok_def membership_table.key_unique_def
      cache_coherent_def redis_ok_def roles_ok_def ticket_table.key_unique_def org_ok_def role_table.key_unique_def
      empty_gateway_def)

lemma reachable_sys_ok: "reachable up s \<Longrightarrow> sys_ok s"
  by (induction rule: reachable.induct) (auto intro: empty_sys_ok system_step_sys_ok)

lemma unique_of_length_one:
  assumes "length (List.filter p xs) = 1"
  shows "\<exists>!x. x \<in> set xs \<and> p x"
proof -
  obtain y where "List.filter p xs = [y]" using assms by (auto simp: length_Suc_conv)
  then have "{x \<in> set xs. p x} = {y}" by (metis set_filter list.set(1,2))
  then show ?thesis by (intro ex1I [of _ y]) auto
qed


text \<open>A run: a user registers and creates an organization.\<close>

definition run_auth_env :: auth_env where
  "run_auth_env = example_auth_env\<lparr>ae_newId := ''u1'', ae_verify := (\<lambda>t now.
     Some \<lparr>tc_sub = ''u1'', tc_type = ''access'', tc_jti = None, tc_iat = 5, tc_orgPermissions = [], dt_exp = Some 900\<rparr>)\<rparr>"

definition run_env :: api_env where
  "run_env = \<lparr>api_auth = run_auth_env, api_ticket = example_env, api_org = example_org_env\<rparr>"

definition run_one :: gateway where
  "run_one = snd (api run_env (AuthRequest (Register ''a@x.org'' ''Secret1!'' None ''Ann'')) (empty_gateway\<lparr>redisUp := True\<rparr>))"

definition run_two :: gateway where
  "run_two = snd (api run_env (OrgRequest (Some ''Bearer t'') (PostOrganization ''Acme'')) run_one)"

lemma run_reachable: "reachable True run_two"
proof -
  have e: "fresh_env run_env"
    using example_org_env_fresh by (simp add: fresh_env_def run_env_def run_auth_env_def colon_free_def)
  have "reachable True run_one"
    unfolding run_one_def by (rule reachable.step [OF reachable.start]) (rule system_step.request [OF e])
  then show ?thesis unfolding run_two_def by (rule reachable.step) (rule system_step.request [OF e])
qed

text \<open>The organization of this run and the roles it got.\<close>

lemma run_two_tables:
  "(List.map (\<lambda>x. (o_id x, o_name x)) (organizations run_two), List.map r_name (roles run_two)) =
     ([(''n'', ''Acme'')], [''OWNER'', ''ADMIN'', ''AGENT'', ''MEMBER''])"
  by code_simp


subsection \<open>An outage of Redis\<close>

text \<open>
  Redis becomes unreachable and reachable again: its contents stay. Every invalidation in
  between is lost.
\<close>

definition redis_lost :: "gateway \<Rightarrow> gateway" where
  "redis_lost s = s\<lparr>redisUp := False\<rparr>"

definition redis_back :: "gateway \<Rightarrow> gateway" where
  "redis_back s = s\<lparr>redisUp := True\<rparr>"

text \<open>
  An agent reads a ticket, Redis is lost, the owner makes the agent a plain member, Redis is back.
\<close>

definition outage_before :: gateway where
  "outage_before = snd (getTicketByIdService ''t1'' ''agt'' example_gateway)"

definition outage_after :: gateway where
  "outage_after = redis_back (snd (org_router example_org_env ''own'' (PatchMember ''o1'' ''agt'' ''r4'') (redis_lost outage_before)))"

text \<open>
  The invariant of C23 does not survive an outage of Redis. After the run above the
  database gives the agent no right to edit tickets any more, yet the agent closes the ticket:
  the cached membership that carries the old role was not invalidated. Had the agent's
  membership not been cached, the same request would have been refused.
\<close>

theorem outage_keeps_old_rights:
  "\<not> member_grants outage_after ''o1'' ''agt'' TICKET_EDIT_ALL \<and>
   \<not> isl (fst (updateTicketStatusService ''t1'' (Some ''CLOSED'') ''agt'' outage_after)) \<and>
   fst (updateTicketStatusService ''t1'' (Some ''CLOSED'') ''agt'' (outage_after\<lparr>membershipCache := \<lambda>_. None\<rparr>)) =
     Inl (forbidden ''You do not have permission to update this ticket status'')"
proof -
  have "\<not> member_grants outage_after ''o1'' ''agt'' TICKET_EDIT_ALL" by code_simp
  moreover have "\<not> isl (fst (updateTicketStatusService ''t1'' (Some ''CLOSED'') ''agt'' outage_after))" by code_simp
  moreover have "case fst (updateTicketStatusService ''t1'' (Some ''CLOSED'') ''agt'' (outage_after\<lparr>membershipCache := \<lambda>_. None\<rparr>)) of
      Inl e \<Rightarrow> e = forbidden ''You do not have permission to update this ticket status'' | Inr _ \<Rightarrow> False" by code_simp
  ultimately show ?thesis by (auto split: sum.splits)
qed

end
