(* ===== verification/Role_Types.thy ===== *)
theory Role_Types
  imports Gateway_System
begin

section \<open>The roles of a reachable state\<close>

text \<open>
  A role is well typed when it is one of the four templates of org.constants.js. The roles of an
  organization are created by createOrganizationService only (the route that creates a custom
  role fails, theory Org_Correct), and the routes that edit or delete a role refuse system
  roles, so that every state the gateway reaches is well typed. What the templates promise
  (permissions from the catalogue, ordered by level) holds of every role a request consults.
\<close>

definition roles_of :: "gateway \<Rightarrow> string \<Rightarrow> org_role list" where
  "roles_of s o' = List.filter (\<lambda>r. r_organizationId r = o') (roles s)"

definition typed_roles :: "gateway \<Rightarrow> bool" where
  "typed_roles s = (\<forall>o'. if find_organization o' s = None then roles_of s o' = [] else default_roles_of o' (roles_of s o'))"

lemma organization_missing: "(find_organization p s = None) = (p \<notin> set (List.map o_id (organizations s)))"
  by (auto simp: find_organization_def find_unique_None_iff)

lemma typed_roles_cong:
  assumes "roles s' = roles s" "List.map o_id (organizations s') = List.map o_id (organizations s)"
  shows "typed_roles s' = typed_roles s"
  unfolding typed_roles_def roles_of_def organization_missing assms ..

lemma default_role_template:
  assumes "default_roles_of o' rs" "r \<in> set rs"
  shows "\<exists>d\<in>set DEFAULT_ROLES. r_name r = rd_name d \<and> r_level r = rd_level d \<and> r_isSystem r = rd_isSystem d \<and>
    r_rolePermissions r = rd_permissions d"
proof -
  have "(r_name r, r_level r, r_isSystem r, r_rolePermissions r) \<in>
      set (List.map (\<lambda>d. (rd_name d, rd_level d, rd_isSystem d, rd_permissions d)) DEFAULT_ROLES)"
    using assms unfolding default_roles_of_def by (metis (mono_tags, lifting) image_eqI list.set_map)
  then show ?thesis by auto
qed

lemma typed_role:
  assumes "typed_roles s" "r \<in> set (roles s)"
  shows "\<exists>d\<in>set DEFAULT_ROLES. r_name r = rd_name d \<and> r_level r = rd_level d \<and> r_isSystem r = rd_isSystem d \<and>
    r_rolePermissions r = rd_permissions d"
proof -
  have "r \<in> set (roles_of s (r_organizationId r))" using assms(2) by (simp add: roles_of_def)
  then have "default_roles_of (r_organizationId r) (roles_of s (r_organizationId r))"
    using assms(1) unfolding typed_roles_def by (metis empty_iff empty_set)
  then show ?thesis using \<open>r \<in> set (roles_of s (r_organizationId r))\<close> by (rule default_role_template)
qed

lemma typed_role_system: "typed_roles s \<Longrightarrow> find_role i s = Some r \<Longrightarrow> r_isSystem r"
  using typed_role [of s r] by (auto simp: find_role_def DEFAULT_ROLES_def dest!: find_unique_SomeD)

subsection \<open>Every step keeps the roles well typed\<close>

lemma typed_roles_drop:
  assumes "typed_roles s" "roles s' = delete_rows (\<lambda>r. r_organizationId r = o') (roles s)"
    "organizations s' = delete_rows (\<lambda>x. o_id x = o') (organizations s)"
  shows "typed_roles s'"
  unfolding typed_roles_def
proof
  fix p
  have r: "roles_of s' p = (if p = o' then [] else roles_of s p)"
    by (auto simp: roles_of_def assms(2) delete_rows_def intro: filter_cong)
  have f: "(find_organization p s' = None) = (p = o' \<or> find_organization p s = None)"
    by (auto simp: find_organization_def assms(3) delete_rows_def find_unique_None_iff)
  show "if find_organization p s' = None then roles_of s' p = [] else default_roles_of p (roles_of s' p)"
    using assms(1) by (auto simp: r f typed_roles_def)
qed

lemma typed_roles_new:
  assumes "typed_roles s" "find_organization (o_id org) s = None" "default_roles_of (o_id org) rs"
    "roles s' = roles s @ rs" "organizations s' = organizations s @ [org]"
  shows "typed_roles s'"
  unfolding typed_roles_def
proof
  fix p
  have rs: "List.filter (\<lambda>r. r_organizationId r = p) rs = (if p = o_id org then rs else [])"
    using assms(3) by (auto simp: default_roles_of_def filter_empty_conv)
  have "roles_of s (o_id org) = []" using assms(1,2) by (simp add: typed_roles_def)
  then have r: "roles_of s' p = (if p = o_id org then rs else roles_of s p)"
    using rs by (simp add: roles_of_def assms(4))
  have f: "(find_organization p s' = None) = (p \<noteq> o_id org \<and> find_organization p s = None)"
    by (auto simp: find_organization_def assms(5) find_unique_None_iff)
  show "if find_organization p s' = None then roles_of s' p = [] else default_roles_of p (roles_of s' p)"
    using assms(1,3) by (auto simp: r f typed_roles_def)
qed

lemma org_permitted_typed:
  assumes "org_permitted u s s'" "typed_roles s"
  shows "typed_roles s'"
  using assms
proof (cases rule: org_permitted.cases)
  case cache
  then show ?thesis using assms(2) typed_roles_cong [of s' s] cache_only_organizations cache_onlyD by metis
next
  case (rename o' name)
  have "typed_roles s' = typed_roles s" by (rule typed_roles_cong) (simp_all add: rename(1) map_key_update_rows)
  then show ?thesis using assms(2) by simp
next
  case (edit_role o' ar roleId r d)
  then show ?thesis using typed_role_system [OF assms(2)] by blast
next
  case (drop_role o' ar roleId r)
  then show ?thesis using typed_role_system [OF assms(2)] by blast
next
  case (drop_organization o')
  show ?thesis by (rule typed_roles_drop [OF assms(2), of _ o']) (simp_all add: drop_organization(1))
next
  case (new_organization org rs r m s1 ps)
  show ?thesis
    by (rule typed_roles_new [OF assms(2) new_organization(2,5)]) (simp_all add: new_organization(1) new_organization)
qed (use assms(2) typed_roles_cong [of s' s] in simp_all)

lemma org_run_typed: "org_run u s s' \<Longrightarrow> typed_roles s \<Longrightarrow> typed_roles s'"
  by (induction rule: rtranclp_induct) (auto intro: org_permitted_typed)

lemma permitted_run_typed: "permitted_run u s s' \<Longrightarrow> typed_roles s \<Longrightarrow> typed_roles s'"
proof (induction rule: rtranclp_induct)
  case (step x y)
  then show ?case using typed_roles_cong [of y x] permitted_org_fields [of u x y] by simp
qed simp

lemma auth_frame_typed: "auth_frame new s s' \<Longrightarrow> typed_roles s \<Longrightarrow> typed_roles s'"
  using typed_roles_cong [of s' s] unfolding auth_frame_def by force

text \<open>A request is an authentication followed by a run of one of the routers.\<close>

lemma api_run:
  assumes "sys_ok s" "fresh_env env"
  shows "\<exists>s1 u. auth_frame {ae_newId (api_auth env)} s s1 \<and>
    (snd (api env r s) = s1 \<or> permitted_run u s1 (snd (api env r s)) \<or> org_run u s1 (snd (api env r s)))"
proof -
  have au: "auth_frame {ae_newId (api_auth env)} s s1 \<and> good s1"
    if "authenticate (api_auth env) h s = (x, s1)" for h x s1
  proof -
    have "auth_frame {} s s1" using frame_authenticate [of "{}" s "api_auth env" h] that by simp
    then have "sys_ok s1" using sys_ok_auth_frame assms(1) by blast
    moreover have "auth_frame {ae_newId (api_auth env)} s s1"
      using frame_authenticate [of "{ae_newId (api_auth env)}" s "api_auth env" h] that by simp
    ultimately show ?thesis by (simp add: sys_ok_def tenant_ok_def)
  qed
  have fr: "fresh_ids (with_token d (api_org env))" for d
    using assms(2) by (simp add: fresh_env_def fresh_ids_def with_token_def)
  show ?thesis
  proof (cases r)
    case (AuthRequest q)
    then show ?thesis using frame_auth_router [of "api_auth env" s q]
      by (simp split: prod.split) (metis snd_conv)
  next
    case (TicketRequest h q)
    then show ?thesis using au ticket_router_permitted
      by (auto split: prod.split sum.split) (metis snd_conv)+
  next
    case (OrgRequest h q)
    then show ?thesis using au org_router_permitted [OF _ fr]
      by (auto split: prod.split sum.split) (metis snd_conv)+
  qed
qed

lemma api_typed:
  assumes "sys_ok s" "fresh_env env" "typed_roles s"
  shows "typed_roles (snd (api env r s))"
  using api_run [OF assms(1,2), of r] auth_frame_typed assms(3) permitted_run_typed org_run_typed by metis

lemma reachable_typed: "reachable up s \<Longrightarrow> typed_roles s"
proof (induction rule: reachable.induct)
  case start
  show ?case by (simp add: typed_roles_def roles_of_def empty_gateway_def find_organization_def find_unique_def)
next
  case (step s s')
  from step.hyps(2) show ?case
  proof cases
    case (request env r)
    then show ?thesis using api_typed reachable_sys_ok step.hyps(1) step.IH by blast
  next
    case (deliver now newId)
    have "roles s' = roles s" "organizations s' = organizations s"
      by (simp_all only: deliver) (subst deliver_event_tables, simp)+
    then show ?thesis using typed_roles_cong [of s' s] step.IH by simp
  qed (use step.IH typed_roles_cong [of s' s] in \<open>simp_all add: cleanExpiredBlacklistEntries_def\<close>)
qed

lemma templates_catalogued:
  "list_all (\<lambda>d. distinct (rd_permissions d) \<and> set (rd_permissions d) \<subseteq> set ALL_PERMISSIONS \<and> rd_isSystem d) DEFAULT_ROLES"
  by code_simp

lemma templates_ordered:
  "list_all (\<lambda>d. list_all (\<lambda>e. rd_level d \<le> rd_level e \<longrightarrow>
     set (rd_permissions d) - {AGENT_UPDATE_AVAILABILITY} \<subseteq> set (rd_permissions e)) DEFAULT_ROLES) DEFAULT_ROLES"
  by code_simp



end
