(* ===== verification/AI_Correct.thy ===== *)
theory AI_Correct
  imports AI_Automation Activity_Log
begin

section \<open>What the AI automation may do\<close>

text \<open>
  C34 to C37: the guards under which an answer is stored and what it changes, the budget of
  answers of a ticket, processing at most once, and that the events of the gateway never start
  the automation.
\<close>

subsection \<open>Lemmas\<close>

lemma set_comments_ai [simp]:
  "c \<in> set (getTicketComments_ai i s) \<longleftrightarrow> c \<in> set (comments s) \<and> c_ticketId c = i"
  by (simp add: getTicketComments_ai_def)

lemma find_comment_SomeD: "List.find P cs = Some c \<Longrightarrow> c \<in> set cs \<and> P c"
  by (auto simp: find_Some_iff)

text \<open>On comments in order of creation the last AI comment is the latest one.\<close>

lemma lastAiComment_latest:
  assumes "sorted (List.map c_createdAt cs)"
  shows "(case lastAiComment cs of None \<Rightarrow> \<forall>c\<in>set cs. c_authorType c \<noteq> AI
    | Some l \<Rightarrow> \<forall>c\<in>set cs. c_authorType c = AI \<longrightarrow> c_createdAt c \<le> c_createdAt l)"
  using assms
proof (induction cs rule: rev_induct)
  case (snoc c cs)
  then show ?case
    by (auto simp: lastAiComment_def sorted_append split: option.splits)
qed (simp add: lastAiComment_def)

lemma cooldown_passed:
  assumes "fst (shouldProcessAI t (getTicketComments_ai i s) oc now)"
    "c \<in> set (comments s)" "c_ticketId c = i" "c_authorType c = AI"
  shows "AI_COMMENT_COOLDOWN_MS \<le> now - c_createdAt c"
proof -
  have "sorted (List.map c_createdAt (getTicketComments_ai i s))" by (simp add: getTicketComments_ai_def)
  from lastAiComment_latest [OF this] assms show ?thesis
    by (fastforce simp: shouldProcessAI_def split: if_splits option.splits)
qed

lemma shouldProcessAI_D:
  assumes "fst (shouldProcessAI t cs oc now)"
  shows "t_aiActive t" "\<not> (truthy (t_assignedToId t) \<and> t_status t = IN_PROGRESS)"
    "t_aiMessageCount t < (case oc of None \<Rightarrow> AI_MAX_MESSAGES_PER_TICKET | Some c \<Rightarrow> ac_maxAIResponses c)"
  using assms by (auto simp: shouldProcessAI_def split: if_splits option.splits)

lemma cache_ops_gateway [simp]:
  "ai_gateway (snd (setCacheValue k s)) = ai_gateway s"
  "ai_gateway (snd (setCacheValueIfAbsent k s)) = ai_gateway s"
  "ai_gateway (snd (deleteCacheValue k s)) = ai_gateway s"
  "ai_gateway (snd (incrementHashValues k d s)) = ai_gateway s"
  "ai_gateway (markCommentAsProcessed c s) = ai_gateway s"
  "ai_gateway (releaseCommentProcessingLock c s) = ai_gateway s"
  "ai_gateway (trackAIUsageTotals td i o' u s) = ai_gateway s"
proof -
  show inc: "ai_gateway (snd (incrementHashValues k d s)) = ai_gateway s" for k d s
    by (simp add: incrementHashValues_def Let_def)
  show "ai_gateway (trackAIUsageTotals td i o' u s) = ai_gateway s"
    by (simp add: trackAIUsageTotals_def Let_def inc split: option.split)
qed (simp_all add: setCacheValue_def setCacheValueIfAbsent_def deleteCacheValue_def
    markCommentAsProcessed_def releaseCommentProcessingLock_def)

lemma cache_ops_configs [simp]:
  "ai_configs (snd (setCacheValue k s)) = ai_configs s"
  "ai_configs (snd (setCacheValueIfAbsent k s)) = ai_configs s"
  "ai_configs (snd (deleteCacheValue k s)) = ai_configs s"
  "ai_configs (snd (incrementHashValues k d s)) = ai_configs s"
  "ai_configs (markCommentAsProcessed c s) = ai_configs s"
  "ai_configs (releaseCommentProcessingLock c s) = ai_configs s"
  "ai_configs (trackAIUsageTotals td i o' u s) = ai_configs s"
proof -
  show inc: "ai_configs (snd (incrementHashValues k d s)) = ai_configs s" for k d s
    by (simp add: incrementHashValues_def Let_def)
  show "ai_configs (trackAIUsageTotals td i o' u s) = ai_configs s"
    by (simp add: trackAIUsageTotals_def Let_def inc split: option.split)
qed (simp_all add: setCacheValue_def setCacheValueIfAbsent_def deleteCacheValue_def
    markCommentAsProcessed_def releaseCommentProcessingLock_def)

text \<open>What one answer does to the tables, whether or not its last step fails.\<close>

definition answered :: "string \<Rightarrow> ai_env \<Rightarrow> gateway \<Rightarrow> gateway \<Rightarrow> bool" where
  "answered i env g g' \<longleftrightarrow>
     (\<exists>msg. comments g' = comments g @ [\<lparr>c_id = ae_commentId env, c_ticketId = i, c_authorId = None,
        c_authorType = AI, c_message = msg, c_isInternal = False, c_createdAt = ae_time env\<rparr>]) \<and>
     g'\<lparr>tickets := tickets g, comments := comments g\<rparr> = g \<and>
     List.filter (\<lambda>t. t_id t \<noteq> i) (tickets g') = List.filter (\<lambda>t. t_id t \<noteq> i) (tickets g)"

lemma t_id_apply_ai_update [simp]: "t_id (apply_ai_update u t) = t_id t"
  by (simp add: apply_ai_update_def)

lemma ai_updateTicket_frame:
  "comments (snd (ai_updateTicket i u g)) = comments g"
  "(snd (ai_updateTicket i u g))\<lparr>tickets := ts\<rparr> = g\<lparr>tickets := ts\<rparr>"
  "List.filter (\<lambda>t. t_id t \<noteq> i) (tickets (snd (ai_updateTicket i u g))) = List.filter (\<lambda>t. t_id t \<noteq> i) (tickets g)"
  by (auto simp: ai_updateTicket_def filter_update_rows split: option.split)

lemma handleSmartAssign_frame:
  "comments (handleSmartAssign t g) = comments g"
  "(handleSmartAssign t g)\<lparr>tickets := ts\<rparr> = g\<lparr>tickets := ts\<rparr>"
  "List.filter (\<lambda>x. t_id x \<noteq> t_id t) (tickets (handleSmartAssign t g)) = List.filter (\<lambda>x. t_id x \<noteq> t_id t) (tickets g)"
  using ai_updateTicket_frame [where i = "t_id t" and g = g] by (auto simp: handleSmartAssign_def split: option.split)

text \<open>How the rows of the tickets evolve: \<open>counted n i\<close> relates a table to a later one.\<close>

definition counted :: "int \<Rightarrow> string \<Rightarrow> ticket list \<Rightarrow> ticket list \<Rightarrow> bool" where
  "counted n i ts ts' \<longleftrightarrow> List.map t_id ts' = List.map t_id ts \<and>
     (\<forall>t'\<in>set ts'. \<exists>t\<in>set ts. t_id t = t_id t' \<and> t_organizationId t' = t_organizationId t \<and>
        (t_aiMessageCount t' = t_aiMessageCount t \<or> (t_id t = i \<and> t_aiMessageCount t' = n)))"

lemma counted_refl [simp]: "counted n i ts ts"
  by (auto simp: counted_def)

lemma counted_trans: "counted n i ts ts1 \<Longrightarrow> counted n i ts1 ts2 \<Longrightarrow> counted n i ts ts2"
  unfolding counted_def by metis

lemma counted_update:
  assumes "tu_aiMessageCount u = None \<or> tu_aiMessageCount u = Some n"
  shows "counted n i (tickets g) (tickets (snd (ai_updateTicket i u g)))"
proof -
  have "counted n i ts (update_rows (\<lambda>r. t_id r = i) (apply_ai_update u) ts)" for ts
    using assms
    by (auto simp: counted_def set_update_rows apply_ai_update_def the_default_def update_rows_def)
  then show ?thesis by (auto simp: ai_updateTicket_def split: option.split)
qed

lemma counted_smart_assign: "counted n (t_id t) (tickets g) (tickets (handleSmartAssign t g))"
  by (auto simp: handleSmartAssign_def no_update_def intro: counted_update split: option.split)

lemma buildTicketUpdate_count [simp]: "tu_aiMessageCount (buildTicketUpdate t a n) = Some (t_aiMessageCount t + 1)"
  by (cases a) (simp_all add: buildTicketUpdate_def Let_def no_update_def)

lemma find_ticket_frame: "tickets g = tickets g' \<Longrightarrow> find_ticket i g = find_ticket i g'"
  by (simp add: find_ticket_def)

lemma ai_updateTicket_found:
  assumes "ai_updateTicket i u g = (Inr y, g')"
  shows "\<exists>t0. find_ticket i g = Some t0 \<and> find_ticket i g' = Some (apply_ai_update u t0)"
proof -
  obtain t0 where t0: "find_ticket i g = Some t0"
    and g': "g' = g\<lparr>tickets := update_rows (\<lambda>r. t_id r = i) (apply_ai_update u) (tickets g)\<rparr>"
    using assms by (auto simp: ai_updateTicket_def split: option.splits if_splits)
  have "t_id t0 = i" using find_unique_SomeD [OF t0 [unfolded find_ticket_def]] by simp
  moreover have "find_ticket i g' = map_option (\<lambda>r. if t_id r = i then apply_ai_update u r else r) (find_ticket i g)"
    unfolding find_ticket_def g' by (simp add: find_unique_update_key)
  ultimately show ?thesis using t0 by simp
qed

lemma apply_ai_update_count: "tu_aiMessageCount u = Some n \<Longrightarrow> t_aiMessageCount (apply_ai_update u t) = n"
  by (simp add: apply_ai_update_def the_default_def)

lemma generateAndStore_effect:
  assumes "generateAndStoreAIResponse env t cs oc s = (r, s')"
  shows "ai_configs s' = ai_configs s"
    "ai_gateway s' = ai_gateway s \<or> answered (t_id t) env (ai_gateway s) (ai_gateway s')"
    "counted (t_aiMessageCount t + 1) (t_id t) (tickets (ai_gateway s)) (tickets (ai_gateway s'))"
    "r = Inr () \<Longrightarrow> answered (t_id t) env (ai_gateway s) (ai_gateway s') \<and>
       (\<exists>t'. find_ticket (t_id t) (ai_gateway s') = Some t' \<and> t_aiMessageCount t' = t_aiMessageCount t + 1)"
proof -
  let ?g = "ai_gateway s"
  have "ai_configs s' = ai_configs s \<and> (ai_gateway s' = ?g \<or> answered (t_id t) env ?g (ai_gateway s')) \<and>
     counted (t_aiMessageCount t + 1) (t_id t) (tickets ?g) (tickets (ai_gateway s')) \<and>
     (r = Inr () \<longrightarrow> answered (t_id t) env ?g (ai_gateway s') \<and>
       (\<exists>t'. find_ticket (t_id t) (ai_gateway s') = Some t' \<and> t_aiMessageCount t' = t_aiMessageCount t + 1))"
  proof (cases "generateAIResponse env")
    case (Inl e)
    then show ?thesis using assms by (auto simp: generateAndStoreAIResponse_def)
  next
    case (Inr x)
    obtain resp us where x: "x = (resp, us)" by (cases x)
    define a where "a = aa_type (decideAction (cd_confidence (calculateConfidence (response_context env t cs resp)))
        (decision_options_for t oc))"
    obtain rc g1 where st: "storeAIComment env (t_id t) resp a ?g = (rc, g1)" by (cases "storeAIComment env (t_id t) resp a ?g")
    show ?thesis
    proof (cases rc)
      case (Inl e)
      have "g1 = ?g" using st by (auto simp: Inl storeAIComment_def ai_createComment_def createTicketComment_def Let_def split: if_splits)
      then have "s' = s \<and> r = Inl e"
        using assms st Inr Inl by (auto simp: generateAndStoreAIResponse_def x on_gateway_def a_def [symmetric])
      then show ?thesis by simp
    next
      case (Inr c)
      let ?c = "\<lparr>c_id = ae_commentId env, c_ticketId = t_id t, c_authorId = None, c_authorType = AI,
        c_message = formatAIResponse resp a, c_isInternal = False, c_createdAt = ae_time env\<rparr>"
      have g1: "g1 = ?g\<lparr>comments := comments ?g @ [?c]\<rparr>"
        using st by (auto simp: Inr storeAIComment_def ai_createComment_def createTicketComment_def Let_def split: if_splits)
      define g2 where "g2 = (if a = smart_assign then handleSmartAssign t g1 else g1)"
      define u where "u = buildTicketUpdate t a (countAIResponses cs)"
      obtain ru g3 where up: "ai_updateTicket (t_id t) u g2 = (ru, g3)" by (cases "ai_updateTicket (t_id t) u g2")
      have s': "ai_gateway s' = g3 \<and> ai_configs s' = ai_configs s \<and> (r = Inr () \<longrightarrow> (\<exists>y. ru = Inr y))"
        using assms st up \<open>generateAIResponse env = Inr x\<close> Inr
        by (auto simp: generateAndStoreAIResponse_def x on_gateway_def a_def [symmetric] Let_def u_def [symmetric]
            g2_def split: if_splits sum.splits)
      have g2: "comments g2 = comments ?g @ [?c]" "g2\<lparr>tickets := ts, comments := cs'\<rparr> = ?g\<lparr>tickets := ts, comments := cs'\<rparr>"
        "List.filter (\<lambda>x. t_id x \<noteq> t_id t) (tickets g2) = List.filter (\<lambda>x. t_id x \<noteq> t_id t) (tickets ?g)"
        "counted (t_aiMessageCount t + 1) (t_id t) (tickets ?g) (tickets g2)" for cs' ts
        using handleSmartAssign_frame [where t = t and g = g1] counted_smart_assign [where t = t and g = g1] by (auto simp: g2_def g1)
      have g3: "g3 = snd (ai_updateTicket (t_id t) u g2)" using up by simp
      have "answered (t_id t) env ?g g3"
        unfolding answered_def g3 using g2 ai_updateTicket_frame [where i = "t_id t" and u = u and g = g2] by auto
      moreover have "counted (t_aiMessageCount t + 1) (t_id t) (tickets ?g) (tickets g3)"
        unfolding g3 by (rule counted_trans [OF g2(4)]) (simp add: counted_update u_def)
      moreover have "\<exists>t'. find_ticket (t_id t) g3 = Some t' \<and> t_aiMessageCount t' = t_aiMessageCount t + 1" if "ru = Inr y" for y
        using ai_updateTicket_found [of "t_id t" u g2 y g3] up that apply_ai_update_count [of u] by (auto simp: u_def)
      ultimately show ?thesis using s' by auto
    qed
  qed
  then show "ai_configs s' = ai_configs s"
    "ai_gateway s' = ai_gateway s \<or> answered (t_id t) env (ai_gateway s) (ai_gateway s')"
    "counted (t_aiMessageCount t + 1) (t_id t) (tickets (ai_gateway s)) (tickets (ai_gateway s'))"
    "r = Inr () \<Longrightarrow> answered (t_id t) env (ai_gateway s) (ai_gateway s') \<and>
       (\<exists>t'. find_ticket (t_id t) (ai_gateway s') = Some t' \<and> t_aiMessageCount t' = t_aiMessageCount t + 1)"
    by blast+
qed

text \<open>The conditions under which \<open>process_comment\<close> asks the provider.\<close>

definition answer_allowed :: "time \<Rightarrow> string \<Rightarrow> string \<Rightarrow> ai_state \<Rightarrow> bool" where
  "answer_allowed now i cid s \<longleftrightarrow>
     (\<exists>t. find_ticket i (ai_gateway s) = Some t \<and>
        (\<exists>c\<in>set (comments (ai_gateway s)). c_id c = cid \<and> c_ticketId c = i \<and> c_authorType c = USER) \<and>
        t_aiActive t \<and> \<not> (truthy (t_assignedToId t) \<and> t_status t = IN_PROGRESS) \<and>
        (\<forall>c\<in>set (comments (ai_gateway s)). c_ticketId c = i \<and> c_authorType c = AI \<longrightarrow> 30000 \<le> now - c_createdAt c) \<and>
        (case getAIConfigByOrg (t_organizationId t) s of
           None \<Rightarrow> t_aiMessageCount t < 5
         | Some oc \<Rightarrow> ac_aiEnabled oc \<and> t_aiMessageCount t < ac_maxAIResponses oc))"

lemma process_comment_effect:
  assumes "process_comment env i cid idem s = (r, s')"
  shows "ai_configs s' = ai_configs s"
    "ai_gateway s' = ai_gateway s \<or> (answer_allowed (ae_time env) i cid s \<and> answered i env (ai_gateway s) (ai_gateway s'))"
    "ai_gateway s' = ai_gateway s \<or>
      (\<exists>t. find_ticket i (ai_gateway s) = Some t \<and>
        counted (t_aiMessageCount t + 1) i (tickets (ai_gateway s)) (tickets (ai_gateway s')) \<and>
        (r = Inr () \<longrightarrow> (\<exists>t'. find_ticket i (ai_gateway s') = Some t' \<and> t_aiMessageCount t' = t_aiMessageCount t + 1)))"
proof -
  let ?g = "ai_gateway s"
  have "ai_configs s' = ai_configs s \<and> (ai_gateway s' = ?g \<or>
     (answer_allowed (ae_time env) i cid s \<and> answered i env ?g (ai_gateway s')) \<and>
     (\<exists>t. find_ticket i ?g = Some t \<and> counted (t_aiMessageCount t + 1) i (tickets ?g) (tickets (ai_gateway s')) \<and>
       (r = Inr () \<longrightarrow> (\<exists>t'. find_ticket i (ai_gateway s') = Some t' \<and> t_aiMessageCount t' = t_aiMessageCount t + 1))))"
  proof (cases "s' = s")
    case False
    obtain t c where t: "find_ticket i ?g = Some t"
      and oc: "\<not> (case getAIConfigByOrg (t_organizationId t) s of None \<Rightarrow> False | Some c \<Rightarrow> \<not> ac_aiEnabled c)"
      and c: "List.find (\<lambda>c. c_id c = cid) (getTicketComments_ai i ?g) = Some c" "c_authorType c = USER"
      and ok: "fst (shouldProcessAI t (getTicketComments_ai i ?g) (getAIConfigByOrg (t_organizationId t) s) (ae_time env))"
      and run: "(case generateAndStoreAIResponse env t (getTicketComments_ai i ?g) (getAIConfigByOrg (t_organizationId t) s) s of
            (Inl e, s1) \<Rightarrow> throw e s1
          | (Inr _, s1) \<Rightarrow> return () (if idem then markCommentAsProcessed cid s1 else s1)) = (r, s')"
      using assms False
      by (auto simp: process_comment_def getTicketWithComments_def Let_def split: option.splits if_splits)
    have ti: "t_id t = i" using find_unique_SomeD [OF t [unfolded find_ticket_def]] by simp
    obtain r1 s1 where g: "generateAndStoreAIResponse env t (getTicketComments_ai i ?g)
        (getAIConfigByOrg (t_organizationId t) s) s = (r1, s1)" by fastforce
    have s': "ai_gateway s' = ai_gateway s1" "ai_configs s' = ai_configs s1" "r = Inr () \<Longrightarrow> r1 = Inr ()"
      using run by (auto simp: g split: sum.splits if_splits)
    have "answer_allowed (ae_time env) i cid s"
      unfolding answer_allowed_def
      using t oc find_comment_SomeD [OF c(1)] c(2) shouldProcessAI_D [OF ok] cooldown_passed [OF ok]
      by (auto simp: AI_MAX_MESSAGES_PER_TICKET_def AI_COMMENT_COOLDOWN_MS_def split: option.splits)
    then show ?thesis
      using generateAndStore_effect [OF g] s' t unfolding ti by metis
  qed simp
  then show "ai_configs s' = ai_configs s"
    "ai_gateway s' = ?g \<or> (answer_allowed (ae_time env) i cid s \<and> answered i env ?g (ai_gateway s'))"
    "ai_gateway s' = ?g \<or> (\<exists>t. find_ticket i ?g = Some t \<and>
        counted (t_aiMessageCount t + 1) i (tickets ?g) (tickets (ai_gateway s')) \<and>
        (r = Inr () \<longrightarrow> (\<exists>t'. find_ticket i (ai_gateway s') = Some t' \<and> t_aiMessageCount t' = t_aiMessageCount t + 1)))"
    by blast+
qed

text \<open>The handler runs \<open>process_comment\<close> under the lock, or leaves the gateway alone.\<close>

lemma handleCommentAdded_cases:
  assumes "handleCommentAdded env i cid s = (r, s')"
  obtains (skip) "r = Inr ()" "ai_gateway s' = ai_gateway s" "ai_configs s' = ai_configs s"
  | (run) c idem s1 s2 where "cid = Some c" "c \<noteq> []" "\<not> hasCommentBeenProcessed c s" "ai_client s \<longrightarrow> ai_redis s"
      "ai_gateway s1 = ai_gateway s" "ai_configs s1 = ai_configs s" "idem = ai_client s"
      "process_comment env i c idem s1 = (r, s2)" "ai_gateway s' = ai_gateway s2" "ai_configs s' = ai_configs s2"
proof (cases "truthy cid \<and> \<not> hasCommentBeenProcessed (the cid) s")
  case False
  then have "r = Inr () \<and> s' = s" using assms by (auto simp: handleCommentAdded_def split: if_splits)
  then show ?thesis using skip by simp
next
  case True
  then obtain c where c: "cid = Some c" "c \<noteq> []" by (cases cid) auto
  obtain l s1 where l: "acquireCommentProcessingLock c s = (l, s1)" by fastforce
  have s1: "ai_gateway s1 = ai_gateway s" "ai_configs s1 = ai_configs s"
    using l cache_ops_gateway(2) cache_ops_configs(2) unfolding acquireCommentProcessingLock_def by (metis snd_conv)+
  have lc: "l = None \<longleftrightarrow> \<not> ai_client s" "l = Some True \<Longrightarrow> ai_redis s"
    using l by (auto simp: acquireCommentProcessingLock_def setCacheValueIfAbsent_def split: if_splits)
  show ?thesis
  proof (cases "l = Some False")
    case True
    then have "r = Inr () \<and> s' = s1"
      using assms \<open>truthy cid \<and> \<not> hasCommentBeenProcessed (the cid) s\<close> c l
      by (simp add: handleCommentAdded_def Let_def ex_bool_eq)
    then show ?thesis using skip s1 by simp
  next
    case False
    obtain r2 s2 where p: "process_comment env i c (l \<noteq> None) s1 = (r2, s2)" by fastforce
    have "\<not> (l \<noteq> None \<and> l \<noteq> Some True)" using False by (cases l) auto
    then have "r = r2 \<and> ai_gateway s' = ai_gateway s2 \<and> ai_configs s' = ai_configs s2"
      using assms \<open>truthy cid \<and> \<not> hasCommentBeenProcessed (the cid) s\<close> c l p
      by (auto simp: handleCommentAdded_def Let_def)
    then show ?thesis using run [where c = c and idem = "l \<noteq> None" and ?s1.0 = s1 and ?s2.0 = s2] c True s1 lc p False by (cases l) auto
  qed
qed

text \<open>
  In the service rounding never changes the decision. A comment has no attachments here, so
  that the exact score of an answer is never a multiple of 0.05 and lies on no threshold: for
  every ticket, thread and answer of an organization without a configuration, the service takes
  the action that exact arithmetic gives. (A tie needs an attachment, and then rounding does
  lose an assignment, lemma \<open>rounding_loses_assignment\<close>.)
\<close>

theorem service_decision_exact:
  "aa_type (decideAction (cd_confidence (calculateConfidence (response_context env t cs r))) (decision_options_for t None)) =
     exact_action (hundredths (response_context env t cs r)) (\<not> truthy (t_assignedToId t))"
proof -
  let ?x = "response_context env t cs r"
  have "hundredths ?x \<notin> {50, 65, 85}" by (rule no_tie) (simp add: response_context_def)
  then have "lit h \<le> score ?x \<longleftrightarrow> h \<le> hundredths ?x" if "h \<in> {50, 65, 85}" for h
    using score_threshold that by blast
  then show ?thesis
    by (simp add: calculateConfidence_def Let_def decision_options_for_def decideAction_default exact_action_def)
qed

text \<open>
  C34. When the automation answers, and what it writes. If handling a comment changes the
  database at all, the comment is a user's comment of the ticket that had not been processed, the
  ticket has AI enabled and is not in progress with an assignee, its organization has not
  disabled AI, fewer answers were given than the limit of the organization (five by default),
  and no AI comment of the ticket is less than thirty seconds old; and with the AI cache
  configured, Redis is up. The change is one public AI comment at the end of the table and a
  change of that ticket's row; on success its counter is one higher.
\<close>

theorem handleCommentAdded_guarded:
  assumes "handleCommentAdded env i cid s = (r, s')" "ai_gateway s' \<noteq> ai_gateway s"
  shows "\<exists>c t. cid = Some c \<and> answer_allowed (ae_time env) i c s \<and> \<not> hasCommentBeenProcessed c s \<and>
    (ai_client s \<longrightarrow> ai_redis s) \<and> answered i env (ai_gateway s) (ai_gateway s') \<and>
    find_ticket i (ai_gateway s) = Some t \<and>
    (r = Inr () \<longrightarrow> (\<exists>t'. find_ticket i (ai_gateway s') = Some t' \<and> t_aiMessageCount t' = t_aiMessageCount t + 1))"
  using assms(1)
proof (cases rule: handleCommentAdded_cases)
  case skip
  then show ?thesis using assms(2) by simp
next
  case (run c idem s1 s2)
  have "answer_allowed now i c s1 = answer_allowed now i c s" for now
    by (simp add: answer_allowed_def run(5,6) getAIConfigByOrg_def)
  then show ?thesis
    using process_comment_effect(2,3) [OF run(8)] assms(2) run by metis
qed

definition ai_limit :: "ai_state \<Rightarrow> ticket \<Rightarrow> int" where
  "ai_limit s t = (case getAIConfigByOrg (t_organizationId t) s of
     None \<Rightarrow> AI_MAX_MESSAGES_PER_TICKET | Some c \<Rightarrow> ac_maxAIResponses c)"

definition within_budget :: "ai_state \<Rightarrow> bool" where
  "within_budget s \<longleftrightarrow> distinct (List.map t_id (tickets (ai_gateway s))) \<and>
     (\<forall>t\<in>set (tickets (ai_gateway s)). t_aiMessageCount t \<le> ai_limit s t)"

lemma ai_limit_org:
  "ai_configs s = ai_configs s' \<Longrightarrow> t_organizationId t = t_organizationId t' \<Longrightarrow> ai_limit s t = ai_limit s' t'"
  by (simp add: ai_limit_def getAIConfigByOrg_def)

lemma within_budget_step:
  assumes "within_budget s"
  shows "within_budget (snd (handleCommentAdded env i cid s))"
proof -
  obtain r s' where h: "handleCommentAdded env i cid s = (r, s')" by fastforce
  have keep: "within_budget x" if "ai_gateway x = ai_gateway s" "ai_configs x = ai_configs s" for x
    using assms that unfolding within_budget_def by (metis ai_limit_org)
  have "within_budget s'" using h
  proof (cases rule: handleCommentAdded_cases)
    case skip
    then show ?thesis using keep by blast
  next
    case (run c idem s1 s2)
    note eff = process_comment_effect [OF run(8)]
    show ?thesis
    proof (cases "ai_gateway s2 = ai_gateway s1")
      case True
      then show ?thesis using keep run eff(1) by simp
    next
      case False
      then obtain t where t: "find_ticket i (ai_gateway s) = Some t"
        and cnt: "counted (t_aiMessageCount t + 1) i (tickets (ai_gateway s)) (tickets (ai_gateway s'))"
        and al: "answer_allowed (ae_time env) i c s1"
        using eff(2,3) run by auto
      have ti: "t \<in> set (tickets (ai_gateway s))" "t_id t = i"
        using find_unique_SomeD [OF t [unfolded find_ticket_def]] by simp_all
      have lt: "t_aiMessageCount t + 1 \<le> ai_limit s t"
        using al t run(5,6) by (auto simp: answer_allowed_def ai_limit_def getAIConfigByOrg_def AI_MAX_MESSAGES_PER_TICKET_def
            split: option.splits)
      have cf: "ai_configs s' = ai_configs s" using eff(1) run by simp
      have "t_aiMessageCount t' \<le> ai_limit s' t'" if t': "t' \<in> set (tickets (ai_gateway s'))" for t'
      proof -
        obtain t0 where t0: "t0 \<in> set (tickets (ai_gateway s))" "t_organizationId t' = t_organizationId t0"
          "t_aiMessageCount t' = t_aiMessageCount t0 \<or> (t_id t0 = i \<and> t_aiMessageCount t' = t_aiMessageCount t + 1)"
          using cnt t' unfolding counted_def by blast
        have l: "ai_limit s' t' = ai_limit s t0" using cf t0(2) by (rule ai_limit_org)
        show ?thesis
        proof (cases "t_aiMessageCount t' = t_aiMessageCount t0")
          case True
          then show ?thesis using assms t0(1) l by (simp add: within_budget_def)
        next
          case False
          have inj: "inj_on t_id (set (tickets (ai_gateway s)))" using assms by (simp add: within_budget_def distinct_map)
          have "t0 = t" by (rule inj_onD [OF inj]) (use False t0 ti in simp_all)
          then show ?thesis using lt l False t0(3) by simp
        qed
      qed
      moreover have "distinct (List.map t_id (tickets (ai_gateway s')))"
        using cnt assms by (simp add: counted_def within_budget_def)
      ultimately show ?thesis by (simp add: within_budget_def)
    qed
  qed
  then show ?thesis by (simp add: h)
qed


lemma updated_keys:
  "ai_keys (trackAIUsageTotals td i o' u s) = ai_keys s" "ai_client (trackAIUsageTotals td i o' u s) = ai_client s"
  by (auto simp: trackAIUsageTotals_def incrementHashValues_def Let_def split: option.split)

lemma generateAndStore_keys:
  assumes "generateAndStoreAIResponse env t cs oc s = (r, s')"
  shows "ai_keys s' = ai_keys s" "ai_client s' = ai_client s"
  using assms updated_keys
  by (auto simp: generateAndStoreAIResponse_def on_gateway_def Let_def split: sum.splits prod.splits if_splits)

lemma process_comment_marks:
  assumes "process_comment env i c True s = (Inr (), s')" "ai_gateway s' \<noteq> ai_gateway s" "ai_client s" "ai_redis s"
  shows "ai_client s'" "ai_redis s'" "ai_keys s' (buildAICommentProcessedCacheKey c)"
proof -
  obtain t cs oc s1 where g: "generateAndStoreAIResponse env t cs oc s = (Inr (), s1)" and s': "s' = markCommentAsProcessed c s1"
    using assms(1,2)
    by (auto simp: process_comment_def getTicketWithComments_def Let_def split: option.splits if_splits prod.splits sum.splits)
  have "ai_gateway s1 = ai_gateway s \<or> answered (t_id t) env (ai_gateway s) (ai_gateway s1)"
    by (rule generateAndStore_effect(2) [OF g])
  moreover have "redisUp g' = redisUp g" if "answered j env g g'" for j g g'
  proof -
    have "g'\<lparr>tickets := tickets g, comments := comments g\<rparr> = g" using that by (simp add: answered_def)
    then have "redisUp (g'\<lparr>tickets := tickets g, comments := comments g\<rparr>) = redisUp g" by (rule arg_cong)
    then show ?thesis by simp
  qed
  ultimately have up: "ai_client s1" "ai_redis s1"
    using assms(3,4) generateAndStore_keys(2) [OF g] by (auto simp: ai_redis_def)
  then have "s' = s1\<lparr>ai_keys := (ai_keys s1)(buildAICommentProcessedCacheKey c := True)\<rparr>"
    unfolding s' by (simp add: markCommentAsProcessed_def setCacheValue_def)
  then show "ai_client s'" "ai_redis s'" "ai_keys s' (buildAICommentProcessedCacheKey c)"
    using up by (simp_all add: ai_redis_def)
qed

lemma handleCommentAdded_run:
  assumes "handleCommentAdded env i (Some c) s = (r, s')" "ai_gateway s' \<noteq> ai_gateway s" "ai_client s"
  obtains s1 s2 where "ai_gateway s1 = ai_gateway s" "ai_client s1" "ai_redis s1"
    "process_comment env i c True s1 = (r, s2)" "s' = releaseCommentProcessingLock c s2" "c \<noteq> []"
proof -
  obtain l s1 where l: "acquireCommentProcessingLock c s = (l, s1)" by fastforce
  have s1: "ai_gateway s1 = ai_gateway s" "l \<noteq> None" "ai_client s1"
    using l assms(3) by (auto simp: acquireCommentProcessingLock_def setCacheValueIfAbsent_def split: if_splits)
  have c: "c \<noteq> []" "\<not> hasCommentBeenProcessed c s" "l = Some True"
    using assms(1,2) l s1 by (cases l; auto simp: handleCommentAdded_def Let_def ex_bool_eq split: if_splits)+
  have "ai_redis s1" using l c(3) by (auto simp: acquireCommentProcessingLock_def setCacheValueIfAbsent_def ai_redis_def split: if_splits)
  moreover obtain r2 s2 where p: "process_comment env i c True s1 = (r2, s2)" by fastforce
  moreover have "r2 = r \<and> s' = releaseCommentProcessingLock c s2"
    using assms(1) c l p by (simp add: handleCommentAdded_def Let_def ex_bool_eq)
  ultimately show ?thesis using that [of s1 s2] s1 c(1) by blast
qed

text \<open>
  At most once. After a comment has been handled successfully with a stored answer while the
  cache is available, handling it again, for whatever reason, changes nothing (as long as the
  mark has not expired).
\<close>

theorem handleCommentAdded_once:
  assumes "handleCommentAdded env i (Some c) s = (Inr (), s')" "ai_gateway s' \<noteq> ai_gateway s" "ai_client s"
  shows "handleCommentAdded env' i' (Some c) s' = (Inr (), s')"
  using assms
proof (rule handleCommentAdded_run)
  fix s1 s2
  assume run: "ai_gateway s1 = ai_gateway s" "ai_client s1" "ai_redis s1"
    "process_comment env i c True s1 = (Inr (), s2)" "s' = releaseCommentProcessingLock c s2" "c \<noteq> []"
  have "ai_gateway s2 \<noteq> ai_gateway s1" using assms(2) run(1,5) by simp
  note m = process_comment_marks [OF run(4) this run(2,3)]
  have "s' = s2\<lparr>ai_keys := (ai_keys s2)(buildAICommentProcessingLockKey c := False)\<rparr>"
    using m unfolding run(5) by (simp add: releaseCommentProcessingLock_def deleteCacheValue_def)
  then have "hasCommentBeenProcessed c s'"
    using m cache_keys_differ [of c c] by (simp add: hasCommentBeenProcessed_def getCacheValue_def ai_redis_def)
  then show ?thesis using run(6) by (simp add: handleCommentAdded_def)
qed

lemma no_jobs [simp]: "ai_jobs a = [] \<Longrightarrow> a\<lparr>ai_jobs := []\<rparr> = a"
  by (cases a) simp

lemma no_commentId_skipped:
  assumes "payload_field e ''commentId'' = None" "payload_field e ''ticketId'' = Some i"
  shows "handleTicketCommentAdded env False e a = a"
    "ai_jobs (handleTicketCommentAdded env True e a) = ai_jobs a @ [(i @ '':undefined'', i, None)]"
    "ai_jobs a = [] \<Longrightarrow> processAICommentJob env' (handleTicketCommentAdded env True e a) = a"
  using assms
  by (simp_all add: handleTicketCommentAdded_def processAICommentJob_def handleCommentAdded_def job_id_def
      the_default_def Let_def)


subsection \<open>Witnesses\<close>

definition example_ai_env :: ai_env where
  "example_ai_env = \<lparr>ae_provider = (\<lambda>_. Some (20, Inr (''Please restart the printer.'', None))), ae_timeoutMs = 15000,
     ae_retries = 3, ae_retryDelayMs = 500, ae_time = 100000, ae_today = ''2026-03-20'', ae_commentId = ''a1''\<rparr>"

definition example_ai :: ai_state where
  "example_ai = \<lparr>ai_gateway = example_gateway, ai_configs = [], ai_client = True, ai_keys = (\<lambda>_. False),
     ai_totals = (\<lambda>_. \<lparr>ut_tokensUsed = 0, ut_cost = 0, ut_requests = 0\<rparr>), ai_jobs = []\<rparr>"

lemma example_ai_run:
  "\<not> isl (fst (handleCommentAdded example_ai_env ''t1'' (Some ''c1'') example_ai))"
  "List.map c_id (comments (ai_gateway (snd (handleCommentAdded example_ai_env ''t1'' (Some ''c1'') example_ai)))) =
     [''c1'', ''c2'', ''a1'']"
  by code_simp+

lemma example_ai_changed:
  "ai_gateway (snd (handleCommentAdded example_ai_env ''t1'' (Some ''c1'') example_ai)) \<noteq> ai_gateway example_ai"
proof
  assume "ai_gateway (snd (handleCommentAdded example_ai_env ''t1'' (Some ''c1'') example_ai)) = ai_gateway example_ai"
  with example_ai_run(2) have "List.map c_id (comments (ai_gateway example_ai)) = [''c1'', ''c2'', ''a1'']" by simp
  then show False by (simp add: example_ai_def example_gateway_def example_comments_def)
qed

theorem handleCommentAdded_guarded_witness:
  "answer_allowed 100000 ''t1'' ''c1'' example_ai \<and>
   answered ''t1'' example_ai_env (ai_gateway example_ai)
     (ai_gateway (snd (handleCommentAdded example_ai_env ''t1'' (Some ''c1'') example_ai)))"
  using handleCommentAdded_guarded [OF run_ok [OF example_ai_run(1)] example_ai_changed]
  by (simp add: example_ai_env_def)


theorem handleCommentAdded_once_witness:
  "handleCommentAdded example_ai_env ''t1'' (Some ''c1'')
     (snd (handleCommentAdded example_ai_env ''t1'' (Some ''c1'') example_ai)) =
   (Inr (), snd (handleCommentAdded example_ai_env ''t1'' (Some ''c1'') example_ai))"
proof (rule handleCommentAdded_once)
  show "handleCommentAdded example_ai_env ''t1'' (Some ''c1'') example_ai =
      (Inr (), snd (handleCommentAdded example_ai_env ''t1'' (Some ''c1'') example_ai))"
    using run_ok [OF example_ai_run(1)] by simp
  show "ai_gateway (snd (handleCommentAdded example_ai_env ''t1'' (Some ''c1'') example_ai)) \<noteq> ai_gateway example_ai"
    by (rule example_ai_changed)
  show "ai_client example_ai" by (simp add: example_ai_def)
qed


end
