(* ===== verification/AI_Augmentation_Correct.thy ===== *)
theory AI_Augmentation_Correct
  imports AI_Augmentation Role_Types AI_Correct
begin

section \<open>What the augmentation of agents can answer\<close>

text \<open>
  The routes under /api/ai/augmentation: the rating of a suggestion does not depend on its text,
  a summary is never delivered, the actions never look at the conversation, and the response time
  of an agent is always zero.
\<close>

subsection \<open>Suggestions\<close>

lemma js_includes_Nil [simp]: "js_includes [] w = (w = [])"
  by simp

text \<open>An object is rated like the empty text of unknown length.\<close>

lemma quality_of_object:
  "calculateSuggestionQuality (ResultObject content usage) =
     \<lparr>sq_quality = ''fair'', sq_confidence = min (lit 100) (adjust (lit 50) (Some 10)),
      sq_reasoning = ''Suggestion quality based on: clear response''\<rparr>"
  by (simp add: calculateSuggestionQuality_def toLowerText_def value_length_def containsAnyKeyword_def
      toLowerCase_def Let_def)

lemma confidence_of_object: "min (lit 100) (adjust (lit 50) (Some 10)) = fl (lit 50 + lit 10)"
  by code_simp

lemma aug_response_object: "aug_response env i ctx prompt = Inr v \<Longrightarrow> \<exists>content usage. v = ResultObject content usage"
  unfolding aug_response_def
  by (cases "generateAIResponse ((ge_ai env)\<lparr>ae_provider := ge_respond env i ctx prompt\<rparr>)")
    (auto split: prod.splits)

lemma suggestion_object:
  assumes "generateAgentSuggestionFromTicket env (Some t) = Inr (Some x)"
  shows "sg_quality x = ''fair'' \<and> sg_confidence x = fl (lit 50 + lit 10) \<and>
    sg_copySuggestion x = ''Copy & Customize: ...''"
proof -
  from assms obtain i ctx prompt v where v: "aug_response env i ctx prompt = Inr v"
    "sg_quality x = sq_quality (calculateSuggestionQuality v)"
    "sg_confidence x = sq_confidence (calculateSuggestionQuality v)" "sg_copySuggestion x = buildCopySuggestion v"
    by (auto simp: generateAgentSuggestionFromTicket_def Let_def split: option.splits sum.splits)
  from aug_response_object [OF v(1)] show ?thesis
    by (auto simp: v quality_of_object confidence_of_object buildCopySuggestion_def)
qed

subsection \<open>Summaries\<close>

lemma summary_of_object: "\<exists>e. summary_of env t (ResultObject content usage) = Inl e"
  by (auto simp: summary_of_def Let_def generateIssueSummary_def split: prod.splits)

lemma summary_never: "\<exists>e. generateTicketSummaryFromTicket env (Some t) = Inl e"
proof (cases "generateAISummary env (getTicketComments_aug t)")
  case (Inl e)
  then show ?thesis by (simp add: generateTicketSummaryFromTicket_def)
next
  case (Inr v)
  then obtain content usage where "v = ResultObject content usage"
    by (auto simp: generateAISummary_def split: sum.splits)
  then show ?thesis using Inr summary_of_object [of env t content usage]
    by (auto simp: generateTicketSummaryFromTicket_def)
qed

lemma summary_null: "generateTicketSummary_aug env ticketId s = None"
  using summary_never [of env]
  by (auto simp: generateTicketSummary_aug_def null_on_error_def split: option.split sum.split) (metis Inr_not_Inl)

lemma assist_fails: "getAugmentationTicketWithComments env ticketId (ai_gateway s) = Some t \<Longrightarrow>
    \<exists>e. generateQuickAssist env ticketId s = Inl e"
  using summary_never [of env t]
  by (auto simp: generateQuickAssist_def split: option.split sum.split)

subsection \<open>Actions\<close>

lemma actions_without_comments:
  assumes "getTicketComments_aug t = []"
  shows "List.map sa_actionType (generateSuggestedActionsFromTicket env (Some t)) =
    (if t_priority t = HIGH then [''request_attachment''] else [])"
  using assms by (simp add: generateSuggestedActionsFromTicket_def Let_def)

lemma getAugmentationTicket_comments: "getAugmentationTicket env i s = Some t \<Longrightarrow> getTicketComments_aug t = []"
  by (auto simp: getAugmentationTicket_def with_relations_def getTicketComments_aug_def ticket.defs)

subsection \<open>Response times\<close>

definition no_system_comments :: "gateway \<Rightarrow> bool" where
  "no_system_comments s = (\<forall>c\<in>set (comments s). c_authorType c \<noteq> SYSTEM)"

lemma no_system_cong: "comments s' = comments s \<Longrightarrow> no_system_comments s' = no_system_comments s"
  by (simp add: no_system_comments_def)

lemma permitted_no_system: "permitted u s s' \<Longrightarrow> no_system_comments s \<Longrightarrow> no_system_comments s'"
  by (induction rule: permitted.induct)
    (auto simp: no_system_comments_def cache_onlyD invalidateOrganizationMembershipCache_def split: if_splits)

lemma permitted_run_no_system: "permitted_run u s s' \<Longrightarrow> no_system_comments s \<Longrightarrow> no_system_comments s'"
  by (induction rule: rtranclp_induct) (auto intro: permitted_no_system)

lemma org_permitted_comments: "org_permitted u s s' \<Longrightarrow> comments s' = comments s"
  by (cases rule: org_permitted.cases) (auto simp: cache_onlyD)

lemma org_run_comments: "org_run u s s' \<Longrightarrow> comments s' = comments s"
  by (induction rule: rtranclp_induct) (auto dest: org_permitted_comments)

lemma auth_frame_comments: "auth_frame new s s' \<Longrightarrow> comments s' = comments s"
  unfolding auth_frame_def by auto

lemma api_no_system:
  assumes "sys_ok s" "fresh_env env" "no_system_comments s"
  shows "no_system_comments (snd (api env r s))"
proof -
  obtain s1 u where s1: "auth_frame {ae_newId (api_auth env)} s s1"
    "snd (api env r s) = s1 \<or> permitted_run u s1 (snd (api env r s)) \<or> org_run u s1 (snd (api env r s))"
    using api_run [OF assms(1,2)] by blast
  have "no_system_comments s1" using assms(3) no_system_cong [OF auth_frame_comments [OF s1(1)]] by simp
  then show ?thesis using s1(2) permitted_run_no_system no_system_cong [OF org_run_comments] by blast
qed

lemma reachable_no_system: "reachable up s \<Longrightarrow> no_system_comments s"
proof (induction rule: reachable.induct)
  case start
  show ?case by (simp add: no_system_comments_def empty_gateway_def)
next
  case (step s s')
  from step.hyps(2) show ?case
  proof cases
    case (request env r)
    then show ?thesis using api_no_system reachable_sys_ok step.hyps(1) step.IH by blast
  next
    case (deliver now newId)
    have "comments s' = comments s" by (simp only: deliver) (subst deliver_event_tables, simp)
    then show ?thesis using no_system_cong step.IH by blast
  qed (use step.IH in \<open>simp_all add: cleanExpiredBlacklistEntries_def no_system_comments_def\<close>)
qed

lemma response_minutes_None:
  assumes "\<And>c. c \<in> set (getTicketComments_aug t) \<Longrightarrow> c_authorType c \<noteq> SYSTEM"
  shows "response_minutes t = None"
proof -
  have "List.filter (\<lambda>c. c_authorType c \<noteq> USER \<and> c_authorType c \<noteq> AI) (getTicketComments_aug t) = []"
    using assms by (auto simp: filter_empty_conv) (metis author_type.exhaust)
  then show ?thesis by (simp add: response_minutes_def Let_def)
qed

lemma response_time_zero:
  assumes "no_system_comments s"
  shows "st_avgRespondTime (getAgentAugmentationStats env a days s) = ''0 min''"
proof -
  let ?ts = "getAugmentationAgentTickets env a (aug_now env - resolveDays days * 24 * 60 * 60 * 1000) s"
  have "response_minutes t = None" if "t \<in> set ?ts" for t
    using assms that
    by (intro response_minutes_None) (auto simp: getAugmentationAgentTickets_def with_relations_def
        getTicketComments_aug_def no_system_comments_def ticket.defs)
  then have "List.map_filter response_minutes ?ts = []" by (induction ?ts) (auto simp: map_filter_def)
  then have "calculateAvgResponseTime ?ts = 0" by (simp add: calculateAvgResponseTime_def)
  moreover have "show_int 0 = ''0''" by code_simp
  ultimately show ?thesis by (simp add: getAgentAugmentationStats_def Let_def)
qed

subsection \<open>All answers\<close>

lemma suggestion_answer:
  "generateAgentSuggestion env i s = Some x \<Longrightarrow> sg_quality x = ''fair'' \<and> sg_confidence x = fl (lit 50 + lit 10) \<and>
    sg_copySuggestion x = ''Copy & Customize: ...''"
  using suggestion_object
  by (fastforce simp: generateAgentSuggestion_def null_on_error_def split: option.splits sum.splits if_splits)

lemma actions_answer: "set (List.map sa_actionType (generateSuggestedActions env i s)) \<subseteq> {''request_attachment''}"
proof (cases "getAugmentationTicket env i (ai_gateway s)")
  case None
  then show ?thesis by (simp add: generateSuggestedActions_def generateSuggestedActionsFromTicket_def)
next
  case (Some t)
  show ?thesis
    unfolding generateSuggestedActions_def Some
    by (subst actions_without_comments [OF getAugmentationTicket_comments [OF Some]]) auto
qed

lemma no_assist: "generateQuickAssist env i s \<noteq> Inr (Some x)"
proof
  assume e: "generateQuickAssist env i s = Inr (Some x)"
  then obtain t where "getAugmentationTicketWithComments env i (ai_gateway s) = Some t"
    by (auto simp: generateQuickAssist_def split: option.splits)
  from assist_fails [OF this] e show False by auto
qed

text \<open>
  C26. What the augmentation answers. In every reachable state of the gateway, whatever the
  language model says: a delivered suggestion is rated ``fair'' with confidence 0.5 + 0.1 and an
  empty preview, no summary and no quick assist is ever delivered, the suggested actions are at
  most the request for an attachment, and the average response time of an agent is ``0 min''.
\<close>

theorem augment_answers:
  assumes "reachable up (ai_gateway s)" "augment_router env r s = Responded st y"
  shows "case y of
      SuggestionData x \<Rightarrow> sg_quality x = ''fair'' \<and> sg_confidence x = fl (lit 50 + lit 10) \<and>
        sg_copySuggestion x = ''Copy & Customize: ...''
    | SummaryData x \<Rightarrow> False
    | ActionsData i acts n \<Rightarrow> set (List.map sa_actionType acts) \<subseteq> {''request_attachment''}
    | AugStatsData x \<Rightarrow> st_avgRespondTime x = ''0 min''
    | AssistData x \<Rightarrow> False
    | TeamStatsData _ _ _ \<Rightarrow> True"
proof (cases r)
  case (PostSuggestion i)
  then show ?thesis using assms(2) suggestion_answer
    by (auto simp: post_suggestion_def mapSuggestionResponse_def split: sum.splits option.splits)
next
  case (GetSummary i)
  then show ?thesis using assms(2) by (auto simp: get_summary_def summary_null split: sum.splits)
next
  case (GetActions i)
  then show ?thesis using assms(2) actions_answer
    by (auto simp: get_actions_def Let_def split: sum.splits)
next
  case (GetAgentStats a q)
  then show ?thesis using assms(2) response_time_zero [OF reachable_no_system [OF assms(1)]]
    by (auto simp: get_agent_stats_def split: sum.splits)
next
  case (PostQuickAssist i)
  then show ?thesis using assms(2) no_assist
    by (auto simp: post_quick_assist_def split: sum.splits option.splits)
next
  case (GetTeamStats o' q)
  then show ?thesis using assms(2)
    by (auto simp: get_team_stats_def buildTeamStatsPlaceholder_def split: sum.splits)
qed

text \<open>The run goes on: the owner opens a ticket and comments on it.\<close>

definition run_ticket :: gateway where
  "run_ticket = snd (api run_env (TicketRequest (Some ''Bearer t'') (PostTicket \<lparr>tb_organizationId = ''n'',
     tb_title = ''Printer'', tb_description = None, tb_priority = None, tb_source = None, tb_assignedToId = None\<rparr>)) run_two)"

definition run_comment :: gateway where
  "run_comment = snd (api run_env (TicketRequest (Some ''Bearer t'') (PostComment ''n1'' ''It is broken'' None)) run_ticket)"

lemma run_comment_reachable: "reachable True run_comment"
proof -
  have e: "fresh_env run_env"
    using example_org_env_fresh by (simp add: fresh_env_def run_env_def run_auth_env_def colon_free_def)
  have "reachable True run_ticket"
    unfolding run_ticket_def by (rule reachable.step [OF run_reachable]) (rule system_step.request [OF e])
  then show ?thesis unfolding run_comment_def by (rule reachable.step) (rule system_step.request [OF e])
qed

definition example_aug_env :: aug_env where
  "example_aug_env = \<lparr>ge_ai = example_ai_env,
     ge_respond = (\<lambda>_ _ _ _. Some (20, Inr (''Please restart the printer and try again.'', None))),
     ge_summarize = (\<lambda>_ _. Some (20, Inr (''A printer.'', None))), ge_timeText = (\<lambda>_. ''now''), ge_isoText = (\<lambda>_. ''now''),
     ge_updatedAt = (\<lambda>_. 0), ge_aborted = None, ge_suggestionFirst = True\<rparr>"

definition example_aug :: ai_state where
  "example_aug = example_ai\<lparr>ai_gateway := run_comment\<rparr>"

lemma example_suggestion:
  "case augment_router example_aug_env (PostSuggestion ''n1'') example_aug of
     Responded st y \<Rightarrow> st = 200 \<and> (case y of SuggestionData x \<Rightarrow>
       sg_suggestion x = ResultObject ''Please restart the printer and try again.'' None | _ \<Rightarrow> False)
   | _ \<Rightarrow> False"
  by code_simp

theorem augment_answers_witness:
  "\<exists>x. augment_router example_aug_env (PostSuggestion ''n1'') example_aug = Responded 200 (SuggestionData x) \<and>
     sg_suggestion x = ResultObject ''Please restart the printer and try again.'' None \<and>
     sg_quality x = ''fair'' \<and> sg_confidence x = fl (lit 50 + lit 10)"
proof -
  obtain x where x: "augment_router example_aug_env (PostSuggestion ''n1'') example_aug = Responded 200 (SuggestionData x)"
    "sg_suggestion x = ResultObject ''Please restart the printer and try again.'' None"
    using example_suggestion by (auto split: outcome.splits augment_response.splits)
  have "reachable True (ai_gateway example_aug)" using run_comment_reachable by (simp add: example_aug_def)
  from augment_answers [OF this x(1)] x show ?thesis by simp
qed

end
