(* ===== verification/AI_Config.thy ===== *)
theory AI_Config
  imports AI_Prompts Org_Correct
begin

section \<open>AI configuration, internal routes, analytics\<close>

text \<open>
  modules/ai/config (schema, service, repository, routes), modules/ai/internal (the routes the
  Python service calls with a shared token) and modules/ai/analytics. A configuration row adds to
  the columns the automation reads the remaining ones. A numeric field of a body is the number
  sent, whatever it is; the schema decides. The body of a request is \<open>None\<close> when there is none
  (Express leaves it undefined) or when a field has another JSON type.
\<close>

subsection \<open>Rows and bodies\<close>

record ai_config_row = ai_config +
  acr_id :: string
  acr_allowedModels :: "string list"
  acr_maxTokensPerRequest :: int
  acr_maxCostPerDay :: "rat option"
  acr_createdAt :: time

record config_body =
  cb_allowedModels :: "string list option"
  cb_maxTokensPerRequest :: "rat option"
  cb_maxCostPerDay :: "rat option option"
  cb_enableAutoResolve :: "bool option"
  cb_enableSmartAssign :: "bool option"
  cb_autoResolveThreshold :: "rat option"
  cb_suggestThreshold :: "rat option"
  cb_smartAssignThreshold :: "rat option"
  cb_maxAIResponses :: "rat option"
  cb_aiEnabled :: "bool option"

definition when_given :: "('a \<Rightarrow> bool) \<Rightarrow> 'a option \<Rightarrow> bool" where
  "when_given p x = (case x of None \<Rightarrow> True | Some v \<Rightarrow> p v)"

definition positive_int :: "rat \<Rightarrow> bool" where
  "positive_int x = (of_int \<lfloor>x\<rfloor> = x \<and> 0 < x \<and> x \<le> 2 ^ 53 - 1)"

definition unit_interval :: "rat \<Rightarrow> bool" where
  "unit_interval x = (0 \<le> x \<and> x \<le> 1)"

definition aiConfigBody :: "config_body \<Rightarrow> bool" where
  "aiConfigBody b \<longleftrightarrow>
     when_given positive_int (cb_maxTokensPerRequest b) \<and>
     when_given (when_given (\<lambda>x. 0 < x)) (cb_maxCostPerDay b) \<and>
     when_given unit_interval (cb_autoResolveThreshold b) \<and>
     when_given unit_interval (cb_suggestThreshold b) \<and>
     when_given unit_interval (cb_smartAssignThreshold b) \<and>
     when_given positive_int (cb_maxAIResponses b)"

subsection \<open>Repository (ai.config.repo.js)\<close>

text \<open>The columns of type Int hold 32 bits; the client refuses a larger number.\<close>

definition fits_int4 :: "config_body \<Rightarrow> bool" where
  "fits_int4 b \<longleftrightarrow> when_given (\<lambda>x. x < 2 ^ 31) (cb_maxTokensPerRequest b) \<and>
     when_given (\<lambda>x. x < 2 ^ 31) (cb_maxAIResponses b)"

definition default_config :: "string \<Rightarrow> string \<Rightarrow> time \<Rightarrow> ai_config_row" where
  "default_config newId organizationId now =
     \<lparr>ac_organizationId = organizationId, ac_enableAutoResolve = True, ac_enableSmartAssign = True,
      ac_autoResolveThreshold = as_rat (lit 85), ac_suggestThreshold = as_rat (lit 50),
      ac_smartAssignThreshold = as_rat (lit 65), ac_maxAIResponses = 5, ac_aiEnabled = True,
      acr_id = newId, acr_allowedModels = [''gpt-4'', ''gpt-3.5''], acr_maxTokensPerRequest = 2000,
      acr_maxCostPerDay = None, acr_createdAt = now\<rparr>"

definition apply_config :: "config_body \<Rightarrow> ai_config_row \<Rightarrow> ai_config_row" where
  "apply_config b r =
     r\<lparr>acr_allowedModels := the_default (acr_allowedModels r) (cb_allowedModels b),
       acr_maxTokensPerRequest := the_default (acr_maxTokensPerRequest r) (map_option floor (cb_maxTokensPerRequest b)),
       acr_maxCostPerDay := the_default (acr_maxCostPerDay r) (cb_maxCostPerDay b),
       ac_enableAutoResolve := the_default (ac_enableAutoResolve r) (cb_enableAutoResolve b),
       ac_enableSmartAssign := the_default (ac_enableSmartAssign r) (cb_enableSmartAssign b),
       ac_autoResolveThreshold := the_default (ac_autoResolveThreshold r) (cb_autoResolveThreshold b),
       ac_suggestThreshold := the_default (ac_suggestThreshold r) (cb_suggestThreshold b),
       ac_smartAssignThreshold := the_default (ac_smartAssignThreshold r) (cb_smartAssignThreshold b),
       ac_maxAIResponses := the_default (ac_maxAIResponses r) (map_option floor (cb_maxAIResponses b)),
       ac_aiEnabled := the_default (ac_aiEnabled r) (cb_aiEnabled b)\<rparr>"

record config_state =
  cs_gateway :: gateway
  cs_configs :: "ai_config_row list"

definition find_config :: "string \<Rightarrow> config_state \<Rightarrow> ai_config_row option" where
  "find_config organizationId s = find_unique (\<lambda>r. ac_organizationId r = organizationId) (cs_configs s)"

definition int4_error :: js_error where
  "int4_error = JsError ''PrismaClientValidationError''"

definition createAIConfig :: "string \<Rightarrow> config_body \<Rightarrow> time \<Rightarrow> string \<Rightarrow> config_state \<Rightarrow> ai_config_row result \<times> config_state" where
  "createAIConfig organizationId b now newId s =
     (if \<not> fits_int4 b then throw int4_error s
      else if find_config organizationId s \<noteq> None \<or> list_ex (\<lambda>r. acr_id r = newId) (cs_configs s)
      then throw (PrismaError ''P2002'') s
      else if find_organization organizationId (cs_gateway s) = None then throw (PrismaError ''P2003'') s
      else let r = apply_config b (default_config newId organizationId now)
           in return r (s\<lparr>cs_configs := cs_configs s @ [r]\<rparr>))"

definition updateAIConfig :: "string \<Rightarrow> config_body \<Rightarrow> config_state \<Rightarrow> ai_config_row result \<times> config_state" where
  "updateAIConfig organizationId b s =
     (if \<not> fits_int4 b then throw int4_error s
      else case find_config organizationId s of
        None \<Rightarrow> throw (PrismaError ''P2025'') s
      | Some r \<Rightarrow> return (apply_config b r)
          (s\<lparr>cs_configs := update_rows (\<lambda>r. ac_organizationId r = organizationId) (apply_config b) (cs_configs s)\<rparr>))"

definition upsertAIConfig :: "string \<Rightarrow> config_body \<Rightarrow> time \<Rightarrow> string \<Rightarrow> config_state \<Rightarrow> ai_config_row result \<times> config_state" where
  "upsertAIConfig organizationId b now newId s =
     (if find_config organizationId s = None then createAIConfig organizationId b now newId s
      else updateAIConfig organizationId b s)"

subsection \<open>Service (ai.config.service.js)\<close>

definition createAIConfigService :: "string \<Rightarrow> config_body \<Rightarrow> time \<Rightarrow> string \<Rightarrow> config_state \<Rightarrow> ai_config_row result \<times> config_state" where
  "createAIConfigService organizationId b now newId s =
     (if find_config organizationId s \<noteq> None
      then throw (ApiError 409 ''AI config already exists for this organization. Use PATCH to update.'' ''AI_CONFIG_EXISTS'') s
      else createAIConfig organizationId b now newId s)"

definition updateAIConfigService :: "string \<Rightarrow> config_body \<Rightarrow> config_state \<Rightarrow> ai_config_row result \<times> config_state" where
  "updateAIConfigService organizationId b s =
     (if find_config organizationId s = None
      then throw (ApiError 404 ''AI config not found for this organization. Use POST to create.'' ''AI_CONFIG_NOT_FOUND'') s
      else updateAIConfig organizationId b s)"

subsection \<open>Routes (ai.config.routes.js, ai.config.validator.js)\<close>

datatype config_request =
    GetConfig string "config_body option"
  | PostConfig string "config_body option"
  | PatchConfig string "config_body option"

definition config_body_ok :: "config_body option \<Rightarrow> bool" where
  "config_body_ok b = (case b of None \<Rightarrow> False | Some b \<Rightarrow> aiConfigBody b)"

text \<open>
  The guards of the organization routes, then the controller. The schema of the read route wants a
  body that is an object.
\<close>

definition config_route ::
    "bool \<Rightarrow> int \<Rightarrow> (config_state \<Rightarrow> 'a result \<times> config_state) \<Rightarrow> string \<Rightarrow> permission_snapshot option \<Rightarrow> string \<Rightarrow>
     config_state \<Rightarrow> 'a outcome \<times> config_state" where
  "config_route valid status controller u tok orgId s =
     (case org_route [AI_MANAGE_CONFIG] valid status (\<lambda>m. return ()) u tok orgId (cs_gateway s) of
        (Refused st msg, g) \<Rightarrow> (Refused st msg, s\<lparr>cs_gateway := g\<rparr>)
      | (Failed e, g) \<Rightarrow> (Failed e, s\<lparr>cs_gateway := g\<rparr>)
      | (Responded _ _, g) \<Rightarrow>
          (case controller (s\<lparr>cs_gateway := g\<rparr>) of
             (Inl e, s1) \<Rightarrow> (Failed e, s1)
           | (Inr x, s1) \<Rightarrow> (Responded status x, s1)))"

fun config_router ::
    "(string \<Rightarrow> bool) \<Rightarrow> time \<Rightarrow> string \<Rightarrow> string \<Rightarrow> permission_snapshot option \<Rightarrow> config_request \<Rightarrow>
     config_state \<Rightarrow> ai_config_row option outcome \<times> config_state" where
  "config_router uuid now newId u tok (GetConfig o' b) s =
     config_route (uuid o' \<and> b \<noteq> None) 200 (\<lambda>s1. return (find_config o' s1) s1) u tok o' s"
| "config_router uuid now newId u tok (PostConfig o' b) s =
     config_route (uuid o' \<and> config_body_ok b) 201
       (\<lambda>s1. apfst (map_sum id Some) (createAIConfigService o' (the b) now newId s1)) u tok o' s"
| "config_router uuid now newId u tok (PatchConfig o' b) s =
     config_route (uuid o' \<and> config_body_ok b) 200
       (\<lambda>s1. apfst (map_sum id Some) (updateAIConfigService o' (the b) s1)) u tok o' s"

subsection \<open>Internal routes (modules/ai/internal)\<close>

datatype internal_request =
    Generate "string option" string
  | GenerateStream string
  | Embeddings "string list option"

datatype internal_response =
    Generated string "ai_usage option"
  | Streamed "string list"
  | Embedded "int list list"

definition verifyInternalToken :: "string \<Rightarrow> string option \<Rightarrow> bool" where
  "verifyInternalToken internalServiceToken header =
     (truthy header \<and> header = Some internalServiceToken)"

definition internal_respond :: "ai_env \<Rightarrow> (string \<Rightarrow> nat \<Rightarrow> (int \<times> (host_error + string \<times> ai_usage option)) option) \<Rightarrow>
    string \<Rightarrow> (string \<times> ai_usage option) result" where
  "internal_respond env provide request = generateAIResponse (env\<lparr>ae_provider := provide request\<rparr>)"

text \<open>A missing \<open>orgId\<close> makes the lookup of the configuration fail. The request is given as text.\<close>

definition generateController ::
    "ai_env \<Rightarrow> (string \<Rightarrow> nat \<Rightarrow> (int \<times> (host_error + string \<times> ai_usage option)) option) \<Rightarrow> string option \<Rightarrow> string \<Rightarrow>
     ai_state \<Rightarrow> internal_response outcome" where
  "generateController env provide orgId request s =
     (case orgId of
        None \<Rightarrow> Failed (JsError ''PrismaClientValidationError'')
      | Some o' \<Rightarrow>
          if (case getAIConfigByOrg o' s of None \<Rightarrow> False | Some c \<Rightarrow> \<not> ac_aiEnabled c)
          then Refused 403 ''AI disabled for this organization''
          else case internal_respond env provide request of
            Inl e \<Rightarrow> Failed e
          | Inr (content, usage) \<Rightarrow> Responded 200 (Generated content usage))"

definition generateStreamController ::
    "ai_env \<Rightarrow> (string \<Rightarrow> nat \<Rightarrow> (int \<times> (host_error + string \<times> ai_usage option)) option) \<Rightarrow> string \<Rightarrow>
     internal_response outcome" where
  "generateStreamController env provide request =
     (case internal_respond env provide request of
        Inl e \<Rightarrow> Failed e
      | Inr (content, usage) \<Rightarrow>
          Responded 200 (Streamed
            (List.map (\<lambda>word. ''data: '' @ word @ '' '' @ newline @ newline) (js_split (CHR '' '') content) @
             [''data: [DONE]'' @ newline @ newline])))"

definition embeddingsController :: "string list option \<Rightarrow> internal_response outcome" where
  "embeddingsController texts =
     (case texts of
        None \<Rightarrow> Refused 400 ''texts must be a non-empty array''
      | Some ts \<Rightarrow>
          if ts = [] then Refused 400 ''texts must be a non-empty array''
          else Responded 200 (Embedded (List.map (\<lambda>_. replicate 1536 0) ts)))"

fun internal_router ::
    "ai_env \<Rightarrow> (string \<Rightarrow> nat \<Rightarrow> (int \<times> (host_error + string \<times> ai_usage option)) option) \<Rightarrow> string \<Rightarrow> string option \<Rightarrow>
     internal_request \<Rightarrow> ai_state \<Rightarrow> internal_response outcome" where
  "internal_router env provide secret header r s =
     (if \<not> verifyInternalToken secret header then Refused 403 ''Forbidden''
      else case r of
        Generate orgId request \<Rightarrow> generateController env provide orgId request s
      | GenerateStream request \<Rightarrow> generateStreamController env provide request
      | Embeddings texts \<Rightarrow> embeddingsController texts)"

subsection \<open>Analytics (ai.analytics.service.js, ai.analytics.controller.js)\<close>

record ai_stats =
  an_totalTickets :: nat
  an_totalResolved :: nat
  an_resolvedByAI :: nat
  an_aiResolutionRate :: string
  an_avgAIMessagesPerTicket :: string
  an_message :: string
  an_aiHelpfulCount :: nat
  an_aiSuggestionRate :: string

definition getAIStats :: "string \<Rightarrow> time \<Rightarrow> gateway \<Rightarrow> ai_stats" where
  "getAIStats organizationId since s =
     (let ts = getOrganizationTicketsWithAIMetrics organizationId since s;
          resolved = List.filter (\<lambda>(_, st, _). st = RESOLVED) ts;
          aiResolvedCount = length (List.filter (\<lambda>(_, _, cs). cs \<noteq> []) resolved);
          aiTickets = List.filter (\<lambda>(_, _, cs). cs \<noteq> []) ts;
          aiMessageSum = sum_list (List.map (\<lambda>(_, _, cs). length cs) aiTickets);
          avgMessagesWithAI = js_div (of_nat aiMessageSum) (of_nat (max 1 (length aiTickets)))
      in \<lparr>an_totalTickets = length ts, an_totalResolved = length resolved, an_resolvedByAI = aiResolvedCount,
          an_aiResolutionRate = (if resolved \<noteq> []
            then toFixed 2 (js_mul (js_div (of_nat aiResolvedCount) (of_nat (length resolved))) 100) else ''0.00'') @ ''%'',
          an_avgAIMessagesPerTicket = toFixed 2 avgMessagesWithAI,
          an_message = (if aiResolvedCount > 0 then ''AI is actively assisting in ticket resolution''
            else ''AI assistance is currently low or unused''),
          an_aiHelpfulCount = aiResolvedCount,
          an_aiSuggestionRate = toFixed 2 (js_mul (js_div avgMessagesWithAI 5) 100) @ ''%''\<rparr>)"

definition getStats :: "time \<Rightarrow> string \<Rightarrow> gateway \<Rightarrow> (string \<times> string \<times> ai_stats) outcome" where
  "getStats now organizationId s =
     (if organizationId = [] then Failed (JsError ''ZodError'')
      else Responded 200 (organizationId, ''Last 7 days'', getAIStats organizationId (now - 7 * 24 * 60 * 60 * 1000) s))"

end
