(* ===== verification/AI_Config_Correct.thy ===== *)
theory AI_Config_Correct
  imports AI_Config
begin

section \<open>Who may configure the AI, and what a configuration can hold\<close>

text \<open>
  The routes under /api/ai/config: an invariant of the configuration table and the guard of its
  changes; the read route refuses a request without a body; the streaming route of the internal
  API ignores the switch of the organization.
\<close>

subsection \<open>Rows\<close>

definition config_row_ok :: "ai_config_row \<Rightarrow> bool" where
  "config_row_ok r \<longleftrightarrow>
     unit_interval (ac_autoResolveThreshold r) \<and> unit_interval (ac_suggestThreshold r) \<and>
     unit_interval (ac_smartAssignThreshold r) \<and>
     0 < ac_maxAIResponses r \<and> ac_maxAIResponses r < 2 ^ 31 \<and>
     0 < acr_maxTokensPerRequest r \<and> acr_maxTokensPerRequest r < 2 ^ 31 \<and>
     when_given (\<lambda>x. 0 < x) (acr_maxCostPerDay r)"

definition config_ok :: "ai_config_row list \<Rightarrow> bool" where
  "config_ok rs \<longleftrightarrow> distinct (List.map ac_organizationId rs) \<and> list_all config_row_ok rs"

lemma default_config_ok: "config_row_ok (default_config i o' now)"
proof -
  have "0 \<le> lit 85" "lit 85 \<le> 2 ^ 58" "0 \<le> lit 50" "lit 50 \<le> 2 ^ 58" "0 \<le> lit 65" "lit 65 \<le> 2 ^ 58"
    by code_simp+
  then show ?thesis
    by (simp add: config_row_ok_def default_config_def unit_interval_def as_rat_def when_given_def)
qed

lemma positive_int_floor: "positive_int x \<Longrightarrow> x < 2 ^ 31 \<Longrightarrow> 0 < \<lfloor>x\<rfloor> \<and> \<lfloor>x\<rfloor> < 2 ^ 31"
  unfolding positive_int_def by (metis of_int_0_less_iff of_int_less_iff of_int_numeral of_int_power)

lemma given_default: "when_given p x \<Longrightarrow> p d \<Longrightarrow> p (the_default d x)"
  by (cases x) (simp_all add: when_given_def the_default_def)

lemma given_floor:
  assumes "when_given positive_int x" "when_given (\<lambda>x. x < 2 ^ 31) x" "0 < d \<and> d < 2 ^ 31"
  shows "0 < the_default d (map_option floor x) \<and> the_default d (map_option floor x) < 2 ^ 31"
  using assms positive_int_floor by (cases x) (auto simp: when_given_def the_default_def)

lemma apply_config_ok:
  assumes "aiConfigBody b" "fits_int4 b" "config_row_ok r"
  shows "config_row_ok (apply_config b r)"
  using assms given_default [of unit_interval] given_default [of "when_given (\<lambda>x. (0::rat) < x)"] given_floor
  by (simp add: config_row_ok_def aiConfigBody_def fits_int4_def apply_config_def)

lemma apply_config_org [simp]: "ac_organizationId (apply_config b r) = ac_organizationId r"
  by (simp add: apply_config_def)

subsection \<open>The operations on the table\<close>

text \<open>\<open>table_change o' rs rs'\<close>: the table is as before, or one row of \<open>o'\<close> was added or edited within its bounds.\<close>

definition table_change :: "string \<Rightarrow> ai_config_row list \<Rightarrow> ai_config_row list \<Rightarrow> bool" where
  "table_change o' rs rs' \<longleftrightarrow>
     (config_ok rs \<longrightarrow> config_ok rs') \<and>
     List.filter (\<lambda>r. ac_organizationId r \<noteq> o') rs' = List.filter (\<lambda>r. ac_organizationId r \<noteq> o') rs"

lemma table_change_refl [simp]: "table_change o' rs rs"
  by (simp add: table_change_def)

lemma createAIConfig_change:
  assumes "aiConfigBody b"
  shows "table_change o' (cs_configs s) (cs_configs (snd (createAIConfig o' b now n s)))"
proof (cases "fits_int4 b \<and> find_config o' s = None")
  case True
  have "config_row_ok (apply_config b (default_config n o' now))"
    using apply_config_ok [OF assms _ default_config_ok] True by blast
  moreover have "o' \<notin> set (List.map ac_organizationId (cs_configs s))"
    using True by (auto simp: find_config_def find_unique_None_iff)
  moreover have "ac_organizationId (default_config n o' now) = o'" by (simp add: default_config_def)
  ultimately show ?thesis by (auto simp: createAIConfig_def Let_def table_change_def config_ok_def)
qed (auto simp: createAIConfig_def)

lemma updateAIConfig_change:
  assumes "aiConfigBody b"
  shows "table_change o' (cs_configs s) (cs_configs (snd (updateAIConfig o' b s)))"
proof (cases "fits_int4 b \<and> find_config o' s \<noteq> None")
  case True
  let ?rs = "update_rows (\<lambda>r. ac_organizationId r = o') (apply_config b) (cs_configs s)"
  have "config_ok (cs_configs s) \<longrightarrow> config_ok ?rs"
    using apply_config_ok [OF assms] True
    by (auto simp: config_ok_def map_key_update_rows list_all_iff set_update_rows)
  moreover have "List.filter (\<lambda>r. ac_organizationId r \<noteq> o') ?rs = List.filter (\<lambda>r. ac_organizationId r \<noteq> o') (cs_configs s)"
    by (rule filter_update_rows) simp
  ultimately show ?thesis using True by (auto simp: updateAIConfig_def table_change_def)
qed (auto simp: updateAIConfig_def)

lemma service_change:
  assumes "aiConfigBody b"
  shows "table_change o' (cs_configs s) (cs_configs (snd (createAIConfigService o' b now n s)))"
    "table_change o' (cs_configs s) (cs_configs (snd (updateAIConfigService o' b s)))"
  using createAIConfig_change [OF assms] updateAIConfig_change [OF assms]
  by (simp_all add: createAIConfigService_def updateAIConfigService_def)

subsection \<open>The routes\<close>

lemma config_route_run:
  assumes "good (cs_gateway s)" "config_route valid st c u tok o' s = (resp, s')"
  shows "cs_configs s' = cs_configs s \<or>
    (valid \<and> (\<exists>m g. find_membership o' u (cs_gateway s) = Some m \<and> route_grants (cs_gateway s) tok m AI_MANAGE_CONFIG \<and>
       s' = snd (c (s\<lparr>cs_gateway := g\<rparr>))))"
proof (cases "org_route [AI_MANAGE_CONFIG] valid st (\<lambda>m. return ()) u tok o' (cs_gateway s)")
  case (Pair y g)
  show ?thesis
  proof (cases y)
    case (Responded st' x)
    from org_route_RespondedE [OF Pair [unfolded Responded] assms(1)] obtain m where
      "find_membership o' u (cs_gateway s) = Some m" "route_grants (cs_gateway s) tok m AI_MANAGE_CONFIG" "valid"
      by (metis list.set_intros(1) list.distinct(1))
    moreover have "s' = snd (c (s\<lparr>cs_gateway := g\<rparr>))"
      using assms(2) Pair Responded by (auto simp: config_route_def split: prod.splits sum.splits)
    ultimately show ?thesis by blast
  qed (use assms(2) Pair in \<open>auto simp: config_route_def\<close>)
qed

fun config_organization :: "config_request \<Rightarrow> string" where
  "config_organization (GetConfig o' b) = o'"
| "config_organization (PostConfig o' b) = o'"
| "config_organization (PatchConfig o' b) = o'"

text \<open>
  C14. The configuration of the AI. Whatever the request, the table keeps one row per organization
  with thresholds in the unit interval and positive 32-bit limits, and the rows of the other
  organizations stay as they are; and if the table changes at all, the caller is a member of the
  organization whom the route grants \<open>ai:manage_config\<close>.
\<close>

theorem config_router_safe:
  assumes "good (cs_gateway s)" "config_ok (cs_configs s)" "config_router uuid now n u tok q s = (resp, s')"
  shows "config_ok (cs_configs s') \<and>
    List.filter (\<lambda>r. ac_organizationId r \<noteq> config_organization q) (cs_configs s') =
      List.filter (\<lambda>r. ac_organizationId r \<noteq> config_organization q) (cs_configs s) \<and>
    (cs_configs s' = cs_configs s \<or>
      (\<exists>m. find_membership (config_organization q) u (cs_gateway s) = Some m \<and>
         route_grants (cs_gateway s) tok m AI_MANAGE_CONFIG))"
proof -
  have "table_change (config_organization q) (cs_configs s) (cs_configs s') \<and>
    (cs_configs s' = cs_configs s \<or> (\<exists>m. find_membership (config_organization q) u (cs_gateway s) = Some m \<and>
         route_grants (cs_gateway s) tok m AI_MANAGE_CONFIG))"
  proof (cases q)
    case (GetConfig o' b)
    then show ?thesis using config_route_run [OF assms(1)] assms(3) by fastforce
  next
    case (PostConfig o' b)
    show ?thesis
      using config_route_run [OF assms(1) assms(3) [unfolded PostConfig config_router.simps]]
        service_change(1) [of "the b" o' "s\<lparr>cs_gateway := g\<rparr>" now n for g] PostConfig
      by (auto simp: config_body_ok_def split: option.splits)
  next
    case (PatchConfig o' b)
    show ?thesis
      using config_route_run [OF assms(1) assms(3) [unfolded PatchConfig config_router.simps]]
        service_change(2) [of "the b" o' "s\<lparr>cs_gateway := g\<rparr>" for g] PatchConfig
      by (auto simp: config_body_ok_def split: option.splits)
  qed
  then show ?thesis using assms(2) by (auto simp: table_change_def)
qed

definition example_config_body :: config_body where
  "example_config_body = \<lparr>cb_allowedModels = None, cb_maxTokensPerRequest = None, cb_maxCostPerDay = Some None,
     cb_enableAutoResolve = Some False, cb_enableSmartAssign = None, cb_autoResolveThreshold = Some (9 / 10),
     cb_suggestThreshold = None, cb_smartAssignThreshold = None, cb_maxAIResponses = Some 3, cb_aiEnabled = None\<rparr>"

definition example_config :: config_state where
  "example_config = \<lparr>cs_gateway = example_gateway, cs_configs = []\<rparr>"

lemma example_config_run:
  "List.map ac_maxAIResponses (cs_configs (snd (config_router (\<lambda>_. True) 5 ''k1'' ''own'' None
     (PostConfig ''o1'' (Some example_config_body)) example_config))) = [3]"
  by code_simp

theorem config_router_safe_witness:
  "let s' = snd (config_router (\<lambda>_. True) 5 ''k1'' ''own'' None (PostConfig ''o1'' (Some example_config_body)) example_config)
   in config_ok (cs_configs s') \<and> List.map ac_maxAIResponses (cs_configs s') = [3] \<and>
     (\<exists>m. find_membership ''o1'' ''own'' example_gateway = Some m \<and> route_grants example_gateway None m AI_MANAGE_CONFIG)"
proof -
  let ?r = "config_router (\<lambda>_. True) 5 ''k1'' ''own'' None (PostConfig ''o1'' (Some example_config_body)) example_config"
  have e: "cs_gateway example_config = example_gateway" "cs_configs example_config = []"
    by (simp_all add: example_config_def)
  have "good (cs_gateway example_config)" "config_ok (cs_configs example_config)"
    by (simp_all add: e example_good config_ok_def)
  note f = config_router_safe [OF this prod.collapse [symmetric, of ?r]]
  have "cs_configs (snd ?r) \<noteq> cs_configs example_config"
    using example_config_run e(2) by (metis list.simps(8) list.distinct(1))
  with f have "config_ok (cs_configs (snd ?r))"
    "\<exists>m. find_membership ''o1'' ''own'' example_gateway = Some m \<and> route_grants example_gateway None m AI_MANAGE_CONFIG"
    unfolding e config_organization.simps by blast+
  then show ?thesis unfolding Let_def using example_config_run by blast
qed

subsection \<open>Reading a configuration, streaming\<close>

text \<open>A read without a body, as clients send it, is never answered with the configuration.\<close>

lemma bare_read_refused:
  assumes "good (cs_gateway s)"
  shows "fst (config_router uuid now n u tok (GetConfig o' None) s) \<noteq> Responded st x"
proof (cases "org_route [AI_MANAGE_CONFIG] (uuid o' \<and> None \<noteq> (None :: config_body option)) 200 (\<lambda>m. return ()) u tok o' (cs_gateway s)")
  case (Pair y g)
  show ?thesis
  proof (cases y)
    case (Responded st' v)
    from org_route_RespondedE [OF Pair [unfolded Responded] assms] show ?thesis by blast
  qed (use Pair in \<open>simp_all add: config_route_def\<close>)
qed

text \<open>Generation is refused for an organization that switched the AI off; streaming is not.\<close>

lemma stream_ignores_switch:
  assumes "getAIConfigByOrg o' s = Some c" "\<not> ac_aiEnabled c" "truthy (Some secret)"
  shows "internal_router env provide secret (Some secret) (Generate (Some o') q) s =
      Refused 403 ''AI disabled for this organization'' \<and>
    (\<forall>s'. internal_router env provide secret (Some secret) (GenerateStream q) s =
       internal_router env provide secret (Some secret) (GenerateStream q) s')"
  using assms by (simp add: verifyInternalToken_def generateController_def)

end
