(* ===== verification/AI_Controls.thy ===== *)
theory AI_Controls
  imports AI_Prompts Org_Service
begin

section \<open>Control of the AI automation and its dead letters\<close>

text \<open>
  The routes under /api/ai/automation (ai.automation.controller.js, ai.automation.validator.js),
  the queries of ai.automation.repo.js the automation itself does not use, the summary and the
  switch of ai.automation.service.js, and the dead-letter storage of the queue
  (queue/ai.automation.queue.js, the failure handler of queue/ai.automation.worker.js). The
  routes have no authentication: a request carries no user.
\<close>

subsection \<open>Requests\<close>

definition ticketIdParamSchema :: "string \<Rightarrow> string result" where
  "ticketIdParamSchema x = (if x = [] then Inl (JsError ''ZodError'') else Inr x)"

text \<open>The body of /toggle: the boolean \<open>aiActive\<close>, \<open>None\<close> when it is missing or no boolean.\<close>

definition toggleAISchema :: "bool option \<Rightarrow> bool option" where
  "toggleAISchema aiActive = aiActive"

record override_body =
  ob_action :: "string option"
  ob_assignToId :: "string option"
  ob_status :: "string option"

text \<open>The parsed body, with the status in upper case; \<open>None\<close> is a validation error.\<close>

definition overrideDecisionSchema :: "override_body \<Rightarrow> override_body option" where
  "overrideDecisionSchema b =
     (let status = map_option toUpperCase (ob_status b) in
      if (case ob_action b of None \<Rightarrow> True | Some a \<Rightarrow> a \<in> {''resolve'', ''assign''}) \<and>
         (case ob_assignToId b of None \<Rightarrow> True | Some i \<Rightarrow> i \<noteq> []) \<and>
         (case status of None \<Rightarrow> True | Some x \<Rightarrow> x \<in> set TICKET_STATUSES) \<and>
         (truthy (ob_action b) \<or> truthy status) \<and>
         (ob_action b \<noteq> Some ''assign'' \<or> truthy (ob_assignToId b))
      then Some (b\<lparr>ob_status := status\<rparr>) else None)"

definition validateTicketExists :: "ticket option \<Rightarrow> string \<Rightarrow> ticket result" where
  "validateTicketExists t ticketId =
     (case t of
        None \<Rightarrow> Inl (ApiError 404 (''Ticket '' @ ticketId @ '' not found'') ''TICKET_NOT_FOUND'')
      | Some t \<Rightarrow> Inr t)"

definition validateCommentExists :: "comment option \<Rightarrow> string \<Rightarrow> comment result" where
  "validateCommentExists c commentId =
     (case c of
        None \<Rightarrow> Inl (ApiError 404 (''Comment '' @ commentId @ '' not found'') ''COMMENT_NOT_FOUND'')
      | Some c \<Rightarrow> Inr c)"

subsection \<open>Handlers (ai.automation.controller.js)\<close>

record status_data =
  sd_ticketId :: string
  sd_aiActive :: bool
  sd_aiMessageCount :: int
  sd_status :: ticket_status
  sd_priority :: priority

definition getStatus :: "string \<Rightarrow> gateway \<Rightarrow> status_data outcome" where
  "getStatus ticketId s =
     (case ticketIdParamSchema ticketId of
        Inl e \<Rightarrow> Failed e
      | Inr ticketId \<Rightarrow>
          (case validateTicketExists (find_ticket ticketId s) ticketId of
             Inl e \<Rightarrow> Failed e
           | Inr t \<Rightarrow> Responded 200 \<lparr>sd_ticketId = t_id t, sd_aiActive = t_aiActive t,
               sd_aiMessageCount = t_aiMessageCount t, sd_status = t_status t, sd_priority = t_priority t\<rparr>))"

record decision_data =
  dd_ticketId :: string
  dd_action :: action_type
  dd_confidence :: confidence_data
  dd_rules :: decision_rules

definition decision_context :: "time \<Rightarrow> ticket \<Rightarrow> comment list \<Rightarrow> confidence_context" where
  "decision_context now t cs =
     \<lparr>responseLength = 250, hasProblematicKeywords = False, isFollowUp = length cs > 3,
      ticketPriority = t_priority t, ticketAge = now - t_createdAt t, commentCount = int (length cs),
      hasAttachments = False,
      descriptionLength = (case t_description t of None \<Rightarrow> 0 | Some d \<Rightarrow> int (length d))\<rparr>"

definition getDecision :: "time \<Rightarrow> string \<Rightarrow> gateway \<Rightarrow> decision_data outcome" where
  "getDecision now ticketId s =
     (case ticketIdParamSchema ticketId of
        Inl e \<Rightarrow> Failed e
      | Inr ticketId \<Rightarrow>
          (let found = getTicketWithComments ticketId s in
           case validateTicketExists (map_option fst found) ticketId of
             Inl e \<Rightarrow> Failed e
           | Inr t \<Rightarrow>
               (let cs = (case found of None \<Rightarrow> [] | Some (_, cs) \<Rightarrow> cs);
                    confidence = calculateConfidence (decision_context now t cs);
                    action = decideAction (cd_confidence confidence) (default_options (\<not> truthy (t_assignedToId t)))
                in Responded 200 \<lparr>dd_ticketId = t_id t, dd_action = aa_type action, dd_confidence = confidence,
                     dd_rules = DECISION_RULES\<rparr>)))"

definition toggleAI :: "string \<Rightarrow> bool option \<Rightarrow> gateway \<Rightarrow> (string \<times> bool) outcome \<times> gateway" where
  "toggleAI ticketId body s =
     (case toggleAISchema body of
        None \<Rightarrow> (Refused 400 ''Validation error'', s)
      | Some aiActive \<Rightarrow>
          (case ticketIdParamSchema ticketId of
             Inl e \<Rightarrow> (Failed e, s)
           | Inr ticketId \<Rightarrow>
               (case ai_updateTicket ticketId (no_update\<lparr>tu_aiActive := Some aiActive\<rparr>) s of
                  (Inl e, s1) \<Rightarrow> (Failed e, s1)
                | (Inr t, s1) \<Rightarrow> (Responded 200 (t_id t, t_aiActive t), s1))))"

definition override_update :: "override_body \<Rightarrow> ticket_ai_update" where
  "override_update b =
     (let u = (if ob_action b = Some ''resolve'' then no_update\<lparr>tu_status := Some RESOLVED, tu_aiActive := Some False\<rparr>
               else if ob_action b = Some ''assign'' \<and> truthy (ob_assignToId b)
               then no_update\<lparr>tu_assignedToId := ob_assignToId b, tu_status := Some IN_PROGRESS\<rparr>
               else if truthy (ob_status b) then no_update\<lparr>tu_status := status_of (the (ob_status b))\<rparr>
               else no_update)
      in u\<lparr>tu_aiActive := Some False\<rparr>)"

record override_data =
  od_ticketId :: string
  od_status :: ticket_status
  od_assignedToId :: "string option"
  od_aiActive :: bool

definition overrideDecision :: "string \<Rightarrow> override_body \<Rightarrow> gateway \<Rightarrow> override_data outcome \<times> gateway" where
  "overrideDecision ticketId body s =
     (case overrideDecisionSchema body of
        None \<Rightarrow> (Refused 400 ''Validation error'', s)
      | Some b \<Rightarrow>
          (case ticketIdParamSchema ticketId of
             Inl e \<Rightarrow> (Failed e, s)
           | Inr ticketId \<Rightarrow>
               (case validateTicketExists (find_ticket ticketId s) ticketId of
                  Inl e \<Rightarrow> (Failed e, s)
                | Inr _ \<Rightarrow>
                    (case ai_updateTicket ticketId (override_update b) s of
                       (Inl e, s1) \<Rightarrow> (Failed e, s1)
                     | (Inr t, s1) \<Rightarrow> (Responded 200 \<lparr>od_ticketId = t_id t, od_status = t_status t,
                         od_assignedToId = t_assignedToId t, od_aiActive = t_aiActive t\<rparr>, s1)))))"

subsection \<open>Further queries (ai.automation.repo.js)\<close>

definition getAIComments :: "string \<Rightarrow> nat \<Rightarrow> gateway \<Rightarrow> comment list" where
  "getAIComments ticketId limit s =
     take limit (sort_key (\<lambda>c. - c_createdAt c) (find_many (\<lambda>c. c_ticketId c = ticketId \<and> c_authorType c = AI) (comments s)))"

definition getAllAIComments :: "string \<Rightarrow> gateway \<Rightarrow> comment list" where
  "getAllAIComments ticketId s =
     sort_key c_createdAt (find_many (\<lambda>c. c_ticketId c = ticketId \<and> c_authorType c = AI) (comments s))"

definition getUserComments :: "string \<Rightarrow> gateway \<Rightarrow> comment list" where
  "getUserComments ticketId s =
     sort_key c_createdAt (find_many (\<lambda>c. c_ticketId c = ticketId \<and> c_authorType c = USER) (comments s))"

definition getComment :: "string \<Rightarrow> gateway \<Rightarrow> comment option" where
  "getComment commentId s = find_unique (\<lambda>c. c_id c = commentId) (comments s)"

definition getAgentWorkload :: "string \<Rightarrow> string \<Rightarrow> gateway \<Rightarrow> agent_workload option" where
  "getAgentWorkload userId organizationId s =
     find_unique (\<lambda>w. w_userId w = userId \<and> w_organizationId w = organizationId) (workloads s)"

definition getTicketAIMetadata :: "string \<Rightarrow> gateway \<Rightarrow> (string \<times> bool \<times> int \<times> ticket_status \<times> priority) option" where
  "getTicketAIMetadata ticketId s =
     map_option (\<lambda>t. (t_id t, t_aiActive t, t_aiMessageCount t, t_status t, t_priority t)) (find_ticket ticketId s)"

definition incrementAIMessageCount :: "string \<Rightarrow> gateway \<Rightarrow> ticket result \<times> gateway" where
  "incrementAIMessageCount ticketId s =
     (case find_ticket ticketId s of
        None \<Rightarrow> throw (PrismaError ''P2025'') s
      | Some t \<Rightarrow>
          return (t\<lparr>t_aiMessageCount := t_aiMessageCount t + 1\<rparr>)
            (s\<lparr>tickets := update_rows (\<lambda>r. t_id r = ticketId)
                 (\<lambda>r. r\<lparr>t_aiMessageCount := t_aiMessageCount r + 1\<rparr>) (tickets s)\<rparr>))"

text \<open>The updates run in one transaction: the first error undoes all of them.\<close>

fun update_all :: "(string \<times> ticket_ai_update) list \<Rightarrow> gateway \<Rightarrow> unit result \<times> gateway" where
  "update_all [] s = return () s"
| "update_all ((i, u) # us) s =
     (case ai_updateTicket i u s of (Inl e, s1) \<Rightarrow> throw e s1 | (Inr _, s1) \<Rightarrow> update_all us s1)"

definition bulkUpdateTickets :: "(string \<times> ticket_ai_update) list \<Rightarrow> gateway \<Rightarrow> nat result \<times> gateway" where
  "bulkUpdateTickets us s =
     (case update_all us s of (Inl e, _) \<Rightarrow> throw e s | (Inr _, s1) \<Rightarrow> return (length us) s1)"

definition getOrganizationMembers_ai :: "string \<Rightarrow> gateway \<Rightarrow> (membership \<times> user option) list" where
  "getOrganizationMembers_ai organizationId s =
     List.map (\<lambda>m. (m, find_user (m_userId m) s)) (find_many (\<lambda>m. m_organizationId m = organizationId) (memberships s))"

subsection \<open>Summary and switch (ai.automation.service.js)\<close>

definition generateTicketSummary ::
    "ai_env \<Rightarrow> (comment list \<Rightarrow> nat \<Rightarrow> (int \<times> (host_error + string \<times> ai_usage option)) option) \<Rightarrow> string \<Rightarrow>
     ai_state \<Rightarrow> string option result \<times> ai_state" where
  "generateTicketSummary env provider ticketId s =
     (case getTicketWithComments ticketId (ai_gateway s) of
        None \<Rightarrow> return None s
      | Some (t, cs) \<Rightarrow>
          (case fst (executeWithProviderGuards (ae_timeoutMs env) (ae_retries env) (ae_retryDelayMs env)
               (provider cs) ''AI provider timeout while generating summary'') of
             Inl e \<Rightarrow> throw (JsError (he_message e)) s
           | Inr (summary, aiUsage) \<Rightarrow>
               return (Some summary) (trackAIUsageTotals (ae_today env) ticketId (t_organizationId t) aiUsage s)))"

definition toggleAIForTicket :: "string \<Rightarrow> bool \<Rightarrow> gateway \<Rightarrow> unit result \<times> gateway" where
  "toggleAIForTicket ticketId active s =
     (case ai_updateTicket ticketId (no_update\<lparr>tu_aiActive := Some active\<rparr>) s of
        (Inl e, s1) \<Rightarrow> throw e s1
      | (Inr _, s1) \<Rightarrow> return () s1)"

subsection \<open>Dead letters\<close>

text \<open>
  A job of the queue library; \<open>q_attempts\<close> is \<open>job.opts.attempts\<close>. The generated database client
  has one property per model of the schema: the name with its first letter in lower case, as its
  documentation says and as \<open>db.read.aIConfig\<close> in the sources shows.
\<close>

record queue_job =
  q_id :: "string option"
  q_name :: string
  q_ticketId :: "string option"
  q_commentId :: "string option"
  q_attemptsMade :: int
  q_attempts :: "int option"
  q_failedReason :: "string option"

record ai_failure =
  af_id :: string
  af_queueName :: string
  af_jobName :: string
  af_jobId :: "string option"
  af_ticketId :: "string option"
  af_commentId :: "string option"
  af_attemptsMade :: int
  af_retryLimit :: int
  af_retryable :: bool
  af_failureReason :: string
  af_stacktrace :: "string option"
  af_failedAt :: time
  af_createdAt :: time

definition PRISMA_MODELS :: "string list" where
  "PRISMA_MODELS = [''OrgRole'', ''Permission'', ''RolePermission'', ''User'', ''RefreshToken'', ''TokenBlacklist'',
     ''Organization'', ''Membership'', ''Ticket'', ''TicketComment'', ''TicketAttachment'', ''Tag'', ''TicketTag'',
     ''TicketActivityLog'', ''AgentWorkload'', ''Notification'', ''NotificationPreference'', ''AIDecisionLog'',
     ''AIUsage'', ''AIFeedback'', ''AIConfig'', ''TicketSummary'', ''AIProcessingLock'', ''AIProcessingFailure'',
     ''EventStore'', ''TicketSubmissionConfig'', ''ScrapedPage'']"

definition client_property :: "string \<Rightarrow> string" where
  "client_property model = (case model of [] \<Rightarrow> [] | c # cs \<Rightarrow> lower_char c # cs)"

definition schema_client :: "string \<Rightarrow> bool" where
  "schema_client k = (k \<in> set (List.map client_property PRISMA_MODELS))"

record dlq_env =
  qe_client :: "string \<Rightarrow> bool"
  qe_queueName :: string
  qe_retryLimit :: int
  qe_maxEntries :: int
  qe_now :: time
  qe_newId :: string
  qe_redis :: bool

record dlq_state =
  ds_failures :: "ai_failure list"
  ds_failedJobs :: "queue_job list"

definition undefined_property :: "string \<Rightarrow> js_error" where
  "undefined_property member = JsTypeError (''Cannot read properties of undefined (reading '' @ [CHR 0x27] @ member @ [CHR 0x27] @ '')'')"

text \<open>\<open>orderBy: [failedAt desc, createdAt desc]\<close>\<close>

definition newest_first :: "ai_failure list \<Rightarrow> ai_failure list" where
  "newest_first fs = sort_key (\<lambda>f. - af_failedAt f) (sort_key (\<lambda>f. - af_createdAt f) fs)"

definition non_empty :: "string option \<Rightarrow> string option" where
  "non_empty x = (if truthy x then x else None)"

definition createAIProcessingFailure :: "dlq_env \<Rightarrow> ai_failure \<Rightarrow> dlq_state \<Rightarrow> ai_failure result \<times> dlq_state" where
  "createAIProcessingFailure env d s =
     (if \<not> qe_client env ''aiProcessingFailure'' then throw (undefined_property ''create'') s
      else
        let failure = d\<lparr>af_id := qe_newId env, af_jobId := non_empty (af_jobId d), af_ticketId := non_empty (af_ticketId d),
              af_commentId := non_empty (af_commentId d), af_stacktrace := non_empty (af_stacktrace d),
              af_createdAt := qe_now env\<rparr>;
            fs = ds_failures s @ [failure];
            stale = (if qe_maxEntries env > 0
              then List.map af_id (drop (nat (qe_maxEntries env)) (newest_first fs)) else [])
        in return failure (s\<lparr>ds_failures := delete_rows (\<lambda>f. af_id f \<in> set stale) fs\<rparr>))"

text \<open>An error is its message and its stack.\<close>

definition storeFailedAIJob :: "dlq_env \<Rightarrow> queue_job option \<Rightarrow> (string \<times> string) option \<Rightarrow> dlq_state \<Rightarrow> bool result \<times> dlq_state" where
  "storeFailedAIJob env job error s =
     (case job of
        None \<Rightarrow> return False s
      | Some j \<Rightarrow>
          (let message = (case error of None \<Rightarrow> [] | Some (m, _) \<Rightarrow> m);
               stack = (case error of None \<Rightarrow> [] | Some (_, st) \<Rightarrow> st);
               d = \<lparr>af_id = [], af_queueName = qe_queueName env, af_jobName = q_name j, af_jobId = q_id j,
                    af_ticketId = q_ticketId j, af_commentId = q_commentId j, af_attemptsMade = q_attemptsMade j,
                    af_retryLimit = (case q_attempts j of None \<Rightarrow> qe_retryLimit env | Some n \<Rightarrow> n),
                    af_retryable = True,
                    af_failureReason = (if message \<noteq> [] then message
                      else if truthy (q_failedReason j) then the (q_failedReason j) else ''Unknown failure''),
                    af_stacktrace = (if stack \<noteq> [] then Some stack else None),
                    af_failedAt = qe_now env, af_createdAt = qe_now env\<rparr>
           in case createAIProcessingFailure env d s of
                (Inl e, s1) \<Rightarrow> throw e s1
              | (Inr _, s1) \<Rightarrow> return True s1))"

text \<open>The listener of the event \<open>failed\<close>; an error of the storage is logged.\<close>

definition onJobFailed :: "dlq_env \<Rightarrow> queue_job option \<Rightarrow> (string \<times> string) option \<Rightarrow> dlq_state \<Rightarrow> dlq_state" where
  "onJobFailed env job error s =
     (case job of
        None \<Rightarrow> s
      | Some j \<Rightarrow>
          (let retryLimit = (case q_attempts j of None \<Rightarrow> 0 | Some n \<Rightarrow> n) in
           if q_attemptsMade j \<ge> retryLimit then snd (storeFailedAIJob env job error s) else s))"

definition normalized_limit :: "int \<Rightarrow> nat" where
  "normalized_limit limit = nat (max 1 (min limit 100))"

definition getAIProcessingFailures :: "dlq_env \<Rightarrow> nat \<Rightarrow> dlq_state \<Rightarrow> ai_failure list result" where
  "getAIProcessingFailures env limit s =
     (if \<not> qe_client env ''aiProcessingFailure'' then Inl (undefined_property ''findMany'')
      else Inr (take limit (newest_first (ds_failures s))))"

definition getFailedAIJobs :: "dlq_env \<Rightarrow> int \<Rightarrow> dlq_state \<Rightarrow> queue_job list" where
  "getFailedAIJobs env limit s =
     (if \<not> qe_redis env then [] else take (normalized_limit limit) (ds_failedJobs s))"

record inspection =
  in_queueName :: string
  in_retryLimit :: int
  in_dlqEntryCount :: nat
  in_failedJobCount :: nat
  in_dlqEntries :: "ai_failure list"
  in_failedJobs :: "queue_job list"

definition inspectAIAutomationDLQ :: "dlq_env \<Rightarrow> int \<Rightarrow> dlq_state \<Rightarrow> inspection result" where
  "inspectAIAutomationDLQ env limit s =
     (case getAIProcessingFailures env (normalized_limit limit) s of
        Inl e \<Rightarrow> Inl e
      | Inr fs \<Rightarrow>
          (let jobs = getFailedAIJobs env limit s in
           Inr \<lparr>in_queueName = qe_queueName env, in_retryLimit = qe_retryLimit env, in_dlqEntryCount = length fs,
             in_failedJobCount = length jobs, in_dlqEntries = fs, in_failedJobs = jobs\<rparr>))"

definition getDLQInspection :: "dlq_env \<Rightarrow> string option \<Rightarrow> dlq_state \<Rightarrow> inspection outcome" where
  "getDLQInspection env limitText s =
     (let limit = (case limitText of None \<Rightarrow> None | Some x \<Rightarrow> js_parseInt x) in
      case inspectAIAutomationDLQ env (case limit of None \<Rightarrow> 50 | Some n \<Rightarrow> n) s of
        Inl e \<Rightarrow> Failed e
      | Inr x \<Rightarrow> Responded 200 x)"

end
