(* ===== verification/AI_Controls_Correct.thy ===== *)
theory AI_Controls_Correct
  imports AI_Controls Tenancy AI_Correct "HOL-Library.Multiset"
begin

section \<open>What the controls of the automation allow\<close>

text \<open>
  The override route serves requests without a user and can assign a ticket to somebody outside
  its organization; the dead letters are kept within their limit by a client that has their
  table, and are never stored by the client of the schema; the placeholder of the provider can
  resolve a ticket.
\<close>

subsection \<open>Overriding a decision\<close>

lemma ai_updateTicket_ok:
  assumes "find_ticket i s = Some t" "case tu_assignedToId u of None \<Rightarrow> True | Some a \<Rightarrow> find_user a s \<noteq> None"
  shows "ai_updateTicket i u s = (Inr (apply_ai_update u t),
    s\<lparr>tickets := update_rows (\<lambda>r. t_id r = i) (apply_ai_update u) (tickets s)\<rparr>)"
  using assms by (auto simp: ai_updateTicket_def split: option.splits)

lemma toUpperCase_status: "status_of (toUpperCase x) = Some st \<Longrightarrow> toUpperCase x \<in> set TICKET_STATUSES"
  using status_of_None_iff [of "toUpperCase x"] by auto

text \<open>The accepted bodies, and what they write.\<close>

lemma overrideDecision_spec:
  assumes "overrideDecisionSchema body = Some b" "i \<noteq> []" "find_ticket i s = Some t"
    "case tu_assignedToId (override_update b) of None \<Rightarrow> True | Some a \<Rightarrow> find_user a s \<noteq> None"
  shows "overrideDecision i body s =
    (Responded 200 (let t' = apply_ai_update (override_update b) t in
       \<lparr>od_ticketId = t_id t', od_status = t_status t', od_assignedToId = t_assignedToId t', od_aiActive = t_aiActive t'\<rparr>),
     s\<lparr>tickets := update_rows (\<lambda>r. t_id r = i) (apply_ai_update (override_update b)) (tickets s)\<rparr>)"
  using assms ai_updateTicket_ok [OF assms(3,4)]
  by (simp add: overrideDecision_def ticketIdParamSchema_def validateTicketExists_def Let_def)

lemma assign_body_ok: "a \<noteq> [] \<Longrightarrow>
    overrideDecisionSchema \<lparr>ob_action = Some ''assign'', ob_assignToId = Some a, ob_status = None\<rparr> =
      Some \<lparr>ob_action = Some ''assign'', ob_assignToId = Some a, ob_status = None\<rparr>"
  by (simp add: overrideDecisionSchema_def Let_def)

text \<open>
  C3. The override route has no owner. Its requests carry no user and nothing is asked of the
  sender: for every ticket and every existing user who is no member of its organization, one
  request answers 200, hands the ticket to that user and switches the AI off for it, and the state
  it leaves no longer satisfies the tenancy invariant, which every request of the ticket router
  keeps.
\<close>

theorem override_breaks_tenancy:
  assumes "find_ticket i s = Some t" "i \<noteq> []" "a \<noteq> []" "find_user a s \<noteq> None"
    "\<not> is_member s (t_organizationId t) a"
  shows "let r = overrideDecision i \<lparr>ob_action = Some ''assign'', ob_assignToId = Some a, ob_status = None\<rparr> s in
    fst r = Responded 200 \<lparr>od_ticketId = i, od_status = IN_PROGRESS, od_assignedToId = Some a, od_aiActive = False\<rparr> \<and>
    \<not> tenant_ok (snd r)"
proof -
  let ?b = "\<lparr>ob_action = Some ''assign'', ob_assignToId = Some a, ob_status = None\<rparr>"
  let ?u = "override_update ?b"
  let ?s = "s\<lparr>tickets := update_rows (\<lambda>r. t_id r = i) (apply_ai_update ?u) (tickets s)\<rparr>"
  have u: "?u = no_update\<lparr>tu_assignedToId := Some a, tu_status := Some IN_PROGRESS, tu_aiActive := Some False\<rparr>"
    using assms(3) by (simp add: override_update_def Let_def)
  have t: "t \<in> set (tickets s)" "t_id t = i" using find_unique_SomeD [OF assms(1) [unfolded find_ticket_def]] by simp_all
  have r: "overrideDecision i ?b s = (Responded 200 \<lparr>od_ticketId = i, od_status = IN_PROGRESS,
      od_assignedToId = Some a, od_aiActive = False\<rparr>, ?s)"
    using overrideDecision_spec [OF assign_body_ok [OF assms(3)] assms(2,1)] assms(4) t(2)
    by (simp add: u no_update_def apply_ai_update_def the_default_def Let_def)
  have "apply_ai_update ?u t \<in> set (tickets ?s)" using t by (auto simp: set_update_rows)
  moreover have "\<not> people_ok ?s (apply_ai_update ?u t)"
    using assms(5) is_member_cong [of ?s s]
    by (simp add: people_ok_def u no_update_def apply_ai_update_def)
  ultimately have "\<not> tenant_ok ?s" using tenant_okD(4) by blast
  then show ?thesis using r by simp
qed

definition example_outsider :: gateway where
  "example_outsider = example_gateway\<lparr>users := users example_gateway @ [example_user ''out'']\<rparr>"

theorem override_breaks_tenancy_witness:
  "let r = overrideDecision ''t1'' \<lparr>ob_action = Some ''assign'', ob_assignToId = Some ''out'', ob_status = None\<rparr>
       example_outsider
   in fst r = Responded 200 \<lparr>od_ticketId = ''t1'', od_status = IN_PROGRESS, od_assignedToId = Some ''out'',
        od_aiActive = False\<rparr> \<and> \<not> tenant_ok (snd r)"
proof (rule override_breaks_tenancy)
  show "find_ticket ''t1'' example_outsider = Some example_ticket"
    by (simp add: example_outsider_def example_gateway_def find_ticket_def example_ticket_def)
  show "find_user ''out'' example_outsider \<noteq> None"
    by (simp add: example_outsider_def example_gateway_def find_user_def example_user_def)
  show "\<not> is_member example_outsider (t_organizationId example_ticket) ''out''"
    by (simp add: example_outsider_def is_member_def find_membership_def example_membership_def)
qed simp_all

subsection \<open>Dead letters\<close>

lemma newest_first_mset [simp]: "mset (newest_first fs) = mset fs"
  by (simp add: newest_first_def)

lemma newest_first_sorted: "sorted (List.map (\<lambda>f. - af_failedAt f) (newest_first fs))"
  by (simp add: newest_first_def)

text \<open>Deleting by key what stands behind the first \<open>n\<close> rows of a permutation leaves those rows.\<close>

lemma delete_behind:
  assumes "distinct (List.map key ys)" "mset ys = mset xs"
  shows "mset (delete_rows (\<lambda>x. key x \<in> set (List.map key (drop n ys))) xs) = mset (take n ys)"
proof -
  let ?p = "\<lambda>x. key x \<notin> set (List.map key (drop n ys))"
  have "distinct (List.map key (take n ys) @ List.map key (drop n ys))"
    using assms(1) by (metis append_take_drop_id map_append)
  then have t: "\<forall>x\<in>set (take n ys). ?p x" by auto
  have "mset (List.filter ?p xs) = mset (List.filter ?p ys)"
    using assms(2) by (simp add: mset_filter)
  also have "List.filter ?p ys = List.filter ?p (take n ys) @ List.filter ?p (drop n ys)"
    by (metis append_take_drop_id filter_append)
  also have "List.filter ?p (take n ys) = take n ys" using t by (simp add: filter_id_conv)
  also have "List.filter ?p (drop n ys) = []" by (auto simp: filter_empty_conv)
  finally show ?thesis by (simp add: delete_rows_def)
qed

lemma sorted_split:
  assumes "sorted (List.map k ys)" "x \<in> set (take n ys)" "y \<in> set (drop n ys)"
  shows "k x \<le> k y"
proof -
  have "sorted (List.map k (take n ys) @ List.map k (drop n ys))"
    using assms(1) by (metis append_take_drop_id map_append)
  then show ?thesis using assms(2,3) by (auto simp: sorted_append)
qed

lemma storeFailedAIJob_run:
  assumes "qe_client env ''aiProcessingFailure''" "0 < qe_maxEntries env"
    "storeFailedAIJob env (Some j) err s = (r, s')"
  obtains f where "r = Inr True" "af_id f = qe_newId env" "af_jobName f = q_name j"
    "ds_failures s' = delete_rows (\<lambda>x. af_id x \<in> set (List.map af_id
       (drop (nat (qe_maxEntries env)) (newest_first (ds_failures s @ [f]))))) (ds_failures s @ [f])"
proof -
  have create: "\<exists>f. createAIProcessingFailure env d s = return f (s\<lparr>ds_failures := delete_rows (\<lambda>x. af_id x \<in> set (List.map af_id
       (drop (nat (qe_maxEntries env)) (newest_first (ds_failures s @ [f]))))) (ds_failures s @ [f])\<rparr>) \<and>
      af_id f = qe_newId env \<and> af_jobName f = af_jobName d" for d
    using assms(1,2) by (simp add: createAIProcessingFailure_def Let_def)
  define d where "d = (\<lambda>reason stack. \<lparr>af_id = [], af_queueName = qe_queueName env, af_jobName = q_name j, af_jobId = q_id j,
                    af_ticketId = q_ticketId j, af_commentId = q_commentId j, af_attemptsMade = q_attemptsMade j,
                    af_retryLimit = (case q_attempts j of None \<Rightarrow> qe_retryLimit env | Some n \<Rightarrow> n),
                    af_retryable = True, af_failureReason = reason,
                    af_stacktrace = stack,
                    af_failedAt = qe_now env, af_createdAt = qe_now env\<rparr>)"
  obtain reason stack where st: "storeFailedAIJob env (Some j) err s = (case createAIProcessingFailure env (d reason stack) s of
      (Inl e, s1) \<Rightarrow> throw e s1 | (Inr _, s1) \<Rightarrow> return True s1)"
    unfolding storeFailedAIJob_def option.case(2) Let_def d_def by blast
  show thesis using create [of "d reason stack"] assms(3) that unfolding st by (auto simp: d_def)
qed

definition dlq_ok :: "dlq_env \<Rightarrow> dlq_state \<Rightarrow> bool" where
  "dlq_ok env s = (distinct (List.map af_id (ds_failures s)) \<and> qe_newId env \<notin> set (List.map af_id (ds_failures s)))"

text \<open>
  The dead letters stay within their limit, and it is the oldest that go. If the client has the
  table, its ids are distinct and the new id is fresh, storing an exhausted job succeeds and leaves
  at most \<open>dlqMaxEntries\<close> rows, all of them old rows or the new one, and every row that was removed
  is at least as old as every row that was kept.
\<close>

theorem dlq_retention:
  assumes "qe_client env ''aiProcessingFailure''" "0 < qe_maxEntries env" "dlq_ok env s"
    "storeFailedAIJob env (Some j) err s = (r, s')"
  shows "r = Inr True \<and> int (length (ds_failures s')) \<le> qe_maxEntries env \<and>
    (\<exists>f. af_jobName f = q_name j \<and> set (ds_failures s') \<subseteq> insert f (set (ds_failures s)) \<and>
      (\<forall>old\<in>insert f (set (ds_failures s)) - set (ds_failures s'). \<forall>kept\<in>set (ds_failures s').
        af_failedAt old \<le> af_failedAt kept))"
proof -
  obtain f where f: "r = Inr True" "af_id f = qe_newId env" "af_jobName f = q_name j"
    "ds_failures s' = delete_rows (\<lambda>x. af_id x \<in> set (List.map af_id
       (drop (nat (qe_maxEntries env)) (newest_first (ds_failures s @ [f]))))) (ds_failures s @ [f])"
    by (rule storeFailedAIJob_run [OF assms(1,2,4)])
  let ?fs = "ds_failures s @ [f]" and ?n = "nat (qe_maxEntries env)"
  let ?ys = "newest_first ?fs"
  have "mset (List.map af_id ?ys) = mset (List.map af_id ?fs)" by simp
  moreover have "distinct (List.map af_id ?fs)" using assms(3) f(2) by (simp add: dlq_ok_def)
  ultimately have d: "distinct (List.map af_id ?ys)" by (metis mset_eq_imp_distinct_iff)
  have m: "mset (ds_failures s') = mset (take ?n ?ys)" unfolding f(4) by (rule delete_behind [OF d]) simp
  have "length (ds_failures s') \<le> ?n" using mset_eq_length [OF m] by simp
  moreover have kept: "set (ds_failures s') = set (take ?n ?ys)" by (rule mset_eq_setD [OF m])
  moreover have all: "set ?ys = insert f (set (ds_failures s))" using mset_eq_setD [OF newest_first_mset, of ?fs] by simp
  moreover have "af_failedAt old \<le> af_failedAt new"
    if "old \<in> insert f (set (ds_failures s)) - set (ds_failures s')" "new \<in> set (ds_failures s')" for old new
  proof -
    have "set ?ys = set (take ?n ?ys) \<union> set (drop ?n ?ys)" by (metis append_take_drop_id set_append)
    then have "old \<in> set (drop ?n ?ys)" using that(1) kept all by blast
    then show ?thesis using sorted_split [OF newest_first_sorted, of new ?n ?fs old] that(2) kept by simp
  qed
  ultimately show ?thesis using f(1,3) set_take_subset [of ?n ?ys] assms(2) by (intro conjI exI [of _ f]) auto
qed

definition example_job :: queue_job where
  "example_job = \<lparr>q_id = Some ''t1:c1'', q_name = ''process-ticket-comment'', q_ticketId = Some ''t1'',
     q_commentId = Some ''c1'', q_attemptsMade = 3, q_attempts = Some 3, q_failedReason = None\<rparr>"

definition example_failure :: "string \<Rightarrow> time \<Rightarrow> ai_failure" where
  "example_failure i t = \<lparr>af_id = i, af_queueName = ''ai-automation'', af_jobName = ''process-ticket-comment'',
     af_jobId = None, af_ticketId = None, af_commentId = None, af_attemptsMade = 3, af_retryLimit = 3,
     af_retryable = True, af_failureReason = ''timeout'', af_stacktrace = None, af_failedAt = t, af_createdAt = t\<rparr>"

definition example_dlq_env :: dlq_env where
  "example_dlq_env = \<lparr>qe_client = (\<lambda>_. True), qe_queueName = ''ai-automation'', qe_retryLimit = 3,
     qe_maxEntries = 2, qe_now = 9, qe_newId = ''f3'', qe_redis = True\<rparr>"

definition example_dlq :: dlq_state where
  "example_dlq = \<lparr>ds_failures = [example_failure ''f1'' 1, example_failure ''f2'' 2], ds_failedJobs = [example_job]\<rparr>"

theorem dlq_retention_witness:
  "fst (storeFailedAIJob example_dlq_env (Some example_job) None example_dlq) = Inr True \<and>
   length (ds_failures (snd (storeFailedAIJob example_dlq_env (Some example_job) None example_dlq))) \<le> 2"
  using dlq_retention [of example_dlq_env example_dlq example_job None
      "fst (storeFailedAIJob example_dlq_env (Some example_job) None example_dlq)"
      "snd (storeFailedAIJob example_dlq_env (Some example_job) None example_dlq)"]
  by (simp add: example_dlq_env_def dlq_ok_def example_dlq_def example_failure_def)

lemma dlq_example:
  "List.map af_id (ds_failures (onJobFailed example_dlq_env (Some example_job) None example_dlq)) = [''f2'', ''f3'']"
  by code_simp

text \<open>The events \<open>failed\<close> of the worker, one after the other.\<close>

definition fail_jobs :: "(dlq_env \<times> queue_job option \<times> (string \<times> string) option) list \<Rightarrow> dlq_state \<Rightarrow> dlq_state" where
  "fail_jobs es s = fold (\<lambda>(env, job, error) s. onJobFailed env job error s) es s"

lemma no_such_table: "\<not> schema_client ''aiProcessingFailure''"
  by code_simp

lemma onJobFailed_lost: "qe_client env = schema_client \<Longrightarrow> onJobFailed env job error s = s"
  by (cases job) (auto simp: onJobFailed_def storeFailedAIJob_def createAIProcessingFailure_def no_such_table Let_def)

text \<open>
  C24. An exhausted job is lost. The client generated from the schema names the table
  \<open>aIProcessingFailure\<close>, the sources read \<open>aiProcessingFailure\<close>: whatever jobs fail, nothing is
  stored, and the inspection of the dead letters ends in an internal error whatever its limit.
\<close>

theorem failed_jobs_lost:
  assumes "list_all (\<lambda>(env, _). qe_client env = schema_client) es" "qe_client env = schema_client"
  shows "fail_jobs es s = s \<and>
    getDLQInspection env limit (fail_jobs es s) =
      Failed (undefined_property ''findMany'')"
proof -
  have "fail_jobs es s = s"
    using assms(1) by (induction es arbitrary: s) (auto simp: fail_jobs_def onJobFailed_lost)
  then show ?thesis using assms(2)
    by (simp add: getDLQInspection_def inspectAIAutomationDLQ_def getAIProcessingFailures_def no_such_table)
qed

theorem failed_jobs_lost_witness:
  "fail_jobs [(example_dlq_env\<lparr>qe_client := schema_client\<rparr>, Some example_job, Some (''timeout'', ''at run''))] example_dlq =
     example_dlq \<and>
   getDLQInspection (example_dlq_env\<lparr>qe_client := schema_client\<rparr>) (Some ''10'')
     (fail_jobs [(example_dlq_env\<lparr>qe_client := schema_client\<rparr>, Some example_job, Some (''timeout'', ''at run''))] example_dlq) =
     Failed (undefined_property ''findMany'')"
  by (rule failed_jobs_lost) simp_all

subsection \<open>The placeholder of the provider\<close>

text \<open>
  With the provider of the repository a young ticket of low priority with one comment and a long
  description is marked as resolved, its answer being the placeholder.
\<close>

definition placeholder_env :: ai_env where
  "placeholder_env = example_ai_env\<lparr>ae_provider := repo_provider
     \<lparr>pc_model = ''gpt'', pc_promptCostPer1kTokens = 15 / 100000, pc_completionCostPer1kTokens = 6 / 10000\<rparr> ''request'',
     ae_time := 60000\<rparr>"

definition young_ticket :: ai_state where
  "young_ticket = example_ai\<lparr>ai_gateway := example_gateway\<lparr>
     tickets := [example_ticket\<lparr>t_priority := LOW, t_description := Some (replicate 201 (CHR ''x''))\<rparr>],
     comments := [hd example_comments]\<rparr>\<rparr>"

lemma placeholder_resolves:
  "List.map t_status (tickets (ai_gateway (snd (handleCommentAdded placeholder_env ''t1'' (Some ''c1'') young_ticket)))) = [RESOLVED]"
  by code_simp

end
