(* ===== verification/AI_Helpers.thy ===== *)
theory AI_Helpers
  imports AI_Automation
begin

section \<open>AI automation: the helpers and constants beside the service\<close>

text \<open>
  The rest of ai.automation.utils.js and ai.automation.constants.js: the metadata of a comment, the
  internal note, the analysis of a ticket and the confidence context built from it, and the tables
  of constants. The service computes its own context (\<open>response_context\<close>); the last part compares
  the two, and the tables with what the decision engine does. Confidence factors are in hundredths,
  as in the engine. The repository's comments come without attachments; a comment of the analysis
  is a comment with the attachments it may carry.
\<close>

subsection \<open>Constants (ai.automation.constants.js)\<close>

definition MEDIUM_AUTO_ASSIGN :: bool where
  "MEDIUM_AUTO_ASSIGN = False"

definition REVIEW_KEYWORDS :: "string list" where
  "REVIEW_KEYWORDS = [''error'', ''failed'', ''critical'', ''issue'', ''problem'']"

definition MIN_RESPONSE_LENGTH :: int where "MIN_RESPONSE_LENGTH = 50"
definition MAX_RESPONSE_LENGTH :: int where "MAX_RESPONSE_LENGTH = 3000"
definition MIN_RESPONSE_WORD_COUNT :: int where "MIN_RESPONSE_WORD_COUNT = 10"

definition OPTIMAL_RESPONSE_LENGTH :: "int \<times> int" where
  "OPTIMAL_RESPONSE_LENGTH = (100, 500)"

definition RECENT_TICKET_MS :: int where "RECENT_TICKET_MS = 3600000"
definition AGED_TICKET_MS :: int where "AGED_TICKET_MS = 86400000"

definition CONFIDENCE_FACTORS :: "(string \<times> int) list" where
  "CONFIDENCE_FACTORS =
     [(''GOOD_LENGTH'', 15), (''LONG_LENGTH'', 5), (''SHORT_LENGTH'', - 10),
      (''HAS_PROBLEM_KEYWORDS'', - 20), (''NO_PROBLEM_KEYWORDS'', 0),
      (''IS_FOLLOW_UP'', - 10), (''FIRST_RESPONSE'', 5),
      (''LOW_PRIORITY'', 10), (''MEDIUM_PRIORITY'', 0), (''HIGH_PRIORITY'', - 10), (''URGENT_PRIORITY'', - 20),
      (''RECENT_TICKET'', 10), (''AGED_TICKET'', - 10),
      (''RICH_CONTEXT'', 5), (''SINGLE_ISSUE'', 8), (''WITH_ATTACHMENTS'', - 5), (''WITHOUT_ATTACHMENTS'', 3),
      (''GOOD_DESCRIPTION'', 8)]"

definition ACTION_TYPES :: "(string \<times> action_type) list" where
  "ACTION_TYPES = [(''AUTO_RESOLVE'', auto_resolve), (''SMART_ASSIGN'', smart_assign), (''SUGGEST'', suggest),
     (''STORE_AND_WAIT'', store_and_wait)]"

definition RESPONSE_MARKERS :: "(string \<times> string) list" where
  "RESPONSE_MARKERS =
     [(''AUTO_RESOLVE'', [CHR 0xE2, CHR 0x9C, CHR 0x85] @ '' **AI Resolution**:''),
      (''SUGGEST'', [CHR 0xF0, CHR 0x9F, CHR 0x92, CHR 0xA1] @ '' **AI Suggestion**:''),
      (''SMART_ASSIGN'', [CHR 0xF0, CHR 0x9F, CHR 0x91, CHR 0xA4] @ '' **AI Recommendation**:''),
      (''INTERNAL_NOTE'', ''*[Internal AI Note]*:'')]"

definition AI_TICKET_STATUSES :: "string list" where
  "AI_TICKET_STATUSES = [''NEW'', ''OPEN'', ''IN_PROGRESS'', ''AWAITING_FEEDBACK'', ''RESOLVED'', ''CLOSED'']"

definition STATUS_TRANSITIONS :: "(action_type \<times> string) list" where
  "STATUS_TRANSITIONS = [(auto_resolve, ''RESOLVED''), (smart_assign, ''IN_PROGRESS''), (suggest, ''AWAITING_FEEDBACK'')]"

definition GUARD_REASONS :: "string list" where
  "GUARD_REASONS = [''AI_DISABLED'', ''MAX_MESSAGES_REACHED'', ''COOLDOWN_ACTIVE'', ''ALREADY_IN_PROGRESS'']"

definition DECISION_REASONS :: "string list" where
  "DECISION_REASONS = [''PASSED_GUARDS'', ''MAX_RESPONSES_REACHED'', ''AI_DISABLED'', ''ALREADY_IN_PROGRESS'']"

subsection \<open>Metadata and notes\<close>

record ai_metadata =
  am_confidence :: rat
  am_action :: string
  am_reasoning :: string
  am_recommendation :: string
  am_aiUsage :: "ai_usage option"
  am_timestamp :: time

text \<open>An action without a type and data without a confidence are \<open>None\<close>.\<close>

definition text_or :: "string \<Rightarrow> string option \<Rightarrow> string" where
  "text_or d x = (if truthy x then the x else d)"

definition createAIMetadata ::
    "rat option \<Rightarrow> string option \<Rightarrow> string option \<Rightarrow> string option \<Rightarrow> ai_usage option \<Rightarrow> time \<Rightarrow> ai_metadata" where
  "createAIMetadata confidence recommendation actionType reasoning aiUsage now =
     \<lparr>am_confidence = the_default 0 confidence, am_action = text_or ''unknown'' actionType,
      am_reasoning = text_or [] reasoning, am_recommendation = text_or ''unknown'' recommendation,
      am_aiUsage = aiUsage, am_timestamp = now\<rparr>"

definition createInternalAINote :: "string \<Rightarrow> string \<Rightarrow> time \<Rightarrow> string \<Rightarrow> gateway \<Rightarrow> comment result \<times> gateway" where
  "createInternalAINote ticketId note now newId s =
     ai_createComment ticketId (''*[Internal AI Note]: '' @ note @ ''*'') True now newId s"

text \<open>What \<open>logActionDecision\<close> writes: ticket, action, confidence, reasoning.\<close>

definition logActionDecision :: "'a ticket_scheme \<Rightarrow> ai_action \<Rightarrow> confidence_data \<Rightarrow> string \<times> action_type \<times> rat \<times> string" where
  "logActionDecision t action confidenceData =
     (t_id t, aa_type action, cd_confidence confidenceData, aa_reasoning action)"

definition shouldRespondToComment :: "'a ticket_scheme \<Rightarrow> comment list \<Rightarrow> bool \<times> string \<times> int" where
  "shouldRespondToComment t cs = (True, ''PASSED_GUARDS'', int (length (ai_comments cs)))"

subsection \<open>Analysis of a ticket\<close>

type_synonym comment_with_files = "comment \<times> string list option"

definition hasTicketAttachments :: "comment_with_files list \<Rightarrow> bool" where
  "hasTicketAttachments cs = list_ex (\<lambda>c. case snd c of None \<Rightarrow> False | Some files \<Rightarrow> length files > 0) cs"

definition isCommentFromAuthor :: "comment option \<Rightarrow> author_type \<Rightarrow> bool" where
  "isCommentFromAuthor c a = (map_option c_authorType c = Some a)"

definition isUserComment :: "comment option \<Rightarrow> bool" where
  "isUserComment c = isCommentFromAuthor c USER"

definition isAIComment :: "comment option \<Rightarrow> bool" where
  "isAIComment c = isCommentFromAuthor c AI"

record ticket_analysis =
  an_aiResponseCount :: int
  an_lastAIComment :: "comment option"
  an_lastUserComment :: "comment option"
  an_isFollowUp :: bool
  an_hasAttachments :: bool
  an_ticketAge :: int
  an_isRecent :: bool
  an_isAged :: bool
  an_totalComments :: int
  an_userCommentCount :: int
  an_aiCommentCount :: int

text \<open>The comments of the ticket, \<open>None\<close> when the query has not included them.\<close>

definition analyzeTicket :: "time \<Rightarrow> 'a ticket_scheme \<Rightarrow> comment_with_files list option \<Rightarrow> ticket_analysis" where
  "analyzeTicket now t ticketComments =
     (let cf = the_default [] ticketComments; cs = List.map fst cf; created = Some (t_createdAt t) in
      \<lparr>an_aiResponseCount = countAIResponses cs, an_lastAIComment = getLastAIComment cs,
       an_lastUserComment = getLastUserComment cs, an_isFollowUp = isFollowUpTicket cs,
       an_hasAttachments = hasTicketAttachments cf, an_ticketAge = calculateTicketAge now created,
       an_isRecent = isRecentTicket now created, an_isAged = isAgedTicket now created,
       an_totalComments = int (length cs),
       an_userCommentCount = int (length (List.filter (\<lambda>c. c_authorType c = USER) cs)),
       an_aiCommentCount = countAIResponses cs\<rparr>)"

text \<open>The context of the helpers: that of the engine, with the indicators and the quality of the text.\<close>

record full_context = confidence_context +
  fc_uncertaintyIndicators :: "string list"
  fc_responseQuality :: response_quality

definition buildConfidenceContext :: "time \<Rightarrow> 'a ticket_scheme \<Rightarrow> comment_with_files list option \<Rightarrow> string \<Rightarrow> full_context" where
  "buildConfidenceContext now t ticketComments response =
     (let analysis = analyzeTicket now t ticketComments in
      \<lparr>responseLength = int (length response), hasProblematicKeywords = checkProblematicKeywords response,
       isFollowUp = an_isFollowUp analysis, ticketPriority = t_priority t, ticketAge = an_ticketAge analysis,
       commentCount = an_totalComments analysis, hasAttachments = an_hasAttachments analysis,
       descriptionLength = (case t_description t of None \<Rightarrow> 0 | Some d \<Rightarrow> int (length d)),
       fc_uncertaintyIndicators = extractUncertaintyIndicators response,
       fc_responseQuality = validateResponseQuality (Some response)\<rparr>)"

subsection \<open>What the helpers agree on with the service\<close>

lemma analysis_counts:
  "an_aiCommentCount (analyzeTicket now t cs) + an_userCommentCount (analyzeTicket now t cs)
     \<le> an_totalComments (analyzeTicket now t cs)"
proof -
  have "length (List.filter (\<lambda>c. c_authorType c = AI) xs) + length (List.filter (\<lambda>c. c_authorType c = USER) xs) \<le> length xs"
    for xs :: "comment list"
    by (induction xs) auto
  from this [of "List.map fst (the_default [] cs)"] show ?thesis
    by (simp only: analyzeTicket_def Let_def countAIResponses_def ai_comments_def ticket_analysis.select_convs of_nat_add [symmetric] of_nat_le_iff)
qed

lemma analysis_follow_up: "an_isFollowUp (analyzeTicket now t cs) \<longleftrightarrow> 1 < an_userCommentCount (analyzeTicket now t cs)"
  by (auto simp: analyzeTicket_def Let_def isFollowUpTicket_def)

lemma author_exclusive: "\<not> (isUserComment c \<and> isAIComment c)"
  by (auto simp: isUserComment_def isAIComment_def isCommentFromAuthor_def)

text \<open>
  Both contexts agree but for two fields: the service calls a ticket a follow-up from the fourth
  comment on, whoever wrote them, and never sees an attachment.
\<close>

lemma contexts_agree:
  assumes "List.map fst cf = cs"
  shows "confidence_context.truncate (buildConfidenceContext now t (Some cf) response) =
    (response_context (env\<lparr>ae_time := now\<rparr>) t cs response)
      \<lparr>isFollowUp := isFollowUpTicket cs, hasAttachments := hasTicketAttachments cf\<rparr>"
  using assms
  by (auto simp: buildConfidenceContext_def analyzeTicket_def response_context_def confidence_context.truncate_def
      the_default_def calculateTicketAge_def Let_def split: option.split)

text \<open>A second question is a follow-up for the helpers and none for the service.\<close>

lemma follow_up_disagrees:
  assumes "c_authorType q1 = USER" "c_authorType a = AI" "c_authorType q2 = USER"
  shows "isFollowUpTicket [q1, a, q2] \<and> \<not> isFollowUp (response_context env t [q1, a, q2] r)"
  using assms by (simp add: isFollowUpTicket_def response_context_def)

subsection \<open>The tables and the engine\<close>

definition table_factor :: "string \<Rightarrow> int option" where
  "table_factor name = map_of CONFIDENCE_FACTORS name"

text \<open>Each adjustment of the engine stands in the table; the penalty for short texts is never applied.\<close>

lemma length_factor_table:
  "length_factor x = (if 100 < responseLength x \<and> responseLength x < 500 then table_factor ''GOOD_LENGTH''
     else if 500 < responseLength x then table_factor ''LONG_LENGTH'' else None)"
proof -
  have "table_factor ''GOOD_LENGTH'' = Some 15" "table_factor ''LONG_LENGTH'' = Some 5" by code_simp+
  then show ?thesis by (simp add: length_factor_def)
qed

lemma priority_factor_table:
  "the_default 0 (priority_factor x) = the (table_factor
     (case ticketPriority x of LOW \<Rightarrow> ''LOW_PRIORITY'' | MEDIUM \<Rightarrow> ''MEDIUM_PRIORITY'' | HIGH \<Rightarrow> ''HIGH_PRIORITY''
      | URGENT \<Rightarrow> ''URGENT_PRIORITY''))"
proof -
  have "table_factor ''LOW_PRIORITY'' = Some 10" "table_factor ''MEDIUM_PRIORITY'' = Some 0"
    "table_factor ''HIGH_PRIORITY'' = Some (- 10)" "table_factor ''URGENT_PRIORITY'' = Some (- 20)" by code_simp+
  then show ?thesis by (cases "ticketPriority x") (simp_all add: priority_factor_def the_default_def)
qed

lemma short_text_not_penalised:
  assumes "responseLength x \<le> 100"
  shows "length_factor x = None" "table_factor ''SHORT_LENGTH'' = Some (- 10)"
proof -
  show "length_factor x = None" using assms by (simp add: length_factor_def)
  show "table_factor ''SHORT_LENGTH'' = Some (- 10)" by code_simp
qed

text \<open>The table of transitions lets a suggestion wait for feedback; the engine leaves the status alone.\<close>

lemma suggestion_keeps_status: "tu_status (buildTicketUpdate t suggest n) = None \<and> map_of STATUS_TRANSITIONS suggest \<noteq> None"
proof -
  have "map_of STATUS_TRANSITIONS suggest \<noteq> None" by code_simp
  then show ?thesis by (simp add: buildTicketUpdate_def no_update_def Let_def)
qed

lemma markers_used:
  "a \<noteq> store_and_wait \<Longrightarrow> \<exists>k m. (k, a) \<in> set ACTION_TYPES \<and> map_of RESPONSE_MARKERS k = Some m \<and> prefix m (formatAIResponse r a)"
proof (cases a)
  case auto_resolve
  have "(''AUTO_RESOLVE'', auto_resolve) \<in> set ACTION_TYPES"
    "map_of RESPONSE_MARKERS ''AUTO_RESOLVE'' = Some ([CHR 0xE2, CHR 0x9C, CHR 0x85] @ '' **AI Resolution**:'')" by code_simp+
  then show ?thesis using auto_resolve by (intro exI conjI) (assumption | simp add: formatAIResponse_def)+
next
  case smart_assign
  have "(''SMART_ASSIGN'', smart_assign) \<in> set ACTION_TYPES"
    "map_of RESPONSE_MARKERS ''SMART_ASSIGN'' = Some ([CHR 0xF0, CHR 0x9F, CHR 0x91, CHR 0xA4] @ '' **AI Recommendation**:'')" by code_simp+
  then show ?thesis using smart_assign by (intro exI conjI) (assumption | simp add: formatAIResponse_def)+
next
  case suggest
  have "(''SUGGEST'', suggest) \<in> set ACTION_TYPES"
    "map_of RESPONSE_MARKERS ''SUGGEST'' = Some ([CHR 0xF0, CHR 0x9F, CHR 0x92, CHR 0xA1] @ '' **AI Suggestion**:'')" by code_simp+
  then show ?thesis using suggest by (intro exI conjI) (assumption | simp add: formatAIResponse_def)+
qed simp

text \<open>The quality check uses the limits of the table.\<close>

lemma quality_limits:
  "rq_isValid (validateResponseQuality (Some r)) \<longleftrightarrow>
     MIN_RESPONSE_LENGTH \<le> int (length r) \<and> int (length r) \<le> MAX_RESPONSE_LENGTH \<and>
     MIN_RESPONSE_WORD_COUNT \<le> 1 + space_runs False r"
  by (auto simp: validateResponseQuality_def Let_def MIN_RESPONSE_LENGTH_def MAX_RESPONSE_LENGTH_def MIN_RESPONSE_WORD_COUNT_def)

lemma age_limits: "isRecentTicket now t \<longleftrightarrow> calculateTicketAge now t < RECENT_TICKET_MS"
  "isAgedTicket now t \<longleftrightarrow> AGED_TICKET_MS < calculateTicketAge now t"
  by (simp_all add: isRecentTicket_def isAgedTicket_def RECENT_TICKET_MS_def AGED_TICKET_MS_def)

text \<open>An internal note is a comment of the AI that users do not see.\<close>

lemma createInternalAINote_internal:
  "createInternalAINote ticketId note now newId s = (Inr c, s') \<Longrightarrow> c_isInternal c \<and> c_authorType c = AI \<and> c_ticketId c = ticketId"
  by (auto simp: createInternalAINote_def ai_createComment_def createTicketComment_def Let_def split: if_splits option.splits)

end
