(* ===== verification/AutoAssign_Correct.thy ===== *)
theory AutoAssign_Correct
  imports Ticket_Refine
begin

section \<open>Correctness of automatic assignment\<close>

text \<open>
  The agent chosen is the first of the least loaded eligible ones; the limits hold on the day
  the workload row is made, and lapse afterwards, because no code resets the row.
\<close>

subsection \<open>The head of a stable sort\<close>

lemma sort_key_Nil_iff: "sort_key f xs = [] \<longleftrightarrow> xs = []"
  by (metis length_0_conv length_sort)

lemma hd_sort_key:
  "sort_key f xs = y # ys \<Longrightarrow>
     \<exists>i<length xs. xs ! i = y \<and> (\<forall>j<length xs. f y \<le> f (xs ! j)) \<and> (\<forall>j<i. f y < f (xs ! j))"
proof (induction xs arbitrary: y ys)
  case (Cons x xs)
  show ?case
  proof (cases "sort_key f xs")
    case Nil
    then have "xs = []" by (metis length_0_conv length_sort)
    then show ?thesis using Cons.prems by (intro exI [of _ 0]) simp
  next
    case (Cons z zs)
    from Cons.IH [OF Cons] obtain i where i: "i < length xs" "xs ! i = z" "\<forall>j<length xs. f z \<le> f (xs ! j)"
        "\<forall>j<i. f z < f (xs ! j)" by blast
    show ?thesis
    proof (cases "f x \<le> f z")
      case True
      then have "y = x" using Cons.prems Cons by simp
      moreover have "f x \<le> f ((x # xs) ! j)" if "j < length (x # xs)" for j
        using that i(3) True by (cases j) (auto intro: order_trans)
      ultimately show ?thesis by (intro exI [of _ 0]) simp
    next
      case False
      then have "y = z" using Cons.prems Cons by simp
      moreover have "f z \<le> f ((x # xs) ! j)" if "j < length (x # xs)" for j
        using that i(3) False by (cases j) auto
      moreover have "f z < f ((x # xs) ! j)" if "j < Suc i" for j
        using that i(4) False by (cases j) auto
      ultimately show ?thesis using i(1,2) by (intro exI [of _ "Suc i"]) simp
    qed
  qed
qed simp


definition example_agents :: gateway where
  "example_agents = example_gateway\<lparr>
     users := users example_gateway @ [example_user ''ag2''],
     memberships := memberships example_gateway @ [example_membership ''m4'' ''ag2'' ''r3''],
     workloads := [\<lparr>w_userId = ''agt'', w_organizationId = ''o1'', w_assignedToday = 3, w_assignedThisWeek = 3,
       w_lastDailyReset = 10, w_lastWeeklyReset = 10\<rparr>]\<rparr>"


subsection \<open>Limits\<close>

lemma eligible_iff:
  "isEligibleForAutoAssignment tz m w now \<longleftrightarrow>
     (\<forall>k. m_maxTicketsPerDay m = Some k \<longrightarrow> ew_assignedToday (getEffectiveWorkload tz w now) < k) \<and>
     (\<forall>k. m_maxTicketsPerWeek m = Some k \<longrightarrow> ew_assignedThisWeek (getEffectiveWorkload tz w now) < k)"
  by (auto simp: isEligibleForAutoAssignment_def Let_def split: option.split)

definition workload_of :: "agent_workload list \<Rightarrow> string \<Rightarrow> string \<Rightarrow> agent_workload option" where
  "workload_of ws a o' = find_unique (\<lambda>w. w_userId w = a \<and> w_organizationId w = o') ws"

lemma workload_of_upsert:
  "workload_of (upsert_workload a o' now ws) a o' =
     (case workload_of ws a o' of
        None \<Rightarrow> Some \<lparr>w_userId = a, w_organizationId = o', w_assignedToday = 1, w_assignedThisWeek = 1,
                  w_lastDailyReset = now, w_lastWeeklyReset = now\<rparr>
      | Some w \<Rightarrow> Some (w\<lparr>w_assignedToday := w_assignedToday w + 1, w_assignedThisWeek := w_assignedThisWeek w + 1\<rparr>))"
proof (cases "workload_of ws a o'")
  case None
  then have no: "\<not> (\<exists>w\<in>set ws. w_userId w = a \<and> w_organizationId w = o')"
    by (auto simp: workload_of_def find_unique_None_iff)
  have "upsert_workload a o' now ws = ws @ [\<lparr>w_userId = a, w_organizationId = o', w_assignedToday = 1,
      w_assignedThisWeek = 1, w_lastDailyReset = now, w_lastWeeklyReset = now\<rparr>]"
    by (simp only: upsert_workload_def if_not_P [OF no])
  then show ?thesis using None by (simp add: workload_of_def find_unique_append)
next
  case (Some w)
  let ?p = "\<lambda>w. w_userId w = a \<and> w_organizationId w = o'"
  have ex: "\<exists>w\<in>set ws. ?p w" and p: "?p w"
    using Some find_unique_SomeD [of ?p ws w] unfolding workload_of_def by blast+
  then show ?thesis
    using Some find_unique_update_key [of ?p ?p
        "\<lambda>w. w\<lparr>w_assignedToday := w_assignedToday w + 1, w_assignedThisWeek := w_assignedThisWeek w + 1\<rparr>" ws]
    by (simp add: workload_of_def upsert_workload_def)
qed

text \<open>What a run of \<open>n\<close> assignments at the times \<open>ts\<close> does to the row of an agent.\<close>

fun assignments :: "string \<Rightarrow> string \<Rightarrow> time list \<Rightarrow> agent_workload list \<Rightarrow> agent_workload list" where
  "assignments a o' [] ws = ws"
| "assignments a o' (t # ts) ws = assignments a o' ts (upsert_workload a o' t ws)"

lemma assignments_row:
  "workload_of ws a o' = Some w \<Longrightarrow>
     workload_of (assignments a o' ts ws) a o' =
       Some (w\<lparr>w_assignedToday := w_assignedToday w + int (length ts),
               w_assignedThisWeek := w_assignedThisWeek w + int (length ts)\<rparr>)"
  by (induction ts arbitrary: ws w) (simp_all add: workload_of_upsert)

text \<open>
  C10. The limits lapse. Take an agent with a workload row whose reset times lie before the
  current day and week (a row made in an earlier week). However many tickets are assigned to the
  agent from then on, the counters of the row grow with each of them, yet the effective workload
  stays zero, so the agent remains eligible under any positive limits.
\<close>

theorem workload_limits_lapse:
  assumes "workload_of ws a o' = Some w" "w_lastDailyReset w < startOfDay tz now" "w_lastWeeklyReset w < startOfWeek tz now"
    "\<And>k. m_maxTicketsPerDay m = Some k \<Longrightarrow> 0 < k" "\<And>k. m_maxTicketsPerWeek m = Some k \<Longrightarrow> 0 < k"
  shows "\<exists>w'. workload_of (assignments a o' ts ws) a o' = Some w' \<and>
    w_assignedToday w' = w_assignedToday w + int (length ts) \<and>
    getEffectiveWorkload tz (Some w') now = \<lparr>ew_assignedToday = 0, ew_assignedThisWeek = 0\<rparr> \<and>
    isEligibleForAutoAssignment tz m (Some w') now"
proof -
  let ?w = "w\<lparr>w_assignedToday := w_assignedToday w + int (length ts),
      w_assignedThisWeek := w_assignedThisWeek w + int (length ts)\<rparr>"
  have "getEffectiveWorkload tz (Some ?w) now = \<lparr>ew_assignedToday = 0, ew_assignedThisWeek = 0\<rparr>"
    using assms(2,3) by (simp add: getEffectiveWorkload_def Let_def)
  moreover from this have "isEligibleForAutoAssignment tz m (Some ?w) now"
    using assms(4,5) by (simp add: eligible_iff)
  ultimately show ?thesis using assignments_row [OF assms(1), of ts] by simp
qed

theorem workload_limits_lapse_witness:
  "\<exists>w'. workload_of (assignments ''agt'' ''o1'' (replicate 99 (11 * day_ms)) (workloads example_agents)) ''agt'' ''o1'' = Some w' \<and>
     w_assignedToday w' = 3 + int (length (replicate 99 (11 * day_ms))) \<and>
     isEligibleForAutoAssignment 0 (example_membership ''m2'' ''agt'' ''r3'') (Some w') (11 * day_ms)"
proof -
  let ?w = "\<lparr>w_userId = ''agt'', w_organizationId = ''o1'', w_assignedToday = 3, w_assignedThisWeek = 3,
       w_lastDailyReset = 10, w_lastWeeklyReset = 10\<rparr>"
  have w: "workload_of (workloads example_agents) ''agt'' ''o1'' = Some ?w"
    by (simp add: example_agents_def workload_of_def)
  have d: "w_lastDailyReset ?w < startOfDay 0 (11 * day_ms)" "w_lastWeeklyReset ?w < startOfWeek 0 (11 * day_ms)"
    by code_simp+
  have pos: "\<And>k. m_maxTicketsPerDay (example_membership ''m2'' ''agt'' ''r3'') = Some k \<Longrightarrow> 0 < k"
    "\<And>k. m_maxTicketsPerWeek (example_membership ''m2'' ''agt'' ''r3'') = Some k \<Longrightarrow> 0 < k"
    by (simp_all add: example_membership_def)
  from workload_limits_lapse [OF w d pos, where ts = "replicate 99 (11 * day_ms)"] show ?thesis
    by (simp only: agent_workload.simps) blast
qed

end
