(* ===== verification/Scraper_Service.thy ===== *)
theory Scraper_Service
  imports Scraper_Url
begin

section \<open>The web scraper: pages, jobs, cleanup\<close>

text \<open>
  modules/ai/scraper: scraper.service.js, scraper.cache.js, scraper.queue.js, scraper.worker.js,
  scraper.cleanup.cron.js, scraper.routes.js, the embedding text of scraper.parser.js and the
  test for thin single-page applications of scraper.puppeteer.js, with the two jobs of
  bridge/chatbot.bridge.queue.js the scraper enqueues. Parameters (\<open>scrape_env\<close>) are what is not
  in the repository: the network and the headless browser, the HTML parser (cheerio), SHA-256,
  the clock, new ids, and the configured limits. The queue library ignores a job whose id it
  still knows, be it waiting or kept after it ended, as its documentation says.
\<close>

subsection \<open>Data\<close>

datatype scrape_status = PENDING | PROCESSING | COMPLETED | FAILED | STALE

record scraped_page =
  sp_id :: string
  sp_orgId :: string
  sp_url :: string
  sp_urlHash :: string
  sp_contentHash :: "string option"
  sp_status :: scrape_status
  sp_chunkCount :: int
  sp_lastScrapedAt :: "time option"
  sp_lastEmbeddedAt :: "time option"
  sp_errorMessage :: "string option"
  sp_createdAt :: time
  sp_updatedAt :: time

record parsed_page =
  pp_title :: string
  pp_headings :: "string list"
  pp_body :: string
  pp_description :: "string option"
  pp_wordCount :: int

record doc_metadata =
  dm_url :: string
  dm_contentHash :: string
  dm_title :: string
  dm_scrapedAt :: time
  dm_wordCount :: int
  dm_byteLength :: int

text \<open>The metadata of texts and the data of a feedback are objects nothing here looks into.\<close>

datatype bridge_job =
    ProcessDocument string string string doc_metadata
  | EmbedTexts string "string list" "(string \<times> string) list list"
  | AnalyzeFeedback string "(string \<times> string) list"
  | ReEmbedOrg string "string option"
  | DeleteDocuments string "string list"

datatype job_payload =
    ScrapePage string string string
  | CleanupStale string time

record scrape_job =
  sj_id :: string
  sj_payload :: job_payload
  sj_priority :: int
  sj_attemptsMade :: nat

record dlq_entry =
  dq_jobName :: string
  dq_jobId :: string
  dq_attemptsMade :: nat
  dq_failureReason :: string

text \<open>A queue has no connection, a connection on which commands fail, or a working one.\<close>

datatype queue_state = QueueMissing | QueueFailing | QueueReady

record scraper_state =
  sc_orgs :: "string list"
  sc_pages :: "scraped_page list"
  sc_cacheUp :: bool
  sc_cache :: "string \<Rightarrow> bool"
  sc_queue :: queue_state
  sc_jobs :: "scrape_job list"
  sc_kept :: "string list"
  sc_bridge :: "bridge_job list"
  sc_failures :: "dlq_entry list"

record http_page =
  hp_ok :: bool
  hp_statusLine :: string
  hp_contentType :: string
  hp_chunks :: "string list"

record scrape_env =
  se_url :: url_env
  se_hash :: "string \<Rightarrow> string"
  se_fetch :: "string \<Rightarrow> string + http_page"
  se_parse :: "string \<Rightarrow> parsed_page"
  se_puppeteer :: "string \<Rightarrow> string + string \<times> int"
  se_now :: time
  se_day :: "time \<Rightarrow> string"
  se_newId :: string
  se_freshnessTtlMs :: int
  se_maxPageBytes :: int
  se_thinWords :: int
  se_retentionMs :: int

subsection \<open>Cache (scraper.cache.js)\<close>

text \<open>Every failure of Redis is swallowed: reads miss and writes do nothing.\<close>

definition scraper_key :: "string \<Rightarrow> string \<Rightarrow> string" where
  "scraper_key orgId urlHash = ''scraper:cache:'' @ orgId @ '':'' @ urlHash"

definition isCached :: "scrape_env \<Rightarrow> string \<Rightarrow> string \<Rightarrow> scraper_state \<Rightarrow> bool" where
  "isCached env orgId url s = (sc_cacheUp s \<and> sc_cache s (scraper_key orgId (se_hash env url)))"

definition markScraped :: "scrape_env \<Rightarrow> string \<Rightarrow> string \<Rightarrow> scraper_state \<Rightarrow> scraper_state" where
  "markScraped env orgId url s =
     (if sc_cacheUp s then s\<lparr>sc_cache := (sc_cache s)(scraper_key orgId (se_hash env url) := True)\<rparr> else s)"

definition invalidate_page :: "scrape_env \<Rightarrow> string \<Rightarrow> string \<Rightarrow> scraper_state \<Rightarrow> scraper_state" where
  "invalidate_page env orgId url s =
     (if sc_cacheUp s then s\<lparr>sc_cache := (sc_cache s)(scraper_key orgId (se_hash env url) := False)\<rparr> else s)"

subsection \<open>Queues (scraper.queue.js, bridge/chatbot.bridge.queue.js)\<close>

definition PRIORITY_MAP :: "string \<Rightarrow> int option" where
  "PRIORITY_MAP = [''high'' \<mapsto> 1, ''normal'' \<mapsto> 5, ''low'' \<mapsto> 10]"

definition queue_add :: "scrape_job \<Rightarrow> scraper_state \<Rightarrow> string option result \<times> scraper_state" where
  "queue_add j s =
     (case sc_queue s of
        QueueMissing \<Rightarrow> return None s
      | QueueFailing \<Rightarrow> throw (JsError ''Connection is closed.'') s
      | QueueReady \<Rightarrow>
          return (Some (sj_id j))
            (if sj_id j \<in> set (List.map sj_id (sc_jobs s)) \<union> set (sc_kept s) then s
             else s\<lparr>sc_jobs := sc_jobs s @ [j]\<rparr>))"

definition enqueueScrapingJob ::
    "scrape_env \<Rightarrow> string \<Rightarrow> string \<Rightarrow> string \<Rightarrow> scraper_state \<Rightarrow> string option result \<times> scraper_state" where
  "enqueueScrapingJob env orgId url priority s =
     (let urlHash = se_hash env url in
      queue_add \<lparr>sj_id = ''scrape:'' @ orgId @ '':'' @ urlHash, sj_payload = ScrapePage orgId url urlHash,
        sj_priority = (case PRIORITY_MAP priority of Some p \<Rightarrow> p | None \<Rightarrow> 5), sj_attemptsMade = 0\<rparr> s)"

definition enqueueCleanupJob ::
    "scrape_env \<Rightarrow> string \<Rightarrow> time \<Rightarrow> scraper_state \<Rightarrow> string option result \<times> scraper_state" where
  "enqueueCleanupJob env orgId olderThan s =
     queue_add \<lparr>sj_id = ''cleanup:'' @ orgId @ '':'' @ se_day env olderThan, sj_payload = CleanupStale orgId olderThan,
       sj_priority = 10, sj_attemptsMade = 0\<rparr> s"

primrec bridge_job_name :: "bridge_job \<Rightarrow> string" where
  "bridge_job_name (ProcessDocument _ _ _ _) = ''process-document''"
| "bridge_job_name (EmbedTexts _ _ _) = ''embed-texts''"
| "bridge_job_name (AnalyzeFeedback _ _) = ''analyze-feedback''"
| "bridge_job_name (ReEmbedOrg _ _) = ''re-embed-org''"
| "bridge_job_name (DeleteDocuments _ _) = ''delete-documents''"

definition bridge_add :: "bridge_job \<Rightarrow> scraper_state \<Rightarrow> bool result \<times> scraper_state" where
  "bridge_add j s =
     (case sc_queue s of
        QueueMissing \<Rightarrow> return False s
      | QueueFailing \<Rightarrow> throw (JsError ''Connection is closed.'') s
      | QueueReady \<Rightarrow> return True (s\<lparr>sc_bridge := sc_bridge s @ [j]\<rparr>))"

definition enqueueProcessDocument ::
    "string \<Rightarrow> string \<Rightarrow> string \<Rightarrow> doc_metadata \<Rightarrow> scraper_state \<Rightarrow> bool result \<times> scraper_state" where
  "enqueueProcessDocument orgId documentId content metadata s =
     bridge_add (ProcessDocument orgId documentId content metadata) s"

definition enqueueEmbedTexts ::
    "string \<Rightarrow> string list \<Rightarrow> (string \<times> string) list list \<Rightarrow> scraper_state \<Rightarrow> bool result \<times> scraper_state" where
  "enqueueEmbedTexts orgId texts metadata s = bridge_add (EmbedTexts orgId texts metadata) s"

definition enqueueAnalyzeFeedback ::
    "string \<Rightarrow> (string \<times> string) list \<Rightarrow> scraper_state \<Rightarrow> bool result \<times> scraper_state" where
  "enqueueAnalyzeFeedback orgId feedbackData s = bridge_add (AnalyzeFeedback orgId feedbackData) s"

definition enqueueReEmbedOrg :: "string \<Rightarrow> string option \<Rightarrow> scraper_state \<Rightarrow> bool result \<times> scraper_state" where
  "enqueueReEmbedOrg orgId targetVersion s = bridge_add (ReEmbedOrg orgId targetVersion) s"

definition enqueueDeleteDocuments :: "string \<Rightarrow> string list \<Rightarrow> scraper_state \<Rightarrow> bool result \<times> scraper_state" where
  "enqueueDeleteDocuments orgId documentIds s = bridge_add (DeleteDocuments orgId documentIds) s"

subsection \<open>Fetching (scraper.service.js) and content (scraper.parser.js, scraper.puppeteer.js)\<close>

text \<open>The body is read chunk by chunk and the reading stops above the limit.\<close>

fun read_body :: "int \<Rightarrow> int \<Rightarrow> string list \<Rightarrow> string \<Rightarrow> string + string" where
  "read_body limit totalBytes [] acc = Inr acc"
| "read_body limit totalBytes (v # vs) acc =
     (let total = totalBytes + int (length v) in
      if total > limit then Inl (''Page exceeds size limit of '' @ show_decimal (nat limit) @ '' bytes'')
      else read_body limit total vs (acc @ v))"

definition fetchPage :: "scrape_env \<Rightarrow> string \<Rightarrow> string + string \<times> int" where
  "fetchPage env url =
     (case se_fetch env url of
        Inl message \<Rightarrow> Inl message
      | Inr response \<Rightarrow>
          if \<not> hp_ok response then Inl (''HTTP '' @ hp_statusLine response @ '' for '' @ url)
          else if \<not> js_includes (hp_contentType response) ''html''
          then Inl (''Non-HTML content type '' @ [CHR 0x22] @ hp_contentType response @ [CHR 0x22] @ '' for '' @ url)
          else case read_body (se_maxPageBytes env) 0 (hp_chunks response) [] of
            Inl message \<Rightarrow> Inl message
          | Inr html \<Rightarrow> Inr (html, int (length html)))"

definition quoted :: "string \<Rightarrow> char \<Rightarrow> string" where
  "quoted i q = ''id='' @ [q] @ i @ [q]"

definition SPA_SIGNALS :: "string list" where
  "SPA_SIGNALS =
     [quoted ''root'' (CHR 0x22), quoted ''root'' (CHR 0x27), ''data-reactroot'', ''__next_data__'',
      quoted ''app'' (CHR 0x22), quoted ''app'' (CHR 0x27), ''data-v-app'', ''data-vue-app'',
      quoted ''nuxt'' (CHR 0x22), quoted ''nuxt'' (CHR 0x27), ''window.__nuxt__'', ''ng-version'', ''ng-app'',
      quoted ''svelte'' (CHR 0x22), quoted ''svelte'' (CHR 0x27), ''id='' @ [CHR 0x22] @ ''ember'', ''data-ember-action'',
      ''please enable javascript'', ''javascript is required'', ''enable javascript to run'',
      ''this app requires javascript'']"

definition isSpaWithThinContent :: "parsed_page \<Rightarrow> string \<Rightarrow> int \<Rightarrow> bool" where
  "isSpaWithThinContent parsed rawHtml minWords =
     (if pp_wordCount parsed \<ge> minWords then False
      else list_ex (js_includes (toLowerCase rawHtml)) SPA_SIGNALS)"

definition page_content :: "scrape_env \<Rightarrow> string \<Rightarrow> string \<Rightarrow> int \<Rightarrow> parsed_page \<times> int \<times> string" where
  "page_content env url html byteLength =
     (let parsed = se_parse env html in
      if isSpaWithThinContent parsed html (se_thinWords env)
      then (case se_puppeteer env url of
              Inl _ \<Rightarrow> (parsed, byteLength, ''static'')
            | Inr (renderedHtml, renderedBytes) \<Rightarrow>
                let renderedParsed = se_parse env renderedHtml in
                if pp_wordCount renderedParsed > pp_wordCount parsed then (renderedParsed, renderedBytes, ''puppeteer'')
                else (parsed, byteLength, ''static''))
      else (parsed, byteLength, ''static''))"

definition buildEmbeddingText :: "parsed_page \<Rightarrow> string" where
  "buildEmbeddingText parsed =
     join_with [CHR 0x0A, CHR 0x0A]
       ((if pp_title parsed \<noteq> [] then [''Title: '' @ pp_title parsed] else []) @
        (if truthy (pp_description parsed) then [''Summary: '' @ the (pp_description parsed)] else []) @
        (if pp_headings parsed \<noteq> [] then [join_with [CHR 0x0A] (pp_headings parsed)] else []) @
        (if pp_body parsed \<noteq> [] then [pp_body parsed] else []))"

subsection \<open>Pages (scraper.service.js)\<close>

definition page_at :: "string \<Rightarrow> string \<Rightarrow> scraped_page \<Rightarrow> bool" where
  "page_at orgId urlHash p = (sp_orgId p = orgId \<and> sp_urlHash p = urlHash)"

definition find_page :: "string \<Rightarrow> string \<Rightarrow> scraper_state \<Rightarrow> scraped_page option" where
  "find_page orgId urlHash s = find_unique (page_at orgId urlHash) (sc_pages s)"

definition new_page :: "string \<Rightarrow> string \<Rightarrow> string \<Rightarrow> time \<Rightarrow> string \<Rightarrow> scraped_page" where
  "new_page orgId url urlHash now newId =
     \<lparr>sp_id = newId, sp_orgId = orgId, sp_url = url, sp_urlHash = urlHash, sp_contentHash = None,
      sp_status = PENDING, sp_chunkCount = 0, sp_lastScrapedAt = None, sp_lastEmbeddedAt = None,
      sp_errorMessage = None, sp_createdAt = now, sp_updatedAt = now\<rparr>"

text \<open>\<open>data\<close> writes the given columns, on the existing row or on a new one.\<close>

definition upsertScrapedPage ::
    "scrape_env \<Rightarrow> string \<Rightarrow> string \<Rightarrow> string \<Rightarrow> (scraped_page \<Rightarrow> scraped_page) \<Rightarrow> scraper_state \<Rightarrow>
     unit result \<times> scraper_state" where
  "upsertScrapedPage env orgId url urlHash data s =
     (case find_page orgId urlHash s of
        Some _ \<Rightarrow>
          return () (s\<lparr>sc_pages := update_rows (page_at orgId urlHash)
            (\<lambda>p. (data p)\<lparr>sp_updatedAt := se_now env\<rparr>) (sc_pages s)\<rparr>)
      | None \<Rightarrow>
          if orgId \<notin> set (sc_orgs s) then throw (PrismaError ''P2003'') s
          else if se_newId env \<in> sp_id ` set (sc_pages s) then throw (PrismaError ''P2002'') s
          else return () (s\<lparr>sc_pages := sc_pages s @ [data (new_page orgId url urlHash (se_now env) (se_newId env))]\<rparr>))"

datatype enqueue_result =
    Rejected string
  | Cached string
  | Processing string
  | Fresh string
  | Queued string "string option"

definition checkAndEnqueue ::
    "scrape_env \<Rightarrow> string \<Rightarrow> string \<Rightarrow> string \<Rightarrow> scraper_state \<Rightarrow> enqueue_result result \<times> scraper_state" where
  "checkAndEnqueue env orgId url priority s =
     (case validateUrl (se_url env) url of
        Inl reason \<Rightarrow> return (Rejected reason) s
      | Inr _ \<Rightarrow>
          let urlHash = se_hash env url in
          if isCached env orgId url s then return (Cached urlHash) s
          else if (case find_page orgId urlHash s of None \<Rightarrow> False | Some p \<Rightarrow> sp_status p = PROCESSING)
          then return (Processing urlHash) s
          else if (case find_page orgId urlHash s of None \<Rightarrow> False | Some p \<Rightarrow> sp_status p = COMPLETED \<and>
              (case sp_lastScrapedAt p of None \<Rightarrow> False | Some t \<Rightarrow> se_now env - t < se_freshnessTtlMs env))
          then return (Fresh urlHash) (markScraped env orgId url s)
          else case upsertScrapedPage env orgId url urlHash (\<lambda>p. p\<lparr>sp_status := PENDING\<rparr>) s of
            (Inl e, s1) \<Rightarrow> throw e s1
          | (Inr _, s1) \<Rightarrow>
              (case enqueueScrapingJob env orgId url priority s1 of
                 (Inl e, s2) \<Rightarrow> throw e s2
               | (Inr jobId, s2) \<Rightarrow> return (Queued urlHash jobId) (markScraped env orgId url s2)))"

datatype scrape_result =
    Skipped string
  | Scraped string int string
  | CleanedUp nat nat

definition processScrapeJob ::
    "scrape_env \<Rightarrow> string \<Rightarrow> string \<Rightarrow> string \<Rightarrow> scraper_state \<Rightarrow> scrape_result result \<times> scraper_state" where
  "processScrapeJob env orgId url urlHash s =
     (case validateUrl (se_url env) url of
        Inl reason \<Rightarrow> throw (JsError reason) s
      | Inr _ \<Rightarrow>
      case upsertScrapedPage env orgId url urlHash (\<lambda>p. p\<lparr>sp_status := PROCESSING\<rparr>) s of
        (Inl e, s1) \<Rightarrow> throw e s1
      | (Inr _, s1) \<Rightarrow>
      case fetchPage env url of
        Inl message \<Rightarrow>
          (case upsertScrapedPage env orgId url urlHash
              (\<lambda>p. p\<lparr>sp_status := FAILED, sp_errorMessage := Some (take 500 message)\<rparr>) s1 of
             (Inl e, s2) \<Rightarrow> throw e s2
           | (Inr _, s2) \<Rightarrow> throw (JsError message) s2)
      | Inr (html, bytes) \<Rightarrow>
      case page_content env url html bytes of
        (parsed, byteLength, fetchType) \<Rightarrow>
      if pp_body parsed = [] \<and> pp_title parsed = []
      then let msg = ''No meaningful content extracted from page'' in
        (case upsertScrapedPage env orgId url urlHash
            (\<lambda>p. p\<lparr>sp_status := FAILED, sp_errorMessage := Some msg\<rparr>) s1 of
           (Inl e, s2) \<Rightarrow> throw e s2
         | (Inr _, s2) \<Rightarrow> throw (JsError msg) s2)
      else
        let embeddingText = buildEmbeddingText parsed; contentHash = se_hash env embeddingText in
        if (case find_page orgId urlHash s1 of None \<Rightarrow> False
            | Some p \<Rightarrow> truthy (sp_contentHash p) \<and> sp_contentHash p = Some contentHash)
        then (case upsertScrapedPage env orgId url urlHash
                (\<lambda>p. p\<lparr>sp_status := COMPLETED, sp_lastScrapedAt := Some (se_now env), sp_errorMessage := None\<rparr>) s1 of
               (Inl e, s2) \<Rightarrow> throw e s2
             | (Inr _, s2) \<Rightarrow> return (Skipped contentHash) (markScraped env orgId url s2))
        else case enqueueProcessDocument orgId urlHash embeddingText
            \<lparr>dm_url = url, dm_contentHash = contentHash, dm_title = pp_title parsed, dm_scrapedAt = se_now env,
             dm_wordCount = pp_wordCount parsed, dm_byteLength = byteLength\<rparr> s1 of
          (Inl e, s2) \<Rightarrow> throw e s2
        | (Inr _, s2) \<Rightarrow>
            (case upsertScrapedPage env orgId url urlHash
                (\<lambda>p. p\<lparr>sp_status := COMPLETED, sp_contentHash := Some contentHash, sp_lastScrapedAt := Some (se_now env),
                  sp_lastEmbeddedAt := Some (se_now env), sp_errorMessage := None,
                  sp_chunkCount := (pp_wordCount parsed + 99) div 100\<rparr>) s2 of
               (Inl e, s3) \<Rightarrow> throw e s3
             | (Inr _, s3) \<Rightarrow>
                 return (Scraped contentHash (pp_wordCount parsed) fetchType) (markScraped env orgId url s3)))"

subsection \<open>Cleanup (scraper.service.js, scraper.cleanup.cron.js)\<close>

definition stale_row :: "string \<Rightarrow> time \<Rightarrow> scraped_page \<Rightarrow> bool" where
  "stale_row orgId cutoff p =
     (sp_orgId p = orgId \<and> sp_createdAt p < cutoff \<and> sp_status p \<in> {COMPLETED, FAILED, STALE})"

definition deleteStalePages :: "scrape_env \<Rightarrow> string \<Rightarrow> time \<Rightarrow> scraper_state \<Rightarrow> nat result \<times> scraper_state" where
  "deleteStalePages env orgId cutoff s =
     (let staleRows = find_many (stale_row orgId cutoff) (sc_pages s) in
      if staleRows = [] then return 0 s
      else case enqueueDeleteDocuments orgId (List.map sp_urlHash staleRows) s of
        (Inl e, s1) \<Rightarrow> throw e s1
      | (Inr _, s1) \<Rightarrow>
          let s2 = s1\<lparr>sc_pages := update_rows (\<lambda>p. sp_id p \<in> sp_id ` set staleRows)
                (\<lambda>p. p\<lparr>sp_status := STALE, sp_updatedAt := se_now env\<rparr>) (sc_pages s1)\<rparr>
          in return (length staleRows) (fold (\<lambda>r. invalidate_page env orgId (sp_url r)) staleRows s2))"

definition purgeStaleDbRows :: "string \<Rightarrow> time \<Rightarrow> scraper_state \<Rightarrow> nat \<times> scraper_state" where
  "purgeStaleDbRows orgId olderThan s =
     (let gone = (\<lambda>p. sp_orgId p = orgId \<and> sp_status p = STALE \<and> sp_updatedAt p < olderThan) in
      (length (find_many gone (sc_pages s)), s\<lparr>sc_pages := delete_rows gone (sc_pages s)\<rparr>))"

definition purge_after :: int where
  "purge_after = 25 * 60 * 60 * 1000"

definition cleanup_org :: "scrape_env \<Rightarrow> string \<Rightarrow> scraper_state \<Rightarrow> scraper_state" where
  "cleanup_org env orgId s =
     (case deleteStalePages env orgId (se_now env - se_retentionMs env) s of
        (Inl _, s1) \<Rightarrow> s1
      | (Inr _, s1) \<Rightarrow> snd (purgeStaleDbRows orgId (se_now env - purge_after) s1))"

definition runScrapeCleanup :: "scrape_env \<Rightarrow> scraper_state \<Rightarrow> scraper_state" where
  "runScrapeCleanup env s = fold (cleanup_org env) (remdups (List.map sp_orgId (sc_pages s))) s"

subsection \<open>Worker (scraper.worker.js)\<close>

fun scrape_handler :: "scrape_env \<Rightarrow> job_payload \<Rightarrow> scraper_state \<Rightarrow> scrape_result result \<times> scraper_state" where
  "scrape_handler env (ScrapePage orgId url urlHash) s = processScrapeJob env orgId url urlHash s"
| "scrape_handler env (CleanupStale orgId cutoff) s =
     (case deleteStalePages env orgId cutoff s of
        (Inl e, s1) \<Rightarrow> throw e s1
      | (Inr n, s1) \<Rightarrow>
          (case purgeStaleDbRows orgId (se_now env - purge_after) s1 of (k, s2) \<Rightarrow> return (CleanedUp n k) s2))"

fun job_name :: "job_payload \<Rightarrow> string" where
  "job_name (ScrapePage _ _ _) = ''scrape-page''"
| "job_name (CleanupStale _ _) = ''cleanup-stale''"

fun error_message :: "js_error \<Rightarrow> string" where
  "error_message (ApiError _ m _) = m"
| "error_message (PrismaError m) = m"
| "error_message (RequestAbortedError m) = m"
| "error_message (ConfigError m) = m"
| "error_message (JsTypeError m) = m"
| "error_message (JsReferenceError m) = m"
| "error_message (JsError m) = m"

definition persistFailure :: "scrape_job \<Rightarrow> js_error \<Rightarrow> scraper_state \<Rightarrow> scraper_state" where
  "persistFailure j e s = s\<lparr>sc_failures := sc_failures s @
     [\<lparr>dq_jobName = job_name (sj_payload j), dq_jobId = sj_id j, dq_attemptsMade = sj_attemptsMade j,
       dq_failureReason = take 1000 (error_message e)\<rparr>]\<rparr>"

text \<open>
  One run of the worker on the first job: a success or the third failure ends the job, whose id
  the queue keeps; an earlier failure puts it back.
\<close>

definition scraper_worker :: "scrape_env \<Rightarrow> scraper_state \<Rightarrow> scraper_state" where
  "scraper_worker env s =
     (case sc_jobs s of
        [] \<Rightarrow> s
      | j # js \<Rightarrow>
          (case scrape_handler env (sj_payload j) (s\<lparr>sc_jobs := js\<rparr>) of
             (Inr _, s1) \<Rightarrow> s1\<lparr>sc_kept := sc_kept s1 @ [sj_id j]\<rparr>
           | (Inl e, s1) \<Rightarrow>
               let j1 = j\<lparr>sj_attemptsMade := sj_attemptsMade j + 1\<rparr> in
               if sj_attemptsMade j1 \<ge> 3 then persistFailure j1 e (s1\<lparr>sc_kept := sc_kept s1 @ [sj_id j]\<rparr>)
               else s1\<lparr>sc_jobs := sc_jobs s1 @ [j1]\<rparr>))"

subsection \<open>Routes (scraper.routes.js)\<close>

datatype scrape_response =
    MissingField string
  | Unprocessable string
  | Accepted enqueue_result
  | NotFound
  | PageStatus scraped_page
  | Stats nat int "time option" "time option" "(scrape_status \<times> nat) list"
  | Invalidated string enqueue_result
  | Cleanup nat

definition enqueue_route ::
    "scrape_env \<Rightarrow> string option \<Rightarrow> string option \<Rightarrow> string option \<Rightarrow> scraper_state \<Rightarrow>
     scrape_response result \<times> scraper_state" where
  "enqueue_route env url orgId priority s =
     (if \<not> truthy url then return (MissingField ''url is required'') s
      else if \<not> truthy orgId then return (MissingField ''org_id is required'') s
      else case checkAndEnqueue env (the orgId) (js_trim (the url)) (case priority of None \<Rightarrow> ''normal'' | Some p \<Rightarrow> p) s of
        (Inl e, s1) \<Rightarrow> throw e s1
      | (Inr (Rejected reason), s1) \<Rightarrow> return (Unprocessable reason) s1
      | (Inr r, s1) \<Rightarrow> return (Accepted r) s1)"

definition status_route :: "string \<Rightarrow> string \<Rightarrow> scraper_state \<Rightarrow> scrape_response result \<times> scraper_state" where
  "status_route orgId urlHash s =
     (case find_page orgId urlHash s of None \<Rightarrow> return NotFound s | Some p \<Rightarrow> return (PageStatus p) s)"

fun latest :: "time option list \<Rightarrow> time option" where
  "latest [] = None"
| "latest (None # ts) = latest ts"
| "latest (Some t # ts) = Some (case latest ts of None \<Rightarrow> t | Some u \<Rightarrow> max t u)"

definition stats_route :: "string \<Rightarrow> scraper_state \<Rightarrow> scrape_response result \<times> scraper_state" where
  "stats_route orgId s =
     (let rows = find_many (\<lambda>p. sp_orgId p = orgId) (sc_pages s) in
      return (Stats (length rows) (sum_list (List.map sp_chunkCount rows))
        (latest (List.map sp_lastScrapedAt rows)) (latest (List.map sp_lastEmbeddedAt rows))
        (List.map (\<lambda>st. (st, length (List.filter (\<lambda>p. sp_status p = st) rows)))
          (remdups (List.map sp_status rows)))) s)"

definition delete_page_route ::
    "scrape_env \<Rightarrow> string \<Rightarrow> string \<Rightarrow> scraper_state \<Rightarrow> scrape_response result \<times> scraper_state" where
  "delete_page_route env orgId urlHash s =
     (case find_page orgId urlHash s of
        None \<Rightarrow> return NotFound s
      | Some page \<Rightarrow>
          let s1 = invalidate_page env orgId (sp_url page) s;
              s2 = s1\<lparr>sc_pages := delete_rows (page_at orgId urlHash) (sc_pages s1)\<rparr>
          in case checkAndEnqueue env orgId (sp_url page) ''high'' s2 of
            (Inl e, s3) \<Rightarrow> throw e s3
          | (Inr r, s3) \<Rightarrow> return (Invalidated (sp_url page) r) s3)"

definition cleanup_route ::
    "scrape_env \<Rightarrow> string \<Rightarrow> int option \<Rightarrow> scraper_state \<Rightarrow> scrape_response result \<times> scraper_state" where
  "cleanup_route env orgId older_than_days s =
     (let days = (case older_than_days of None \<Rightarrow> 30 | Some d \<Rightarrow> if d = 0 then 30 else d) in
      case deleteStalePages env orgId (se_now env - days * 24 * 60 * 60 * 1000) s of
        (Inl e, s1) \<Rightarrow> throw e s1
      | (Inr n, s1) \<Rightarrow> return (Cleanup n) s1)"

end
