(* ===== verification/Chatbot_Bridge.thy ===== *)
theory Chatbot_Bridge
  imports Circuit_Breaker Scraper_Service JS_Number
begin

section \<open>The worker of the chatbot bridge\<close>

text \<open>
  modules/ai/bridge/chatbot.bridge.worker.js over the breaker of chatbot.circuit.js: the signed
  request of a job, and the worker as a state machine with its three concurrent jobs. A job that
  meets the open circuit is moved to the delayed jobs; a job whose call fails is thrown back to the
  queue, which counts the attempt. The queue itself (BullMQ) is not modelled: any job may become
  ready at any time (\<open>arrive\<close>), be it new, retried or due. The chatbot service answers a call or the
  call fails (a status that is not ok, a body that is no JSON, a timeout, a broken connection).
  Parameters (\<open>bridge_config\<close>) are the configuration and the hash functions of node:crypto.
\<close>

subsection \<open>Requests (signRequest, callChatbot)\<close>

record bridge_config =
  bx_chatbot :: string
  bx_internalServiceToken :: string
  bx_hmacEnabled :: bool
  bx_sha256 :: "string \<Rightarrow> string"
  bx_hmac :: "string \<Rightarrow> string \<Rightarrow> string"

definition or_text :: "string \<Rightarrow> string \<Rightarrow> string" where
  "or_text a b = (if a \<noteq> [] then a else b)"

definition CHATBOT_URL :: "bridge_config \<Rightarrow> string" where
  "CHATBOT_URL cfg = or_text (bx_chatbot cfg) ''http://chatbot-service:8000''"

definition INTERNAL_TOKEN :: "bridge_config \<Rightarrow> string" where
  "INTERNAL_TOKEN cfg = or_text (bx_internalServiceToken cfg) ''change-me-shared-secret''"

definition SERVICE_ID :: string where
  "SERVICE_ID = ''chatbot-bridge-worker''"

definition line_break :: char where
  "line_break = CHR 0x0A"

definition signed_payload :: "string \<Rightarrow> string \<Rightarrow> string \<Rightarrow> string \<Rightarrow> string" where
  "signed_payload verb path timestampMs bodyHash =
     toUpperCase verb @ line_break # path @ line_break # SERVICE_ID @ line_break # timestampMs @ line_break # bodyHash"

definition signRequest :: "bridge_config \<Rightarrow> time \<Rightarrow> string \<Rightarrow> string \<Rightarrow> string \<Rightarrow> string \<times> string" where
  "signRequest cfg now verb path bodyStr =
     (let timestampMs = show_int now;
          bodyHash = bx_sha256 cfg bodyStr
      in (timestampMs, bx_hmac cfg (INTERNAL_TOKEN cfg) (signed_payload verb path timestampMs bodyHash)))"

record chatbot_request =
  cr_url :: string
  cr_headers :: "(string \<times> string) list"
  cr_body :: string

definition callChatbot_request :: "bridge_config \<Rightarrow> time \<Rightarrow> string \<Rightarrow> string \<Rightarrow> string \<Rightarrow> chatbot_request" where
  "callChatbot_request cfg now path bodyStr requestId =
     (let headers =
        [(''Content-Type'', ''application/json''), (''X-Service-Id'', SERVICE_ID), (''X-Internal-Token'', INTERNAL_TOKEN cfg)]
        @ (if requestId \<noteq> [] then [(''X-Request-ID'', requestId)] else [])
        @ (if bx_hmacEnabled cfg
           then let (timestampMs, signature) = signRequest cfg now ''POST'' path bodyStr
             in [(''X-Timestamp'', timestampMs), (''X-Signature'', signature)]
           else [])
      in \<lparr>cr_url = CHATBOT_URL cfg @ path, cr_headers = headers, cr_body = bodyStr\<rparr>)"

subsection \<open>Jobs (handlers)\<close>

text \<open>\<open>bj_body\<close> is the data of the job as JSON.\<close>

record bridge_work =
  bj_id :: string
  bj_name :: string
  bj_body :: string
  bj_requestId :: "string option"

definition handlers :: "string \<Rightarrow> string option" where
  "handlers =
     [''process-document'' \<mapsto> ''/internal/process-document'',
      ''embed-texts'' \<mapsto> ''/internal/embed'',
      ''analyze-feedback'' \<mapsto> ''/internal/analyze-feedback'',
      ''re-embed-org'' \<mapsto> ''/internal/re-embed-org'',
      ''delete-documents'' \<mapsto> ''/internal/scraper/delete-documents'']"

definition getTraceId :: "bridge_work \<Rightarrow> string" where
  "getTraceId job = (case bj_requestId job of Some r \<Rightarrow> r | None \<Rightarrow> bj_id job)"

text \<open>Every job that can be enqueued has a handler.\<close>

lemma enqueued_jobs_handled: "handlers (bridge_job_name j) \<noteq> None"
  by (cases j) (simp_all add: handlers_def)

subsection \<open>The worker (startChatbotBridgeWorker)\<close>

record bridge_state =
  bs_now :: time
  bs_circuit :: chatbot_circuit
  bs_waiting :: "bridge_work list"
  bs_active :: "bridge_work list"
  bs_delayed :: "(time \<times> bridge_work) list"
  bs_done :: "bridge_work list"
  bs_thrown :: "bridge_work list"
  bs_calls :: "chatbot_request list"

text \<open>The processor up to its call: a job without a handler is completed with a warning.\<close>

definition start_job :: "bridge_config \<Rightarrow> bridge_work \<Rightarrow> bridge_state \<Rightarrow> bridge_state" where
  "start_job cfg job s =
     (case handlers (bj_name job) of
        None \<Rightarrow> s\<lparr>bs_done := bs_done s @ [job]\<rparr>
      | Some path \<Rightarrow>
          (case fire_start chatbotCircuit (bs_now s) (bs_circuit s) of
             (True, c) \<Rightarrow> s\<lparr>bs_circuit := c, bs_active := bs_active s @ [job],
               bs_calls := bs_calls s @ [callChatbot_request cfg (bs_now s) path (bj_body job) (getTraceId job)]\<rparr>
           | (False, c) \<Rightarrow>
               (let delayMs = remainingOpenMs chatbotCircuit (bs_now s) (bs_circuit s) + 5000
                in s\<lparr>bs_circuit := c, bs_delayed := bs_delayed s @ [(bs_now s + delayMs, job)]\<rparr>)))"

definition call_answers :: "bridge_work \<Rightarrow> bridge_state \<Rightarrow> bridge_state" where
  "call_answers job s = s\<lparr>bs_circuit := onSuccess chatbotCircuit (bs_circuit s),
     bs_active := remove1 job (bs_active s), bs_done := bs_done s @ [job]\<rparr>"

definition call_fails :: "bridge_work \<Rightarrow> bridge_state \<Rightarrow> bridge_state" where
  "call_fails job s = s\<lparr>bs_circuit := onFailure chatbotCircuit (bs_now s) (bs_circuit s),
     bs_active := remove1 job (bs_active s), bs_thrown := bs_thrown s @ [job]\<rparr>"

definition concurrency :: nat where
  "concurrency = 3"

text \<open>The flag says whether the chatbot service answers.\<close>

inductive bridge_step :: "bridge_config \<Rightarrow> bool \<Rightarrow> bridge_state \<Rightarrow> bridge_state \<Rightarrow> bool" for cfg up where
  arrive: "bridge_step cfg up s (s\<lparr>bs_waiting := bs_waiting s @ [job]\<rparr>)"
| take: "bs_waiting s = xs @ job # ys \<Longrightarrow> length (bs_active s) < concurrency \<Longrightarrow>
    bridge_step cfg up s (start_job cfg job (s\<lparr>bs_waiting := xs @ ys\<rparr>))"
| answer: "up \<Longrightarrow> job \<in> set (bs_active s) \<Longrightarrow> bridge_step cfg up s (call_answers job s)"
| failure: "job \<in> set (bs_active s) \<Longrightarrow> bridge_step cfg up s (call_fails job s)"
| tick: "0 \<le> d \<Longrightarrow> bridge_step cfg up s (s\<lparr>bs_now := bs_now s + d\<rparr>)"

definition idle_bridge :: "time \<Rightarrow> bridge_state" where
  "idle_bridge now = \<lparr>bs_now = now, bs_circuit = new_circuit, bs_waiting = [], bs_active = [], bs_delayed = [],
     bs_done = [], bs_thrown = [], bs_calls = []\<rparr>"

subsection \<open>Signatures bind their request\<close>

text \<open>The signed payload determines path, time and hash of the body, if they have no line break.\<close>

lemma signed_payload_inj:
  assumes "signed_payload ''POST'' p t h = signed_payload ''POST'' p' t' h'"
    "line_break \<notin> set p \<union> set t \<union> set h" "line_break \<notin> set p' \<union> set t' \<union> set h'"
  shows "p = p' \<and> t = t' \<and> h = h'"
proof -
  have "js_split line_break (signed_payload ''POST'' p t h) = [''POST'', p, SERVICE_ID, t, h]"
    if "line_break \<notin> set p \<union> set t \<union> set h" for p t h
  proof -
    have c: "line_break \<notin> set SERVICE_ID" "line_break \<notin> set ''POST''" and u: "toUpperCase ''POST'' = ''POST''"
      by code_simp+
    have d: "line_break \<notin> set p" "line_break \<notin> set t" "line_break \<notin> set h" using that by auto
    show ?thesis
      unfolding signed_payload_def u js_split_append [OF c(2)] js_split_append [OF d(1)] js_split_append [OF c(1)]
        js_split_append [OF d(2)] js_split_no_sep [OF d(3)] by (rule refl)
  qed
  from arg_cong [OF assms(1), of "js_split line_break", unfolded this [OF assms(2)] this [OF assms(3)]]
  show ?thesis by (simp only: list.inject)
qed

subsection \<open>An outage\<close>

text \<open>While no call is answered: the closed breaker has counted every failure, the open one admits
  nobody, and what was admitted before fits into the three jobs at a time.\<close>

definition outage_inv :: "time \<Rightarrow> bridge_state \<Rightarrow> bool" where
  "outage_inv t s \<longleftrightarrow> t \<le> bs_now s \<and> length (bs_active s) \<le> 3 \<and>
     length (bs_calls s) = length (bs_thrown s) + length (bs_active s) \<and>
     list_all (\<lambda>(due, j). t + 35000 \<le> due) (bs_delayed s) \<and>
     (cc_state (bs_circuit s) = CLOSED_STATE \<and> cc_failures (bs_circuit s) = length (bs_thrown s) \<and> length (bs_thrown s) \<le> 4 \<or>
      cc_state (bs_circuit s) = OPEN_STATE \<and> length (bs_thrown s) + length (bs_active s) \<le> 7 \<and>
      t \<le> cc_lastFailureTime (bs_circuit s) \<and> cc_failures (bs_circuit s) \<ge> 5)"

lemma start_job_outage:
  assumes "outage_inv t s" "bs_now s < t + 30000" "length (bs_active s) < 3"
  shows "outage_inv t (start_job cfg job s)"
proof (cases "handlers (bj_name job)")
  case None
  then show ?thesis using assms by (simp add: start_job_def outage_inv_def)
next
  case (Some path)
  consider (closed) "cc_state (bs_circuit s) = CLOSED_STATE" | (opened) "cc_state (bs_circuit s) = OPEN_STATE"
    using assms(1) by (auto simp: outage_inv_def)
  then show ?thesis
  proof cases
    case closed
    then show ?thesis using assms Some by (simp add: start_job_def outage_inv_def fire_start_def)
  next
    case opened
    then have "remainingOpenMs chatbotCircuit (bs_now s) (bs_circuit s) = 30000 - (bs_now s - cc_lastFailureTime (bs_circuit s))"
      "0 < remainingOpenMs chatbotCircuit (bs_now s) (bs_circuit s)"
      using assms by (auto simp: outage_inv_def remainingOpenMs_def chatbotCircuit_def)
    then show ?thesis
      using assms Some opened by (simp add: start_job_def outage_inv_def fire_start_def Let_def)
  qed
qed

lemma call_fails_outage:
  assumes "outage_inv t s" "job \<in> set (bs_active s)"
  shows "outage_inv t (call_fails job s)"
proof -
  have "length (remove1 job (bs_active s)) = length (bs_active s) - 1" "length (bs_active s) \<ge> 1"
    using assms(2) by (auto simp: length_remove1 Suc_le_eq)
  then show ?thesis
    using assms(1) by (auto simp: outage_inv_def call_fails_def onFailure_def Let_def chatbotCircuit_def)
qed

lemma bridge_step_outage:
  assumes "bridge_step cfg False s s'" "bs_now s' < t + 30000" "outage_inv t s"
  shows "outage_inv t s'"
  using assms
proof (induction rule: bridge_step.induct)
  case (take s xs job ys)
  have "bs_now (start_job cfg job r) = bs_now r" for r
    by (simp add: start_job_def Let_def split: option.splits prod.splits bool.splits)
  then have "bs_now s < t + 30000" using take.prems(1) by simp
  then show ?case
    using take by (intro start_job_outage) (simp_all add: outage_inv_def concurrency_def)
next
  case (failure job s)
  then show ?case by (intro call_fails_outage)
qed (auto simp: outage_inv_def)

lemma bridge_step_time: "bridge_step cfg up s s' \<Longrightarrow> bs_now s \<le> bs_now s'"
  by (induction rule: bridge_step.induct)
    (simp_all add: start_job_def call_answers_def call_fails_def Let_def split: option.splits prod.splits bool.splits)

text \<open>C16. When the chatbot service does not answer for 30 seconds, whatever jobs arrive and in whatever
  order calls fail: at most seven calls are made, so at most seven attempts of jobs are used up
  (five failures, and the two other jobs that may be running when the breaker opens), and every
  job that is delayed is due at least 35 seconds after the start of the outage.\<close>

theorem outage_spares_jobs:
  assumes "(bridge_step cfg False)\<^sup>*\<^sup>* (idle_bridge t) s" "bs_now s < t + 30000"
  shows "length (bs_calls s) \<le> 7 \<and> length (bs_thrown s) \<le> 7 \<and> list_all (\<lambda>(due, j). t + 35000 \<le> due) (bs_delayed s)"
proof -
  have "outage_inv t s"
    using assms
  proof (induction rule: rtranclp_induct)
    case base
    then show ?case by (simp add: outage_inv_def idle_bridge_def new_circuit_def)
  next
    case (step s s')
    then show ?case using bridge_step_outage [OF step.hyps(2)] bridge_step_time [OF step.hyps(2)] by fastforce
  qed
  then show ?thesis by (auto simp: outage_inv_def)
qed

text \<open>Five jobs fail, a sixth one finds the breaker open.\<close>

definition example_bridge :: bridge_config where
  "example_bridge = \<lparr>bx_chatbot = [], bx_internalServiceToken = ''key'', bx_hmacEnabled = True,
     bx_sha256 = (\<lambda>b. ''h'' @ b), bx_hmac = (\<lambda>k p. k @ p)\<rparr>"

definition example_work :: bridge_work where
  "example_work = \<lparr>bj_id = ''1'', bj_name = ''embed-texts'', bj_body = ''{}'', bj_requestId = None\<rparr>"

definition failed_once :: "bridge_state \<Rightarrow> bridge_state" where
  "failed_once s = call_fails example_work (start_job example_bridge example_work s)"

definition after_outage :: bridge_state where
  "after_outage = start_job example_bridge example_work ((failed_once ^^ 5) (idle_bridge 1000))"

lemma start_reachable:
  assumes "bs_waiting s = []" "bs_active s = []"
  shows "(bridge_step cfg up)\<^sup>*\<^sup>* s (start_job cfg job s)"
proof -
  have "bridge_step cfg up (s\<lparr>bs_waiting := [job]\<rparr>) (start_job cfg job ((s\<lparr>bs_waiting := [job]\<rparr>)\<lparr>bs_waiting := [] @ []\<rparr>))"
    using assms by (intro bridge_step.take) (simp_all add: concurrency_def)
  moreover have "s\<lparr>bs_waiting := []\<rparr> = s" using assms by (cases s) simp
  ultimately show ?thesis
    using bridge_step.arrive [of cfg up s job] assms(1) by (auto intro: converse_rtranclp_into_rtranclp)
qed

lemma failed_once_effect:
  assumes "cc_state (bs_circuit s) = CLOSED_STATE" "bs_waiting s = []" "bs_active s = []"
  shows "(bridge_step example_bridge False)\<^sup>*\<^sup>* s (failed_once s)"
    "bs_waiting (failed_once s) = []" "bs_active (failed_once s) = []" "bs_now (failed_once s) = bs_now s"
    "bs_circuit (failed_once s) = onFailure chatbotCircuit (bs_now s) (bs_circuit s)"
    "bs_thrown (failed_once s) = bs_thrown s @ [example_work]" "bs_delayed (failed_once s) = bs_delayed s"
proof -
  let ?s = "start_job example_bridge example_work s"
  have "handlers (bj_name example_work) = Some ''/internal/embed''" by code_simp
  then obtain c where s: "?s = s\<lparr>bs_active := [example_work], bs_calls := c\<rparr>"
    using assms by (auto simp: start_job_def fire_start_def)
  then have f: "bs_active ?s = [example_work]" "bs_waiting ?s = []" "bs_now ?s = bs_now s" "bs_circuit ?s = bs_circuit s"
    "bs_thrown ?s = bs_thrown s" "bs_delayed ?s = bs_delayed s"
    using assms(2) by (simp_all add: s)
  then show "bs_waiting (failed_once s) = []" "bs_active (failed_once s) = []" "bs_now (failed_once s) = bs_now s"
    "bs_circuit (failed_once s) = onFailure chatbotCircuit (bs_now s) (bs_circuit s)"
    "bs_thrown (failed_once s) = bs_thrown s @ [example_work]" "bs_delayed (failed_once s) = bs_delayed s"
    by (simp_all add: failed_once_def call_fails_def)
  have "bridge_step example_bridge False ?s (failed_once s)"
    unfolding failed_once_def by (rule bridge_step.failure) (simp add: f)
  then show "(bridge_step example_bridge False)\<^sup>*\<^sup>* s (failed_once s)"
    using start_reachable [OF assms(2,3)] by (rule rtranclp.rtrancl_into_rtrancl [rotated])
qed

lemma failures_so_far:
  assumes "n \<le> 5"
  shows "(bridge_step example_bridge False)\<^sup>*\<^sup>* (idle_bridge 1000) ((failed_once ^^ n) (idle_bridge 1000)) \<and>
    (let s = (failed_once ^^ n) (idle_bridge 1000) in bs_waiting s = [] \<and> bs_active s = [] \<and> bs_now s = 1000 \<and>
      bs_circuit s = (onFailure chatbotCircuit 1000 ^^ n) new_circuit \<and> length (bs_thrown s) = n \<and> bs_delayed s = [])"
  using assms
proof (induction n)
  case 0
  then show ?case by (simp add: idle_bridge_def)
next
  case (Suc n)
  then have "n \<in> {0, 1, 2, 3, 4}" by auto
  then have "cc_state ((onFailure chatbotCircuit 1000 ^^ n) new_circuit) = CLOSED_STATE"
    by (elim insertE emptyE; hypsubst) code_simp+
  then show ?case using Suc failed_once_effect [of "(failed_once ^^ n) (idle_bridge 1000)"]
    by (auto simp: Let_def intro: rtranclp_trans)
qed

lemma after_outage_reachable: "(bridge_step example_bridge False)\<^sup>*\<^sup>* (idle_bridge 1000) after_outage"
  using failures_so_far [of 5] start_reachable [of "(failed_once ^^ 5) (idle_bridge 1000)" example_bridge False example_work]
  unfolding after_outage_def by (auto simp: Let_def intro: rtranclp_trans)

theorem outage_spares_jobs_witness:
  "length (bs_thrown after_outage) = 5 \<and> List.map fst (bs_delayed after_outage) = [36000] \<and> length (bs_calls after_outage) \<le> 7"
proof -
  let ?c = "(onFailure chatbotCircuit 1000 ^^ 5) new_circuit"
  have "fire_start chatbotCircuit 1000 ?c = (False, ?c) \<and> remainingOpenMs chatbotCircuit 1000 ?c = 30000 \<and>
      handlers (bj_name example_work) = Some ''/internal/embed''"
    by code_simp
  then have "length (bs_thrown after_outage) = 5 \<and> List.map fst (bs_delayed after_outage) = [36000] \<and> bs_now after_outage = 1000"
    using failures_so_far [of 5] by (simp add: after_outage_def start_job_def Let_def)
  then show ?thesis using outage_spares_jobs [OF after_outage_reachable] by simp
qed

end
