(* ===== verification/Gateway_Config.thy ===== *)
theory Gateway_Config
  imports JS_Number AI_Automation
begin

section \<open>Configuration, logging, request context\<close>

text \<open>
  config/index.js: the environment variables (\<open>process.env\<close> after \<open>dotenv\<close>, a partial map) become
  the frozen object \<open>config\<close>, whose sections are records here; config/logger.js: the level, the
  transports and serializers of the logger; utils/requestId.js: the request id that jobs inherit.
  A Number is the rational it denotes; integers beyond 2 to the 53rd are rounded as the host does.
\<close>

type_synonym environment = "string \<Rightarrow> string option"

subsection \<open>Number(text)\<close>

text \<open>Doubles are finite below this bound; \<open>None\<close> is NaN or an infinity.\<close>

definition finite_number :: "rat \<Rightarrow> rat option" where
  "finite_number x = (if \<bar>x\<bar> < 2 ^ 1024 - 2 ^ 970 then Some (dbl x) else None)"

definition span_digits :: "string \<Rightarrow> string \<times> string" where
  "span_digits s = (takeWhile (\<lambda>c. digit_value c \<noteq> None) s, dropWhile (\<lambda>c. digit_value c \<noteq> None) s)"

definition digits_value :: "string \<Rightarrow> int" where
  "digits_value ds = foldl (\<lambda>acc d. 10 * acc + int (the (digit_value d))) 0 ds"

definition radix_digit :: "char \<Rightarrow> nat option" where
  "radix_digit c =
     (case digit_value c of
        Some d \<Rightarrow> Some d
      | None \<Rightarrow> let n = of_char (lower_char c) :: nat in if 97 \<le> n \<and> n \<le> 102 then Some (n - 87) else None)"

definition parse_radix :: "nat \<Rightarrow> string \<Rightarrow> rat option" where
  "parse_radix base s =
     (if s = [] \<or> list_ex (\<lambda>c. case radix_digit c of None \<Rightarrow> True | Some d \<Rightarrow> base \<le> d) s then None
      else Some (of_int (foldl (\<lambda>acc c. int base * acc + int (the (radix_digit c))) 0 s)))"

text \<open>The exponent, if the text goes on with one, and the rest.\<close>

definition parse_exponent :: "string \<Rightarrow> int \<times> string" where
  "parse_exponent s =
     (case s of
        [] \<Rightarrow> (0, [])
      | c # cs \<Rightarrow>
          if lower_char c \<noteq> CHR ''e'' then (0, s)
          else let (neg, body) = (case cs of [] \<Rightarrow> (False, [])
                 | x # xs \<Rightarrow> if x = CHR ''-'' then (True, xs) else if x = CHR ''+'' then (False, xs) else (False, cs));
                 (ds, rest) = span_digits body
               in if ds = [] then (0, s) else (if neg then - digits_value ds else digits_value ds, rest))"

definition pow10 :: "int \<Rightarrow> rat" where
  "pow10 e = (if e \<ge> 0 then 10 ^ nat e else 1 / 10 ^ nat (- e))"

definition parse_decimal :: "string \<Rightarrow> rat option" where
  "parse_decimal t =
     (let (neg, body) = (case t of [] \<Rightarrow> (False, [])
        | c # cs \<Rightarrow> if c = CHR ''-'' then (True, cs) else if c = CHR ''+'' then (False, cs) else (False, t));
          (whole, r1) = span_digits body;
          (fraction, r2) = (case r1 of [] \<Rightarrow> ([], []) | c # cs \<Rightarrow> if c = CHR ''.'' then span_digits cs else ([], r1));
          (e, rest) = parse_exponent r2;
          x = of_int (digits_value (whole @ fraction)) * pow10 (e - int (length fraction))
      in if whole @ fraction = [] \<or> rest \<noteq> [] then None else Some (if neg then - x else x))"

text \<open>The number a text denotes, before it is rounded; \<open>None\<close> also for the word Infinity.\<close>

definition number_value :: "string \<Rightarrow> rat option" where
  "number_value s =
     (let t = js_trim s in
      if t = [] then Some 0
      else if prefix ''0x'' (toLowerCase t) then parse_radix 16 (drop 2 t)
      else if prefix ''0o'' (toLowerCase t) then parse_radix 8 (drop 2 t)
      else if prefix ''0b'' (toLowerCase t) then parse_radix 2 (drop 2 t)
      else parse_decimal t)"

definition js_to_number :: "string \<Rightarrow> rat option" where
  "js_to_number s = (case number_value s of None \<Rightarrow> None | Some x \<Rightarrow> finite_number x)"

subsection \<open>Helpers (config/index.js)\<close>

definition toInt :: "string option \<Rightarrow> int \<Rightarrow> int" where
  "toInt val fallback =
     (case val of
        None \<Rightarrow> fallback
      | Some v \<Rightarrow>
          (case js_parseInt v of
             None \<Rightarrow> fallback
           | Some n \<Rightarrow> (case finite_number (of_int n) of None \<Rightarrow> fallback | Some x \<Rightarrow> \<lfloor>x\<rfloor>)))"

definition toNum :: "string option \<Rightarrow> rat \<Rightarrow> rat" where
  "toNum val fallback =
     (case val of
        None \<Rightarrow> fallback
      | Some v \<Rightarrow> (case js_to_number v of None \<Rightarrow> fallback | Some x \<Rightarrow> x))"

definition secondsToMs :: "string option \<Rightarrow> int \<Rightarrow> int" where
  "secondsToMs val fallbackSeconds = toInt val fallbackSeconds * 1000"

definition daysToMs :: "string option \<Rightarrow> int \<Rightarrow> int" where
  "daysToMs val fallbackDays = toInt val fallbackDays * 86400000"

definition required :: "bool \<Rightarrow> string option \<Rightarrow> string \<Rightarrow> string option result" where
  "required isTest val name =
     (if \<not> truthy val \<and> \<not> isTest then Inl (ConfigError (''Missing required env var: '' @ name)) else Inr val)"

text \<open>\<open>process.env.X || d\<close>\<close>

definition env_or :: "string option \<Rightarrow> string \<Rightarrow> string" where
  "env_or val d = (if truthy val then the val else d)"

subsection \<open>The object\<close>

record breaker_section =
  bs_failureThreshold :: int
  bs_resetTimeoutMs :: int

record database_section =
  ds_url :: "string option"
  ds_readUrl :: "string option"
  ds_testUrl :: "string option"
  ds_poolSize :: int
  ds_poolTimeoutMs :: int
  ds_circuitBreaker :: breaker_section

record redis_section =
  rs_url :: "string option"
  rs_connectTimeoutMs :: int
  rs_maxConnections :: int
  rs_circuitBreaker :: breaker_section

record secrets_section =
  ss_jwtSecret :: "string option"
  ss_jwtRefreshSecret :: "string option"
  ss_bcryptSaltRounds :: int
  ss_openAiApiKey :: "string option"
  ss_internalServiceToken :: "string option"

record automation_section =
  as_queueName :: string
  as_processCommentJobName :: string
  as_retryLimit :: rat
  as_retryBackoffMs :: rat
  as_dlqMaxEntries :: rat
  as_idempotencyTtlMs :: int
  as_processingLockTtlMs :: int

record guards_section =
  gs_timeoutMs :: rat
  gs_retries :: rat
  gs_retryDelayMs :: rat

record ai_section =
  ai_provider :: string
  ai_model :: string
  ai_automation :: automation_section
  ai_providerGuards :: guards_section
  ai_promptCostPer1kTokens :: rat
  ai_completionCostPer1kTokens :: rat
  ai_cacheEnabled :: bool
  ai_cacheTtlMs :: int
  ai_monitoringEnabled :: bool
  ai_traceSamplingRate :: rat

record scraper_section =
  sc_workerConcurrency :: int
  sc_cacheTtlMs :: int
  sc_cleanupCron :: string
  sc_retentionMs :: int
  sc_freshnessTtlMs :: int
  sc_maxPageBytes :: int
  sc_fetchTimeoutMs :: int
  sc_puppeteerEnabled :: bool
  sc_puppeteerTimeoutMs :: int
  sc_thinWordThreshold :: int

record config =
  cf_port :: string
  cf_nodeEnv :: string
  cf_logLevel :: "string option"
  cf_requestTimeoutMs :: int
  cf_shutdownTimeoutMs :: int
  cf_database :: database_section
  cf_redis :: redis_section
  cf_secrets :: secrets_section
  cf_accessTokenExpiresIn :: string
  cf_refreshTokenExpiresIn :: string
  cf_chatbot :: "string option"
  cf_notification :: "string option"
  cf_kafkaBroker :: "string option"
  cf_hmacEnabled :: bool
  cf_ai :: ai_section
  cf_scraper :: scraper_section

definition breaker_of :: "environment \<Rightarrow> string \<Rightarrow> string \<Rightarrow> breaker_section" where
  "breaker_of env threshold timeout =
     \<lparr>bs_failureThreshold = toInt (env threshold) 5, bs_resetTimeoutMs = toInt (env timeout) 30000\<rparr>"

definition ai_section_of :: "environment \<Rightarrow> ai_section" where
  "ai_section_of env =
     \<lparr>ai_provider = env_or (env ''AI_PROVIDER'') ''openai'', ai_model = env_or (env ''AI_MODEL'') ''gpt-4.1-mini'',
      ai_automation =
        \<lparr>as_queueName = env_or (env ''AI_AUTOMATION_QUEUE_NAME'') ''ai-automation'',
         as_processCommentJobName = env_or (env ''AI_AUTOMATION_PROCESS_COMMENT_JOB_NAME'') ''process-ticket-comment'',
         as_retryLimit = toNum (env ''AI_AUTOMATION_RETRY_LIMIT'') 3,
         as_retryBackoffMs = toNum (env ''AI_AUTOMATION_RETRY_BACKOFF_MS'') 1000,
         as_dlqMaxEntries = toNum (env ''AI_AUTOMATION_DLQ_MAX_ENTRIES'') 1000,
         as_idempotencyTtlMs = secondsToMs (env ''AI_AUTOMATION_IDEMPOTENCY_TTL_SECONDS'') 604800,
         as_processingLockTtlMs = secondsToMs (env ''AI_AUTOMATION_PROCESSING_LOCK_TTL_SECONDS'') 300\<rparr>,
      ai_providerGuards =
        \<lparr>gs_timeoutMs = toNum (env ''AI_PROVIDER_TIMEOUT_MS'') 15000, gs_retries = toNum (env ''AI_PROVIDER_RETRIES'') 3,
         gs_retryDelayMs = toNum (env ''AI_PROVIDER_RETRY_DELAY_MS'') 500\<rparr>,
      ai_promptCostPer1kTokens = toNum (env ''AI_PROMPT_COST_PER_1K_TOKENS'') (dbl (15 / 100000)),
      ai_completionCostPer1kTokens = toNum (env ''AI_COMPLETION_COST_PER_1K_TOKENS'') (dbl (6 / 10000)),
      ai_cacheEnabled = (env ''AI_CACHE_ENABLED'' \<noteq> Some ''false''),
      ai_cacheTtlMs = secondsToMs (env ''AI_CACHE_TTL_SECONDS'') 300,
      ai_monitoringEnabled = (env ''AI_MONITORING_ENABLED'' \<noteq> Some ''false''),
      ai_traceSamplingRate = toNum (env ''AI_TRACE_SAMPLING_RATE'') 1\<rparr>"

definition scraper_section_of :: "environment \<Rightarrow> scraper_section" where
  "scraper_section_of env =
     \<lparr>sc_workerConcurrency = toInt (env ''SCRAPER_WORKER_CONCURRENCY'') 3,
      sc_cacheTtlMs = secondsToMs (env ''SCRAPER_CACHE_TTL_SECONDS'') 86400,
      sc_cleanupCron = (case env ''SCRAPER_CLEANUP_CRON'' of Some c \<Rightarrow> c | None \<Rightarrow> ''0 2 * * *''),
      sc_retentionMs = daysToMs (env ''SCRAPER_RETENTION_DAYS'') 30,
      sc_freshnessTtlMs = toInt (env ''SCRAPER_FRESHNESS_TTL_MS'') (24 * 60 * 60 * 1000),
      sc_maxPageBytes = toInt (env ''SCRAPER_MAX_PAGE_BYTES'') (5 * 1024 * 1024),
      sc_fetchTimeoutMs = toInt (env ''SCRAPER_FETCH_TIMEOUT_MS'') 15000,
      sc_puppeteerEnabled = (env ''SCRAPER_PUPPETEER_ENABLED'' = Some ''true''),
      sc_puppeteerTimeoutMs = toInt (env ''SCRAPER_PUPPETEER_TIMEOUT_MS'') 30000,
      sc_thinWordThreshold = toInt (env ''SCRAPER_THIN_WORD_THRESHOLD'') 50\<rparr>"

text \<open>Loading throws at the first required variable that is missing.\<close>

definition load_config :: "environment \<Rightarrow> config result" where
  "load_config env =
     (let isTest = (env ''NODE_ENV'' = Some ''test'') in
      case required isTest (env ''DATABASE_URL'') ''DATABASE_URL'' of
        Inl e \<Rightarrow> Inl e
      | Inr url \<Rightarrow>
          (case required isTest (env ''JWT_SECRET'') ''JWT_SECRET'' of
             Inl e \<Rightarrow> Inl e
           | Inr jwtSecret \<Rightarrow>
               (case (if truthy (env ''JWT_REFRESH_SECRET'') then Inr (env ''JWT_REFRESH_SECRET'')
                      else required isTest (env ''JWT_SECRET'') ''JWT_SECRET'') of
                  Inl e \<Rightarrow> Inl e
                | Inr jwtRefreshSecret \<Rightarrow>
                    Inr \<lparr>cf_port = env_or (env ''PORT'') ''5000'', cf_nodeEnv = env_or (env ''NODE_ENV'') ''development'',
                      cf_logLevel = env ''LOG_LEVEL'',
                      cf_requestTimeoutMs = toInt (env ''REQUEST_TIMEOUT_MS'') 30000,
                      cf_shutdownTimeoutMs = toInt (env ''SHUTDOWN_TIMEOUT_MS'') 15000,
                      cf_database =
                        \<lparr>ds_url = url, ds_readUrl = env ''DATABASE_READ_URL'', ds_testUrl = env ''DATABASE_URL_TEST'',
                         ds_poolSize = toInt (env ''DB_POOL_SIZE'') 10,
                         ds_poolTimeoutMs = secondsToMs (env ''DB_POOL_TIMEOUT'') 20,
                         ds_circuitBreaker = breaker_of env ''DB_CB_FAILURE_THRESHOLD'' ''DB_CB_RESET_TIMEOUT_MS''\<rparr>,
                      cf_redis =
                        \<lparr>rs_url = env ''REDIS_URL'', rs_connectTimeoutMs = toInt (env ''REDIS_CONNECT_TIMEOUT_MS'') 10000,
                         rs_maxConnections = toInt (env ''REDIS_MAX_CONNECTIONS'') 10,
                         rs_circuitBreaker = breaker_of env ''REDIS_CB_FAILURE_THRESHOLD'' ''REDIS_CB_RESET_TIMEOUT_MS''\<rparr>,
                      cf_secrets =
                        \<lparr>ss_jwtSecret = jwtSecret, ss_jwtRefreshSecret = jwtRefreshSecret,
                         ss_bcryptSaltRounds = toInt (env ''BCRYPT_SALT_ROUNDS'') 12,
                         ss_openAiApiKey = env ''OPENAI_API_KEY'', ss_internalServiceToken = env ''INTERNAL_SERVICE_TOKEN''\<rparr>,
                      cf_accessTokenExpiresIn = env_or (env ''ACCESS_TOKEN_EXPIRES_IN'') ''15m'',
                      cf_refreshTokenExpiresIn = env_or (env ''REFRESH_TOKEN_EXPIRES_IN'') ''7d'',
                      cf_chatbot = env ''CHATBOT_SERVICE_URL'', cf_notification = env ''NOTIFICATION_SERVICE_URL'',
                      cf_kafkaBroker = env ''KAFKA_BROKER'', cf_hmacEnabled = (env ''INTERNAL_HMAC_ENABLED'' \<noteq> Some ''false''),
                      cf_ai = ai_section_of env, cf_scraper = scraper_section_of env\<rparr>)))"

subsection \<open>Logging (config/logger.js)\<close>

definition isDev :: "config \<Rightarrow> bool" where
  "isDev cfg = (cf_nodeEnv cfg = ''development'')"

definition isTest :: "config \<Rightarrow> bool" where
  "isTest cfg = (cf_nodeEnv cfg = ''test'')"

definition log_level :: "config \<Rightarrow> string" where
  "log_level cfg = env_or (cf_logLevel cfg) (if isTest cfg then ''silent'' else if isDev cfg then ''debug'' else ''info'')"

datatype log_target = Pretty_console | Json_stdout | Rolling_file

definition buildTransports :: "config \<Rightarrow> (log_target \<times> string) list option" where
  "buildTransports cfg =
     (let console = (if isDev cfg then [Pretty_console] else if \<not> isTest cfg then [Json_stdout] else []);
          targets = console @ (if \<not> isTest cfg then [Rolling_file] else [])
      in if targets = [] then None else Some (List.map (\<lambda>t. (t, log_level cfg)) targets))"

text \<open>The serializers: a user without \<open>password\<close> and \<open>token\<close>; an object is the list of its properties.\<close>

definition serialize_user :: "(string \<times> string) list option \<Rightarrow> (string \<times> string) list option" where
  "serialize_user user = map_option (List.filter (\<lambda>(k, v). k \<noteq> ''password'' \<and> k \<noteq> ''token'')) user"

record request_line =
  rl_method :: string
  rl_url :: string
  rl_remoteAddress :: "string option"
  rl_requestId :: "string option"

definition serialize_req :: "string \<Rightarrow> string \<Rightarrow> string option \<Rightarrow> string option \<Rightarrow> request_line" where
  "serialize_req verb url remoteAddress i =
     \<lparr>rl_method = verb, rl_url = url, rl_remoteAddress = remoteAddress, rl_requestId = i\<rparr>"

definition REDACT_PATHS :: "string list" where
  "REDACT_PATHS = [''req.headers.authorization'', ''req.headers.cookie'', ''password'', ''token'', ''secret'']"

text \<open>The store of the request context; \<open>Some reason\<close>: its signal is aborted.\<close>

record request_store =
  rs_requestId :: "string option"
  rs_aborted :: "string option option"

definition mixin :: "request_store option \<Rightarrow> (string \<times> string) list" where
  "mixin store =
     (case store of
        None \<Rightarrow> []
      | Some st \<Rightarrow>
          if \<not> truthy (rs_requestId st) then []
          else (''requestId'', the (rs_requestId st)) #
            (case rs_aborted st of
               None \<Rightarrow> []
             | Some reason \<Rightarrow> [(''aborted'', ''true''), (''abortReason'', the_default ''unknown'' reason)]))"

subsection \<open>Request ids of jobs (utils/requestId.js)\<close>

definition getCurrentRequestId :: "request_store option \<Rightarrow> string option" where
  "getCurrentRequestId store = (case store of None \<Rightarrow> None | Some st \<Rightarrow> rs_requestId st)"

definition checkAbort :: "request_store option \<Rightarrow> unit result" where
  "checkAbort store =
     (case store of
        None \<Rightarrow> Inr ()
      | Some st \<Rightarrow> (case rs_aborted st of
          None \<Rightarrow> Inr () | Some reason \<Rightarrow> Inl (RequestAbortedError (the_default ''unknown'' reason))))"

text \<open>A payload is the list of its properties; a spread property replaces one of the same name.\<close>

definition withRequestId :: "request_store option \<Rightarrow> (string \<times> string) list \<Rightarrow> (string \<times> string) list" where
  "withRequestId store payload =
     (if truthy (getCurrentRequestId store)
      then AList.update ''requestId'' (the (getCurrentRequestId store)) payload else payload)"

text \<open>The context a job runs in: its payload and its id.\<close>

definition runWithJobContext :: "(string \<times> string) list \<Rightarrow> string \<Rightarrow> request_store" where
  "runWithJobContext data jobId =
     \<lparr>rs_requestId = Some (case map_of data ''requestId'' of Some r \<Rightarrow> r | None \<Rightarrow> jobId), rs_aborted = None\<rparr>"

subsection \<open>Properties\<close>

text \<open>The process starts without configuration exactly when a required variable is missing outside of tests.\<close>

lemma load_config_error:
  "(\<exists>e. load_config env = Inl e) \<longleftrightarrow>
     env ''NODE_ENV'' \<noteq> Some ''test'' \<and> (\<not> truthy (env ''DATABASE_URL'') \<or> \<not> truthy (env ''JWT_SECRET''))"
proof -
  have step: "(\<exists>e. (case a of Inl e \<Rightarrow> Inl e | Inr x \<Rightarrow> f x) = Inl e) \<longleftrightarrow> (\<exists>e. a = Inl e) \<or> (\<exists>x. a = Inr x \<and> (\<exists>e. f x = Inl e))"
    for a :: "'a result" and f :: "'a \<Rightarrow> 'b result" by (cases a) auto
  have req: "(\<exists>e. required t v n = Inl e) \<longleftrightarrow> \<not> truthy v \<and> \<not> t" "required t v n = Inr w \<longleftrightarrow> (truthy v \<or> t) \<and> w = v"
    "(\<exists>e. (if truthy u then Inr u else required t v n) = Inl e) \<longleftrightarrow> \<not> truthy u \<and> \<not> truthy v \<and> \<not> t" for t u v n w
    by (auto simp: required_def)
  show ?thesis
    unfolding load_config_def Let_def by (simp only: step req sum.distinct simp_thms ex_simps) blast
qed

lemma load_config_first_error:
  assumes "env ''NODE_ENV'' \<noteq> Some ''test''" "\<not> truthy (env ''DATABASE_URL'')"
  shows "load_config env = Inl (ConfigError (''Missing required env var: '' @ ''DATABASE_URL''))"
  using assms unfolding load_config_def Let_def required_def by (simp del: append_Cons)

text \<open>Without a refresh secret of its own, tokens of both kinds would be signed with the same secret.\<close>

lemma refresh_secret_fallback:
  assumes "load_config env = Inr cfg" "\<not> truthy (env ''JWT_REFRESH_SECRET'')"
  shows "ss_jwtRefreshSecret (cf_secrets cfg) = ss_jwtSecret (cf_secrets cfg)"
  using assms unfolding load_config_def Let_def required_def
  by (auto split: if_splits)

text \<open>\<open>parseInt\<close> stops at the first character that is no digit: a unit is ignored.\<close>

lemma js_parseInt_unit:
  assumes "u = [] \<or> digit_value (hd u) = None"
  shows "js_parseInt (show_decimal n @ u) = Some (int n)"
proof -
  let ?s = "show_decimal n"
  have d: "\<And>c. c \<in> set ?s \<Longrightarrow> digit_value c \<noteq> None" by (rule show_decimal_digits)
  obtain c cs where s: "?s = c # cs" using show_decimal_ne by (cases ?s) auto
  have "digit_value c \<noteq> None" using d s by simp
  then have c: "\<not> is_space c" "c \<noteq> CHR ''-''" "c \<noteq> CHR ''+''"
    by (auto simp: digit_value_def is_space_def Let_def split: if_splits)
  have "takeWhile (\<lambda>c. digit_value c \<noteq> None) (?s @ u) = ?s @ takeWhile (\<lambda>c. digit_value c \<noteq> None) u"
    using d by (simp add: takeWhile_append2)
  also have "takeWhile (\<lambda>c. digit_value c \<noteq> None) u = []" using assms by (cases u) auto
  finally have t: "takeWhile (\<lambda>c. digit_value c \<noteq> None) (c # cs @ u) = c # cs" using s by simp
  show ?thesis
    using c t s parse_show_decimal [of n] by (simp add: js_parseInt_def)
qed

lemma toInt_unit:
  assumes "u = [] \<or> digit_value (hd u) = None" "finite_number (of_nat n) = Some (of_nat n)"
  shows "toInt (Some (show_decimal n @ u)) d = int n"
  using js_parseInt_unit [OF assms(1), of n] assms(2) by (simp add: toInt_def)

lemma finite_small: "\<bar>x\<bar> < 2 ^ 60 \<Longrightarrow> finite_number x = Some (dbl x)"
proof -
  assume "\<bar>x\<bar> < 2 ^ 60"
  moreover have "(2 :: rat) ^ 60 \<le> 2 ^ 1024 - 2 ^ 970"
  proof -
    have "(2 :: rat) ^ 1024 = 2 ^ 970 * 2 ^ 54" by (simp only: power_add [symmetric]) simp
    moreover have "(2 :: rat) ^ 60 \<le> 2 ^ 970" by (rule power_increasing) simp_all
    moreover have "(2 :: rat) ^ 970 * 2 \<le> 2 ^ 970 * 2 ^ 54" by (rule mult_left_mono) simp_all
    ultimately show ?thesis by linarith
  qed
  ultimately show ?thesis by (simp add: finite_number_def)
qed

text \<open>Fifteen seconds written with a unit are fifteen milliseconds.\<close>

lemma timeout_with_unit: "toInt (Some (show_decimal 15 @ ''s'')) 15000 = 15"
proof -
  have d: "dbl 15 = 15" by code_simp
  have u: "digit_value (hd ''s'') = None" by code_simp
  show ?thesis using toInt_unit [of "''s''" 15 15000] u d finite_small [of 15] by simp
qed

text \<open>An empty variable is a zero for \<open>toNum\<close>, and the default for \<open>toInt\<close>.\<close>

lemma empty_variable: "toNum (Some []) d = 0" "toInt (Some []) k = k"
proof -
  have "number_value [] = Some 0" "dbl 0 = 0" by code_simp+
  then show "toNum (Some []) d = 0" using finite_small [of 0] by (simp add: toNum_def js_to_number_def)
  have "js_parseInt [] = None" by code_simp
  then show "toInt (Some []) k = k" by (simp add: toInt_def)
qed

lemma unset_variable: "toNum None d = d" "toInt None k = k"
  by (simp_all add: toNum_def toInt_def)

lemma numbers_read:
  "number_value ''0.00015'' = Some (15 / 100000)" "number_value '' 1e3 '' = Some 1000"
  "number_value ''0x10'' = Some 16" "number_value ''-.5'' = Some (- 1 / 2)" "number_value ''12px'' = None"
  by code_simp+

text \<open>
  With \<open>AI_PROVIDER_TIMEOUT_MS\<close> set to the empty string the timeout is zero, and no call of the
  provider is in time: the automation answers no comment any more.
\<close>

lemma empty_timeout_stops_ai:
  assumes "load_config env = Inr cfg" "env ''AI_PROVIDER_TIMEOUT_MS'' = Some []"
    and "ae_timeoutMs e = \<lfloor>gs_timeoutMs (ai_providerGuards (cf_ai cfg))\<rfloor>" "0 \<le> ae_retries e"
    and "\<And>k t r. ae_provider e k = Some (t, r) \<Longrightarrow> 0 \<le> t"
  shows "\<exists>err. generateAIResponse e = Inl err"
proof -
  have "cf_ai cfg = ai_section_of env"
    using assms(1) by (auto simp: load_config_def Let_def split: sum.splits if_splits)
  then have z: "ae_timeoutMs e = 0"
    using assms(2,3) empty_variable(1) by (simp add: ai_section_of_def)
  have f: "withTimeout (ae_provider e k) 0 m = Inl \<lparr>he_code = [], he_message = m\<rparr>" for k m
    using assms(5) [of k] by (auto simp: withTimeout_def split: option.split)
  have "isl (fst (executeWithProviderGuards 0 (ae_retries e) (ae_retryDelayMs e) (ae_provider e) m))" for m
    unfolding executeWithProviderGuards_def withRetry_spec [OF assms(4)] by (simp add: f)
  then show ?thesis
    unfolding generateAIResponse_def z by (auto split: sum.split) (metis sum.disc(2))
qed

lemma no_transports_in_tests: "buildTransports cfg = None \<longleftrightarrow> isTest cfg"
  by (auto simp: buildTransports_def isTest_def isDev_def Let_def)

lemma file_log: "buildTransports cfg = Some ts \<Longrightarrow> (Rolling_file, log_level cfg) \<in> set ts \<and>
    ((Pretty_console, log_level cfg) \<in> set ts \<longleftrightarrow> isDev cfg)"
  by (auto simp: buildTransports_def isTest_def isDev_def Let_def split: if_splits)

lemma logged_user_safe: "serialize_user (Some u) = Some u' \<Longrightarrow> ''password'' \<notin> fst ` set u' \<and> ''token'' \<notin> fst ` set u'"
  by (auto simp: serialize_user_def)

text \<open>A job enqueued by a request runs under its id, any other job under its own.\<close>

lemma job_inherits_request:
  assumes "truthy (getCurrentRequestId store)"
  shows "getCurrentRequestId (Some (runWithJobContext (withRequestId store payload) jobId)) = getCurrentRequestId store"
proof -
  obtain r where r: "getCurrentRequestId store = Some r" "r \<noteq> []" using truthyD [OF assms] by blast
  have "runWithJobContext (AList.update ''requestId'' r payload) jobId = \<lparr>rs_requestId = Some r, rs_aborted = None\<rparr>"
    by (simp add: runWithJobContext_def update_conv)
  then show ?thesis using r assms by (simp add: withRequestId_def getCurrentRequestId_def)
qed

lemma job_of_no_request:
  assumes "\<not> truthy (getCurrentRequestId store)" "map_of payload ''requestId'' = None"
  shows "getCurrentRequestId (Some (runWithJobContext (withRequestId store payload) jobId)) = Some jobId"
  using assms by (simp add: getCurrentRequestId_def runWithJobContext_def withRequestId_def)

lemma jobs_never_abort: "checkAbort (Some (runWithJobContext payload jobId)) = Inr ()"
  by (simp add: checkAbort_def runWithJobContext_def)

lemma abort_logged:
  assumes "checkAbort (Some st) = Inl e" "truthy (rs_requestId st)"
  shows "\<exists>reason. e = RequestAbortedError reason \<and> map_of (mixin (Some st)) ''abortReason'' = Some reason"
  using assms by (auto simp: checkAbort_def mixin_def split: option.splits)

end
