(* ===== verification/Lifecycle.thy ===== *)
theory Lifecycle
  imports Connections JS_Number
begin

section \<open>Start and shutdown of the two processes\<close>

text \<open>
  server.js and worker.js. Times are milliseconds since the signal. A promise is nothing when it
  never settles, or the time it takes with its outcome. What the sockets, the WebSocket
  gateway, the workers and the stores do is a parameter. The timer that destroys the sockets is set
  to 60 percent of the timeout, which is exact for the default of 15 seconds.
\<close>

type_synonym promise = "(int \<times> (host_error + unit)) option"

subsection \<open>Start\<close>

datatype start_error = Config_error string | Start_error host_error

text \<open>The phases in order, up to the first one that fails; every failure ends the process with status 1.\<close>

fun run_phases :: "(string \<times> (host_error + unit)) list \<Rightarrow> string list \<times> host_error option" where
  "run_phases [] = ([], None)"
| "run_phases ((name, Inl e) # ps) = ([], Some e)"
| "run_phases ((name, Inr _) # ps) = (case run_phases ps of (done, e) \<Rightarrow> (name # done, e))"

definition startServer :: "host_error + unit \<Rightarrow> host_error + unit \<Rightarrow> string list \<times> start_error option" where
  "startServer databaseUp listening =
     (case run_phases [(''database'', databaseUp), (''redis'', Inr ()), (''websocket'', Inr ()), (''listen'', listening)] of
        (done, e) \<Rightarrow> (done, map_option Start_error e))"

definition startWorkers ::
    "string option \<Rightarrow> host_error + unit \<Rightarrow> host_error + unit \<Rightarrow> string list \<times> start_error option" where
  "startWorkers redisUrl databaseUp workersReady =
     (if \<not> truthy redisUrl then ([], Some (Config_error ''REDIS_URL is required for the worker process''))
      else case run_phases [(''database'', databaseUp), (''redis'', Inr ()), (''workers'', workersReady), (''crons'', Inr ())] of
        (done, e) \<Rightarrow> (done, map_option Start_error e))"

subsection \<open>Waiting\<close>

text \<open>\<open>Promise.race\<close> with a timer.\<close>

definition late_error :: "string \<Rightarrow> int \<Rightarrow> host_error" where
  "late_error label ms = \<lparr>he_code = [], he_message = label @ '' timed out after '' @ show_int ms @ ''ms''\<rparr>"

definition race :: "string \<Rightarrow> int \<Rightarrow> promise \<Rightarrow> int \<times> (host_error + unit)" where
  "race label ms p =
     (case p of
        Some (t, r) \<Rightarrow> if t < ms then (t, r) else (ms, Inl (late_error label ms))
      | None \<Rightarrow> (ms, Inl (late_error label ms)))"

text \<open>\<open>Promise.allSettled\<close>: when the last one settles, if all do, and the names of the rejected ones.\<close>

definition latest :: "int list \<Rightarrow> int" where
  "latest ts = fold max ts 0"

definition settled_at :: "promise list \<Rightarrow> int option" where
  "settled_at ps = (if None \<in> set ps then None else Some (latest (List.map (\<lambda>p. fst (the p)) ps)))"

definition rejected :: "(string \<times> promise) list \<Rightarrow> string list" where
  "rejected ps = List.map fst (List.filter (\<lambda>(_, p). case p of Some (_, Inl _) \<Rightarrow> True | _ \<Rightarrow> False) ps)"

lemma latest_le: "0 \<le> b \<Longrightarrow> list_all (\<lambda>t. t \<le> b) ts \<Longrightarrow> latest ts \<le> b"
proof -
  have "0 \<le> b \<Longrightarrow> list_all (\<lambda>t. t \<le> b) ts \<Longrightarrow> a \<le> b \<Longrightarrow> fold max ts a \<le> b" for a
    by (induction ts arbitrary: a) simp_all
  then show "0 \<le> b \<Longrightarrow> list_all (\<lambda>t. t \<le> b) ts \<Longrightarrow> latest ts \<le> b" by (simp add: latest_def)
qed

lemma latest_nonneg: "0 \<le> latest ts"
proof -
  have "a \<le> fold max ts a" for a :: int
    by (induction ts arbitrary: a) (simp_all, metis max.bounded_iff)
  then show ?thesis by (simp add: latest_def)
qed

subsection \<open>Shutdown (gracefulShutdown)\<close>

text \<open>The end of the process: its status and time, when the stores were told to disconnect, and what was logged as failed.\<close>

record shutdown_report =
  sr_status :: int
  sr_at :: int
  sr_storesAt :: "int option"
  sr_failed :: "string list"

text \<open>The last phase of both processes, and the timer that ends the process by force.\<close>

definition stop_stores :: "int \<Rightarrow> int option \<Rightarrow> string list \<Rightarrow> promise \<Rightarrow> promise \<Rightarrow> shutdown_report" where
  "stop_stores T started failed database redis =
     (case started of
        None \<Rightarrow> \<lparr>sr_status = 1, sr_at = T, sr_storesAt = None, sr_failed = failed\<rparr>
      | Some t \<Rightarrow>
          if T \<le> t then \<lparr>sr_status = 1, sr_at = T, sr_storesAt = None, sr_failed = failed\<rparr>
          else case settled_at [database, redis] of
            None \<Rightarrow> \<lparr>sr_status = 1, sr_at = T, sr_storesAt = Some t, sr_failed = failed\<rparr>
          | Some d \<Rightarrow>
              if T \<le> t + d then \<lparr>sr_status = 1, sr_at = T, sr_storesAt = Some t, sr_failed = failed\<rparr>
              else \<lparr>sr_status = 0, sr_at = t + d, sr_storesAt = Some t,
                sr_failed = failed @ rejected [(''database'', database), (''redis'', redis)]\<rparr>)"

definition WORKER_STOP_TIMEOUT_MS :: int where
  "WORKER_STOP_TIMEOUT_MS = 5000"

definition worker_gracefulShutdown :: "int \<Rightarrow> (string \<times> promise) list \<Rightarrow> promise \<Rightarrow> promise \<Rightarrow> shutdown_report" where
  "worker_gracefulShutdown T workerStops database redis =
     (let results = List.map (\<lambda>(name, stop). (name, race (name @ ''-worker'') WORKER_STOP_TIMEOUT_MS stop)) workerStops;
          stopped = latest (List.map (\<lambda>(_, t, _). t) results);
          failed = List.map fst (List.filter (\<lambda>(_, _, r). isl r) results)
      in stop_stores T (Some stopped) failed database redis)"

text \<open>
  The server: the sockets that are open, with the time each would end at, and the outcome of
  \<open>server.close\<close>, which is an error when the server was not listening yet. An error of the first two
  phases ends the process with status 1.
\<close>

definition server_gracefulShutdown ::
    "int \<Rightarrow> int option list \<Rightarrow> bool \<Rightarrow> promise \<Rightarrow> promise \<Rightarrow> promise \<Rightarrow> shutdown_report" where
  "server_gracefulShutdown T sockets listening websocket database redis =
     (if \<not> listening then \<lparr>sr_status = 1, sr_at = 0, sr_storesAt = None, sr_failed = []\<rparr>
      else let destroy = T * 6 div 10;
               drained = latest (List.map (\<lambda>e. case e of None \<Rightarrow> destroy | Some t \<Rightarrow> min t destroy) sockets)
        in case websocket of
             None \<Rightarrow> stop_stores T None [] database redis
           | Some (w, Inr _) \<Rightarrow> stop_stores T (Some (drained + w)) [] database redis
           | Some (w, Inl _) \<Rightarrow>
               \<lparr>sr_status = 1, sr_at = min (drained + w) T, sr_storesAt = None, sr_failed = []\<rparr>)"

text \<open>A second signal does nothing: the first sets \<open>isShuttingDown\<close>.\<close>

definition on_signal :: "bool \<Rightarrow> shutdown_report \<Rightarrow> bool \<times> shutdown_report option" where
  "on_signal isShuttingDown report = (True, if isShuttingDown then None else Some report)"

subsection \<open>What a shutdown guarantees\<close>

lemma stop_stores_bounded:
  "(\<And>t. started = Some t \<Longrightarrow> 0 \<le> t) \<Longrightarrow> sr_at (stop_stores T started failed d r) \<le> T"
  by (auto simp: stop_stores_def split: option.splits)

lemma stop_stores_ok:
  "sr_status (stop_stores T started failed d r) = 0 \<longleftrightarrow>
    (\<exists>t e. started = Some t \<and> settled_at [d, r] = Some e \<and> t + e < T)"
  using latest_nonneg by (auto simp: stop_stores_def settled_at_def split: option.splits) (smt (verit))

lemma race_bounded: "0 \<le> ms \<Longrightarrow> fst (race l ms p) \<le> ms"
  by (auto simp: race_def split: option.splits)

text \<open>
  The worker process: it is gone within the timeout; workers that do not stop cost five seconds
  together, so the stores are always told to disconnect when the timeout is longer than that; the
  status is 0 when both stores answer in the rest of the time, whatever the workers do.
\<close>

lemma worker_shutdown:
  assumes "5000 < T"
  shows "sr_at (worker_gracefulShutdown T ws d r) \<le> T"
    "\<exists>t\<le>5000. sr_storesAt (worker_gracefulShutdown T ws d r) = Some t"
    "settled_at [d, r] = Some e \<Longrightarrow> e < T - 5000 \<Longrightarrow> sr_status (worker_gracefulShutdown T ws d r) = 0"
proof -
  let ?results = "List.map (\<lambda>(name, stop). (name, race (name @ ''-worker'') WORKER_STOP_TIMEOUT_MS stop)) ws"
  let ?stopped = "latest (List.map (\<lambda>(_, t, _). t) ?results)"
  let ?failed = "List.map fst (List.filter (\<lambda>(_, _, r). isl r) ?results)"
  have s: "?stopped \<le> 5000"
    using race_bounded [of WORKER_STOP_TIMEOUT_MS]
    by (intro latest_le) (auto simp: list_all_iff WORKER_STOP_TIMEOUT_MS_def case_prod_beta)
  have e: "worker_gracefulShutdown T ws d r = stop_stores T (Some ?stopped) ?failed d r"
    by (simp add: worker_gracefulShutdown_def Let_def)
  show "sr_at (worker_gracefulShutdown T ws d r) \<le> T"
    unfolding e by (rule stop_stores_bounded) (simp add: latest_nonneg)
  show "\<exists>t\<le>5000. sr_storesAt (worker_gracefulShutdown T ws d r) = Some t"
    unfolding e using s assms by (intro exI [of _ ?stopped]) (simp add: stop_stores_def split: option.split)
  show "sr_status (worker_gracefulShutdown T ws d r) = 0" if "settled_at [d, r] = Some e" "e < T - 5000"
    unfolding e stop_stores_ok using that s by (intro exI [of _ ?stopped] exI [of _ e]) simp
qed

text \<open>
  The server process: requests that are still running are cut off after nine of fifteen seconds, and
  an error of the WebSocket gateway ends the process without telling the stores.
\<close>

lemma server_shutdown:
  assumes "0 \<le> w" "w < 6000"
  shows "\<exists>t<15000. sr_storesAt (server_gracefulShutdown 15000 sockets True (Some (w, Inr ())) d r) = Some t"
    "sr_storesAt (server_gracefulShutdown 15000 sockets True (Some (w, Inl e)) d r) = None"
proof -
  let ?drained = "latest (List.map (\<lambda>e. case e of None \<Rightarrow> 9000 | Some t \<Rightarrow> min t 9000) sockets)"
  have "?drained \<le> 9000" by (intro latest_le) (auto simp: list_all_iff split: option.split)
  then show "\<exists>t<15000. sr_storesAt (server_gracefulShutdown 15000 sockets True (Some (w, Inr ())) d r) = Some t"
    using assms by (intro exI [of _ "?drained + w"]) (simp add: server_gracefulShutdown_def stop_stores_def Let_def split: option.split)
qed (simp add: server_gracefulShutdown_def Let_def)

text \<open>A start that fails has done nothing after the phase that failed.\<close>

lemma run_phases_prefix: "prefix (fst (run_phases ps)) (List.map fst ps)"
  by (induction ps rule: run_phases.induct) (auto split: prod.split)

end
