(* ===== verification/App_Shell.thy ===== *)
theory App_Shell
  imports Connections
begin

section \<open>The shell around the routes: admission, timeouts, health\<close>

text \<open>
  The middleware of app.js in front of every route (shutdown, load shedding, request timeout,
  metrics) with the counters of observability/prometheus.js it uses, as a state machine of the
  requests in flight; the health checks of database.config.js and redis.config.js and the readiness
  route. The host fires \<open>finish\<close> when a response has been handed over and \<open>close\<close> in any case, once,
  when the connection of the response is done with. A handler ends once, with a status it sends
  or with an error it passes on to the error handler.
\<close>

subsection \<open>Load shedding (checkBackpressure)\<close>

definition MAX_IN_FLIGHT :: int where
  "MAX_IN_FLIGHT = 500"

text \<open>The lag is in microseconds.\<close>

definition MAX_EVENT_LOOP_LAG :: int where
  "MAX_EVENT_LOOP_LAG = 250000"

record open_request =
  rq_id :: nat
  rq_path :: string
  rq_running :: bool
  rq_timer :: bool
  rq_aborted :: "string option"
  rq_sent :: "int list"
  rq_closed :: bool
  rq_recorded :: bool

record shell =
  sh_shuttingDown :: bool
  sh_inFlight :: int
  sh_lag :: int
  sh_requests :: "open_request list"
  sh_shed :: nat
  sh_total :: nat
  sh_aborts :: "string list"

definition checkBackpressure :: "shell \<Rightarrow> string option \<times> shell" where
  "checkBackpressure s =
     (if sh_inFlight s \<ge> MAX_IN_FLIGHT then (Some ''max_inflight'', s\<lparr>sh_shed := sh_shed s + 1\<rparr>)
      else if sh_lag s > MAX_EVENT_LOOP_LAG then (Some ''eventloop_lag'', s\<lparr>sh_shed := sh_shed s + 1\<rparr>)
      else (None, s))"

subsection \<open>The life of a request (app.js, metricsMiddleware)\<close>

definition new_request :: "nat \<Rightarrow> string \<Rightarrow> open_request" where
  "new_request i path = \<lparr>rq_id = i, rq_path = path, rq_running = True, rq_timer = True, rq_aborted = None,
     rq_sent = [], rq_closed = False, rq_recorded = False\<rparr>"

text \<open>The answer is the status of a refusal; an admitted request has its timer and is counted.\<close>

definition arrive :: "nat \<Rightarrow> string \<Rightarrow> shell \<Rightarrow> int option \<times> shell" where
  "arrive i path s =
     (if sh_shuttingDown s then (Some 503, s)
      else case checkBackpressure s of
        (Some reason, s1) \<Rightarrow> (Some 503, s1)
      | (None, s1) \<Rightarrow> (None, s1\<lparr>sh_requests := sh_requests s1 @ [new_request i path], sh_inFlight := sh_inFlight s1 + 1\<rparr>))"

definition edit_request :: "nat \<Rightarrow> (open_request \<Rightarrow> open_request) \<Rightarrow> shell \<Rightarrow> shell" where
  "edit_request i f s = s\<lparr>sh_requests := update_rows (\<lambda>r. rq_id r = i) f (sh_requests s)\<rparr>"

definition headersSent :: "open_request \<Rightarrow> bool" where
  "headersSent r = (rq_sent r \<noteq> [])"

text \<open>Only the first abort of a signal counts.\<close>

definition abort_request :: "string \<Rightarrow> open_request \<Rightarrow> open_request" where
  "abort_request reason r = (if rq_aborted r = None then r\<lparr>rq_aborted := Some reason\<rparr> else r)"

definition recordAbort :: "string \<Rightarrow> shell \<Rightarrow> shell" where
  "recordAbort reason s = s\<lparr>sh_aborts := sh_aborts s @ [reason]\<rparr>"

definition timer_fires :: "nat \<Rightarrow> shell \<Rightarrow> shell" where
  "timer_fires i s =
     edit_request i (\<lambda>r. let r1 = abort_request ''REQUEST_TIMEOUT'' (r\<lparr>rq_timer := False\<rparr>) in
         if headersSent r1 then r1 else r1\<lparr>rq_sent := rq_sent r1 @ [504]\<rparr>)
       (recordAbort ''timeout'' s)"

text \<open>Sending twice throws; the error handler then finds the request aborted and stays silent.\<close>

definition ended :: "js_error + int \<Rightarrow> open_request \<Rightarrow> open_request" where
  "ended outcome r =
     (let r1 = r\<lparr>rq_running := False\<rparr>;
          error = (case outcome of Inr _ \<Rightarrow> JsError ''ERR_HTTP_HEADERS_SENT'' | Inl e \<Rightarrow> e);
          handled = (case errorHandler (rq_aborted r \<noteq> None) (headersSent r) error of
             None \<Rightarrow> r1 | Some (st, _) \<Rightarrow> r1\<lparr>rq_sent := rq_sent r1 @ [st]\<rparr>)
      in case outcome of
           Inr st \<Rightarrow> if headersSent r then handled else r1\<lparr>rq_sent := [st]\<rparr>
         | Inl _ \<Rightarrow> handled)"

definition handler_ends :: "nat \<Rightarrow> js_error + int \<Rightarrow> shell \<Rightarrow> shell" where
  "handler_ends i outcome s = edit_request i (ended outcome) s"

definition find_request :: "nat \<Rightarrow> shell \<Rightarrow> open_request option" where
  "find_request i s = find_unique (\<lambda>r. rq_id r = i) (sh_requests s)"

text \<open>The listener \<open>record\<close>: the first of \<open>finish\<close> and \<open>close\<close> takes the request out of the gauge.\<close>

definition record_request :: "nat \<Rightarrow> shell \<Rightarrow> shell" where
  "record_request i s =
     (case find_request i s of
        None \<Rightarrow> s
      | Some r \<Rightarrow>
          if rq_recorded r then s
          else let s1 = edit_request i (\<lambda>r. r\<lparr>rq_recorded := True\<rparr>) (s\<lparr>sh_inFlight := sh_inFlight s - 1\<rparr>) in
            if rq_path r = ''/metrics'' \<or> rq_path r = ''/health/live'' then s1
            else s1\<lparr>sh_total := sh_total s1 + 1\<rparr>)"

text \<open>\<open>close\<close>: the listener of the timeout middleware, then that of the metrics.\<close>

definition response_closed :: "nat \<Rightarrow> shell \<Rightarrow> shell" where
  "response_closed i s =
     (case find_request i s of
        None \<Rightarrow> s
      | Some r \<Rightarrow>
          let s1 = edit_request i (\<lambda>r. r\<lparr>rq_timer := False\<rparr>) s;
              s2 = (if rq_aborted r = None
                then recordAbort ''client_disconnect'' (edit_request i (abort_request ''CLIENT_DISCONNECT'') s1) else s1)
          in edit_request i (\<lambda>r. r\<lparr>rq_closed := True\<rparr>) (record_request i s2))"

inductive shell_step :: "shell \<Rightarrow> shell \<Rightarrow> bool" where
  arrival: "i \<notin> set (List.map rq_id (sh_requests s)) \<Longrightarrow> shell_step s (snd (arrive i path s))"
| handler: "find_request i s = Some r \<Longrightarrow> rq_running r \<Longrightarrow> shell_step s (handler_ends i outcome s)"
| timer: "find_request i s = Some r \<Longrightarrow> rq_timer r \<Longrightarrow> shell_step s (timer_fires i s)"
| finish: "find_request i s = Some r \<Longrightarrow> headersSent r \<Longrightarrow> \<not> rq_closed r \<Longrightarrow> shell_step s (record_request i s)"
| close: "find_request i s = Some r \<Longrightarrow> \<not> rq_closed r \<Longrightarrow> shell_step s (response_closed i s)"
| lag: "shell_step s (s\<lparr>sh_lag := l\<rparr>)"
| shutdown: "shell_step s (s\<lparr>sh_shuttingDown := True\<rparr>)"

definition idle_shell :: shell where
  "idle_shell = \<lparr>sh_shuttingDown = False, sh_inFlight = 0, sh_lag = 0, sh_requests = [], sh_shed = 0, sh_total = 0,
     sh_aborts = []\<rparr>"

abbreviation shell_reachable :: "shell \<Rightarrow> bool" where
  "shell_reachable \<equiv> shell_step\<^sup>*\<^sup>* idle_shell"

subsection \<open>Health (database.config.js, redis.config.js, app.js)\<close>

record redis_health =
  rh_connected :: bool
  rh_latencyMs :: "int option"
  rh_error :: "string option"

text \<open>The answer to a PING: nothing, or when it comes and what it is.\<close>

definition redis_check :: "(int \<times> (host_error + string)) option option \<Rightarrow> redis_health" where
  "redis_check client =
     (case client of
        None \<Rightarrow> \<lparr>rh_connected = False, rh_latencyMs = None, rh_error = None\<rparr>
      | Some ping \<Rightarrow>
          (let latency = (case ping of Some (t, _) \<Rightarrow> min t 5000 | None \<Rightarrow> 5000) in
           case withTimeout ping 5000 ''Redis PING timed out'' of
             Inr answer \<Rightarrow> \<lparr>rh_connected = (answer = ''PONG''), rh_latencyMs = Some latency, rh_error = None\<rparr>
           | Inl e \<Rightarrow> \<lparr>rh_connected = False, rh_latencyMs = Some latency, rh_error = Some (he_message e)\<rparr>))"

text \<open>The result is an object with these two properties.\<close>

definition redisHealthCheck ::
    "(int \<times> (host_error + string)) option option \<Rightarrow> (int \<times> (host_error + string)) option option \<Rightarrow> (string \<times> redis_health) list" where
  "redisHealthCheck cache_client queue_connection =
     [(''cache'', redis_check cache_client), (''queue'', redis_check queue_connection)]"

record db_health =
  dh_cache :: "(bool \<times> bool) option"
  dh_cacheAt :: time

definition HEALTH_CACHE_TTL_MS :: int where
  "HEALTH_CACHE_TTL_MS = 2000"

definition db_check :: "(int \<times> (host_error + unit)) option \<Rightarrow> int \<Rightarrow> bool" where
  "db_check probe timeoutMs = (\<not> isl (withTimeout probe timeoutMs ''Health check timed out''))"

text \<open>The status (write, read), cached for two seconds.\<close>

definition healthCheck ::
    "int \<Rightarrow> (int \<times> (host_error + unit)) option \<Rightarrow> (int \<times> (host_error + unit)) option \<Rightarrow> time \<Rightarrow> db_health \<Rightarrow>
     (bool \<times> bool) \<times> db_health" where
  "healthCheck timeoutMs writeProbe readProbe now s =
     (case dh_cache s of
        Some st \<Rightarrow>
          if now - dh_cacheAt s < HEALTH_CACHE_TTL_MS then (st, s)
          else (let st = (db_check writeProbe timeoutMs, db_check readProbe timeoutMs)
                in (st, s\<lparr>dh_cache := Some st, dh_cacheAt := now\<rparr>))
      | None \<Rightarrow>
          (let st = (db_check writeProbe timeoutMs, db_check readProbe timeoutMs)
           in (st, s\<lparr>dh_cache := Some st, dh_cacheAt := now\<rparr>)))"

text \<open>\<open>redisStatus.connected\<close> is the property of that name. A check that takes five seconds loses the race.\<close>

definition health_ready :: "bool \<Rightarrow> bool \<Rightarrow> bool \<times> bool \<Rightarrow> (string \<times> redis_health) list \<Rightarrow> int \<times> string" where
  "health_ready isShuttingDown timedOut dbStatus redisStatus =
     (if isShuttingDown then (503, ''shutting_down'')
      else if timedOut then (503, ''timeout'')
      else let ok = fst dbStatus \<and> snd dbStatus \<and> map_of redisStatus ''connected'' \<noteq> None
        in (if ok then 200 else 503, if ok then ''healthy'' else ''degraded''))"

definition health_live :: "bool \<Rightarrow> int \<times> string" where
  "health_live isShuttingDown = (if isShuttingDown then (503, ''shutting_down'') else (200, ''alive''))"

subsection \<open>What holds in every reachable state\<close>

definition request_ok :: "open_request \<Rightarrow> bool" where
  "request_ok r \<longleftrightarrow> length (rq_sent r) \<le> 1 \<and> (rq_running r \<longrightarrow> headersSent r \<longrightarrow> rq_aborted r \<noteq> None) \<and>
     (rq_closed r \<longrightarrow> rq_recorded r \<and> \<not> rq_timer r)"

definition shell_ok :: "shell \<Rightarrow> bool" where
  "shell_ok s \<longleftrightarrow> distinct (List.map rq_id (sh_requests s)) \<and> list_all request_ok (sh_requests s) \<and>
     sh_inFlight s = int (length (List.filter (\<lambda>r. \<not> rq_recorded r) (sh_requests s))) \<and>
     sh_inFlight s \<le> MAX_IN_FLIGHT"

interpretation request_table:
  keyed_table rq_id sh_requests "\<lambda>r s. s\<lparr>sh_requests := sh_requests s @ [r]\<rparr>"
  by unfold_locales simp

lemma find_request_lookup: "find_request i s = request_table.lookup i s"
  by (simp add: find_request_def request_table.lookup_def)

lemma find_request_unique:
  "distinct (List.map rq_id (sh_requests s)) \<Longrightarrow> r \<in> set (sh_requests s) \<Longrightarrow> find_request (rq_id r) s = Some r"
  unfolding find_request_lookup by (rule request_table.lookup_unique) (simp_all add: request_table.key_unique_def)

lemma find_request_SomeD: "find_request i s = Some r \<Longrightarrow> r \<in> set (sh_requests s) \<and> rq_id r = i"
  unfolding find_request_def by (rule find_unique_SomeD)

lemma edit_request_fields [simp]:
  "sh_inFlight (edit_request i f s) = sh_inFlight s" "sh_shuttingDown (edit_request i f s) = sh_shuttingDown s"
  by (simp_all add: edit_request_def)

text \<open>An edit that leaves the key and the recording of a request alone.\<close>

lemma edit_request_ok:
  assumes "shell_ok s" "\<And>r. rq_id (f r) = rq_id r" "\<And>r. rq_recorded (f r) = rq_recorded r"
    "\<And>r. find_request i s = Some r \<Longrightarrow> request_ok r \<Longrightarrow> request_ok (f r)"
  shows "shell_ok (edit_request i f s)"
proof -
  let ?rs = "sh_requests s"
  have d: "distinct (List.map rq_id ?rs)" and ok: "list_all request_ok ?rs" using assms(1) by (simp_all add: shell_ok_def)
  have "request_ok (f r)" if "r \<in> set ?rs" "rq_id r = i" for r
    using assms(4) find_request_unique [OF d that(1)] that ok by (auto simp: list_all_iff)
  then have "list_all request_ok (update_rows (\<lambda>r. rq_id r = i) f ?rs)"
    using ok by (auto simp: list_all_iff set_update_rows)
  moreover have "length (List.filter (\<lambda>r. \<not> rq_recorded r) (update_rows (\<lambda>r. rq_id r = i) f ?rs)) =
      length (List.filter (\<lambda>r. \<not> rq_recorded r) ?rs)"
    by (induction ?rs rule: list.induct) (simp_all add: update_rows_def filter_map comp_def assms(3) if_distrib [of rq_recorded])
  ultimately show ?thesis
    using assms(1) by (simp add: shell_ok_def edit_request_def map_key_update_rows assms(2))
qed

lemma recordAbort_ok [simp]: "shell_ok (recordAbort reason s) = shell_ok s"
  by (simp add: shell_ok_def recordAbort_def)

lemma find_request_recordAbort [simp]: "find_request i (recordAbort reason s) = find_request i s"
  by (simp add: find_request_def recordAbort_def)

text \<open>Recording the one request with a key takes one from the number of the unrecorded.\<close>

lemma unrecorded_after:
  assumes "distinct (List.map rq_id rs)" "r \<in> set rs" "\<not> rq_recorded r"
  shows "int (length (List.filter (\<lambda>q. \<not> rq_recorded q)
      (update_rows (\<lambda>q. rq_id q = rq_id r) (\<lambda>q. q\<lparr>rq_recorded := True\<rparr>) rs))) =
    int (length (List.filter (\<lambda>q. \<not> rq_recorded q) rs)) - 1"
  using assms
proof (induction rs)
  case (Cons q rs)
  show ?case
  proof (cases "rq_id q = rq_id r")
    case True
    then have "q = r" "rq_id r \<notin> rq_id ` set rs" using Cons.prems by force+
    moreover from this(2) have "update_rows (\<lambda>q. rq_id q = rq_id r) (\<lambda>q. q\<lparr>rq_recorded := True\<rparr>) rs = rs"
      unfolding update_rows_def by (intro map_idI) (metis image_eqI)
    ultimately show ?thesis using Cons.prems(3) by (simp add: update_rows_def)
  next
    case False
    then show ?thesis using Cons by (auto simp: update_rows_def)
  qed
qed simp

lemma record_request_ok:
  assumes "shell_ok s"
  shows "shell_ok (record_request i s)"
proof (cases "\<exists>r. find_request i s = Some r \<and> \<not> rq_recorded r")
  case True
  then obtain r where r: "find_request i s = Some r" "\<not> rq_recorded r" by blast
  have rs: "r \<in> set (sh_requests s)" "rq_id r = i" using find_request_SomeD [OF r(1)] by simp_all
  let ?rs = "update_rows (\<lambda>q. rq_id q = i) (\<lambda>q. q\<lparr>rq_recorded := True\<rparr>) (sh_requests s)"
  have "list_all request_ok ?rs"
    using assms by (auto simp: shell_ok_def list_all_iff set_update_rows request_ok_def headersSent_def)
  moreover have "distinct (List.map rq_id ?rs)" using assms by (simp add: shell_ok_def map_key_update_rows)
  ultimately show ?thesis
    using unrecorded_after [of "sh_requests s" r] rs r assms
    by (simp add: record_request_def Let_def shell_ok_def edit_request_def)
next
  case False
  then have "record_request i s = s" by (auto simp: record_request_def split: option.splits)
  then show ?thesis using assms by simp
qed

lemma arrive_ok:
  assumes "shell_ok s" "i \<notin> set (List.map rq_id (sh_requests s))"
  shows "shell_ok (snd (arrive i path s))"
  using assms
  by (auto simp: arrive_def checkBackpressure_def shell_ok_def new_request_def request_ok_def headersSent_def)

lemma timer_request_ok:
  "request_ok r \<Longrightarrow> rq_timer r \<Longrightarrow>
    request_ok (let r1 = abort_request ''REQUEST_TIMEOUT'' (r\<lparr>rq_timer := False\<rparr>) in
      if headersSent r1 then r1 else r1\<lparr>rq_sent := rq_sent r1 @ [504]\<rparr>)"
  by (auto simp: request_ok_def headersSent_def abort_request_def Let_def)

lemma ended_request_ok:
  "request_ok r \<Longrightarrow> rq_running r \<Longrightarrow> request_ok (ended outcome r)"
  by (cases outcome) (auto simp: request_ok_def ended_def Let_def headersSent_def errorHandler_def split: option.splits js_error.splits)

lemma find_request_edit:
  assumes "\<And>r. rq_id (f r) = rq_id r"
  shows "find_request i (edit_request i f s) = map_option f (find_request i s)"
proof -
  have "find_unique (\<lambda>r. rq_id r = i) (update_rows (\<lambda>r. rq_id r = i) f rs) =
      map_option f (find_unique (\<lambda>r. rq_id r = i) rs)" for rs
    by (induction rs) (simp_all add: update_rows_def assms)
  then show ?thesis by (simp add: find_request_def edit_request_def)
qed

lemma find_request_record:
  assumes "find_request i s = Some r"
  shows "find_request i (record_request i s) = Some (r\<lparr>rq_recorded := True\<rparr>)"
proof (cases "rq_recorded r")
  case True
  then show ?thesis using assms by (cases r) (simp add: record_request_def)
next
  case False
  let ?s = "edit_request i (\<lambda>r. r\<lparr>rq_recorded := True\<rparr>) (s\<lparr>sh_inFlight := sh_inFlight s - 1\<rparr>)"
  have "find_request i ?s = Some (r\<lparr>rq_recorded := True\<rparr>)"
    using assms by (subst find_request_edit) (simp_all add: find_request_def)
  then have "find_request i (?s\<lparr>sh_total := n\<rparr>) = Some (r\<lparr>rq_recorded := True\<rparr>)" for n
    by (simp add: find_request_def)
  then show ?thesis using assms False \<open>find_request i ?s = _\<close> by (simp add: record_request_def Let_def)
qed

lemma abort_fields: "rq_id (abort_request c r) = rq_id r" "rq_recorded (abort_request c r) = rq_recorded r"
  by (simp_all add: abort_request_def)

lemma abort_request_ok: "request_ok r \<Longrightarrow> request_ok (abort_request c r)"
  by (auto simp: abort_request_def request_ok_def headersSent_def)

lemma ended_fields: "rq_id (ended e r) = rq_id r" "rq_recorded (ended e r) = rq_recorded r"
  by (simp_all add: ended_def Let_def split: sum.splits option.splits prod.splits)

lemma response_closed_ok:
  assumes ok: "shell_ok s" and r: "find_request i s = Some r"
  shows "shell_ok (response_closed i s)"
proof -
  let ?s1 = "edit_request i (\<lambda>r. r\<lparr>rq_timer := False\<rparr>) s"
  let ?s2 = "if rq_aborted r = None
    then recordAbort ''client_disconnect'' (edit_request i (abort_request ''CLIENT_DISCONNECT'') ?s1) else ?s1"
  have s1: "shell_ok ?s1" using ok by (rule edit_request_ok) (simp_all add: request_ok_def headersSent_def)
  have "shell_ok ?s2"
    using edit_request_ok [OF s1 abort_fields(1) abort_fields(2) abort_request_ok] s1 by simp
  then have s3: "shell_ok (record_request i ?s2)" by (rule record_request_ok)
  have "\<exists>q. find_request i ?s2 = Some q \<and> \<not> rq_timer q"
    using r by (cases "rq_aborted r = None") (simp_all add: find_request_edit abort_fields abort_request_def)
  then obtain q where q: "find_request i ?s2 = Some q" "\<not> rq_timer q" by blast
  then have "find_request i (record_request i ?s2) = Some (q\<lparr>rq_recorded := True\<rparr>)"
    by (intro find_request_record)
  with q(2) have "shell_ok (edit_request i (\<lambda>r. r\<lparr>rq_closed := True\<rparr>) (record_request i ?s2))"
    by (intro edit_request_ok [OF s3]) (auto simp: request_ok_def headersSent_def)
  then show ?thesis using r by (simp only: response_closed_def option.case Let_def)
qed

lemma shell_step_ok:
  assumes "shell_step s s'" "shell_ok s"
  shows "shell_ok s'"
  using assms
proof (induction rule: shell_step.induct)
  case (arrival i s path)
  then show ?case by (intro arrive_ok)
next
  case (handler i s r outcome)
  then show ?case unfolding handler_ends_def
    by (intro edit_request_ok [where f = "ended outcome"]) (auto simp: ended_fields intro: ended_request_ok)
next
  case (timer i s r)
  then show ?case unfolding timer_fires_def
    by (intro edit_request_ok) (simp_all add: timer_request_ok del: Let_def, auto simp: Let_def abort_request_def)
next
  case (finish i s r)
  then show ?case by (intro record_request_ok)
next
  case (close i s r)
  then show ?case by (intro response_closed_ok)
qed (simp_all add: shell_ok_def)


text \<open>A request runs into the timeout, and its handler fails afterwards.\<close>

definition example_shell :: shell where
  "example_shell = response_closed 7 (handler_ends 7 (Inl (ApiError 404 ''Ticket not found'' []))
     (timer_fires 7 (snd (arrive 7 ''/api/tickets'' idle_shell))))"

lemma example_shell_reachable: "shell_reachable example_shell"
proof -
  let ?s1 = "snd (arrive 7 ''/api/tickets'' idle_shell)"
  let ?s2 = "timer_fires 7 ?s1"
  let ?s3 = "handler_ends 7 (Inl (ApiError 404 ''Ticket not found'' [])) ?s2"
  have "shell_step idle_shell ?s1" by (rule shell_step.arrival) (simp add: idle_shell_def)
  moreover have "shell_step ?s1 ?s2" by (rule shell_step.timer [where r = "new_request 7 ''/api/tickets''"]) code_simp+
  moreover have "shell_step ?s2 ?s3"
    by (rule shell_step.handler [where r = "the (find_request 7 ?s2)"]) code_simp+
  moreover have "shell_step ?s3 example_shell"
    unfolding example_shell_def by (rule shell_step.close [where r = "the (find_request 7 ?s3)"]) code_simp+
  ultimately show ?thesis by (meson rtranclp.rtrancl_into_rtrancl rtranclp.rtrancl_refl)
qed


text \<open>The readiness route reads a property \<open>connected\<close> that the object of redisHealthCheck does not
  have: it never answers 200.\<close>

lemma readiness_never_ok:
  "fst (health_ready stopping timedOut dbStatus (redisHealthCheck cache_client queue_connection)) = 503"
  by (simp add: health_ready_def redisHealthCheck_def Let_def)

text \<open>A request that ends as it should is counted as a disconnect of the client.\<close>

lemma ordinary_end_counted_as_disconnect:
  assumes "find_request i s = Some r" "rq_aborted r = None"
  shows "sh_aborts (response_closed i s) = sh_aborts s @ [''client_disconnect'']"
proof -
  have a: "sh_aborts (edit_request j f t) = sh_aborts t" for j f t by (simp add: edit_request_def)
  then have "sh_aborts (record_request i t) = sh_aborts t" for t
    by (simp add: record_request_def Let_def split: option.splits)
  with a show ?thesis using assms by (simp add: response_closed_def Let_def recordAbort_def)
qed

text \<open>Under load the liveness route is shed with every other one.\<close>

lemma liveness_is_shed:
  "sh_inFlight s \<ge> 500 \<Longrightarrow> fst (arrive i ''/health/live'' s) = Some 503"
  by (simp add: arrive_def checkBackpressure_def MAX_IN_FLIGHT_def)

end
