(* ===== verification/Redis_Client.thy ===== *)
theory Redis_Client
  imports Connections
begin

section \<open>The instrumented Redis client and the life of the connections\<close>

text \<open>
  config/redis.config.js: the proxy that guards the commands of the cache client with the breaker and
  counts them (\<open>instrumentClient\<close>, \<open>createRedisMetrics\<close>), and \<open>connectRedis\<close>;
  config/database.config.js: \<open>connect\<close> and \<open>disconnect\<close> of the two clients. What a command of ioredis
  does is a parameter: it returns a promise, returns at once (a pipeline), or throws.
\<close>

subsection \<open>Metrics (createRedisMetrics)\<close>

record redis_metrics =
  rm_commandCount :: nat
  rm_errorCount :: nat
  rm_samples :: "int list"
  rm_circuit :: "(string \<times> circuit_state) list"

definition createRedisMetrics :: redis_metrics where
  "createRedisMetrics = \<lparr>rm_commandCount = 0, rm_errorCount = 0, rm_samples = [],
     rm_circuit = [(''cache'', CLOSED_STATE), (''queue'', CLOSED_STATE)]\<rparr>"

definition keep_samples :: "int list \<Rightarrow> int list" where
  "keep_samples xs = (if length xs > MAX_SAMPLES then drop (length xs - MAX_SAMPLES) xs else xs)"

definition redis_metrics_command :: "int \<Rightarrow> redis_metrics \<Rightarrow> redis_metrics" where
  "redis_metrics_command ms m =
     m\<lparr>rm_commandCount := rm_commandCount m + 1, rm_samples := keep_samples (rm_samples m @ [ms])\<rparr>"

definition redis_metrics_error :: "int \<Rightarrow> redis_metrics \<Rightarrow> redis_metrics" where
  "redis_metrics_error ms m =
     m\<lparr>rm_commandCount := rm_commandCount m + 1, rm_errorCount := rm_errorCount m + 1,
       rm_samples := keep_samples (rm_samples m @ [ms])\<rparr>"

definition redis_metrics_circuit :: "string \<Rightarrow> circuit_state \<Rightarrow> redis_metrics \<Rightarrow> redis_metrics" where
  "redis_metrics_circuit role st m = m\<lparr>rm_circuit := AList.update role st (rm_circuit m)\<rparr>"

record redis_report =
  rr_commands :: nat
  rr_errors :: nat
  rr_avg :: int
  rr_p50 :: int
  rr_p95 :: int
  rr_p99 :: int
  rr_circuit :: "(string \<times> circuit_state) list"
  rr_active_connections :: nat
  rr_max_connections :: nat
  rr_clients :: "string list"

definition redis_metrics_snapshot :: "nat \<Rightarrow> redis_state \<Rightarrow> redis_metrics \<Rightarrow> redis_report" where
  "redis_metrics_snapshot maxConnections s m =
     (let sorted = sort (rm_samples m); len = length sorted;
          total = (if len \<noteq> 0 then sum_list (rm_samples m) else 0) in
      \<lparr>rr_commands = rm_commandCount m, rr_errors = rm_errorCount m,
       rr_avg = (if len \<noteq> 0 then round_div total (int len) else 0),
       rr_p50 = (if len \<noteq> 0 then sorted ! (len div 2) else 0),
       rr_p95 = (if len \<noteq> 0 then sorted ! (len * 95 div 100) else 0),
       rr_p99 = (if len \<noteq> 0 then sorted ! (len * 99 div 100) else 0),
       rr_circuit = rm_circuit m, rr_active_connections = length (registry s),
       rr_max_connections = maxConnections, rr_clients = List.map fst (registry s)\<rparr>)"

subsection \<open>The proxy (instrumentClient)\<close>

definition PASSTHROUGH_PROPS :: "string list" where
  "PASSTHROUGH_PROPS =
     [''on'', ''once'', ''emit'', ''removeListener'', ''removeAllListeners'', ''addListener'', ''listeners'',
      ''listenerCount'', ''connect'', ''disconnect'', ''quit'', ''status'', ''options'', ''condition'', ''duplicate'']"

text \<open>A property is handed out as it is, or wrapped in a guard.\<close>

definition passes_through :: "bool \<Rightarrow> bool \<Rightarrow> string \<Rightarrow> bool" where
  "passes_through isSymbol isFunction prop \<longleftrightarrow>
     isSymbol \<or> \<not> isFunction \<or> prop \<in> set PASSTHROUGH_PROPS \<or> prefix ''_'' prop"

datatype 'a command_result =
    Settles "host_error + 'a"
  | Returns_at_once 'a
  | Throws host_error

definition open_error :: "string \<Rightarrow> host_error" where
  "open_error role = \<lparr>he_code = [], he_message = ''Redis circuit breaker OPEN ('' @ role @ '')''\<rparr>"

text \<open>One guarded command when nothing happens in between; a promise settles at the time \<open>done\<close>.\<close>

definition guarded_command ::
    "breaker_config \<Rightarrow> string \<Rightarrow> time \<Rightarrow> time \<Rightarrow> 'a command_result \<Rightarrow> breaker \<times> redis_metrics \<Rightarrow>
     (host_error + 'a) \<times> breaker \<times> redis_metrics" where
  "guarded_command cfg role start done r bm =
     (case bm of (b, m) \<Rightarrow>
       (case canExecute cfg start b of
          (False, b1) \<Rightarrow> (Inl (open_error role), b1, redis_metrics_circuit role (br_state b1) m)
        | (True, b1) \<Rightarrow>
            (case r of
               Settles (Inr x) \<Rightarrow>
                 (let b2 = recordSuccess b1
                  in (Inr x, b2, redis_metrics_circuit role (br_state b2) (redis_metrics_command (done - start) m)))
             | Settles (Inl e) \<Rightarrow>
                 (let b2 = recordFailure cfg (redis_isInfrastructureError e) done b1
                  in (Inl e, b2, redis_metrics_circuit role (br_state b2) (redis_metrics_error (done - start) m)))
             | Returns_at_once x \<Rightarrow> (Inr x, b1, m)
             | Throws e \<Rightarrow>
                 (let b2 = recordFailure cfg (redis_isInfrastructureError e) done b1
                  in (Inl e, b2, redis_metrics_circuit role (br_state b2) (redis_metrics_error (done - start) m))))))"

text \<open>A command that returns a promise is a query behind the breaker of the database, with the errors of Redis.\<close>

lemma guarded_command_query:
  "(fst (guarded_command cfg role start done (Settles r) (b, m)),
    fst (snd (guarded_command cfg role start done (Settles r) (b, m)))) =
   guarded_query cfg redis_isInfrastructureError (open_error role) start done r b"
  by (auto simp: guarded_command_def guarded_query_def Let_def split: prod.split sum.split bool.split)

text \<open>Pipelines are neither counted nor judged: whatever they do, a closed breaker and the metrics stay as they are.\<close>

lemma pipelines_unseen:
  assumes "br_state b = CLOSED_STATE"
  shows "fold (\<lambda>(start, done, x) (r, bm). guarded_command cfg role start done (Returns_at_once x) bm) cs (r0, b, m) =
    ((if cs = [] then r0 else Inr (snd (snd (last cs)))), b, m)"
  using assms by (induction cs arbitrary: r0) (auto simp: guarded_command_def canExecute_def)

text \<open>The errors are among the commands, and of the samples the last thousand are kept.\<close>

definition redis_metrics_ok :: "redis_metrics \<Rightarrow> bool" where
  "redis_metrics_ok m \<longleftrightarrow> rm_errorCount m \<le> rm_commandCount m \<and> length (rm_samples m) \<le> MAX_SAMPLES \<and>
     length (rm_samples m) \<le> rm_commandCount m"

lemma redis_metrics_ok_steps:
  assumes "redis_metrics_ok m"
  shows "redis_metrics_ok (redis_metrics_command ms m)" "redis_metrics_ok (redis_metrics_error ms m)"
    "redis_metrics_ok (redis_metrics_circuit role st m)"
  using assms
  by (auto simp: redis_metrics_ok_def redis_metrics_command_def redis_metrics_error_def redis_metrics_circuit_def
      keep_samples_def MAX_SAMPLES_def)

lemma guarded_command_metrics:
  "redis_metrics_ok m \<Longrightarrow> redis_metrics_ok (snd (snd (guarded_command cfg role start done r (b, m))))"
  by (auto simp: guarded_command_def Let_def redis_metrics_ok_steps
      split: prod.split bool.split command_result.split sum.split)

subsection \<open>Connecting (connectRedis)\<close>

text \<open>
  The clients whose \<open>connect\<close> is called; \<open>ready\<close> says which are connected already. A failed connect
  is logged, so the function never throws.
\<close>

definition connectRedis :: "string option \<Rightarrow> nat \<Rightarrow> (nat \<Rightarrow> bool) \<Rightarrow> redis_state \<Rightarrow> nat list \<times> redis_state" where
  "connectRedis url maxConnections ready s =
     (case getCacheClient url maxConnections s of
        (cache, s1) \<Rightarrow>
          (case getQueueConnection url maxConnections s1 of
             (queue, s2) \<Rightarrow>
               ((case cache of None \<Rightarrow> []
                 | Some _ \<Rightarrow> (case cacheClientRaw s1 of
                     None \<Rightarrow> [] | Some c \<Rightarrow> if ready c then [] else [c])) @
                (case queue of None \<Rightarrow> [] | Some q \<Rightarrow> if ready q then [] else [q]), s2)))"

lemma connectRedis_ok:
  assumes "registry_ok mx s"
  shows "registry_ok mx (snd (connectRedis url mx ready s))"
proof -
  have "snd (connectRedis url mx ready s) = redis_step url mx Get_queue (redis_step url mx Get_cache s)"
    by (simp add: connectRedis_def split: prod.split)
  then show ?thesis using redis_step_ok assms by metis
qed

subsection \<open>The database clients (connect, disconnect)\<close>

text \<open>
  \<open>connectPromise\<close> keeps a connection that is under way or done; a failed one is forgotten. The two
  roles connect at the same time: the result is the error of one that fails.
\<close>

record db_manager =
  dm_connected :: bool
  dm_metrics :: connect_metrics

definition db_connect ::
    "(nat \<Rightarrow> (int \<times> (host_error + unit)) option) \<Rightarrow> (nat \<Rightarrow> (int \<times> (host_error + unit)) option) \<Rightarrow> db_manager \<Rightarrow>
     (host_error + unit) \<times> db_manager" where
  "db_connect writeAttempt readAttempt s =
     (if dm_connected s then (Inr (), s)
      else case connectWithRetry writeAttempt (dm_metrics s) 1 of
        (w, m1, _) \<Rightarrow>
          (case connectWithRetry readAttempt m1 1 of
             (r, m2, _) \<Rightarrow>
               (let outcome = (case w of Inl e \<Rightarrow> Inl e | Inr _ \<Rightarrow> r)
                in (outcome, \<lparr>dm_connected = (\<not> isl outcome), dm_metrics = m2\<rparr>))))"

text \<open>Both clients are disconnected whatever happens; the errors are thrown together.\<close>

definition db_disconnect :: "host_error + unit \<Rightarrow> host_error + unit \<Rightarrow> db_manager \<Rightarrow> (host_error list + unit) \<times> db_manager" where
  "db_disconnect writeResult readResult s =
     (let errors = List.concat (List.map (\<lambda>r. case r of Inl e \<Rightarrow> [e] | Inr _ \<Rightarrow> []) [writeResult, readResult])
      in (if errors \<noteq> [] then Inl errors else Inr (), s\<lparr>dm_connected := False\<rparr>))"

lemma db_connect_attempts:
  "cm_success (dm_metrics (snd (db_connect w r s))) + cm_failure (dm_metrics (snd (db_connect w r s))) \<le>
     cm_success (dm_metrics s) + cm_failure (dm_metrics s) + 6"
proof (cases "dm_connected s")
  case False
  obtain x m1 p where c: "connectWithRetry w (dm_metrics s) (Suc 0) = (x, m1, p)" by (metis prod_cases3)
  obtain y m2 q where d: "connectWithRetry r m1 (Suc 0) = (y, m2, q)" by (metis prod_cases3)
  from connectWithRetry_attempts [OF c] connectWithRetry_attempts [OF d] False show ?thesis
    by (simp add: db_connect_def c d Let_def)
qed (simp add: db_connect_def)

end
