(* ===== verification/Observability.thy ===== *)
theory Observability
  imports Complex_Main App_Shell Redis_Client
begin

section \<open>Prometheus metrics (observability/prometheus.js)\<close>

text \<open>
  The counters and histograms of the HTTP middleware, the monitor of the event loop, and the gauges
  set from the snapshots of database and Redis before each scrape. The client library keeps a value
  per metric and set of labels; a gauge here is an entry of an association list, a histogram counts
  the observations in each bucket and below. Times of the monitor are in nanoseconds. The gauge of
  requests in flight and the shedding are part of App_Shell.
\<close>

subsection \<open>Histograms and the event loop\<close>

record histogram =
  hg_buckets :: "(rat \<times> nat) list"
  hg_count :: nat
  hg_sum :: rat

definition new_histogram :: "rat list \<Rightarrow> histogram" where
  "new_histogram bounds = \<lparr>hg_buckets = List.map (\<lambda>b. (b, 0)) bounds, hg_count = 0, hg_sum = 0\<rparr>"

definition observe :: "rat \<Rightarrow> histogram \<Rightarrow> histogram" where
  "observe v h =
     h\<lparr>hg_buckets := List.map (\<lambda>(b, n). (b, if v \<le> b then Suc n else n)) (hg_buckets h),
       hg_count := Suc (hg_count h), hg_sum := hg_sum h + v\<rparr>"

definition EVENT_LOOP_INTERVAL_MS :: int where
  "EVENT_LOOP_INTERVAL_MS = 2000"

definition event_loop_buckets :: "rat list" where
  "event_loop_buckets = [1 / 1000, 5 / 1000, 1 / 100, 25 / 1000, 5 / 100, 1 / 10, 25 / 100, 5 / 10, 1]"

definition duration_buckets :: "rat list" where
  "duration_buckets = [5 / 1000, 1 / 100, 25 / 1000, 5 / 100, 1 / 10, 25 / 100, 5 / 10, 1, 2, 5, 10]"

text \<open>The wrapped \<open>observe\<close> keeps the last sample for \<open>checkBackpressure\<close>.\<close>

record loop_monitor =
  lm_lastCheck :: int
  lm_histogram :: histogram
  lm_lastLagSample :: rat

definition startEventLoopMonitor :: "int \<Rightarrow> loop_monitor" where
  "startEventLoopMonitor now =
     \<lparr>lm_lastCheck = now, lm_histogram = new_histogram event_loop_buckets, lm_lastLagSample = 0\<rparr>"

definition monitor_tick :: "int \<Rightarrow> loop_monitor \<Rightarrow> loop_monitor" where
  "monitor_tick now m =
     (let elapsed = of_int (now - lm_lastCheck m) / 1000000000;
          lag = max 0 (elapsed - of_int EVENT_LOOP_INTERVAL_MS / 1000)
      in \<lparr>lm_lastCheck = now, lm_histogram = observe lag (lm_histogram m), lm_lastLagSample = lag\<rparr>)"

subsection \<open>HTTP metrics\<close>

datatype route_path = Path string | Pattern string | Other_path

definition toRouteString :: "route_path \<Rightarrow> string" where
  "toRouteString p = (case p of Path s \<Rightarrow> s | Pattern s \<Rightarrow> s | Other_path \<Rightarrow> ''unknown'')"

text \<open>An empty path is falsy: the request counts as unmatched.\<close>

definition getRouteLabel :: "string option \<Rightarrow> route_path option \<Rightarrow> string" where
  "getRouteLabel baseUrl route =
     (case route of
        None \<Rightarrow> ''unmatched''
      | Some p \<Rightarrow>
          if p = Path [] then ''unmatched''
          else let label = (if truthy baseUrl then the baseUrl else []) @ toRouteString p
            in if label = [] then ''/'' else label)"

record answered_request =
  ar_path :: string
  ar_method :: string
  ar_baseUrl :: "string option"
  ar_route :: "route_path option"
  ar_status :: string
  ar_duration :: rat

type_synonym http_labels = "string \<times> string \<times> string"

record http_metrics =
  hm_total :: "(http_labels \<times> nat) list"
  hm_durations :: "(http_labels \<times> histogram) list"
  hm_aborted :: "(http_labels \<times> nat) list"

definition inc_counter :: "'k \<Rightarrow> ('k \<times> nat) list \<Rightarrow> ('k \<times> nat) list" where
  "inc_counter k c = AList.update k (Suc (case map_of c k of Some n \<Rightarrow> n | None \<Rightarrow> 0)) c"

definition request_labels :: "answered_request \<Rightarrow> http_labels" where
  "request_labels r = (ar_method r, getRouteLabel (ar_baseUrl r) (ar_route r), ar_status r)"

text \<open>The listener \<open>record\<close> after it has lowered the gauge: what it counts.\<close>

definition record_answer :: "answered_request \<Rightarrow> http_metrics \<Rightarrow> http_metrics" where
  "record_answer r m =
     (if ar_path r = ''/metrics'' \<or> ar_path r = ''/health/live'' then m
      else let l = request_labels r;
               h = (case map_of (hm_durations m) l of Some h \<Rightarrow> h | None \<Rightarrow> new_histogram duration_buckets)
        in m\<lparr>hm_total := inc_counter l (hm_total m), hm_durations := AList.update l (observe (ar_duration r) h) (hm_durations m)\<rparr>)"

definition count_abort :: "string \<Rightarrow> string \<Rightarrow> string \<Rightarrow> http_metrics \<Rightarrow> http_metrics" where
  "count_abort reason verb route m = m\<lparr>hm_aborted := inc_counter (reason, verb, route) (hm_aborted m)\<rparr>"

subsection \<open>Gauges set before a scrape (collectInfraMetrics)\<close>

type_synonym gauges = "((string \<times> string) \<times> int) list"

definition set_gauge :: "string \<Rightarrow> string \<Rightarrow> int \<Rightarrow> gauges \<Rightarrow> gauges" where
  "set_gauge name label v g = AList.update (name, label) v g"

definition flag :: "bool \<Rightarrow> int" where
  "flag b = (if b then 1 else 0)"

definition collect_role :: "db_metrics \<Rightarrow> string \<Rightarrow> gauges \<Rightarrow> gauges" where
  "collect_role m role g =
     set_gauge ''db_circuit_breaker_open'' role (flag (map_of (circuitStates m) role = Some OPEN_STATE))
       (set_gauge ''db_healthy'' role (flag (map_of (healthStatus m) role = Some (Some True))) g)"

text \<open>
  \<open>None\<close>: reading the snapshot throws, which is swallowed. The breaker of Redis is looked up under
  the key \<open>state\<close> of an object with one entry per role.
\<close>

definition collectInfraMetrics :: "db_metrics option \<Rightarrow> redis_report option \<Rightarrow> gauges \<Rightarrow> gauges" where
  "collectInfraMetrics dbm redis g =
     (let g1 = (case dbm of
          None \<Rightarrow> g
        | Some m \<Rightarrow>
            let snap = metrics_snapshot m in
            fold (collect_role m) [''write'', ''read'']
              (set_gauge ''db_connect_failure_total'' [] (int (connectFailure m))
              (set_gauge ''db_connect_success_total'' [] (int (connectSuccess m))
              (set_gauge ''db_query_latency_ms'' ''0.99'' (ms_p99 snap)
              (set_gauge ''db_query_latency_ms'' ''0.95'' (ms_p95 snap)
              (set_gauge ''db_query_latency_ms'' ''0.5'' (ms_p50 snap)
              (set_gauge ''db_query_errors_total'' [] (int (ms_errors snap))
              (set_gauge ''db_queries_total'' [] (int (ms_count snap)) g))))))))
      in case redis of
           None \<Rightarrow> g1
         | Some r \<Rightarrow>
             set_gauge ''redis_circuit_breaker_open'' [] (flag (map_of (rr_circuit r) ''state'' = Some OPEN_STATE))
            (set_gauge ''redis_active_connections'' [] (int (rr_active_connections r))
            (set_gauge ''redis_latency_ms'' ''0.99'' (rr_p99 r)
            (set_gauge ''redis_latency_ms'' ''0.95'' (rr_p95 r)
            (set_gauge ''redis_latency_ms'' ''0.5'' (rr_p50 r)
            (set_gauge ''redis_errors_total'' [] (int (rr_errors r))
            (set_gauge ''redis_commands_total'' [] (int (rr_commands r)) g1)))))))"

definition gauge :: "string \<Rightarrow> string \<Rightarrow> gauges \<Rightarrow> int option" where
  "gauge name label g = map_of g (name, label)"

text \<open>\<open>metricsHandler\<close>: the gauges as they are rendered by the scrape.\<close>

definition metricsHandler :: "db_metrics option \<Rightarrow> redis_report option \<Rightarrow> gauges \<Rightarrow> gauges" where
  "metricsHandler dbm redis g = collectInfraMetrics dbm redis g"

subsection \<open>Properties\<close>

lemma gauge_set [simp]:
  "gauge n l (set_gauge n' l' v g) = (if n = n' \<and> l = l' then Some v else gauge n l g)"
  by (auto simp: gauge_def set_gauge_def update_conv)

lemma observe_sorted:
  assumes "sorted_wrt (\<lambda>x y. fst x \<le> fst y \<and> snd x \<le> snd y) (hg_buckets h)" "list_all (\<lambda>x. snd x \<le> hg_count h) (hg_buckets h)"
  shows "sorted_wrt (\<lambda>x y. fst x \<le> fst y \<and> snd x \<le> snd y) (hg_buckets (observe v h)) \<and>
    list_all (\<lambda>x. snd x \<le> hg_count (observe v h)) (hg_buckets (observe v h))"
  using assms
  by (auto simp: observe_def sorted_wrt_map list_all_iff case_prod_unfold elim!: sorted_wrt_mono_rel [rotated])

text \<open>The lag is what the timer was late, never negative; a timely tick clears it.\<close>

lemma monitor_lag:
  "0 \<le> lm_lastLagSample (monitor_tick now m)"
  "now - lm_lastCheck m \<le> 2000000000 \<Longrightarrow> lm_lastLagSample (monitor_tick now m) = 0"
  "now - lm_lastCheck m > 2250000000 \<longleftrightarrow> lm_lastLagSample (monitor_tick now m) > 1 / 4"
proof -
  show "0 \<le> lm_lastLagSample (monitor_tick now m)" by (simp add: monitor_tick_def Let_def)
  have *: "(of_int (now - lm_lastCheck m) :: rat) \<le> c \<longleftrightarrow> now - lm_lastCheck m \<le> k" if "c = of_int k" for c k
    unfolding that by (rule of_int_le_iff)
  show "lm_lastLagSample (monitor_tick now m) = 0" if "now - lm_lastCheck m \<le> 2000000000"
    using * [of 2000000000 2000000000] that by (simp add: monitor_tick_def Let_def EVENT_LOOP_INTERVAL_MS_def field_simps)
  show "now - lm_lastCheck m > 2250000000 \<longleftrightarrow> lm_lastLagSample (monitor_tick now m) > 1 / 4"
  proof -
    let ?x = "of_int (now - lm_lastCheck m) :: rat"
    have "now - lm_lastCheck m > 2250000000 \<longleftrightarrow> ?x > 2250000000"
      using * [of 2250000000 2250000000] by (simp add: not_le [symmetric])
    also have "\<dots> \<longleftrightarrow> max 0 (?x / 1000000000 - 2) > 1 / 4" by (auto simp: max_def)
    finally show ?thesis by (simp add: monitor_tick_def Let_def EVENT_LOOP_INTERVAL_MS_def)
  qed
qed

definition counted :: "answered_request \<Rightarrow> bool" where
  "counted r \<longleftrightarrow> ar_path r \<noteq> ''/metrics'' \<and> ar_path r \<noteq> ''/health/live''"

lemma inc_counter_lookup: "map_of (inc_counter k c) k' =
    (if k' = k then Some (Suc (case map_of c k of Some n \<Rightarrow> n | None \<Rightarrow> 0)) else map_of c k')"
  by (simp add: inc_counter_def update_conv)

text \<open>The total of a set of labels is the number of counted requests with these labels.\<close>

lemma request_totals:
  "(case map_of (hm_total (fold record_answer rs m)) l of Some n \<Rightarrow> n | None \<Rightarrow> 0) =
   (case map_of (hm_total m) l of Some n \<Rightarrow> n | None \<Rightarrow> 0) +
   length (List.filter (\<lambda>r. counted r \<and> request_labels r = l) rs)"
  by (induction rs arbitrary: m) (auto simp: record_answer_def counted_def inc_counter_lookup Let_def)

lemma unmatched_route: "getRouteLabel b None = ''unmatched'' \<and> getRouteLabel b (Some (Path [])) = ''unmatched''"
  by (simp add: getRouteLabel_def)

text \<open>The database gauges say what the metrics say.\<close>

lemma db_gauges:
  assumes "role = ''write'' \<or> role = ''read''"
  shows "gauge ''db_circuit_breaker_open'' role (collectInfraMetrics (Some m) r g) =
      Some (flag (map_of (circuitStates m) role = Some OPEN_STATE))"
    "gauge ''db_healthy'' role (collectInfraMetrics (Some m) r g) =
      Some (flag (map_of (healthStatus m) role = Some (Some True)))"
  using assms
  by (cases r; auto simp: collectInfraMetrics_def collect_role_def Let_def)+

lemma failed_snapshots_keep: "collectInfraMetrics None None g = g"
  by (simp add: collectInfraMetrics_def)

text \<open>The states of the Redis breaker are kept per role.\<close>

lemma command_roles:
  assumes "fst ` set (rm_circuit m) \<subseteq> {''cache'', ''queue''}" "role = ''cache'' \<or> role = ''queue''"
  shows "fst ` set (rm_circuit (snd (snd (guarded_command cfg role start done r (b, m))))) \<subseteq> {''cache'', ''queue''}"
proof -
  have "fst ` set (AList.update role st (rm_circuit m')) \<subseteq> {''cache'', ''queue''}"
    if "rm_circuit m' = rm_circuit m" for st m'
    using assms by (auto simp: dom_update that)
  moreover have "rm_circuit (redis_metrics_command ms m) = rm_circuit m" "rm_circuit (redis_metrics_error ms m) = rm_circuit m" for ms
    by (simp_all add: redis_metrics_command_def redis_metrics_error_def)
  ultimately show ?thesis
    using assms(1)
    by (auto simp: guarded_command_def Let_def redis_metrics_circuit_def
        split: prod.split bool.split command_result.split sum.split)
qed

definition run_commands ::
    "breaker_config \<Rightarrow> (time \<times> time \<times> 'a command_result) list \<Rightarrow> breaker \<times> redis_metrics \<Rightarrow> breaker \<times> redis_metrics" where
  "run_commands cfg cs bm = fold (\<lambda>(start, done, r) bm. snd (guarded_command cfg ''cache'' start done r bm)) cs bm"

lemma run_commands_roles:
  "fst ` set (rm_circuit (snd bm)) \<subseteq> {''cache'', ''queue''} \<Longrightarrow>
   fst ` set (rm_circuit (snd (run_commands cfg cs bm))) \<subseteq> {''cache'', ''queue''}"
proof (induction cs arbitrary: bm)
  case (Cons c cs)
  obtain start dn r where c: "c = (start, dn, r)" by (cases c)
  have "fst ` set (rm_circuit (snd (snd (guarded_command cfg ''cache'' start dn r bm)))) \<subseteq> {''cache'', ''queue''}"
    using command_roles [OF Cons.prems, of "''cache''" cfg start dn r "fst bm"] by simp
  then show ?case using Cons.IH unfolding run_commands_def c by simp
qed (simp add: run_commands_def)

text \<open>
  The gauge of the Redis circuit breaker is 0 at every scrape, whatever commands have run, also
  while the breaker is open; the gauges of the database breakers are exact.
\<close>

lemma redis_breaker_gauge_stuck:
  fixes cs :: "(time \<times> time \<times> 'a command_result) list"
  shows "let (b, m) = run_commands cfg cs (createCircuitBreaker, createRedisMetrics) in
    gauge ''redis_circuit_breaker_open'' []
      (metricsHandler (Some d) (Some (redis_metrics_snapshot mx rs m)) g) = Some 0 \<and>
    gauge ''db_circuit_breaker_open'' ''write''
      (metricsHandler (Some d) (Some (redis_metrics_snapshot mx rs m)) g) =
        Some (flag (map_of (circuitStates d) ''write'' = Some OPEN_STATE))"
proof -
  obtain b m where bm: "run_commands cfg cs (createCircuitBreaker, createRedisMetrics) = (b, m)" by (metis prod.exhaust)
  have i: "fst ` set (rm_circuit createRedisMetrics) \<subseteq> {''cache'', ''queue''}" by (simp add: createRedisMetrics_def)
  have "fst ` set (rm_circuit m) \<subseteq> {''cache'', ''queue''}"
    using run_commands_roles [of "(createCircuitBreaker, createRedisMetrics)" cfg cs] bm i by simp
  then have "''state'' \<notin> fst ` set (rm_circuit m)" by auto
  then have "map_of (rr_circuit (redis_metrics_snapshot mx rs m)) ''state'' = None"
    by (simp add: redis_metrics_snapshot_def Let_def map_of_eq_None_iff)
  then have "gauge ''redis_circuit_breaker_open'' []
      (collectInfraMetrics (Some d) (Some (redis_metrics_snapshot mx rs m)) g) = Some 0"
    by (simp add: collectInfraMetrics_def Let_def flag_def)
  then show ?thesis
    using db_gauges(1) [of "''write''" d "Some (redis_metrics_snapshot mx rs m)" g]
    unfolding bm metricsHandler_def by simp
qed

text \<open>After five failed commands the breaker is open, and the gauge says that it is closed.\<close>

lemma open_breaker_hidden:
  "let cfg = \<lparr>bc_failureThreshold = 5, bc_resetTimeoutMs = 30000\<rparr>;
       e = \<lparr>he_code = [], he_message = ''connection lost''\<rparr>;
       (b, m) = run_commands cfg (replicate 5 (1, 2, Settles (Inl e) :: unit command_result))
         (createCircuitBreaker, createRedisMetrics)
   in br_state b = OPEN_STATE \<and> map_of (rm_circuit m) ''cache'' = Some OPEN_STATE"
  by code_simp

end
