(* ===== verification/Org_Schemas.thy ===== *)
theory Org_Schemas
  imports Org_Routes
begin

section \<open>The request schemas of the organization router\<close>

text \<open>
  org.validator.js: the schemas of the organization and member routes (those of the role routes are
  in theory Org_Policy) on bodies of the right types, and the routes with the schemas they name.
  \<open>uuid\<close> is zod's test of UUID strings.
\<close>

definition createOrganizationSchema :: "string \<Rightarrow> bool" where
  "createOrganizationSchema name = (1 \<le> length name)"

definition updateOrganizationSchema :: "(string \<Rightarrow> bool) \<Rightarrow> string \<Rightarrow> string \<Rightarrow> bool" where
  "updateOrganizationSchema uuid name orgId = (1 \<le> length name \<and> uuid orgId)"

definition deleteOrganizationSchema :: "(string \<Rightarrow> bool) \<Rightarrow> string \<Rightarrow> bool" where
  "deleteOrganizationSchema uuid orgId = uuid orgId"

definition inviteMemberSchema :: "(string \<Rightarrow> bool) \<Rightarrow> string \<Rightarrow> string \<Rightarrow> bool" where
  "inviteMemberSchema uuid userId roleId = (1 \<le> length userId \<and> uuid roleId)"

definition updateMemberRoleSchema :: "(string \<Rightarrow> bool) \<Rightarrow> string \<Rightarrow> bool" where
  "updateMemberRoleSchema uuid roleId = uuid roleId"

definition deleteRoleSchema :: "(string \<Rightarrow> bool) \<Rightarrow> string \<Rightarrow> bool" where
  "deleteRoleSchema uuid roleId = uuid roleId"

lemmas org_schemas = createOrganizationSchema_def updateOrganizationSchema_def deleteOrganizationSchema_def
  inviteMemberSchema_def updateMemberRoleSchema_def deleteRoleSchema_def

subsection \<open>What an accepted request has\<close>

text \<open>A route answers with success only for a valid request; a refused one has done no more than the membership look-up.\<close>

lemma org_route_valid:
  "org_route ps valid st c userId perms orgId s = (Responded st' x, s') \<Longrightarrow> valid"
  by (auto simp: org_route_def split: sum.splits prod.splits option.splits if_splits)

lemma org_route_invalid:
  "\<not> valid \<Longrightarrow> snd (org_route ps valid st c userId perms orgId s) = snd (verifyOrganizationMembership orgId userId s)"
  by (auto simp: org_route_def split: sum.splits prod.splits option.splits if_splits)

lemma invited_by_uuid:
  assumes "post_members_route (inviteMemberSchema uuid newUserId roleId) newUserId roleId now newId userId perms orgId s = (Responded st x, s')"
  shows "newUserId \<noteq> [] \<and> uuid roleId"
  using org_route_valid [OF assms [unfolded post_members_route_def]] by (auto simp: org_schemas)

lemma renamed_not_empty:
  assumes "patch_organization_route (updateOrganizationSchema uuid name orgId) name userId perms orgId s = (Responded st x, s')"
  shows "name \<noteq> [] \<and> uuid orgId"
  using org_route_valid [OF assms [unfolded patch_organization_route_def]] by (auto simp: org_schemas)

text \<open>
  The tests run after the membership and the permission: someone who may not change the
  organization is told so, whatever the body.
\<close>

lemma schema_after_permission:
  assumes "verifyOrganizationMembership orgId userId s = (Inr m, s1)"
    and "requirePermission [ORG_UPDATE] orgId perms m = Some (st, msg)"
  shows "patch_organization_route valid name userId perms orgId s = (Refused st msg, s1)"
  using assms by (simp add: patch_organization_route_def org_route_def)

end
