(* ===== verification/Notifications.thy ===== *)
theory Notifications
  imports Activity_Log
begin

section \<open>Notifications (modules/notifications, events/handlers/notification.handlers.js)\<close>

text \<open>
  Who is told about a ticket event, through which channel, and what a user may do with the own
  notifications. The state adds to the gateway the notification rows, the preferences, the jobs
  of the delivery queue and the messages emitted to the sockets of users. The ids of new rows
  are parameters. A preference that was never stored is absent, not the default row.
\<close>

subsection \<open>Data\<close>

datatype notification_type =
    NT_TICKET_ASSIGNED | NT_TICKET_COMMENT_ADDED | NT_TICKET_COMMENT_DELETED | NT_TICKET_TAG_ADDED
  | NT_TICKET_TAG_REMOVED | NT_TICKET_ATTACHMENT_ADDED | NT_TICKET_ATTACHMENT_DELETED

record notification =
  n_id :: string
  n_organizationId :: string
  n_ticketId :: "string option"
  n_recipientId :: string
  n_type :: notification_type
  n_title :: string
  n_message :: string
  n_metadata :: "(string \<times> string option) list"
  n_isRead :: bool
  n_readAt :: "time option"
  n_createdAt :: time

record preference_data =
  pd_inAppEnabled :: "bool option"
  pd_emailEnabled :: "bool option"
  pd_pushEnabled :: "bool option"
  pd_websocketEnabled :: "bool option"
  pd_suppressSelfNotifications :: "bool option"
  pd_disabledTypes :: "notification_type list option"

record preference =
  np_userId :: string
  np_inAppEnabled :: bool
  np_emailEnabled :: bool
  np_pushEnabled :: bool
  np_websocketEnabled :: bool
  np_suppressSelfNotifications :: bool
  np_disabledTypes :: "notification_type list"

record delivery =
  dl_type :: notification_type
  dl_ticketId :: "string option"
  dl_organizationId :: "string option"
  dl_actorId :: "string option"
  dl_recipientIds :: "string list"

record notify_state =
  ns_gateway :: gateway
  notifications :: "notification list"
  preferences :: "preference list"
  ns_hasQueue :: bool
  ns_jobs :: "delivery list"
  ns_io :: bool
  ns_sockets :: "(string \<times> delivery) list"

definition DEFAULT_NOTIFICATION_PREFERENCES :: "string \<Rightarrow> preference" where
  "DEFAULT_NOTIFICATION_PREFERENCES userId =
     \<lparr>np_userId = userId, np_inAppEnabled = True, np_emailEnabled = False, np_pushEnabled = False,
      np_websocketEnabled = True, np_suppressSelfNotifications = True, np_disabledTypes = []\<rparr>"

subsection \<open>Repository (notification.repo.js)\<close>

text \<open>
  Rows are inserted by one statement: either all of them, or none when a foreign key or the
  primary key is violated.
\<close>

definition createNotifications :: "notification list \<Rightarrow> notify_state \<Rightarrow> nat result \<times> notify_state" where
  "createNotifications rows s =
     (if rows = [] then return 0 s
      else if \<not> distinct (List.map n_id rows) \<or> n_id ` set rows \<inter> n_id ` set (notifications s) \<noteq> {}
      then throw (PrismaError ''P2002'') s
      else if list_ex (\<lambda>n. \<not> list_ex (\<lambda>o'. o_id o' = n_organizationId n) (organizations (ns_gateway s)) \<or>
          find_user (n_recipientId n) (ns_gateway s) = None \<or>
          (case n_ticketId n of None \<Rightarrow> False | Some i \<Rightarrow> find_ticket i (ns_gateway s) = None)) rows
      then throw (PrismaError ''P2003'') s
      else return (length rows) (s\<lparr>notifications := notifications s @ rows\<rparr>))"

definition getNotificationsByRecipient ::
    "string \<Rightarrow> int option \<Rightarrow> int option \<Rightarrow> bool option \<Rightarrow> notify_state \<Rightarrow> notification list" where
  "getNotificationsByRecipient recipientId page pageSize isRead s =
     (let p = (case page of Some k \<Rightarrow> if k > 0 then k else 1 | None \<Rightarrow> 1);
          ps = (case pageSize of Some k \<Rightarrow> if k > 0 then k else 20 | None \<Rightarrow> 20)
      in take (nat ps) (drop (nat ((p - 1) * ps))
           (sort_key (\<lambda>n. - n_createdAt n)
             (find_many (\<lambda>n. n_recipientId n = recipientId \<and> (isRead = None \<or> isRead = Some (n_isRead n)))
               (notifications s)))))"

definition mark_read :: "(notification \<Rightarrow> bool) \<Rightarrow> time \<Rightarrow> notify_state \<Rightarrow> nat \<times> notify_state" where
  "mark_read p now s =
     (let q = (\<lambda>n. p n \<and> \<not> n_isRead n) in
      (length (List.filter q (notifications s)),
       s\<lparr>notifications := update_rows q (\<lambda>n. n\<lparr>n_isRead := True, n_readAt := Some now\<rparr>) (notifications s)\<rparr>))"

definition markNotificationAsRead :: "string \<Rightarrow> string \<Rightarrow> time \<Rightarrow> notify_state \<Rightarrow> nat \<times> notify_state" where
  "markNotificationAsRead notificationId recipientId now s =
     mark_read (\<lambda>n. n_id n = notificationId \<and> n_recipientId n = recipientId) now s"

definition markAllNotificationsAsRead :: "string \<Rightarrow> time \<Rightarrow> notify_state \<Rightarrow> nat \<times> notify_state" where
  "markAllNotificationsAsRead recipientId now s = mark_read (\<lambda>n. n_recipientId n = recipientId) now s"

definition getTicketNotificationContext :: "string option \<Rightarrow> gateway \<Rightarrow> ticket option" where
  "getTicketNotificationContext ticketId s = (if truthy ticketId then find_ticket (the ticketId) s else None)"

definition getOrganizationStaffRecipientIds :: "string option \<Rightarrow> gateway \<Rightarrow> string list" where
  "getOrganizationStaffRecipientIds organizationId s =
     (if \<not> truthy organizationId then []
      else List.map m_userId (find_many (\<lambda>m. m_organizationId m = the organizationId \<and>
        list_ex (\<lambda>r. r_id r = m_roleId m \<and> TICKET_VIEW_ALL \<in> set (r_rolePermissions r)) (roles s)) (memberships s)))"

definition getNotificationPreferencesForUsers :: "string list \<Rightarrow> notify_state \<Rightarrow> preference list" where
  "getNotificationPreferencesForUsers userIds s =
     (if userIds = [] then [] else find_many (\<lambda>p. np_userId p \<in> set userIds) (preferences s))"

definition getNotificationPreferenceByUserId :: "string \<Rightarrow> notify_state \<Rightarrow> preference option" where
  "getNotificationPreferenceByUserId userId s =
     (if userId = [] then None else find_unique (\<lambda>p. np_userId p = userId) (preferences s))"

definition apply_preference :: "preference_data \<Rightarrow> preference \<Rightarrow> preference" where
  "apply_preference d p =
     \<lparr>np_userId = np_userId p,
      np_inAppEnabled = (case pd_inAppEnabled d of None \<Rightarrow> np_inAppEnabled p | Some v \<Rightarrow> v),
      np_emailEnabled = (case pd_emailEnabled d of None \<Rightarrow> np_emailEnabled p | Some v \<Rightarrow> v),
      np_pushEnabled = (case pd_pushEnabled d of None \<Rightarrow> np_pushEnabled p | Some v \<Rightarrow> v),
      np_websocketEnabled = (case pd_websocketEnabled d of None \<Rightarrow> np_websocketEnabled p | Some v \<Rightarrow> v),
      np_suppressSelfNotifications = (case pd_suppressSelfNotifications d of None \<Rightarrow> np_suppressSelfNotifications p | Some v \<Rightarrow> v),
      np_disabledTypes = (case pd_disabledTypes d of None \<Rightarrow> np_disabledTypes p | Some v \<Rightarrow> v)\<rparr>"

text \<open>The column defaults of the schema are those of \<open>DEFAULT_NOTIFICATION_PREFERENCES\<close>.\<close>

definition upsertNotificationPreferenceByUserId ::
    "string \<Rightarrow> preference_data \<Rightarrow> notify_state \<Rightarrow> preference result \<times> notify_state" where
  "upsertNotificationPreferenceByUserId userId d s =
     (case find_unique (\<lambda>p. np_userId p = userId) (preferences s) of
        Some p \<Rightarrow> return (apply_preference d p)
          (s\<lparr>preferences := update_rows (\<lambda>p. np_userId p = userId) (apply_preference d) (preferences s)\<rparr>)
      | None \<Rightarrow>
          if find_user userId (ns_gateway s) = None then throw (PrismaError ''P2003'') s
          else let p = apply_preference d (DEFAULT_NOTIFICATION_PREFERENCES userId) in
            return p (s\<lparr>preferences := preferences s @ [p]\<rparr>))"

subsection \<open>Strategies\<close>

text \<open>\<open>[...new Set(ids.filter(Boolean))]\<close> keeps the first occurrences, in order.\<close>

fun dedupe_from :: "string list \<Rightarrow> string list \<Rightarrow> string list" where
  "dedupe_from seen [] = []"
| "dedupe_from seen (x # xs) =
     (if x = [] \<or> x \<in> set seen then dedupe_from seen xs else x # dedupe_from (x # seen) xs)"

definition dedupe :: "string list \<Rightarrow> string list" where
  "dedupe ids = dedupe_from [] ids"

datatype recipient_mode = Ticket_watchers | Assigned_agent

definition list_of :: "'a option \<Rightarrow> 'a list" where
  "list_of x = (case x of None \<Rightarrow> [] | Some v \<Rightarrow> [v])"

definition resolveRecipientsForTicketEvent ::
    "event \<Rightarrow> recipient_mode \<Rightarrow> gateway \<Rightarrow> string option \<times> string list" where
  "resolveRecipientsForTicketEvent payload mode s =
     (case mode of
        Assigned_agent \<Rightarrow>
          (payload_field payload ''organizationId'', dedupe (list_of (metadata_field payload ''assignedToId'')))
      | Ticket_watchers \<Rightarrow>
          (case getTicketNotificationContext (payload_field payload ''ticketId'') s of
             None \<Rightarrow> (payload_field payload ''organizationId'', [])
           | Some t \<Rightarrow>
               let organizationId = (case payload_field payload ''organizationId'' of
                     None \<Rightarrow> Some (t_organizationId t) | Some o' \<Rightarrow> Some o')
               in (organizationId,
                   dedupe (t_createdById t # list_of (t_assignedToId t) @
                     getOrganizationStaffRecipientIds organizationId s))))"

text \<open>The preference map keeps the last row of a user.\<close>

definition preference_of :: "string \<Rightarrow> preference list \<Rightarrow> preference option" where
  "preference_of u ps = List.find (\<lambda>p. np_userId p = u) (rev ps)"

definition wants :: "preference option \<Rightarrow> string option \<Rightarrow> notification_type \<Rightarrow> string \<Rightarrow> bool" where
  "wants p actorId type u =
     (if (case p of Some q \<Rightarrow> \<not> np_inAppEnabled q | None \<Rightarrow> False) then False
      else if (case p of Some q \<Rightarrow> np_suppressSelfNotifications q | None \<Rightarrow> True) \<and> Some u = actorId then False
      else if type \<in> set (case p of Some q \<Rightarrow> np_disabledTypes q | None \<Rightarrow> []) then False
      else True)"

definition applyRecipientPreferences ::
    "string list \<Rightarrow> string option \<Rightarrow> notification_type \<Rightarrow> notify_state \<Rightarrow> string list" where
  "applyRecipientPreferences recipientIds actorId type s =
     (let ids = dedupe recipientIds in
      if ids = [] then []
      else let rows = getNotificationPreferencesForUsers ids s in
        List.filter (\<lambda>u. wants (preference_of u rows) actorId type u) ids)"

datatype channel = Websocket | Email | Push

definition filterRecipientsByChannelPreference :: "string list \<Rightarrow> channel \<Rightarrow> notify_state \<Rightarrow> string list" where
  "filterRecipientsByChannelPreference recipientIds channel s =
     (let ids = dedupe recipientIds in
      if ids = [] then []
      else let rows = getNotificationPreferencesForUsers ids s in
        List.filter (\<lambda>u. case preference_of u rows of
            None \<Rightarrow> True
          | Some p \<Rightarrow> (case channel of Websocket \<Rightarrow> np_websocketEnabled p | Email \<Rightarrow> np_emailEnabled p | Push \<Rightarrow> np_pushEnabled p)) ids)"

subsection \<open>Delivery (queue, worker, channels)\<close>

definition enqueueNotification :: "delivery \<Rightarrow> notify_state \<Rightarrow> notify_state" where
  "enqueueNotification d s = (if ns_hasQueue s then s\<lparr>ns_jobs := ns_jobs s @ [d]\<rparr> else s)"

text \<open>\<open>ns_io\<close> says whether the running process has a WebSocket gateway (socket.gateway.js).\<close>

definition emitNotificationToUser :: "string \<Rightarrow> delivery \<Rightarrow> notify_state \<Rightarrow> bool \<times> notify_state" where
  "emitNotificationToUser userId payload s =
     (if \<not> ns_io s \<or> userId = [] then (False, s)
      else (True, s\<lparr>ns_sockets := ns_sockets s @ [(userId, payload)]\<rparr>))"

definition sendWebsocketChannel :: "delivery \<Rightarrow> notify_state \<Rightarrow> bool \<times> notify_state" where
  "sendWebsocketChannel d s =
     (let ids = filterRecipientsByChannelPreference (dl_recipientIds d) Websocket s in
      (ids \<noteq> [], fold (\<lambda>u s. snd (emitNotificationToUser u d s)) ids s))"

text \<open>The email and push channels are placeholders that deliver nothing.\<close>

definition sendNotification :: "delivery \<Rightarrow> notify_state \<Rightarrow> bool \<times> notify_state" where
  "sendNotification d s = sendWebsocketChannel d s"

definition processNotificationJob :: "notify_state \<Rightarrow> notify_state" where
  "processNotificationJob s =
     (case ns_jobs s of [] \<Rightarrow> s | d # ds \<Rightarrow> snd (sendNotification d (s\<lparr>ns_jobs := ds\<rparr>)))"

subsection \<open>Service (notification.service.js)\<close>

definition createInAppNotificationsService ::
    "string option \<Rightarrow> string option \<Rightarrow> string list \<Rightarrow> notification_type \<Rightarrow> string \<Rightarrow> string \<Rightarrow>
     (string \<times> string option) list \<Rightarrow> time \<Rightarrow> (nat \<Rightarrow> string) \<Rightarrow> notify_state \<Rightarrow> nat result \<times> notify_state" where
  "createInAppNotificationsService organizationId ticketId recipientIds type title message metadata now ids s =
     (let recipients = dedupe recipientIds in
      if \<not> truthy organizationId then throw (ApiError 400 ''Organization ID is required'' ''ORG_ID_REQUIRED'') s
      else if recipients = [] then return 0 s
      else if title = [] \<or> message = []
      then throw (ApiError 400 ''Notification type, title, and message are required'' ''NOTIFICATION_FIELDS_REQUIRED'') s
      else createNotifications
        (List.map (\<lambda>(k, u). \<lparr>n_id = ids k, n_organizationId = the organizationId, n_ticketId = ticketId, n_recipientId = u,
            n_type = type, n_title = title, n_message = message, n_metadata = metadata, n_isRead = False,
            n_readAt = None, n_createdAt = now\<rparr>) (enumerate 0 recipients)) s)"

definition createTicketEventNotificationService ::
    "event \<Rightarrow> notification_type \<Rightarrow> string \<Rightarrow> string \<Rightarrow> recipient_mode \<Rightarrow> time \<Rightarrow> (nat \<Rightarrow> string) \<Rightarrow>
     notify_state \<Rightarrow> nat result \<times> notify_state" where
  "createTicketEventNotificationService payload type title message mode now ids s =
     (case resolveRecipientsForTicketEvent payload mode (ns_gateway s) of
        (organizationId, recipientIds) \<Rightarrow>
          let filtered = applyRecipientPreferences (dedupe recipientIds) (payload_field payload ''actorId'') type s in
          case createInAppNotificationsService organizationId (payload_field payload ''ticketId'') filtered type title
              message (e_metadata payload) now ids s of
            (Inl e, s1) \<Rightarrow> throw e s1
          | (Inr n, s1) \<Rightarrow>
              return n (enqueueNotification
                \<lparr>dl_type = type, dl_ticketId = payload_field payload ''ticketId'', dl_organizationId = organizationId,
                 dl_actorId = payload_field payload ''actorId'', dl_recipientIds = filtered\<rparr> s1))"

definition handleTicketNotificationEvent ::
    "event \<Rightarrow> notification_type \<Rightarrow> string \<Rightarrow> string \<Rightarrow> recipient_mode \<Rightarrow> time \<Rightarrow> (nat \<Rightarrow> string) \<Rightarrow>
     notify_state \<Rightarrow> nat result \<times> notify_state" where
  "handleTicketNotificationEvent payload type title message mode now ids s =
     (case createTicketEventNotificationService payload type title message mode now ids s of
        (Inl e, s1) \<Rightarrow> if e = PrismaError ''P2003'' then return 0 s1 else throw e s1
      | (Inr n, s1) \<Rightarrow> return n s1)"

text \<open>The table of notification.handlers.js.\<close>

definition notification_for :: "event \<Rightarrow> (notification_type \<times> string \<times> string \<times> recipient_mode) option" where
  "notification_for e =
     (if e_name e = TICKET_ASSIGNED_EVENT
      then Some (NT_TICKET_ASSIGNED, ''Ticket assigned'', ''A ticket has been assigned.'', Assigned_agent)
      else if e_name e = TICKET_COMMENT_ADDED_EVENT
      then Some (NT_TICKET_COMMENT_ADDED, ''Comment added'', ''A comment was added to the ticket.'', Ticket_watchers)
      else if e_name e = TICKET_COMMENT_DELETED_EVENT
      then Some (NT_TICKET_COMMENT_DELETED, ''Comment deleted'', ''A comment was deleted from the ticket.'', Ticket_watchers)
      else if e_name e = TICKET_TAG_ADDED_EVENT
      then Some (NT_TICKET_TAG_ADDED, ''Tag added'', ''A tag was added to the ticket.'', Ticket_watchers)
      else if e_name e = TICKET_TAG_REMOVED_EVENT
      then Some (NT_TICKET_TAG_REMOVED, ''Tag removed'', ''A tag was removed from the ticket.'', Ticket_watchers)
      else if e_name e = TICKET_ATTACHMENT_ADDED_EVENT
      then Some (NT_TICKET_ATTACHMENT_ADDED, ''Attachment added'', ''An attachment was added to the ticket.'', Ticket_watchers)
      else if e_name e = TICKET_ATTACHMENT_DELETED_EVENT
      then Some (NT_TICKET_ATTACHMENT_DELETED, ''Attachment deleted'', ''An attachment was removed from the ticket.'', Ticket_watchers)
      else None)"

definition notify_event :: "event \<Rightarrow> time \<Rightarrow> (nat \<Rightarrow> string) \<Rightarrow> notify_state \<Rightarrow> notify_state" where
  "notify_event e now ids s =
     (case notification_for e of
        None \<Rightarrow> s
      | Some (type, title, message, mode) \<Rightarrow> snd (handleTicketNotificationEvent e type title message mode now ids s))"

definition listMyNotificationsService ::
    "string \<Rightarrow> int option \<Rightarrow> int option \<Rightarrow> bool option \<Rightarrow> notify_state \<Rightarrow> notification list result \<times> notify_state" where
  "listMyNotificationsService recipientId page pageSize isRead s =
     (if recipientId = [] then throw (ApiError 400 ''Recipient ID is required'' ''RECIPIENT_ID_REQUIRED'') s
      else return (getNotificationsByRecipient recipientId page pageSize isRead s) s)"

definition markNotificationAsReadService :: "string \<Rightarrow> string \<Rightarrow> time \<Rightarrow> notify_state \<Rightarrow> nat result \<times> notify_state" where
  "markNotificationAsReadService notificationId recipientId now s =
     (if notificationId = [] \<or> recipientId = []
      then throw (ApiError 400 ''Notification ID and recipient ID are required'' ''NOTIFICATION_PARAMS_REQUIRED'') s
      else case markNotificationAsRead notificationId recipientId now s of
        (n, s1) \<Rightarrow> if n = 0 then throw (ApiError 404 ''Notification not found'' ''NOTIFICATION_NOT_FOUND'') s1
          else return n s1)"

definition markAllNotificationsAsReadService :: "string \<Rightarrow> time \<Rightarrow> notify_state \<Rightarrow> nat result \<times> notify_state" where
  "markAllNotificationsAsReadService recipientId now s =
     (if recipientId = [] then throw (ApiError 400 ''Recipient ID is required'' ''RECIPIENT_ID_REQUIRED'') s
      else case markAllNotificationsAsRead recipientId now s of (n, s1) \<Rightarrow> return n s1)"

definition getMyNotificationPreferencesService :: "string \<Rightarrow> notify_state \<Rightarrow> preference result \<times> notify_state" where
  "getMyNotificationPreferencesService userId s =
     (if userId = [] then throw (ApiError 400 ''User ID is required'' ''USER_ID_REQUIRED'') s
      else case getNotificationPreferenceByUserId userId s of
        None \<Rightarrow> return (DEFAULT_NOTIFICATION_PREFERENCES userId) s
      | Some p \<Rightarrow> return p s)"

definition updateMyNotificationPreferencesService ::
    "string \<Rightarrow> preference_data \<Rightarrow> notify_state \<Rightarrow> preference result \<times> notify_state" where
  "updateMyNotificationPreferencesService userId d s =
     (if userId = [] then throw (ApiError 400 ''User ID is required'' ''USER_ID_REQUIRED'') s
      else upsertNotificationPreferenceByUserId userId d s)"

subsection \<open>Lemmas\<close>

lemma dedupe_from_props:
  "set (dedupe_from seen xs) = set xs - {[]} - set seen" "distinct (dedupe_from seen xs)"
  by (induction xs arbitrary: seen) auto

lemma dedupe_props [simp]: "set (dedupe xs) = set xs - {[]}" "distinct (dedupe xs)"
  using dedupe_from_props [of "[]" xs] by (simp_all add: dedupe_def)

lemma dedupe_from_id: "distinct xs \<Longrightarrow> [] \<notin> set xs \<Longrightarrow> set xs \<inter> set seen = {} \<Longrightarrow> dedupe_from seen xs = xs"
  by (induction xs arbitrary: seen) auto

lemma dedupe_id: "distinct xs \<Longrightarrow> [] \<notin> set xs \<Longrightarrow> dedupe xs = xs"
  by (simp add: dedupe_def dedupe_from_id)

lemma dedupe_idem [simp]: "dedupe (dedupe xs) = dedupe xs"
  by (rule dedupe_id) simp_all

lemma preference_of_filter:
  "u \<in> set ids \<Longrightarrow> preference_of u (find_many (\<lambda>p. np_userId p \<in> set ids) ps) = preference_of u ps"
proof -
  assume u: "u \<in> set ids"
  have "List.find (\<lambda>p. np_userId p = u) (List.filter (\<lambda>p. np_userId p \<in> set ids) qs) = List.find (\<lambda>p. np_userId p = u) qs" for qs
    using u by (induction qs) auto
  then show ?thesis by (simp add: preference_of_def find_many_def rev_filter)
qed

lemma applyRecipientPreferences_eq:
  "applyRecipientPreferences ids a ty s = List.filter (\<lambda>u. wants (preference_of u (preferences s)) a ty u) (dedupe ids)"
proof -
  have "wants (preference_of u (getNotificationPreferencesForUsers (dedupe ids) s)) a ty u =
      wants (preference_of u (preferences s)) a ty u" if "u \<in> set (dedupe ids)" for u
  proof -
    have "dedupe ids \<noteq> []" using that by force
    then show ?thesis using that by (simp add: getNotificationPreferencesForUsers_def preference_of_filter del: dedupe_props(1))
  qed
  then have "List.filter (\<lambda>u. wants (preference_of u (getNotificationPreferencesForUsers (dedupe ids) s)) a ty u) (dedupe ids) =
      List.filter (\<lambda>u. wants (preference_of u (preferences s)) a ty u) (dedupe ids)" by (intro filter_cong refl) blast
  then show ?thesis by (simp add: applyRecipientPreferences_def Let_def)
qed

text \<open>A user's own actions leave the rows of the others alone.\<close>

lemma mark_read_others:
  assumes "\<And>n. p n \<Longrightarrow> n_recipientId n = u"
  shows "List.filter (\<lambda>n. n_recipientId n \<noteq> u) (notifications (snd (mark_read p now s))) =
      List.filter (\<lambda>n. n_recipientId n \<noteq> u) (notifications s)"
proof -
  have "notifications (snd (mark_read p now s)) =
      update_rows (\<lambda>n. p n \<and> \<not> n_isRead n) (\<lambda>n. n\<lparr>n_isRead := True, n_readAt := Some now\<rparr>) (notifications s)"
    by (simp add: mark_read_def Let_def)
  then show ?thesis using assms by (simp only:) (rule filter_update_rows, auto)
qed

lemma own_notifications_only:
  "List.filter (\<lambda>n. n_recipientId n \<noteq> u) (notifications (snd (markNotificationAsReadService i u now s))) =
      List.filter (\<lambda>n. n_recipientId n \<noteq> u) (notifications s)"
  "List.filter (\<lambda>n. n_recipientId n \<noteq> u) (notifications (snd (markAllNotificationsAsReadService u now s))) =
      List.filter (\<lambda>n. n_recipientId n \<noteq> u) (notifications s)"
  "listMyNotificationsService u pg ps rd s = (Inr ns, s') \<Longrightarrow> \<forall>n\<in>set ns. n_recipientId n = u"
proof -
  have a: "List.filter (\<lambda>n. n_recipientId n \<noteq> u) (notifications (snd (mark_read p now s))) =
      List.filter (\<lambda>n. n_recipientId n \<noteq> u) (notifications s)" if "\<And>n. p n \<Longrightarrow> n_recipientId n = u" for p
    using that by (rule mark_read_others)
  show "List.filter (\<lambda>n. n_recipientId n \<noteq> u) (notifications (snd (markNotificationAsReadService i u now s))) =
      List.filter (\<lambda>n. n_recipientId n \<noteq> u) (notifications s)"
    using a [of "\<lambda>n. n_id n = i \<and> n_recipientId n = u"]
    by (auto simp: markNotificationAsReadService_def markNotificationAsRead_def split: prod.split)
  show "List.filter (\<lambda>n. n_recipientId n \<noteq> u) (notifications (snd (markAllNotificationsAsReadService u now s))) =
      List.filter (\<lambda>n. n_recipientId n \<noteq> u) (notifications s)"
    using a [of "\<lambda>n. n_recipientId n = u"]
    by (auto simp: markAllNotificationsAsReadService_def markAllNotificationsAsRead_def split: prod.split)
  show "\<forall>n\<in>set ns. n_recipientId n = u" if "listMyNotificationsService u pg ps rd s = (Inr ns, s')"
    using that
    by (auto simp: listMyNotificationsService_def getNotificationsByRecipient_def Let_def
        dest!: in_set_takeD in_set_dropD split: if_splits)
qed

lemma enqueueNotification_rows [simp]: "notifications (enqueueNotification d s) = notifications s"
  by (simp add: enqueueNotification_def)

text \<open>The users an event on the ticket should reach.\<close>

definition should_notify :: "notify_state \<Rightarrow> event \<Rightarrow> ticket \<Rightarrow> string \<Rightarrow> notification_type \<Rightarrow> string set" where
  "should_notify s e t o' type =
     {w. w \<noteq> [] \<and>
       (w = t_createdById t \<or> Some w = t_assignedToId t \<or>
        (\<exists>m\<in>set (memberships (ns_gateway s)). m_userId m = w \<and> m_organizationId m = o' \<and>
           (\<exists>r\<in>set (roles (ns_gateway s)). r_id r = m_roleId m \<and> TICKET_VIEW_ALL \<in> set (r_rolePermissions r)))) \<and>
       wants (preference_of w (preferences s)) (payload_field e ''actorId'') type w}"

lemma filtered_recipients:
  assumes "payload_field e ''ticketId'' = Some i" "i \<noteq> []" "find_ticket i (ns_gateway s) = Some t"
    "payload_field e ''organizationId'' = Some o'" "o' \<noteq> []"
  shows "set (applyRecipientPreferences (dedupe (snd (resolveRecipientsForTicketEvent e Ticket_watchers (ns_gateway s))))
      (payload_field e ''actorId'') type s) = should_notify s e t o' type"
    "fst (resolveRecipientsForTicketEvent e Ticket_watchers (ns_gateway s)) = Some o'"
  using assms
  by (auto simp: resolveRecipientsForTicketEvent_def getTicketNotificationContext_def Let_def
      getOrganizationStaffRecipientIds_def applyRecipientPreferences_eq should_notify_def list_of_def list_ex_iff
      find_many_def image_iff split: option.splits)

text \<open>A batch of rows for one organization and one ticket is stored whole, or refused for a stale key.\<close>

lemma createNotifications_outcome:
  assumes "\<forall>r\<in>set rows. n_organizationId r = o' \<and> n_ticketId r = Some i" "find_ticket i (ns_gateway s) = Some t"
    "distinct (List.map n_id rows)" "n_id ` set rows \<inter> n_id ` set (notifications s) = {}"
  shows "createNotifications rows s = throw (PrismaError ''P2003'') s \<and>
      ((\<forall>x\<in>set (organizations (ns_gateway s)). o_id x \<noteq> o') \<or> (\<exists>r\<in>set rows. find_user (n_recipientId r) (ns_gateway s) = None)) \<or>
    createNotifications rows s = return (length rows) (s\<lparr>notifications := notifications s @ rows\<rparr>)"
proof (cases "list_ex (\<lambda>n. \<not> list_ex (\<lambda>x. o_id x = n_organizationId n) (organizations (ns_gateway s)) \<or>
    find_user (n_recipientId n) (ns_gateway s) = None \<or>
    (case n_ticketId n of None \<Rightarrow> False | Some i \<Rightarrow> find_ticket i (ns_gateway s) = None)) rows")
  case True
  then have "rows \<noteq> []" by auto
  with True show ?thesis using assms by (auto simp: createNotifications_def list_ex_iff)
next
  case False
  then show ?thesis using assms by (auto simp: createNotifications_def)
qed

text \<open>The rows an event asks for, one for each recipient.\<close>

definition event_rows ::
    "(nat \<Rightarrow> string) \<Rightarrow> string \<Rightarrow> string \<Rightarrow> string list \<Rightarrow> notification_type \<Rightarrow> string \<Rightarrow> string \<Rightarrow> event \<Rightarrow> time \<Rightarrow>
     notification list" where
  "event_rows ids o' i us type title message e now =
     List.map (\<lambda>(k, u). \<lparr>n_id = ids k, n_organizationId = o', n_ticketId = Some i, n_recipientId = u,
       n_type = type, n_title = title, n_message = message, n_metadata = e_metadata e, n_isRead = False,
       n_readAt = None, n_createdAt = now\<rparr>) (enumerate 0 us)"

lemma event_rows_columns:
  "List.map n_recipientId (event_rows ids o' i us type title message e now) = us"
  "n_id ` set (event_rows ids o' i us type title message e now) \<subseteq> range ids"
  "inj ids \<Longrightarrow> distinct (List.map n_id (event_rows ids o' i us type title message e now))"
proof -
  let ?rows = "event_rows ids o' i us type title message e now"
  show "List.map n_recipientId ?rows = us" by (simp add: event_rows_def case_prod_beta' comp_def)
  have "List.map n_id ?rows = List.map ids (List.map fst (enumerate 0 us))"
    by (simp add: event_rows_def case_prod_beta' comp_def del: map_fst_enumerate)
  then have n: "List.map n_id ?rows = List.map ids [0..<length us]" by simp
  then show "n_id ` set ?rows \<subseteq> range ids" by (metis image_subsetI list.set_map rangeI imageE)
  show "distinct (List.map n_id ?rows)" if "inj ids" using that by (simp add: n distinct_map inj_on_def inj_def)
qed

lemma event_rows_row:
  "r \<in> set (event_rows ids o' i us type title message e now) \<Longrightarrow>
    n_type r = type \<and> n_ticketId r = Some i \<and> n_organizationId r = o' \<and> \<not> n_isRead r \<and> n_metadata r = e_metadata e"
  by (auto simp: event_rows_def)

text \<open>What the handler stores for an event on a ticket.\<close>

lemma notify_event_rows:
  assumes "notification_for e = Some (type, title, message, Ticket_watchers)"
    "payload_field e ''ticketId'' = Some i" "resolveRecipientsForTicketEvent e Ticket_watchers (ns_gateway s) = (Some o', rs)"
    "o' \<noteq> []" "us = applyRecipientPreferences (dedupe rs) (payload_field e ''actorId'') type s" "[] \<notin> set us" "distinct us"
  shows "notifications (notify_event e now ids s) = notifications (snd
    (if us = [] then return 0 s else createNotifications (event_rows ids o' i us type title message e now) s))"
proof -
  let ?c = "if us = [] then return 0 s else createNotifications (event_rows ids o' i us type title message e now) s"
  have tm: "title \<noteq> []" "message \<noteq> []"
    using assms(1) by (auto simp: notification_for_def split: if_splits)
  have svc: "createInAppNotificationsService (Some o') (Some i) us type title message (e_metadata e) now ids s = ?c"
    using assms(4,6,7) tm by (simp add: createInAppNotificationsService_def Let_def dedupe_id event_rows_def)
  have ce: "createTicketEventNotificationService e type title message Ticket_watchers now ids s =
      (case ?c of
        (Inl x, s1) \<Rightarrow> throw x s1
      | (Inr n, s1) \<Rightarrow> return n (enqueueNotification
          \<lparr>dl_type = type, dl_ticketId = Some i, dl_organizationId = Some o',
           dl_actorId = payload_field e ''actorId'', dl_recipientIds = us\<rparr> s1))"
    unfolding createTicketEventNotificationService_def assms(2,3) prod.case Let_def assms(5) [symmetric] by (simp only: svc)
  show ?thesis
    unfolding notify_event_def assms(1) option.case prod.case handleTicketNotificationEvent_def ce
    by (simp split: sum.split prod.split)
qed

text \<open>
  C40. Who is notified. When the handlers of an event on a ticket (other than an assignment) are
  run without a foreign key of the rows being stale, exactly one unread in-app notification is
  created for each user who created the ticket, is assigned to it, or is a member of the
  organization whose role carries \<open>ticket:view_all\<close>, and whose preferences want it, the actor being
  left out by default; each row carries the metadata of the event, so the text of an internal
  comment too. If a key is stale, nothing is created and no error leaves the handler.
\<close>

theorem ticket_event_recipients:
  assumes "notification_for e = Some (type, title, message, Ticket_watchers)"
    "payload_field e ''ticketId'' = Some i" "i \<noteq> []" "find_ticket i (ns_gateway s) = Some t"
    "payload_field e ''organizationId'' = Some o'" "o' \<noteq> []" "inj ids" "range ids \<inter> n_id ` set (notifications s) = {}"
  shows "(\<exists>rows. notifications (notify_event e now ids s) = notifications s @ rows \<and>
      distinct (List.map n_recipientId rows) \<and> n_recipientId ` set rows = should_notify s e t o' type \<and>
      (\<forall>r\<in>set rows. n_type r = type \<and> n_ticketId r = Some i \<and> n_organizationId r = o' \<and> \<not> n_isRead r \<and>
         n_metadata r = e_metadata e)) \<or>
    (notifications (notify_event e now ids s) = notifications s \<and>
      ((\<forall>x\<in>set (organizations (ns_gateway s)). o_id x \<noteq> o') \<or>
       (\<exists>w\<in>should_notify s e t o' type. find_user w (ns_gateway s) = None)))"
proof -
  let ?g = "ns_gateway s"
  obtain rs where rs: "resolveRecipientsForTicketEvent e Ticket_watchers ?g = (Some o', rs)"
    using filtered_recipients(2) [OF assms(2-6)] by (metis prod.collapse)
  define us where "us = applyRecipientPreferences (dedupe rs) (payload_field e ''actorId'') type s"
  define rows where "rows = event_rows ids o' i us type title message e now"
  have us: "set us = should_notify s e t o' type" "distinct us"
    using filtered_recipients(1) [OF assms(2-6), of type] by (simp_all add: us_def rs) (simp add: applyRecipientPreferences_eq)
  have st: "notifications (notify_event e now ids s) =
      notifications (snd (if us = [] then return 0 s else createNotifications rows s))"
    unfolding rows_def using us by (intro notify_event_rows [OF assms(1,2) rs assms(6) us_def]) (simp_all add: should_notify_def)
  have rec: "distinct (List.map n_recipientId rows)" "n_recipientId ` set rows = should_notify s e t o' type"
    using us event_rows_columns(1) [of ids o' i us type title message e now] by (simp_all add: rows_def flip: set_map)
  note row = event_rows_row [of _ ids o' i us type title message e now, folded rows_def]
  show ?thesis
  proof (cases "us = []")
    case True
    then have "notifications (notify_event e now ids s) = notifications s" by (simp add: st)
    moreover have "rows = []" using True by (simp add: rows_def event_rows_def)
    ultimately show ?thesis using rec row by (intro disjI1 exI [of _ rows]) simp
  next
    case False
    have o: "\<forall>r\<in>set rows. n_organizationId r = o' \<and> n_ticketId r = Some i" using row by blast
    have new: "n_id ` set rows \<inter> n_id ` set (notifications s) = {}"
      using event_rows_columns(2) [of ids o' i us type title message e now] assms(8) unfolding rows_def by blast
    have d: "distinct (List.map n_id rows)" unfolding rows_def by (rule event_rows_columns(3) [OF assms(7)])
    show ?thesis using createNotifications_outcome [OF o assms(4) d new]
    proof
      assume c: "createNotifications rows s = throw (PrismaError ''P2003'') s \<and>
        ((\<forall>x\<in>set (organizations ?g). o_id x \<noteq> o') \<or> (\<exists>r\<in>set rows. find_user (n_recipientId r) ?g = None))"
      then have "notifications (notify_event e now ids s) = notifications s" by (simp add: st False)
      then show ?thesis using c rec(2) by blast
    next
      assume "createNotifications rows s = return (length rows) (s\<lparr>notifications := notifications s @ rows\<rparr>)"
      then have "notifications (notify_event e now ids s) = notifications s @ rows" by (simp add: st False)
      then show ?thesis using rec row by blast
    qed
  qed
qed

text \<open>A comment of the example agent notifies the member who made the ticket and the owner, not the agent.\<close>

definition example_notify :: notify_state where
  "example_notify = \<lparr>ns_gateway = snd (createTicketCommentService ''t1'' ''secret'' (Some True) ''agt'' 5 ''c9'' example_gateway),
     notifications = [], preferences = [], ns_hasQueue = True, ns_jobs = [], ns_io = True, ns_sockets = []\<rparr>"

definition example_comment_event :: event where
  "example_comment_event = hd (emitted (ns_gateway example_notify))"

definition example_ids :: "nat \<Rightarrow> string" where
  "example_ids k = replicate k CHR ''x''"

lemma inj_example_ids: "inj example_ids"
  by (rule injI) (metis example_ids_def length_replicate)

lemma example_recipients:
  "set (applyRecipientPreferences (dedupe (snd (resolveRecipientsForTicketEvent example_comment_event Ticket_watchers
       (ns_gateway example_notify)))) (payload_field example_comment_event ''actorId'') NT_TICKET_COMMENT_ADDED example_notify)
   = {''mem'', ''own''}"
  by code_simp

theorem ticket_event_recipients_witness:
  "\<exists>rows. notifications (notify_event example_comment_event 9 example_ids example_notify) = rows \<and>
     distinct (List.map n_recipientId rows) \<and> n_recipientId ` set rows = {''mem'', ''own''}"
proof -
  let ?e = example_comment_event and ?s = example_notify
  have n: "notification_for ?e = Some (NT_TICKET_COMMENT_ADDED, ''Comment added'', ''A comment was added to the ticket.'',
      Ticket_watchers)" by code_simp
  have f: "payload_field ?e ''ticketId'' = Some ''t1''" "payload_field ?e ''organizationId'' = Some ''o1''" by code_simp+
  have t: "find_ticket ''t1'' (ns_gateway ?s) = Some example_ticket" by code_simp
  have o: "\<not> (\<forall>x\<in>set (organizations (ns_gateway ?s)). o_id x \<noteq> ''o1'')" by code_simp
  have w: "find_user ''mem'' (ns_gateway ?s) \<noteq> None" "find_user ''own'' (ns_gateway ?s) \<noteq> None" by code_simp+
  have i: "range example_ids \<inter> n_id ` set (notifications ?s) = {}" "notifications ?s = []"
    by (simp_all add: example_notify_def)
  have r: "should_notify ?s ?e example_ticket ''o1'' NT_TICKET_COMMENT_ADDED = {''mem'', ''own''}"
    using filtered_recipients(1) [OF f(1) _ t f(2)] example_recipients by (metis list.discI)
  show ?thesis
    using ticket_event_recipients [OF n f(1) _ t f(2) _ inj_example_ids i(1), of 9] o w unfolding r i(2)
    by auto
qed

end
