(* ===== verification/Realtime.thy ===== *)
theory Realtime
  imports Notifications Auth_Correct AI_Prompts AI_Controls
begin

section \<open>Realtime delivery and the routes of notifications\<close>

text \<open>
  The WebSocket gateway (notifications/realtime/socket.gateway.js): who may connect and where a
  message goes; the two processes of the program, the server (server.js), which has the gateway, and
  the worker (worker.js), which runs the jobs of notification.worker.js and has none; the routes
  of notification.routes.js. The processes share the database and the queues but no variable of
  a module. What socket.io keeps of the connected clients is the list of the pairs of a socket and its user.
\<close>

subsection \<open>Connecting (socket.gateway.js)\<close>

record handshake =
  hs_authToken :: "string option"
  hs_authorization :: "string option"
  hs_queryToken :: "string option"

definition userRoom :: "string \<Rightarrow> string" where
  "userRoom userId = ''user:'' @ userId"

definition getTokenFromSocket :: "handshake \<Rightarrow> string option" where
  "getTokenFromSocket h =
     (if truthy (hs_authToken h) then Some (js_replace ''Bearer '' [] (the (hs_authToken h)))
      else if truthy (hs_authorization h) then Some (js_replace ''Bearer '' [] (the (hs_authorization h)))
      else if truthy (hs_queryToken h) then Some (js_replace ''Bearer '' [] (the (hs_queryToken h)))
      else None)"

text \<open>The user of an accepted connection; every error is \<open>Unauthorized\<close>.\<close>

definition socket_auth :: "auth_env \<Rightarrow> handshake \<Rightarrow> string option" where
  "socket_auth env h =
     (let token = getTokenFromSocket h in
      if \<not> truthy token then None
      else case verifyAccessToken env (the token) of Inl _ \<Rightarrow> None | Inr decoded \<Rightarrow> Some (tc_sub decoded))"

definition socket_connect :: "auth_env \<Rightarrow> string \<Rightarrow> handshake \<Rightarrow> (string \<times> string) list \<Rightarrow> (string \<times> string) list" where
  "socket_connect env socketId h rooms =
     (case socket_auth env h of None \<Rightarrow> rooms | Some userId \<Rightarrow> rooms @ [(socketId, userRoom userId)])"

definition socket_disconnect :: "string \<Rightarrow> (string \<times> string) list \<Rightarrow> (string \<times> string) list" where
  "socket_disconnect socketId rooms = List.filter (\<lambda>(i, _). i \<noteq> socketId) rooms"

text \<open>The sockets a message to a user goes to.\<close>

definition receivers :: "string \<Rightarrow> (string \<times> string) list \<Rightarrow> string list" where
  "receivers userId rooms = List.map fst (List.filter (\<lambda>(_, r). r = userRoom userId) rooms)"

lemma receivers_authenticated:
  assumes "i \<in> set (receivers u (socket_connect env i h rooms))" "i \<notin> fst ` set rooms"
  shows "socket_auth env h = Some u"
  using assms by (force simp: receivers_def socket_connect_def userRoom_def split: option.splits)

subsection \<open>The two processes (server.js, worker.js)\<close>

definition initializeWebsocketGateway :: "notify_state \<Rightarrow> notify_state" where
  "initializeWebsocketGateway s = s\<lparr>ns_io := True\<rparr>"

definition closeWebsocketGateway :: "notify_state \<Rightarrow> notify_state" where
  "closeWebsocketGateway s = s\<lparr>ns_io := False\<rparr>"

text \<open>The state as a process sees it: \<open>ioInstance\<close> is undefined until the process initializes it.\<close>

definition fresh_process :: "notify_state \<Rightarrow> notify_state" where
  "fresh_process s = s\<lparr>ns_io := False\<rparr>"

definition server_process :: "notify_state \<Rightarrow> notify_state" where
  "server_process s = initializeWebsocketGateway (fresh_process s)"

definition worker_process :: "notify_state \<Rightarrow> notify_state" where
  "worker_process s = fresh_process s"

text \<open>
  What the server does to notifications: an event is handled, a user reads notifications or
  changes the preferences. The jobs of the queue are run by the worker alone. The gateway tables may
  change in between (\<open>other\<close>).
\<close>

inductive realtime_step :: "notify_state \<Rightarrow> notify_state \<Rightarrow> bool" where
  event: "realtime_step s (notify_event e now ids (server_process s))"
| mark: "realtime_step s (snd (markNotificationAsReadService i u now (server_process s)))"
| mark_all: "realtime_step s (snd (markAllNotificationsAsReadService u now (server_process s)))"
| preference: "realtime_step s (snd (updateMyNotificationPreferencesService u d (server_process s)))"
| job: "realtime_step s (processNotificationJob (worker_process s))"
| other: "realtime_step s (s\<lparr>ns_gateway := g\<rparr>)"

lemma emit_fold:
  "ns_sockets (fold (\<lambda>u s. snd (emitNotificationToUser u d s)) us s) =
     ns_sockets s @ (if ns_io s then List.map (\<lambda>u. (u, d)) (List.filter (\<lambda>u. u \<noteq> []) us) else [])"
  by (induction us arbitrary: s) (simp_all add: emitNotificationToUser_def)

lemma notify_event_sockets: "ns_sockets (notify_event e now ids s) = ns_sockets s"
proof -
  have a: "ns_sockets (snd (createNotifications rows t)) = ns_sockets t" for rows t
    by (simp add: createNotifications_def)
  have b: "ns_sockets (snd (createInAppNotificationsService o' i rs ty ti m me n f t)) = ns_sockets t" for o' i rs ty ti m me n f t
    by (simp add: createInAppNotificationsService_def Let_def a)
  have c: "ns_sockets (snd (createTicketEventNotificationService p ty ti m md n f t)) = ns_sockets t" for p ty ti m md n f t
    using b by (auto simp: createTicketEventNotificationService_def Let_def enqueueNotification_def split: prod.split sum.split) (metis snd_conv)+
  show ?thesis
    using c by (auto simp: notify_event_def handleTicketNotificationEvent_def split: option.split prod.split sum.split) (metis snd_conv)+
qed

lemma realtime_step_sockets:
  "realtime_step s s' \<Longrightarrow> ns_sockets s' = ns_sockets s"
proof (induction rule: realtime_step.induct)
  case (job s)
  show ?case
    by (simp add: processNotificationJob_def sendNotification_def sendWebsocketChannel_def Let_def emit_fold
        worker_process_def fresh_process_def split: list.split)
qed (simp_all add: notify_event_sockets server_process_def initializeWebsocketGateway_def fresh_process_def
    markNotificationAsReadService_def markNotificationAsRead_def markAllNotificationsAsReadService_def
    markAllNotificationsAsRead_def mark_read_def updateMyNotificationPreferencesService_def
    upsertNotificationPreferenceByUserId_def Let_def split: option.split prod.split)

text \<open>C27. No notification ever reaches a WebSocket: whatever events, requests and jobs there are, no
  message is emitted to any user, while every job with a recipient who wants WebSocket messages is
  reported as delivered. The jobs run in the worker process, which has no gateway; in the server
  process the same job would emit a message to each of these recipients.\<close>

theorem realtime_never_delivered:
  assumes "realtime_step\<^sup>*\<^sup>* s s'"
  shows "ns_sockets s' = ns_sockets s \<and>
    fst (sendNotification d (worker_process s')) =
      (filterRecipientsByChannelPreference (dl_recipientIds d) Websocket s' \<noteq> []) \<and>
    ns_sockets (snd (sendNotification d (worker_process s'))) = ns_sockets s' \<and>
    ns_sockets (snd (sendNotification d (server_process s'))) = ns_sockets s' @
      List.map (\<lambda>u. (u, d)) (filterRecipientsByChannelPreference (dl_recipientIds d) Websocket s')"
proof -
  have "ns_sockets s' = ns_sockets s"
    using assms by (induction rule: rtranclp_induct) (simp_all add: realtime_step_sockets)
  moreover have f: "filterRecipientsByChannelPreference ids Websocket (s'\<lparr>ns_io := b\<rparr>) =
      filterRecipientsByChannelPreference ids Websocket s'" for ids b
    by (simp add: filterRecipientsByChannelPreference_def getNotificationPreferencesForUsers_def Let_def)
  moreover have "[] \<notin> set (filterRecipientsByChannelPreference ids Websocket s')" for ids
    by (simp add: filterRecipientsByChannelPreference_def Let_def)
  then have "List.filter (\<lambda>u. u \<noteq> []) (filterRecipientsByChannelPreference ids Websocket s') =
      filterRecipientsByChannelPreference ids Websocket s'" for ids
    by (metis (mono_tags, lifting) filter_True)
  ultimately show ?thesis
    by (simp add: sendNotification_def sendWebsocketChannel_def emit_fold Let_def server_process_def
        worker_process_def initializeWebsocketGateway_def fresh_process_def)
qed

theorem realtime_never_delivered_witness:
  "ns_sockets (processNotificationJob (worker_process (notify_event example_comment_event 9 example_ids
      (server_process example_notify)))) = [] \<and>
   List.length (ns_jobs (notify_event example_comment_event 9 example_ids (server_process example_notify))) = 1"
proof -
  let ?s = "notify_event example_comment_event 9 example_ids (server_process example_notify)"
  have "realtime_step\<^sup>*\<^sup>* example_notify (processNotificationJob (worker_process ?s))"
    by (meson realtime_step.event realtime_step.job rtranclp.rtrancl_into_rtrancl rtranclp.rtrancl_refl)
  from realtime_never_delivered [OF this] have "ns_sockets (processNotificationJob (worker_process ?s)) = []"
    by (simp add: example_notify_def)
  moreover have "List.length (ns_jobs ?s) = 1" by code_simp
  ultimately show ?thesis by simp
qed

text \<open>C8. Logging out does not end the access to the WebSocket gateway. With an access token that its
  user has logged out with, every request is refused as revoked, but a socket is still accepted as
  that user for as long as the token verifies, through each of the three places a token may be in.\<close>

theorem websocket_accepts_revoked:
  assumes "ae_verify env t (ae_now env) = Some d" "tc_type d = ''access''" "tc_jti d = Some j" "j \<noteq> []"
    "dt_exp d = Some e" "e \<noteq> 0" "t \<noteq> []" "j \<notin> fst ` set (tokenBlacklist s)"
    "ae_verify env' t (ae_now env') = Some d" "split_first ''Bearer '' t = None"
  shows "fst (authenticate env' (Some (''Bearer '' @ t)) (snd (logoutUser env (Some t) r s))) =
      Inl (ApiError 401 ''Token has been revoked'' ''TOKEN_REVOKED'') \<and>
    socket_auth env' \<lparr>hs_authToken = Some t, hs_authorization = a, hs_queryToken = q\<rparr> = Some (tc_sub d) \<and>
    socket_auth env' \<lparr>hs_authToken = None, hs_authorization = Some (''Bearer '' @ t), hs_queryToken = q\<rparr> = Some (tc_sub d) \<and>
    socket_auth env' \<lparr>hs_authToken = None, hs_authorization = None, hs_queryToken = Some t\<rparr> = Some (tc_sub d)"
proof -
  have v: "verifyAccessToken env' t = Inr d" using assms(2,9) by (simp add: verifyAccessToken_def)
  have "j \<in> fst ` set (tokenBlacklist (snd (logoutUser env (Some t) r s)))"
    using logoutUser_blacklists [OF assms(1-8)] by force
  from blacklisted_refused [OF v assms(7,3,4) this]
  have "fst (authenticate env' (Some (''Bearer '' @ t)) (snd (logoutUser env (Some t) r s))) =
      Inl (ApiError 401 ''Token has been revoked'' ''TOKEN_REVOKED'')" .
  moreover have "js_replace ''Bearer '' [] t = t" using assms(10) by (simp add: js_replace_def)
  moreover have "js_replace ''Bearer '' [] (''Bearer '' @ t) = t"
    by (subst js_replace_def) (simp add: split_first_here expand_dollars.simps)
  ultimately show ?thesis using v assms(7) by (simp add: socket_auth_def getTokenFromSocket_def truthy_def Let_def)
qed

theorem websocket_accepts_revoked_witness:
  "fst (authenticate example_auth_env (Some (''Bearer '' @ ''agt'')) (snd (logoutUser example_auth_env (Some ''agt'') None example_tokens))) =
     Inl (ApiError 401 ''Token has been revoked'' ''TOKEN_REVOKED'') \<and>
   socket_auth example_auth_env \<lparr>hs_authToken = None, hs_authorization = None, hs_queryToken = Some ''agt''\<rparr> = Some ''agt''"
proof -
  let ?d = "\<lparr>tc_sub = ''agt'', tc_type = ''access'', tc_jti = Some ''j1'', tc_iat = 5, tc_orgPermissions = [], dt_exp = Some 900\<rparr>"
  have "ae_verify example_auth_env ''agt'' (ae_now example_auth_env) = Some ?d" by (simp add: example_auth_env_def)
  moreover have "''j1'' \<notin> fst ` set (tokenBlacklist example_tokens)"
    by (simp add: example_tokens_def example_gateway_def empty_gateway_def)
  moreover have "split_first ''Bearer '' ''agt'' = None" by code_simp
  ultimately show ?thesis
    using websocket_accepts_revoked [of example_auth_env "''agt''" ?d "''j1''" 900 example_tokens example_auth_env None None None]
    by simp
qed

subsection \<open>Exhausted jobs (notification.worker.js)\<close>

text \<open>An error is its message and its stack. A row that cannot be stored is logged.\<close>

definition persistFailure :: "dlq_env \<Rightarrow> queue_job \<Rightarrow> string \<times> string \<Rightarrow> dlq_state \<Rightarrow> dlq_state" where
  "persistFailure env job error s =
     (if \<not> qe_client env ''aIProcessingFailure'' then s
      else s\<lparr>ds_failures := ds_failures s @
        [\<lparr>af_id = qe_newId env, af_queueName = ''notification-delivery'', af_jobName = q_name job, af_jobId = q_id job,
          af_ticketId = None, af_commentId = None, af_attemptsMade = q_attemptsMade job,
          af_retryLimit = (case q_attempts job of None \<Rightarrow> 3 | Some n \<Rightarrow> n), af_retryable = False,
          af_failureReason = take 1000 (fst error), af_stacktrace = Some (take 3000 (snd error)),
          af_failedAt = qe_now env, af_createdAt = qe_now env\<rparr>]\<rparr>)"

definition notification_job_failed :: "dlq_env \<Rightarrow> queue_job option \<Rightarrow> string \<times> string \<Rightarrow> dlq_state \<Rightarrow> dlq_state" where
  "notification_job_failed env job error s =
     (case job of
        None \<Rightarrow> s
      | Some j \<Rightarrow>
          if q_attemptsMade j \<ge> (case q_attempts j of None \<Rightarrow> 3 | Some n \<Rightarrow> n) then persistFailure env j error s else s)"

text \<open>This worker uses the name the client has, and does not look at the limit on the dead letters.\<close>

lemma notification_failures_kept:
  assumes "qe_client env = schema_client" "3 \<le> q_attemptsMade j" "q_attempts j = None"
  shows "length (ds_failures (notification_job_failed env (Some j) e s)) = Suc (length (ds_failures s))"
proof -
  have "schema_client ''aIProcessingFailure''" by code_simp
  then show ?thesis using assms by (simp add: notification_job_failed_def persistFailure_def)
qed

subsection \<open>Routes (notification.routes.js, notification.controller.js)\<close>

definition NOTIFICATION_TYPES :: "(string \<times> notification_type) list" where
  "NOTIFICATION_TYPES =
     [(''TICKET_ASSIGNED'', NT_TICKET_ASSIGNED), (''TICKET_COMMENT_ADDED'', NT_TICKET_COMMENT_ADDED),
      (''TICKET_COMMENT_DELETED'', NT_TICKET_COMMENT_DELETED), (''TICKET_TAG_ADDED'', NT_TICKET_TAG_ADDED),
      (''TICKET_TAG_REMOVED'', NT_TICKET_TAG_REMOVED), (''TICKET_ATTACHMENT_ADDED'', NT_TICKET_ATTACHMENT_ADDED),
      (''TICKET_ATTACHMENT_DELETED'', NT_TICKET_ATTACHMENT_DELETED)]"

record preference_body =
  pb_inAppEnabled :: "bool option"
  pb_emailEnabled :: "bool option"
  pb_pushEnabled :: "bool option"
  pb_websocketEnabled :: "bool option"
  pb_suppressSelfNotifications :: "bool option"
  pb_disabledTypes :: "string list option"

definition updateNotificationPreferencesSchema :: "preference_body \<Rightarrow> preference_data option" where
  "updateNotificationPreferencesSchema b =
     (let types = (case pb_disabledTypes b of None \<Rightarrow> [] | Some ts \<Rightarrow> List.map (\<lambda>t. map_of NOTIFICATION_TYPES (toUpperCase t)) ts) in
      if None \<in> set types then None
      else if pb_inAppEnabled b = None \<and> pb_emailEnabled b = None \<and> pb_pushEnabled b = None \<and> pb_websocketEnabled b = None \<and>
        pb_suppressSelfNotifications b = None \<and> pb_disabledTypes b = None then None
      else Some \<lparr>pd_inAppEnabled = pb_inAppEnabled b, pd_emailEnabled = pb_emailEnabled b, pd_pushEnabled = pb_pushEnabled b,
        pd_websocketEnabled = pb_websocketEnabled b, pd_suppressSelfNotifications = pb_suppressSelfNotifications b,
        pd_disabledTypes = (case pb_disabledTypes b of None \<Rightarrow> None | Some _ \<Rightarrow> Some (List.map the types))\<rparr>)"

definition normalizeIsRead :: "string option \<Rightarrow> bool option" where
  "normalizeIsRead v = (case v of None \<Rightarrow> None | Some x \<Rightarrow> Some (toLowerCase x = ''true''))"

datatype notification_request =
    GetNotifications "int option" "int option" "string option"
  | PatchReadAll
  | PatchRead string
  | GetPreferences
  | PutPreferences preference_body

datatype notification_response =
    NotificationsData "notification list"
  | CountData nat
  | PreferenceData preference

definition answered :: "('a \<Rightarrow> notification_response) \<Rightarrow> 'a result \<times> notify_state \<Rightarrow> notification_response outcome \<times> notify_state" where
  "answered f r = (case fst r of Inl e \<Rightarrow> (Failed e, snd r) | Inr x \<Rightarrow> (Responded 200 (f x), snd r))"

text \<open>The user is the one the middleware found.\<close>

fun notification_router ::
    "string \<Rightarrow> notification_request \<Rightarrow> time \<Rightarrow> notify_state \<Rightarrow> notification_response outcome \<times> notify_state" where
  "notification_router u (GetNotifications page pageSize isRead) now s =
     answered NotificationsData (listMyNotificationsService u page pageSize (normalizeIsRead isRead) s)"
| "notification_router u PatchReadAll now s = answered CountData (markAllNotificationsAsReadService u now s)"
| "notification_router u (PatchRead i) now s = answered CountData (markNotificationAsReadService i u now s)"
| "notification_router u GetPreferences now s = answered PreferenceData (getMyNotificationPreferencesService u s)"
| "notification_router u (PutPreferences b) now s =
     (case updateNotificationPreferencesSchema b of
        None \<Rightarrow> (Refused 400 ''Validation error'', s)
      | Some d \<Rightarrow> answered PreferenceData (updateMyNotificationPreferencesService u d s))"

lemma snd_answered [simp]: "snd (answered f r) = snd r"
  by (simp add: answered_def split: sum.split)

lemma upsert_others:
  "List.filter (\<lambda>p. np_userId p \<noteq> u) (preferences (snd (upsertNotificationPreferenceByUserId u d s))) =
     List.filter (\<lambda>p. np_userId p \<noteq> u) (preferences s)"
proof -
  have "List.filter (\<lambda>p. np_userId p \<noteq> u) (update_rows (\<lambda>p. np_userId p = u) (apply_preference d) ps) =
      List.filter (\<lambda>p. np_userId p \<noteq> u) ps" for ps
    by (rule filter_update_rows) (simp_all add: apply_preference_def)
  then show ?thesis
    by (simp add: upsertNotificationPreferenceByUserId_def apply_preference_def DEFAULT_NOTIFICATION_PREFERENCES_def Let_def split: option.split)
qed

text \<open>A request touches the notifications and the preferences of its user only, and shows no others.\<close>

lemma notification_router_own:
  "List.filter (\<lambda>n. n_recipientId n \<noteq> u) (notifications (snd (notification_router u req now s))) =
     List.filter (\<lambda>n. n_recipientId n \<noteq> u) (notifications s)"
  "List.filter (\<lambda>p. np_userId p \<noteq> u) (preferences (snd (notification_router u req now s))) =
     List.filter (\<lambda>p. np_userId p \<noteq> u) (preferences s)"
  "notification_router u (GetNotifications pg ps rd) now s = (Responded 200 (NotificationsData ns), s') \<Longrightarrow>
     \<forall>n\<in>set ns. n_recipientId n = u"
proof -
  show "List.filter (\<lambda>n. n_recipientId n \<noteq> u) (notifications (snd (notification_router u req now s))) =
      List.filter (\<lambda>n. n_recipientId n \<noteq> u) (notifications s)"
    by (cases req) (simp_all add: own_notifications_only listMyNotificationsService_def getMyNotificationPreferencesService_def
        updateMyNotificationPreferencesService_def upsertNotificationPreferenceByUserId_def Let_def split: option.split)
  show "List.filter (\<lambda>p. np_userId p \<noteq> u) (preferences (snd (notification_router u req now s))) =
      List.filter (\<lambda>p. np_userId p \<noteq> u) (preferences s)"
    by (cases req) (simp_all add: upsert_others listMyNotificationsService_def getMyNotificationPreferencesService_def
        updateMyNotificationPreferencesService_def markAllNotificationsAsReadService_def markAllNotificationsAsRead_def
        markNotificationAsReadService_def markNotificationAsRead_def mark_read_def Let_def split: option.split)
  show "\<forall>n\<in>set ns. n_recipientId n = u"
    if "notification_router u (GetNotifications pg ps rd) now s = (Responded 200 (NotificationsData ns), s')"
    using that own_notifications_only(3) [of u pg ps "normalizeIsRead rd" s ns s']
    by (cases "listMyNotificationsService u pg ps (normalizeIsRead rd) s") (auto simp: answered_def split: sum.splits)
qed

end
