(* ===== verification/Redis_Breaker.thy ===== *)
theory Redis_Breaker
  imports Redis_Client
begin

section \<open>The circuit breaker of config/redis.config.js\<close>

text \<open>
  config/redis.config.js has its own copy of the breaker of config/database.config.js. Its
  operations are written out here with the messages they log, and shown to be the operations of
  theory Circuit_Breaker on the same state, so that the contract of that theory, and what theory
  Redis_Client proves of guarded commands, speak of this copy too.
\<close>

datatype breaker_message = Half_open_probe | Closed_again circuit_state | Opened_after nat

definition redis_createCircuitBreaker :: breaker where
  "redis_createCircuitBreaker = \<lparr>br_state = CLOSED_STATE, br_failures = 0, br_lastFailureTime = 0\<rparr>"

definition redis_canExecute :: "breaker_config \<Rightarrow> time \<Rightarrow> breaker \<Rightarrow> bool \<times> breaker \<times> breaker_message list" where
  "redis_canExecute cfg now b =
     (if br_state b = CLOSED_STATE then (True, b, [])
      else if br_state b = OPEN_STATE \<and> bc_resetTimeoutMs cfg \<le> now - br_lastFailureTime b
      then (True, b\<lparr>br_state := HALF_OPEN\<rparr>, [Half_open_probe])
      else (br_state b = HALF_OPEN, b, []))"

definition redis_recordSuccess :: "breaker \<Rightarrow> breaker \<times> breaker_message list" where
  "redis_recordSuccess b =
     (b\<lparr>br_failures := 0, br_state := CLOSED_STATE\<rparr>,
      (if br_state b \<noteq> CLOSED_STATE then [Closed_again (br_state b)] else []))"

definition redis_recordFailure ::
    "breaker_config \<Rightarrow> host_error \<Rightarrow> time \<Rightarrow> breaker \<Rightarrow> breaker \<times> breaker_message list" where
  "redis_recordFailure cfg e now b =
     (if \<not> redis_isInfrastructureError e then (b, [])
      else let b1 = b\<lparr>br_failures := br_failures b + 1, br_lastFailureTime := now\<rparr> in
        if bc_failureThreshold cfg \<le> br_failures b1 \<and> br_state b1 \<noteq> OPEN_STATE
        then (b1\<lparr>br_state := OPEN_STATE\<rparr>, [Opened_after (br_failures b1)]) else (b1, []))"

text \<open>The two copies agree.\<close>

lemma redis_breaker_copy:
  "redis_createCircuitBreaker = createCircuitBreaker"
  "(fst (redis_canExecute cfg now b), fst (snd (redis_canExecute cfg now b))) = canExecute cfg now b"
  "fst (redis_recordSuccess b) = recordSuccess b"
  "fst (redis_recordFailure cfg e now b) = recordFailure cfg (redis_isInfrastructureError e) now b"
  by (simp_all add: redis_createCircuitBreaker_def createCircuitBreaker_def redis_canExecute_def canExecute_def
      redis_recordSuccess_def recordSuccess_def redis_recordFailure_def recordFailure_def Let_def)

text \<open>Redis being gone: refused connections, time-outs and closed sockets.\<close>

definition redis_gone :: host_error where
  "redis_gone = \<lparr>he_code = [], he_message = ''Connection is closed.''\<rparr>"

lemma redis_gone_counts: "redis_isInfrastructureError redis_gone"
  by code_simp

interpretation redis_breaker: circuit_breaker "\<lambda>b. br_state b = OPEN_STATE" "\<lambda>b. br_state b = CLOSED_STATE"
  "\<lambda>now b. (fst (redis_canExecute cfg now b), fst (snd (redis_canExecute cfg now b)))"
  "\<lambda>b. fst (redis_recordSuccess b)" "\<lambda>now b. fst (redis_recordFailure cfg redis_gone now b)"
  br_lastFailureTime "bc_resetTimeoutMs cfg" "max 1 (bc_failureThreshold cfg)" 1
  for cfg
  unfolding redis_breaker_copy
  by (simp only: redis_gone_counts, rule client_breaker.circuit_breaker_axioms)

text \<open>A success reported after the breaker has opened closes it at once, before the reset timeout.\<close>

lemma late_success_closes:
  assumes "br_state b = OPEN_STATE"
  shows "br_state (fst (redis_recordSuccess b)) = CLOSED_STATE \<and>
    fst (redis_canExecute cfg now (fst (redis_recordSuccess b)))"
  by (simp add: redis_recordSuccess_def redis_canExecute_def)

text \<open>Half open is not one probe: while the first has not answered, every further command is let through.\<close>

lemma probe_admits_all:
  assumes "br_state b = OPEN_STATE" "bc_resetTimeoutMs cfg \<le> now - br_lastFailureTime b"
    and "redis_canExecute cfg now b = (ok, b1, ms)"
  shows "ok \<and> ms = [Half_open_probe] \<and> redis_canExecute cfg later b1 = (True, b1, [])"
  using assms by (auto simp: redis_canExecute_def)

text \<open>An outage is logged once: the failures after the opening are counted and not logged.\<close>

fun logged_failures :: "breaker_config \<Rightarrow> (host_error \<times> time) list \<Rightarrow> breaker \<Rightarrow> breaker \<times> breaker_message list" where
  "logged_failures cfg [] b = (b, [])"
| "logged_failures cfg ((e, t) # fs) b =
     (case redis_recordFailure cfg e t b of (b1, ms) \<Rightarrow>
        (case logged_failures cfg fs b1 of (b2, ns) \<Rightarrow> (b2, ms @ ns)))"

lemma open_logs_nothing: "br_state b = OPEN_STATE \<Longrightarrow> snd (logged_failures cfg fs b) = []"
  by (induction cfg fs b rule: logged_failures.induct)
    (auto simp: redis_recordFailure_def Let_def split: prod.splits if_splits)

lemma outage_logged_once: "length (snd (logged_failures cfg fs b)) \<le> 1"
proof (induction cfg fs b rule: logged_failures.induct)
  case (2 cfg e t fs b)
  obtain b1 ms where r: "redis_recordFailure cfg e t b = (b1, ms)" by fastforce
  obtain b2 ns where f: "logged_failures cfg fs b1 = (b2, ns)" by fastforce
  have "ms = [] \<or> length ms = 1 \<and> br_state b1 = OPEN_STATE"
    using r by (auto simp: redis_recordFailure_def Let_def split: if_splits)
  then show ?case
    using "2.IH" [OF r [symmetric]] open_logs_nothing [of b1 cfg fs] r f by auto
qed simp

end
