(* ===== verification/Scraper_Correct.thy ===== *)
theory Scraper_Correct
  imports Scraper_Service
begin

section \<open>What the scraper guarantees and where it gets stuck\<close>

text \<open>
  Three properties of modules/ai/scraper over runs: the daily cleanup never removes an expired
  row, a page the cleanup has expired is never embedded again while its text stays the same, and
  a page whose last attempt fails after it was marked PROCESSING keeps that status for ever.
\<close>

subsection \<open>Frames\<close>

lemma cache_frames [simp]:
  "sc_pages (markScraped env o' url s) = sc_pages s" "sc_queue (markScraped env o' url s) = sc_queue s"
  "sc_jobs (markScraped env o' url s) = sc_jobs s" "sc_bridge (markScraped env o' url s) = sc_bridge s"
  "sc_pages (invalidate_page env o' url s) = sc_pages s" "sc_queue (invalidate_page env o' url s) = sc_queue s"
  "sc_jobs (invalidate_page env o' url s) = sc_jobs s" "sc_bridge (invalidate_page env o' url s) = sc_bridge s"
  by (simp_all add: markScraped_def invalidate_page_def)

lemma fold_invalidate [simp]:
  "sc_pages (fold (\<lambda>r. invalidate_page env o' (sp_url r)) rs s) = sc_pages s"
  "sc_queue (fold (\<lambda>r. invalidate_page env o' (sp_url r)) rs s) = sc_queue s"
  "sc_jobs (fold (\<lambda>r. invalidate_page env o' (sp_url r)) rs s) = sc_jobs s"
  "sc_bridge (fold (\<lambda>r. invalidate_page env o' (sp_url r)) rs s) = sc_bridge s"
  by (induction rs arbitrary: s) simp_all

lemma find_page_pages: "sc_pages s' = sc_pages s \<Longrightarrow> find_page o' h s' = find_page o' h s"
  by (simp add: find_page_def)

lemma find_page_SomeD: "find_page o' h s = Some p \<Longrightarrow> p \<in> set (sc_pages s) \<and> sp_orgId p = o' \<and> sp_urlHash p = h"
  unfolding find_page_def by (drule find_unique_SomeD) (simp add: page_at_def)

lemma read_body_bounded: "read_body limit n vs acc = Inr b \<Longrightarrow> int (length acc) = n \<Longrightarrow> n \<le> limit \<Longrightarrow> int (length b) \<le> limit"
  by (induction limit n vs acc rule: read_body.induct) (auto simp: Let_def split: if_splits)

text \<open>A page that is larger than the limit is never handed to the parser.\<close>

lemma fetchPage_bounded: "fetchPage env url = Inr (html, n) \<Longrightarrow> 0 \<le> se_maxPageBytes env \<Longrightarrow>
    n = int (length html) \<and> n \<le> se_maxPageBytes env"
  using read_body_bounded [of "se_maxPageBytes env" 0 _ "[]"]
  by (fastforce simp: fetchPage_def split: sum.splits if_splits)

subsection \<open>The cleanup\<close>

abbreviation mark_stale :: "scrape_env \<Rightarrow> scraped_page \<Rightarrow> scraped_page" where
  "mark_stale env p \<equiv> p\<lparr>sp_status := STALE, sp_updatedAt := se_now env\<rparr>"

lemma deleteStalePages_run:
  assumes "deleteStalePages env o' cutoff s = (Inr n, s')"
  shows "sc_pages s' = update_rows (\<lambda>p. \<exists>r\<in>set (sc_pages s). stale_row o' cutoff r \<and> sp_id r = sp_id p) (mark_stale env) (sc_pages s)"
    "sc_queue s' = sc_queue s" "sc_jobs s' = sc_jobs s"
    "sc_bridge s' = sc_bridge s @ (if sc_queue s = QueueReady \<and> find_many (stale_row o' cutoff) (sc_pages s) \<noteq> []
       then [DeleteDocuments o' (List.map sp_urlHash (find_many (stale_row o' cutoff) (sc_pages s)))] else [])"
proof -
  let ?rows = "find_many (stale_row o' cutoff) (sc_pages s)"
  have m: "(\<lambda>p. sp_id p \<in> sp_id ` set ?rows) = (\<lambda>p. \<exists>r\<in>set (sc_pages s). stale_row o' cutoff r \<and> sp_id r = sp_id p)"
    by (rule ext) (auto simp: find_many_def image_iff)
  show "sc_pages s' = update_rows (\<lambda>p. \<exists>r\<in>set (sc_pages s). stale_row o' cutoff r \<and> sp_id r = sp_id p) (mark_stale env) (sc_pages s)"
  proof (cases "?rows = []")
    case True
    then have "\<forall>r\<in>set (sc_pages s). \<not> stale_row o' cutoff r" by (simp add: find_many_def filter_empty_conv)
    then show ?thesis using assms True by (auto simp: deleteStalePages_def update_rows_def)
  next
    case False
    then show ?thesis using assms unfolding m [symmetric]
      by (auto simp: deleteStalePages_def Let_def enqueueDeleteDocuments_def bridge_add_def split: queue_state.splits)
  qed
  show "sc_queue s' = sc_queue s" "sc_jobs s' = sc_jobs s"
    "sc_bridge s' = sc_bridge s @ (if sc_queue s = QueueReady \<and> ?rows \<noteq> [] then [DeleteDocuments o' (List.map sp_urlHash ?rows)] else [])"
    using assms by (auto simp: deleteStalePages_def Let_def enqueueDeleteDocuments_def bridge_add_def
        split: queue_state.splits if_splits)
qed

lemma deleteStalePages_Inl:
  "deleteStalePages env o' cutoff s = (Inl e, s') \<Longrightarrow> s' = s \<and> sc_queue s = QueueFailing"
  by (auto simp: deleteStalePages_def Let_def enqueueDeleteDocuments_def bridge_add_def split: queue_state.splits if_splits)

text \<open>The row \<open>q\<close> is a later version of the row \<open>p\<close>.\<close>

definition same_page :: "scraped_page \<Rightarrow> scraped_page \<Rightarrow> bool" where
  "same_page p q = (sp_id q = sp_id p \<and> sp_orgId q = sp_orgId p \<and> sp_urlHash q = sp_urlHash p \<and>
     sp_createdAt q = sp_createdAt p)"

definition deletions :: "string \<Rightarrow> string \<Rightarrow> scraper_state \<Rightarrow> nat" where
  "deletions o' h s = length (List.filter (\<lambda>j. case j of DeleteDocuments org hs \<Rightarrow> org = o' \<and> h \<in> set hs | _ \<Rightarrow> False) (sc_bridge s))"

definition ended :: "scrape_status set" where
  "ended = {COMPLETED, FAILED, STALE}"

lemma cleanup_org_queue: "sc_queue (cleanup_org env o' s) = sc_queue s"
  by (auto simp: cleanup_org_def purgeStaleDbRows_def Let_def split: prod.split sum.split
      dest: deleteStalePages_run(2) deleteStalePages_Inl)

lemma cleanup_org_keeps:
  assumes "p \<in> set (sc_pages s)" "sp_createdAt p < se_now env - se_retentionMs env" "sp_status p \<in> ended"
    "sc_queue s = QueueReady"
  shows "\<exists>q\<in>set (sc_pages (cleanup_org env o' s)). same_page p q \<and> sp_status q \<in> ended \<and>
    (sp_orgId p = o' \<or> sp_status p = STALE \<longrightarrow> sp_status q = STALE)"
    "deletions (sp_orgId p) (sp_urlHash p) (cleanup_org env o' s) \<ge>
      deletions (sp_orgId p) (sp_urlHash p) s + (if sp_orgId p = o' then 1 else 0)"
proof -
  let ?c = "se_now env - se_retentionMs env"
  obtain r s1 where d: "deleteStalePages env o' ?c s = (r, s1)" by fastforce
  with deleteStalePages_Inl assms(4) obtain n where r: "r = Inr n" by (cases r) fastforce+
  note run = deleteStalePages_run [OF d [unfolded r]]
  let ?P = "\<lambda>p. \<exists>r\<in>set (sc_pages s). stale_row o' ?c r \<and> sp_id r = sp_id p"
  let ?q = "if ?P p then mark_stale env p else p"
  have e: "cleanup_org env o' s = snd (purgeStaleDbRows o' (se_now env - purge_after) s1)"
    by (simp add: cleanup_org_def d r)
  have own: "sp_orgId p = o' \<Longrightarrow> ?P p" using assms(1-3) by (auto simp: stale_row_def ended_def)
  have "?q \<in> set (sc_pages s1)" using assms(1) by (auto simp: run(1) set_update_rows)
  moreover have "\<not> (sp_orgId ?q = o' \<and> sp_status ?q = STALE \<and> sp_updatedAt ?q < se_now env - purge_after)"
    using own by (auto simp: purge_after_def)
  ultimately have "?q \<in> set (sc_pages (cleanup_org env o' s))"
    by (simp add: e purgeStaleDbRows_def Let_def)
  then show "\<exists>q\<in>set (sc_pages (cleanup_org env o' s)). same_page p q \<and> sp_status q \<in> ended \<and>
      (sp_orgId p = o' \<or> sp_status p = STALE \<longrightarrow> sp_status q = STALE)"
    using own assms(3) by (intro bexI [of _ ?q]) (auto simp: same_page_def ended_def)
  have "sc_bridge (cleanup_org env o' s) = sc_bridge s1" by (simp add: e purgeStaleDbRows_def Let_def)
  moreover have "sp_orgId p = o' \<Longrightarrow> p \<in> set (find_many (stale_row o' ?c) (sc_pages s))"
    using assms(1-3) by (auto simp: stale_row_def ended_def)
  ultimately show "deletions (sp_orgId p) (sp_urlHash p) (cleanup_org env o' s) \<ge>
      deletions (sp_orgId p) (sp_urlHash p) s + (if sp_orgId p = o' then 1 else 0)"
    by (auto simp: deletions_def run(4) assms(4) find_many_def filter_empty_conv)
qed

lemma cleanup_orgs_keep:
  assumes "p \<in> set (sc_pages s)" "sp_createdAt p < se_now env - se_retentionMs env" "sp_status p \<in> ended"
    "sc_queue s = QueueReady" "distinct os"
  shows "(\<exists>q\<in>set (sc_pages (fold (cleanup_org env) os s)). same_page p q \<and> sp_status q \<in> ended \<and>
      (sp_orgId p \<in> set os \<or> sp_status p = STALE \<longrightarrow> sp_status q = STALE)) \<and>
    deletions (sp_orgId p) (sp_urlHash p) (fold (cleanup_org env) os s) \<ge>
      deletions (sp_orgId p) (sp_urlHash p) s + (if sp_orgId p \<in> set os then 1 else 0) \<and>
    sc_queue (fold (cleanup_org env) os s) = QueueReady"
  using assms
proof (induction os arbitrary: s p)
  case Nil
  then show ?case by (auto simp: same_page_def)
next
  case (Cons o' os)
  obtain q where q: "q \<in> set (sc_pages (cleanup_org env o' s))" "same_page p q" "sp_status q \<in> ended"
    "sp_orgId p = o' \<or> sp_status p = STALE \<longrightarrow> sp_status q = STALE"
    using cleanup_org_keeps(1) [OF Cons.prems(1-4)] by blast
  have eq: "sp_orgId q = sp_orgId p" "sp_urlHash q = sp_urlHash p" "sp_createdAt q < se_now env - se_retentionMs env"
    using q(2) Cons.prems(2) by (simp_all add: same_page_def)
  have st: "sc_queue (cleanup_org env o' s) = QueueReady" using cleanup_org_queue Cons.prems(4) by simp
  obtain x where x: "x \<in> set (sc_pages (fold (cleanup_org env) os (cleanup_org env o' s)))" "same_page q x"
      "sp_status x \<in> ended" "sp_orgId p \<in> set os \<or> sp_status q = STALE \<longrightarrow> sp_status x = STALE"
    and d: "deletions (sp_orgId p) (sp_urlHash p) (fold (cleanup_org env) os (cleanup_org env o' s)) \<ge>
      deletions (sp_orgId p) (sp_urlHash p) (cleanup_org env o' s) + (if sp_orgId p \<in> set os then 1 else 0)"
    and qq: "sc_queue (fold (cleanup_org env) os (cleanup_org env o' s)) = QueueReady"
    using Cons.IH [OF q(1) eq(3) q(3) st] Cons.prems(5) unfolding eq(1,2) by (auto split del: if_split)
  have "same_page p x" using q(2) x(2) by (simp add: same_page_def)
  moreover have "sp_orgId p \<in> set (o' # os) \<or> sp_status p = STALE \<longrightarrow> sp_status x = STALE" using q(4) x(4) by auto
  moreover have "deletions (sp_orgId p) (sp_urlHash p) (fold (cleanup_org env) (o' # os) s) \<ge>
      deletions (sp_orgId p) (sp_urlHash p) s + (if sp_orgId p \<in> set (o' # os) then 1 else 0)"
    using d cleanup_org_keeps(2) [OF Cons.prems(1-4), of o'] Cons.prems(5) by (auto split: if_splits)
  ultimately show ?case using x(1,3) qq by auto
qed

text \<open>
  C5. The cleanup never removes what it expires. While the queue works, a row that is older than
  the retention period stays in the table whatever number of cleanups run, at whatever times: each
  run marks it STALE again, and so renews the time stamp by which the same run decides what to
  remove; and each run asks the chatbot again to delete its vectors.
\<close>

theorem cleanup_never_purges:
  assumes "p \<in> set (sc_pages s)" "sp_status p \<in> {COMPLETED, FAILED, STALE}" "sc_queue s = QueueReady"
    "\<forall>env\<in>set envs. sp_createdAt p < se_now env - se_retentionMs env"
  shows "(\<exists>q\<in>set (sc_pages (fold runScrapeCleanup envs s)). same_page p q \<and>
      sp_status q = (if envs = [] then sp_status q else STALE)) \<and>
    deletions (sp_orgId p) (sp_urlHash p) (fold runScrapeCleanup envs s) \<ge> deletions (sp_orgId p) (sp_urlHash p) s + length envs"
proof -
  have "(\<exists>q\<in>set (sc_pages (fold runScrapeCleanup envs s)). same_page p q \<and> (envs \<noteq> [] \<or> sp_status p = STALE \<longrightarrow> sp_status q = STALE)) \<and>
    deletions (sp_orgId p) (sp_urlHash p) (fold runScrapeCleanup envs s) \<ge> deletions (sp_orgId p) (sp_urlHash p) s + length envs"
    using assms [folded ended_def]
  proof (induction envs arbitrary: s p)
    case Nil
    then show ?case by (auto simp: same_page_def)
  next
    case (Cons env envs)
    let ?os = "remdups (List.map sp_orgId (sc_pages s))"
    have one: "sp_orgId p \<in> set ?os" using Cons.prems(1) by simp
    have age: "sp_createdAt p < se_now env - se_retentionMs env" using Cons.prems(4) by simp
    note run = cleanup_orgs_keep [OF Cons.prems(1) age Cons.prems(2,3) distinct_remdups, of "List.map sp_orgId (sc_pages s)",
      folded runScrapeCleanup_def]
    obtain q where q: "q \<in> set (sc_pages (runScrapeCleanup env s))" "same_page p q" "sp_status q \<in> ended" "sp_status q = STALE"
      using run one by blast
    have d: "deletions (sp_orgId p) (sp_urlHash p) (runScrapeCleanup env s) \<ge> deletions (sp_orgId p) (sp_urlHash p) s + 1"
      using run one by (simp only: if_True)
    have qq: "sc_queue (runScrapeCleanup env s) = QueueReady" using run by blast
    have eq: "sp_orgId q = sp_orgId p" "sp_urlHash q = sp_urlHash p" "\<forall>e\<in>set envs. sp_createdAt q < se_now e - se_retentionMs e"
      using q(2) Cons.prems(4) by (simp_all add: same_page_def)
    show ?case using Cons.IH [OF q(1,3) qq eq(3)] d q(2,4) unfolding eq by (auto simp: same_page_def)
  qed
  then show ?thesis by auto
qed

subsection \<open>Expired pages and their vectors\<close>

text \<open>
  What the chatbot's store holds after it has processed the jobs of the bridge in order: the hash
  of the text of each document, by organization and document id.
\<close>

fun store_job :: "bridge_job \<Rightarrow> (string \<times> string \<Rightarrow> string option) \<Rightarrow> (string \<times> string \<Rightarrow> string option)" where
  "store_job (ProcessDocument orgId documentId _ m) v = v((orgId, documentId) \<mapsto> dm_contentHash m)"
| "store_job (EmbedTexts _ _ _) v = v"
| "store_job (AnalyzeFeedback _ _) v = v"
| "store_job (ReEmbedOrg _ _) v = v"
| "store_job (DeleteDocuments orgId ids) v = (\<lambda>k. if fst k = orgId \<and> snd k \<in> set ids then None else v k)"

definition vectors :: "scraper_state \<Rightarrow> (string \<times> string \<Rightarrow> string option)" where
  "vectors s = fold store_job (sc_bridge s) (\<lambda>_. None)"

lemma upsert_found:
  assumes "find_page o' h s = Some p" "\<And>x. page_at o' h (data x) = page_at o' h x"
  shows "fst (upsertScrapedPage env o' url h data s) = Inr ()"
    "find_page o' h (snd (upsertScrapedPage env o' url h data s)) = Some ((data p)\<lparr>sp_updatedAt := se_now env\<rparr>)"
    "sc_bridge (snd (upsertScrapedPage env o' url h data s)) = sc_bridge s"
    "sc_queue (snd (upsertScrapedPage env o' url h data s)) = sc_queue s"
    "sc_jobs (snd (upsertScrapedPage env o' url h data s)) = sc_jobs s"
proof -
  have at: "page_at o' h ((data x)\<lparr>sp_updatedAt := t\<rparr>) = page_at o' h x" for x t
    using assms(2) [of x] by (simp add: page_at_def)
  have "page_at o' h p" using find_page_SomeD [OF assms(1)] by (simp add: page_at_def)
  then show "find_page o' h (snd (upsertScrapedPage env o' url h data s)) = Some ((data p)\<lparr>sp_updatedAt := se_now env\<rparr>)"
    using assms(1) at
    by (simp add: upsertScrapedPage_def) (simp add: find_page_def find_unique_update_key at)
qed (simp_all add: upsertScrapedPage_def assms(1))

lemma page_at_updates [simp]:
  "page_at o' h (x\<lparr>sp_status := st\<rparr>) = page_at o' h x" "page_at o' h (x\<lparr>sp_lastScrapedAt := t\<rparr>) = page_at o' h x"
  "page_at o' h (x\<lparr>sp_errorMessage := e\<rparr>) = page_at o' h x" "page_at o' h (x\<lparr>sp_updatedAt := u\<rparr>) = page_at o' h x"
  by (simp_all add: page_at_def)

lemma unchanged_content_skips:
  assumes "find_page o' h s = Some p" "sp_contentHash p = Some c" "c \<noteq> []"
    "validateUrl (se_url env) url = Inr u" "fetchPage env url = Inr (html, n)" "page_content env url html n = (parsed, n', ft)"
    "pp_body parsed \<noteq> [] \<or> pp_title parsed \<noteq> []" "se_hash env (buildEmbeddingText parsed) = c"
  shows "\<exists>s' q. processScrapeJob env o' url h s = (Inr (Skipped c), s') \<and> sc_bridge s' = sc_bridge s \<and>
    find_page o' h s' = Some q \<and> sp_status q = COMPLETED \<and> sp_lastEmbeddedAt q = sp_lastEmbeddedAt p \<and>
    sp_contentHash q = Some c"
proof -
  let ?f = "\<lambda>p. p\<lparr>sp_status := PROCESSING\<rparr>"
  let ?g = "\<lambda>p. p\<lparr>sp_status := COMPLETED, sp_lastScrapedAt := Some (se_now env), sp_errorMessage := None\<rparr>"
  define s1 where "s1 = snd (upsertScrapedPage env o' url h ?f s)"
  note one = upsert_found [OF assms(1), of ?f env url, simplified, folded s1_def]
  let ?p1 = "p\<lparr>sp_status := PROCESSING, sp_updatedAt := se_now env\<rparr>"
  define s2 where "s2 = snd (upsertScrapedPage env o' url h ?g s1)"
  note two = upsert_found [OF one(2), of ?g env url, simplified, folded s2_def]
  have u1: "upsertScrapedPage env o' url h ?f s = (Inr (), s1)" using one(1) by (simp add: s1_def prod_eq_iff)
  have u2: "upsertScrapedPage env o' url h ?g s1 = (Inr (), s2)" using two(1) by (simp add: s2_def prod_eq_iff)
  have ne: "(pp_body parsed = [] \<and> pp_title parsed = []) = False" using assms(7) by simp
  have "processScrapeJob env o' url h s = (Inr (Skipped c), markScraped env o' url s2)"
    using assms(2-6,8) one(2) by (simp add: processScrapeJob_def u1 u2 Let_def ne)
  moreover have "find_page o' h (markScraped env o' url s2) = find_page o' h s2" by (rule find_page_pages) simp
  ultimately show ?thesis using one(3) two(2,3) assms(2) by simp
qed

text \<open>
  C29. A page that expires loses its vectors for good. After the cleanup of an organization has
  expired a page, the store of the chatbot has no vectors of it; and when the page is scraped
  again and its text is the same, the job ends well and the row is COMPLETED, but nothing is
  embedded, because the hash of the text stayed in the row: the store still has nothing of it.
\<close>

theorem expired_page_not_embedded_again:
  assumes "find_page o' h s = Some p" "sp_status p = COMPLETED" "sp_contentHash p = Some c" "c \<noteq> []"
    "sp_createdAt p < cutoff" "sc_queue s = QueueReady" "deleteStalePages env1 o' cutoff s = (Inr n, s1)"
    "validateUrl (se_url env) url = Inr u" "fetchPage env url = Inr (html, b)" "page_content env url html b = (parsed, b', ft)"
    "pp_body parsed \<noteq> [] \<or> pp_title parsed \<noteq> []" "se_hash env (buildEmbeddingText parsed) = c"
  shows "vectors s1 (o', h) = None \<and>
    (\<exists>s2 q. processScrapeJob env o' url h s1 = (Inr (Skipped c), s2) \<and> find_page o' h s2 = Some q \<and>
       sp_status q = COMPLETED \<and> sp_lastEmbeddedAt q = sp_lastEmbeddedAt p \<and> vectors s2 (o', h) = None)"
proof -
  note run = deleteStalePages_run [OF assms(7)]
  note p = find_page_SomeD [OF assms(1)]
  have st: "stale_row o' cutoff p" using p assms(2,5) by (simp add: stale_row_def)
  have "\<exists>q. find_page o' h s1 = Some q \<and> sp_contentHash q = Some c \<and> sp_lastEmbeddedAt q = sp_lastEmbeddedAt p"
    using assms(1,3) by (simp add: find_page_def run(1) find_unique_update_key page_at_def)
  then obtain q where q: "find_page o' h s1 = Some q" "sp_contentHash q = Some c" "sp_lastEmbeddedAt q = sp_lastEmbeddedAt p"
    by blast
  have "p \<in> set (find_many (stale_row o' cutoff) (sc_pages s))" using p st by simp
  then have "h \<in> sp_urlHash ` set (find_many (stale_row o' cutoff) (sc_pages s))"
    "find_many (stale_row o' cutoff) (sc_pages s) \<noteq> []" using p by (auto simp: find_many_def filter_empty_conv)
  then have v: "vectors s1 (o', h) = None" by (simp add: vectors_def run(4) assms(6))
  obtain s2 q2 where "processScrapeJob env o' url h s1 = (Inr (Skipped c), s2)" "sc_bridge s2 = sc_bridge s1"
    "find_page o' h s2 = Some q2" "sp_status q2 = COMPLETED" "sp_lastEmbeddedAt q2 = sp_lastEmbeddedAt q"
    using unchanged_content_skips [OF q(1,2) assms(4,8-12)] by blast
  then show ?thesis using v q(3) by (auto simp: vectors_def)
qed

subsection \<open>Pages that stay in processing\<close>

text \<open>
  The steps of the scraper for a fixed hash function: requests, runs of the worker, cleanups by
  the cron and by the route, changes of Redis, and the queue forgetting ended jobs. The route that
  deletes a single page is left out: it is the remedy.
\<close>

inductive scraper_step :: "(string \<Rightarrow> string) \<Rightarrow> scraper_state \<Rightarrow> scraper_state \<Rightarrow> bool" for hash where
  check: "se_hash env = hash \<Longrightarrow> scraper_step hash s (snd (enqueue_route env url orgId priority s))"
| work: "se_hash env = hash \<Longrightarrow> scraper_step hash s (scraper_worker env s)"
| cron: "se_hash env = hash \<Longrightarrow> scraper_step hash s (runScrapeCleanup env s)"
| clean: "se_hash env = hash \<Longrightarrow> scraper_step hash s (snd (cleanup_route env orgId days s))"
| request_cleanup: "scraper_step hash s (snd (enqueueCleanupJob env orgId cutoff s))"
| redis: "scraper_step hash s (s\<lparr>sc_cache := c, sc_cacheUp := up, sc_queue := q\<rparr>)"
| forget: "scraper_step hash s (s\<lparr>sc_kept := ks\<rparr>)"

definition stuck :: "string \<Rightarrow> string \<Rightarrow> scraper_state \<Rightarrow> bool" where
  "stuck o' h s =
     (distinct (List.map sp_id (sc_pages s)) \<and> (\<exists>p\<in>set (sc_pages s). page_at o' h p) \<and>
      (\<forall>p\<in>set (sc_pages s). page_at o' h p \<longrightarrow> sp_status p = PROCESSING) \<and>
      (\<forall>j\<in>set (sc_jobs s). \<forall>url. sj_payload j \<noteq> ScrapePage o' url h))"

lemma stuckD: "stuck o' h s \<Longrightarrow> \<exists>p. find_page o' h s = Some p \<and> sp_status p = PROCESSING"
proof -
  assume s: "stuck o' h s"
  then obtain p where p: "find_page o' h s = Some p"
    unfolding stuck_def find_page_def by (metis find_unique_exists)
  then show ?thesis using s find_page_SomeD [OF p] by (auto simp: stuck_def page_at_def)
qed

lemma stuck_cong: "sc_pages s' = sc_pages s \<Longrightarrow> sc_jobs s' = sc_jobs s \<Longrightarrow> stuck o' h s' = stuck o' h s"
  by (simp add: stuck_def)

lemma stuck_fewer_jobs: "stuck o' h s \<Longrightarrow> set js \<subseteq> set (sc_jobs s) \<Longrightarrow> stuck o' h (s\<lparr>sc_jobs := js\<rparr>)"
  by (auto simp: stuck_def)

text \<open>The columns a write of the service may set.\<close>

definition keeps_key :: "(scraped_page \<Rightarrow> scraped_page) \<Rightarrow> bool" where
  "keeps_key data = (\<forall>x. sp_id (data x) = sp_id x \<and> sp_orgId (data x) = sp_orgId x \<and> sp_urlHash (data x) = sp_urlHash x)"

lemma upsert_stuck:
  assumes "stuck o' h s" "(o2, h2) \<noteq> (o', h)" "keeps_key data"
  shows "stuck o' h (snd (upsertScrapedPage env o2 url h2 data s))"
proof (cases "find_page o2 h2 s")
  case None
  have "sp_id (data (new_page o2 url h2 t i)) = i" "\<not> page_at o' h (data (new_page o2 url h2 t i))" for t i
    using assms(2,3) by (auto simp: keeps_key_def new_page_def page_at_def)
  then show ?thesis using assms(1) None by (auto simp: upsertScrapedPage_def stuck_def)
next
  case (Some p)
  let ?f = "\<lambda>p. (data p)\<lparr>sp_updatedAt := se_now env\<rparr>"
  have at: "page_at o' h (?f x) = page_at o' h x" "sp_id (?f x) = sp_id x" for x
    using assms(3) by (simp_all add: keeps_key_def page_at_def)
  have no: "page_at o2 h2 x \<Longrightarrow> \<not> page_at o' h x" for x using assms(2) by (auto simp: page_at_def)
  have m: "List.map sp_id (update_rows (page_at o2 h2) ?f (sc_pages s)) = List.map sp_id (sc_pages s)"
    by (rule map_key_update_rows) (rule at)
  have "page_at o' h y \<Longrightarrow> y \<in> set (update_rows (page_at o2 h2) ?f (sc_pages s)) \<longleftrightarrow> y \<in> set (sc_pages s)" for y
    using no at(1) by (auto simp: set_update_rows image_iff)
  then show ?thesis using assms(1) Some unfolding stuck_def by (auto simp: upsertScrapedPage_def m)
qed

lemma marks_keep_key [simp]:
  "keeps_key (\<lambda>p. p\<lparr>sp_status := st\<rparr>)" "keeps_key (\<lambda>p. p\<lparr>sp_status := st, sp_errorMessage := e\<rparr>)"
  "keeps_key (\<lambda>p. p\<lparr>sp_status := st, sp_lastScrapedAt := t, sp_errorMessage := e\<rparr>)"
  "keeps_key (\<lambda>p. p\<lparr>sp_status := st, sp_contentHash := c, sp_lastScrapedAt := t, sp_lastEmbeddedAt := u, sp_errorMessage := e,
     sp_chunkCount := k\<rparr>)"
  by (simp_all add: keeps_key_def)

lemma bridge_add_stuck: "stuck o' h s \<Longrightarrow> stuck o' h (snd (bridge_add j s))"
  by (simp add: bridge_add_def stuck_def split: queue_state.split)

lemma queue_add_stuck:
  "stuck o' h s \<Longrightarrow> (\<And>url. sj_payload j \<noteq> ScrapePage o' url h) \<Longrightarrow> stuck o' h (snd (queue_add j s))"
  by (auto simp: queue_add_def stuck_def split: queue_state.split)

lemma mark_stuck [simp]: "stuck o' h (markScraped env o2 url s) = stuck o' h s"
  by (rule stuck_cong) simp_all

text \<open>Sequencing: one rule for each shape a handler is written with.\<close>

lemma stuck_bind:
  assumes "stuck o' h (snd r)" "\<And>e s1. stuck o' h s1 \<Longrightarrow> stuck o' h (snd (f e s1))" "\<And>v s1. stuck o' h s1 \<Longrightarrow> stuck o' h (snd (g v s1))"
  shows "stuck o' h (snd (case r of (Inl e, s1) \<Rightarrow> f e s1 | (Inr v, s1) \<Rightarrow> g v s1))"
  using assms by (cases r; cases "fst r") auto

lemma stuck_sum:
  assumes "\<And>e. stuck o' h (snd (f e))" "\<And>v. stuck o' h (snd (g v))"
  shows "stuck o' h (snd (case x of Inl e \<Rightarrow> f e | Inr v \<Rightarrow> g v))"
  using assms by (cases x) auto

lemma stuck_prod: "(\<And>a b. stuck o' h (snd (f a b))) \<Longrightarrow> stuck o' h (snd (case x of (a, b) \<Rightarrow> f a b))"
  by (cases x) auto

lemma stuck_if: "stuck o' h (snd a) \<Longrightarrow> stuck o' h (snd b) \<Longrightarrow> stuck o' h (snd (if c then a else b))"
  by simp

lemmas stuck_rules = stuck_bind stuck_sum stuck_prod stuck_if

lemma scrape_stuck:
  assumes "stuck o' h s" "(o2, h2) \<noteq> (o', h)"
  shows "stuck o' h (snd (processScrapeJob env o2 url h2 s))"
  unfolding processScrapeJob_def Let_def enqueueProcessDocument_def
  by (rule stuck_rules upsert_stuck [OF _ assms(2)] bridge_add_stuck | simp add: assms(1))+

lemma check_stuck:
  assumes "stuck o' h s" "se_hash env = hash"
  shows "stuck o' h (snd (checkAndEnqueue env o2 url priority s))"
proof (cases "(o2, hash url) = (o', h)")
  case True
  then show ?thesis using assms stuckD [OF assms(1)]
    by (auto simp: checkAndEnqueue_def Let_def split: sum.split)
next
  case False
  have q: "stuck o' h (snd (enqueueScrapingJob env o2 url priority x))" if "stuck o' h x" for x
    unfolding enqueueScrapingJob_def Let_def
    by (rule queue_add_stuck [OF that]) (use False assms(2) in auto)
  show ?thesis
    unfolding checkAndEnqueue_def Let_def assms(2)
    by (rule stuck_rules upsert_stuck [OF _ False] q | simp add: assms(1))+
qed

lemma delete_stale_stuck:
  assumes "stuck o' h s"
  shows "stuck o' h (snd (deleteStalePages env o2 cutoff s))"
proof (cases "deleteStalePages env o2 cutoff s")
  case (Pair r s1)
  show ?thesis
  proof (cases r)
    case (Inr n)
    note run = deleteStalePages_run [OF Pair [unfolded Inr]]
    have inj: "inj_on sp_id (set (sc_pages s))" using assms by (simp add: stuck_def distinct_map)
    have keep: "\<not> (\<exists>r\<in>set (sc_pages s). stale_row o2 cutoff r \<and> sp_id r = sp_id p)"
      if "p \<in> set (sc_pages s)" "page_at o' h p" for p
      using inj_onD [OF inj _ _ that(1)] assms that by (fastforce simp: stuck_def stale_row_def)
    have "List.map sp_id (sc_pages s1) = List.map sp_id (sc_pages s)"
      unfolding run(1) by (rule map_key_update_rows) simp
    moreover have "y \<in> set (sc_pages s1) \<longleftrightarrow> y \<in> set (sc_pages s)" if "page_at o' h y" for y
      using keep that unfolding run(1) by (fastforce simp: set_update_rows image_iff)
    ultimately show ?thesis using assms Pair by (auto simp: stuck_def run(3))
  qed (use Pair assms deleteStalePages_Inl in fastforce)
qed

lemma purge_stuck: "stuck o' h s \<Longrightarrow> stuck o' h (snd (purgeStaleDbRows o2 t s))"
  by (auto simp: stuck_def purgeStaleDbRows_def Let_def delete_rows_def distinct_map_filter)

lemma cleanup_stuck: "stuck o' h s \<Longrightarrow> stuck o' h (cleanup_org env o2 s)"
  using delete_stale_stuck [of o' h s env o2 "se_now env - se_retentionMs env"]
  by (auto simp: cleanup_org_def split: prod.split sum.split intro: purge_stuck)

lemma cleanups_stuck: "stuck o' h s \<Longrightarrow> stuck o' h (fold (cleanup_org env) os s)"
  by (induction os arbitrary: s) (auto intro: cleanup_stuck)

lemma worker_stuck:
  assumes "stuck o' h s"
  shows "stuck o' h (scraper_worker env s)"
proof (cases "sc_jobs s")
  case (Cons j js)
  have s1: "stuck o' h (s\<lparr>sc_jobs := js\<rparr>)" using assms Cons by (intro stuck_fewer_jobs) auto
  have other: "sj_payload j \<noteq> ScrapePage o' url h" for url using assms Cons by (auto simp: stuck_def)
  have "stuck o' h (snd (scrape_handler env (sj_payload j) (s\<lparr>sc_jobs := js\<rparr>)))"
  proof (cases "sj_payload j")
    case (ScrapePage o2 url h2)
    then show ?thesis using scrape_stuck [OF s1, of o2 h2] other by auto
  next
    case (CleanupStale o2 cutoff)
    then show ?thesis using delete_stale_stuck [OF s1, of env o2 cutoff] purge_stuck
      by (auto split: prod.split sum.split) (metis snd_conv)
  qed
  then show ?thesis using other
    by (auto simp: scraper_worker_def Cons Let_def persistFailure_def stuck_def split: prod.split sum.split)
qed (use assms in \<open>simp add: scraper_worker_def\<close>)

lemma enqueue_route_stuck:
  assumes "stuck o' h s" "se_hash env = hash"
  shows "stuck o' h (snd (enqueue_route env url orgId priority s))"
  using assms(1) check_stuck [OF assms, of "the orgId" "js_trim (the url)"]
  by (auto simp: enqueue_route_def split: prod.split sum.split enqueue_result.split) (metis snd_conv)+

lemma scraper_step_stuck: "scraper_step hash s s' \<Longrightarrow> stuck o' h s \<Longrightarrow> stuck o' h s'"
proof (induction rule: scraper_step.induct)
  case (check env s url orgId priority)
  then show ?case using enqueue_route_stuck by blast
next
  case (work env s)
  then show ?case using worker_stuck by blast
next
  case (cron env s)
  then show ?case using cleanups_stuck by (simp add: runScrapeCleanup_def)
next
  case (clean env s orgId days)
  then show ?case unfolding cleanup_route_def Let_def
    by (intro stuck_bind delete_stale_stuck) simp_all
next
  case (request_cleanup s env orgId cutoff)
  then show ?case unfolding enqueueCleanupJob_def by (intro queue_add_stuck) simp_all
qed (simp_all add: stuck_def)

lemma bridge_failure_leaves_processing:
  assumes "sc_queue s = QueueFailing" "validateUrl (se_url env) url = Inr u" "fetchPage env url = Inr (html, n)"
    "page_content env url html n = (parsed, n', ft)" "pp_body parsed \<noteq> [] \<or> pp_title parsed \<noteq> []"
    "find_page o' h s = Some p" "sp_contentHash p \<noteq> Some (se_hash env (buildEmbeddingText parsed))"
  shows "\<exists>e. processScrapeJob env o' url h s =
    (Inl e, snd (upsertScrapedPage env o' url h (\<lambda>p. p\<lparr>sp_status := PROCESSING\<rparr>) s))"
proof -
  define s1 where "s1 = snd (upsertScrapedPage env o' url h (\<lambda>p. p\<lparr>sp_status := PROCESSING\<rparr>) s)"
  note one = upsert_found [OF assms(6), of "\<lambda>p. p\<lparr>sp_status := PROCESSING\<rparr>" env url, simplified, folded s1_def]
  have u1: "upsertScrapedPage env o' url h (\<lambda>p. p\<lparr>sp_status := PROCESSING\<rparr>) s = (Inr (), s1)"
    using one(1) by (simp add: s1_def prod_eq_iff)
  have ne: "(pp_body parsed = [] \<and> pp_title parsed = []) = False" using assms(5) by simp
  have "processScrapeJob env o' url h s = (Inl (JsError ''Connection is closed.''), s1)"
    using assms(1-4,7) one(2,4)
    by (simp add: processScrapeJob_def u1 Let_def ne enqueueProcessDocument_def bridge_add_def)
  then show ?thesis unfolding s1_def by blast
qed


subsection \<open>A page of the example\<close>

definition example_parsed :: parsed_page where
  "example_parsed = \<lparr>pp_title = ''Pricing'', pp_headings = [''Plans''], pp_body = ''Ten a month.'',
     pp_description = None, pp_wordCount = 3\<rparr>"

definition example_scrape_env :: "time \<Rightarrow> scrape_env" where
  "example_scrape_env now =
     \<lparr>se_url = \<lparr>ue_parse = (\<lambda>u. Some \<lparr>url_protocol = ''http:'', url_username = [], url_password = [], url_hostname = ''a.org''\<rparr>),
        ue_resolve = (\<lambda>_. Inr [''93.184.216.34''])\<rparr>,
      se_hash = (\<lambda>x. x), se_fetch = (\<lambda>u. Inr \<lparr>hp_ok = True, hp_statusLine = ''200 OK'', hp_contentType = ''text/html'',
        hp_chunks = [''<html>'', ''</html>'']\<rparr>),
      se_parse = (\<lambda>_. example_parsed), se_puppeteer = (\<lambda>_. Inl ''off''), se_now = now, se_day = (\<lambda>_. ''day''),
      se_newId = ''p2'', se_freshnessTtlMs = 86400000, se_maxPageBytes = 1000, se_thinWords = 100, se_retentionMs = 1000\<rparr>"

definition example_page :: scraped_page where
  "example_page = \<lparr>sp_id = ''p1'', sp_orgId = ''o1'', sp_url = ''u'', sp_urlHash = ''u'',
     sp_contentHash = Some (buildEmbeddingText example_parsed), sp_status = COMPLETED, sp_chunkCount = 1,
     sp_lastScrapedAt = Some 5, sp_lastEmbeddedAt = Some 5, sp_errorMessage = None, sp_createdAt = 0, sp_updatedAt = 5\<rparr>"

definition example_scraper :: scraper_state where
  "example_scraper = \<lparr>sc_orgs = [''o1''], sc_pages = [example_page], sc_cacheUp = True, sc_cache = (\<lambda>_. False),
     sc_queue = QueueReady, sc_jobs = [], sc_kept = [], sc_bridge = [], sc_failures = []\<rparr>"

theorem cleanup_never_purges_witness:
  "deletions ''o1'' ''u'' (fold runScrapeCleanup [example_scrape_env 5000, example_scrape_env 900000000] example_scraper) \<ge> 2 \<and>
   (\<exists>q\<in>set (sc_pages (fold runScrapeCleanup [example_scrape_env 5000, example_scrape_env 900000000] example_scraper)).
      same_page example_page q)"
proof -
  have "example_page \<in> set (sc_pages example_scraper)" "sp_status example_page \<in> {COMPLETED, FAILED, STALE}"
    "sc_queue example_scraper = QueueReady" "deletions ''o1'' ''u'' example_scraper = 0"
    "sp_orgId example_page = ''o1''" "sp_urlHash example_page = ''u''"
    by (simp_all add: example_scraper_def example_page_def deletions_def)
  moreover have "\<forall>env\<in>set [example_scrape_env 5000, example_scrape_env 900000000].
      sp_createdAt example_page < se_now env - se_retentionMs env"
    by (simp add: example_page_def example_scrape_env_def)
  ultimately show ?thesis
    using cleanup_never_purges [of example_page example_scraper "[example_scrape_env 5000, example_scrape_env 900000000]"]
    by auto
qed

lemma example_content:
  "page_content (example_scrape_env t) ''u'' ''<html></html>'' 13 = (example_parsed, 13, ''static'')"
  by code_simp

lemma example_fetch: "fetchPage (example_scrape_env t) ''u'' = Inr (''<html></html>'', 13)"
  by code_simp

lemma example_url: "\<not> isl (validateUrl (se_url (example_scrape_env t)) ''u'')"
  by code_simp

theorem expired_page_not_embedded_again_witness:
  "\<exists>s2 q. processScrapeJob (example_scrape_env 9000) ''o1'' ''u'' ''u''
      (snd (deleteStalePages (example_scrape_env 5000) ''o1'' 4000 example_scraper)) =
      (Inr (Skipped (buildEmbeddingText example_parsed)), s2) \<and>
    find_page ''o1'' ''u'' s2 = Some q \<and> sp_status q = COMPLETED \<and> vectors s2 (''o1'', ''u'') = None"
proof -
  have p: "find_page ''o1'' ''u'' example_scraper = Some example_page" "sp_status example_page = COMPLETED"
    "sp_contentHash example_page = Some (buildEmbeddingText example_parsed)" "sp_createdAt example_page < 4000"
    "sc_queue example_scraper = QueueReady"
    by (simp_all add: find_page_def example_scraper_def page_at_def example_page_def)
  have c: "buildEmbeddingText example_parsed \<noteq> []" by code_simp
  have r: "deleteStalePages (example_scrape_env 5000) ''o1'' 4000 example_scraper =
      (Inr (projr (fst (deleteStalePages (example_scrape_env 5000) ''o1'' 4000 example_scraper))),
       snd (deleteStalePages (example_scrape_env 5000) ''o1'' 4000 example_scraper))" by (rule run_ok) code_simp
  have v: "validateUrl (se_url (example_scrape_env 9000)) ''u'' = Inr (projr (validateUrl (se_url (example_scrape_env 9000)) ''u''))"
    using example_url [of 9000] by (simp add: isl_def split: sum.splits)
  have h: "pp_body example_parsed \<noteq> [] \<or> pp_title example_parsed \<noteq> []"
    "se_hash (example_scrape_env 9000) (buildEmbeddingText example_parsed) = buildEmbeddingText example_parsed"
    by (simp_all add: example_parsed_def example_scrape_env_def)
  show ?thesis
    using expired_page_not_embedded_again [OF p(1-3) c p(4,5) r v example_fetch example_content h] by blast
qed

definition example_third_attempt :: scraper_state where
  "example_third_attempt = example_scraper\<lparr>sc_pages := [example_page\<lparr>sp_contentHash := None, sp_status := PENDING\<rparr>],
     sc_queue := QueueFailing,
     sc_jobs := [\<lparr>sj_id = ''scrape:o1:u'', sj_payload = ScrapePage ''o1'' ''u'' ''u'', sj_priority = 5, sj_attemptsMade = 2\<rparr>]\<rparr>"


end
