(* ===== verification/Scraper_Parser.thy ===== *)
theory Scraper_Parser
  imports Scraper_Service
begin

section \<open>The HTML parser and the browser of the scraper\<close>

text \<open>
  scraper.parser.js and scraper.puppeteer.js. The DOM library is a parameter: a \<open>document\<close> says what
  its selectors find after the noise has been removed. The function \<open>parse_page\<close> is what the
  scraper service takes as its parser (\<open>se_parse\<close>), and \<open>puppeteerFetchPage\<close> its browser.
\<close>

subsection \<open>Text (cleanText)\<close>

text \<open>Every run of white space becomes one space. No line feed is left for the second replacement.\<close>

fun collapse_spaces :: "bool \<Rightarrow> string \<Rightarrow> string" where
  "collapse_spaces in_run [] = []"
| "collapse_spaces in_run (c # cs) =
     (if \<not> is_space c then c # collapse_spaces False cs
      else if in_run then collapse_spaces True cs else CHR 0x20 # collapse_spaces True cs)"

definition cleanText :: "string \<Rightarrow> string" where
  "cleanText text = js_trim (collapse_spaces False text)"

text \<open>\<open>body.split(/\s+/).filter(Boolean)\<close>\<close>

function split_words :: "string \<Rightarrow> string list" where
  "split_words s =
     (case dropWhile is_space s of
        [] \<Rightarrow> []
      | c # cs \<Rightarrow> (c # takeWhile (\<lambda>x. \<not> is_space x) cs) # split_words (dropWhile (\<lambda>x. \<not> is_space x) cs))"
  by pat_completeness auto
termination
proof (relation "measure length", simp)
  fix s c cs
  assume "dropWhile is_space s = c # cs"
  then have "length (c # cs) \<le> length s" by (metis length_dropWhile_le)
  moreover have "length (dropWhile (\<lambda>x. \<not> is_space x) cs) \<le> length cs" by (rule length_dropWhile_le)
  ultimately show "(dropWhile (\<lambda>x. \<not> is_space x) cs, s) \<in> measure length" by simp
qed

declare split_words.simps [simp del]

subsection \<open>Documents\<close>

record dom_element =
  el_text :: string
  el_blocks :: "string list"

record document =
  doc_title :: string
  doc_ogTitle :: "string option"
  doc_h1 :: string
  doc_meta :: "string \<Rightarrow> string option \<times> string option \<times> string option"
  doc_ogImage :: "string option"
  doc_headings :: "string list"
  doc_select :: "string \<Rightarrow> dom_element option"
  doc_body :: dom_element

definition MAX_BODY_CHARS :: nat where
  "MAX_BODY_CHARS = 100000"

definition CONTENT_SELECTORS :: "string list" where
  "CONTENT_SELECTORS =
     [''main'', ''[role='' @ [CHR 0x27] @ ''main'' @ [CHR 0x27] @ '']'', ''article'', ''.main-content'', ''.page-content'',
      ''.content-area'', ''.entry-content'', ''.post-content'', ''.article-content'', ''.article-body'', ''#content'',
      ''#main-content'', ''#main'', ''#page-content'']"

definition or_else :: "string option \<Rightarrow> string option \<Rightarrow> string option" where
  "or_else a b = (if truthy a then a else b)"

definition extractMeta :: "document \<Rightarrow> string \<Rightarrow> string option" where
  "extractMeta d name =
     (case doc_meta d name of (plain, og, twitter) \<Rightarrow>
        or_else plain (or_else og (or_else twitter None)))"

text \<open>Of the metadata only the description is used later.\<close>

definition page_description :: "document \<Rightarrow> string option" where
  "page_description d = map_option (take 500) (extractMeta d ''description'')"

definition page_title :: "document \<Rightarrow> string" where
  "page_title d =
     take 200 (cleanText (if doc_title d \<noteq> [] then doc_title d
       else if truthy (doc_ogTitle d) then the (doc_ogTitle d) else doc_h1 d))"

text \<open>\<open>seenHeadings\<close> is the set of the headings so far.\<close>

definition page_headings :: "document \<Rightarrow> string list" where
  "page_headings d =
     fold (\<lambda>raw headings. let text = take 300 (cleanText raw) in
        if text \<noteq> [] \<and> text \<notin> set headings then headings @ [text] else headings) (doc_headings d) []"

fun first_content :: "document \<Rightarrow> string list \<Rightarrow> dom_element option" where
  "first_content d [] = None"
| "first_content d (selector # rest) =
     (case doc_select d selector of
        Some el \<Rightarrow> if length (cleanText (el_text el)) > 200 then Some el else first_content d rest
      | None \<Rightarrow> first_content d rest)"

definition content_element :: "document \<Rightarrow> dom_element" where
  "content_element d = (case first_content d CONTENT_SELECTORS of Some el \<Rightarrow> el | None \<Rightarrow> doc_body d)"

definition paragraphs :: "dom_element \<Rightarrow> string list" where
  "paragraphs el = List.filter (\<lambda>t. length t \<ge> 20) (List.map cleanText (el_blocks el))"

text \<open>The mark begins with a line feed and an ellipsis, given by its UTF-8 bytes.\<close>

definition truncation_mark :: string where
  "truncation_mark = [CHR 0x0A, CHR 0xE2, CHR 0x80, CHR 0xA6] @ ''[content truncated]''"

definition page_body :: "document \<Rightarrow> string" where
  "page_body d =
     (let el = content_element d;
          body = (if paragraphs el \<noteq> [] then join_with [CHR 0x0A, CHR 0x0A] (paragraphs el) else cleanText (el_text el))
      in if length body > MAX_BODY_CHARS then take MAX_BODY_CHARS body @ truncation_mark else body)"

text \<open>No document: the library could not load the page.\<close>

definition emptyResult :: parsed_page where
  "emptyResult = \<lparr>pp_title = [], pp_headings = [], pp_body = [], pp_description = None, pp_wordCount = 0\<rparr>"

definition parseHtml :: "document option \<Rightarrow> parsed_page" where
  "parseHtml loaded =
     (case loaded of
        None \<Rightarrow> emptyResult
      | Some d \<Rightarrow>
          (let body = page_body d
           in \<lparr>pp_title = page_title d, pp_headings = page_headings d, pp_body = body,
               pp_description = page_description d, pp_wordCount = int (length (split_words body))\<rparr>))"

text \<open>The parser of the service for a DOM library that loads a page or fails to.\<close>

definition parse_page :: "(string \<Rightarrow> document option) \<Rightarrow> string \<Rightarrow> parsed_page" where
  "parse_page load html = parseHtml (load html)"

subsection \<open>The browser (puppeteerFetchPage)\<close>

text \<open>What a navigation gives: an error, no response, or a status with the page after its scripts ran.\<close>

record navigation =
  nv_ok :: bool
  nv_status :: string
  nv_contentType :: "string option"
  nv_html :: string

definition puppeteerFetchPage ::
    "bool \<Rightarrow> int \<Rightarrow> (string \<Rightarrow> string + navigation option) \<Rightarrow> string \<Rightarrow> string + string \<times> string \<times> int" where
  "puppeteerFetchPage enabled maxPageBytes navigate url =
     (if \<not> enabled
      then Inl ''Puppeteer fallback is disabled (set SCRAPER_PUPPETEER_ENABLED=true to enable)''
      else case navigate url of
        Inl message \<Rightarrow> Inl message
      | Inr None \<Rightarrow> Inl (''Puppeteer: no response received for '' @ url)
      | Inr (Some response) \<Rightarrow>
          if \<not> nv_ok response then Inl (''Puppeteer: HTTP '' @ nv_status response @ '' for '' @ url)
          else let byteLength = int (length (nv_html response)) in
            if byteLength > maxPageBytes
            then Inl (''Puppeteer: rendered page exceeds size limit of '' @ show_decimal (nat maxPageBytes) @ '' bytes'')
            else Inr (nv_html response, (case nv_contentType response of None \<Rightarrow> ''text/html'' | Some t \<Rightarrow> t), byteLength))"

subsection \<open>What the result of the parser satisfies\<close>

lemma page_headings_from:
  "list_all (\<lambda>h. h \<noteq> [] \<and> length h \<le> 300) hs \<and> distinct hs \<Longrightarrow>
     list_all (\<lambda>h. h \<noteq> [] \<and> length h \<le> 300) (fold (\<lambda>raw headings. let text = take 300 (cleanText raw) in
        if text \<noteq> [] \<and> text \<notin> set headings then headings @ [text] else headings) raws hs) \<and>
     distinct (fold (\<lambda>raw headings. let text = take 300 (cleanText raw) in
        if text \<noteq> [] \<and> text \<notin> set headings then headings @ [text] else headings) raws hs)"
proof (induction raws arbitrary: hs)
  case (Cons raw raws)
  let ?t = "take 300 (cleanText raw)"
  let ?hs = "if ?t \<noteq> [] \<and> ?t \<notin> set hs then hs @ [?t] else hs"
  have "list_all (\<lambda>h. h \<noteq> [] \<and> length h \<le> 300) ?hs \<and> distinct ?hs" using Cons.prems by simp
  from Cons.IH [OF this] show ?case by (simp add: Let_def)
qed simp

lemma page_headings_ok:
  "list_all (\<lambda>h. h \<noteq> [] \<and> length h \<le> 300) (page_headings d)" "distinct (page_headings d)"
  using page_headings_from [of "[]" "doc_headings d"] by (simp_all add: page_headings_def)

text \<open>A word is a part between white space, so there are at most as many as characters.\<close>

lemma split_words_length: "length (split_words s) \<le> length s"
proof (induction s rule: split_words.induct)
  case (1 s)
  show ?case
  proof (cases "dropWhile is_space s")
    case Nil
    then show ?thesis by (subst split_words.simps) (simp only: Nil list.case list.size le0)
  next
    case (Cons c cs)
    have "length (c # cs) \<le> length s" using Cons by (metis length_dropWhile_le)
    moreover have "length (dropWhile (\<lambda>x. \<not> is_space x) cs) \<le> length cs" by (rule length_dropWhile_le)
    ultimately show ?thesis using 1 [OF Cons] by (subst split_words.simps) (simp add: Cons)
  qed
qed

lemma split_words_empty: "split_words s = [] \<longleftrightarrow> list_all is_space s"
proof -
  have "split_words s = [] \<longleftrightarrow> dropWhile is_space s = []"
    by (subst split_words.simps) (cases "dropWhile is_space s", simp_all only: list.case list.distinct simp_thms)
  then show ?thesis by (simp add: dropWhile_eq_Nil_conv list_all_iff)
qed

text \<open>The size of what is embedded is bounded whatever the page is, and no page without text counts words.\<close>

lemma parseHtml_bounds:
  "length (pp_title (parseHtml l)) \<le> 200" "length (pp_body (parseHtml l)) \<le> 100023"
  "list_all (\<lambda>h. h \<noteq> [] \<and> length h \<le> 300) (pp_headings (parseHtml l))" "distinct (pp_headings (parseHtml l))"
  "0 \<le> pp_wordCount (parseHtml l)" "pp_wordCount (parseHtml l) \<le> int (length (pp_body (parseHtml l)))"
  "pp_wordCount (parseHtml l) = 0 \<longleftrightarrow> list_all is_space (pp_body (parseHtml l))"
proof -
  have "length (page_body d) \<le> 100023" for d
    by (simp add: page_body_def Let_def MAX_BODY_CHARS_def truncation_mark_def)
  then show "length (pp_body (parseHtml l)) \<le> 100023"
    by (simp add: parseHtml_def emptyResult_def Let_def split: option.split)
qed (simp_all add: parseHtml_def emptyResult_def Let_def page_title_def page_headings_ok split_words_length split_words_empty
    split: option.split)

text \<open>Clean text has no white space but single spaces, and none at its ends.\<close>

lemma collapse_spaces_only: "x \<in> set (collapse_spaces b s) \<Longrightarrow> is_space x \<Longrightarrow> x = CHR 0x20"
  by (induction b s rule: collapse_spaces.induct) (auto split: if_splits)

lemma cleanText_spaces: "x \<in> set (cleanText s) \<Longrightarrow> is_space x \<Longrightarrow> x = CHR 0x20"
  unfolding cleanText_def js_trim_def using collapse_spaces_only by (auto dest!: set_dropWhileD)

lemma puppeteer_bounded:
  "puppeteerFetchPage enabled limit navigate url = Inr (html, ty, n) \<Longrightarrow> enabled \<and> n = int (length html) \<and> n \<le> limit"
  by (auto simp: puppeteerFetchPage_def Let_def split: if_splits sum.splits option.splits)

text \<open>Nested blocks are both found by the selector of the paragraphs: their text is embedded twice.\<close>

lemma nested_blocks_repeat:
  assumes "el_blocks el = [t, t]" "length (cleanText t) \<ge> 20"
  shows "paragraphs el = [cleanText t, cleanText t]"
  using assms by (simp add: paragraphs_def)

end
