(* ===== verification/Tracing.thy ===== *)
theory Tracing
  imports JS_Number AI_Automation
begin

section \<open>Traces of AI executions and the metric counters\<close>

text \<open>
  modules/ai/core/monitoring (tracing.js, metrics.js) and \<open>logAITrace\<close>, \<open>logAIActivity\<close> of core/repo/ai.logs.repo.js.
  A handle collects steps; \<open>finish\<close> sums them up, adds the usage to the Redis totals the AI logs use
  too (\<open>ai_totals\<close>), stores the trace and logs it. The Redis client of the traces (\<open>tc_client\<close>) is
  the cache client itself, that of the logs is the AI cache, which can be switched off. Every write
  to Redis that fails is dropped. The clock and the new id are arguments.
\<close>

subsection \<open>Costs\<close>

definition price :: "rat \<Rightarrow> rat \<Rightarrow> rat \<times> rat" where
  "price prompt completion = (dbl prompt, dbl completion)"

definition COST_TABLE :: "(string \<times> rat \<times> rat) list" where
  "COST_TABLE =
     [(''gpt-4.1-mini'', price (15 / 100000) (60 / 100000)),
      (''gpt-4.1'', price (200 / 100000) (800 / 100000)),
      (''gpt-4o'', price (500 / 100000) (1500 / 100000)),
      (''gpt-4o-mini'', price (15 / 100000) (60 / 100000)),
      (''gpt-4-turbo'', price (1000 / 100000) (3000 / 100000)),
      (''gpt-4'', price (3000 / 100000) (6000 / 100000)),
      (''gpt-3.5-turbo'', price (50 / 100000) (150 / 100000)),
      (''claude-opus-4-6'', price (1500 / 100000) (7500 / 100000)),
      (''claude-sonnet-4-6'', price (300 / 100000) (1500 / 100000)),
      (''claude-haiku-4-5'', price (25 / 100000) (125 / 100000))]"

text \<open>The configuration: the prices of an unknown model, the default model, whether traces are logged.\<close>

record trace_config =
  tg_defaultCost :: "rat \<times> rat"
  tg_model :: string
  tg_monitoring :: bool

text \<open>\<open>Number(x.toFixed(f))\<close>\<close>

definition fixed_number :: "nat \<Rightarrow> rat \<Rightarrow> rat" where
  "fixed_number f x =
     (if x < 0 then - dbl (of_int (fixed_int f (- x)) / 10 ^ f) else dbl (of_int (fixed_int f x) / 10 ^ f))"

definition computeCost :: "trace_config \<Rightarrow> int \<Rightarrow> int \<Rightarrow> string \<Rightarrow> rat" where
  "computeCost cfg promptTokens completionTokens model =
     (let rates = (case map_of COST_TABLE model of Some r \<Rightarrow> r | None \<Rightarrow> tg_defaultCost cfg) in
      fixed_number 8 (js_add (js_mul (js_div (of_int promptTokens) 1000) (fst rates))
        (js_mul (js_div (of_int completionTokens) 1000) (snd rates))))"

subsection \<open>The handle (TraceHandle)\<close>

record step_data =
  sd_latencyMs :: rat
  sd_tokensPrompt :: int
  sd_tokensCompletion :: int
  sd_action :: "string option"
  sd_confidence :: "rat option"
  sd_tool :: "string option"
  sd_toolSuccess :: "bool option"
  sd_detail :: "string option"

record trace_step =
  ts_step :: nat
  ts_stepType :: string
  ts_latencyMs :: int
  ts_tokensPrompt :: int
  ts_tokensCompletion :: int
  ts_tokensTotal :: int
  ts_costUsd :: rat
  ts_action :: "string option"
  ts_confidence :: "rat option"
  ts_tool :: "string option"
  ts_toolSuccess :: "bool option"
  ts_detail :: "string option"

record trace_metadata =
  md_orgId :: "string option"
  md_ticketId :: "string option"
  md_mode :: "string option"
  md_requestId :: "string option"
  md_model :: "string option"

record trace_handle =
  th_name :: string
  th_startedAt :: time
  th_steps :: "trace_step list"
  th_traceId :: string
  th_orgId :: string
  th_ticketId :: string
  th_mode :: string
  th_requestId :: string
  th_model :: string

definition startTrace :: "trace_config \<Rightarrow> time \<Rightarrow> string \<Rightarrow> string \<Rightarrow> trace_metadata \<Rightarrow> trace_handle" where
  "startTrace cfg now newId name md =
     \<lparr>th_name = name, th_startedAt = now, th_steps = [], th_traceId = newId,
      th_orgId = the_default [] (md_orgId md), th_ticketId = the_default [] (md_ticketId md),
      th_mode = the_default ''automation'' (md_mode md), th_requestId = the_default [] (md_requestId md),
      th_model = the_default (tg_model cfg) (md_model md)\<rparr>"

definition addStep :: "trace_config \<Rightarrow> string \<Rightarrow> step_data \<Rightarrow> trace_handle \<Rightarrow> trace_handle" where
  "addStep cfg stepType d h =
     h\<lparr>th_steps := th_steps h @
       [\<lparr>ts_step = length (th_steps h), ts_stepType = stepType, ts_latencyMs = math_round (sd_latencyMs d),
         ts_tokensPrompt = sd_tokensPrompt d, ts_tokensCompletion = sd_tokensCompletion d,
         ts_tokensTotal = sd_tokensPrompt d + sd_tokensCompletion d,
         ts_costUsd = computeCost cfg (sd_tokensPrompt d) (sd_tokensCompletion d) (th_model h),
         ts_action = sd_action d, ts_confidence = sd_confidence d, ts_tool = sd_tool d,
         ts_toolSuccess = sd_toolSuccess d, ts_detail = sd_detail d\<rparr>]\<rparr>"

record trace =
  tr_traceId :: string
  tr_requestId :: string
  tr_orgId :: string
  tr_ticketId :: string
  tr_mode :: string
  tr_model :: string
  tr_startedAt :: time
  tr_finishedAt :: time
  tr_totalMs :: int
  tr_steps :: "trace_step list"
  tr_totalLlmCalls :: nat
  tr_totalToolCalls :: nat
  tr_tokensPrompt :: int
  tr_tokensCompletion :: int
  tr_tokensTotal :: int
  tr_costUsd :: rat
  tr_finalAction :: string
  tr_finalConfidence :: rat
  tr_error :: "string option"

record trace_result =
  re_action :: "string option"
  re_confidence :: "rat option"
  re_error :: "string option"

record trace_state =
  tc_ai :: ai_state
  tc_client :: bool
  tc_blobs :: "(string \<times> trace) list"
  tc_log :: "trace list"

definition is_llm_step :: "trace_step \<Rightarrow> bool" where
  "is_llm_step s \<longleftrightarrow> ts_stepType s = ''llm_decision'' \<or> ts_stepType s = ''llm_followup''"

definition llm_steps :: "trace_step list \<Rightarrow> trace_step list" where
  "llm_steps steps = List.filter is_llm_step steps"

definition tool_steps :: "trace_step list \<Rightarrow> trace_step list" where
  "tool_steps steps = List.filter (\<lambda>s. ts_stepType s = ''tool_call'') steps"

definition completed_trace :: "time \<Rightarrow> trace_result \<Rightarrow> trace_handle \<Rightarrow> trace" where
  "completed_trace now result h =
     (let llm = llm_steps (th_steps h);
          tp = sum_list (List.map ts_tokensPrompt llm); tcm = sum_list (List.map ts_tokensCompletion llm) in
      \<lparr>tr_traceId = th_traceId h, tr_requestId = th_requestId h, tr_orgId = th_orgId h, tr_ticketId = th_ticketId h,
       tr_mode = th_mode h, tr_model = th_model h, tr_startedAt = th_startedAt h, tr_finishedAt = now,
       tr_totalMs = now - th_startedAt h, tr_steps = th_steps h, tr_totalLlmCalls = length llm,
       tr_totalToolCalls = length (tool_steps (th_steps h)), tr_tokensPrompt = tp, tr_tokensCompletion = tcm,
       tr_tokensTotal = tp + tcm,
       tr_costUsd = fixed_number 8 (foldl js_add 0 (List.map ts_costUsd llm)),
       tr_finalAction = the_default ''unknown'' (re_action result),
       tr_finalConfidence = the_default 0 (re_confidence result), tr_error = re_error result\<rparr>)"

subsection \<open>Persistence\<close>

definition usage_keys :: "string \<Rightarrow> string \<Rightarrow> string \<Rightarrow> string list" where
  "usage_keys today ticketId orgId =
     (if ticketId \<noteq> [] then [''ai:usage:ticket:'' @ ticketId] else []) @
     (if orgId \<noteq> [] then [''ai:usage:organization:'' @ orgId, ''ai:usage:organization:'' @ orgId @ '':daily:'' @ today] else [])"

definition add_usage :: "usage_totals \<Rightarrow> string \<Rightarrow> ai_state \<Rightarrow> ai_state" where
  "add_usage d key s =
     (let old = ai_totals s key in
      s\<lparr>ai_totals := (ai_totals s)(key :=
        \<lparr>ut_tokensUsed = ut_tokensUsed old + ut_tokensUsed d, ut_cost = ut_cost old + ut_cost d,
         ut_requests = ut_requests old + ut_requests d\<rparr>)\<rparr>)"

text \<open>One pipeline for all keys; it fails as a whole when Redis is down.\<close>

definition persistUsage :: "string \<Rightarrow> string \<Rightarrow> string \<Rightarrow> int \<Rightarrow> rat \<Rightarrow> trace_state \<Rightarrow> trace_state" where
  "persistUsage today ticketId orgId tokensUsed cost s =
     (if \<not> tc_client s \<or> tokensUsed = 0 \<or> \<not> ai_redis (tc_ai s) then s
      else s\<lparr>tc_ai := fold (add_usage \<lparr>ut_tokensUsed = tokensUsed, ut_cost = cost, ut_requests = 1\<rparr>)
        (usage_keys today ticketId orgId) (tc_ai s)\<rparr>)"

definition trace_key :: "trace \<Rightarrow> string" where
  "trace_key t = ''trace:'' @ tr_orgId t @ '':'' @ tr_ticketId t @ '':'' @ tr_traceId t"

definition persistTraceBlob :: "trace \<Rightarrow> trace_state \<Rightarrow> trace_state" where
  "persistTraceBlob t s =
     (if \<not> tc_client s \<or> \<not> ai_redis (tc_ai s) then s
      else s\<lparr>tc_blobs := AList.update (trace_key t) t (tc_blobs s)\<rparr>)"

definition emitLog :: "trace_config \<Rightarrow> trace \<Rightarrow> trace_state \<Rightarrow> trace_state" where
  "emitLog cfg t s = (if tg_monitoring cfg then s\<lparr>tc_log := tc_log s @ [t]\<rparr> else s)"

definition finish :: "trace_config \<Rightarrow> time \<Rightarrow> string \<Rightarrow> trace_result \<Rightarrow> trace_handle \<Rightarrow> trace_state \<Rightarrow> trace \<times> trace_state" where
  "finish cfg now today result h s =
     (let t = completed_trace now result h in
      (t, emitLog cfg t (persistTraceBlob t
        (persistUsage today (th_ticketId h) (th_orgId h) (tr_tokensTotal t) (tr_costUsd t) s))))"

text \<open>\<open>logAITrace\<close>: the keys through \<open>incrementHashValues\<close> of the AI cache.\<close>

definition logAITrace :: "string \<Rightarrow> trace option \<Rightarrow> trace_state \<Rightarrow> trace option \<times> trace_state" where
  "logAITrace today trace s =
     (case trace of
        None \<Rightarrow> (None, s)
      | Some t \<Rightarrow>
          let usageTotals = \<lparr>ut_tokensUsed = tr_tokensTotal t, ut_cost = tr_costUsd t, ut_requests = 1\<rparr>;
              keys = (if tr_ticketId t \<noteq> [] then [buildAITicketUsageCacheKey (tr_ticketId t)] else []) @
                (if tr_orgId t \<noteq> [] then [buildAIOrganizationUsageCacheKey (tr_orgId t),
                   buildAIOrganizationUsageCacheKey (tr_orgId t) @ '':daily:'' @ today] else []);
              s1 = (if tr_tokensTotal t > 0 \<or> tr_costUsd t > 0
                then s\<lparr>tc_ai := fold (\<lambda>key a. snd (incrementHashValues key usageTotals a)) keys (tc_ai s)\<rparr> else s);
              s2 = (if tr_traceId t \<noteq> [] \<and> tr_orgId t \<noteq> [] \<and> tr_ticketId t \<noteq> [] then persistTraceBlob t s1 else s1)
          in (Some t, s2\<lparr>tc_log := tc_log s2 @ [t]\<rparr>))"

text \<open>
  \<open>logAIActivity\<close>: an entry with its gaps filled; the totals get what its metadata says of the usage.
  The ids of the payload are those of the entry, absent or not.
\<close>

record activity_entry =
  en_ticketId :: "string option"
  en_organizationId :: "string option"
  en_module :: "string option"
  en_action :: "string option"
  en_aiUsage :: "ai_usage option"
  en_createdAt :: "time option"

record activity_payload =
  pl_ticketId :: "string option"
  pl_organizationId :: "string option"
  pl_module :: string
  pl_action :: string
  pl_aiUsage :: "ai_usage option"
  pl_createdAt :: time

definition named :: "string \<Rightarrow> string option \<Rightarrow> string" where
  "named fallback x = (if truthy x then the x else fallback)"

definition logAIActivity :: "time \<Rightarrow> string \<Rightarrow> activity_entry \<Rightarrow> ai_state \<Rightarrow> activity_payload \<times> ai_state" where
  "logAIActivity now today en s =
     (let p = \<lparr>pl_ticketId = en_ticketId en, pl_organizationId = en_organizationId en,
            pl_module = named ''ai'' (en_module en), pl_action = named ''unknown'' (en_action en),
            pl_aiUsage = en_aiUsage en, pl_createdAt = the_default now (en_createdAt en)\<rparr>
      in (p, trackAIUsageTotals today (the_default [] (pl_ticketId p)) (the_default [] (pl_organizationId p)) (pl_aiUsage p) s))"

lemma activity_without_usage: "en_aiUsage en = None \<Longrightarrow> snd (logAIActivity now today en s) = s"
  by (simp add: logAIActivity_def trackAIUsageTotals_def Let_def)

subsection \<open>Counters (metrics.js)\<close>

type_synonym metric_store = "(string \<times> int) list"

definition getMetric :: "string \<Rightarrow> metric_store \<Rightarrow> int" where
  "getMetric name m = the_default 0 (map_of m name)"

definition incrementMetric :: "string \<Rightarrow> int \<Rightarrow> metric_store \<Rightarrow> int \<times> metric_store" where
  "incrementMetric name value m =
     (let nextValue = getMetric name m + value in (nextValue, AList.update name nextValue m))"

definition resetMetrics :: "metric_store \<Rightarrow> metric_store" where
  "resetMetrics m = []"

lemma getMetric_increment [simp]:
  "getMetric n (snd (incrementMetric k v m)) = (if n = k then getMetric n m + v else getMetric n m)"
  by (simp add: incrementMetric_def getMetric_def Let_def update_conv the_default_def)

lemma getMetric_sum:
  "getMetric n (fold (\<lambda>(k, v) m. snd (incrementMetric k v m)) es m) =
   getMetric n m + sum_list (List.map snd (List.filter (\<lambda>e. fst e = n) es))"
  by (induction es arbitrary: m) auto

lemma getMetric_reset: "getMetric n (resetMetrics m) = 0"
  by (simp add: getMetric_def resetMetrics_def the_default_def)

subsection \<open>Steps and totals\<close>

text \<open>A run of a trace: the steps recorded one after the other.\<close>

definition traced :: "trace_config \<Rightarrow> (string \<times> step_data) list \<Rightarrow> trace_handle \<Rightarrow> trace_handle" where
  "traced cfg es h = fold (\<lambda>(k, d). addStep cfg k d) es h"

lemma traced_snoc: "traced cfg (es @ [(k, d)]) h = addStep cfg k d (traced cfg es h)"
  by (simp add: traced_def)

lemma traced_keeps [simp]:
  "th_ticketId (traced cfg es h) = th_ticketId h" "th_orgId (traced cfg es h) = th_orgId h"
  "th_startedAt (traced cfg es h) = th_startedAt h" "th_model (traced cfg es h) = th_model h"
  by (induction es rule: rev_induct) (auto simp: traced_def addStep_def split: prod.split)

lemma traced_numbers:
  "th_steps h = [] \<Longrightarrow> List.map ts_step (th_steps (traced cfg es h)) = [0..<length es]"
proof (induction es rule: rev_induct)
  case (snoc e es)
  obtain k d where e: "e = (k, d)" by (cases e)
  have "length (th_steps (traced cfg es h)) = length es"
    using snoc arg_cong [of _ _ length] by (metis length_map length_upt diff_zero)
  then show ?case using snoc unfolding e traced_snoc by (simp add: addStep_def)
qed (simp add: traced_def)

text \<open>The tokens of the calls of the model; those of other steps count nowhere.\<close>

definition llm_tokens :: "(string \<times> step_data) list \<Rightarrow> int" where
  "llm_tokens es = sum_list (List.map (\<lambda>(k, d). if k = ''llm_decision'' \<or> k = ''llm_followup''
     then sd_tokensPrompt d + sd_tokensCompletion d else 0) es)"

lemma traced_tokens:
  "th_steps h = [] \<Longrightarrow> tr_tokensTotal (completed_trace now r (traced cfg es h)) = llm_tokens es"
proof (induction es rule: rev_induct)
  case (snoc e es)
  obtain k d where e: "e = (k, d)" by (cases e)
  show ?case
    using snoc unfolding e traced_snoc
    by (simp add: completed_trace_def llm_tokens_def llm_steps_def addStep_def is_llm_step_def Let_def)
qed (simp add: traced_def completed_trace_def llm_tokens_def llm_steps_def Let_def)

lemma add_usage_other [simp]:
  "ai_gateway (add_usage d k s) = ai_gateway s" "ai_client (add_usage d k s) = ai_client s"
  by (simp_all add: add_usage_def Let_def)

lemma add_usage_total:
  "ut_tokensUsed (ai_totals (fold (add_usage d) ks s) k) =
     ut_tokensUsed (ai_totals s k) + int (count_list ks k) * ut_tokensUsed d"
  "ut_requests (ai_totals (fold (add_usage d) ks s) k) =
     ut_requests (ai_totals s k) + int (count_list ks k) * ut_requests d"
  by (induction ks arbitrary: s) (auto simp: add_usage_def Let_def algebra_simps)

lemma count_usage_keys:
  assumes "ticketId \<noteq> []"
  shows "count_list (usage_keys today ticketId orgId) (buildAITicketUsageCacheKey ticketId) = 1"
proof -
  have "''ai:usage:organization:'' @ x \<noteq> ''ai:usage:ticket:'' @ ticketId" for x by simp
  then show ?thesis using assms by (simp add: usage_keys_def buildAITicketUsageCacheKey_def)
qed

text \<open>
  With Redis up, finishing a trace adds the tokens of its model calls to the totals of its ticket
  and counts one request; a trace without tokens counts as no request at all.
\<close>

lemma finish_usage:
  assumes "tc_client s" "ai_redis (tc_ai s)" "md_ticketId md = Some i" "i \<noteq> []"
    and "finish cfg now today result (traced cfg es (startTrace cfg t0 newId name md)) s = (t, s')"
  shows "ut_tokensUsed (ai_totals (tc_ai s') (buildAITicketUsageCacheKey i)) =
      ut_tokensUsed (ai_totals (tc_ai s) (buildAITicketUsageCacheKey i)) + llm_tokens es"
    "ut_requests (ai_totals (tc_ai s') (buildAITicketUsageCacheKey i)) =
      ut_requests (ai_totals (tc_ai s) (buildAITicketUsageCacheKey i)) + (if llm_tokens es = 0 then 0 else 1)"
proof -
  let ?h = "startTrace cfg t0 newId name md"
  have h: "th_steps ?h = []" "th_ticketId ?h = i" using assms(3) by (simp_all add: startTrace_def the_default_def)
  have t: "t = completed_trace now result (traced cfg es ?h)" and
    s': "tc_ai s' = tc_ai (persistUsage today i (th_orgId ?h) (tr_tokensTotal t) (tr_costUsd t) s)"
    using assms(5) h by (auto simp: finish_def Let_def emitLog_def persistTraceBlob_def split: if_splits)
  have tok: "tr_tokensTotal t = llm_tokens es" unfolding t by (rule traced_tokens [OF h(1)])
  note c = count_usage_keys [OF assms(4), of today "th_orgId ?h"]
  show "ut_tokensUsed (ai_totals (tc_ai s') (buildAITicketUsageCacheKey i)) =
      ut_tokensUsed (ai_totals (tc_ai s) (buildAITicketUsageCacheKey i)) + llm_tokens es"
    unfolding s' persistUsage_def tok using assms(1,2) by (simp add: add_usage_total c)
  show "ut_requests (ai_totals (tc_ai s') (buildAITicketUsageCacheKey i)) =
      ut_requests (ai_totals (tc_ai s) (buildAITicketUsageCacheKey i)) + (if llm_tokens es = 0 then 0 else 1)"
    unfolding s' persistUsage_def tok using assms(1,2) by (simp add: add_usage_total c)
qed

text \<open>With the AI cache on, logging a trace increments the same keys: one that was finished counts twice.\<close>

lemma increment_is_add:
  assumes "ai_client s" "ai_redis s"
  shows "snd (incrementHashValues key d s) = add_usage d key s"
  using assms by (simp add: incrementHashValues_def add_usage_def Let_def)

lemma fold_increment_is_add:
  assumes "ai_client s" "ai_redis s"
  shows "fold (\<lambda>key a. snd (incrementHashValues key d a)) ks s = fold (add_usage d) ks s"
  using assms
proof (induction ks arbitrary: s)
  case (Cons k ks)
  have "ai_client (add_usage d k s)" "ai_redis (add_usage d k s)" using Cons.prems by (simp_all add: ai_redis_def)
  then show ?case using Cons by (simp add: increment_is_add)
qed simp

lemma log_keys:
  "(if i \<noteq> [] then [buildAITicketUsageCacheKey i] else []) @
   (if o' \<noteq> [] then [buildAIOrganizationUsageCacheKey o', buildAIOrganizationUsageCacheKey o' @ '':daily:'' @ today] else []) =
   usage_keys today i o'"
  by (simp add: usage_keys_def buildAITicketUsageCacheKey_def buildAIOrganizationUsageCacheKey_def)

lemma logged_again_counts_twice:
  assumes "tc_client s" "ai_client (tc_ai s)" "ai_redis (tc_ai s)" "tr_tokensTotal t > 0" "tr_ticketId t = i" "i \<noteq> []"
  shows "tc_ai (snd (logAITrace today (Some t) s)) =
    tc_ai (persistUsage today i (tr_orgId t) (tr_tokensTotal t) (tr_costUsd t) s)"
  using assms
  by (simp add: logAITrace_def Let_def persistUsage_def persistTraceBlob_def fold_increment_is_add log_keys [unfolded assms(5)]
      del: fold_simps) (simp add: log_keys [symmetric])

end
