(* ===== verification/Widget_Stream.thy ===== *)
theory Widget_Stream
  imports JS_Number
begin

section \<open>Chat widget: the client of the chatbot service\<close>

text \<open>
  frontend/widget/src/api.ts, and the event stream it reads, which app/widget/routes.py of the
  chatbot service writes. A body that is read as a stream is the list of the texts its chunks
  decode to; \<open>hr_broken\<close> says that the connection fails after the last of them. The text of a
  response may be unreadable (\<open>hr_text = None\<close>), a \<open>fetch\<close> may fail (\<open>None\<close>). \<open>JSON.parse\<close> on the
  data of an event is the parameter \<open>parse\<close>: \<open>Some\<close> for an object whose type is \<open>meta\<close>, and
  \<open>None\<close> for everything else, an exception included.
\<close>

subsection \<open>Requests and responses\<close>

datatype widget_error = WidgetApiError int string | HostFailure

datatype widget_action_type = Open_docs | View_pricing | Contact_form | No_action

record widget_action =
  wa_type :: widget_action_type
  wa_label :: string
  wa_url :: "string option"

record stream_meta =
  sm_escalated :: bool
  sm_ticket_id :: "string option"
  sm_trace_id :: "string option"
  sm_confidence :: rat
  sm_actions :: "widget_action list"

record widget_response =
  wr_reply :: string
  wr_actions :: "widget_action list"
  wr_confidence :: rat
  wr_escalated :: bool
  wr_ticket_id :: "string option"
  wr_session_id :: string
  wr_trace_id :: "string option"

record http_reply =
  hr_status :: int
  hr_statusText :: string
  hr_text :: "string option"
  hr_chunks :: "string list option"
  hr_broken :: bool

definition resp_ok :: "http_reply \<Rightarrow> bool" where
  "resp_ok r = (200 \<le> hr_status r \<and> hr_status r \<le> 299)"

definition refused :: "http_reply \<Rightarrow> widget_error" where
  "refused r = WidgetApiError (hr_status r) (case hr_text r of Some t \<Rightarrow> t | None \<Rightarrow> hr_statusText r)"

text \<open>\<open>resp.json()\<close> is the argument \<open>json\<close>: \<open>None\<close> for a body that is no JSON.\<close>

definition sendMessage :: "(http_reply \<Rightarrow> widget_response option) \<Rightarrow> http_reply option \<Rightarrow> widget_error + widget_response" where
  "sendMessage json fetched =
     (case fetched of
        None \<Rightarrow> Inl HostFailure
      | Some r \<Rightarrow>
          if \<not> resp_ok r then Inl (refused r)
          else case json r of None \<Rightarrow> Inl HostFailure | Some x \<Rightarrow> Inr x)"

subsection \<open>Reading the events\<close>

abbreviation LF :: char where "LF \<equiv> CHR 0x0A"

text \<open>\<open>buffer.split("\n\n")\<close>: leftmost blank lines first.\<close>

fun split_blank :: "string \<Rightarrow> string list" where
  "split_blank [] = [[]]"
| "split_blank [c] = [[c]]"
| "split_blank (c # d # cs) =
     (if c = LF \<and> d = LF then [] # split_blank cs
      else case split_blank (d # cs) of [] \<Rightarrow> [[c]] | p # ps \<Rightarrow> (c # p) # ps)"

definition event_data :: "string \<Rightarrow> string option" where
  "event_data event =
     (let line = js_trim event
      in if prefix ''data:'' line then Some (js_trim (drop 5 line)) else None)"

text \<open>
  The body of the \<open>for\<close> loop over the events of one batch: the tokens passed to \<open>onToken\<close> so far
  and the metadata. \<open>[DONE]\<close> leaves this loop only.
\<close>

type_synonym emitted = "string list \<times> stream_meta option"

fun handle_events :: "(string \<Rightarrow> stream_meta option) \<Rightarrow> string list \<Rightarrow> emitted \<Rightarrow> widget_error option \<times> emitted" where
  "handle_events parse [] st = (None, st)"
| "handle_events parse (event # events) st =
     (case event_data event of
        None \<Rightarrow> handle_events parse events st
      | Some d \<Rightarrow>
          if d = ''[DONE]'' then (None, st)
          else if d = ''[ERROR]'' then (Some (WidgetApiError 500 ''Server error during streaming''), st)
          else case (if prefix ''{'' d then parse d else None) of
            Some m \<Rightarrow> handle_events parse events (fst st, Some m)
          | None \<Rightarrow> handle_events parse events (fst st @ [d], snd st))"

text \<open>The \<open>while\<close> loop: one read after the other, the last incomplete event kept in the buffer.\<close>

fun read_stream ::
    "(string \<Rightarrow> stream_meta option) \<Rightarrow> bool \<Rightarrow> string list \<Rightarrow> string \<Rightarrow> emitted \<Rightarrow> widget_error option \<times> emitted" where
  "read_stream parse broken [] buffer st = (if broken then Some HostFailure else None, st)"
| "read_stream parse broken (chunk # chunks) buffer st =
     (let parts = split_blank (buffer @ chunk)
      in case handle_events parse (butlast parts) st of
           (Some e, st') \<Rightarrow> (Some e, st')
         | (None, st') \<Rightarrow> read_stream parse broken chunks (last parts) st')"

definition default_meta :: stream_meta where
  "default_meta = \<lparr>sm_escalated = False, sm_ticket_id = None, sm_trace_id = None, sm_confidence = 0, sm_actions = []\<rparr>"

text \<open>The tokens passed to \<open>onToken\<close>, in order, and how the call ends.\<close>

definition streamMessage ::
    "(string \<Rightarrow> stream_meta option) \<Rightarrow> http_reply option \<Rightarrow> string list \<times> (widget_error + stream_meta)" where
  "streamMessage parse fetched =
     (case fetched of
        None \<Rightarrow> ([], Inl HostFailure)
      | Some r \<Rightarrow>
          if \<not> resp_ok r then ([], Inl (refused r))
          else case hr_chunks r of
            None \<Rightarrow> ([], Inl (WidgetApiError 0 ''Response body is null''))
          | Some chunks \<Rightarrow>
              (case read_stream parse (hr_broken r) chunks [] ([], None) of
                 (Some e, ts, m) \<Rightarrow> (ts, Inl e)
               | (None, ts, None) \<Rightarrow> (ts, Inr default_meta)
               | (None, ts, Some m) \<Rightarrow> (ts, Inr m)))"

subsection \<open>What the service writes\<close>

text \<open>
  \<open>event_stream\<close> of routes.py: the words of the reply, each but the last with the space that
  follows it, the metadata, the end mark. \<open>None\<close>: the session service has raised. The text
  \<open>json.dumps\<close> makes of the metadata is an argument.
\<close>

definition data_line :: "string \<Rightarrow> string" where
  "data_line d = ''data: '' @ d"

definition sse :: "string \<Rightarrow> string" where
  "sse d = data_line d @ [LF, LF]"

fun spaced :: "string list \<Rightarrow> string list" where
  "spaced [] = []"
| "spaced [w] = [w]"
| "spaced (w # v # ws) = (w @ '' '') # spaced (v # ws)"

definition event_stream :: "(string \<times> string) option \<Rightarrow> string" where
  "event_stream response =
     (case response of
        None \<Rightarrow> sse ''[ERROR]''
      | Some (reply, metaText) \<Rightarrow>
          concat (List.map sse (spaced (js_split (CHR '' '') reply))) @ sse metaText) @ sse ''[DONE]''"

subsection \<open>Splitting and trimming\<close>

lemma split_blank_ne [simp]: "split_blank s \<noteq> []"
  by (induction s rule: split_blank.induct) (auto split: list.splits)

lemma split_blank_append:
  "split_blank (b @ c) = butlast (split_blank b) @ split_blank (last (split_blank b) @ c)"
proof (induction b rule: split_blank.induct)
  case (3 x y cs)
  show ?case
  proof (cases "x = LF \<and> y = LF")
    case True
    then show ?thesis using "3.IH"(1) by simp
  next
    case False
    obtain p ps where s: "split_blank (y # cs) = p # ps" by (cases "split_blank (y # cs)") auto
    note ih = "3.IH"(2) [OF False, unfolded s]
    show ?thesis
    proof (cases "ps = []")
      case True
      have "p = y # cs"
      proof -
        have "concat [p] = y # cs" if "split_blank (y # cs) = [p]" for y cs p
          using that by (induction "y # cs" arbitrary: y cs p rule: split_blank.induct) (auto split: if_splits list.splits)
        then show ?thesis using s True by simp
      qed
      then show ?thesis using s True False by auto
    next
      case ps: False
      then show ?thesis using ih s False by (auto split: list.splits)
    qed
  qed
qed simp_all

lemma split_blank_last: "split_blank (last (split_blank s)) = [last (split_blank s)]"
proof -
  have "butlast (split_blank s) @ [last (split_blank s)] = butlast (split_blank s) @ split_blank (last (split_blank s))"
    using split_blank_append [of s "[]"] by simp
  then show ?thesis by (metis append_butlast_last_id same_append_eq split_blank_ne)
qed

lemma split_blank_line: "LF \<notin> set x \<Longrightarrow> split_blank (x @ LF # LF # rest) = x # split_blank rest"
proof (induction x)
  case (Cons c x)
  then show ?case by (cases x) auto
qed simp

lemma js_trim_core:
  assumes "x \<noteq> []" "\<not> is_space (hd x)" "\<not> is_space (last x)" "list_all is_space a" "list_all is_space b"
  shows "js_trim (a @ x @ b) = x"
proof -
  have "dropWhile is_space (a @ x @ b) = x @ b"
    using assms(1,2,4) by (induction a) (auto simp: dropWhile_append neq_Nil_conv)
  moreover have "dropWhile is_space (rev b @ rev x) = rev x"
  proof -
    have "dropWhile is_space (rev b @ rev x) = dropWhile is_space (rev x)"
      using assms(5) by (intro dropWhile_append2) (auto simp: list_all_iff)
    moreover have "dropWhile is_space (rev x) = rev x"
      using assms(1,3) by (cases x rule: rev_cases) auto
    ultimately show ?thesis by simp
  qed
  ultimately show ?thesis by (simp add: js_trim_def)
qed

lemma js_trim_spaces: "list_all is_space a \<Longrightarrow> js_trim a = []"
  by (simp add: js_trim_def list_all_iff dropWhile_eq_Nil_conv [THEN iffD2])

subsection \<open>The answer does not depend on the chunks\<close>

definition is_done :: "string \<Rightarrow> bool" where
  "is_done event = (event_data event = Some ''[DONE]'')"

lemma handle_events_append:
  assumes "ys = [] \<or> list_all (\<lambda>e. \<not> is_done e) xs"
  shows "handle_events parse (xs @ ys) st =
    (case handle_events parse xs st of (Some e, st') \<Rightarrow> (Some e, st') | (None, st') \<Rightarrow> handle_events parse ys st')"
  using assms
proof (induction xs arbitrary: st)
  case (Cons e xs)
  have ih: "handle_events parse (xs @ ys) st' =
    (case handle_events parse xs st' of (Some e, st'') \<Rightarrow> (Some e, st'') | (None, st'') \<Rightarrow> handle_events parse ys st'')" for st'
    by (rule Cons.IH) (use Cons.prems in auto)
  show ?case
  proof (cases "event_data e = Some ''[DONE]''")
    case True
    then show ?thesis using Cons.prems by (auto simp: is_done_def)
  next
    case False
    show ?thesis
    proof (cases "event_data e")
      case None
      show ?thesis by (simp only: append_Cons handle_events.simps None option.case ih)
    next
      case (Some d)
      have d: "d \<noteq> ''[DONE]''" using False Some by simp
      show ?thesis
      proof (cases "d = ''[ERROR]''")
        case True
        have d': "''[ERROR]'' \<noteq> ''[DONE]''" by simp
        show ?thesis
          by (simp only: append_Cons handle_events.simps Some option.case d' if_False True prod.case refl if_True)
      next
        case e: False
        show ?thesis
          by (cases "if prefix ''{'' d then parse d else None")
            (simp_all only: append_Cons handle_events.simps Some option.case d e if_False ih)
      qed
    qed
  qed
qed simp

definition closing :: "bool \<Rightarrow> widget_error option \<times> emitted \<Rightarrow> widget_error option \<times> emitted" where
  "closing broken r = (case r of (Some e, st) \<Rightarrow> (Some e, st) | (None, st) \<Rightarrow> (if broken then Some HostFailure else None, st))"

lemma read_stream_whole:
  assumes "split_blank buffer = [buffer]"
    and "list_all (\<lambda>e. \<not> is_done e) (butlast (butlast (split_blank (buffer @ concat chunks))))"
  shows "read_stream parse broken chunks buffer st =
    closing broken (handle_events parse (butlast (split_blank (buffer @ concat chunks))) st)"
  using assms
proof (induction chunks arbitrary: buffer st)
  case Nil
  then show ?case by (simp add: closing_def)
next
  case (Cons c cs)
  let ?parts = "split_blank (buffer @ c)"
  let ?next = "butlast (split_blank (last ?parts @ concat cs))"
  have whole: "butlast (split_blank (buffer @ concat (c # cs))) = butlast ?parts @ ?next"
    using split_blank_append [of "buffer @ c" "concat cs"] by (simp add: butlast_append)
  have *: "?next = [] \<or> list_all (\<lambda>e. \<not> is_done e) (butlast ?parts)"
    and **: "list_all (\<lambda>e. \<not> is_done e) (butlast ?next)"
    using Cons.prems(2) unfolding whole by (auto simp: butlast_append split: if_splits)
  show ?case
    unfolding whole handle_events_append [OF *]
    using Cons.IH [OF split_blank_last **]
    by (auto simp: Let_def closing_def split: prod.splits option.splits)
qed

text \<open>
  C13. The result of \<open>streamMessage\<close> (tokens, metadata or error) does not depend on how the
  network cuts the stream into chunks, as long as \<open>[DONE]\<close> is the last complete event.
\<close>

theorem streamMessage_chunking:
  assumes "concat chunks = concat chunks'"
    and "list_all (\<lambda>e. \<not> is_done e) (butlast (butlast (split_blank (concat chunks))))"
  shows "streamMessage parse (Some (r\<lparr>hr_chunks := Some chunks\<rparr>)) = streamMessage parse (Some (r\<lparr>hr_chunks := Some chunks'\<rparr>))"
proof -
  have "read_stream parse b chunks [] st = read_stream parse b chunks' [] st" for b st
    using read_stream_whole [of "[]" chunks parse b st] read_stream_whole [of "[]" chunks' parse b st] assms by simp
  then show ?thesis by (auto simp: streamMessage_def resp_ok_def refused_def split: option.splits)
qed

theorem streamMessage_chunking_witness:
  "streamMessage (\<lambda>_. None) (Some (\<lparr>hr_status = 200, hr_statusText = ''OK'', hr_text = None,
       hr_chunks = Some [''data: Hi'' @ [LF, LF] @ ''data: [DO'', ''NE]'' @ [LF], [LF]], hr_broken = False\<rparr>)) =
   streamMessage (\<lambda>_. None) (Some (\<lparr>hr_status = 200, hr_statusText = ''OK'', hr_text = None,
       hr_chunks = Some [''data: Hi'' @ [LF], [LF] @ ''data: [DONE]'' @ [LF, LF]], hr_broken = False\<rparr>))"
proof -
  have 1: "concat [''data: Hi'' @ [LF, LF] @ ''data: [DO'', ''NE]'' @ [LF], [LF]] = concat [''data: Hi'' @ [LF], [LF] @ ''data: [DONE]'' @ [LF, LF]]"
    by code_simp
  have 2: "list_all (\<lambda>e. \<not> is_done e) (butlast (butlast (split_blank (concat [''data: Hi'' @ [LF, LF] @ ''data: [DO'', ''NE]'' @ [LF], [LF]]))))"
    by code_simp
  show ?thesis
    using streamMessage_chunking [OF 1 2, of "\<lambda>_. None" "\<lparr>hr_status = 200, hr_statusText = ''OK'', hr_text = None, hr_chunks = None, hr_broken = False\<rparr>"]
    by (simp only: http_reply.update_convs)
qed

subsection \<open>What arrives of a reply\<close>

definition solid :: "string \<Rightarrow> bool" where
  "solid w = list_all (\<lambda>c. \<not> is_space c) w"

text \<open>A word of a reply that the client takes for a token.\<close>

definition token_word :: "(string \<Rightarrow> stream_meta option) \<Rightarrow> string \<Rightarrow> bool" where
  "token_word parse w = (solid w \<and> w \<noteq> ''[DONE]'' \<and> w \<noteq> ''[ERROR]'' \<and> (\<not> prefix ''{'' w \<or> parse w = None))"

lemma solid_no_LF: "solid w \<Longrightarrow> LF \<notin> set w"
  by (auto simp: solid_def list_all_iff is_space_def)

lemma event_data_spaces: "list_all is_space b \<Longrightarrow> event_data (data_line b) = Some []"
proof -
  assume b: "list_all is_space b"
  have sp: "is_space (CHR '' '')" by code_simp
  have 1: "\<not> is_space (hd ''data:'')" "\<not> is_space (last ''data:'')" by code_simp+
  have "js_trim ([] @ ''data:'' @ (CHR '' '' # b)) = ''data:''"
    by (rule js_trim_core) (use b sp 1 in simp_all)
  then have "js_trim (''data: '' @ b) = ''data:''" by simp
  moreover have "js_trim [] = []" by code_simp
  ultimately show ?thesis by (simp add: event_data_def data_line_def)
qed

lemma event_data_line:
  assumes "w \<noteq> []" "\<not> is_space (hd w)" "\<not> is_space (last w)" "list_all is_space b"
  shows "event_data (data_line (w @ b)) = Some w"
proof -
  have sp: "list_all is_space '' ''" by code_simp
  have 1: "\<not> is_space (CHR ''d'')" by code_simp
  have "js_trim ([] @ (''data: '' @ w) @ b) = ''data: '' @ w"
    by (rule js_trim_core) (use assms 1 in simp_all)
  moreover have "js_trim ('' '' @ w @ []) = w"
    by (rule js_trim_core) (use assms sp in simp_all)
  ultimately show ?thesis by (simp add: event_data_def data_line_def)
qed

lemma event_data_word: "solid w \<Longrightarrow> list_all is_space b \<Longrightarrow> event_data (data_line (w @ b)) = Some w"
  by (cases "w = []") (simp_all add: event_data_spaces event_data_line solid_def list_all_iff)

lemma split_sse: "LF \<notin> set d \<Longrightarrow> split_blank (sse d @ rest) = data_line d # split_blank rest"
  using split_blank_line [of "data_line d" rest] by (simp add: sse_def data_line_def)

lemma split_words:
  assumes "list_all solid ws"
  shows "split_blank (concat (List.map sse (spaced ws)) @ rest) =
    List.map data_line (spaced ws) @ split_blank rest"
  using assms
  by (induction ws rule: spaced.induct) (auto simp: split_sse solid_no_LF)

lemma handle_words:
  assumes "list_all (token_word parse) ws"
  shows "handle_events parse (List.map data_line (spaced ws) @ es) (ts, m) = handle_events parse es (ts @ ws, m)"
  using assms
proof (induction ws arbitrary: ts rule: spaced.induct)
  case (2 w)
  then have "event_data (data_line w) = Some w"
    using event_data_word [of w "[]"] by (simp add: token_word_def)
  then show ?case using 2 by (auto simp: token_word_def)
next
  case (3 w v ws)
  have "list_all is_space '' ''" by code_simp
  then have "event_data (data_line (w @ '' '')) = Some w"
    using event_data_word [of w "'' ''"] 3 by (simp add: token_word_def)
  then show ?case using 3 by (auto simp: token_word_def)
qed simp

lemma no_done_words:
  assumes "list_all (token_word parse) ws"
  shows "list_all (\<lambda>e. \<not> is_done e) (List.map data_line (spaced ws))"
  using assms
proof (induction ws rule: spaced.induct)
  case (2 w)
  then show ?case using event_data_word [of w "[]"] by (simp add: token_word_def is_done_def)
next
  case (3 w v ws)
  have "list_all is_space '' ''" by code_simp
  then show ?case using event_data_word [of w "'' ''"] 3 by (simp add: token_word_def is_done_def)
qed simp

text \<open>The text \<open>json.dumps\<close> makes of the metadata: one line, an object, and the parser reads it back.\<close>

definition meta_text :: "(string \<Rightarrow> stream_meta option) \<Rightarrow> string \<Rightarrow> stream_meta \<Rightarrow> bool" where
  "meta_text parse t m = (prefix ''{'' t \<and> \<not> is_space (last t) \<and> LF \<notin> set t \<and> parse t = Some m)"

lemma meta_event:
  assumes "meta_text parse t m"
  shows "event_data (data_line t) = Some t" "t \<noteq> ''[DONE]''" "t \<noteq> ''[ERROR]''"
proof -
  obtain u where t: "t = CHR ''{'' # u" using assms by (cases t) (auto simp: meta_text_def)
  have "\<not> is_space (CHR ''{'')" by code_simp
  then show "event_data (data_line t) = Some t"
    using event_data_line [of t "[]"] assms t by (simp add: meta_text_def)
  show "t \<noteq> ''[DONE]''" "t \<noteq> ''[ERROR]''" using t by simp_all
qed

lemma event_data_done: "event_data (data_line ''[DONE]'') = Some ''[DONE]''"
  by code_simp

lemma event_stream_split:
  assumes "list_all (token_word parse) (js_split (CHR '' '') reply)" "meta_text parse t m"
  shows "split_blank (event_stream (Some (reply, t))) =
    List.map data_line (spaced (js_split (CHR '' '') reply)) @ [data_line t, data_line ''[DONE]'', []]"
proof -
  have s: "list_all solid (js_split (CHR '' '') reply)"
    using assms(1) by (auto simp: token_word_def list_all_iff)
  have l: "LF \<notin> set t" "LF \<notin> set ''[DONE]''" using assms(2) by (simp_all add: meta_text_def)
  show ?thesis
    using split_words [OF s, of "sse t @ sse ''[DONE]''"] split_sse [OF l(1), of "sse ''[DONE]''"] split_sse [OF l(2), of "[]"]
    by (simp add: event_stream_def)
qed

lemma streamed_reply:
  assumes "list_all (token_word parse) (js_split (CHR '' '') reply)" "meta_text parse t m"
    and "concat chunks = event_stream (Some (reply, t))" "resp_ok r" "hr_chunks r = Some chunks" "\<not> hr_broken r"
  shows "streamMessage parse (Some r) = (js_split (CHR '' '') reply, Inr m)"
proof -
  let ?ws = "js_split (CHR '' '') reply"
  let ?es = "List.map data_line (spaced ?ws) @ [data_line t, data_line ''[DONE]'']"
  have body: "butlast (split_blank (concat chunks)) = ?es"
    using event_stream_split [OF assms(1,2)] assms(3) by (simp add: butlast_append)
  have "list_all (\<lambda>e. \<not> is_done e) (butlast ?es)"
    using no_done_words [OF assms(1)] meta_event [OF assms(2)] by (simp add: butlast_append is_done_def)
  then have "read_stream parse False chunks [] ([], None) = closing False (handle_events parse ?es ([], None))"
    using read_stream_whole [of "[]" chunks parse False "([], None)"] body by simp
  also have "\<dots> = (None, ?ws, Some m)"
    using meta_event [OF assms(2)] assms(2) event_data_done
    by (simp add: handle_words [OF assms(1)] closing_def meta_text_def)
  finally show ?thesis using assms(4-6) by (simp add: streamMessage_def)
qed

lemma concat_js_split: "concat (js_split c s) = List.filter (\<lambda>x. x \<noteq> c) s"
  by (induction s) (auto split: list.splits)

end
