(* ===== verification/Widget.thy ===== *)
theory Widget
  imports Widget_Stream
begin

section \<open>Chat widget: session, component, mounting\<close>

text \<open>
  frontend/widget/src: session.ts (the session id kept in \<open>localStorage\<close>), Widget.tsx (the state
  of the component, its handlers and what it renders) and \<open>mount\<close> of index.ts. The storage may
  refuse every access (\<open>st_readable\<close>) or single writes (\<open>st_accepts\<close>, a full quota). The clock
  stands still inside a handler. A handler of the component is a function on \<open>widget\<close>; the answer
  of the service arrives in further steps, and the user may act in between.
\<close>

subsection \<open>The session id\<close>

record web_storage =
  st_session :: "string option"
  st_last_seen :: "string option"
  st_readable :: bool
  st_accepts :: "string \<Rightarrow> bool"

text \<open>\<open>crypto.randomUUID\<close> when the browser has it; \<open>bw_random k i\<close>: draw \<open>i\<close> of \<open>Math.random\<close> for id \<open>k\<close>.\<close>

record browser =
  bw_uuid :: "(nat \<Rightarrow> string) option"
  bw_random :: "nat \<Rightarrow> nat \<Rightarrow> rat"

definition SESSION_KEY :: string where "SESSION_KEY = ''hf_widget_session_id''"
definition LAST_SEEN_KEY :: string where "LAST_SEEN_KEY = ''hf_widget_last_seen''"
definition TTL_MS :: int where "TTL_MS = 30 * 60 * 1000"

definition hex_digit :: "nat \<Rightarrow> char" where
  "hex_digit n = (''0123456789abcdef'' ! n)"

fun fill_template :: "(nat \<Rightarrow> rat) \<Rightarrow> nat \<Rightarrow> string \<Rightarrow> string" where
  "fill_template rnd i [] = []"
| "fill_template rnd i (c # cs) =
     (if c = CHR ''x'' \<or> c = CHR ''y''
      then (let r = nat \<lfloor>rnd i * 16\<rfloor>
            in hex_digit (if c = CHR ''x'' then r else r mod 4 + 8) # fill_template rnd (Suc i) cs)
      else c # fill_template rnd i cs)"

definition generateId :: "browser \<Rightarrow> nat \<Rightarrow> string" where
  "generateId b k =
     (case bw_uuid b of
        Some uuid \<Rightarrow> uuid k
      | None \<Rightarrow> fill_template (bw_random b k) 0 ''xxxxxxxx-xxxx-4xxx-yxxx-xxxxxxxxxxxx'')"

text \<open>The writes answer whether they succeed.\<close>

definition set_session :: "string \<Rightarrow> web_storage \<Rightarrow> bool \<times> web_storage" where
  "set_session v st =
     (if st_readable st \<and> st_accepts st SESSION_KEY then (True, st\<lparr>st_session := Some v\<rparr>) else (False, st))"

definition set_last_seen :: "time \<Rightarrow> web_storage \<Rightarrow> bool \<times> web_storage" where
  "set_last_seen now st =
     (if st_readable st \<and> st_accepts st LAST_SEEN_KEY
      then (True, st\<lparr>st_last_seen := Some (show_int now)\<rparr>) else (False, st))"

text \<open>A new session; when a write fails the \<open>catch\<close> answers another id. The counter numbers the ids drawn.\<close>

definition new_session :: "browser \<Rightarrow> time \<Rightarrow> nat \<Rightarrow> web_storage \<Rightarrow> string \<times> web_storage \<times> nat" where
  "new_session b now k st =
     (case set_session (generateId b k) st of
        (False, st1) \<Rightarrow> (generateId b (Suc k), st1, Suc (Suc k))
      | (True, st1) \<Rightarrow>
          (case set_last_seen now st1 of
             (False, st2) \<Rightarrow> (generateId b (Suc k), st2, Suc (Suc k))
           | (True, st2) \<Rightarrow> (generateId b k, st2, Suc k)))"

definition session_expired :: "time \<Rightarrow> web_storage \<Rightarrow> bool" where
  "session_expired now st =
     (case js_parseInt (case st_last_seen st of Some v \<Rightarrow> v | None \<Rightarrow> ''0'') of
        None \<Rightarrow> False
      | Some lastSeen \<Rightarrow> now - lastSeen > TTL_MS)"

definition getOrCreateSessionId :: "browser \<Rightarrow> time \<Rightarrow> nat \<Rightarrow> web_storage \<Rightarrow> string \<times> web_storage \<times> nat" where
  "getOrCreateSessionId b now k st =
     (if \<not> st_readable st then (generateId b k, st, Suc k)
      else if session_expired now st \<or> \<not> truthy (st_session st) then new_session b now k st
      else case set_last_seen now st of
        (False, st1) \<Rightarrow> (generateId b k, st1, Suc k)
      | (True, st1) \<Rightarrow> (the (st_session st), st1, k))"

definition touchSession :: "time \<Rightarrow> web_storage \<Rightarrow> web_storage" where
  "touchSession now st = snd (set_last_seen now st)"

definition clearSession :: "web_storage \<Rightarrow> web_storage" where
  "clearSession st = (if st_readable st then st\<lparr>st_session := None, st_last_seen := None\<rparr> else st)"

subsection \<open>The component\<close>

datatype message_role = User_role | Assistant_role | System_role

text \<open>A flag the source leaves undefined is \<open>False\<close>, actions left undefined are the empty list.\<close>

record widget_message =
  wm_id :: string
  wm_role :: message_role
  wm_content :: string
  wm_timestamp :: time
  wm_streaming :: bool
  wm_escalated :: bool
  wm_ticket_id :: "string option"
  wm_actions :: "widget_action list"

record page_context =
  pc_page :: "string option"
  pc_product_id :: "string option"
  pc_metadata :: "(string \<times> string) list option"

record widget_config =
  wc_orgId :: string
  wc_botName :: "string option"
  wc_placeholder :: "string option"
  wc_primaryColor :: "string option"
  wc_context :: page_context
  wc_streaming :: "bool option"

record chat_request =
  cq_session_id :: string
  cq_org_id :: string
  cq_message :: string
  cq_page :: string
  cq_product_id :: "string option"
  cq_metadata :: "(string \<times> string) list"

text \<open>
  \<open>ws_pending\<close> is the call of \<open>send\<close> that awaits its answer: the id of its bubble, the text
  accumulated, the request sent.
\<close>

record widget =
  ws_open :: bool
  ws_messages :: "widget_message list"
  ws_input :: string
  ws_busy :: bool
  ws_sessionId :: string
  ws_counter :: nat
  ws_storage :: web_storage
  ws_pending :: "(string \<times> string \<times> chat_request) option"

definition newId :: "time \<Rightarrow> nat \<Rightarrow> string" where
  "newId now n = ''msg_'' @ show_int now @ ''_'' @ show_decimal (Suc n)"

definition plain_message :: "string \<Rightarrow> message_role \<Rightarrow> string \<Rightarrow> time \<Rightarrow> widget_message" where
  "plain_message i r c now =
     \<lparr>wm_id = i, wm_role = r, wm_content = c, wm_timestamp = now, wm_streaming = False,
      wm_escalated = False, wm_ticket_id = None, wm_actions = []\<rparr>"

definition botName :: "widget_config \<Rightarrow> string" where
  "botName cfg = (case wc_botName cfg of Some n \<Rightarrow> n | None \<Rightarrow> ''Support'')"

definition welcome_text :: "widget_config \<Rightarrow> string" where
  "welcome_text cfg = ''Hi there! I'' @ [CHR 0x27] @ ''m '' @ botName cfg @ ''. How can I help you today?''"

text \<open>The effect on \<open>open\<close> and \<open>messages.length\<close>.\<close>

definition greet :: "widget_config \<Rightarrow> time \<Rightarrow> widget \<Rightarrow> widget" where
  "greet cfg now w =
     (if ws_open w \<and> ws_messages w = []
      then w\<lparr>ws_messages := [plain_message (newId now (ws_counter w)) Assistant_role (welcome_text cfg) now],
             ws_counter := Suc (ws_counter w)\<rparr>
      else w)"

definition start_widget :: "browser \<Rightarrow> time \<Rightarrow> nat \<Rightarrow> nat \<Rightarrow> web_storage \<Rightarrow> widget" where
  "start_widget b now k n st =
     (case getOrCreateSessionId b now k st of
        (sid, st', _) \<Rightarrow>
          \<lparr>ws_open = False, ws_messages = [], ws_input = [], ws_busy = False, ws_sessionId = sid,
           ws_counter = n, ws_storage = st', ws_pending = None\<rparr>)"

definition chat_payload :: "widget_config \<Rightarrow> string \<Rightarrow> string \<Rightarrow> chat_request" where
  "chat_payload cfg sid text =
     \<lparr>cq_session_id = sid, cq_org_id = wc_orgId cfg, cq_message = text,
      cq_page = (case pc_page (wc_context cfg) of Some p \<Rightarrow> p | None \<Rightarrow> ''general''),
      cq_product_id = pc_product_id (wc_context cfg),
      cq_metadata = (case pc_metadata (wc_context cfg) of Some m \<Rightarrow> m | None \<Rightarrow> [])\<rparr>"

text \<open>\<open>send\<close> up to its first \<open>await\<close>.\<close>

definition begin_send :: "widget_config \<Rightarrow> time \<Rightarrow> widget \<Rightarrow> widget" where
  "begin_send cfg now w =
     (let text = js_trim (ws_input w) in
      if text = [] \<or> ws_busy w then w
      else
        let userId = newId now (ws_counter w); asstId = newId now (Suc (ws_counter w)) in
        w\<lparr>ws_storage := touchSession now (ws_storage w), ws_input := [], ws_busy := True,
          ws_messages := ws_messages w @
            [plain_message userId User_role text now,
             (plain_message asstId Assistant_role [] now)\<lparr>wm_streaming := True\<rparr>],
          ws_counter := Suc (Suc (ws_counter w)),
          ws_pending := Some (asstId, [], chat_payload cfg (ws_sessionId w) text)\<rparr>)"

definition set_message :: "string \<Rightarrow> (widget_message \<Rightarrow> widget_message) \<Rightarrow> widget_message list \<Rightarrow> widget_message list" where
  "set_message i f ms = List.map (\<lambda>m. if wm_id m = i then f m else m) ms"

text \<open>The callback \<open>onToken\<close> of the call.\<close>

definition on_token :: "string \<Rightarrow> widget \<Rightarrow> widget" where
  "on_token chunk w =
     (case ws_pending w of
        None \<Rightarrow> w
      | Some (i, acc, q) \<Rightarrow>
          w\<lparr>ws_pending := Some (i, acc @ chunk, q),
            ws_messages := set_message i (wm_content_update (\<lambda>_. acc @ chunk)) (ws_messages w)\<rparr>)"

definition escalate_session :: "bool \<Rightarrow> web_storage \<Rightarrow> web_storage" where
  "escalate_session escalated st = (if escalated then clearSession st else st)"

text \<open>The rest of \<open>send\<close>, the \<open>finally\<close> block included: the stream ends, a plain answer arrives, an error.\<close>

definition finish_stream :: "stream_meta \<Rightarrow> widget \<Rightarrow> widget" where
  "finish_stream m w =
     (case ws_pending w of
        None \<Rightarrow> w
      | Some (i, _, _) \<Rightarrow>
          w\<lparr>ws_messages := set_message i (\<lambda>b. b\<lparr>wm_streaming := False, wm_escalated := sm_escalated m,
                wm_ticket_id := sm_ticket_id m, wm_actions := sm_actions m\<rparr>) (ws_messages w),
            ws_storage := escalate_session (sm_escalated m) (ws_storage w),
            ws_busy := False, ws_pending := None\<rparr>)"

definition finish_reply :: "widget_response \<Rightarrow> widget \<Rightarrow> widget" where
  "finish_reply r w =
     (case ws_pending w of
        None \<Rightarrow> w
      | Some (i, _, _) \<Rightarrow>
          w\<lparr>ws_messages := set_message i (\<lambda>b. b\<lparr>wm_content := wr_reply r, wm_streaming := False,
                wm_escalated := wr_escalated r, wm_ticket_id := wr_ticket_id r, wm_actions := wr_actions r\<rparr>) (ws_messages w),
            ws_storage := escalate_session (wr_escalated r) (ws_storage w),
            ws_busy := False, ws_pending := None\<rparr>)"

definition error_text :: "widget_error \<Rightarrow> string" where
  "error_text e =
     (case e of
        WidgetApiError status _ \<Rightarrow>
          if status = 429 then ''Too many messages. Please wait a moment.''
          else ''Something went wrong. Please try again.''
      | HostFailure \<Rightarrow> ''Something went wrong. Please try again.'')"

definition fail_send :: "widget_error \<Rightarrow> widget \<Rightarrow> widget" where
  "fail_send e w =
     (case ws_pending w of
        None \<Rightarrow> w
      | Some (i, _, _) \<Rightarrow>
          w\<lparr>ws_messages := set_message i (\<lambda>b. b\<lparr>wm_content := error_text e, wm_streaming := False\<rparr>) (ws_messages w),
            ws_busy := False, ws_pending := None\<rparr>)"

definition is_streaming :: "widget_config \<Rightarrow> bool" where
  "is_streaming cfg = (case wc_streaming cfg of Some b \<Rightarrow> b | None \<Rightarrow> True)"

text \<open>The whole answer to the call, when nothing else happens in between.\<close>

definition answer_send ::
    "widget_config \<Rightarrow> (string \<Rightarrow> stream_meta option) \<Rightarrow> (http_reply \<Rightarrow> widget_response option) \<Rightarrow>
     http_reply option \<Rightarrow> widget \<Rightarrow> widget" where
  "answer_send cfg parse json fetched w =
     (if is_streaming cfg
      then (case streamMessage parse fetched of
              (ts, Inl e) \<Rightarrow> fail_send e (foldl (\<lambda>w t. on_token t w) w ts)
            | (ts, Inr m) \<Rightarrow> finish_stream m (foldl (\<lambda>w t. on_token t w) w ts))
      else (case sendMessage json fetched of
              Inl e \<Rightarrow> fail_send e w
            | Inr r \<Rightarrow> finish_reply r w))"

subsection \<open>Steps\<close>

text \<open>
  What the user does (the button, the cross, typing, Enter or the send button) and what the
  service answers. The window takes input only while it is open, its field only while no call is
  pending.
\<close>

datatype widget_event =
    Toggle | Close_click | Typed string | Send_click
  | Token string | Stream_end stream_meta | Reply widget_response | Send_error widget_error

definition widget_handle :: "widget_config \<Rightarrow> time \<Rightarrow> widget_event \<Rightarrow> widget \<Rightarrow> widget" where
  "widget_handle cfg now ev w =
     (case ev of
        Toggle \<Rightarrow> w\<lparr>ws_open := \<not> ws_open w\<rparr>
      | Close_click \<Rightarrow> w\<lparr>ws_open := False\<rparr>
      | Typed text \<Rightarrow> (if ws_open w \<and> \<not> ws_busy w then w\<lparr>ws_input := text\<rparr> else w)
      | Send_click \<Rightarrow> (if ws_open w then begin_send cfg now w else w)
      | Token t \<Rightarrow> (if is_streaming cfg then on_token t w else w)
      | Stream_end m \<Rightarrow> (if is_streaming cfg then finish_stream m w else w)
      | Reply r \<Rightarrow> (if is_streaming cfg then w else finish_reply r w)
      | Send_error e \<Rightarrow> fail_send e w)"

inductive widget_runs :: "widget_config \<Rightarrow> widget \<Rightarrow> widget \<Rightarrow> bool" for cfg w0 where
  runs_start: "widget_runs cfg w0 w0"
| runs_step: "widget_runs cfg w0 w \<Longrightarrow> widget_runs cfg w0 (greet cfg now (widget_handle cfg now ev w))"

subsection \<open>Rendering\<close>

record bubble =
  bb_key :: string
  bb_role :: message_role
  bb_typing :: bool
  bb_text :: string
  bb_chips :: "(string \<times> string option) list"
  bb_badge :: "string option"

record chat_window =
  cw_title :: string
  cw_bubbles :: "bubble list"
  cw_input :: string
  cw_placeholder :: string
  cw_input_disabled :: bool
  cw_send_disabled :: bool

record widget_view =
  wv_colour :: "string option"
  wv_fab_label :: string
  wv_expanded :: bool
  wv_window :: "chat_window option"

definition render_message :: "widget_message \<Rightarrow> bubble" where
  "render_message m =
     (let typing = (wm_streaming m \<and> wm_content m = []) in
      \<lparr>bb_key = wm_id m, bb_role = wm_role m, bb_typing = typing,
       bb_text = (if typing then [] else wm_content m),
       bb_chips = List.map (\<lambda>a. (wa_label a, if truthy (wa_url a) then wa_url a else None)) (wm_actions m),
       bb_badge = (if wm_escalated m \<and> truthy (wm_ticket_id m)
                   then Some (''Ticket #'' @ the (wm_ticket_id m) @ '' created'') else None)\<rparr>)"

definition render :: "widget_config \<Rightarrow> widget \<Rightarrow> widget_view" where
  "render cfg w =
     \<lparr>wv_colour = (if truthy (wc_primaryColor cfg) then wc_primaryColor cfg else None),
      wv_fab_label = (if ws_open w then ''Close chat'' else ''Open chat''),
      wv_expanded = ws_open w,
      wv_window =
        (if ws_open w
         then Some \<lparr>cw_title = botName cfg, cw_bubbles = List.map render_message (ws_messages w),
                    cw_input = ws_input w,
                    cw_placeholder = (case wc_placeholder cfg of Some p \<Rightarrow> p | None \<Rightarrow> ''Type a message'' @ [CHR 0xE2, CHR 0x80, CHR 0xA6]),
                    cw_input_disabled = ws_busy w,
                    cw_send_disabled = (ws_busy w \<or> js_trim (ws_input w) = [])\<rparr>
         else None)\<rparr>"

subsection \<open>Mounting\<close>

text \<open>The part of the document \<open>mount\<close> looks at: the ids in it, and the components rendered.\<close>

record dom_state =
  dom_ids :: "string list"
  dom_widgets :: "widget_config list"

definition injectStyles :: "dom_state \<Rightarrow> dom_state" where
  "injectStyles d =
     (if ''hf-widget-styles'' \<in> set (dom_ids d) then d else d\<lparr>dom_ids := dom_ids d @ [''hf-widget-styles'']\<rparr>)"

definition mount :: "widget_config \<Rightarrow> dom_state \<Rightarrow> dom_state" where
  "mount cfg d =
     (if ''hf-widget-container'' \<in> set (dom_ids d) then d
      else let d1 = injectStyles d
           in d1\<lparr>dom_ids := dom_ids d1 @ [''hf-widget-container''], dom_widgets := dom_widgets d1 @ [cfg]\<rparr>)"

end
