(* ===== verification/Widget_Correct.thy ===== *)
theory Widget_Correct
  imports Widget
begin

section \<open>Chat widget: properties\<close>

text \<open>
  The ids of messages and sessions, the invariant of the component's state over every run of user
  actions and answers, the text the visitor sees of a streamed reply, the life of a session id.
\<close>

subsection \<open>Digits and ids\<close>

lemma digit_not: "digit_value c \<noteq> None \<Longrightarrow> \<not> is_space c \<and> c \<noteq> CHR ''-'' \<and> c \<noteq> CHR ''+'' \<and> c \<noteq> CHR ''_''"
  by (auto simp: digit_value_def is_space_def Let_def split: if_splits)

lemma parse_show_int:
  assumes "0 \<le> n"
  shows "js_parseInt (show_int n) = Some n"
proof -
  let ?s = "show_decimal (nat n)"
  have d: "\<And>c. c \<in> set ?s \<Longrightarrow> digit_value c \<noteq> None" by (rule show_decimal_digits)
  obtain c cs where s: "?s = c # cs" using show_decimal_ne by (cases ?s) auto
  have c: "\<not> is_space c \<and> c \<noteq> CHR ''-'' \<and> c \<noteq> CHR ''+''"
    using d [of c] s digit_not by auto
  have "takeWhile (\<lambda>c. digit_value c \<noteq> None) ?s = ?s" using d by (simp add: takeWhile_eq_all_conv)
  then show ?thesis
    using assms c s parse_show_decimal [of "nat n"] by (simp add: js_parseInt_def show_int_def)
qed

definition after_mark :: "string \<Rightarrow> string" where
  "after_mark s = rev (takeWhile (\<lambda>c. c \<noteq> CHR ''_'') (rev s))"

lemma after_mark_newId: "after_mark (newId now n) = show_decimal (Suc n)"
proof -
  have "CHR ''_'' \<notin> set (show_decimal (Suc n))"
    using show_decimal_digits digit_not by blast
  then have "takeWhile (\<lambda>c. c \<noteq> CHR ''_'') (rev (show_decimal (Suc n)) @ CHR ''_'' # x) = rev (show_decimal (Suc n))" for x
    by (subst takeWhile_append2) (auto simp: in_set_conv_decomp)
  then show ?thesis by (simp add: after_mark_def newId_def)
qed

lemma newId_inj: "newId t k = newId t' k' \<Longrightarrow> k = k'"
proof -
  assume "newId t k = newId t' k'"
  then have "show_decimal (Suc k) = show_decimal (Suc k')"
    using after_mark_newId by metis
  then show ?thesis using parse_show_decimal by (metis nat_int option.inject Suc_inject)
qed

subsection \<open>The invariant\<close>

definition own_id :: "nat \<Rightarrow> string \<Rightarrow> bool" where
  "own_id n i = (\<exists>t k. k < n \<and> i = newId t k)"

lemma own_id_mono: "own_id n i \<Longrightarrow> n \<le> n' \<Longrightarrow> own_id n' i"
proof -
  assume "own_id n i" "n \<le> n'"
  then obtain t k where "k < n" "i = newId t k" unfolding own_id_def by blast
  moreover from this have "k < n'" using \<open>n \<le> n'\<close> by simp
  ultimately show ?thesis unfolding own_id_def by blast
qed

lemma own_id_new: "own_id n i \<Longrightarrow> n \<le> k \<Longrightarrow> i \<noteq> newId t k"
  unfolding own_id_def using newId_inj by (metis not_less)

lemma own_id_newI: "k < n \<Longrightarrow> own_id n (newId t k)"
  unfolding own_id_def by blast

text \<open>Questions and answers alternate, after the welcome.\<close>

fun turns :: "message_role list \<Rightarrow> bool" where
  "turns [] = True"
| "turns [r] = False"
| "turns (q # a # rs) = (q = User_role \<and> a = Assistant_role \<and> turns rs)"

definition conversation :: "message_role list \<Rightarrow> bool" where
  "conversation rs = (case rs of [] \<Rightarrow> True | r # rest \<Rightarrow> r = Assistant_role \<and> turns rest)"

lemma turns_append: "turns rs \<Longrightarrow> turns (rs @ [User_role, Assistant_role])"
  by (induction rs rule: turns.induct) auto

lemma conversation_append: "rs \<noteq> [] \<Longrightarrow> conversation rs \<Longrightarrow> conversation (rs @ [User_role, Assistant_role])"
  by (cases rs) (auto simp: conversation_def turns_append)

text \<open>While a call is pending the last message is its bubble.\<close>

definition pending_ok :: "widget \<Rightarrow> bool" where
  "pending_ok w =
     (case ws_pending w of
        None \<Rightarrow> list_all (\<lambda>m. \<not> wm_streaming m) (ws_messages w)
      | Some (i, acc, q) \<Rightarrow>
          (\<exists>ms l. ws_messages w = ms @ [l] \<and> wm_id l = i \<and> wm_streaming l \<and> wm_content l = acc \<and>
             list_all (\<lambda>m. \<not> wm_streaming m) ms \<and> cq_session_id q = ws_sessionId w))"

definition widget_ok :: "widget \<Rightarrow> bool" where
  "widget_ok w =
     ((\<forall>m\<in>set (ws_messages w). own_id (ws_counter w) (wm_id m)) \<and>
      distinct (List.map wm_id (ws_messages w)) \<and>
      conversation (List.map wm_role (ws_messages w)) \<and>
      ws_busy w = (ws_pending w \<noteq> None) \<and> pending_ok w)"

lemma set_message_last:
  "distinct (List.map wm_id (ms @ [l])) \<Longrightarrow> set_message (wm_id l) f (ms @ [l]) = ms @ [f l]"
proof -
  assume d: "distinct (List.map wm_id (ms @ [l]))"
  have "wm_id x \<noteq> wm_id l" if "x \<in> set ms" for x
  proof
    assume "wm_id x = wm_id l"
    then have "wm_id l \<in> wm_id ` set ms" using that by (metis imageI)
    then show False using d by simp
  qed
  then have "List.map (\<lambda>m. if wm_id m = wm_id l then f m else m) ms = ms"
    by (intro map_idI) simp
  then show ?thesis by (simp add: set_message_def)
qed

text \<open>An update of the bubble that keeps its id and role.\<close>

lemma bubble_update:
  assumes "widget_ok w" "ws_pending w = Some (i, acc, q)"
    and "\<And>m. wm_id (f m) = wm_id m" "\<And>m. wm_role (f m) = wm_role m"
  obtains ms l where "ws_messages w = ms @ [l]" "wm_id l = i" "wm_streaming l" "wm_content l = acc"
    "set_message i f (ws_messages w) = ms @ [f l]" "list_all (\<lambda>m. \<not> wm_streaming m) ms" "cq_session_id q = ws_sessionId w"
    "\<forall>m\<in>set (ms @ [f l]). own_id (ws_counter w) (wm_id m)" "distinct (List.map wm_id (ms @ [f l]))"
    "conversation (List.map wm_role (ms @ [f l]))"
proof -
  obtain ms l where l: "ws_messages w = ms @ [l]" "wm_id l = i" "wm_streaming l" "wm_content l = acc"
      "list_all (\<lambda>m. \<not> wm_streaming m) ms" "cq_session_id q = ws_sessionId w"
    using assms(1,2) by (auto simp: widget_ok_def pending_ok_def)
  have "set_message i f (ws_messages w) = ms @ [f l]"
    using set_message_last [of ms l f] assms(1) l by (simp add: widget_ok_def)
  with l show thesis
    using assms(1) that [of ms l] by (simp add: widget_ok_def assms(3,4))
qed

lemma on_token_ok:
  assumes "widget_ok w"
  shows "widget_ok (on_token t w)"
proof (cases "ws_pending w")
  case (Some p)
  obtain i acc q where p: "ws_pending w = Some (i, acc, q)" using Some by (cases p) auto
  show ?thesis
    by (rule bubble_update [OF assms p, of "wm_content_update (\<lambda>_. acc @ t)"])
      (use assms p in \<open>auto simp: on_token_def widget_ok_def pending_ok_def\<close>)
qed (use assms in \<open>simp add: on_token_def\<close>)

lemma finish_ok:
  assumes "widget_ok w" "ws_pending w = Some (i, acc, q)"
    and "\<And>m. wm_id (f m) = wm_id m" "\<And>m. wm_role (f m) = wm_role m" "\<And>m. \<not> wm_streaming (f m)"
  shows "widget_ok (w\<lparr>ws_messages := set_message i f (ws_messages w), ws_storage := st, ws_busy := False, ws_pending := None\<rparr>)"
  by (rule bubble_update [OF assms(1-4)]) (use assms in \<open>auto simp: widget_ok_def pending_ok_def\<close>)

lemma finish_stream_ok: "widget_ok w \<Longrightarrow> widget_ok (finish_stream m w)"
  by (auto simp: finish_stream_def split: option.splits intro!: finish_ok)

lemma finish_reply_ok: "widget_ok w \<Longrightarrow> widget_ok (finish_reply r w)"
  by (auto simp: finish_reply_def split: option.splits intro!: finish_ok)

lemma fail_send_ok: "widget_ok w \<Longrightarrow> widget_ok (fail_send e w)"
proof -
  assume w: "widget_ok w"
  have "w\<lparr>ws_messages := x, ws_busy := False, ws_pending := None\<rparr> =
    w\<lparr>ws_messages := x, ws_storage := ws_storage w, ws_busy := False, ws_pending := None\<rparr>" for x
    by simp
  then show ?thesis
    using w finish_ok [of w _ _ _ "\<lambda>b. b\<lparr>wm_content := error_text e, wm_streaming := False\<rparr>" "ws_storage w"]
    by (auto simp: fail_send_def split: option.splits)
qed

lemma begin_send_ok:
  assumes "widget_ok w" "ws_messages w \<noteq> []"
  shows "widget_ok (begin_send cfg now w)"
proof (cases "js_trim (ws_input w) = [] \<or> ws_busy w")
  case False
  have new: "newId now k \<notin> wm_id ` set (ws_messages w)" if "ws_counter w \<le> k" for k
    using assms(1) own_id_new [OF _ that] unfolding widget_ok_def by (metis imageE)
  have "newId now (ws_counter w) \<notin> wm_id ` set (ws_messages w)" "newId now (Suc (ws_counter w)) \<notin> wm_id ` set (ws_messages w)"
    using new by simp_all
  moreover have "newId now (ws_counter w) \<noteq> newId now (Suc (ws_counter w))" using newId_inj by fastforce
  moreover have "\<forall>m\<in>set (ws_messages w). own_id (Suc (Suc (ws_counter w))) (wm_id m)"
    using assms(1) own_id_mono by (force simp: widget_ok_def)
  moreover have "ws_pending w = None" "list_all (\<lambda>m. \<not> wm_streaming m) (ws_messages w)"
    using False assms(1) by (auto simp: widget_ok_def pending_ok_def split: option.splits)
  ultimately show ?thesis
    using False assms conversation_append [of "List.map wm_role (ws_messages w)"]
    by (auto simp: begin_send_def Let_def widget_ok_def pending_ok_def plain_message_def chat_payload_def own_id_newI)
qed (auto simp: begin_send_def Let_def assms)

lemma greet_ok: "widget_ok w \<Longrightarrow> widget_ok (greet cfg now w)"
  by (auto simp: greet_def widget_ok_def pending_ok_def plain_message_def conversation_def own_id_newI split: option.splits)

lemma greet_open: "ws_open (greet cfg now w) \<Longrightarrow> ws_messages (greet cfg now w) \<noteq> []"
  by (auto simp: greet_def)

lemma widget_handle_ok:
  assumes "widget_ok w" "ws_open w \<Longrightarrow> ws_messages w \<noteq> []"
  shows "widget_ok (widget_handle cfg now ev w)"
proof (cases ev)
  case Send_click
  then show ?thesis using assms begin_send_ok by (auto simp: widget_handle_def)
qed (use assms on_token_ok finish_stream_ok finish_reply_ok fail_send_ok in
      \<open>auto simp: widget_handle_def widget_ok_def pending_ok_def split: option.splits\<close>)

lemma start_widget_ok: "widget_ok (start_widget b now k n st)"
  by (auto simp: start_widget_def widget_ok_def pending_ok_def conversation_def split: prod.splits)

lemma handle_sessionId [simp]: "ws_sessionId (widget_handle cfg now ev w) = ws_sessionId w"
  by (auto simp: widget_handle_def begin_send_def on_token_def finish_stream_def finish_reply_def fail_send_def Let_def
      split: widget_event.splits option.splits)

lemma greet_sessionId [simp]: "ws_sessionId (greet cfg now w) = ws_sessionId w"
  by (simp add: greet_def)

lemma widget_runs_ok:
  assumes "widget_runs cfg (start_widget b t0 k n st) w"
  shows "widget_ok w \<and> (ws_open w \<longrightarrow> ws_messages w \<noteq> []) \<and> ws_sessionId w = fst (getOrCreateSessionId b t0 k st)"
  using assms
proof (induction)
  case runs_start
  show ?case using start_widget_ok by (auto simp: start_widget_def split: prod.splits)
next
  case (runs_step w now ev)
  then show ?case using greet_ok widget_handle_ok greet_open by auto
qed

lemma count_streaming:
  "widget_ok w \<Longrightarrow> length (List.filter wm_streaming (ws_messages w)) = (if ws_busy w then 1 else 0)"
  by (auto simp: widget_ok_def pending_ok_def list_all_iff filter_empty_conv split: option.splits)

subsection \<open>A visit\<close>

definition visit_cfg :: widget_config where
  "visit_cfg = \<lparr>wc_orgId = ''org1'', wc_botName = None, wc_placeholder = None, wc_primaryColor = None,
     wc_context = \<lparr>pc_page = None, pc_product_id = None, pc_metadata = None\<rparr>, wc_streaming = None\<rparr>"

definition visit_browser :: browser where
  "visit_browser = \<lparr>bw_uuid = Some (\<lambda>k. ''uuid'' @ show_decimal k), bw_random = (\<lambda>_ _. 0)\<rparr>"

definition visit_storage :: web_storage where
  "visit_storage = \<lparr>st_session = None, st_last_seen = None, st_readable = True, st_accepts = (\<lambda>_. True)\<rparr>"

abbreviation visit_step :: "time \<Rightarrow> widget_event \<Rightarrow> widget \<Rightarrow> widget" where
  "visit_step now ev w \<equiv> greet visit_cfg now (widget_handle visit_cfg now ev w)"

definition visit_typed :: widget where
  "visit_typed = visit_step 20 (Typed ''Hi '') (visit_step 10 Toggle (start_widget visit_browser 1 0 0 visit_storage))"

lemma visit_runs: "widget_runs visit_cfg (start_widget visit_browser 1 0 0 visit_storage) visit_typed"
  unfolding visit_typed_def by (intro widget_runs.intros)

text \<open>
  C30. In every run of the widget the ids of the messages are distinct, a welcome is followed by
  pairs of a question and an answer, the input is blocked exactly while one call is pending, and
  then exactly one bubble is streaming; the page keeps the session id it started with.
\<close>

theorem widget_invariant:
  assumes "widget_runs cfg (start_widget b t0 k n st) w"
  shows "distinct (List.map wm_id (ws_messages w)) \<and>
    conversation (List.map wm_role (ws_messages w)) \<and>
    ws_busy w = (ws_pending w \<noteq> None) \<and>
    length (List.filter wm_streaming (ws_messages w)) = (if ws_busy w then 1 else 0) \<and>
    ws_sessionId w = fst (getOrCreateSessionId b t0 k st)"
  using widget_runs_ok [OF assms] count_streaming by (auto simp: widget_ok_def)

theorem widget_invariant_witness:
  "let w = visit_step 40 (Token ''Hel'') (visit_step 30 Send_click visit_typed) in
   ws_busy w \<and> distinct (List.map wm_id (ws_messages w)) \<and> length (ws_messages w) = 3 \<and>
   length (List.filter wm_streaming (ws_messages w)) = 1 \<and> ws_sessionId w = ''uuid0''"
proof -
  let ?w = "visit_step 40 (Token ''Hel'') (visit_step 30 Send_click visit_typed)"
  have r: "widget_runs visit_cfg (start_widget visit_browser 1 0 0 visit_storage) ?w"
    by (intro visit_runs widget_runs.intros)
  have b: "ws_busy ?w" and l: "length (ws_messages ?w) = 3" by code_simp+
  have sid: "fst (getOrCreateSessionId visit_browser 1 0 visit_storage) = ''uuid0''" by code_simp
  show ?thesis
    using widget_invariant [OF r] b l unfolding Let_def sid by presburger
qed

subsection \<open>The text the visitor sees\<close>

lemma on_tokens:
  assumes "widget_ok w" "ws_pending w = Some (i, acc, q)" "ws_messages w = ms @ [l]"
  shows "foldl (\<lambda>w t. on_token t w) w ts =
    w\<lparr>ws_messages := ms @ [l\<lparr>wm_content := acc @ concat ts\<rparr>], ws_pending := Some (i, acc @ concat ts, q)\<rparr>"
  using assms
proof (induction ts arbitrary: w acc l)
  case Nil
  then show ?case by (auto simp: widget_ok_def pending_ok_def)
next
  case (Cons t ts)
  obtain ms' l' where *: "ws_messages w = ms' @ [l']" "set_message i (wm_content_update (\<lambda>_. acc @ t)) (ws_messages w) = ms' @ [l'\<lparr>wm_content := acc @ t\<rparr>]"
    by (rule bubble_update [OF Cons.prems(1,2), of "wm_content_update (\<lambda>_. acc @ t)"]) auto
  then have m: "set_message i (wm_content_update (\<lambda>_. acc @ t)) (ws_messages w) = ms @ [l\<lparr>wm_content := acc @ t\<rparr>]"
    using Cons.prems(3) by simp
  have w': "on_token t w = w\<lparr>ws_pending := Some (i, acc @ t, q), ws_messages := ms @ [l\<lparr>wm_content := acc @ t\<rparr>]\<rparr>"
    using Cons.prems(2) m by (simp add: on_token_def)
  show ?case
    using Cons.IH [OF on_token_ok [OF Cons.prems(1)], of t "acc @ t" "l\<lparr>wm_content := acc @ t\<rparr>"] w' by simp
qed

lemma begin_send_run:
  assumes "\<not> ws_busy w" "js_trim (ws_input w) \<noteq> []"
  shows "ws_pending (begin_send cfg now w) =
      Some (newId now (Suc (ws_counter w)), [], chat_payload cfg (ws_sessionId w) (js_trim (ws_input w)))"
    "ws_messages (begin_send cfg now w) =
      (ws_messages w @ [plain_message (newId now (ws_counter w)) User_role (js_trim (ws_input w)) now]) @
      [(plain_message (newId now (Suc (ws_counter w))) Assistant_role [] now)\<lparr>wm_streaming := True\<rparr>]"
  using assms by (simp_all add: begin_send_def Let_def)

text \<open>A bubble at the end of the list, updated at the end of the call.\<close>

lemma finish_stream_last:
  assumes "widget_ok w" "ws_pending w = Some (i, acc, q)" "ws_messages w = ms @ [l]"
  shows "ws_messages (finish_stream m w) = ms @ [l\<lparr>wm_streaming := False, wm_escalated := sm_escalated m,
      wm_ticket_id := sm_ticket_id m, wm_actions := sm_actions m\<rparr>]"
  by (rule bubble_update [OF assms(1,2), of "\<lambda>b. b\<lparr>wm_streaming := False, wm_escalated := sm_escalated m,
      wm_ticket_id := sm_ticket_id m, wm_actions := sm_actions m\<rparr>"]) (use assms in \<open>auto simp: finish_stream_def\<close>)

lemma fail_send_last:
  assumes "widget_ok w" "ws_pending w = Some (i, acc, q)" "ws_messages w = ms @ [l]"
  shows "ws_messages (fail_send e w) = ms @ [l\<lparr>wm_content := error_text e, wm_streaming := False\<rparr>]"
  by (rule bubble_update [OF assms(1,2), of "\<lambda>b. b\<lparr>wm_content := error_text e, wm_streaming := False\<rparr>"])
    (use assms in \<open>auto simp: fail_send_def\<close>)

lemma tokens_ok: "widget_ok w \<Longrightarrow> widget_ok (foldl (\<lambda>w t. on_token t w) w ts)"
  by (induction ts arbitrary: w) (auto intro: on_token_ok)

lemma answer_not_busy: "widget_ok w \<Longrightarrow> \<not> ws_busy (answer_send cfg parse json fetched w)"
proof -
  have *: "\<not> ws_busy (finish_stream m w)" "\<not> ws_busy (finish_reply r w)" "\<not> ws_busy (fail_send e w)"
    if "widget_ok w" for m r e w
    using that by (auto simp: finish_stream_def finish_reply_def fail_send_def widget_ok_def split: option.splits)
  assume "widget_ok w"
  then show ?thesis using * tokens_ok by (auto simp: answer_send_def split: prod.splits sum.splits)
qed

text \<open>
  C36. A reply the service streams word by word is shown without its spaces: the client trims the
  space each event carries, and the tokens are appended to one another. It is so in every run of
  the widget, however the network cuts the stream, for a reply of words the client takes for text.
\<close>

theorem streamed_reply_loses_spaces:
  assumes "widget_runs cfg (start_widget b t0 k n st) w"
    and "ws_open w" "\<not> ws_busy w" "js_trim (ws_input w) \<noteq> []" "is_streaming cfg"
    and "list_all (token_word parse) (js_split (CHR '' '') reply)" "meta_text parse t m"
    and "concat chunks = event_stream (Some (reply, t))" "resp_ok r" "hr_chunks r = Some chunks" "\<not> hr_broken r"
  shows "let w' = answer_send cfg parse json (Some r) (begin_send cfg now w) in
    ws_messages w' = ws_messages w @
      [plain_message (newId now (ws_counter w)) User_role (js_trim (ws_input w)) now,
       (plain_message (newId now (Suc (ws_counter w))) Assistant_role (List.filter (\<lambda>c. c \<noteq> CHR '' '') reply) now)
         \<lparr>wm_escalated := sm_escalated m, wm_ticket_id := sm_ticket_id m, wm_actions := sm_actions m\<rparr>] \<and>
    \<not> ws_busy w'"
proof -
  let ?w1 = "begin_send cfg now w"
  let ?w2 = "foldl (\<lambda>w t. on_token t w) ?w1 (js_split (CHR '' '') reply)"
  have ok: "widget_ok ?w1"
    using widget_runs_ok [OF assms(1)] assms(2) by (intro begin_send_ok) auto
  note run = begin_send_run [OF assms(3,4), of cfg now]
  note w2 = on_tokens [OF ok run, of "js_split (CHR '' '') reply", unfolded concat_js_split]
  have p2: "ws_pending ?w2 = Some (newId now (Suc (ws_counter w)), [] @ List.filter (\<lambda>c. c \<noteq> CHR '' '') reply,
      chat_payload cfg (ws_sessionId w) (js_trim (ws_input w)))"
    and m2: "ws_messages ?w2 = (ws_messages w @ [plain_message (newId now (ws_counter w)) User_role (js_trim (ws_input w)) now]) @
      [(plain_message (newId now (Suc (ws_counter w))) Assistant_role [] now)
         \<lparr>wm_streaming := True, wm_content := [] @ List.filter (\<lambda>c. c \<noteq> CHR '' '') reply\<rparr>]"
    using w2 by simp_all
  have a: "answer_send cfg parse json (Some r) ?w1 = finish_stream m ?w2"
    using streamed_reply [OF assms(6-11)] assms(5) by (simp add: answer_send_def)
  have "\<not> ws_busy (answer_send cfg parse json (Some r) ?w1)" by (rule answer_not_busy [OF ok])
  then show ?thesis
    unfolding a using finish_stream_last [OF tokens_ok [OF ok] p2 m2, of m] by (simp add: plain_message_def Let_def)
qed

theorem streamed_reply_loses_spaces_witness:
  "let parse = (\<lambda>d. if d = ''{}'' then Some default_meta else None);
       r = \<lparr>hr_status = 200, hr_statusText = ''OK'', hr_text = None,
            hr_chunks = Some [event_stream (Some (''Reset it in Settings'', ''{}''))], hr_broken = False\<rparr>;
       w' = answer_send visit_cfg parse (\<lambda>_. None) (Some r) (begin_send visit_cfg 30 visit_typed)
   in List.map wm_content (drop 1 (ws_messages w')) = [''Hi'', ''ResetitinSettings'']"
proof -
  let ?parse = "\<lambda>d. if d = ''{}'' then Some default_meta else None"
  let ?chunks = "[event_stream (Some (''Reset it in Settings'', ''{}''))]"
  let ?r = "\<lparr>hr_status = 200, hr_statusText = ''OK'', hr_text = None, hr_chunks = Some ?chunks, hr_broken = False\<rparr>"
  have 1: "ws_open visit_typed" "\<not> ws_busy visit_typed" "js_trim (ws_input visit_typed) \<noteq> []" "is_streaming visit_cfg"
    by code_simp+
  have 2: "list_all (token_word ?parse) (js_split (CHR '' '') ''Reset it in Settings'')" by code_simp
  have 3: "meta_text ?parse ''{}'' default_meta" by code_simp
  have 4: "concat ?chunks = event_stream (Some (''Reset it in Settings'', ''{}''))" by simp
  have 5: "resp_ok ?r" "hr_chunks ?r = Some ?chunks" "\<not> hr_broken ?r" by (simp_all add: resp_ok_def)
  have 6: "length (ws_messages visit_typed) = 1" by code_simp
  have 7: "js_trim (ws_input visit_typed) = ''Hi''"
    "List.filter (\<lambda>c. c \<noteq> CHR '' '') ''Reset it in Settings'' = ''ResetitinSettings''" by code_simp+
  note c = streamed_reply_loses_spaces [OF visit_runs 1 2 3 4 5, of "\<lambda>_. None" 30, unfolded Let_def 7]
  have d: "drop 1 (ws_messages visit_typed @ xs) = xs" for xs using 6 by simp
  show ?thesis
    unfolding Let_def conjunct1 [OF c] d by (simp add: plain_message_def)
qed

text \<open>Whatever the call meets, the visitor can write again, and an error replaces the text.\<close>

lemma failed_call_shows_error:
  assumes "widget_ok w" "ws_open w" "ws_messages w \<noteq> []" "\<not> ws_busy w" "js_trim (ws_input w) \<noteq> []" "is_streaming cfg"
    and "snd (streamMessage parse fetched) = Inl e"
  shows "ws_messages (answer_send cfg parse json fetched (begin_send cfg now w)) = ws_messages w @
      [plain_message (newId now (ws_counter w)) User_role (js_trim (ws_input w)) now,
       plain_message (newId now (Suc (ws_counter w))) Assistant_role (error_text e) now]"
proof -
  let ?w1 = "begin_send cfg now w"
  let ?ts = "fst (streamMessage parse fetched)"
  have ok: "widget_ok ?w1" using assms by (intro begin_send_ok) auto
  note run = begin_send_run [OF assms(4,5), of cfg now]
  note w2 = on_tokens [OF ok run, of ?ts]
  let ?w2 = "foldl (\<lambda>w t. on_token t w) ?w1 ?ts"
  have p2: "ws_pending ?w2 = Some (newId now (Suc (ws_counter w)), [] @ concat ?ts, chat_payload cfg (ws_sessionId w) (js_trim (ws_input w)))"
    and m2: "ws_messages ?w2 = (ws_messages w @ [plain_message (newId now (ws_counter w)) User_role (js_trim (ws_input w)) now]) @
      [(plain_message (newId now (Suc (ws_counter w))) Assistant_role [] now)\<lparr>wm_streaming := True, wm_content := [] @ concat ?ts\<rparr>]"
    using w2 by simp_all
  have a: "answer_send cfg parse json fetched ?w1 = fail_send e ?w2"
    using assms(6,7) by (cases "streamMessage parse fetched") (simp add: answer_send_def)
  show ?thesis
    unfolding a fail_send_last [OF tokens_ok [OF ok] p2 m2] by (simp add: plain_message_def)
qed

subsection \<open>The life of a session id\<close>

lemma touch_keeps_session: "st_session (touchSession now st) = st_session st"
  by (simp add: touchSession_def set_last_seen_def)

lemma touched_not_expired:
  assumes "st_readable st" "st_accepts st LAST_SEEN_KEY" "0 \<le> now" "now' \<le> now + TTL_MS"
  shows "\<not> session_expired now' (touchSession now st)"
  using assms parse_show_int by (simp add: touchSession_def set_last_seen_def session_expired_def)

text \<open>A stored session is revived by a message, however long the page was idle before.\<close>

lemma idle_session_revived:
  assumes "st_readable st" "st_accepts st LAST_SEEN_KEY" "st_session st = Some sid" "sid \<noteq> []"
    and "0 \<le> now" "now' \<le> now + TTL_MS"
  shows "fst (getOrCreateSessionId b now' k (touchSession now st)) = sid"
proof -
  have "st_readable (touchSession now st)" "st_accepts (touchSession now st) LAST_SEEN_KEY"
    using assms(1,2) by (simp_all add: touchSession_def set_last_seen_def)
  then show ?thesis
    using touched_not_expired [OF assms(1,2,5,6)] assms(3,4)
    by (simp add: getOrCreateSessionId_def touch_keeps_session set_last_seen_def)
qed

text \<open>A time stamp that is no number never expires.\<close>

lemma corrupt_never_expires: "st_last_seen st = Some v \<Longrightarrow> js_parseInt v = None \<Longrightarrow> \<not> session_expired now st"
  by (simp add: session_expired_def)

lemma cleared_session_expired:
  assumes "st_readable st" "TTL_MS < now"
  shows "session_expired now (clearSession st)"
proof -
  have "js_parseInt ''0'' = Some 0" by code_simp
  then show ?thesis using assms by (simp add: clearSession_def session_expired_def)
qed

text \<open>The ids drawn without \<open>crypto.randomUUID\<close> have the form of a version 4 UUID.\<close>

lemma hex_digit_variant: "hex_digit (r mod 4 + 8) \<in> set ''89ab''"
proof -
  have "r mod 4 = 0 \<or> r mod 4 = 1 \<or> r mod 4 = 2 \<or> r mod 4 = 3" by arith
  moreover have "hex_digit (0 + 8) \<in> set ''89ab''" "hex_digit (1 + 8) \<in> set ''89ab''"
    "hex_digit (2 + 8) \<in> set ''89ab''" "hex_digit (3 + 8) \<in> set ''89ab''"
    by code_simp+
  ultimately show ?thesis by (elim disjE) (simp_all only:)
qed

lemma fill_template_length [simp]: "length (fill_template rnd i s) = length s"
  by (induction rnd i s rule: fill_template.induct) (auto simp: Let_def)

lemma fill_template_nth:
  "i < length s \<Longrightarrow> s ! i \<noteq> CHR ''x'' \<Longrightarrow>
   (if s ! i = CHR ''y'' then \<exists>r. fill_template rnd j s ! i = hex_digit (r mod 4 + 8) else fill_template rnd j s ! i = s ! i)"
proof (induction rnd j s arbitrary: i rule: fill_template.induct)
  case (2 rnd j c cs)
  then show ?case by (cases i) (auto simp: Let_def split: if_splits)
qed simp

lemma fallback_id_form:
  assumes "bw_uuid b = None"
  shows "length (generateId b k) = 36 \<and> generateId b k ! 14 = CHR ''4'' \<and> generateId b k ! 19 \<in> set ''89ab''"
proof -
  let ?t = "''xxxxxxxx-xxxx-4xxx-yxxx-xxxxxxxxxxxx''"
  have g: "generateId b k = fill_template (bw_random b k) 0 ?t" by (simp add: generateId_def assms)
  have t: "length ?t = 36" "?t ! 14 = CHR ''4''" "?t ! 19 = CHR ''y''" by code_simp+
  have "length (generateId b k) = 36" unfolding g fill_template_length by (rule t(1))
  moreover have "generateId b k ! 14 = CHR ''4''"
    using fill_template_nth [of 14 ?t "bw_random b k" 0, unfolded t] unfolding g by simp
  moreover have "\<exists>r. generateId b k ! 19 = hex_digit (r mod 4 + 8)"
    using fill_template_nth [of 19 ?t "bw_random b k" 0, unfolded t] unfolding g by simp
  ultimately show ?thesis using hex_digit_variant by metis
qed

subsection \<open>Mounting\<close>

lemma mount_idempotent: "mount cfg' (mount cfg d) = mount cfg d"
  by (simp add: mount_def injectStyles_def Let_def)

lemma mount_once:
  assumes "''hf-widget-container'' \<notin> set (dom_ids d)"
  shows "dom_widgets (mount cfg d) = dom_widgets d @ [cfg]"
  using assms by (simp add: mount_def injectStyles_def Let_def)

end
