(* ===== verification/Workers.thy ===== *)
theory Workers
  imports Complex_Main Redis_Client
begin

section \<open>Resources made on demand: queues, workers, cron task, browser\<close>

text \<open>
  The accessors of the BullMQ queues (ai.automation.queue.js, notification.queue.js,
  chatbot.bridge.queue.js, scraper.queue.js), the starting and stopping of the four workers
  (ai.automation.worker.js, notification.worker.js, chatbot.bridge.worker.js, scraper.worker.js), the
  task of scraper.cleanup.cron.js and the browser of scraper.puppeteer.js. Each module keeps what
  it has made in a variable; what the library makes is a number. The connections are those of the
  Redis registry (theory Connections), whose limit decides what is made.
\<close>

subsection \<open>The contract of a variable filled on demand\<close>

locale lazy_resource =
  fixes slot :: "'s \<Rightarrow> nat option"
    and get :: "'s \<Rightarrow> nat option \<times> 's"
  assumes filled: "slot s = Some r \<Longrightarrow> get s = (Some r, s)"
    and stores: "slot (snd (get s)) = fst (get s)"
begin

text \<open>What has been made once is handed out again, and asking changes nothing.\<close>

lemma again: "get s = (Some r, s') \<Longrightarrow> get s' = (Some r, s')"
  using stores [of s] filled by simp

lemma many: "get s = (Some r, s') \<Longrightarrow> ((\<lambda>t. snd (get t)) ^^ n) s' = s'"
  using again by (induction n) auto

end

interpretation cache_client: lazy_resource cacheClientProxy "getCacheClient url mx"
proof
  show "cacheClientProxy (snd (getCacheClient url mx s)) = fst (getCacheClient url mx s)" for s
  proof -
    have "cacheClientProxy (snd (buildClient url mx n s)) = cacheClientProxy s" for n
      by (auto simp: buildClient_def trackConnection_def Let_def split: option.splits)
    then show ?thesis by (auto simp: getCacheClient_def split: option.splits prod.splits) (metis snd_conv)+
  qed
qed (simp add: getCacheClient_def)

interpretation queue_connection: lazy_resource queueConnection "getQueueConnection url mx"
  by unfold_locales (auto simp: getQueueConnection_def split: option.splits prod.splits)

subsection \<open>Queues\<close>

text \<open>\<open>defaultJobOptions\<close>: attempts, exponential backoff, and how many finished jobs are kept, for how long.\<close>

record queue_options =
  qo_attempts :: rat
  qo_backoffDelay :: rat
  qo_keepCompleted :: nat
  qo_keepFailed :: nat
  qo_keepSeconds :: "(nat \<times> nat) option"

definition notification_queue_options :: queue_options where
  "notification_queue_options = \<lparr>qo_attempts = 3, qo_backoffDelay = 1000, qo_keepCompleted = 1000, qo_keepFailed = 1000,
     qo_keepSeconds = None\<rparr>"

definition bridge_queue_options :: queue_options where
  "bridge_queue_options = \<lparr>qo_attempts = 3, qo_backoffDelay = 1000, qo_keepCompleted = 500, qo_keepFailed = 500,
     qo_keepSeconds = None\<rparr>"

definition scraper_queue_options :: queue_options where
  "scraper_queue_options = \<lparr>qo_attempts = 3, qo_backoffDelay = 2000, qo_keepCompleted = 500, qo_keepFailed = 1000,
     qo_keepSeconds = Some (3600, 86400)\<rparr>"

definition ai_queue_options :: "rat \<Rightarrow> rat \<Rightarrow> queue_options" where
  "ai_queue_options retryLimit retryBackoffMs =
     \<lparr>qo_attempts = retryLimit, qo_backoffDelay = retryBackoffMs, qo_keepCompleted = 1000, qo_keepFailed = 1000,
      qo_keepSeconds = None\<rparr>"

text \<open>A module's queue with the registry behind it; the queue is named after its connection.\<close>

record queue_slot =
  qs_redis :: redis_state
  qs_queue :: "nat option"

text \<open>The AI, notification and bridge queues ask for the connection first.\<close>

definition getQueue :: "string option \<Rightarrow> nat \<Rightarrow> queue_slot \<Rightarrow> nat option \<times> queue_slot" where
  "getQueue url mx s =
     (case getQueueConnection url mx (qs_redis s) of
        (None, r) \<Rightarrow> (None, s\<lparr>qs_redis := r\<rparr>)
      | (Some c, r) \<Rightarrow>
          (case qs_queue s of
             Some q \<Rightarrow> (Some q, s\<lparr>qs_redis := r\<rparr>)
           | None \<Rightarrow> (Some c, s\<lparr>qs_redis := r, qs_queue := Some c\<rparr>)))"

text \<open>The scraper's accessor looks at its own variable first.\<close>

definition scraper_getQueue :: "string option \<Rightarrow> nat \<Rightarrow> queue_slot \<Rightarrow> nat option \<times> queue_slot" where
  "scraper_getQueue url mx s =
     (case qs_queue s of
        Some q \<Rightarrow> (Some q, s)
      | None \<Rightarrow>
          (case getQueueConnection url mx (qs_redis s) of
             (None, r) \<Rightarrow> (None, s\<lparr>qs_redis := r\<rparr>)
           | (Some c, r) \<Rightarrow> (Some c, s\<lparr>qs_redis := r, qs_queue := Some c\<rparr>)))"

interpretation scraper_queue: lazy_resource qs_queue "scraper_getQueue url mx"
  by unfold_locales (auto simp: scraper_getQueue_def split: option.splits prod.splits)

subsection \<open>Workers\<close>

text \<open>The worker processes of one process: which connection each of them runs on.\<close>

record worker_pool =
  wp_redis :: redis_state
  wp_running :: "(string \<times> nat) list"

datatype start_outcome = Not_started | Started nat | Not_ready host_error

text \<open>
  \<open>start...Worker\<close>, the same in the four modules but for the name of the connection. \<open>ready\<close> is
  how \<open>waitUntilReady\<close> ends (\<open>None\<close>: well). A worker that is not ready is closed and forgotten;
  one that runs already is waited for.
\<close>

definition start_worker ::
    "string option \<Rightarrow> bool \<Rightarrow> nat \<Rightarrow> string \<Rightarrow> host_error option \<Rightarrow> worker_pool \<Rightarrow> start_outcome \<times> worker_pool" where
  "start_worker url isTest mx name ready s =
     (if \<not> truthy url \<or> isTest then (Not_started, s)
      else case map_of (wp_running s) name of
        Some w \<Rightarrow> ((case ready of None \<Rightarrow> Started w | Some e \<Rightarrow> Not_ready e), s)
      | None \<Rightarrow>
          (case createWorkerConnection url mx name (wp_redis s) of
             (None, r) \<Rightarrow> (Not_started, s\<lparr>wp_redis := r\<rparr>)
           | (Some c, r) \<Rightarrow>
               (case ready of
                  None \<Rightarrow> (Started c, s\<lparr>wp_redis := r, wp_running := (name, c) # wp_running s\<rparr>)
                | Some e \<Rightarrow> (Not_ready e, s\<lparr>wp_redis := r\<rparr>))))"

definition startAIAutomationWorker where
  "startAIAutomationWorker url isTest mx = start_worker url isTest mx ''ai-automation''"

definition startChatbotBridgeWorker where
  "startChatbotBridgeWorker url isTest mx = start_worker url isTest mx ''chatbot-bridge''"

definition startNotificationWorker where
  "startNotificationWorker url isTest mx = start_worker url isTest mx ''notification''"

definition startScraperWorker where
  "startScraperWorker url isTest mx = start_worker url isTest mx ''scraper''"

text \<open>Stopping closes the worker; its connection stays in the registry.\<close>

definition stop_worker :: "string \<Rightarrow> worker_pool \<Rightarrow> worker_pool" where
  "stop_worker name s = s\<lparr>wp_running := AList.delete name (wp_running s)\<rparr>"

definition stopAIAutomationWorker where "stopAIAutomationWorker = stop_worker ''ai-automation''"
definition stopChatbotBridgeWorker where "stopChatbotBridgeWorker = stop_worker ''chatbot-bridge''"
definition stopNotificationWorker where "stopNotificationWorker = stop_worker ''notification''"

text \<open>The workers of worker.js, in the order in which they ask for their connections.\<close>

definition worker_names :: "string list" where
  "worker_names = [''ai-automation'', ''chatbot-bridge'', ''notification'', ''scraper'']"

definition start_all :: "string option \<Rightarrow> bool \<Rightarrow> nat \<Rightarrow> worker_pool \<Rightarrow> start_outcome list \<times> worker_pool" where
  "start_all url isTest mx s =
     fold (\<lambda>n (os, s). case start_worker url isTest mx n None s of (x, s') \<Rightarrow> (os @ [x], s')) worker_names ([], s)"

text \<open>
  \<open>connectRedis\<close>, then the workers, in a fresh process whose URL is set (theory Lifecycle has the
  phases before and after).
\<close>

definition worker_process_start :: "string option \<Rightarrow> bool \<Rightarrow> nat \<Rightarrow> start_outcome list \<times> worker_pool" where
  "worker_process_start url isTest mx =
     start_all url isTest mx \<lparr>wp_redis = snd (connectRedis url mx (\<lambda>_. False) redis_init), wp_running = []\<rparr>"

subsection \<open>The cron task and the browser\<close>

record cron_slot =
  cr_task :: "nat option"
  cr_next :: nat

definition scheduleScrapeCleanup :: "bool \<Rightarrow> cron_slot \<Rightarrow> nat option \<times> cron_slot" where
  "scheduleScrapeCleanup cronValid s =
     (case cr_task s of
        Some t \<Rightarrow> (Some t, s)
      | None \<Rightarrow>
          if \<not> cronValid then (None, s)
          else (Some (cr_next s), s\<lparr>cr_task := Some (cr_next s), cr_next := Suc (cr_next s)\<rparr>))"

definition stopScrapeCleanup :: "cron_slot \<Rightarrow> cron_slot" where
  "stopScrapeCleanup s = s\<lparr>cr_task := None\<rparr>"

interpretation cleanup_task: lazy_resource cr_task "scheduleScrapeCleanup cronValid"
  by unfold_locales (auto simp: scheduleScrapeCleanup_def split: option.splits)

text \<open>The browser and whether it is connected; \<open>launches\<close>: a launch succeeds.\<close>

record browser_slot =
  bw_browser :: "(nat \<times> bool) option"
  bw_next :: nat

definition live_browser :: "browser_slot \<Rightarrow> nat option" where
  "live_browser s = (case bw_browser s of Some (b, True) \<Rightarrow> Some b | _ \<Rightarrow> None)"

definition getBrowser :: "bool \<Rightarrow> browser_slot \<Rightarrow> nat option \<times> browser_slot" where
  "getBrowser launches s =
     (case live_browser s of
        Some b \<Rightarrow> (Some b, s)
      | None \<Rightarrow>
          if \<not> launches then (None, s)
          else (Some (bw_next s), s\<lparr>bw_browser := Some (bw_next s, True), bw_next := Suc (bw_next s)\<rparr>))"

text \<open>The listener of \<open>disconnected\<close>, whichever browser it belongs to, and the closing.\<close>

definition browser_disconnected :: "browser_slot \<Rightarrow> browser_slot" where
  "browser_disconnected s = s\<lparr>bw_browser := None\<rparr>"

definition closePuppeteerBrowser :: "browser_slot \<Rightarrow> browser_slot" where
  "closePuppeteerBrowser s = s\<lparr>bw_browser := None\<rparr>"

definition stopScraperWorker :: "worker_pool \<times> browser_slot \<Rightarrow> worker_pool \<times> browser_slot" where
  "stopScraperWorker s = (stop_worker ''scraper'' (fst s), closePuppeteerBrowser (snd s))"

interpretation browser: lazy_resource live_browser "getBrowser launches"
  by unfold_locales (auto simp: getBrowser_def live_browser_def split: option.splits bool.splits)

text \<open>A second listener that fires late forgets a browser that runs.\<close>

lemma late_disconnect_forgets:
  "live_browser s = Some b \<Longrightarrow> fst (getBrowser True (browser_disconnected s)) = Some (bw_next s)"
  by (simp add: getBrowser_def browser_disconnected_def live_browser_def)

subsection \<open>How many connections the worker process needs\<close>

text \<open>The names under which the process asks for connections.\<close>

definition client_names :: "string list" where
  "client_names = [''cache'', ''queue''] @ List.map (\<lambda>n. ''worker:'' @ n) worker_names"

text \<open>In a registry of other names a client is made exactly when there is room.\<close>

lemma buildClient_new:
  assumes "truthy url" "n \<notin> fst ` set (registry s)"
  shows "(fst (buildClient url mx n s) \<noteq> None) = (length (registry s) < mx)"
    "List.map fst (registry (snd (buildClient url mx n s))) =
       List.map fst (registry s) @ (if length (registry s) < mx then [n] else [])"
proof -
  have m: "map_of (registry s) n = None" using assms(2) by (simp add: map_of_eq_None_iff)
  then show "(fst (buildClient url mx n s) \<noteq> None) = (length (registry s) < mx)"
    using assms(1) by (simp add: buildClient_def Let_def not_le)
  have "List.map fst (AList.update n c (registry s)) = List.map fst (registry s) @ [n]" for c
    using assms(2) by (simp add: update_keys)
  then show "List.map fst (registry (snd (buildClient url mx n s))) =
       List.map fst (registry s) @ (if length (registry s) < mx then [n] else [])"
    using assms(1) m by (simp add: buildClient_def Let_def trackConnection_def)
qed

lemma connect_names:
  assumes "truthy url"
  shows "List.map fst (registry (snd (connectRedis url mx ready redis_init))) = take mx [''cache'', ''queue'']"
proof -
  have c: "''queue'' \<noteq> ''cache''" by simp
  show ?thesis
    using assms c
    by (cases mx; cases "mx - 1")
      (auto simp: connectRedis_def getCacheClient_def getQueueConnection_def buildClient_def trackConnection_def redis_init_def
        Let_def split: option.splits)
qed

lemma start_worker_new:
  assumes "truthy url" "map_of (wp_running s) n = None" "''worker:'' @ n \<notin> fst ` set (registry (wp_redis s))"
    and "start_worker url False mx n None s = (x, s')"
  shows "(x \<noteq> Not_started) = (length (registry (wp_redis s)) < mx)"
    "List.map fst (registry (wp_redis s')) =
       List.map fst (registry (wp_redis s)) @ (if length (registry (wp_redis s)) < mx then [''worker:'' @ n] else [])"
    "fst ` set (wp_running s') \<subseteq> insert n (fst ` set (wp_running s))"
  using assms buildClient_new [OF assms(1,3), of mx]
  by (auto simp: start_worker_def createWorkerConnection_def split: option.splits prod.splits)

lemma start_many:
  assumes "truthy url" "distinct ns" "fst ` set (wp_running s) \<inter> set ns = {}"
    and "\<And>n. n \<in> set ns \<Longrightarrow> ''worker:'' @ n \<notin> fst ` set (registry (wp_redis s))"
    and "fold (\<lambda>n (os, s). case start_worker url False mx n None s of (x, s') \<Rightarrow> (os @ [x], s')) ns (os, s) = (os', s')"
  shows "\<exists>xs. os' = os @ xs \<and> length xs = length ns \<and>
    length (List.filter (\<lambda>x. x \<noteq> Not_started) xs) = min (length ns) (mx - length (registry (wp_redis s)))"
  using assms
proof (induction ns arbitrary: os s)
  case Nil
  then show ?case by simp
next
  case (Cons n ns)
  obtain x s1 where st: "start_worker url False mx n None s = (x, s1)" by fastforce
  have r: "map_of (wp_running s) n = None" using Cons.prems(3) by (auto simp: map_of_eq_None_iff)
  have w: "''worker:'' @ n \<notin> fst ` set (registry (wp_redis s))" using Cons.prems(4) by simp
  note new = start_worker_new [OF Cons.prems(1) r w st]
  have keys: "fst ` set (registry (wp_redis s1)) \<subseteq> insert (''worker:'' @ n) (fst ` set (registry (wp_redis s)))"
    using arg_cong [OF new(2), of set] by (auto split: if_splits)
  have len: "length (registry (wp_redis s1)) = length (registry (wp_redis s)) + (if length (registry (wp_redis s)) < mx then 1 else 0)"
    using arg_cong [OF new(2), of length] by simp
  have 1: "distinct ns" "fst ` set (wp_running s1) \<inter> set ns = {}" using Cons.prems(2,3) new(3) by auto
  have 2: "''worker:'' @ m \<notin> fst ` set (registry (wp_redis s1))" if "m \<in> set ns" for m
  proof
    assume "''worker:'' @ m \<in> fst ` set (registry (wp_redis s1))"
    then have "''worker:'' @ m = ''worker:'' @ n \<or> ''worker:'' @ m \<in> fst ` set (registry (wp_redis s))"
      using keys by blast
    moreover have "m \<noteq> n" using Cons.prems(2) that by auto
    ultimately show False using Cons.prems(4) [of m] that by simp
  qed
  have f: "fold (\<lambda>n (os, s). case start_worker url False mx n None s of (x, s') \<Rightarrow> (os @ [x], s')) ns (os @ [x], s1) = (os', s')"
    using Cons.prems(5) st by simp
  obtain xs where "os' = (os @ [x]) @ xs" "length xs = length ns"
    "length (List.filter (\<lambda>x. x \<noteq> Not_started) xs) = min (length ns) (mx - length (registry (wp_redis s1)))"
    using Cons.IH [OF Cons.prems(1) 1 2 f] by blast
  then show ?case using new(1) len by (intro exI [of _ "x # xs"]) auto
qed

text \<open>
  The worker process needs six Redis connections. With fewer allowed it starts as many workers
  as there is room for after cache and queue, in the order of worker.js, and the others are left
  out without an error; with six or more all four run.
\<close>

lemma workers_need_six_connections:
  assumes "truthy url"
  shows "length (List.filter (\<lambda>x. x \<noteq> Not_started) (fst (worker_process_start url False mx))) = min 4 (mx - 2) \<and>
    length (fst (worker_process_start url False mx)) = 4"
proof -
  let ?s = "\<lparr>wp_redis = snd (connectRedis url mx (\<lambda>_. False) redis_init), wp_running = []\<rparr>"
  have k: "List.map fst (registry (wp_redis ?s)) = take mx [''cache'', ''queue'']"
    using connect_names [OF assms] by simp
  have 1: "distinct worker_names" "fst ` set (wp_running ?s) \<inter> set worker_names = {}" by (simp_all add: worker_names_def)
  have 2: "''worker:'' @ n \<notin> fst ` set (registry (wp_redis ?s))" if "n \<in> set worker_names" for n
  proof -
    have "fst ` set (registry (wp_redis ?s)) \<subseteq> {''cache'', ''queue''}"
      using arg_cong [OF k, of set] set_take_subset [of mx "[''cache'', ''queue'']"] by simp
    moreover have "''worker:'' @ n \<noteq> ''cache''" "''worker:'' @ n \<noteq> ''queue''" by simp_all
    ultimately show ?thesis by blast
  qed
  have l: "length (registry (wp_redis ?s)) = min 2 mx" using arg_cong [OF k, of length] by simp
  obtain os s' where r: "worker_process_start url False mx = (os, s')" by fastforce
  obtain xs where "os = [] @ xs" "length xs = length worker_names"
    "length (List.filter (\<lambda>x. x \<noteq> Not_started) xs) = min (length worker_names) (mx - length (registry (wp_redis ?s)))"
    using start_many [OF assms 1 2, of mx "[]" os s'] r unfolding worker_process_start_def start_all_def by blast
  then show ?thesis unfolding r l by (auto simp: worker_names_def)
qed

text \<open>With five connections the scraper worker is missing, and the process counts as started.\<close>

lemma workers_with_five_connections:
  "length (List.filter (\<lambda>x. x \<noteq> Not_started) (fst (worker_process_start (Some ''redis://r'') False 5))) = 3"
  using workers_need_six_connections [of "Some ''redis://r''" 5] by simp

text \<open>A worker that is stopped and started again gets its old connection: the registry keeps it.\<close>

lemma restart_same_connection:
  assumes "truthy url" "start_worker url False mx n None s = (Started c, s1)" "map_of (wp_running s) n = None"
  shows "start_worker url False mx n None (stop_worker n s1) = (Started c, s1)"
proof -
  obtain r where b: "buildClient url mx (''worker:'' @ n) (wp_redis s) = (Some c, r)"
    and s1: "s1 = s\<lparr>wp_redis := r, wp_running := (n, c) # wp_running s\<rparr>"
    using assms by (auto simp: start_worker_def createWorkerConnection_def split: option.splits prod.splits)
  have "map_of (registry r) (''worker:'' @ n) = Some c"
    using b assms(1) by (auto simp: buildClient_def trackConnection_def Let_def update_conv split: option.splits if_splits)
  then have b2: "buildClient url mx (''worker:'' @ n) r = (Some c, r)"
    using assms(1) by (simp add: buildClient_def)
  have d: "AList.delete n (wp_running s) = wp_running s"
    using assms(3) by (simp add: map_of_eq_None_iff delete_id)
  show ?thesis
    using assms(1,3) b2 d by (simp add: s1 stop_worker_def start_worker_def createWorkerConnection_def delete_simps)
qed

lemma failed_start_forgotten:
  assumes "start_worker url isTest mx n (Some e) s = (x, s1)"
  shows "wp_running s1 = wp_running s"
  using assms by (auto simp: start_worker_def split: if_splits option.splits prod.splits)

end
