(* ===== verification/Spec2Isabelle.thy ===== *)
theory Spec2Isabelle
  imports AI_Augmentation_Correct AI_Config_Correct AI_Controls_Correct AI_Helpers AutoAssign_Correct Chatbot_Bridge Gateway_Config Lifecycle Observability Org_Schemas Realtime Redis_Breaker Scraper_Correct Scraper_Parser Tracing Widget_Correct Workers
begin

text \<open>
  HelpForge, the API gateway (src/services/api-gateway/src): a multi-tenant help desk. Users
  belong to organizations through memberships with roles; tickets, comments, tags and
  attachments belong to organizations; events of the ticket service feed an activity log,
  notifications and an AI automation that answers comments; a scraper feeds the documents of an
  organization to a chatbot. State is in PostgreSQL (through Prisma), caches and queues in Redis.

  \<^bold>\<open>How the code is represented.\<close> A table is a list of rows (records named after the Prisma
  models); a query is a function on the list, with the constraint errors the database raises
  (P2002, P2003, P2025). A handler maps the state to a result, \<open>Inl\<close> an error or \<open>Inr\<close> a value,
  and the state, so that what was written before a throw stays visible. An \<open>await\<close> that fails
  is a branch. Times, new ids, hashes, the JWT library, the language model, the resolver and the
  network are fields of an environment record that is an argument. Ids of functions are those
  of the sources.

  \<^bold>\<open>Theories.\<close>
  HF_Prelude: errors, truthiness, strings, tables, \<open>utils/errorHandler.js\<close>.
  HF_Data: the rows and the state \<open>gateway\<close> of database and caches.

  Organizations. Org_Policy (org.constants.js, org.utils.js), Org_Schemas
  (org.validator.js; the schemas of the roles are in Org_Policy), Auth_Repo
  (auth.repo.js), Org_Repo (org.repo.js, org.cache.js), Org_Service (org.service.js), Org_Routes
  (org.middleware.js, org.routes.js, org.controller.js). Org_Correct proves what each route enforces; Org_Permitted
  states an access-control specification as a step relation and that the router refines it;
  Org_Invariant proves that its steps keep one owner per organization; Role_Types that the roles
  of every reachable state are the four templates.

  Authentication. Auth_Service (auth.service.js, auth.utils.js, auth.middleware.js), Auth_Correct.

  Tickets. Ticket_Rules (ticket.utils.js, ticket.filters.js, ticket.policy.js,
  ticket.validator.js), Ticket_Repo, Ticket_AutoAssign, Ticket_Service, Ticket_Events,
  Ticket_Routes. Membership_Cache has the locale of a coherent cache and its interpretation,
  Ticket_Access what a successful guard implies, Ticket_Correct and Ticket_Views the properties
  of single operations, Ticket_Permitted and Ticket_Refine the specification of the ticket
  router and its refinement, Tenancy the isolation of organizations, AutoAssign_Correct the
  choice of an agent. Activity_Log: delivery of events. Gateway_System: the routers behind
  authentication as one transition system with its reachable states.

  Notifications (modules/notifications): recipients, preferences, rows, delivery. Realtime: the
  WebSocket gateway, the two processes, the routes; a socket accepts a token that a logout has
  revoked, and no message is ever emitted, as the jobs run in the process without a gateway.

  Infrastructure. Circuit_Breaker (the breakers of database.config.js and chatbot.circuit.js),
  Connections (redis.config.js, database.config.js, the retry and timeout guards of the AI
  provider), Redis_Breaker (the copy of the breaker in redis.config.js is the same program),
  Redis_Client (the guarded Redis client, connect and disconnect), App_Shell (the
  middleware of app.js with the load shedding of prometheus.js as a state machine, health checks):
  the count of running requests is exact, and each has at most one response. Lifecycle: start and
  shutdown of server.js and worker.js in time. Chatbot_Bridge (chatbot.bridge.worker.js): what an
  outage of the chatbot service costs. Workers: the queues, workers, cron task and browser that are
  made on demand, with one locale for what is made once and handed out again; the worker process
  needs six Redis connections. Gateway_Config (config/index.js, config/logger.js,
  utils/requestId.js): how every variable of the environment is read. Observability (the metrics of
  prometheus.js): the gauge of the Redis breaker never moves.

  AI. AI_Decision (decision engine in binary floating point, guards), AI_Automation (cache,
  repository, service, handler, queue, worker), AI_Correct. AI_Prompts (prompts, \<open>String.replace\<close>,
  the provider of the repository) with the proof that the prompt is the intended text.
  AI_Controls (routes of the automation, dead letters) and AI_Controls_Correct: the override
  breaks the tenancy invariant, the dead letters are bounded, and are never written by the client
  of the schema. JS_Number (doubles, rounding, decimal output), AI_Augmentation (suggestions,
  summaries, actions, statistics) and AI_Augmentation_Correct: what the routes can answer in a
  reachable state. AI_Config (configuration, internal routes, analytics) and AI_Config_Correct:
  the invariant of the configurations and who changes them. AI_Helpers (the helpers of
  ai.automation.utils.js and the constants of ai.automation.constants.js that the automation does not
  call, and where they disagree with what it does). Tracing (tracing.js, metrics.js, ai.logs.repo.js).

  Chat widget (src/frontend/widget/src, TypeScript). Widget_Stream (api.ts, with the event stream of
  the Python service it reads): what is read does not depend on the cuts of the network. Widget
  (session.ts, Widget.tsx, index.ts): the state of the component and its handlers as a step
  function, what it renders. Widget_Correct: the invariant of its runs; the spaces a streamed
  answer loses.

  Scraper (modules/ai/scraper). Scraper_Url (the tests of addresses against private networks),
  Scraper_Service (service, cache, queue, worker, cleanup, routes, embedding text),
  Scraper_Parser (the text of a document, the browser), Scraper_Correct: properties of runs of
  the worker and of the cleanup. The queue ignores a job
  whose id it still knows, as its library documents.

  Example_State is the state the witnesses run on.

  \<^bold>\<open>Bounds.\<close> Recursion is structural or on a decreasing number (the retries of a call, the
  attempts of the connection loop); nothing uses fuel. Integers are unbounded except addresses,
  which are 32-bit words, and the scores, which are integers scaled by 2 to the 58th with the
  rounding of binary floating point written out; statistics are rationals rounded to doubles. Requests are atomic: interleaving is between
  requests, deliveries, job runs and cache expiries, not inside one, except where a theory says so.

  \<^bold>\<open>Not modelled.\<close> What libraries do (Prisma, BullMQ, ioredis, socket.io, pino, prom-client, zod,
  the DOM library and the browser of the scraper): their results are parameters. Of the Python
  chatbot service only the event stream of the widget is represented, of the widget neither the
  style sheet nor icons and focus. Express mounts and default exports have no definition of their
  own; repository wrappers that log an error and throw it again are the function they wrap.
\<close>

end
